(* ===== verification/Prelude.thy ===== *)
theory Prelude
  imports Main "HOL-Library.Word"
begin

text \<open>
  Shared vocabulary of the development.

  \<^item> A fallible, stateful Rust function \<open>fn f(&mut S, ..) -> Result<A, E>\<close> is a value of type
    \<open>('s, 'e, 'a) eff\<close>: from a state to an error (\<open>Inl\<close>) or a result (\<open>Inr\<close>) and the state
    the function leaves behind, which an error does not undo by itself.  \<open>bnd\<close> is sequencing with
    Rust's \<open>?\<close> operator, \<open>lift\<close> is \<open>?\<close> on a pure \<open>Result\<close>, \<open>fail_if b e\<close> is
    \<open>if b { return Err(e) }\<close>, \<open>for_each\<close> is a \<open>for\<close> loop.
  \<^item> \<open>wpe m Q E s\<close> is the weakest precondition of \<open>m\<close>: \<open>Q\<close> after a result, \<open>E\<close> after an error.
  \<^item> \<open>pres I m\<close> says that \<open>m\<close> keeps the invariant \<open>I\<close> whether or not it fails; the rules
    for it are collected in \<open>pres_intros\<close>.
  \<^item> 64-bit counters with Rust's \<open>saturating_add\<close> and \<open>saturating_sub\<close>.
\<close>

section \<open>Collections of facts\<close>

named_theorems pres_intros \<open>rules for invariant preservation\<close>
named_theorems guar_intros \<open>rules for guarantees\<close>
named_theorems wp_simps \<open>weakest preconditions of the control structures\<close>
named_theorems op_defs \<open>definitions of the control structures\<close>

section \<open>Fallible stateful computations\<close>

type_synonym ('s, 'e, 'a) eff = "'s \<Rightarrow> ('e + 'a) \<times> 's"

definition ret :: "'a \<Rightarrow> ('s, 'e, 'a) eff" where
  "ret x = (\<lambda>s. (Inr x, s))"

definition throw :: "'e \<Rightarrow> ('s, 'e, 'a) eff" where
  "throw e = (\<lambda>s. (Inl e, s))"

definition bnd :: "('s, 'e, 'a) eff \<Rightarrow> ('a \<Rightarrow> ('s, 'e, 'b) eff) \<Rightarrow> ('s, 'e, 'b) eff" where
  "bnd m f = (\<lambda>s. case m s of (Inl e, s') \<Rightarrow> (Inl e, s') | (Inr x, s') \<Rightarrow> f x s')"

definition gets :: "('s \<Rightarrow> 'a) \<Rightarrow> ('s, 'e, 'a) eff" where
  "gets f = (\<lambda>s. (Inr (f s), s))"

definition modify :: "('s \<Rightarrow> 's) \<Rightarrow> ('s, 'e, unit) eff" where
  "modify f = (\<lambda>s. (Inr (), f s))"

definition lift :: "'e + 'a \<Rightarrow> ('s, 'e, 'a) eff" where
  "lift r = (\<lambda>s. (r, s))"

definition fail_if :: "bool \<Rightarrow> 'e \<Rightarrow> ('s, 'e, unit) eff" where
  "fail_if b e = (if b then throw e else ret ())"

fun for_each :: "'x list \<Rightarrow> ('x \<Rightarrow> ('s, 'e, unit) eff) \<Rightarrow> ('s, 'e, unit) eff" where
  "for_each [] body = ret ()"
| "for_each (x # xs) body = bnd (body x) (\<lambda>_. for_each xs body)"

fun map_each :: "'x list \<Rightarrow> ('x \<Rightarrow> ('s, 'e, 'y) eff) \<Rightarrow> ('s, 'e, 'y list) eff" where
  "map_each [] body = ret []"
| "map_each (x # xs) body = bnd (body x) (\<lambda>y. bnd (map_each xs body) (\<lambda>ys. ret (y # ys)))"

text \<open>Pure results: \<open>Option::ok_or\<close>, sequencing with \<open>?\<close>, and early returns.\<close>

definition ok_or :: "'a option \<Rightarrow> 'e \<Rightarrow> 'e + 'a" where
  "ok_or x e = (case x of None \<Rightarrow> Inl e | Some v \<Rightarrow> Inr v)"

definition and_then :: "'e + 'a \<Rightarrow> ('a \<Rightarrow> 'e + 'b) \<Rightarrow> 'e + 'b" where
  "and_then r f = (case r of Inl e \<Rightarrow> Inl e | Inr x \<Rightarrow> f x)"

definition err_if :: "bool \<Rightarrow> 'e \<Rightarrow> 'e + unit" where
  "err_if b e = (if b then Inl e else Inr ())"

definition map_err :: "('e \<Rightarrow> 'f) \<Rightarrow> 'e + 'a \<Rightarrow> 'f + 'a" where
  "map_err g r = (case r of Inl e \<Rightarrow> Inl (g e) | Inr x \<Rightarrow> Inr x)"

lemma ok_or_eq [simp]:
  "ok_or None e = Inl e" "ok_or (Some v) e = Inr v"
  by (simp_all add: ok_or_def)

lemma and_then_eq [simp]:
  "and_then (Inl e) f = Inl e" "and_then (Inr x) f = f x"
  by (simp_all add: and_then_def)

lemma ok_or_Inr_iff [simp]: "ok_or x e = Inr v \<longleftrightarrow> x = Some v"
  by (cases x) auto

lemma and_then_Inr_iff [simp]: "and_then r f = Inr y \<longleftrightarrow> (\<exists>x. r = Inr x \<and> f x = Inr y)"
  by (cases r) auto

lemma err_if_Inr_iff [simp]: "err_if b e = Inr u \<longleftrightarrow> \<not> b"
  by (simp add: err_if_def)

lemma err_if_Inl_iff [simp]: "err_if b e = Inl e' \<longleftrightarrow> b \<and> e' = e"
  by (auto simp: err_if_def)

lemma map_err_eq [simp]:
  "map_err g (Inl e) = Inl (g e)" "map_err g (Inr x) = Inr x"
  by (simp_all add: map_err_def)

lemma map_err_Inr_iff [simp]: "map_err g r = Inr x \<longleftrightarrow> r = Inr x"
  by (cases r) auto

lemmas [op_defs] = ret_def throw_def bnd_def gets_def modify_def lift_def fail_if_def

text \<open>Applied to a state, each structure computes.\<close>

lemma run_simps [simp]:
  "ret x s = (Inr x, s)"
  "throw e s = (Inl e, s)"
  "gets f s = (Inr (f s), s)"
  "modify g s = (Inr (), g s)"
  "lift r s = (r, s)"
  by (simp_all add: op_defs)

lemma run_bnd: "bnd m f s = (case m s of (Inl e, s') \<Rightarrow> (Inl e, s') | (Inr x, s') \<Rightarrow> f x s')"
  by (simp add: bnd_def)

lemma bnd_ret [simp]: "bnd (ret x) f = f x"
  by (simp add: op_defs)

lemma bnd_throw [simp]: "bnd (throw e) f = throw e"
  by (simp add: op_defs)

lemma bnd_gets [simp]: "bnd (gets g) f s = f (g s) s"
  by (simp add: op_defs)

lemma bnd_modify [simp]: "bnd (modify g) f s = f () (g s)"
  by (simp add: op_defs)

lemma bnd_lift [simp]: "bnd (lift r) f s = (case r of Inl e \<Rightarrow> (Inl e, s) | Inr x \<Rightarrow> f x s)"
  by (simp add: op_defs)

lemma bnd_fail_if [simp]: "bnd (fail_if b e) f s = (if b then (Inl e, s) else f () s)"
  by (simp add: op_defs)

lemma fail_if_run [simp]: "fail_if b e s = (if b then Inl e else Inr (), s)"
  by (simp add: op_defs)

lemma bnd_Inr_iff:
  "bnd m f s = (Inr y, t) \<longleftrightarrow> (\<exists>x s'. m s = (Inr x, s') \<and> f x s' = (Inr y, t))"
  by (auto simp: bnd_def split: prod.splits sum.splits)

lemma bnd_InrE [elim!]:
  assumes "bnd m f s = (Inr y, t)"
  obtains x s' where "m s = (Inr x, s')" "f x s' = (Inr y, t)"
  using assms by (auto simp: bnd_Inr_iff)

section \<open>Weakest preconditions\<close>

definition wpe ::
  "('s, 'e, 'a) eff \<Rightarrow> ('a \<Rightarrow> 's \<Rightarrow> bool) \<Rightarrow> ('e \<Rightarrow> 's \<Rightarrow> bool) \<Rightarrow> 's \<Rightarrow> bool" where
  "wpe m Q E s = (case m s of (Inl e, s') \<Rightarrow> E e s' | (Inr x, s') \<Rightarrow> Q x s')"

abbreviation wp :: "('s, 'e, 'a) eff \<Rightarrow> ('a \<Rightarrow> 's \<Rightarrow> bool) \<Rightarrow> 's \<Rightarrow> bool" where
  "wp m Q s \<equiv> wpe m Q (\<lambda>_ _. True) s"

lemma wpe_ret [wp_simps]: "wpe (ret x) Q E s = Q x s"
  by (simp add: wpe_def)

lemma wpe_throw [wp_simps]: "wpe (throw e) Q E s = E e s"
  by (simp add: wpe_def)

lemma wpe_gets [wp_simps]: "wpe (gets h) Q E s = Q (h s) s"
  by (simp add: wpe_def)

lemma wpe_modify [wp_simps]: "wpe (modify g) Q E s = Q () (g s)"
  by (simp add: wpe_def)

lemma wpe_lift [wp_simps]: "wpe (lift r) Q E s = (case r of Inl e \<Rightarrow> E e s | Inr x \<Rightarrow> Q x s)"
  by (simp add: wpe_def)

lemma wpe_fail_if [wp_simps]: "wpe (fail_if b e) Q E s = (if b then E e s else Q () s)"
  by (simp add: wpe_def)

lemma wpe_bnd [wp_simps]: "wpe (bnd m f) Q E s = wpe m (\<lambda>x. wpe (f x) Q E) E s"
  by (auto simp: wpe_def bnd_def split: prod.splits sum.splits)

lemma wpe_if [wp_simps]: "wpe (if b then n else n') Q E s = (if b then wpe n Q E s else wpe n' Q E s)"
  by simp

lemma wpD: "wp m Q s \<Longrightarrow> m s = (Inr x, s') \<Longrightarrow> Q x s'"
  by (simp add: wpe_def)

lemma wp_iff: "wp m Q s \<longleftrightarrow> (\<forall>x s'. m s = (Inr x, s') \<longrightarrow> Q x s')"
  by (auto simp: wpe_def split: prod.splits sum.splits)

lemma wpe_mono:
  assumes "wpe m Q E s"
    and "\<And>x s'. Q x s' \<Longrightarrow> Q' x s'" and "\<And>e s'. E e s' \<Longrightarrow> E' e s'"
  shows "wpe m Q' E' s"
  using assms by (auto simp: wpe_def split: prod.splits sum.splits)

lemma wpe_for_each:
  assumes "\<And>x s. x \<in> set xs \<Longrightarrow> I s \<Longrightarrow> wpe (body x) (\<lambda>_. I) E s" and "I s"
  shows "wpe (for_each xs body) (\<lambda>_. I) E s"
  using assms
proof (induction xs arbitrary: s)
  case (Cons x xs)
  have "wpe (body x) (\<lambda>_. I) E s" using Cons.prems by simp
  moreover have "wpe (for_each xs body) (\<lambda>_. I) E s'" if "I s'" for s'
    by (rule Cons.IH [OF _ that]) (simp add: Cons.prems(1))
  ultimately have "wpe (body x) (\<lambda>_. wpe (for_each xs body) (\<lambda>_. I) E) E s"
    by (rule wpe_mono) auto
  then show ?case by (simp add: wpe_bnd)
qed (simp add: wpe_ret)

section \<open>Invariant preservation\<close>

definition pres :: "('s \<Rightarrow> bool) \<Rightarrow> ('s, 'e, 'a) eff \<Rightarrow> bool" where
  "pres I m \<longleftrightarrow> (\<forall>s. I s \<longrightarrow> I (snd (m s)))"

lemma presI: "(\<And>s. I s \<Longrightarrow> I (snd (m s))) \<Longrightarrow> pres I m"
  by (simp add: pres_def)

lemma presD: "pres I m \<Longrightarrow> I s \<Longrightarrow> m s = (r, s') \<Longrightarrow> I s'"
  by (force simp: pres_def)

lemma pres_basic [pres_intros]:
  "pres I (ret x)" "pres I (throw e)" "pres I (gets f)" "pres I (lift r)" "pres I (fail_if b e)"
  by (simp_all add: pres_def)

lemma pres_modify: "(\<And>s. I s \<Longrightarrow> I (g s)) \<Longrightarrow> pres I (modify g)"
  by (simp add: pres_def)

lemma pres_bnd [pres_intros]:
  assumes "pres I m" and "\<And>x. pres I (f x)"
  shows "pres I (bnd m f)"
  unfolding pres_def
proof (intro allI impI)
  fix s assume "I s"
  obtain r s' where ms: "m s = (r, s')" by (cases "m s")
  with assms(1) \<open>I s\<close> have "I s'" by (rule presD)
  with assms(2) show "I (snd (bnd m f s))"
    by (cases r) (auto simp: bnd_def ms pres_def)
qed

lemma pres_if [pres_intros]: "pres I m \<Longrightarrow> pres I m' \<Longrightarrow> pres I (if b then m else m')"
  by simp

lemma pres_case_option [pres_intros]:
  "pres I m \<Longrightarrow> (\<And>x. pres I (f x)) \<Longrightarrow> pres I (case v of None \<Rightarrow> m | Some x \<Rightarrow> f x)"
  by (simp split: option.split)

lemma pres_case_prod [pres_intros]: "(\<And>x y. pres I (f x y)) \<Longrightarrow> pres I (case p of (x, y) \<Rightarrow> f x y)"
  by (simp split: prod.split)

lemma pres_let [pres_intros]: "(\<And>x. pres I (f x)) \<Longrightarrow> pres I (let x = v in f x)"
  by simp

lemma pres_for_each [pres_intros]: "(\<And>x. pres I (body x)) \<Longrightarrow> pres I (for_each xs body)"
  by (induction xs) (auto intro: pres_intros)

lemma pres_map_each [pres_intros]: "(\<And>x. pres I (body x)) \<Longrightarrow> pres I (map_each xs body)"
  by (induction xs) (auto intro!: pres_intros)

section \<open>Guarantees\<close>

text \<open>
  \<open>guar R m\<close>: whether it fails or not, \<open>m\<close> relates the state before to the state after by \<open>R\<close>.
  For a preorder \<open>R\<close> the guarantee is closed under the control structures; the locale
  \<open>effect_preorder\<close> proves that once, and each interpretation adds its rules to \<open>guar_intros\<close>.
\<close>

definition guar :: "('s \<Rightarrow> 's \<Rightarrow> bool) \<Rightarrow> ('s, 'e, 'a) eff \<Rightarrow> bool" where
  "guar R m \<longleftrightarrow> (\<forall>s. R s (snd (m s)))"

lemma guarI: "(\<And>s. R s (snd (m s))) \<Longrightarrow> guar R m"
  by (simp add: guar_def)

lemma guarD: "guar R m \<Longrightarrow> m s = (r, s') \<Longrightarrow> R s s'"
  by (metis guar_def snd_conv)

locale effect_preorder =
  fixes R :: "'s \<Rightarrow> 's \<Rightarrow> bool"
  assumes refl: "R s s"
    and trans: "R s t \<Longrightarrow> R t u \<Longrightarrow> R s u"
begin

lemma guar_ret [guar_intros]: "guar R (ret x)"
  by (simp add: guar_def refl)

lemma guar_throw [guar_intros]: "guar R (throw e)"
  by (simp add: guar_def refl)

lemma guar_gets [guar_intros]: "guar R (gets f)"
  by (simp add: guar_def refl)

lemma guar_lift [guar_intros]: "guar R (lift r)"
  by (simp add: guar_def refl)

lemma guar_fail_if [guar_intros]: "guar R (fail_if b e)"
  by (simp add: guar_def refl)

lemma guar_modify [guar_intros]: "(\<And>s. R s (g s)) \<Longrightarrow> guar R (modify g)"
  by (simp add: guar_def)

lemma guar_bnd [guar_intros]:
  assumes m: "guar R m" and f: "\<And>x. guar R (f x)"
  shows "guar R (bnd m f)"
proof (rule guarI)
  fix s
  obtain r s' where ms: "m s = (r, s')" by (cases "m s")
  show "R s (snd (bnd m f s))"
  proof (cases r)
    case (Inl e)
    with ms guarD [OF m ms] show ?thesis by (simp add: bnd_def)
  next
    case (Inr x)
    obtain q u where fx: "f x s' = (q, u)" by (cases "f x s'")
    from trans [OF guarD [OF m ms] guarD [OF f fx]] ms Inr fx show ?thesis by (simp add: bnd_def)
  qed
qed

lemma guar_if [guar_intros]: "guar R m \<Longrightarrow> guar R m' \<Longrightarrow> guar R (if b then m else m')"
  by simp

lemma guar_case_option [guar_intros]:
  "guar R m \<Longrightarrow> (\<And>x. guar R (f x)) \<Longrightarrow> guar R (case v of None \<Rightarrow> m | Some x \<Rightarrow> f x)"
  by (simp split: option.split)

lemma guar_case_prod [guar_intros]:
  "(\<And>x y. guar R (f x y)) \<Longrightarrow> guar R (case p of (x, y) \<Rightarrow> f x y)"
  by (simp split: prod.split)

lemma guar_let [guar_intros]: "(\<And>x. guar R (f x)) \<Longrightarrow> guar R (let x = v in f x)"
  by simp

lemma guar_for_each [guar_intros]: "(\<And>x. guar R (body x)) \<Longrightarrow> guar R (for_each xs body)"
  by (induction xs) (auto intro!: guar_ret guar_bnd)

lemma guar_map_each [guar_intros]: "(\<And>x. guar R (body x)) \<Longrightarrow> guar R (map_each xs body)"
  by (induction xs) (auto intro!: guar_ret guar_bnd)

end

section \<open>Machine integers\<close>

type_synonym u8 = "8 word"
type_synonym u16 = "16 word"
type_synonym u32 = "32 word"
type_synonym u64 = "64 word"
type_synonym u128 = "128 word"

definition sat_add :: "'a::len word \<Rightarrow> 'a word \<Rightarrow> 'a word" where
  "sat_add a b = (if unat a + unat b < 2 ^ LENGTH('a) then a + b else - 1)"

definition sat_sub :: "'a::len word \<Rightarrow> 'a word \<Rightarrow> 'a word" where
  "sat_sub a b = (if b \<le> a then a - b else 0)"

lemma unat_sat_add: "unat (sat_add a b) = min (unat a + unat b) (2 ^ LENGTH('a) - 1)"
  for a b :: "'a::len word"
  by (auto simp: sat_add_def unat_word_ariths unsigned_minus_1_eq_mask mask_eq_exp_minus_1)

lemma unat_sat_sub: "unat (sat_sub a b) = unat a - unat b"
  by (auto simp: sat_sub_def unat_sub word_le_nat_alt)

lemma sat_add_mono: "a \<le> sat_add a b"
  for a b :: "'a::len word"
proof -
  have "unat a < 2 ^ LENGTH('a)" by (rule unsigned_less)
  then have "unat a \<le> 2 ^ LENGTH('a) - 1" by linarith
  then show ?thesis by (simp add: word_le_nat_alt unat_sat_add)
qed

section \<open>Lists\<close>

text \<open>\<open>Vec::dedup\<close>: drop an element equal to its predecessor.\<close>

lemma set_remdups_adj_sorted: "sorted (xs :: 'a::linorder list) \<Longrightarrow> distinct (remdups_adj xs)"
  by (induction xs rule: remdups_adj.induct) (auto simp: order_antisym_conv)

text \<open>\<open>Vec::swap_remove\<close>: the last element takes the place of the removed one.\<close>

definition swap_remove :: "nat \<Rightarrow> 'a list \<Rightarrow> 'a list" where
  "swap_remove i xs = butlast (xs[i := last xs])"

text \<open>\<open>Iterator::position\<close>.\<close>

fun position :: "('a \<Rightarrow> bool) \<Rightarrow> 'a list \<Rightarrow> nat option" where
  "position P [] = None"
| "position P (x # xs) = (if P x then Some 0 else map_option Suc (position P xs))"

lemma position_SomeD: "position P xs = Some i \<Longrightarrow> i < length xs \<and> P (xs ! i)"
  by (induction xs arbitrary: i) (auto split: if_splits)

lemma position_None_iff: "position P xs = None \<longleftrightarrow> (\<forall>x\<in>set xs. \<not> P x)"
  by (induction xs) auto

lemma length_swap_remove [simp]: "length (swap_remove i xs) = length xs - 1"
  by (simp add: swap_remove_def)

end
