(* ===== verification/Rust_Text.thy ===== *)
theory Rust_Text
  imports Prelude "HOL-Library.List_Lexorder" "HOL-Library.Char_ord"
begin

text \<open>
  Rust strings.  A \<open>str\<close> is the list of its Unicode scalar values, so \<open>value.chars().count()\<close> is
  \<open>length value\<close>; \<open>value.as_bytes()\<close> is the UTF-8 encoding \<open>utf8 value\<close> and \<open>value.len()\<close> its
  length.  Rust orders strings by their bytes, which for UTF-8 is the order by scalar values: the
  lexicographic order of \<open>HOL-Library.List_Lexorder\<close>.

  The library functions the program calls are written out here: \<open>trim\<close> (with the whole White_Space
  table), \<open>to_ascii_lowercase\<close>, the ASCII classes, and \<open>to_hex\<close>.  The Unicode letter tables behind
  \<open>char::is_uppercase\<close>, \<open>char::is_lowercase\<close> and \<open>str::to_lowercase\<close> are data of the standard
  library, too large to copy; they are the record \<open>unicode\<close>, a parameter of the definitions that
  need it.  The ASCII part of the two tests is not a parameter.
\<close>

type_synonym rstr = "nat list"

abbreviation lit :: "string \<Rightarrow> rstr" where
  "lit s \<equiv> map of_char s"

record unicode =
  uc_uppercase :: "nat \<Rightarrow> bool"
  uc_lowercase :: "nat \<Rightarrow> bool"
  uc_to_lowercase :: "nat \<Rightarrow> nat list"

section \<open>Character classes\<close>

definition is_whitespace :: "nat \<Rightarrow> bool" where
  "is_whitespace c \<longleftrightarrow> (9 \<le> c \<and> c \<le> 13) \<or> c = 32 \<or> c = 0x85 \<or> c = 0xA0 \<or> c = 0x1680
     \<or> (0x2000 \<le> c \<and> c \<le> 0x200A) \<or> c = 0x2028 \<or> c = 0x2029 \<or> c = 0x202F \<or> c = 0x205F
     \<or> c = 0x3000"

definition is_ascii_upper :: "nat \<Rightarrow> bool" where
  "is_ascii_upper c \<longleftrightarrow> 65 \<le> c \<and> c \<le> 90"

definition is_ascii_lower :: "nat \<Rightarrow> bool" where
  "is_ascii_lower c \<longleftrightarrow> 97 \<le> c \<and> c \<le> 122"

definition is_ascii_digit :: "nat \<Rightarrow> bool" where
  "is_ascii_digit c \<longleftrightarrow> 48 \<le> c \<and> c \<le> 57"

definition is_ascii_hexdigit :: "nat \<Rightarrow> bool" where
  "is_ascii_hexdigit c \<longleftrightarrow> is_ascii_digit c \<or> (65 \<le> c \<and> c \<le> 70) \<or> (97 \<le> c \<and> c \<le> 102)"

definition is_uppercase :: "unicode \<Rightarrow> nat \<Rightarrow> bool" where
  "is_uppercase U c \<longleftrightarrow> is_ascii_upper c \<or> (127 < c \<and> uc_uppercase U c)"

definition is_lowercase :: "unicode \<Rightarrow> nat \<Rightarrow> bool" where
  "is_lowercase U c \<longleftrightarrow> is_ascii_lower c \<or> (127 < c \<and> uc_lowercase U c)"

definition ascii_lower_char :: "nat \<Rightarrow> nat" where
  "ascii_lower_char c = (if is_ascii_upper c then c + 32 else c)"

definition to_ascii_lowercase :: "rstr \<Rightarrow> rstr" where
  "to_ascii_lowercase s = map ascii_lower_char s"

definition to_lowercase :: "unicode \<Rightarrow> rstr \<Rightarrow> rstr" where
  "to_lowercase U s = concat (map (\<lambda>c. if c \<le> 127 then [ascii_lower_char c] else uc_to_lowercase U c) s)"

lemmas ascii_defs = is_ascii_upper_def is_ascii_lower_def is_ascii_digit_def is_ascii_hexdigit_def

lemma to_ascii_lowercase_idem [simp]:
  "to_ascii_lowercase (to_ascii_lowercase s) = to_ascii_lowercase s"
  by (simp add: to_ascii_lowercase_def ascii_lower_char_def ascii_defs)

lemma length_to_ascii_lowercase [simp]: "length (to_ascii_lowercase s) = length s"
  by (simp add: to_ascii_lowercase_def)

section \<open>Trimming\<close>

definition trim :: "rstr \<Rightarrow> rstr" where
  "trim s = rev (dropWhile is_whitespace (rev (dropWhile is_whitespace s)))"

definition trim_non_empty :: "rstr \<Rightarrow> bool" where
  "trim_non_empty s \<longleftrightarrow> (\<exists>c\<in>set s. \<not> is_whitespace c)"

lemma dropWhile_eq_self: "xs \<noteq> [] \<Longrightarrow> \<not> P (hd xs) \<Longrightarrow> dropWhile P xs = xs"
  by (cases xs) auto

lemma trim_eq_Nil_iff: "trim s = [] \<longleftrightarrow> \<not> trim_non_empty s"
proof -
  have "trim s = [] \<longleftrightarrow> (\<forall>c\<in>set (dropWhile is_whitespace s). is_whitespace c)"
    by (simp add: trim_def)
  also have "\<dots> \<longleftrightarrow> (\<forall>c\<in>set s. is_whitespace c)"
  proof -
    have "set s = set (takeWhile is_whitespace s) \<union> set (dropWhile is_whitespace s)"
      by (metis set_append takeWhile_dropWhile_id)
    then show ?thesis using set_takeWhileD [of _ is_whitespace s] by blast
  qed
  finally show ?thesis by (simp add: trim_non_empty_def)
qed

lemma length_trim_le: "length (trim s) \<le> length s"
  unfolding trim_def length_rev
  by (metis dual_order.trans length_dropWhile_le length_rev)

lemma last_dropWhile: "dropWhile P xs \<noteq> [] \<Longrightarrow> last (dropWhile P xs) = last xs"
  by (induction xs) (auto split: if_splits)

lemma trim_idem [simp]: "trim (trim s) = trim s"
proof (cases "trim s = []")
  case False
  let ?d = "dropWhile is_whitespace s" and ?W = is_whitespace
  have r: "dropWhile ?W (rev ?d) \<noteq> []"
    using False unfolding trim_def by (simp only: rev_is_Nil_conv not_False_eq_True)
  have d: "?d \<noteq> []"
  proof
    assume "?d = []"
    with r show False by simp
  qed
  have h: "\<not> ?W (hd (dropWhile ?W (rev ?d)))" by (rule hd_dropWhile [OF r])
  have "hd (trim s) = last (dropWhile ?W (rev ?d))" using r by (simp add: trim_def hd_rev)
  also have "\<dots> = hd ?d" using r d by (simp add: last_dropWhile last_rev)
  finally have "\<not> ?W (hd (trim s))" using hd_dropWhile [OF d] by simp
  then have "dropWhile ?W (trim s) = trim s" using False by (simp add: dropWhile_eq_self)
  moreover have "dropWhile ?W (rev (trim s)) = rev (trim s)"
    using h r by (simp add: trim_def dropWhile_eq_self)
  ultimately show ?thesis by (metis rev_rev_ident trim_def)
next
  case True
  have "trim [] = []" by (simp add: trim_def)
  with True show ?thesis by simp
qed

text \<open>\<open>normalize_optional\<close> style labels: an empty trimmed label is no label.\<close>

definition some_non_empty :: "rstr \<Rightarrow> rstr option" where
  "some_non_empty s = (if trim s = [] then None else Some (trim s))"

section \<open>UTF-8\<close>

definition utf8_char :: "nat \<Rightarrow> u8 list" where
  "utf8_char c =
     (if c < 0x80 then [word_of_nat c]
      else if c < 0x800 then [word_of_nat (0xC0 + c div 64), word_of_nat (0x80 + c mod 64)]
      else if c < 0x10000 then
        [word_of_nat (0xE0 + c div 4096), word_of_nat (0x80 + (c div 64) mod 64),
         word_of_nat (0x80 + c mod 64)]
      else
        [word_of_nat (0xF0 + c div 262144), word_of_nat (0x80 + (c div 4096) mod 64),
         word_of_nat (0x80 + (c div 64) mod 64), word_of_nat (0x80 + c mod 64)])"

definition utf8 :: "rstr \<Rightarrow> u8 list" where
  "utf8 s = concat (map utf8_char s)"

definition byte_len :: "rstr \<Rightarrow> nat" where
  "byte_len s = length (utf8 s)"

definition starts_with :: "rstr \<Rightarrow> rstr \<Rightarrow> bool" where
  "starts_with p s \<longleftrightarrow> take (length p) s = p"

lemma utf8_ascii: "\<forall>c\<in>set s. c < 128 \<Longrightarrow> utf8 s = map word_of_nat s"
  by (induction s) (auto simp: utf8_def utf8_char_def)

lemma utf8_ascii_inj:
  assumes "\<forall>c\<in>set s. c < 128" "\<forall>c\<in>set t. c < 128"
  shows "utf8 s = utf8 t \<longleftrightarrow> s = t"
proof
  assume "utf8 s = utf8 t"
  then have eq: "map (word_of_nat :: nat \<Rightarrow> u8) s = map word_of_nat t"
    using assms by (simp add: utf8_ascii)
  have u: "map unat (map (word_of_nat :: nat \<Rightarrow> u8) r) = r" if "\<forall>c\<in>set r. c < 128" for r
    using that by (induction r) (auto simp: unat_of_nat)
  from eq show "s = t" using u assms by metis
qed simp

section \<open>Decimal output\<close>

text \<open>\<open>format!("{n}")\<close> and \<open>format!("{n:0width}")\<close> of an unsigned number.\<close>

fun decimal :: "nat \<Rightarrow> rstr" where
  "decimal n = (if n < 10 then [48 + n] else decimal (n div 10) @ [48 + n mod 10])"

declare decimal.simps [simp del]

definition decimal_padded :: "nat \<Rightarrow> nat \<Rightarrow> rstr" where
  "decimal_padded width n = replicate (width - length (decimal n)) 48 @ decimal n"

lemma decimal_digits: "\<forall>c\<in>set (decimal n). is_ascii_digit c"
proof (induction n rule: decimal.induct)
  case (1 n)
  then show ?case by (subst decimal.simps) (auto simp: is_ascii_digit_def)
qed

lemma length_decimal: "n < 10 ^ Suc k \<Longrightarrow> length (decimal n) \<le> Suc k"
proof (induction k arbitrary: n)
  case 0
  then show ?case by (subst decimal.simps) simp
next
  case (Suc k)
  then have "n div 10 < 10 ^ Suc k" by (simp add: less_mult_imp_div_less)
  then have "length (decimal (n div 10)) \<le> Suc k" by (rule Suc.IH)
  then show ?case by (subst decimal.simps) simp
qed

lemma decimal_padded_digits: "\<forall>c\<in>set (decimal_padded w n). is_ascii_digit c"
  using decimal_digits [of n] by (auto simp: decimal_padded_def is_ascii_digit_def)

lemma length_decimal_padded: "n < 10 ^ Suc k \<Longrightarrow> length (decimal_padded (Suc k) n) = Suc k"
  using length_decimal [of n k] by (simp add: decimal_padded_def)

section \<open>Hexadecimal output\<close>

definition hex_digit :: "u8 \<Rightarrow> nat" where
  "hex_digit w = (if unat w < 10 then 48 + unat w else 87 + unat w)"

fun to_hex :: "u8 list \<Rightarrow> rstr" where
  "to_hex [] = []"
| "to_hex (b # bs) = hex_digit (drop_bit 4 b) # hex_digit (and b 15) # to_hex bs"

lemma length_to_hex [simp]: "length (to_hex bs) = 2 * length bs"
  by (induction bs) auto

lemma unat_high_nibble: "unat (drop_bit 4 b) < 16" for b :: u8
proof -
  have "unat b < 256" using unsigned_less [of b] by simp
  then show ?thesis by (simp only: drop_bit_eq_div unat_div) simp
qed

lemma unat_low_nibble: "unat (and b 15) = unat b mod 16" for b :: u8
proof -
  have "and b 15 = take_bit 4 b" by (simp add: take_bit_eq_mask mask_eq_exp_minus_1)
  then show ?thesis by (simp only: unsigned_take_bit_eq) (simp add: take_bit_eq_mod)
qed

end
