(* ===== verification/Utf8.thy ===== *)
theory Utf8
  imports Rust_Text
begin

text \<open>
  Decoding UTF-8 (\<open>String::from_utf8\<close>) and unsigned decimals (\<open>str::parse::<u64>\<close>), with their round
  trips through the encoders of \<open>Rust_Text\<close>.
\<close>

section \<open>UTF-8\<close>

text \<open>The payload of a continuation byte \<open>0b10xxxxxx\<close>.\<close>

definition utf8_tail :: "u8 \<Rightarrow> nat option" where
  "utf8_tail b = (if 0x80 \<le> unat b \<and> unat b < 0xC0 then Some (unat b - 0x80) else None)"

text \<open>The first character of a byte sequence and the bytes after it.  Overlong forms, surrogates and
  values above \<open>0x10FFFF\<close> are rejected.\<close>

fun utf8_next :: "u8 list \<Rightarrow> (nat \<times> u8 list) option" where
  "utf8_next [] = None"
| "utf8_next (a # r) =
     (let x = unat a in
      if x < 0x80 then Some (x, r)
      else if 0xC2 \<le> x \<and> x < 0xE0 then
        (case r of
           b # r \<Rightarrow> (case utf8_tail b of
              Some y \<Rightarrow> Some ((x - 0xC0) * 64 + y, r)
            | None \<Rightarrow> None)
         | _ \<Rightarrow> None)
      else if 0xE0 \<le> x \<and> x < 0xF0 then
        (case r of
           b # c # r \<Rightarrow> (case (utf8_tail b, utf8_tail c) of
              (Some y, Some z) \<Rightarrow>
                let v = (x - 0xE0) * 4096 + y * 64 + z
                in if v < 0x800 \<or> (0xD800 \<le> v \<and> v < 0xE000) then None else Some (v, r)
            | _ \<Rightarrow> None)
         | _ \<Rightarrow> None)
      else if 0xF0 \<le> x \<and> x < 0xF5 then
        (case r of
           b # c # d # r \<Rightarrow> (case (utf8_tail b, utf8_tail c, utf8_tail d) of
              (Some y, Some z, Some w) \<Rightarrow>
                let v = (x - 0xF0) * 262144 + y * 4096 + z * 64 + w
                in if v < 0x10000 \<or> 0x110000 \<le> v then None else Some (v, r)
            | _ \<Rightarrow> None)
         | _ \<Rightarrow> None)
      else None)"

lemma utf8_next_shorter: "utf8_next bs = Some (c, r) \<Longrightarrow> length r < length bs"
  by (cases bs) (auto simp: Let_def split: if_splits list.splits option.splits)

function utf8_decode :: "u8 list \<Rightarrow> rstr option" where
  "utf8_decode bs =
     (if bs = [] then Some []
      else case utf8_next bs of
             None \<Rightarrow> None
           | Some (c, r) \<Rightarrow> map_option ((#) c) (utf8_decode r))"
  by pat_completeness auto
termination
  by (relation "measure length") (auto dest: utf8_next_shorter)

declare utf8_decode.simps [simp del]

text \<open>The scalar values a Rust \<open>char\<close> can hold.\<close>

definition scalar_value :: "nat \<Rightarrow> bool" where
  "scalar_value c \<longleftrightarrow> c < 0xD800 \<or> (0xE000 \<le> c \<and> c < 0x110000)"

lemma unat_byte: "n < 256 \<Longrightarrow> unat (word_of_nat n :: u8) = n"
  by (simp add: unat_of_nat)

lemma utf8_tail_byte: "n < 64 \<Longrightarrow> utf8_tail (word_of_nat (0x80 + n)) = Some n"
  by (simp only: utf8_tail_def unat_byte) simp

text \<open>A number from its digits to base 64.\<close>

lemma base64_digits:
  fixes c :: nat
  shows "c div 4096 * 4096 + c div 64 mod 64 * 64 + c mod 64 = c"
    and "c div 262144 * 262144 + c div 4096 mod 64 * 4096 + c div 64 mod 64 * 64 + c mod 64 = c"
proof -
  have d: "c div 4096 = c div 64 div 64" "c div 262144 = c div 64 div 64 div 64"
    by (simp_all add: div_mult2_eq [symmetric])
  have "c div 64 * 64 + c mod 64 = c" "c div 64 div 64 * 64 + c div 64 mod 64 = c div 64"
    "c div 64 div 64 div 64 * 64 + c div 64 div 64 mod 64 = c div 64 div 64" by simp_all
  then show "c div 4096 * 4096 + c div 64 mod 64 * 64 + c mod 64 = c"
    "c div 262144 * 262144 + c div 4096 mod 64 * 4096 + c div 64 mod 64 * 64 + c mod 64 = c"
    unfolding d by linarith+
qed

lemma utf8_next_char:
  assumes "scalar_value c"
  shows "utf8_next (utf8_char c @ r) = Some (c, r)"
proof -
  consider "c < 0x80" | "0x80 \<le> c" "c < 0x800" | "0x800 \<le> c" "c < 0x10000" "c < 0xD800 \<or> 0xE000 \<le> c"
    | "0x10000 \<le> c" "c < 0x110000"
    using assms unfolding scalar_value_def by linarith
  then show ?thesis
  proof cases
    case 1
    then show ?thesis by (simp add: utf8_char_def unat_byte Let_def)
  next
    case 2
    then have "unat (word_of_nat (0xC0 + c div 64) :: u8) = 0xC0 + c div 64" by (intro unat_byte) simp
    moreover have "utf8_tail (word_of_nat (0x80 + c mod 64)) = Some (c mod 64)" by (rule utf8_tail_byte) simp
    moreover have "2 \<le> c div 64" "c div 64 < 32" using 2 by auto
    ultimately show ?thesis using 2 by (simp add: utf8_char_def Let_def del: of_nat_add)
  next
    case 3
    then have "unat (word_of_nat (0xE0 + c div 4096) :: u8) = 0xE0 + c div 4096" by (intro unat_byte) simp
    moreover have "utf8_tail (word_of_nat (0x80 + c mod 64)) = Some (c mod 64)"
      "utf8_tail (word_of_nat (0x80 + (c div 64) mod 64)) = Some (c div 64 mod 64)"
      by (rule utf8_tail_byte; simp)+
    moreover have "c div 4096 < 16" using 3 by auto
    moreover note base64_digits(1) [of c]
    moreover have "\<not> (55296 \<le> c \<and> c < 57344)" using 3 by linarith
    ultimately show ?thesis using 3 by (simp add: utf8_char_def Let_def del: of_nat_add)
  next
    case 4
    then have "unat (word_of_nat (0xF0 + c div 262144) :: u8) = 0xF0 + c div 262144" by (intro unat_byte) simp
    moreover have "utf8_tail (word_of_nat (0x80 + c mod 64)) = Some (c mod 64)"
      "utf8_tail (word_of_nat (0x80 + (c div 64) mod 64)) = Some (c div 64 mod 64)"
      "utf8_tail (word_of_nat (0x80 + (c div 4096) mod 64)) = Some (c div 4096 mod 64)"
      by (rule utf8_tail_byte; simp)+
    moreover have "c div 262144 < 5" using 4 by auto
    moreover note base64_digits(2) [of c]
    ultimately show ?thesis using 4 by (simp add: utf8_char_def Let_def del: of_nat_add)
  qed
qed

lemma utf8_char_not_Nil [simp]: "utf8_char c \<noteq> []"
  by (simp add: utf8_char_def)

lemma utf8_decode_utf8: "\<forall>c\<in>set s. scalar_value c \<Longrightarrow> utf8_decode (utf8 s) = Some s"
proof (induction s)
  case (Cons c s)
  then show ?case
    by (subst utf8_decode.simps) (simp add: utf8_def utf8_next_char)
qed (simp add: utf8_def utf8_decode.simps)

section \<open>Unsigned decimals\<close>

text \<open>\<open>u64::from_str\<close>: an optional plus sign, at least one digit, no overflow.\<close>

fun digits_value :: "nat \<Rightarrow> rstr \<Rightarrow> nat option" where
  "digits_value acc [] = Some acc"
| "digits_value acc (c # cs) =
     (if is_ascii_digit c \<and> acc * 10 + (c - 48) < 2 ^ 64 then digits_value (acc * 10 + (c - 48)) cs
      else None)"

definition parse_u64 :: "rstr \<Rightarrow> u64 option" where
  "parse_u64 s =
     (let digits = (case s of c # cs \<Rightarrow> if c = 43 then cs else s | [] \<Rightarrow> [])
      in if digits = [] then None else map_option word_of_nat (digits_value 0 digits))"

lemma digits_value_append:
  "digits_value acc (xs @ ys) = Option.bind (digits_value acc xs) (\<lambda>n. digits_value n ys)"
  by (induction xs arbitrary: acc) auto

lemma digits_value_decimal: "n < 2 ^ 64 \<Longrightarrow> digits_value 0 (decimal n) = Some n"
proof (induction n rule: decimal.induct)
  case (1 n)
  show ?case
  proof (cases "n < 10")
    case True
    then show ?thesis by (subst decimal.simps) (simp add: is_ascii_digit_def)
  next
    case False
    then have "digits_value 0 (decimal (n div 10)) = Some (n div 10)" using 1 by simp
    moreover have "n div 10 * 10 + n mod 10 = n" by simp
    ultimately show ?thesis
      using False 1(2) by (subst decimal.simps) (simp add: digits_value_append is_ascii_digit_def)
  qed
qed

lemma decimal_not_Nil: "decimal n \<noteq> []"
  by (subst decimal.simps) simp

lemma parse_decimal: "parse_u64 (decimal (unat c)) = Some c"
proof -
  have "unat c < 2 ^ 64" using unsigned_less [of c] by simp
  moreover obtain d ds where d: "decimal (unat c) = d # ds"
    using decimal_not_Nil by (cases "decimal (unat c)") auto
  with decimal_digits [of "unat c"] have "d \<noteq> 43" by (auto simp: is_ascii_digit_def)
  ultimately show ?thesis
    using digits_value_decimal [of "unat c"] d by (simp add: parse_u64_def)
qed

end
