(* ===== verification/Rust_Maps.thy ===== *)
theory Rust_Maps
  imports Prelude "HOL-Library.AList"
begin

text \<open>
  The two map types of the program.

  \<^item> \<open>HashMap\<close> is an association list in its iteration order (\<open>hm_*\<close>).  Rust leaves that order
    unspecified; the model keeps an updated key in place and appends a new one, and the theorems
    say nothing that depends on it.
  \<^item> \<open>BTreeMap\<close> is an association list sorted by key (\<open>bt_*\<close>), the order in which Rust iterates.

  Both meet the interface \<open>map_ops\<close>, whose client lemmas are proved once and used through the
  interpretations \<open>hm\<close> and \<open>bt\<close>.
\<close>

section \<open>The interface\<close>

locale map_ops =
  fixes wf :: "'m \<Rightarrow> bool"
    and get :: "'k \<Rightarrow> 'm \<Rightarrow> 'v option"
    and ins :: "'k \<Rightarrow> 'v \<Rightarrow> 'm \<Rightarrow> 'm"
    and rem :: "'k \<Rightarrow> 'm \<Rightarrow> 'm"
    and entries :: "'m \<Rightarrow> ('k \<times> 'v) list"
  assumes get_ins: "get j (ins k v m) = (if j = k then Some v else get j m)"
    and get_rem: "get j (rem k m) = (if j = k then None else get j m)"
    and wf_ins: "wf m \<Longrightarrow> wf (ins k v m)"
    and wf_rem: "wf m \<Longrightarrow> wf (rem k m)"
    and get_entries: "wf m \<Longrightarrow> get k m = Some v \<longleftrightarrow> (k, v) \<in> set (entries m)"
    and distinct_entries: "wf m \<Longrightarrow> distinct (map fst (entries m))"
begin

lemma get_ins_same: "get k (ins k v m) = Some v"
  by (simp add: get_ins)

lemma get_ins_other: "j \<noteq> k \<Longrightarrow> get j (ins k v m) = get j m"
  by (simp add: get_ins)

lemma get_rem_same: "get k (rem k m) = None"
  by (simp add: get_rem)

lemma entries_ins:
  assumes "wf m"
  shows "set (entries (ins k v m)) = insert (k, v) {e \<in> set (entries m). fst e \<noteq> k}"
proof -
  have "(j, w) \<in> set (entries (ins k v m)) \<longleftrightarrow> (j, w) \<in> insert (k, v) {e \<in> set (entries m). fst e \<noteq> k}"
    for j w
    using get_entries [OF wf_ins [OF assms], of j k v w] get_entries [OF assms, of j w]
    by (auto simp: get_ins split: if_splits)
  then show ?thesis by auto
qed

lemma entries_rem:
  assumes "wf m"
  shows "set (entries (rem k m)) = {e \<in> set (entries m). fst e \<noteq> k}"
proof -
  have "(j, w) \<in> set (entries (rem k m)) \<longleftrightarrow> (j, w) \<in> {e \<in> set (entries m). fst e \<noteq> k}" for j w
    using get_entries [OF wf_rem [OF assms], of j k w] get_entries [OF assms, of j w]
    by (auto simp: get_rem split: if_splits)
  then show ?thesis by auto
qed

lemma values_ins:
  assumes "wf m" and "x \<in> set (map snd (entries (ins k v m)))"
  shows "x = v \<or> x \<in> set (map snd (entries m))"
  using assms by (auto simp: entries_ins)

lemma length_entries: "wf m \<Longrightarrow> length (entries m) = card {k. get k m \<noteq> None}"
proof -
  assume w: "wf m"
  have "{k. get k m \<noteq> None} = set (map fst (entries m))"
    using get_entries [OF w] by force
  then show ?thesis
    using distinct_card [OF distinct_entries [OF w]] by simp
qed

end

section \<open>Hash maps\<close>

type_synonym ('k, 'v) hashmap = "('k \<times> 'v) list"

definition hm_get :: "'k \<Rightarrow> ('k, 'v) hashmap \<Rightarrow> 'v option" where
  "hm_get k m = map_of m k"

definition hm_insert :: "'k \<Rightarrow> 'v \<Rightarrow> ('k, 'v) hashmap \<Rightarrow> ('k, 'v) hashmap" where
  "hm_insert k v m = AList.update k v m"

definition hm_remove :: "'k \<Rightarrow> ('k, 'v) hashmap \<Rightarrow> ('k, 'v) hashmap" where
  "hm_remove k m = filter (\<lambda>(j, _). j \<noteq> k) m"

definition hm_contains :: "'k \<Rightarrow> ('k, 'v) hashmap \<Rightarrow> bool" where
  "hm_contains k m \<longleftrightarrow> hm_get k m \<noteq> None"

definition hm_values :: "('k, 'v) hashmap \<Rightarrow> 'v list" where
  "hm_values m = map snd m"

definition hm_retain :: "('k \<Rightarrow> 'v \<Rightarrow> bool) \<Rightarrow> ('k, 'v) hashmap \<Rightarrow> ('k, 'v) hashmap" where
  "hm_retain P m = filter (\<lambda>(k, v). P k v) m"

text \<open>\<open>for v in m.values_mut() { .. }\<close> and the entry API.\<close>

definition hm_map :: "('v \<Rightarrow> 'v) \<Rightarrow> ('k, 'v) hashmap \<Rightarrow> ('k, 'v) hashmap" where
  "hm_map f m = map (\<lambda>(k, v). (k, f v)) m"

definition hm_or_insert :: "'k \<Rightarrow> 'v \<Rightarrow> ('k, 'v) hashmap \<Rightarrow> ('k, 'v) hashmap" where
  "hm_or_insert k v m = (case hm_get k m of None \<Rightarrow> hm_insert k v m | Some _ \<Rightarrow> m)"

definition hm_upd_default :: "'k \<Rightarrow> 'v \<Rightarrow> ('v \<Rightarrow> 'v) \<Rightarrow> ('k, 'v) hashmap \<Rightarrow> ('k, 'v) hashmap" where
  "hm_upd_default k d f m = hm_insert k (f (case hm_get k m of None \<Rightarrow> d | Some v \<Rightarrow> v)) m"

definition hm_wf :: "('k, 'v) hashmap \<Rightarrow> bool" where
  "hm_wf m \<longleftrightarrow> distinct (map fst m)"

lemma hm_get_Nil [simp]: "hm_get k [] = None"
  by (simp add: hm_get_def)

lemma hm_get_insert [simp]: "hm_get j (hm_insert k v m) = (if j = k then Some v else hm_get j m)"
  by (auto simp: hm_get_def hm_insert_def update_conv')

lemma hm_get_remove [simp]: "hm_get j (hm_remove k m) = (if j = k then None else hm_get j m)"
  by (induction m) (auto simp: hm_get_def hm_remove_def)

lemma hm_contains_iff: "hm_contains k m \<longleftrightarrow> (\<exists>v. hm_get k m = Some v)"
  by (simp add: hm_contains_def)

lemma hm_get_map [simp]: "hm_get k (hm_map f m) = map_option f (hm_get k m)"
  by (induction m) (auto simp: hm_get_def hm_map_def)

lemma hm_get_or_insert [simp]:
  "hm_get j (hm_or_insert k v m) = (if j = k \<and> hm_get k m = None then Some v else hm_get j m)"
  by (auto simp: hm_or_insert_def split: option.splits)

lemma hm_get_upd_default [simp]:
  "hm_get j (hm_upd_default k d f m) =
     (if j = k then Some (f (case hm_get k m of None \<Rightarrow> d | Some v \<Rightarrow> v)) else hm_get j m)"
  by (simp add: hm_upd_default_def)

lemma hm_wf_Nil [simp]: "hm_wf []"
  by (simp add: hm_wf_def)

lemma hm_wf_insert [simp]: "hm_wf m \<Longrightarrow> hm_wf (hm_insert k v m)"
  by (simp add: hm_wf_def hm_insert_def distinct_update)

lemma hm_wf_filter: "hm_wf m \<Longrightarrow> hm_wf (filter P m)"
  by (simp add: hm_wf_def distinct_map_filter)

lemma hm_wf_remove [simp]: "hm_wf m \<Longrightarrow> hm_wf (hm_remove k m)"
  by (simp add: hm_remove_def hm_wf_filter)

lemma hm_wf_retain [simp]: "hm_wf m \<Longrightarrow> hm_wf (hm_retain P m)"
  by (simp add: hm_retain_def hm_wf_filter)

lemma map_fst_hm_map [simp]: "map fst (hm_map f m) = map fst m"
  by (simp add: hm_map_def case_prod_unfold o_def)

lemma hm_wf_map [simp]: "hm_wf (hm_map f m) = hm_wf m"
  by (simp add: hm_wf_def)

lemma hm_wf_or_insert [simp]: "hm_wf m \<Longrightarrow> hm_wf (hm_or_insert k v m)"
  by (simp add: hm_or_insert_def split: option.split)

lemma hm_wf_upd_default [simp]: "hm_wf m \<Longrightarrow> hm_wf (hm_upd_default k d f m)"
  by (simp add: hm_upd_default_def)

lemma hm_get_iff: "hm_wf m \<Longrightarrow> hm_get k m = Some v \<longleftrightarrow> (k, v) \<in> set m"
  by (simp add: hm_wf_def hm_get_def map_of_eq_Some_iff)

interpretation hm: map_ops hm_wf hm_get hm_insert hm_remove "\<lambda>m. m"
  by unfold_locales (simp_all add: hm_get_iff, simp add: hm_wf_def)

lemma hm_get_SomeD: "hm_get k m = Some v \<Longrightarrow> (k, v) \<in> set m"
  by (auto simp: hm_get_def dest: map_of_SomeD)

lemma hm_get_in_values: "hm_get k m = Some v \<Longrightarrow> v \<in> set (hm_values m)"
  by (force simp: hm_values_def dest: hm_get_SomeD)

lemma hm_valuesE:
  assumes "hm_wf m" "v \<in> set (hm_values m)"
  obtains k where "hm_get k m = Some v"
proof -
  from assms(2) obtain k where "(k, v) \<in> set m" by (force simp: hm_values_def)
  with hm.get_entries [OF assms(1)] show ?thesis using that by blast
qed

lemma hm_get_retain:
  "hm_wf m \<Longrightarrow> hm_get k (hm_retain P m) =
     (case hm_get k m of Some v \<Rightarrow> if P k v then Some v else None | None \<Rightarrow> None)"
proof (induction m)
  case (Cons e m)
  obtain j w where [simp]: "e = (j, w)" by (cases e)
  have "j \<notin> fst ` set m" using Cons.prems by (simp add: hm_wf_def)
  then have "map_of m j = None" "map_of (filter (\<lambda>(k, v). P k v) m) j = None"
    by (auto simp: map_of_eq_None_iff)
  with Cons show ?case
    by (auto simp: hm_get_def hm_retain_def hm_wf_def split: option.split)
qed (simp add: hm_retain_def)

lemma hm_get_retain_SomeD:
  "hm_wf m \<Longrightarrow> hm_get k (hm_retain P m) = Some v \<Longrightarrow> hm_get k m = Some v \<and> P k v"
  by (auto simp: hm_get_retain split: option.splits if_splits)

section \<open>B-tree maps\<close>

type_synonym ('k, 'v) btree = "('k \<times> 'v) list"

definition bt_get :: "'k \<Rightarrow> ('k, 'v) btree \<Rightarrow> 'v option" where
  "bt_get k m = map_of m k"

definition bt_insert :: "'k::linorder \<Rightarrow> 'v \<Rightarrow> ('k, 'v) btree \<Rightarrow> ('k, 'v) btree" where
  "bt_insert k v m = filter (\<lambda>(j, _). j < k) m @ (k, v) # filter (\<lambda>(j, _). k < j) m"

definition bt_remove :: "'k \<Rightarrow> ('k, 'v) btree \<Rightarrow> ('k, 'v) btree" where
  "bt_remove k m = filter (\<lambda>(j, _). j \<noteq> k) m"

definition bt_contains :: "'k \<Rightarrow> ('k, 'v) btree \<Rightarrow> bool" where
  "bt_contains k m \<longleftrightarrow> bt_get k m \<noteq> None"

definition bt_keys :: "('k, 'v) btree \<Rightarrow> 'k list" where
  "bt_keys m = map fst m"

definition bt_values :: "('k, 'v) btree \<Rightarrow> 'v list" where
  "bt_values m = map snd m"

definition bt_or_insert :: "'k::linorder \<Rightarrow> 'v \<Rightarrow> ('k, 'v) btree \<Rightarrow> ('k, 'v) btree" where
  "bt_or_insert k v m = (case bt_get k m of None \<Rightarrow> bt_insert k v m | Some _ \<Rightarrow> m)"

text \<open>\<open>if let Some(v) = m.get_mut(&k) { *v = f(v) }\<close>.\<close>

definition bt_update :: "'k \<Rightarrow> ('v \<Rightarrow> 'v) \<Rightarrow> ('k, 'v) btree \<Rightarrow> ('k, 'v) btree" where
  "bt_update k f m = map (\<lambda>(j, v). (j, if j = k then f v else v)) m"

definition bt_wf :: "('k::linorder, 'v) btree \<Rightarrow> bool" where
  "bt_wf m \<longleftrightarrow> sorted_wrt (<) (map fst m)"

lemma bt_get_Nil [simp]: "bt_get k [] = None"
  by (simp add: bt_get_def)

lemma map_of_filter_key: "map_of (filter (\<lambda>(j, _). P j) m) k = (if P k then map_of m k else None)"
  by (induction m) auto

lemma bt_get_insert [simp]: "bt_get j (bt_insert k v m) = (if j = k then Some v else bt_get j m)"
  by (auto simp: bt_get_def bt_insert_def map_add_def map_of_filter_key split: option.split)

lemma bt_get_remove [simp]: "bt_get j (bt_remove k m) = (if j = k then None else bt_get j m)"
  by (auto simp: bt_get_def bt_remove_def map_of_filter_key)

lemma bt_contains_iff: "bt_contains k m \<longleftrightarrow> (\<exists>v. bt_get k m = Some v)"
  by (simp add: bt_contains_def)

lemma bt_get_update [simp]:
  "bt_get j (bt_update k f m) = (if j = k then map_option f (bt_get k m) else bt_get j m)"
  by (induction m) (auto simp: bt_get_def bt_update_def)

lemma bt_get_or_insert [simp]:
  "bt_get j (bt_or_insert k v m) = (if j = k \<and> bt_get k m = None then Some v else bt_get j m)"
  by (auto simp: bt_or_insert_def split: option.split)

lemma bt_keys_iff: "k \<in> set (bt_keys m) \<longleftrightarrow> bt_contains k m"
  by (force simp: bt_keys_def bt_contains_def bt_get_def map_of_eq_None_iff)

lemma bt_wf_Nil [simp]: "bt_wf []"
  by (simp add: bt_wf_def)

lemma bt_wf_filter: "bt_wf m \<Longrightarrow> bt_wf (filter P m)"
  by (induction m) (auto simp: bt_wf_def)

lemma bt_wf_insert [simp]: "bt_wf m \<Longrightarrow> bt_wf (bt_insert k v m)"
proof -
  assume "bt_wf m"
  then have "bt_wf (filter (\<lambda>(j, _). j < k) m)" "bt_wf (filter (\<lambda>(j, _). k < j) m)"
    by (rule bt_wf_filter)+
  then show ?thesis
    by (auto simp: bt_wf_def bt_insert_def sorted_wrt_append intro: less_trans)
qed

lemma bt_wf_remove [simp]: "bt_wf m \<Longrightarrow> bt_wf (bt_remove k m)"
  by (simp add: bt_remove_def bt_wf_filter)

lemma map_fst_bt_update [simp]: "map fst (bt_update k f m) = map fst m"
  by (simp add: bt_update_def case_prod_unfold o_def)

lemma bt_keys_update [simp]: "bt_keys (bt_update k f m) = bt_keys m"
  by (simp add: bt_keys_def)

lemma bt_wf_update [simp]: "bt_wf (bt_update k f m) = bt_wf m"
  by (simp add: bt_wf_def)

lemma bt_wf_or_insert [simp]: "bt_wf m \<Longrightarrow> bt_wf (bt_or_insert k v m)"
  by (simp add: bt_or_insert_def split: option.split)

lemma bt_wf_distinct: "bt_wf m \<Longrightarrow> distinct (map fst m)"
  by (simp add: bt_wf_def strict_sorted_iff)

lemma bt_get_iff: "bt_wf m \<Longrightarrow> bt_get k m = Some v \<longleftrightarrow> (k, v) \<in> set m"
  by (simp add: bt_wf_distinct bt_get_def map_of_eq_Some_iff)

interpretation bt: map_ops bt_wf bt_get bt_insert bt_remove "\<lambda>m. m"
  by unfold_locales (simp_all add: bt_get_iff bt_wf_distinct)

lemma bt_get_in_values: "bt_get k m = Some v \<Longrightarrow> v \<in> set (bt_values m)"
  by (force simp: bt_values_def bt_get_def dest: map_of_SomeD)

end
