(* ===== verification/Domain_Users.thy ===== *)
theory Domain_Users
  imports Rust_Text Rust_Maps
begin

text \<open>
  \<open>crates/domain/src\<close>: identifiers (\<open>id.rs\<close>), errors (\<open>error.rs\<close>), field validation
  (\<open>validation.rs\<close>), profiles and privacy settings (\<open>user.rs\<close>), friend requests and friendships
  (\<open>friend.rs\<close>).

  An identifier is a newtype over a 128-bit UUID and is ordered as the UUID.  Time stamps are
  nanoseconds since the epoch as integers, calendar dates are days since the epoch.  Functions that
  draw a fresh identifier take it as an argument.
\<close>

type_synonym uuid = u128
type_synonym datetime = int
type_synonym date = int

definition seconds :: "int \<Rightarrow> int" where
  "seconds n = n * 1000000000"

definition minutes :: "int \<Rightarrow> int" where
  "minutes n = seconds (60 * n)"

definition days :: "int \<Rightarrow> int" where
  "days n = seconds (86400 * n)"

definition date_of :: "datetime \<Rightarrow> date" where
  "date_of t = t div days 1"

definition timestamp :: "datetime \<Rightarrow> int" where
  "timestamp t = t div seconds 1"

lemmas time_defs = seconds_def minutes_def days_def

section \<open>Identifiers\<close>

datatype user_id = UserId (user_uuid: uuid)
datatype device_id = DeviceId (device_uuid: uuid)
datatype conversation_id = ConversationId (conversation_uuid: uuid)
datatype group_id = GroupId (group_uuid: uuid)
datatype message_id = MessageId (message_uuid: uuid)
datatype attachment_id = AttachmentId (attachment_uuid: uuid)
datatype friend_request_id = FriendRequestId (friend_request_uuid: uuid)

instantiation user_id :: linorder
begin

definition less_eq_user_id :: "user_id \<Rightarrow> user_id \<Rightarrow> bool" where
  "a \<le> b \<longleftrightarrow> user_uuid a \<le> user_uuid b"

definition less_user_id :: "user_id \<Rightarrow> user_id \<Rightarrow> bool" where
  "a < b \<longleftrightarrow> user_uuid a < user_uuid b"

instance
  by standard (auto simp: less_eq_user_id_def less_user_id_def user_id.expand)

end

instantiation conversation_id :: linorder
begin

definition less_eq_conversation_id :: "conversation_id \<Rightarrow> conversation_id \<Rightarrow> bool" where
  "a \<le> b \<longleftrightarrow> conversation_uuid a \<le> conversation_uuid b"

definition less_conversation_id :: "conversation_id \<Rightarrow> conversation_id \<Rightarrow> bool" where
  "a < b \<longleftrightarrow> conversation_uuid a < conversation_uuid b"

instance
  by standard (auto simp: less_eq_conversation_id_def less_conversation_id_def conversation_id.expand)

end

instantiation message_id :: linorder
begin

definition less_eq_message_id :: "message_id \<Rightarrow> message_id \<Rightarrow> bool" where
  "a \<le> b \<longleftrightarrow> message_uuid a \<le> message_uuid b"

definition less_message_id :: "message_id \<Rightarrow> message_id \<Rightarrow> bool" where
  "a < b \<longleftrightarrow> message_uuid a < message_uuid b"

instance
  by standard (auto simp: less_eq_message_id_def less_message_id_def message_id.expand)

end

lemmas id_order_defs =
  less_eq_user_id_def less_user_id_def less_eq_conversation_id_def less_conversation_id_def
  less_eq_message_id_def less_message_id_def

section \<open>Errors\<close>

datatype domain_error =
    Validation string string
  | Forbidden
  | DomNotFound
  | DomConflict
  | InvalidTransition string string
  | SelfTarget
  | StaleCursor
  | MessageTooLarge
  | EmptyMessage

section \<open>Validation of account fields\<close>

definition MAX_MESSAGE_CHARS :: nat where "MAX_MESSAGE_CHARS = 10000"
definition MIN_PASSWORD_CHARS :: nat where "MIN_PASSWORD_CHARS = 10"
definition MAX_PASSWORD_CHARS :: nat where "MAX_PASSWORD_CHARS = 128"
definition MIN_USERNAME_CHARS :: nat where "MIN_USERNAME_CHARS = 3"
definition MAX_USERNAME_CHARS :: nat where "MAX_USERNAME_CHARS = 32"

text \<open>
  The class \<open>[a-z0-9]\<close> under the case-insensitive flag.  Simple case folding closes the class
  under U+017F (long s) and U+212A (Kelvin sign), which fold to \<open>s\<close> and \<open>k\<close>.
\<close>

definition email_alnum :: "nat \<Rightarrow> bool" where
  "email_alnum c \<longleftrightarrow> is_ascii_lower c \<or> is_ascii_upper c \<or> is_ascii_digit c \<or> c = 0x17F \<or> c = 0x212A"

definition email_local_char :: "nat \<Rightarrow> bool" where
  "email_local_char c \<longleftrightarrow> email_alnum c
     \<or> c \<in> set [46, 33, 35, 36, 37, 38, 39, 42, 43, 47, 61, 63, 94, 95, 96, 123, 124, 125, 126, 45]"

definition email_label :: "rstr \<Rightarrow> bool" where
  "email_label l \<longleftrightarrow> l \<noteq> [] \<and> length l \<le> 63 \<and> email_alnum (hd l) \<and> email_alnum (last l)
     \<and> list_all (\<lambda>c. email_alnum c \<or> c = 45) l"

fun split_on :: "nat \<Rightarrow> rstr \<Rightarrow> rstr list" where
  "split_on sep [] = [[]]"
| "split_on sep (c # s) =
     (if c = sep then [] # split_on sep s
      else (case split_on sep s of [] \<Rightarrow> [[c]] | l # ls \<Rightarrow> (c # l) # ls))"

definition EMAIL_RE_is_match :: "rstr \<Rightarrow> bool" where
  "EMAIL_RE_is_match s \<longleftrightarrow>
     (let local_part = takeWhile (\<lambda>c. c \<noteq> 64) s; rest = dropWhile (\<lambda>c. c \<noteq> 64) s
      in local_part \<noteq> [] \<and> list_all email_local_char local_part \<and> rest \<noteq> []
         \<and> (let labels = split_on 46 (tl rest) in 2 \<le> length labels \<and> list_all email_label labels))"

definition USERNAME_RE_is_match :: "rstr \<Rightarrow> bool" where
  "USERNAME_RE_is_match s \<longleftrightarrow> s \<noteq> []
     \<and> list_all (\<lambda>c. is_ascii_lower c \<or> is_ascii_upper c \<or> is_ascii_digit c \<or> c = 95) s"

definition validate_email :: "rstr \<Rightarrow> domain_error + unit" where
  "validate_email value =
     (if byte_len value > 254 \<or> \<not> EMAIL_RE_is_match value
      then Inl (Validation ''email'' ''invalid_email'') else Inr ())"

definition validate_username :: "rstr \<Rightarrow> domain_error + unit" where
  "validate_username value =
     (if \<not> (MIN_USERNAME_CHARS \<le> length value \<and> length value \<le> MAX_USERNAME_CHARS)
         \<or> \<not> USERNAME_RE_is_match value
      then Inl (Validation ''username'' ''invalid_username'') else Inr ())"

definition validate_password :: "unicode \<Rightarrow> rstr \<Rightarrow> domain_error + unit" where
  "validate_password U value =
     (let strong_enough = list_ex (is_uppercase U) value \<and> list_ex (is_lowercase U) value
                            \<and> list_ex is_ascii_digit value
      in if \<not> (MIN_PASSWORD_CHARS \<le> length value \<and> length value \<le> MAX_PASSWORD_CHARS)
            \<or> \<not> strong_enough
         then Inl (Validation ''password'' ''weak_password'') else Inr ())"

definition validate_message_text :: "rstr \<Rightarrow> domain_error + unit" where
  "validate_message_text value =
     (if trim value = [] then Inl EmptyMessage
      else if length value > MAX_MESSAGE_CHARS then Inl MessageTooLarge
      else Inr ())"

lemmas limit_defs = MAX_MESSAGE_CHARS_def MIN_PASSWORD_CHARS_def MAX_PASSWORD_CHARS_def
  MIN_USERNAME_CHARS_def MAX_USERNAME_CHARS_def

section \<open>Users\<close>

datatype presence = Online | Away | Busy | Invisible | Offline

datatype profile_visibility = Everyone | Friends | Nobody

record profile_privacy_settings =
  pps_gender_visibility :: profile_visibility
  pps_birthday_visibility :: profile_visibility
  pps_region_visibility :: profile_visibility
  pps_presence_visibility :: profile_visibility
  pps_read_receipts_enabled :: bool

definition default_privacy :: profile_privacy_settings where
  "default_privacy = \<lparr>pps_gender_visibility = Friends, pps_birthday_visibility = Friends,
     pps_region_visibility = Friends, pps_presence_visibility = Friends,
     pps_read_receipts_enabled = True\<rparr>"

record user_profile =
  prof_id :: user_id
  prof_username :: rstr
  prof_nickname :: rstr
  prof_avatar_url :: "rstr option"
  prof_avatar_attachment_id :: "attachment_id option"
  prof_signature :: rstr
  prof_gender :: "rstr option"
  prof_birthday :: "date option"
  prof_region :: "rstr option"
  prof_presence :: presence
  prof_last_seen_at :: "datetime option"

record user_profile_update =
  upu_nickname :: rstr
  upu_signature :: rstr
  upu_avatar_url :: "rstr option"
  upu_avatar_attachment_id :: "attachment_id option"
  upu_gender :: "rstr option"
  upu_birthday :: "date option"
  upu_region :: "rstr option"
  upu_presence :: presence

definition normalize_bounded ::
  "rstr option \<Rightarrow> nat \<Rightarrow> string \<Rightarrow> domain_error + rstr option" where
  "normalize_bounded v max_length field =
     (let value = map_option trim v
      in if (case value of None \<Rightarrow> False | Some w \<Rightarrow> length w > max_length)
         then Inl (Validation field ''invalid_length'')
         else Inr (case value of None \<Rightarrow> None | Some w \<Rightarrow> if w = [] then None else Some w))"

text \<open>\<open>today\<close> is \<open>Utc::now().date_naive()\<close>.\<close>

definition update_public_fields ::
  "date \<Rightarrow> user_profile_update \<Rightarrow> user_profile \<Rightarrow> domain_error + user_profile" where
  "update_public_fields today u p =
     (let nickname_count = length (trim (upu_nickname u)) in
      and_then (err_if (\<not> (1 \<le> nickname_count \<and> nickname_count \<le> 48))
                  (Validation ''nickname'' ''invalid_length'')) (\<lambda>_.
      and_then (err_if (length (upu_signature u) > 160)
                  (Validation ''signature'' ''invalid_length'')) (\<lambda>_.
      and_then (normalize_bounded (upu_gender u) 32 ''gender'') (\<lambda>gender.
      and_then (normalize_bounded (upu_region u) 96 ''region'') (\<lambda>region.
      and_then (err_if (case upu_birthday u of None \<Rightarrow> False | Some d \<Rightarrow> d > today)
                  (Validation ''birthday'' ''future_date'')) (\<lambda>_.
      Inr (p\<lparr>prof_nickname := trim (upu_nickname u), prof_signature := upu_signature u,
             prof_avatar_url := upu_avatar_url u,
             prof_avatar_attachment_id := upu_avatar_attachment_id u,
             prof_gender := gender, prof_birthday := upu_birthday u,
             prof_region := region, prof_presence := upu_presence u\<rparr>)))))))"

section \<open>Friend requests and friendships\<close>

datatype friend_request_status = FrPending | FrAccepted | FrRejected | FrCancelled

record friend_request =
  fr_id :: friend_request_id
  fr_sender_id :: user_id
  fr_recipient_id :: user_id
  fr_message :: rstr
  fr_status :: friend_request_status
  fr_created_at :: datetime
  fr_updated_at :: datetime

definition friend_request_new ::
  "friend_request_id \<Rightarrow> user_id \<Rightarrow> user_id \<Rightarrow> rstr \<Rightarrow> datetime \<Rightarrow> domain_error + friend_request" where
  "friend_request_new fresh sender recipient message now =
     (if sender = recipient then Inl SelfTarget
      else if length message > 240 then Inl (Validation ''verification_message'' ''invalid_length'')
      else Inr \<lparr>fr_id = fresh, fr_sender_id = sender, fr_recipient_id = recipient,
                fr_message = message, fr_status = FrPending, fr_created_at = now,
                fr_updated_at = now\<rparr>)"

definition friend_request_transition ::
  "user_id \<Rightarrow> friend_request_status \<Rightarrow> datetime \<Rightarrow> friend_request \<Rightarrow> domain_error + friend_request" where
  "friend_request_transition actor next now r =
     (if actor \<noteq> fr_recipient_id r then Inl Forbidden
      else if fr_status r \<noteq> FrPending then Inl (InvalidTransition ''final'' ''final'')
      else Inr (r\<lparr>fr_status := next, fr_updated_at := now\<rparr>))"

definition friend_request_accept ::
  "user_id \<Rightarrow> datetime \<Rightarrow> friend_request \<Rightarrow> domain_error + friend_request" where
  "friend_request_accept actor now r = friend_request_transition actor FrAccepted now r"

definition friend_request_reject ::
  "user_id \<Rightarrow> datetime \<Rightarrow> friend_request \<Rightarrow> domain_error + friend_request" where
  "friend_request_reject actor now r = friend_request_transition actor FrRejected now r"

record friendship =
  fs_lower_user_id :: user_id
  fs_upper_user_id :: user_id
  fs_created_at :: datetime

definition friendship_new :: "user_id \<Rightarrow> user_id \<Rightarrow> datetime \<Rightarrow> domain_error + friendship" where
  "friendship_new a b now =
     (if a = b then Inl SelfTarget
      else let (lower, upper) = (if a < b then (a, b) else (b, a))
           in Inr \<lparr>fs_lower_user_id = lower, fs_upper_user_id = upper, fs_created_at = now\<rparr>)"

definition friendship_contains :: "friendship \<Rightarrow> user_id \<Rightarrow> bool" where
  "friendship_contains f u \<longleftrightarrow> fs_lower_user_id f = u \<or> fs_upper_user_id f = u"

end
