(* ===== verification/Domain_Chat.thy ===== *)
theory Domain_Chat
  imports Domain_Users
begin

text \<open>
  \<open>crates/domain/src\<close>: conversations and group membership (\<open>conversation.rs\<close>), messages and their
  life cycle (\<open>message.rs\<close>), the client's synchronisation state and unread counters (\<open>sync.rs\<close>).

  A constructor that draws identifiers takes them as arguments.  A mutating method is a function
  from the value to an error or the new value: on an error the Rust code has not written yet.
\<close>

section \<open>Conversations\<close>

datatype conversation_kind = Direct (peer_user_id: user_id) | Group (kind_group_id: group_id)

datatype member_role = Member | Administrator | Owner

fun role_rank :: "member_role \<Rightarrow> nat" where
  "role_rank Member = 0"
| "role_rank Administrator = 1"
| "role_rank Owner = 2"

instantiation member_role :: linorder
begin

definition less_eq_member_role :: "member_role \<Rightarrow> member_role \<Rightarrow> bool" where
  "a \<le> b \<longleftrightarrow> role_rank a \<le> role_rank b"

definition less_member_role :: "member_role \<Rightarrow> member_role \<Rightarrow> bool" where
  "a < b \<longleftrightarrow> role_rank a < role_rank b"

lemma role_rank_inj: "role_rank a = role_rank b \<Longrightarrow> a = b"
  by (cases a; cases b) simp_all

instance
  by standard (auto simp: less_eq_member_role_def less_member_role_def role_rank_inj)

end

lemma role_order [simp]:
  "Member \<le> r" "r \<le> Owner" "\<not> Owner < r" "\<not> r < Member"
  "Member < Administrator" "Member < Owner" "Administrator < Owner"
  "\<not> Administrator \<le> Member" "\<not> Owner \<le> Member" "\<not> Owner \<le> Administrator"
  by (cases r; simp add: less_eq_member_role_def less_member_role_def)+

lemma role_less_Administrator [simp]: "r < Administrator \<longleftrightarrow> r = Member"
  by (cases r) (simp_all add: less_member_role_def)

lemma role_less_Owner [simp]: "r < Owner \<longleftrightarrow> r \<noteq> Owner"
  by (cases r) (simp_all add: less_member_role_def)

record conversation_member =
  mem_user_id :: user_id
  mem_role :: member_role
  mem_nickname :: "rstr option"
  mem_muted_until :: "datetime option"
  mem_joined_at :: datetime

record conversation =
  conv_id :: conversation_id
  conv_kind :: conversation_kind
  conv_name :: rstr
  conv_avatar_url :: "rstr option"
  conv_avatar_attachment_id :: "attachment_id option"
  conv_members :: "(user_id, conversation_member) btree"
  conv_muted :: bool
  conv_pinned :: bool
  conv_created_at :: datetime
  conv_updated_at :: datetime

definition is_group :: "conversation \<Rightarrow> bool" where
  "is_group c = (case conv_kind c of Group _ \<Rightarrow> True | Direct _ \<Rightarrow> False)"

definition new_member :: "user_id \<Rightarrow> member_role \<Rightarrow> datetime \<Rightarrow> conversation_member" where
  "new_member u role now = \<lparr>mem_user_id = u, mem_role = role, mem_nickname = None,
     mem_muted_until = None, mem_joined_at = now\<rparr>"

definition conversation_direct ::
  "conversation_id \<Rightarrow> user_id \<Rightarrow> user_id \<Rightarrow> datetime \<Rightarrow> domain_error + conversation" where
  "conversation_direct fresh a b now =
     (if a = b then Inl SelfTarget
      else Inr \<lparr>conv_id = fresh, conv_kind = Direct b, conv_name = [], conv_avatar_url = None,
                conv_avatar_attachment_id = None,
                conv_members = bt_insert b (new_member b Member now)
                                 (bt_insert a (new_member a Member now) []),
                conv_muted = False, conv_pinned = False, conv_created_at = now,
                conv_updated_at = now\<rparr>)"

definition add_vacant ::
  "datetime \<Rightarrow> user_id \<Rightarrow> (user_id, conversation_member) btree
     \<Rightarrow> (user_id, conversation_member) btree" where
  "add_vacant now u m = bt_or_insert u (new_member u Member now) m"

definition conversation_group ::
  "conversation_id \<Rightarrow> group_id \<Rightarrow> user_id \<Rightarrow> user_id list \<Rightarrow> rstr \<Rightarrow> datetime
     \<Rightarrow> domain_error + conversation" where
  "conversation_group fresh fresh_group owner_id member_ids name now =
     (if trim name = [] \<or> length name > 80
      then Inl (Validation ''group_name'' ''invalid_length'')
      else let members = fold (add_vacant now) member_ids
                           (bt_insert owner_id (new_member owner_id Owner now) [])
           in if length members < 2
              then Inl (Validation ''members'' ''group_requires_two_members'')
              else Inr \<lparr>conv_id = fresh, conv_kind = Group fresh_group, conv_name = trim name,
                        conv_avatar_url = None, conv_avatar_attachment_id = None,
                        conv_members = members, conv_muted = False, conv_pinned = False,
                        conv_created_at = now, conv_updated_at = now\<rparr>)"

definition can_read :: "conversation \<Rightarrow> user_id \<Rightarrow> bool" where
  "can_read c u \<longleftrightarrow> bt_contains u (conv_members c)"

definition can_send :: "conversation \<Rightarrow> user_id \<Rightarrow> datetime \<Rightarrow> bool" where
  "can_send c u now \<longleftrightarrow>
     (case bt_get u (conv_members c) of
        None \<Rightarrow> False
      | Some m \<Rightarrow> (case mem_muted_until m of None \<Rightarrow> True | Some until \<Rightarrow> until \<le> now))"

definition role_of :: "conversation \<Rightarrow> user_id \<Rightarrow> member_role option" where
  "role_of c u = map_option mem_role (bt_get u (conv_members c))"

definition remove_member ::
  "user_id \<Rightarrow> user_id \<Rightarrow> datetime \<Rightarrow> conversation \<Rightarrow> domain_error + conversation" where
  "remove_member actor target now c =
     and_then (ok_or (role_of c actor) Forbidden) (\<lambda>actor_role.
     and_then (ok_or (role_of c target) DomNotFound) (\<lambda>target_role.
     if target_role = Owner \<or> actor_role \<le> target_role then Inl Forbidden
     else Inr (c\<lparr>conv_members := bt_remove target (conv_members c), conv_updated_at := now\<rparr>)))"

definition set_role :: "member_role \<Rightarrow> conversation_member \<Rightarrow> conversation_member" where
  "set_role r m = m\<lparr>mem_role := r\<rparr>"

definition transfer_ownership ::
  "user_id \<Rightarrow> user_id \<Rightarrow> datetime \<Rightarrow> conversation \<Rightarrow> domain_error + conversation" where
  "transfer_ownership actor target now c =
     (if role_of c actor \<noteq> Some Owner then Inl Forbidden
      else if \<not> bt_contains target (conv_members c) then Inl DomNotFound
      else Inr (c\<lparr>conv_members := bt_update target (set_role Owner)
                                    (bt_update actor (set_role Member) (conv_members c)),
                  conv_updated_at := now\<rparr>))"

section \<open>Messages\<close>

datatype attachment_kind = KImage | KFile | KAudio | KVideo

record attachment =
  att_id :: attachment_id
  att_kind :: attachment_kind
  att_file_name :: rstr
  att_mime_type :: rstr
  att_byte_size :: u64
  att_sha256 :: "rstr option"
  att_storage_key :: rstr
  att_thumbnail_key :: "rstr option"

datatype message_content =
    CText rstr
  | CImage attachment
  | CFile attachment
  | CAudio attachment u32
  | CSticker attachment rstr
  | CForwardBundle rstr "forwarded_message list"
  | CSystem rstr
and forwarded_message =
    ForwardedMessage (fwd_sender_id: user_id) (fwd_sender_name: rstr)
      (fwd_content: message_content) (fwd_created_at: datetime)

fun is_system :: "message_content \<Rightarrow> bool" where
  "is_system (CSystem _) = True"
| "is_system _ = False"

fun is_bundle :: "message_content \<Rightarrow> bool" where
  "is_bundle (CForwardBundle _ _) = True"
| "is_bundle _ = False"

fun is_text :: "message_content \<Rightarrow> bool" where
  "is_text (CText _) = True"
| "is_text _ = False"

fun content_attachment :: "message_content \<Rightarrow> attachment option" where
  "content_attachment (CImage a) = Some a"
| "content_attachment (CFile a) = Some a"
| "content_attachment (CAudio a _) = Some a"
| "content_attachment (CSticker a _) = Some a"
| "content_attachment _ = None"

definition invalid_attachment_size :: "attachment \<Rightarrow> domain_error + unit" where
  "invalid_attachment_size a =
     err_if (att_byte_size a = 0) (Validation ''attachment'' ''empty_file'')"

fun content_validate :: "message_content \<Rightarrow> domain_error + unit" where
  "content_validate (CText text) = validate_message_text text"
| "content_validate (CSystem text) = err_if (trim text = []) EmptyMessage"
| "content_validate (CForwardBundle title messages) =
     err_if (trim title = [] \<or> length title > 80
             \<or> \<not> (2 \<le> length messages \<and> length messages \<le> 100)
             \<or> list_ex (\<lambda>m. trim (fwd_sender_name m) = [] \<or> length (fwd_sender_name m) > 80
                            \<or> is_system (fwd_content m) \<or> is_bundle (fwd_content m)) messages)
       (Validation ''forward_bundle'' ''invalid_bundle'')"
| "content_validate (CImage a) = invalid_attachment_size a"
| "content_validate (CFile a) = invalid_attachment_size a"
| "content_validate (CAudio a _) = invalid_attachment_size a"
| "content_validate (CSticker a name) =
     and_then (invalid_attachment_size a) (\<lambda>_.
     err_if (trim name = [] \<or> length name > 48) (Validation ''sticker_name'' ''invalid_length''))"

datatype message_status = Pending | Sent | Delivered | Read | Failed | Recalled

record message =
  msg_id :: message_id
  msg_client_message_id :: message_id
  msg_conversation_id :: conversation_id
  msg_sender_id :: user_id
  msg_sequence :: "u64 option"
  msg_content :: message_content
  msg_status :: message_status
  msg_reply_to :: "message_id option"
  msg_mentions :: "user_id list"
  msg_mention_all :: bool
  msg_created_at :: datetime
  msg_server_created_at :: "datetime option"
  msg_edited_at :: "datetime option"

definition message_pending ::
  "message_id \<Rightarrow> message_id \<Rightarrow> conversation_id \<Rightarrow> user_id \<Rightarrow> message_content \<Rightarrow> datetime
     \<Rightarrow> domain_error + message" where
  "message_pending fresh client_message_id conversation_id sender_id content now =
     and_then (content_validate content) (\<lambda>_.
     Inr \<lparr>msg_id = fresh, msg_client_message_id = client_message_id,
          msg_conversation_id = conversation_id, msg_sender_id = sender_id,
          msg_sequence = None, msg_content = content, msg_status = Pending,
          msg_reply_to = None, msg_mentions = [], msg_mention_all = False,
          msg_created_at = now, msg_server_created_at = None, msg_edited_at = None\<rparr>)"

definition mark_sent :: "u64 \<Rightarrow> datetime \<Rightarrow> message \<Rightarrow> domain_error + message" where
  "mark_sent sequence server_time m =
     (if \<not> (msg_status m = Pending \<or> msg_status m = Failed)
      then Inl (InvalidTransition ''final'' ''sent'')
      else Inr (m\<lparr>msg_sequence := Some sequence, msg_server_created_at := Some server_time,
                  msg_status := Sent\<rparr>))"

definition mark_failed :: "message \<Rightarrow> domain_error + message" where
  "mark_failed m =
     (if msg_status m \<noteq> Pending then Inl (InvalidTransition ''final'' ''failed'')
      else Inr (m\<lparr>msg_status := Failed\<rparr>))"

lemma message_pending_Inr_iff:
  "message_pending i cid c u content now = Inr m \<longleftrightarrow>
     content_validate content = Inr () \<and>
     m = \<lparr>msg_id = i, msg_client_message_id = cid, msg_conversation_id = c, msg_sender_id = u,
          msg_sequence = None, msg_content = content, msg_status = Pending,
          msg_reply_to = None, msg_mentions = [], msg_mention_all = False,
          msg_created_at = now, msg_server_created_at = None, msg_edited_at = None\<rparr>"
  by (auto simp: message_pending_def)

section \<open>Client synchronisation state\<close>

datatype event_kind =
    MessageCreated | MessageUpdated | ConversationUpdated | FriendshipUpdated
  | GroupMembershipUpdated | ReadPositionUpdated | DraftUpdated | PresenceUpdated

text \<open>\<open>'p\<close> is the JSON payload; the service's payloads are listed in \<open>Store\<close>.\<close>

record 'p sync_event =
  ev_id :: uuid
  ev_cursor :: u64
  ev_kind :: event_kind
  ev_payload :: 'p
  ev_created_at :: datetime

record sync_state =
  ss_cursor :: u64
  ss_seen :: "uuid set"

definition sync_state_default :: sync_state where
  "sync_state_default = \<lparr>ss_cursor = 0, ss_seen = {}\<rparr>"

definition sync_apply :: "'p sync_event \<Rightarrow> (sync_state, domain_error, bool) eff" where
  "sync_apply event = (\<lambda>s.
     if ev_id event \<in> ss_seen s then (Inr False, s)
     else if ev_cursor event \<le> ss_cursor s then (Inl StaleCursor, s)
     else (Inr True, s\<lparr>ss_seen := insert (ev_id event) (ss_seen s), ss_cursor := ev_cursor event\<rparr>))"

text \<open>\<open>sync_run\<close> applies a stream of events, keeping each outcome.\<close>

fun sync_run :: "'p sync_event list \<Rightarrow> sync_state \<Rightarrow> (domain_error + bool) list \<times> sync_state" where
  "sync_run [] s = ([], s)"
| "sync_run (e # es) s =
     (let (r, s') = sync_apply e s; (rs, s'') = sync_run es s' in (r # rs, s''))"

section \<open>Unread counters\<close>

record unread_counters =
  uc_per_conversation :: "(conversation_id, u32) btree"

definition unread_increment ::
  "conversation_id \<Rightarrow> user_id \<Rightarrow> user_id \<Rightarrow> unread_counters \<Rightarrow> unread_counters" where
  "unread_increment c sender me u =
     (if sender \<noteq> me
      then u\<lparr>uc_per_conversation := bt_update c (\<lambda>n. sat_add n 1)
                                     (bt_or_insert c 0 (uc_per_conversation u))\<rparr>
      else u)"

definition unread_mark_read :: "conversation_id \<Rightarrow> unread_counters \<Rightarrow> unread_counters" where
  "unread_mark_read c u = u\<lparr>uc_per_conversation := bt_remove c (uc_per_conversation u)\<rparr>"

definition unread_conversation :: "conversation_id \<Rightarrow> unread_counters \<Rightarrow> u32" where
  "unread_conversation c u = (case bt_get c (uc_per_conversation u) of None \<Rightarrow> 0 | Some n \<Rightarrow> n)"

text \<open>\<open>total\<close> sums in 32 bits, as a release build does.\<close>

definition unread_total :: "unread_counters \<Rightarrow> u32" where
  "unread_total u = sum_list (bt_values (uc_per_conversation u))"

end
