(* ===== verification/Protocol.thy ===== *)
theory Protocol
  imports Domain_Chat
begin

text \<open>
  The records of \<open>crates/protocol/src/lib.rs\<close> that the service reads, stores or returns: settings,
  group boards, message requests and acknowledgements, call signals, and the answers of the
  synchronisation endpoints.  Serialisation itself is left to \<open>serde\<close>.
\<close>

section \<open>Settings\<close>

record friend_settings =
  fset_user_id :: user_id
  fset_remark :: "rstr option"
  fset_group :: "rstr option"
  fset_share_presence :: bool
  fset_allow_files :: bool

record update_friend_settings_request =
  ufs_remark :: "rstr option"
  ufs_group :: "rstr option"
  ufs_share_presence :: bool
  ufs_allow_files :: bool

record report_user_request =
  rep_reason :: rstr
  rep_details :: "rstr option"

record conversation_settings =
  cs_conversation_id :: conversation_id
  cs_pinned :: bool
  cs_muted :: bool
  cs_hidden :: bool
  cs_manually_unread :: bool
  cs_last_read_sequence :: u64
  cs_draft :: rstr
  cs_label :: "rstr option"

record conversation_state =
  cst_conversation_id :: conversation_id
  cst_pinned :: bool
  cst_muted :: bool
  cst_hidden :: bool
  cst_manually_unread :: bool
  cst_last_read_sequence :: u64
  cst_unread_count :: u64
  cst_draft :: rstr
  cst_label :: "rstr option"

record update_conversation_settings_request =
  ucs_pinned :: "bool option"
  ucs_muted :: "bool option"
  ucs_hidden :: "bool option"
  ucs_manually_unread :: "bool option"
  ucs_draft :: "rstr option"
  ucs_label :: "rstr option option"

datatype friend_request_decision = Accept | Reject

section \<open>Groups\<close>

record update_group_request =
  ug_name :: "rstr option"
  ug_avatar_url :: "rstr option option"
  ug_avatar_attachment_id :: "attachment_id option option"

record update_group_member_request =
  ugm_nickname :: "rstr option option"
  ugm_role :: "member_role option"
  ugm_muted_until :: "datetime option option"

record group_announcement =
  ann_id :: uuid
  ann_conversation_id :: conversation_id
  ann_author_id :: user_id
  ann_content :: rstr
  ann_read_by :: "user_id list"
  ann_created_at :: datetime
  ann_updated_at :: datetime

record group_file_item =
  gf_message_id :: message_id
  gf_sender_id :: user_id
  gf_attachment :: attachment
  gf_created_at :: datetime

datatype group_join_request_status = JrPending | JrAccepted | JrRejected

record group_join_request =
  jr_id :: uuid
  jr_conversation_id :: conversation_id
  jr_applicant_id :: user_id
  jr_message :: rstr
  jr_status :: group_join_request_status
  jr_reviewed_by :: "user_id option"
  jr_created_at :: datetime
  jr_updated_at :: datetime

record group_poll_option =
  opt_id :: uuid
  opt_label :: rstr
  opt_voter_ids :: "user_id list"

record group_poll =
  poll_id :: uuid
  poll_conversation_id :: conversation_id
  poll_creator_id :: user_id
  poll_question :: rstr
  poll_multiple_choice :: bool
  poll_options :: "group_poll_option list"
  poll_closes_at :: "datetime option"
  poll_created_at :: datetime

record create_group_poll_request =
  cgp_question :: rstr
  cgp_options :: "rstr list"
  cgp_multiple_choice :: bool
  cgp_closes_at :: "datetime option"

section \<open>Messages\<close>

record send_message_request =
  sm_client_message_id :: message_id
  sm_content :: message_content
  sm_reply_to :: "message_id option"
  sm_mentions :: "user_id list"
  sm_mention_all :: bool
  sm_expires_in_seconds :: "u32 option"

record schedule_message_request =
  sch_conversation_id :: conversation_id
  sch_client_message_id :: message_id
  sch_content :: message_content
  sch_reply_to :: "message_id option"
  sch_mentions :: "user_id list"
  sch_mention_all :: bool
  sch_scheduled_for :: datetime
  sch_expires_in_seconds :: "u32 option"

record scheduled_message_response =
  schr_schedule_id :: uuid
  schr_scheduled_for :: datetime

record scheduled_message_info =
  schi_schedule_id :: uuid
  schi_conversation_id :: conversation_id
  schi_content :: message_content
  schi_reply_to :: "message_id option"
  schi_mentions :: "user_id list"
  schi_mention_all :: bool
  schi_scheduled_for :: datetime
  schi_expires_in_seconds :: "u32 option"

datatype forward_mode = Individually | Merged

record message_reaction =
  mr_emoji :: rstr
  mr_user_ids :: "user_id list"

record message_details =
  md_message :: message
  md_reactions :: "message_reaction list"
  md_delivered_to :: "user_id list"
  md_read_by :: "user_id list"
  md_favorited :: bool
  md_expires_at :: "datetime option"

record message_ack =
  ack_client_message_id :: message_id
  ack_message_id :: message_id
  ack_sequence :: u64
  ack_server_time :: datetime

section \<open>Stickers, devices, administration, second factor\<close>

record sticker =
  stk_id :: uuid
  stk_owner_id :: user_id
  stk_attachment :: attachment
  stk_name :: rstr
  stk_shortcut :: "rstr option"
  stk_created_at :: datetime

record create_sticker_request =
  cst_attachment_id :: attachment_id
  cst_name :: rstr
  cst_shortcut :: "rstr option"

record device_info =
  di_id :: device_id
  di_name :: rstr
  di_platform :: rstr
  di_app_version :: rstr
  di_last_seen_at :: datetime
  di_current :: bool

record admin_audit_entry =
  aud_id :: uuid
  aud_actor_id :: "user_id option"
  aud_action :: rstr
  aud_target_user_id :: "user_id option"
  aud_outcome :: rstr
  aud_created_at :: datetime

record second_factor_status =
  sfs_enabled :: bool
  sfs_recovery_codes_remaining :: nat

record second_factor_setup_response =
  sfr_secret :: rstr
  sfr_otpauth_uri :: rstr
  sfr_expires_at :: datetime

section \<open>Call signals\<close>

datatype call_signal =
    CallInvite bool
  | CallAccept
  | CallOffer rstr
  | CallAnswer rstr
  | CallIceCandidate rstr "rstr option" "u16 option"
  | CallParticipants "user_id list"
  | CallReject
  | CallBusy
  | CallHangup

section \<open>Event payloads\<close>

text \<open>One constructor for each \<open>json!({ .. })\<close> the service puts into an event.\<close>

datatype payload =
    PProfile user_profile
  | PProfileDeleted user_profile
  | PPrivacy profile_privacy_settings
  | PFriendRequest friend_request
  | PFriendSettings friend_settings
  | PRemovedFriends user_id user_id
  | PBlocked user_id user_id
  | PUnblocked user_id
  | PConversation conversation
  | PMembersAdded conversation "user_id list"
  | PMemberLeft conversation_id user_id
  | PDisbanded conversation_id
  | PMemberUpdated conversation user_id
  | PMemberRemoved conversation_id user_id
  | PGroupMuted conversation_id bool
  | PAnnouncement group_announcement
  | PJoinRequest group_join_request
  | PPoll group_poll
  | PConversationSettings conversation_settings
  | PAllRead
  | PReadPosition user_id conversation_id u64
  | PMessage message
  | PForwarded message
  | PDelivered message_id user_id
  | PReactions message_id "message_reaction list"

type_synonym event = "payload sync_event"

record sync_response =
  sr_events :: "event list"
  sr_next_cursor :: u64
  sr_has_more :: bool

end
