(* ===== verification/Store.thy ===== *)
theory Store
  imports Protocol
begin

text \<open>
  The service's state and its transactions (\<open>crates/application/src/service.rs\<close>, lines 54-408 and
  664-714): the \<open>Store\<close> with its record types, the service around it, the event log
  (\<open>append_event\<close>) and \<open>mutate\<close>, through which every write goes.

  A closure passed to \<open>mutate\<close> is a \<open>'a tx\<close>: an effect over \<open>txn\<close>, the \<open>Store\<close> extended with
  the sources of fresh UUIDs and random bytes.  It may fail half way and leave a half-written store;
  undoing that is the work of \<open>mutate\<close>.  Cryptographic primitives of third-party crates, and
  the text form of a UUID, are the record \<open>crypto\<close>, a parameter.  The database is the singleton row of
  \<open>application_state_snapshots\<close> and an oracle that says which write attempts succeed.
\<close>

section \<open>Errors\<close>

text \<open>\<open>Panicked\<close> is not a variant of the Rust enum: it stands for the unwinding of a failed
  \<open>expect\<close>, which leaves \<open>mutate\<close> without running its rollback.\<close>

datatype application_error =
    Domain domain_error
  | AccountConflict
  | InvalidCredentials
  | SecondFactorRequired
  | InvalidSecondFactor
  | Unauthorized
  | SessionExpired
  | RefreshTokenReuse
  | NotFound
  | Conflict
  | Storage
  | Panicked string

abbreviation invalid :: "string \<Rightarrow> string \<Rightarrow> application_error" where
  "invalid field reason \<equiv> Domain (Validation field reason)"

fun is_panic :: "application_error \<Rightarrow> bool" where
  "is_panic (Panicked _) = True"
| "is_panic _ = False"

abbreviation forbidden :: application_error where
  "forbidden \<equiv> Domain Forbidden"

section \<open>Records kept in the store\<close>

record second_factor_state =
  sf_encrypted_secret :: "u8 list"
  sf_recovery_code_hashes :: "rstr list"
  sf_enabled_at :: datetime

record pending_second_factor =
  psf_encrypted_secret :: "u8 list"
  psf_expires_at :: datetime

record account =
  acc_password_hash :: rstr
  acc_profile :: user_profile
  acc_deleted_at :: "datetime option"
  acc_suspended :: bool
  acc_second_factor :: "second_factor_state option"
  acc_pending_second_factor :: "pending_second_factor option"

record qr_login_challenge =
  qr_secret_hash :: rstr
  qr_approved_user_id :: "user_id option"
  qr_device_name :: rstr
  qr_platform :: rstr
  qr_app_version :: rstr
  qr_expires_at :: datetime

record token_record =
  tok_user_id :: user_id
  tok_device_id :: device_id
  tok_family_id :: uuid
  tok_expires_at :: datetime
  tok_revoked :: bool

record device_record =
  dev_id :: device_id
  dev_user_id :: user_id
  dev_name :: rstr
  dev_platform :: rstr
  dev_app_version :: rstr
  dev_last_seen_at :: datetime
  dev_revoked_at :: "datetime option"

record password_reset_record =
  pr_user_id :: user_id
  pr_expires_at :: datetime
  pr_attempts :: u8
  pr_consumed :: bool

record user_report =
  ur_id :: uuid
  ur_reporter_id :: user_id
  ur_reported_id :: user_id
  ur_reason :: rstr
  ur_details :: "rstr option"
  ur_created_at :: datetime

record user_event =
  ue_recipients :: "user_id set"
  ue_event :: event

record receipt_state =
  rc_delivered_to :: "user_id set"
  rc_read_by :: "user_id set"

definition no_receipts :: receipt_state where
  "no_receipts = \<lparr>rc_delivered_to = {}, rc_read_by = {}\<rparr>"

record scheduled_message =
  sched_id :: uuid
  sched_actor :: user_id
  sched_conversation_id :: conversation_id
  sched_client_message_id :: message_id
  sched_content :: message_content
  sched_reply_to :: "message_id option"
  sched_mentions :: "user_id list"
  sched_mention_all :: bool
  sched_scheduled_for :: datetime
  sched_expires_in_seconds :: "u32 option"

record pending_attachment =
  pa_attachment :: attachment
  pa_owner_id :: user_id
  pa_expires_at :: datetime
  pa_available :: bool
  pa_quarantined :: bool

section \<open>The store\<close>

record store =
  st_accounts :: "(user_id, account) hashmap"
  st_profile_privacy :: "(user_id, profile_privacy_settings) hashmap"
  st_preferred_presence :: "(user_id, presence) hashmap"
  st_by_email :: "(rstr, user_id) hashmap"
  st_by_username :: "(rstr, user_id) hashmap"
  st_access_tokens :: "(rstr, token_record) hashmap"
  st_refresh_tokens :: "(rstr, token_record) hashmap"
  st_consumed_refresh_tokens :: "(rstr, uuid) hashmap"
  st_devices :: "(device_id, device_record) hashmap"
  st_password_resets :: "(rstr, password_reset_record) hashmap"
  st_friend_requests :: "(friend_request_id, friend_request) hashmap"
  st_friendships :: "friendship list"
  st_friend_settings :: "(user_id \<times> user_id, friend_settings) hashmap"
  st_blocks :: "(user_id \<times> user_id) set"
  st_reports :: "user_report list"
  st_audit_events :: "admin_audit_entry list"
  st_conversations :: "(conversation_id, conversation) hashmap"
  st_conversation_settings :: "(user_id \<times> conversation_id, conversation_settings) hashmap"
  st_group_mute_all :: "conversation_id set"
  st_group_announcements :: "(uuid, group_announcement) hashmap"
  st_group_join_requests :: "(uuid, group_join_request) hashmap"
  st_group_polls :: "(uuid, group_poll) hashmap"
  st_messages :: "(conversation_id, message list) hashmap"
  st_message_dedup :: "(user_id \<times> message_id, message_id \<times> u64) hashmap"
  st_message_reactions :: "(message_id, (rstr, user_id set) hashmap) hashmap"
  st_message_receipts :: "(message_id, receipt_state) hashmap"
  st_favorite_messages :: "(user_id \<times> message_id) set"
  st_message_expirations :: "(message_id, datetime) hashmap"
  st_scheduled_messages :: "scheduled_message list"
  st_attachments :: "(attachment_id, pending_attachment) hashmap"
  st_stickers :: "(uuid, sticker) hashmap"
  st_read_positions :: "(user_id \<times> conversation_id, u64) hashmap"
  st_events :: "user_event list"
  st_cursor :: u64

definition default_store :: store where
  "default_store = \<lparr>
     st_accounts = [], st_profile_privacy = [], st_preferred_presence = [], st_by_email = [],
     st_by_username = [], st_access_tokens = [], st_refresh_tokens = [],
     st_consumed_refresh_tokens = [], st_devices = [], st_password_resets = [],
     st_friend_requests = [], st_friendships = [], st_friend_settings = [], st_blocks = {},
     st_reports = [], st_audit_events = [], st_conversations = [],
     st_conversation_settings = [], st_group_mute_all = {}, st_group_announcements = [],
     st_group_join_requests = [], st_group_polls = [], st_messages = [], st_message_dedup = [],
     st_message_reactions = [], st_message_receipts = [], st_favorite_messages = {},
     st_message_expirations = [], st_scheduled_messages = [], st_attachments = [],
     st_stickers = [], st_read_positions = [], st_events = [], st_cursor = 0\<rparr>"

section \<open>Transactions\<close>

record txn = store +
  uuid_src :: "nat \<Rightarrow> uuid"
  uuid_next :: nat
  rand_src :: "nat \<Rightarrow> nat \<Rightarrow> u8"
  rand_next :: nat

type_synonym 'a tx = "(txn, application_error, 'a) eff"

record crypto =
  c_sha256 :: "u8 list \<Rightarrow> u8 list"
  c_hmac_sha1 :: "u8 list \<Rightarrow> u8 list \<Rightarrow> u8 list"
  c_argon2_hash :: "nat \<Rightarrow> u8 list \<Rightarrow> rstr option"
  c_argon2_verify :: "u8 list \<Rightarrow> rstr \<Rightarrow> bool"
  c_aes_encrypt :: "u8 list \<Rightarrow> u8 list \<Rightarrow> u8 list \<Rightarrow> u8 list option"
  c_aes_decrypt :: "u8 list \<Rightarrow> u8 list \<Rightarrow> u8 list \<Rightarrow> u8 list option"
  c_base32_nopad :: "u8 list \<Rightarrow> rstr"
  c_uuid_text :: "uuid \<Rightarrow> rstr"

text \<open>\<open>Uuid::now_v7()\<close> and \<open>rand::rng().fill_bytes\<close>.\<close>

definition new_uuid :: "uuid tx" where
  "new_uuid = (\<lambda>s. (Inr (uuid_src s (uuid_next s)), s\<lparr>uuid_next := Suc (uuid_next s)\<rparr>))"

definition fill_bytes :: "nat \<Rightarrow> (u8 list) tx" where
  "fill_bytes n = (\<lambda>s. (Inr (map (rand_src s (rand_next s)) [0..<n]),
                         s\<lparr>rand_next := Suc (rand_next s)\<rparr>))"

definition expect :: "'a option \<Rightarrow> string \<Rightarrow> 'a tx" where
  "expect x why = lift (ok_or x (Panicked why))"

definition dom :: "domain_error + 'a \<Rightarrow> 'a tx" where
  "dom r = lift (map_err Domain r)"

definition found :: "'a option \<Rightarrow> 'a tx" where
  "found x = lift (ok_or x NotFound)"

definition append_event :: "user_id set \<Rightarrow> event_kind \<Rightarrow> payload \<Rightarrow> datetime \<Rightarrow> unit tx" where
  "append_event recipients kind payload now =
     bnd (modify (\<lambda>s. s\<lparr>st_cursor := sat_add (st_cursor s) 1\<rparr>)) (\<lambda>_.
     bnd new_uuid (\<lambda>fresh.
     modify (\<lambda>s. s\<lparr>st_events := st_events s @
       [\<lparr>ue_recipients = recipients,
         ue_event = \<lparr>ev_id = fresh, ev_cursor = st_cursor s, ev_kind = kind,
                     ev_payload = payload, ev_created_at = now\<rparr>\<rparr>]\<rparr>)))"

section \<open>The service and its transactions\<close>

record typing_signal =
  ts_conversation_id :: conversation_id
  ts_user_id :: user_id
  ts_active :: bool
  ts_expires_at :: datetime

record call_signal_delivery =
  cd_conversation_id :: conversation_id
  cd_call_id :: uuid
  cd_from_user_id :: user_id
  cd_signal :: call_signal

record call_room =
  room_participants :: "user_id set"
  room_expires_at :: datetime

record database =
  db_accepts :: "nat \<Rightarrow> bool"
  db_writes :: nat
  db_snapshot :: "store option"

text \<open>The three broadcast channels are the lists of what was sent on them.\<close>

record service =
  svc_txn :: txn
  svc_events :: "(user_id set \<times> event) list"
  svc_typing :: "(user_id list \<times> typing_signal) list"
  svc_calls :: "(user_id list \<times> call_signal_delivery) list"
  svc_connections :: "(user_id, u64) hashmap"
  svc_qr_logins :: "(uuid, qr_login_challenge) hashmap"
  svc_call_rooms :: "(conversation_id \<times> uuid, call_room) hashmap"
  svc_data_encryption_key :: "u8 list"
  svc_database :: "database option"

type_synonym 'a svc = "(service, application_error, 'a) eff"

text \<open>\<open>*store = previous\<close>; UUIDs and random bytes already drawn stay drawn.\<close>

definition restore :: "txn \<Rightarrow> txn \<Rightarrow> txn" where
  "restore previous s = previous\<lparr>uuid_next := uuid_next s, rand_next := rand_next s\<rparr>"

definition published :: "nat \<Rightarrow> txn \<Rightarrow> (user_id set \<times> event) list" where
  "published first_new_event s =
     map (\<lambda>entry. (ue_recipients entry, ue_event entry)) (drop first_new_event (st_events s))"

definition mutate :: "'a tx \<Rightarrow> 'a svc" where
  "mutate operation = (\<lambda>sv.
     let previous = svc_txn sv; first_new_event = length (st_events previous)
     in case operation previous of
          (Inl (Panicked why), s) \<Rightarrow> (Inl (Panicked why), sv\<lparr>svc_txn := s\<rparr>)
        | (Inl error, s) \<Rightarrow> (Inl error, sv\<lparr>svc_txn := restore previous s\<rparr>)
        | (Inr result, s) \<Rightarrow>
            let sent = svc_events sv @ published first_new_event s
            in case svc_database sv of
                 None \<Rightarrow> (Inr result, sv\<lparr>svc_txn := s, svc_events := sent\<rparr>)
               | Some db \<Rightarrow>
                   if db_accepts db (db_writes db)
                   then (Inr result,
                         sv\<lparr>svc_txn := s, svc_events := sent,
                            svc_database := Some (db\<lparr>db_writes := Suc (db_writes db),
                              db_snapshot := Some (store.truncate s)\<rparr>)\<rparr>)
                   else (Inl Storage,
                         sv\<lparr>svc_txn := restore previous s,
                            svc_database := Some (db\<lparr>db_writes := Suc (db_writes db)\<rparr>)\<rparr>))"

definition checked :: "domain_error + unit \<Rightarrow> unit svc" where
  "checked r = lift (map_err Domain r)"

text \<open>Identifiers, salts and nonces that a method draws before it enters \<open>mutate\<close>.\<close>

definition drawing :: "'a tx \<Rightarrow> 'a svc" where
  "drawing operation = (\<lambda>sv. case operation (svc_txn sv) of (r, s) \<Rightarrow> (r, sv\<lparr>svc_txn := s\<rparr>))"

text \<open>\<open>ChatService::new\<close> and \<open>ChatService::postgres\<close>.\<close>

definition derive_encryption_key :: "crypto \<Rightarrow> rstr \<Rightarrow> u8 list" where
  "derive_encryption_key C secret = c_sha256 C (utf8 secret)"

definition service_of ::
  "crypto \<Rightarrow> (nat \<Rightarrow> uuid) \<Rightarrow> (nat \<Rightarrow> nat \<Rightarrow> u8) \<Rightarrow> store \<Rightarrow> database option \<Rightarrow> service" where
  "service_of C uuids rands st db = \<lparr>
     svc_txn = store.extend st (txn.fields uuids 0 rands 0),
     svc_events = [], svc_typing = [], svc_calls = [], svc_connections = [],
     svc_qr_logins = [], svc_call_rooms = [],
     svc_data_encryption_key =
       derive_encryption_key C (lit ''iamrust-development-only-encryption-key''),
     svc_database = db\<rparr>"

definition service_new :: "crypto \<Rightarrow> (nat \<Rightarrow> uuid) \<Rightarrow> (nat \<Rightarrow> nat \<Rightarrow> u8) \<Rightarrow> service" where
  "service_new C uuids rands = service_of C uuids rands default_store None"

definition service_postgres ::
  "crypto \<Rightarrow> (nat \<Rightarrow> uuid) \<Rightarrow> (nat \<Rightarrow> nat \<Rightarrow> u8) \<Rightarrow> database \<Rightarrow> service" where
  "service_postgres C uuids rands db =
     service_of C uuids rands
       (case db_snapshot db of None \<Rightarrow> default_store | Some st \<Rightarrow> st) (Some db)"

definition with_data_encryption_key :: "crypto \<Rightarrow> rstr \<Rightarrow> service \<Rightarrow> service" where
  "with_data_encryption_key C secret sv =
     sv\<lparr>svc_data_encryption_key := derive_encryption_key C secret\<rparr>"

end
