(* ===== verification/Transactions.thy ===== *)
theory Transactions
  imports Store
begin

text \<open>
  What \<open>mutate\<close> promises: all or nothing on the store, publication of exactly the events the
  operation appended, a database row that always equals the committed store, and the lifting of a
  store invariant from operations to the service.

  \<open>progress\<close> is what every operation of the service guarantees about the state before and after it:
  events and messages are only appended, and neither a used refresh token nor a sent message's
  client identifier is forgotten.
\<close>

section \<open>Two states of a service compared\<close>

abbreviation stored :: "service \<Rightarrow> store" where
  "stored sv \<equiv> store.truncate (svc_txn sv)"

lemma truncate_restore [simp]: "store.truncate (restore p s) = store.truncate p"
  by (simp add: restore_def store.defs)

lemma mutate_cases:
  obtains (panicked) e s where "operation (svc_txn sv) = (Inl e, s)" "is_panic e"
      "mutate operation sv = (Inl e, sv\<lparr>svc_txn := s\<rparr>)"
  | (failed) e s where "operation (svc_txn sv) = (Inl e, s)" "\<not> is_panic e"
      "mutate operation sv = (Inl e, sv\<lparr>svc_txn := restore (svc_txn sv) s\<rparr>)"
  | (unsaved) r s db where "operation (svc_txn sv) = (Inr r, s)" "svc_database sv = Some db"
      "\<not> db_accepts db (db_writes db)"
      "mutate operation sv = (Inl Storage,
         sv\<lparr>svc_txn := restore (svc_txn sv) s,
            svc_database := Some (db\<lparr>db_writes := Suc (db_writes db)\<rparr>)\<rparr>)"
  | (volatile) r s where "operation (svc_txn sv) = (Inr r, s)" "svc_database sv = None"
      "mutate operation sv = (Inr r, sv\<lparr>svc_txn := s,
         svc_events := svc_events sv @ published (length (st_events (svc_txn sv))) s\<rparr>)"
  | (saved) r s db where "operation (svc_txn sv) = (Inr r, s)" "svc_database sv = Some db"
      "db_accepts db (db_writes db)"
      "mutate operation sv = (Inr r, sv\<lparr>svc_txn := s,
         svc_events := svc_events sv @ published (length (st_events (svc_txn sv))) s,
         svc_database := Some (db\<lparr>db_writes := Suc (db_writes db),
           db_snapshot := Some (store.truncate s)\<rparr>)\<rparr>)"
proof (cases "operation (svc_txn sv)")
  case (Pair res s)
  show thesis
  proof (cases res)
    case (Inl e)
    with Pair have run: "operation (svc_txn sv) = (Inl e, s)" by simp
    show ?thesis
    proof (cases "is_panic e")
      case True
      then have "mutate operation sv = (Inl e, sv\<lparr>svc_txn := s\<rparr>)"
        using run by (cases e) (simp_all add: mutate_def Let_def)
      with run True show ?thesis by (rule panicked)
    next
      case False
      then have "mutate operation sv = (Inl e, sv\<lparr>svc_txn := restore (svc_txn sv) s\<rparr>)"
        using run by (cases e) (simp_all add: mutate_def Let_def)
      with run False show ?thesis by (rule failed)
    qed
  next
    case (Inr r)
    show ?thesis
    proof (cases "svc_database sv")
      case None
      with Pair Inr show ?thesis by (intro volatile) (simp_all add: mutate_def Let_def)
    next
      case (Some db)
      show ?thesis
      proof (cases "db_accepts db (db_writes db)")
        case True
        with Pair Inr Some show ?thesis by (intro saved) (simp_all add: mutate_def Let_def)
      next
        case False
        with Pair Inr Some show ?thesis by (intro unsaved) (simp_all add: mutate_def Let_def)
      qed
    qed
  qed
qed

lemma mutate_InrD:
  assumes "mutate operation sv = (Inr r, sv')"
  shows "operation (svc_txn sv) = (Inr r, svc_txn sv')"
    and "svc_events sv' = svc_events sv @ published (length (st_events (svc_txn sv))) (svc_txn sv')"
  using assms by (cases operation sv rule: mutate_cases; auto)+

lemma mutate_InlD:
  assumes "mutate operation sv = (Inl e, sv')" "\<not> is_panic e"
  shows "stored sv' = stored sv" and "svc_events sv' = svc_events sv"
  using assms by (cases operation sv rule: mutate_cases; auto)+

lemma mutate_frame:
  assumes "mutate operation sv = (r, sv')"
  shows "svc_typing sv' = svc_typing sv" "svc_calls sv' = svc_calls sv"
    "svc_connections sv' = svc_connections sv" "svc_qr_logins sv' = svc_qr_logins sv"
    "svc_call_rooms sv' = svc_call_rooms sv"
    "svc_data_encryption_key sv' = svc_data_encryption_key sv"
  using assms by (cases operation sv rule: mutate_cases; auto)+

section \<open>Atomicity, publication, durability\<close>

text \<open>C1. A write operation that fails without panicking, whether by its own error or because the database refused
  the snapshot, leaves the stored state as it was, publishes no event and leaves the snapshot row
  untouched; the operation itself is arbitrary and may have written before it failed.\<close>

theorem mutate_atomic:
  assumes "mutate operation sv = (Inl e, sv')" and "\<not> is_panic e"
  shows "stored sv' = stored sv \<and> svc_events sv' = svc_events sv
    \<and> map_option db_snapshot (svc_database sv') = map_option db_snapshot (svc_database sv)"
  using assms by (cases operation sv rule: mutate_cases) auto

definition durable :: "service \<Rightarrow> bool" where
  "durable sv \<longleftrightarrow> (case svc_database sv of None \<Rightarrow> True
     | Some db \<Rightarrow> (case db_snapshot db of None \<Rightarrow> stored sv = default_store
                    | Some st \<Rightarrow> st = stored sv))"

lemma mutate_durable:
  assumes "durable sv" and "\<And>e s. operation (svc_txn sv) = (Inl e, s) \<Longrightarrow> \<not> is_panic e"
  shows "durable (snd (mutate operation sv))"
  using assms by (cases operation sv rule: mutate_cases) (auto simp: durable_def split: option.splits)

lemma truncate_service_of [simp]: "stored (service_of C u r st db) = st"
  by (simp add: service_of_def store.defs txn.defs)

section \<open>Progress of the event log\<close>

text \<open>
  \<open>cursors_from c us c'\<close>: the events \<open>us\<close> carry the cursors that follow \<open>c\<close>, the last one being
  \<open>c'\<close>.  \<open>progress\<close> relates two states between which events were only appended, by the rule of
  \<open>append_event\<close>, and fresh UUIDs were only drawn.
\<close>

fun cursors_from :: "u64 \<Rightarrow> user_event list \<Rightarrow> u64 \<Rightarrow> bool" where
  "cursors_from c [] c' \<longleftrightarrow> c' = c"
| "cursors_from c (u # us) c' \<longleftrightarrow>
     ev_cursor (ue_event u) = sat_add c 1 \<and> cursors_from (sat_add c 1) us c'"

lemma cursors_from_append:
  "cursors_from c us c' \<Longrightarrow> cursors_from c' vs c'' \<Longrightarrow> cursors_from c (us @ vs) c''"
  by (induction us arbitrary: c) auto

text \<open>
  \<open>history cid ms ms'\<close>: the messages of a conversation were only appended to.  A message that was
  there keeps its place and everything but its status, content and edit time (\<open>fixed\<close>), and each
  new one carries the sequence number after its predecessor's, computed with the \<open>+ 1\<close> or the
  \<open>saturating_add(1)\<close> of the code.
\<close>

definition messages_of :: "'z store_scheme \<Rightarrow> conversation_id \<Rightarrow> message list" where
  "messages_of s cid = (case hm_get cid (st_messages s) of None \<Rightarrow> [] | Some ms \<Rightarrow> ms)"

definition fixed :: "message \<Rightarrow> message" where
  "fixed m = m\<lparr>msg_status := Sent, msg_content := CText [], msg_edited_at := None\<rparr>"

definition sequence_after :: "u64 \<Rightarrow> message list \<Rightarrow> u64" where
  "sequence_after q ms =
     (if ms = [] then q else case msg_sequence (last ms) of None \<Rightarrow> 0 | Some p \<Rightarrow> p)"

text \<open>\<open>messages.last().and_then(|message| message.sequence).unwrap_or_default()\<close>\<close>

definition last_sequence :: "'z store_scheme \<Rightarrow> conversation_id \<Rightarrow> u64" where
  "last_sequence s cid = sequence_after 0 (messages_of s cid)"

fun numbered :: "conversation_id \<Rightarrow> u64 \<Rightarrow> message list \<Rightarrow> bool" where
  "numbered cid q [] \<longleftrightarrow> True"
| "numbered cid q (m # ms) \<longleftrightarrow> msg_conversation_id m = cid
     \<and> (msg_sequence m = Some (q + 1) \<or> msg_sequence m = Some (sat_add q 1))
     \<and> numbered cid (sequence_after q [m]) ms"

definition history :: "conversation_id \<Rightarrow> message list \<Rightarrow> message list \<Rightarrow> bool" where
  "history cid ms ms' \<longleftrightarrow> (\<exists>new. map fixed ms' = map fixed (ms @ new)
     \<and> numbered cid (sequence_after 0 ms) new)"

lemma fixed_frame [simp]:
  "msg_sequence (fixed m) = msg_sequence m" "msg_conversation_id (fixed m) = msg_conversation_id m"
  "msg_id (fixed m) = msg_id m"
  by (simp_all add: fixed_def)

lemma sequence_after_append [simp]:
  "sequence_after q (ms @ ms') = sequence_after (sequence_after q ms) ms'"
  by (simp add: sequence_after_def)

lemma sequence_after_fixed: "map fixed ms = map fixed ms' \<Longrightarrow> sequence_after q ms = sequence_after q ms'"
  by (metis (no_types, lifting) sequence_after_def fixed_frame(1) last_map map_is_Nil_conv)

lemma numbered_append [simp]:
  "numbered cid q (ms @ ms') \<longleftrightarrow> numbered cid q ms \<and> numbered cid (sequence_after q ms) ms'"
proof (induction ms arbitrary: q)
  case (Cons m ms)
  have "sequence_after q (m # ms) = sequence_after (sequence_after q [m]) ms"
    using sequence_after_append [of q "[m]" ms] by simp
  with Cons show ?case by auto
qed (simp add: sequence_after_def)

lemma history_refl [simp]: "history cid ms ms"
  by (auto simp: history_def intro: exI [of _ "[]"])

lemma history_trans:
  assumes "history cid ms ms'" "history cid ms' ms''"
  shows "history cid ms ms''"
proof -
  from assms obtain new new' where
    n: "map fixed ms' = map fixed (ms @ new)" "numbered cid (sequence_after 0 ms) new" and
    n': "map fixed ms'' = map fixed (ms' @ new')" "numbered cid (sequence_after 0 ms') new'"
    unfolding history_def by blast
  from sequence_after_fixed [OF n(1)] n n'
  have "map fixed ms'' = map fixed (ms @ (new @ new'))" "numbered cid (sequence_after 0 ms) (new @ new')"
    by simp_all
  then show ?thesis unfolding history_def by blast
qed

lemma history_same_fixed: "map fixed ms' = map fixed ms \<Longrightarrow> history cid ms ms'"
  by (auto simp: history_def intro: exI [of _ "[]"])

lemma history_snoc:
  "msg_conversation_id m = cid \<Longrightarrow> msg_sequence m = Some (sequence_after 0 ms + 1)
    \<or> msg_sequence m = Some (sat_add (sequence_after 0 ms) 1) \<Longrightarrow> history cid ms (ms @ [m])"
  unfolding history_def by (rule exI [of _ "[m]"]) simp

text \<open>What was sent under a client identifier is remembered, unless the identifier is one of the UUIDs
  the server itself draws.\<close>

definition sent_kept :: "txn \<Rightarrow> txn \<Rightarrow> bool" where
  "sent_kept s s' \<longleftrightarrow> (\<forall>u i v. i \<notin> range (uuid_src s) \<longrightarrow>
     hm_get (u, MessageId i) (st_message_dedup s) = Some v \<longrightarrow>
     hm_get (u, MessageId i) (st_message_dedup s') = Some v)"

lemma sent_kept_same [simp]: "st_message_dedup s' = st_message_dedup s \<Longrightarrow> sent_kept s s'"
  by (simp add: sent_kept_def)

lemma sent_kept_trans:
  "sent_kept s t \<Longrightarrow> sent_kept t u \<Longrightarrow> uuid_src t = uuid_src s \<Longrightarrow> sent_kept s u"
  by (simp add: sent_kept_def)

definition progress :: "txn \<Rightarrow> txn \<Rightarrow> bool" where
  "progress s s' \<longleftrightarrow>
     (\<exists>new. st_events s' = st_events s @ new \<and> cursors_from (st_cursor s) new (st_cursor s'))
     \<and> uuid_src s' = uuid_src s \<and> uuid_next s \<le> uuid_next s'
     \<and> (hm_wf (st_messages s) \<longrightarrow> hm_wf (st_messages s'))
     \<and> (\<forall>cid. history cid (messages_of s cid) (messages_of s' cid))
     \<and> (\<forall>h. hm_contains h (st_consumed_refresh_tokens s) \<longrightarrow>
             hm_contains h (st_consumed_refresh_tokens s'))
     \<and> sent_kept s s'"

lemma progress_trans: "progress s t \<Longrightarrow> progress t u \<Longrightarrow> progress s u"
  unfolding progress_def by (fastforce intro: cursors_from_append history_trans sent_kept_trans)

interpretation progress: effect_preorder progress
  by unfold_locales (simp add: progress_def, rule progress_trans)

lemma progress_same [simp]:
  "st_events s' = st_events s \<Longrightarrow> st_cursor s' = st_cursor s \<Longrightarrow> uuid_src s' = uuid_src s
    \<Longrightarrow> uuid_next s' = uuid_next s \<Longrightarrow> st_messages s' = st_messages s
    \<Longrightarrow> st_consumed_refresh_tokens s' = st_consumed_refresh_tokens s
    \<Longrightarrow> st_message_dedup s' = st_message_dedup s \<Longrightarrow> progress s s'"
  by (simp add: progress_def messages_of_def)

text \<open>Stepping through an operation in a known state.\<close>

lemma progress_then: "progress s s' \<Longrightarrow> guar progress m \<Longrightarrow> progress s (snd (m s'))"
  by (metis guar_def progress_trans)

lemma progress_step_lift:
  "(\<And>x. r = Inr x \<Longrightarrow> progress s (snd (f x s))) \<Longrightarrow> progress s (snd (bnd (lift r) f s))"
  by (cases r) (auto intro: progress.refl)

lemma progress_step_dom:
  "(\<And>x. r = Inr x \<Longrightarrow> progress s (snd (f x s))) \<Longrightarrow> progress s (snd (bnd (dom r) f s))"
  unfolding dom_def by (rule progress_step_lift) simp

lemma progress_step_uuid:
  assumes "progress (s\<lparr>uuid_next := Suc (uuid_next s)\<rparr>)
    (snd (f (uuid_src s (uuid_next s)) (s\<lparr>uuid_next := Suc (uuid_next s)\<rparr>)))"
  shows "progress s (snd (bnd new_uuid f s))"
proof -
  have "progress s (s\<lparr>uuid_next := Suc (uuid_next s)\<rparr>)" by (simp add: progress_def messages_of_def)
  with assms show ?thesis by (auto simp: new_uuid_def bnd_def intro: progress_trans)
qed

lemma append_event_run:
  "append_event rs k p now s =
     (Inr (), s\<lparr>st_cursor := sat_add (st_cursor s) 1, uuid_next := Suc (uuid_next s),
       st_events := st_events s @ [\<lparr>ue_recipients = rs, ue_event = \<lparr>ev_id = uuid_src s (uuid_next s),
         ev_cursor = sat_add (st_cursor s) 1, ev_kind = k, ev_payload = p, ev_created_at = now\<rparr>\<rparr>]\<rparr>)"
  by (simp add: append_event_def new_uuid_def bnd_def modify_def)

lemma progress_basic [guar_intros]:
  "guar progress (append_event rs k p now)" "guar progress new_uuid" "guar progress (fill_bytes n)"
  "guar progress (dom r)" "guar progress (found x)"
  "guar progress (expect x why)"
  by (auto simp: guar_def append_event_run new_uuid_def fill_bytes_def progress_def dom_def found_def expect_def
      messages_of_def)


section \<open>Lifting to the service\<close>

text \<open>
  A relation or invariant of the store that does not depend on how many random values were drawn
  carries over from an operation to the transaction that runs it: \<open>tx_guar\<close> states it for
  progress, \<open>store_invariant\<close> is the interface for invariants.
\<close>

text \<open>What is broadcast meanwhile is taken from what the log has gained.\<close>

definition broadcasts_new :: "service \<Rightarrow> service \<Rightarrow> bool" where
  "broadcasts_new sv sv' \<longleftrightarrow> (\<exists>sent. svc_events sv' = svc_events sv @ sent
     \<and> set sent \<subseteq> set (published (length (st_events (svc_txn sv))) (svc_txn sv')))"

definition svc_progress :: "service \<Rightarrow> service \<Rightarrow> bool" where
  "svc_progress sv sv' \<longleftrightarrow> progress (svc_txn sv) (svc_txn sv') \<and> broadcasts_new sv sv'"

lemma broadcasts_none: "svc_events sv' = svc_events sv \<Longrightarrow> broadcasts_new sv sv'"
  by (simp add: broadcasts_new_def)

lemma broadcasts_new_trans:
  assumes "broadcasts_new sv sv'" "broadcasts_new sv' sv''"
    and "progress (svc_txn sv) (svc_txn sv')" "progress (svc_txn sv') (svc_txn sv'')"
  shows "broadcasts_new sv sv''"
proof -
  obtain a b where "st_events (svc_txn sv') = st_events (svc_txn sv) @ a"
    "st_events (svc_txn sv'') = st_events (svc_txn sv') @ b"
    using assms(3,4) unfolding progress_def by blast
  then have "set (published (length (st_events (svc_txn sv))) (svc_txn sv')) \<union>
      set (published (length (st_events (svc_txn sv'))) (svc_txn sv''))
    \<subseteq> set (published (length (st_events (svc_txn sv))) (svc_txn sv''))"
    by (auto simp: published_def)
  with assms(1,2) show ?thesis by (fastforce simp: broadcasts_new_def)
qed

lemma svc_progress_same [simp]:
  "svc_txn sv' = svc_txn sv \<Longrightarrow> svc_events sv' = svc_events sv \<Longrightarrow> svc_progress sv sv'"
  by (simp add: svc_progress_def progress.refl broadcasts_none)

lemma progress_restore: "progress s s' \<Longrightarrow> progress s (restore s s')"
  by (auto simp: progress_def restore_def messages_of_def)

lemma mutate_progress [guar_intros]:
  assumes g: "guar progress operation"
  shows "guar svc_progress (mutate operation)"
proof (rule guarI)
  fix sv :: service
  have "progress (svc_txn sv) (svc_txn (snd (mutate operation sv)))"
    by (cases operation sv rule: mutate_cases) (use guarD [OF g] in \<open>auto intro: progress_restore\<close>)
  moreover have "broadcasts_new sv (snd (mutate operation sv))"
    by (cases operation sv rule: mutate_cases) (auto simp: broadcasts_new_def)
  ultimately show "svc_progress sv (snd (mutate operation sv))" by (simp add: svc_progress_def)
qed

interpretation svc_progress: effect_preorder svc_progress
  by unfold_locales (auto simp: svc_progress_def progress.refl intro: progress_trans broadcasts_new_trans broadcasts_none)

lemma svc_progress_checked [guar_intros]: "guar svc_progress (checked r)"
  unfolding checked_def by (intro guar_intros)

lemma svc_progress_drawing [guar_intros]: "guar progress m \<Longrightarrow> guar svc_progress (drawing m)"
  by (auto intro!: guarI broadcasts_none dest: guarD simp: svc_progress_def drawing_def split: prod.split)

locale store_invariant =
  fixes I :: "txn \<Rightarrow> bool"
  assumes counters: "I s \<Longrightarrow> uuid_next s \<le> n \<Longrightarrow> I (s\<lparr>uuid_next := n, rand_next := k\<rparr>)"
begin

lemma mutate_pres:
  assumes p: "pres I operation" and g: "guar progress operation"
  shows "pres (\<lambda>sv. I (svc_txn sv)) (mutate operation)"
proof (rule presI)
  fix sv :: service assume i: "I (svc_txn sv)"
  have "I (restore (svc_txn sv) s)" if "operation (svc_txn sv) = (r, s)" for r s
    using counters [OF i] guarD [OF g that] by (simp add: restore_def progress_def)
  then show "I (svc_txn (snd (mutate operation sv)))"
    using presD [OF p i] by (cases operation sv rule: mutate_cases) auto
qed

lemma mutate_result:
  assumes "wp operation (\<lambda>_. I) (svc_txn sv)" "mutate operation sv = (Inr r, sv')"
  shows "I (svc_txn sv')"
  using wpD [OF assms(1) mutate_InrD(1) [OF assms(2)]] .

end

section \<open>The cursors of the log\<close>

definition cursor_at :: "nat \<Rightarrow> u64" where
  "cursor_at n = word_of_nat (min n (2 ^ 64 - 1))"

definition log_ok :: "txn \<Rightarrow> bool" where
  "log_ok s \<longleftrightarrow> cursors_from 0 (st_events s) (st_cursor s)"

lemma progress_log_ok: "progress s s' \<Longrightarrow> log_ok s \<Longrightarrow> log_ok s'"
  by (auto simp: progress_def log_ok_def intro: cursors_from_append)

lemma guar_progress_log_ok: "guar progress m \<Longrightarrow> pres log_ok m"
  by (auto simp: guar_def pres_def intro: progress_log_ok)

interpretation log_inv: store_invariant log_ok
  by unfold_locales (simp add: log_ok_def)

lemma unat_cursor_at: "unat (cursor_at n) = min n (2 ^ 64 - 1)"
  by (simp add: cursor_at_def unat_of_nat)

lemma cursor_at_Suc: "sat_add (cursor_at n) 1 = cursor_at (Suc n)"
proof -
  have "unat (sat_add (cursor_at n) 1) = unat (cursor_at (Suc n))"
    by (simp only: unat_sat_add unat_cursor_at) simp
  then show ?thesis by (simp only: word_unat_eq_iff)
qed

lemma cursors_from_at:
  "cursors_from (cursor_at k) us c' \<longleftrightarrow>
     c' = cursor_at (k + length us) \<and> map (ev_cursor \<circ> ue_event) us = map cursor_at [Suc k..<Suc (k + length us)]"
proof (induction us arbitrary: k)
  case (Cons u us)
  show ?case
    using Cons.IH [of "Suc k"] by (auto simp: cursor_at_Suc upt_conv_Cons simp del: upt_Suc)
qed simp

lemma log_ok_iff:
  "log_ok s \<longleftrightarrow> st_cursor s = cursor_at (length (st_events s))
     \<and> map (ev_cursor \<circ> ue_event) (st_events s) = map cursor_at [1..<Suc (length (st_events s))]"
proof -
  have "cursor_at 0 = 0" by (simp add: cursor_at_def)
  then show ?thesis using cursors_from_at [of 0 "st_events s" "st_cursor s"] by (simp add: log_ok_def)
qed

lemma log_sorted:
  assumes "log_ok s" "length (st_events s) < 2 ^ 64"
  shows "sorted_wrt (<) (map (ev_cursor \<circ> ue_event) (st_events s))"
proof -
  have "cursor_at i < cursor_at j" if "i < j" "j < 2 ^ 64" for i j
    using that by (simp add: word_less_nat_alt unat_cursor_at)
  then have "sorted_wrt (\<lambda>i j. cursor_at i < cursor_at j) [1..<Suc (length (st_events s))]"
    using assms(2) by (intro sorted_wrt_mono_rel [OF _ sorted_wrt_upt]) auto
  then have "sorted_wrt (<) (map cursor_at [1..<Suc (length (st_events s))])"
    by (simp only: sorted_wrt_map)
  with assms(1) show ?thesis by (simp only: log_ok_iff)
qed

end
