(* ===== verification/Service_Core.thy ===== *)
theory Service_Core
  imports Transactions
begin

text \<open>
  The helper functions of \<open>crates/application/src/service.rs\<close> that several components share:
  membership and role checks, the message list of a conversation, system messages, settings,
  friendship tests, the profile a viewer may see, and profile events.

  String literals outside ASCII are lists of scalar values with the source text beside them.
\<close>

section \<open>Membership checks\<close>

definition ensure_group :: "conversation \<Rightarrow> application_error + unit" where
  "ensure_group c = err_if (\<not> is_group c) NotFound"

definition require_member :: "conversation \<Rightarrow> user_id \<Rightarrow> application_error + conversation_member" where
  "require_member c u = ok_or (bt_get u (conv_members c)) forbidden"

definition require_role_at_least ::
  "conversation \<Rightarrow> user_id \<Rightarrow> member_role \<Rightarrow> application_error + unit" where
  "require_role_at_least c u minimum =
     and_then (require_member c u) (\<lambda>m. err_if (mem_role m < minimum) forbidden)"

lemma ensure_group_Inr [simp]: "ensure_group c = Inr u \<longleftrightarrow> is_group c"
  by (simp add: ensure_group_def)

lemma require_member_Inr [simp]: "require_member c u = Inr m \<longleftrightarrow> bt_get u (conv_members c) = Some m"
  by (simp add: require_member_def)

lemma require_role_Inr [simp]:
  "require_role_at_least c u r = Inr x \<longleftrightarrow>
     (\<exists>m. bt_get u (conv_members c) = Some m \<and> r \<le> mem_role m)"
  by (auto simp: require_role_at_least_def not_less)

text \<open>\<open>conversation.members.keys().copied().collect()\<close>\<close>

definition member_ids :: "conversation \<Rightarrow> user_id list" where
  "member_ids c = bt_keys (conv_members c)"

section \<open>Reading the store\<close>

definition get_conversation :: "conversation_id \<Rightarrow> conversation tx" where
  "get_conversation cid = bnd (gets (\<lambda>s. hm_get cid (st_conversations s))) found"

definition put_conversation :: "conversation_id \<Rightarrow> conversation \<Rightarrow> unit tx" where
  "put_conversation cid c = modify (\<lambda>s. s\<lparr>st_conversations := hm_insert cid c (st_conversations s)\<rparr>)"

definition are_friends :: "'z store_scheme \<Rightarrow> user_id \<Rightarrow> user_id \<Rightarrow> bool" where
  "are_friends s a b \<longleftrightarrow>
     list_ex (\<lambda>f. friendship_contains f a \<and> friendship_contains f b) (st_friendships s)"

definition default_conversation_settings :: "conversation_id \<Rightarrow> conversation_settings" where
  "default_conversation_settings cid = \<lparr>cs_conversation_id = cid, cs_pinned = False,
     cs_muted = False, cs_hidden = False, cs_manually_unread = False, cs_last_read_sequence = 0,
     cs_draft = [], cs_label = None\<rparr>"

definition conversation_for_user :: "conversation \<Rightarrow> user_id \<Rightarrow> conversation" where
  "conversation_for_user c u =
     (if is_group c then c
      else case find (\<lambda>m. m \<noteq> u) (member_ids c) of
             None \<Rightarrow> c
           | Some peer \<Rightarrow> c\<lparr>conv_kind := Direct peer\<rparr>)"

definition store_conversation :: "conversation \<Rightarrow> unit tx" where
  "store_conversation c = modify (\<lambda>s. s\<lparr>
     st_conversation_settings :=
       fold (\<lambda>u. hm_or_insert (u, conv_id c) (default_conversation_settings (conv_id c)))
         (member_ids c) (st_conversation_settings s),
     st_conversations := hm_insert (conv_id c) c (st_conversations s)\<rparr>)"

definition find_message :: "'z store_scheme \<Rightarrow> message_id \<Rightarrow> message option" where
  "find_message s mid = find (\<lambda>m. msg_id m = mid) (concat (hm_values (st_messages s)))"

lemma find_message_SomeD: "find_message s mid = Some m \<Longrightarrow> msg_id m = mid"
  by (auto simp: find_message_def find_Some_iff)

definition normalize_optional :: "rstr option \<Rightarrow> rstr option" where
  "normalize_optional v = (case v of None \<Rightarrow> None | Some w \<Rightarrow> some_non_empty w)"

section \<open>Writing messages\<close>

definition push_message :: "conversation_id \<Rightarrow> message \<Rightarrow> unit tx" where
  "push_message cid m =
     modify (\<lambda>s. s\<lparr>st_messages := hm_upd_default cid [] (\<lambda>ms. ms @ [m]) (st_messages s)\<rparr>)"

definition touch_conversation :: "conversation_id \<Rightarrow> datetime \<Rightarrow> unit tx" where
  "touch_conversation cid now = modify (\<lambda>s.
     case hm_get cid (st_conversations s) of
       None \<Rightarrow> s
     | Some c \<Rightarrow> s\<lparr>st_conversations := hm_insert cid (c\<lparr>conv_updated_at := now\<rparr>) (st_conversations s)\<rparr>)"

definition append_system_message ::
  "conversation_id \<Rightarrow> user_id \<Rightarrow> rstr \<Rightarrow> datetime \<Rightarrow> message tx" where
  "append_system_message cid actor text now =
     bnd (get_conversation cid) (\<lambda>c.
     bnd (gets (\<lambda>s. last_sequence s cid + 1)) (\<lambda>sequence.
     bnd new_uuid (\<lambda>client_message_id.
     bnd new_uuid (\<lambda>fresh.
     bnd (dom (message_pending (MessageId fresh) (MessageId client_message_id) cid actor
                (CSystem text) now)) (\<lambda>pending.
     bnd (dom (mark_sent sequence now pending)) (\<lambda>message.
     bnd (push_message cid message) (\<lambda>_.
     bnd (touch_conversation cid now) (\<lambda>_.
     bnd (append_event (set (member_ids c)) MessageCreated (PMessage message) now) (\<lambda>_.
     ret message)))))))))"

section \<open>Profiles\<close>

definition live_account :: "'z store_scheme \<Rightarrow> user_id \<Rightarrow> account option" where
  "live_account s u = (case hm_get u (st_accounts s) of
     None \<Rightarrow> None | Some a \<Rightarrow> if acc_deleted_at a = None then Some a else None)"

definition privacy_of :: "'z store_scheme \<Rightarrow> user_id \<Rightarrow> profile_privacy_settings" where
  "privacy_of s u = (case hm_get u (st_profile_privacy s) of
     None \<Rightarrow> default_privacy | Some p \<Rightarrow> p)"

fun can_view :: "'z store_scheme \<Rightarrow> user_id \<Rightarrow> user_id \<Rightarrow> profile_visibility \<Rightarrow> bool" where
  "can_view s viewer target Everyone = True"
| "can_view s viewer target Friends = are_friends s viewer target"
| "can_view s viewer target Nobody = False"

definition visible_profile :: "'z store_scheme \<Rightarrow> user_id \<Rightarrow> user_id \<Rightarrow> user_profile option" where
  "visible_profile s viewer target =
     (case live_account s target of
        None \<Rightarrow> None
      | Some account \<Rightarrow>
          let profile = acc_profile account in
          if viewer = target then Some profile
          else
            let privacy = privacy_of s target;
                see = can_view s viewer target;
                profile = (if see (pps_gender_visibility privacy) then profile
                           else profile\<lparr>prof_gender := None\<rparr>);
                profile = (if see (pps_birthday_visibility privacy) then profile
                           else profile\<lparr>prof_birthday := None\<rparr>);
                profile = (if see (pps_region_visibility privacy) then profile
                           else profile\<lparr>prof_region := None\<rparr>);
                friend_setting_hides_presence =
                  (case hm_get (target, viewer) (st_friend_settings s) of
                     None \<Rightarrow> False | Some settings \<Rightarrow> \<not> fset_share_presence settings)
            in Some (if prof_presence profile = Invisible
                        \<or> \<not> see (pps_presence_visibility privacy)
                        \<or> friend_setting_hides_presence
                     then profile\<lparr>prof_presence := Offline, prof_last_seen_at := None\<rparr>
                     else profile))"

text \<open>The other user of each of \<open>actor\<close>'s friendships, in the order of the list.\<close>

definition other_user :: "user_id \<Rightarrow> friendship \<Rightarrow> user_id" where
  "other_user u f = (if fs_lower_user_id f = u then fs_upper_user_id f else fs_lower_user_id f)"

definition friend_ids :: "'z store_scheme \<Rightarrow> user_id \<Rightarrow> user_id list" where
  "friend_ids s u = map (other_user u) (filter (\<lambda>f. friendship_contains f u) (st_friendships s))"

definition append_visible_profile :: "user_id \<Rightarrow> datetime \<Rightarrow> user_id \<Rightarrow> unit tx" where
  "append_visible_profile actor now recipient =
     bnd (gets (\<lambda>s. visible_profile s recipient actor)) (\<lambda>v.
     bnd (found v) (\<lambda>visible.
     append_event {recipient} PresenceUpdated (PProfile visible) now))"

definition append_profile_events :: "user_id \<Rightarrow> user_profile \<Rightarrow> datetime \<Rightarrow> unit tx" where
  "append_profile_events actor profile now =
     bnd (gets (\<lambda>s. friend_ids s actor)) (\<lambda>recipients.
     bnd (append_event {actor} PresenceUpdated (PProfile profile) now) (\<lambda>_.
     for_each recipients (append_visible_profile actor now)))"

section \<open>Guarantees of the helpers\<close>

lemma progress_get_conversation [guar_intros]: "guar progress (get_conversation cid)"
  unfolding get_conversation_def by (intro guar_intros)

lemma progress_core [guar_intros]:
  "guar progress (put_conversation cid c)"
  "guar progress (store_conversation c)"
  "guar progress (touch_conversation cid now)"
  by (simp_all add: put_conversation_def store_conversation_def touch_conversation_def guar_def
      split: option.split)

text \<open>A message may be pushed once it carries the next sequence number.\<close>

lemma progress_push:
  assumes "msg_conversation_id m = cid"
    and "msg_sequence m = Some (last_sequence s cid + 1)
      \<or> msg_sequence m = Some (sat_add (last_sequence s cid) 1)"
  shows "progress s (snd (push_message cid m s))"
  using assms history_snoc [of m cid "messages_of s cid"]
  by (auto simp: progress_def push_message_def messages_of_def last_sequence_def
      split: option.splits)

lemma progress_step_push_then:
  assumes "msg_conversation_id m = cid"
    and "msg_sequence m = Some (last_sequence s cid + 1)
      \<or> msg_sequence m = Some (sat_add (last_sequence s cid) 1)"
    and "\<And>t. st_message_dedup t = st_message_dedup s \<Longrightarrow> uuid_src t = uuid_src s \<Longrightarrow> progress t (snd (f () t))"
  shows "progress s (snd (bnd (push_message cid m) f s))"
  using progress_trans [OF progress_push [OF assms(1,2)] assms(3)]
  by (simp add: push_message_def)

lemma progress_step_push:
  assumes "msg_conversation_id m = cid"
    and "msg_sequence m = Some (last_sequence s cid + 1)
      \<or> msg_sequence m = Some (sat_add (last_sequence s cid) 1)"
    and "guar progress (f ())"
  shows "progress s (snd (bnd (push_message cid m) f s))"
  by (rule progress_step_push_then [OF assms(1,2)]) (use assms(3) in \<open>simp add: guar_def\<close>)

lemma mark_sent_InrD:
  "mark_sent q now p = Inr m \<Longrightarrow> m = p\<lparr>msg_sequence := Some q, msg_server_created_at := Some now,
     msg_status := Sent\<rparr>"
  by (auto simp: mark_sent_def split: if_splits)

lemmas progress_steps = progress_step_uuid progress_step_dom progress_step_lift

lemma bnd_new_uuid:
  "bnd new_uuid f s = f (uuid_src s (uuid_next s)) (s\<lparr>uuid_next := Suc (uuid_next s)\<rparr>)"
  by (simp add: new_uuid_def bnd_def)

lemma last_sequence_uuid [simp]: "last_sequence (s\<lparr>uuid_next := n\<rparr>) cid = last_sequence s cid"
  by (simp add: last_sequence_def messages_of_def)

lemma progress_append_system_message [guar_intros]:
  "guar progress (append_system_message cid actor text now)"
proof -
  have "progress s (snd (bnd (gets (\<lambda>s. last_sequence s cid + 1)) (\<lambda>sequence.
     bnd new_uuid (\<lambda>client_message_id.
     bnd new_uuid (\<lambda>fresh.
     bnd (dom (message_pending (MessageId fresh) (MessageId client_message_id) cid actor
                (CSystem text) now)) (\<lambda>pending.
     bnd (dom (mark_sent sequence now pending)) (\<lambda>message.
     bnd (push_message cid message) (\<lambda>_.
     bnd (touch_conversation cid now) (\<lambda>_.
     bnd (append_event R MessageCreated (PMessage message) now) (\<lambda>_.
     ret message)))))))) s))" for R s
    unfolding bnd_gets
    by (intro progress_steps progress_step_push guar_intros)
      (auto dest!: mark_sent_InrD simp: message_pending_Inr_iff)
  then show ?thesis
    unfolding append_system_message_def by (intro guar_intros guarI [of progress "bnd (gets _) _"])
qed

lemma progress_append_profile_events [guar_intros]:
  "guar progress (append_profile_events actor profile now)"
  unfolding append_profile_events_def append_visible_profile_def by (intro guar_intros)

lemma are_friends_sym: "are_friends s a b = are_friends s b a"
  by (auto simp: are_friends_def list_ex_iff)

lemma friend_ids_iff:
  assumes "\<forall>f\<in>set (st_friendships s). fs_lower_user_id f \<noteq> fs_upper_user_id f"
  shows "v \<in> set (friend_ids s u) \<longleftrightarrow> are_friends s u v \<and> v \<noteq> u"
  using assms by (auto simp: friend_ids_def are_friends_def other_user_def friendship_contains_def
      list_ex_iff image_iff)

text \<open>What \<open>visible_profile\<close> shows a viewer other than the owner: the gender, birthday and
  region only where the owner's setting allows this viewer; an invisible, hidden or withheld presence
  is shown as offline with no last-seen time; the public fields are the owner's own; and a deleted
  account shows nothing.\<close>

theorem visible_profile_respects_privacy:
  "case visible_profile s viewer target of
     None \<Rightarrow> live_account s target = None
   | Some p \<Rightarrow> (\<exists>a. live_account s target = Some a
      \<and> prof_id p = prof_id (acc_profile a) \<and> prof_nickname p = prof_nickname (acc_profile a)
      \<and> (if viewer = target then p = acc_profile a
         else prof_gender p = (if can_view s viewer target (pps_gender_visibility (privacy_of s target))
                               then prof_gender (acc_profile a) else None)
            \<and> prof_birthday p = (if can_view s viewer target (pps_birthday_visibility (privacy_of s target))
                               then prof_birthday (acc_profile a) else None)
            \<and> prof_region p = (if can_view s viewer target (pps_region_visibility (privacy_of s target))
                               then prof_region (acc_profile a) else None)
            \<and> prof_presence p \<noteq> Invisible
            \<and> (if can_view s viewer target (pps_presence_visibility (privacy_of s target))
                  \<and> map_option fset_share_presence (hm_get (target, viewer) (st_friend_settings s)) \<noteq> Some False
                  \<and> prof_presence (acc_profile a) \<noteq> Invisible
               then prof_presence p = prof_presence (acc_profile a)
                  \<and> prof_last_seen_at p = prof_last_seen_at (acc_profile a)
               else prof_presence p = Offline \<and> prof_last_seen_at p = None)))"
  by (auto simp: visible_profile_def Let_def split: option.split)

end
