(* ===== verification/Second_Factor.thy ===== *)
theory Second_Factor
  imports Service_Core
begin

unbundle bit_operations_syntax

text \<open>
  Time-based one-time passwords and recovery codes (\<open>crates/application/src/service.rs\<close>, lines
  856-1003 and 4692-4836).  SHA-256, HMAC-SHA1, AES-GCM, Argon2 and Base32 are the parameters of the
  record \<open>crypto\<close>; everything the service computes around them is here.
\<close>

section \<open>Tokens and comparison\<close>

definition hash_token :: "crypto \<Rightarrow> rstr \<Rightarrow> rstr" where
  "hash_token C token = to_hex (c_sha256 C (utf8 token))"

definition secure_eq :: "rstr \<Rightarrow> rstr \<Rightarrow> bool" where
  "secure_eq left right =
     (if byte_len left \<noteq> byte_len right then False
      else fold (\<lambda>(l, r) difference. difference OR (l XOR r)) (zip (utf8 left) (utf8 right)) 0 = 0)"

definition random_token :: "rstr tx" where
  "random_token = bnd (fill_bytes 32) (\<lambda>bytes. ret (to_hex bytes))"

definition hash_password :: "crypto \<Rightarrow> rstr \<Rightarrow> rstr tx" where
  "hash_password C password = (\<lambda>s.
     (ok_or (c_argon2_hash C (rand_next s) (utf8 password)) InvalidCredentials,
      s\<lparr>rand_next := Suc (rand_next s)\<rparr>))"

definition verify_password :: "crypto \<Rightarrow> rstr \<Rightarrow> rstr \<Rightarrow> bool" where
  "verify_password C password encoded = c_argon2_verify C (utf8 password) encoded"

section \<open>Encryption of the shared secret\<close>

definition encrypt_secret :: "crypto \<Rightarrow> u8 list \<Rightarrow> u8 list \<Rightarrow> (u8 list) tx" where
  "encrypt_secret C key plaintext =
     bnd (fail_if (length key \<noteq> 32) Storage) (\<lambda>_.
     bnd (fill_bytes 12) (\<lambda>nonce.
     bnd (lift (ok_or (c_aes_encrypt C key nonce plaintext) Storage)) (\<lambda>ciphertext.
     ret (nonce @ ciphertext))))"

definition decrypt_secret :: "crypto \<Rightarrow> u8 list \<Rightarrow> u8 list \<Rightarrow> application_error + u8 list" where
  "decrypt_secret C key encrypted =
     (if length encrypted \<le> 12 then Inl Storage
      else if length key \<noteq> 32 then Inl Storage
      else ok_or (c_aes_decrypt C key (take 12 encrypted) (drop 12 encrypted)) Storage)"

section \<open>One-time passwords\<close>

definition be_bytes :: "u64 \<Rightarrow> u8 list" where
  "be_bytes c = map (\<lambda>i. ucast (drop_bit (8 * i) c)) [7, 6, 5, 4, 3, 2, 1, 0]"

definition totp_code :: "crypto \<Rightarrow> u8 list \<Rightarrow> u64 \<Rightarrow> rstr" where
  "totp_code C secret counter =
     (let digest = c_hmac_sha1 C secret (be_bytes counter);
          offset = unat (digest ! (length digest - 1) AND 0x0f);
          binary = (push_bit 24 (ucast (digest ! offset AND 0x7f) :: u32))
                   OR push_bit 16 (ucast (digest ! (offset + 1)))
                   OR push_bit 8 (ucast (digest ! (offset + 2)))
                   OR ucast (digest ! (offset + 3))
      in decimal_padded 6 (unat binary mod 1000000))"

definition totp_counter :: "datetime \<Rightarrow> u64" where
  "totp_counter now = word_of_int (max (timestamp now) 0 div 30)"

definition verify_totp :: "crypto \<Rightarrow> u8 list \<Rightarrow> rstr \<Rightarrow> datetime \<Rightarrow> bool" where
  "verify_totp C secret code now =
     (if byte_len code \<noteq> 6 \<or> \<not> list_all (\<lambda>b. 48 \<le> b \<and> b \<le> 57) (utf8 code) then False
      else let counter = totp_counter now in
        list_ex (\<lambda>candidate. secure_eq (totp_code C secret candidate) code)
          [sat_sub counter 1, counter, sat_add counter 1])"

section \<open>Recovery codes\<close>

definition normalize_recovery_code :: "rstr \<Rightarrow> rstr" where
  "normalize_recovery_code code = map ascii_lower_char (filter is_ascii_hexdigit code)"

definition format_recovery_code :: "rstr \<Rightarrow> rstr" where
  "format_recovery_code raw = take 4 raw @ [45] @ take 4 (drop 4 raw) @ [45]
     @ take 4 (drop 8 raw) @ [45] @ take 4 (drop 12 raw)"

definition generate_recovery_codes :: "crypto \<Rightarrow> (rstr list \<times> rstr list) tx" where
  "generate_recovery_codes C =
     bnd (map_each [0..<10::nat] (\<lambda>_. bnd (fill_bytes 8) (\<lambda>bytes.
            ret (format_recovery_code (to_hex bytes))))) (\<lambda>codes.
     ret (codes, map (\<lambda>code. hash_token C (normalize_recovery_code code)) codes))"

definition verify_second_factor_for_account ::
  "crypto \<Rightarrow> account \<Rightarrow> rstr option \<Rightarrow> datetime \<Rightarrow> u8 list \<Rightarrow> application_error + account" where
  "verify_second_factor_for_account C account code now encryption_key =
     (case acc_second_factor account of
        None \<Rightarrow> Inr account
      | Some state \<Rightarrow>
          and_then (ok_or (Option.bind code some_non_empty) SecondFactorRequired) (\<lambda>code.
          and_then (decrypt_secret C encryption_key (sf_encrypted_secret state)) (\<lambda>secret.
          if verify_totp C secret code now then Inr account
          else
            let hashed = hash_token C (normalize_recovery_code code) in
            case position (\<lambda>candidate. secure_eq candidate hashed) (sf_recovery_code_hashes state) of
              Some index \<Rightarrow>
                Inr (account\<lparr>acc_second_factor := Some (state\<lparr>sf_recovery_code_hashes :=
                       swap_remove index (sf_recovery_code_hashes state)\<rparr>)\<rparr>)
            | None \<Rightarrow> Inl InvalidSecondFactor)))"

section \<open>Managing the second factor\<close>

definition get_live_account :: "user_id \<Rightarrow> account tx" where
  "get_live_account u = bnd (gets (\<lambda>s. live_account s u)) found"

definition put_account :: "user_id \<Rightarrow> account \<Rightarrow> unit tx" where
  "put_account u a = modify (\<lambda>s. s\<lparr>st_accounts := hm_insert u a (st_accounts s)\<rparr>)"

definition second_factor_status ::
  "'z store_scheme \<Rightarrow> user_id \<Rightarrow> application_error + second_factor_status" where
  "second_factor_status s actor =
     and_then (ok_or (live_account s actor) NotFound) (\<lambda>a.
     Inr \<lparr>sfs_enabled = (acc_second_factor a \<noteq> None),
          sfs_recovery_codes_remaining =
            (case acc_second_factor a of
               None \<Rightarrow> 0 | Some state \<Rightarrow> length (sf_recovery_code_hashes state))\<rparr>)"

definition otpauth_uri :: "rstr \<Rightarrow> rstr \<Rightarrow> rstr" where
  "otpauth_uri username secret = lit ''otpauth://totp/I%20Am%20Rust:'' @ username @ lit ''?secret=''
     @ secret @ lit ''&issuer=I%20Am%20Rust&algorithm=SHA1&digits=6&period=30''"

definition begin_second_factor_setup_tx ::
  "user_id \<Rightarrow> rstr \<Rightarrow> u8 list \<Rightarrow> datetime \<Rightarrow> second_factor_setup_response tx" where
  "begin_second_factor_setup_tx actor encoded encrypted_secret expires_at =
     bnd (get_live_account actor) (\<lambda>a.
     bnd (fail_if (acc_second_factor a \<noteq> None) Conflict) (\<lambda>_.
     bnd (put_account actor (a\<lparr>acc_pending_second_factor := Some
            \<lparr>psf_encrypted_secret = encrypted_secret, psf_expires_at = expires_at\<rparr>\<rparr>)) (\<lambda>_.
     ret \<lparr>sfr_secret = encoded,
          sfr_otpauth_uri = otpauth_uri (prof_username (acc_profile a)) encoded,
          sfr_expires_at = expires_at\<rparr>)))"

definition begin_second_factor_setup ::
  "crypto \<Rightarrow> user_id \<Rightarrow> datetime \<Rightarrow> second_factor_setup_response svc" where
  "begin_second_factor_setup C actor now =
     bnd (drawing (fill_bytes 20)) (\<lambda>secret.
     bnd (gets svc_data_encryption_key) (\<lambda>key.
     bnd (drawing (encrypt_secret C key secret)) (\<lambda>encrypted_secret.
     mutate (begin_second_factor_setup_tx actor (c_base32_nopad C secret) encrypted_secret
               (now + minutes 10)))))"

definition enable_second_factor_tx ::
  "crypto \<Rightarrow> u8 list \<Rightarrow> user_id \<Rightarrow> rstr \<Rightarrow> datetime \<Rightarrow> (rstr list) tx" where
  "enable_second_factor_tx C encryption_key actor code now =
     bnd (get_live_account actor) (\<lambda>a.
     bnd (lift (ok_or (case acc_pending_second_factor a of
                         None \<Rightarrow> None
                       | Some p \<Rightarrow> if psf_expires_at p > now then Some p else None) Conflict)) (\<lambda>pending.
     bnd (lift (decrypt_secret C encryption_key (psf_encrypted_secret pending))) (\<lambda>secret.
     bnd (fail_if (\<not> verify_totp C secret code now) InvalidSecondFactor) (\<lambda>_.
     bnd (generate_recovery_codes C) (\<lambda>(recovery_codes, recovery_code_hashes).
     bnd (put_account actor (a\<lparr>
            acc_second_factor := Some \<lparr>sf_encrypted_secret = psf_encrypted_secret pending,
              sf_recovery_code_hashes = recovery_code_hashes, sf_enabled_at = now\<rparr>,
            acc_pending_second_factor := None\<rparr>)) (\<lambda>_.
     ret recovery_codes))))))"

definition enable_second_factor :: "crypto \<Rightarrow> user_id \<Rightarrow> rstr \<Rightarrow> datetime \<Rightarrow> (rstr list) svc" where
  "enable_second_factor C actor code now =
     bnd (gets svc_data_encryption_key) (\<lambda>key.
     mutate (enable_second_factor_tx C key actor (trim code) now))"

definition disable_second_factor_tx ::
  "crypto \<Rightarrow> u8 list \<Rightarrow> user_id \<Rightarrow> rstr \<Rightarrow> rstr \<Rightarrow> datetime \<Rightarrow> unit tx" where
  "disable_second_factor_tx C encryption_key actor current_password code now =
     bnd (get_live_account actor) (\<lambda>a.
     bnd (fail_if (\<not> verify_password C current_password (acc_password_hash a)) InvalidCredentials) (\<lambda>_.
     bnd (lift (verify_second_factor_for_account C a (Some code) now encryption_key)) (\<lambda>a.
     put_account actor (a\<lparr>acc_second_factor := None, acc_pending_second_factor := None\<rparr>))))"

definition disable_second_factor ::
  "crypto \<Rightarrow> user_id \<Rightarrow> rstr \<Rightarrow> rstr \<Rightarrow> datetime \<Rightarrow> unit svc" where
  "disable_second_factor C actor current_password code now =
     bnd (gets svc_data_encryption_key) (\<lambda>key.
     mutate (disable_second_factor_tx C key actor current_password (trim code) now))"

definition regenerate_recovery_codes_tx ::
  "crypto \<Rightarrow> u8 list \<Rightarrow> user_id \<Rightarrow> rstr \<Rightarrow> rstr \<Rightarrow> datetime \<Rightarrow> (rstr list) tx" where
  "regenerate_recovery_codes_tx C encryption_key actor current_password code now =
     bnd (get_live_account actor) (\<lambda>a.
     bnd (fail_if (\<not> verify_password C current_password (acc_password_hash a)) InvalidCredentials) (\<lambda>_.
     bnd (lift (verify_second_factor_for_account C a (Some code) now encryption_key)) (\<lambda>a.
     bnd (put_account actor a) (\<lambda>_.
     bnd (generate_recovery_codes C) (\<lambda>(recovery_codes, recovery_code_hashes).
     bnd (lift (ok_or (acc_second_factor a) Conflict)) (\<lambda>state.
     bnd (put_account actor (a\<lparr>acc_second_factor :=
            Some (state\<lparr>sf_recovery_code_hashes := recovery_code_hashes\<rparr>)\<rparr>)) (\<lambda>_.
     ret recovery_codes)))))))"

definition regenerate_recovery_codes ::
  "crypto \<Rightarrow> user_id \<Rightarrow> rstr \<Rightarrow> rstr \<Rightarrow> datetime \<Rightarrow> (rstr list) svc" where
  "regenerate_recovery_codes C actor current_password code now =
     bnd (gets svc_data_encryption_key) (\<lambda>key.
     mutate (regenerate_recovery_codes_tx C key actor current_password (trim code) now))"

section \<open>Guarantees\<close>

lemma progress_crypto [guar_intros]:
  "guar progress random_token"
  "guar progress (hash_password C password)"
  "guar progress (encrypt_secret C key plaintext)"
  "guar progress (generate_recovery_codes C)"
  "guar progress (get_live_account u)"
  "guar progress (put_account u a)"
proof -
  show "guar progress (hash_password C password)" "guar progress (put_account u a)"
    by (simp_all add: hash_password_def put_account_def guar_def)
qed (unfold random_token_def encrypt_secret_def generate_recovery_codes_def get_live_account_def,
  (intro guar_intros)+)

lemma progress_second_factor [guar_intros]:
  "guar progress (begin_second_factor_setup_tx actor e x t)"
  "guar progress (enable_second_factor_tx C key actor code now)"
  "guar progress (disable_second_factor_tx C key actor password code now)"
  "guar progress (regenerate_recovery_codes_tx C key actor password code now)"
  unfolding begin_second_factor_setup_tx_def enable_second_factor_tx_def
    disable_second_factor_tx_def regenerate_recovery_codes_tx_def
  by (intro guar_intros)+

lemma svc_progress_second_factor [guar_intros]:
  "guar svc_progress (begin_second_factor_setup C actor now)"
  "guar svc_progress (enable_second_factor C actor code now)"
  "guar svc_progress (disable_second_factor C actor password code now)"
  "guar svc_progress (regenerate_recovery_codes C actor password code now)"
  unfolding begin_second_factor_setup_def enable_second_factor_def disable_second_factor_def
    regenerate_recovery_codes_def
  by (intro guar_intros)+

section \<open>Comparison and codes\<close>

lemma fold_or_zero:
  fixes d :: u8
  shows "fold (\<lambda>(l, r) difference. difference OR (l XOR r)) xs d = 0 \<longleftrightarrow>
    d = 0 \<and> (\<forall>(l, r)\<in>set xs. l = r)"
proof (induction xs arbitrary: d)
  case (Cons x xs)
  obtain l r where x: "x = (l, r)" by (cases x)
  have "d OR (l XOR r) = 0 \<longleftrightarrow> d = 0 \<and> l = r"
    by (metis or_eq_0_iff xor_self_eq xor.right_neutral xor.assoc xor.left_neutral)
  with Cons x show ?case by auto
qed simp

lemma secure_eq_iff_bytes: "secure_eq l r \<longleftrightarrow> utf8 l = utf8 r"
proof (cases "byte_len l = byte_len r")
  case True
  then have "(\<forall>(a, b)\<in>set (zip (utf8 l) (utf8 r)). a = b) \<longleftrightarrow> utf8 l = utf8 r"
    by (auto simp: byte_len_def list_eq_iff_zip_eq)
  with True show ?thesis by (simp add: secure_eq_def fold_or_zero)
qed (auto simp: secure_eq_def byte_len_def)

end
