(* ===== verification/Sessions.thy ===== *)
theory Sessions
  imports Second_Factor
begin

text \<open>
  Accounts and sessions (\<open>crates/application/src/service.rs\<close>, lines 716-854, 1111-1364, 4299-4331
  and 4838-4925): registration, login, access and refresh tokens, devices, passwords.  A token is
  kept as its hash; the state of a token family is spread over \<open>st_access_tokens\<close>,
  \<open>st_refresh_tokens\<close> and \<open>st_consumed_refresh_tokens\<close>.
\<close>

section \<open>Inputs and results\<close>

record register_input =
  ri_email :: rstr
  ri_username :: rstr
  ri_password :: rstr
  ri_nickname :: rstr
  ri_device_name :: rstr
  ri_platform :: rstr
  ri_app_version :: rstr

record login_input =
  li_login :: rstr
  li_password :: rstr
  li_device_name :: rstr
  li_platform :: rstr
  li_app_version :: rstr

record authenticated_session =
  as_access_token :: rstr
  as_refresh_token :: rstr
  as_access_expires_at :: datetime
  as_refresh_expires_at :: datetime
  as_profile :: user_profile
  as_device_id :: device_id

record password_reset_delivery =
  prd_email :: rstr
  prd_reset_token :: rstr
  prd_expires_at :: datetime

definition validate_device_name :: "rstr \<Rightarrow> domain_error + unit" where
  "validate_device_name device_name =
     err_if (\<not> (1 \<le> length (trim device_name) \<and> length (trim device_name) \<le> 80))
       (Validation ''device_name'' ''invalid_length'')"

definition validate_device_metadata :: "rstr \<Rightarrow> rstr \<Rightarrow> domain_error + unit" where
  "validate_device_metadata platform app_version =
     err_if (trim platform = [] \<or> length (trim platform) > 32
             \<or> trim app_version = [] \<or> length (trim app_version) > 32)
       (Validation ''device_metadata'' ''invalid_length'')"

definition validate_nickname :: "rstr \<Rightarrow> domain_error + unit" where
  "validate_nickname nickname =
     err_if (\<not> (1 \<le> length (trim nickname) \<and> length (trim nickname) \<le> 48))
       (Validation ''nickname'' ''invalid_length'')"

section \<open>Token families\<close>

definition ACCESS_TOKEN_MINUTES :: int where "ACCESS_TOKEN_MINUTES = 15"
definition REFRESH_TOKEN_DAYS :: int where "REFRESH_TOKEN_DAYS = 30"

definition issue_session_in_family ::
  "crypto \<Rightarrow> user_id \<Rightarrow> device_id \<Rightarrow> user_profile \<Rightarrow> datetime \<Rightarrow> uuid \<Rightarrow> authenticated_session tx" where
  "issue_session_in_family C user_id device_id profile now family_id =
     bnd random_token (\<lambda>access_token.
     bnd random_token (\<lambda>refresh_token.
     let access_expires_at = now + minutes ACCESS_TOKEN_MINUTES;
         refresh_expires_at = now + days REFRESH_TOKEN_DAYS;
         token = \<lparr>tok_user_id = user_id, tok_device_id = device_id, tok_family_id = family_id,
                   tok_expires_at = access_expires_at, tok_revoked = False\<rparr>
     in
     bnd (modify (\<lambda>s. s\<lparr>st_access_tokens :=
            hm_insert (hash_token C access_token) token (st_access_tokens s)\<rparr>)) (\<lambda>_.
     bnd (modify (\<lambda>s. s\<lparr>st_refresh_tokens :=
            hm_insert (hash_token C refresh_token) (token\<lparr>tok_expires_at := refresh_expires_at\<rparr>)
              (st_refresh_tokens s)\<rparr>)) (\<lambda>_.
     ret \<lparr>as_access_token = access_token, as_refresh_token = refresh_token,
          as_access_expires_at = access_expires_at, as_refresh_expires_at = refresh_expires_at,
          as_profile = profile, as_device_id = device_id\<rparr>))))"

definition issue_session ::
  "crypto \<Rightarrow> user_id \<Rightarrow> device_id \<Rightarrow> user_profile \<Rightarrow> datetime \<Rightarrow> authenticated_session tx" where
  "issue_session C user_id device_id profile now =
     bnd new_uuid (\<lambda>family_id. issue_session_in_family C user_id device_id profile now family_id)"

text \<open>The loop over \<open>access_tokens.values_mut().chain(refresh_tokens.values_mut())\<close>.\<close>

definition revoke_if :: "(token_record \<Rightarrow> bool) \<Rightarrow> token_record \<Rightarrow> token_record" where
  "revoke_if P record = (if P record then record\<lparr>tok_revoked := True\<rparr> else record)"

definition revoke_tokens :: "(token_record \<Rightarrow> bool) \<Rightarrow> unit tx" where
  "revoke_tokens P = modify (\<lambda>s. s\<lparr>
     st_access_tokens := hm_map (revoke_if P) (st_access_tokens s),
     st_refresh_tokens := hm_map (revoke_if P) (st_refresh_tokens s)\<rparr>)"

definition revoke_family :: "uuid \<Rightarrow> unit tx" where
  "revoke_family family_id = revoke_tokens (\<lambda>record. family_id = tok_family_id record)"

definition revoke_devices :: "user_id \<Rightarrow> datetime \<Rightarrow> unit tx" where
  "revoke_devices user_id revoked_at = modify (\<lambda>s. s\<lparr>st_devices :=
     hm_map (\<lambda>device. if dev_user_id device = user_id
                      then device\<lparr>dev_revoked_at := Some revoked_at\<rparr> else device) (st_devices s)\<rparr>)"

definition revoke_user_sessions :: "user_id \<Rightarrow> datetime option \<Rightarrow> unit tx" where
  "revoke_user_sessions user_id revoked_at =
     bnd (revoke_tokens (\<lambda>record. tok_user_id record = user_id)) (\<lambda>_.
     case revoked_at of None \<Rightarrow> ret () | Some t \<Rightarrow> revoke_devices user_id t)"

definition add_device ::
  "device_id \<Rightarrow> user_id \<Rightarrow> rstr \<Rightarrow> rstr \<Rightarrow> rstr \<Rightarrow> datetime \<Rightarrow> unit tx" where
  "add_device device_id user_id name platform app_version now = modify (\<lambda>s. s\<lparr>st_devices :=
     hm_insert device_id
       \<lparr>dev_id = device_id, dev_user_id = user_id, dev_name = name, dev_platform = platform,
        dev_app_version = app_version, dev_last_seen_at = now, dev_revoked_at = None\<rparr> (st_devices s)\<rparr>)"

section \<open>Registration and login\<close>

definition register_tx ::
  "crypto \<Rightarrow> rstr \<Rightarrow> rstr \<Rightarrow> rstr \<Rightarrow> user_id \<Rightarrow> device_id \<Rightarrow> user_profile \<Rightarrow> rstr \<Rightarrow> rstr \<Rightarrow> rstr
     \<Rightarrow> datetime \<Rightarrow> authenticated_session tx" where
  "register_tx C email username_key password_hash user_id device_id profile device_name platform
     app_version now =
     bnd (gets (\<lambda>s. hm_contains email (st_by_email s) \<or> hm_contains username_key (st_by_username s))) (\<lambda>taken.
     bnd (fail_if taken AccountConflict) (\<lambda>_.
     bnd (modify (\<lambda>s. s\<lparr>
            st_by_email := hm_insert email user_id (st_by_email s),
            st_by_username := hm_insert username_key user_id (st_by_username s),
            st_accounts := hm_insert user_id
              \<lparr>acc_password_hash = password_hash, acc_profile = profile, acc_deleted_at = None,
               acc_suspended = False, acc_second_factor = None, acc_pending_second_factor = None\<rparr>
              (st_accounts s),
            st_profile_privacy := hm_insert user_id default_privacy (st_profile_privacy s),
            st_preferred_presence := hm_insert user_id Online (st_preferred_presence s)\<rparr>)) (\<lambda>_.
     bnd (add_device device_id user_id device_name platform app_version now) (\<lambda>_.
     issue_session C user_id device_id profile now))))"

definition new_profile :: "user_id \<Rightarrow> rstr \<Rightarrow> rstr \<Rightarrow> datetime \<Rightarrow> user_profile" where
  "new_profile user_id username nickname now =
     \<lparr>prof_id = user_id, prof_username = username, prof_nickname = nickname,
      prof_avatar_url = None, prof_avatar_attachment_id = None, prof_signature = [],
      prof_gender = None, prof_birthday = None, prof_region = None, prof_presence = Online,
      prof_last_seen_at = Some now\<rparr>"

definition register ::
  "unicode \<Rightarrow> crypto \<Rightarrow> register_input \<Rightarrow> datetime \<Rightarrow> authenticated_session svc" where
  "register U C input now =
     bnd (checked (validate_email (ri_email input))) (\<lambda>_.
     bnd (checked (validate_username (ri_username input))) (\<lambda>_.
     bnd (checked (validate_password U (ri_password input))) (\<lambda>_.
     bnd (checked (validate_device_name (ri_device_name input))) (\<lambda>_.
     bnd (checked (validate_device_metadata (ri_platform input) (ri_app_version input))) (\<lambda>_.
     bnd (checked (validate_nickname (ri_nickname input))) (\<lambda>_.
     bnd (drawing (hash_password C (ri_password input))) (\<lambda>password_hash.
     bnd (drawing new_uuid) (\<lambda>u.
     bnd (drawing new_uuid) (\<lambda>d.
     mutate (register_tx C (to_ascii_lowercase (trim (ri_email input)))
       (to_ascii_lowercase (ri_username input)) password_hash (UserId u) (DeviceId d)
       (new_profile (UserId u) (ri_username input) (trim (ri_nickname input)) now)
       (ri_device_name input) (ri_platform input) (ri_app_version input) now))))))))))"

definition login_user :: "'z store_scheme \<Rightarrow> rstr \<Rightarrow> user_id option" where
  "login_user s lookup = (case hm_get lookup (st_by_email s) of
     Some u \<Rightarrow> Some u | None \<Rightarrow> hm_get lookup (st_by_username s))"

definition active_account :: "'z store_scheme \<Rightarrow> user_id \<Rightarrow> account option" where
  "active_account s u = (case hm_get u (st_accounts s) of
     None \<Rightarrow> None
   | Some a \<Rightarrow> if acc_deleted_at a = None \<and> \<not> acc_suspended a then Some a else None)"

definition mark_online :: "datetime \<Rightarrow> account \<Rightarrow> account" where
  "mark_online now a = a\<lparr>acc_profile := (acc_profile a)\<lparr>prof_presence := Online,
     prof_last_seen_at := Some now\<rparr>\<rparr>"

definition login_tx ::
  "crypto \<Rightarrow> u8 list \<Rightarrow> login_input \<Rightarrow> rstr option \<Rightarrow> datetime \<Rightarrow> authenticated_session tx" where
  "login_tx C encryption_key input second_factor_code now =
     bnd (gets (\<lambda>s. login_user s (to_ascii_lowercase (trim (li_login input))))) (\<lambda>user_id.
     bnd (gets (\<lambda>s. case Option.bind user_id (active_account s) of
              None \<Rightarrow> False
            | Some a \<Rightarrow> verify_password C (li_password input) (acc_password_hash a))) (\<lambda>verified.
     bnd (fail_if (\<not> verified) InvalidCredentials) (\<lambda>_.
     bnd (expect user_id ''verified account has an id'') (\<lambda>user_id.
     bnd (gets (\<lambda>s. hm_get user_id (st_accounts s))) (\<lambda>a.
     bnd (expect a ''account exists'') (\<lambda>a.
     bnd (lift (verify_second_factor_for_account C a second_factor_code now encryption_key)) (\<lambda>a.
     bnd (put_account user_id (mark_online now a)) (\<lambda>_.
     bnd new_uuid (\<lambda>d.
     bnd (add_device (DeviceId d) user_id (li_device_name input) (li_platform input)
            (li_app_version input) now) (\<lambda>_.
     issue_session C user_id (DeviceId d) (acc_profile (mark_online now a)) now))))))))))"

definition login_with_second_factor ::
  "crypto \<Rightarrow> login_input \<Rightarrow> rstr option \<Rightarrow> datetime \<Rightarrow> authenticated_session svc" where
  "login_with_second_factor C input second_factor_code now =
     bnd (checked (validate_device_name (li_device_name input))) (\<lambda>_.
     bnd (checked (validate_device_metadata (li_platform input) (li_app_version input))) (\<lambda>_.
     bnd (gets svc_data_encryption_key) (\<lambda>key.
     mutate (login_tx C key input second_factor_code now))))"

definition login :: "crypto \<Rightarrow> login_input \<Rightarrow> datetime \<Rightarrow> authenticated_session svc" where
  "login C input now = login_with_second_factor C input None now"

section \<open>Tokens\<close>

definition authenticate_identity ::
  "crypto \<Rightarrow> 'z store_scheme \<Rightarrow> rstr \<Rightarrow> datetime \<Rightarrow> application_error + (user_id \<times> device_id)" where
  "authenticate_identity C s access_token now =
     and_then (ok_or (hm_get (hash_token C access_token) (st_access_tokens s)) Unauthorized) (\<lambda>record.
     and_then (err_if (tok_revoked record \<or> tok_expires_at record \<le> now) SessionExpired) (\<lambda>_.
     and_then (err_if (case hm_get (tok_device_id record) (st_devices s) of
                None \<Rightarrow> True | Some device \<Rightarrow> dev_revoked_at device \<noteq> None) SessionExpired) (\<lambda>_.
     and_then (err_if (case hm_get (tok_user_id record) (st_accounts s) of
                None \<Rightarrow> True | Some a \<Rightarrow> acc_deleted_at a \<noteq> None \<or> acc_suspended a) SessionExpired) (\<lambda>_.
     Inr (tok_user_id record, tok_device_id record)))))"

definition authenticate_access ::
  "crypto \<Rightarrow> 'z store_scheme \<Rightarrow> rstr \<Rightarrow> datetime \<Rightarrow> application_error + user_id" where
  "authenticate_access C s access_token now =
     and_then (authenticate_identity C s access_token now) (\<lambda>(u, _). Inr u)"

text \<open>The closure answers \<open>Ok(Err(RefreshTokenReuse))\<close>, so that \<open>mutate\<close> keeps the revocation; the
  method then unwraps the inner result.\<close>

definition refresh_tx ::
  "crypto \<Rightarrow> rstr \<Rightarrow> datetime \<Rightarrow> (application_error + authenticated_session) tx" where
  "refresh_tx C token_hash now =
     bnd (gets (\<lambda>s. hm_get token_hash (st_consumed_refresh_tokens s))) (\<lambda>consumed.
     case consumed of
       Some family_id \<Rightarrow> bnd (revoke_family family_id) (\<lambda>_. ret (Inl RefreshTokenReuse))
     | None \<Rightarrow>
         bnd (gets (\<lambda>s. hm_get token_hash (st_refresh_tokens s))) (\<lambda>record.
         bnd (modify (\<lambda>s. s\<lparr>st_refresh_tokens := hm_remove token_hash (st_refresh_tokens s)\<rparr>)) (\<lambda>_.
         bnd (lift (ok_or record Unauthorized)) (\<lambda>record.
         bnd (fail_if (tok_revoked record \<or> tok_expires_at record \<le> now) SessionExpired) (\<lambda>_.
         bnd (modify (\<lambda>s. s\<lparr>st_consumed_refresh_tokens :=
                hm_insert token_hash (tok_family_id record) (st_consumed_refresh_tokens s)\<rparr>)) (\<lambda>_.
         bnd (gets (\<lambda>s. live_account s (tok_user_id record))) (\<lambda>a.
         bnd (lift (ok_or a Unauthorized)) (\<lambda>a.
         bnd (issue_session_in_family C (tok_user_id record) (tok_device_id record) (acc_profile a)
                now (tok_family_id record)) (\<lambda>session.
         ret (Inr session))))))))))"

definition refresh :: "crypto \<Rightarrow> rstr \<Rightarrow> datetime \<Rightarrow> authenticated_session svc" where
  "refresh C refresh_token now = bnd (mutate (refresh_tx C (hash_token C refresh_token) now)) lift"

definition logout_tx :: "rstr \<Rightarrow> unit tx" where
  "logout_tx token_hash =
     bnd (gets (\<lambda>s. hm_get token_hash (st_refresh_tokens s))) (\<lambda>record.
     bnd (modify (\<lambda>s. s\<lparr>st_refresh_tokens := hm_remove token_hash (st_refresh_tokens s)\<rparr>)) (\<lambda>_.
     case record of
       None \<Rightarrow> ret ()
     | Some record \<Rightarrow>
         bnd (revoke_family (tok_family_id record)) (\<lambda>_.
         modify (\<lambda>s. s\<lparr>st_consumed_refresh_tokens :=
           hm_insert token_hash (tok_family_id record) (st_consumed_refresh_tokens s)\<rparr>))))"

definition logout :: "crypto \<Rightarrow> rstr \<Rightarrow> unit svc" where
  "logout C refresh_token = mutate (logout_tx (hash_token C refresh_token))"

section \<open>Devices\<close>

definition devices :: "'z store_scheme \<Rightarrow> user_id \<Rightarrow> device_id \<Rightarrow> device_info list" where
  "devices s user_id current_device_id =
     sort_key (\<lambda>d. - di_last_seen_at d)
       (map (\<lambda>d. \<lparr>di_id = dev_id d, di_name = dev_name d, di_platform = dev_platform d,
                  di_app_version = dev_app_version d, di_last_seen_at = dev_last_seen_at d,
                  di_current = (dev_id d = current_device_id)\<rparr>)
         (filter (\<lambda>d. dev_user_id d = user_id \<and> dev_revoked_at d = None) (hm_values (st_devices s))))"

definition revoke_device_tx :: "user_id \<Rightarrow> device_id \<Rightarrow> datetime \<Rightarrow> unit tx" where
  "revoke_device_tx actor device_id now =
     bnd (gets (\<lambda>s. hm_get device_id (st_devices s))) (\<lambda>d.
     bnd (lift (ok_or (case d of None \<Rightarrow> None
                       | Some device \<Rightarrow> if dev_user_id device = actor then Some device else None)
            NotFound)) (\<lambda>device.
     bnd (modify (\<lambda>s. s\<lparr>st_devices :=
            hm_insert device_id (device\<lparr>dev_revoked_at := Some now\<rparr>) (st_devices s)\<rparr>)) (\<lambda>_.
     revoke_tokens (\<lambda>token. tok_device_id token = device_id))))"

definition revoke_device :: "user_id \<Rightarrow> device_id \<Rightarrow> datetime \<Rightarrow> unit svc" where
  "revoke_device actor device_id now = mutate (revoke_device_tx actor device_id now)"

section \<open>Passwords\<close>

definition change_password_tx :: "crypto \<Rightarrow> user_id \<Rightarrow> rstr \<Rightarrow> rstr \<Rightarrow> unit tx" where
  "change_password_tx C actor current_password new_hash =
     bnd (gets (\<lambda>s. hm_get actor (st_accounts s))) (\<lambda>a.
     bnd (found a) (\<lambda>a.
     bnd (fail_if (\<not> verify_password C current_password (acc_password_hash a)) InvalidCredentials) (\<lambda>_.
     bnd (put_account actor (a\<lparr>acc_password_hash := new_hash\<rparr>)) (\<lambda>_.
     revoke_user_sessions actor None))))"

definition change_password :: "unicode \<Rightarrow> crypto \<Rightarrow> user_id \<Rightarrow> rstr \<Rightarrow> rstr \<Rightarrow> unit svc" where
  "change_password U C actor current_password new_password =
     bnd (checked (validate_password U new_password)) (\<lambda>_.
     bnd (drawing (hash_password C new_password)) (\<lambda>new_hash.
     mutate (change_password_tx C actor current_password new_hash)))"

definition request_password_reset_tx ::
  "rstr \<Rightarrow> rstr \<Rightarrow> rstr \<Rightarrow> datetime \<Rightarrow> datetime \<Rightarrow> (password_reset_delivery option) tx" where
  "request_password_reset_tx email reset_token token_hash expires_at now =
     bnd (gets (\<lambda>s. hm_get email (st_by_email s))) (\<lambda>user_id.
     case user_id of
       None \<Rightarrow> ret None
     | Some user_id \<Rightarrow>
         bnd (modify (\<lambda>s. s\<lparr>st_password_resets := hm_insert token_hash
                \<lparr>pr_user_id = user_id, pr_expires_at = expires_at, pr_attempts = 0, pr_consumed = False\<rparr>
                (hm_retain (\<lambda>_ reset. pr_user_id reset \<noteq> user_id \<or> pr_consumed reset
                                        \<or> pr_expires_at reset \<le> now) (st_password_resets s))\<rparr>)) (\<lambda>_.
         ret (Some \<lparr>prd_email = email, prd_reset_token = reset_token, prd_expires_at = expires_at\<rparr>)))"

definition request_password_reset ::
  "crypto \<Rightarrow> rstr \<Rightarrow> datetime \<Rightarrow> (password_reset_delivery option) svc" where
  "request_password_reset C email now =
     bnd (checked (validate_email email)) (\<lambda>_.
     bnd (drawing random_token) (\<lambda>reset_token.
     mutate (request_password_reset_tx (to_ascii_lowercase (trim email)) reset_token
               (hash_token C reset_token) (now + minutes 15) now)))"

definition reset_password_tx :: "rstr \<Rightarrow> rstr \<Rightarrow> datetime \<Rightarrow> unit tx" where
  "reset_password_tx token_hash new_hash now =
     bnd (gets (\<lambda>s. hm_get token_hash (st_password_resets s))) (\<lambda>reset.
     bnd (lift (ok_or reset InvalidCredentials)) (\<lambda>reset.
     let reset = reset\<lparr>pr_attempts := sat_add (pr_attempts reset) 1\<rparr> in
     bnd (modify (\<lambda>s. s\<lparr>st_password_resets := hm_insert token_hash reset (st_password_resets s)\<rparr>)) (\<lambda>_.
     bnd (fail_if (pr_consumed reset \<or> pr_expires_at reset \<le> now \<or> pr_attempts reset > 5)
            InvalidCredentials) (\<lambda>_.
     bnd (modify (\<lambda>s. s\<lparr>st_password_resets :=
            hm_insert token_hash (reset\<lparr>pr_consumed := True\<rparr>) (st_password_resets s)\<rparr>)) (\<lambda>_.
     bnd (gets (\<lambda>s. hm_get (pr_user_id reset) (st_accounts s))) (\<lambda>a.
     bnd (found a) (\<lambda>a.
     bnd (put_account (pr_user_id reset) (a\<lparr>acc_password_hash := new_hash\<rparr>)) (\<lambda>_.
     revoke_user_sessions (pr_user_id reset) (Some now)))))))))"

definition reset_password :: "unicode \<Rightarrow> crypto \<Rightarrow> rstr \<Rightarrow> rstr \<Rightarrow> datetime \<Rightarrow> unit svc" where
  "reset_password U C reset_token new_password now =
     bnd (checked (validate_password U new_password)) (\<lambda>_.
     bnd (drawing (hash_password C new_password)) (\<lambda>new_hash.
     mutate (reset_password_tx (hash_token C reset_token) new_hash now)))"

section \<open>Reading an account\<close>

definition profile :: "'z store_scheme \<Rightarrow> user_id \<Rightarrow> application_error + user_profile" where
  "profile s u = ok_or (map_option acc_profile (live_account s u)) NotFound"

definition account_email :: "'z store_scheme \<Rightarrow> user_id \<Rightarrow> application_error + rstr" where
  "account_email s u = ok_or (map_option fst (find (\<lambda>(email, i). i = u) (st_by_email s))) NotFound"

section \<open>Guarantees\<close>

lemma progress_tokens [guar_intros]:
  "guar progress (revoke_tokens P)"
  "guar progress (revoke_devices u t)"
  "guar progress (add_device d u n p v now)"
  by (simp_all add: revoke_tokens_def revoke_devices_def add_device_def guar_def)

lemma progress_revoke [guar_intros]:
  "guar progress (revoke_family f)"
  "guar progress (revoke_user_sessions u t)"
  unfolding revoke_family_def revoke_user_sessions_def by (intro guar_intros)+

lemma progress_issue_session [guar_intros]:
  "guar progress (issue_session_in_family C u d p now f)"
  "guar progress (issue_session C u d p now)"
  unfolding issue_session_def issue_session_in_family_def Let_def by (intro guar_intros; simp)+

lemma progress_consume: "progress s (s\<lparr>st_consumed_refresh_tokens :=
    hm_insert h f (st_consumed_refresh_tokens s)\<rparr>)"
  by (simp add: progress_def messages_of_def hm_contains_def)

lemma progress_register_tx [guar_intros]:
  "guar progress (register_tx C e n h u d p dn pl av now)"
  unfolding register_tx_def by (intro guar_intros) simp

lemma progress_login_tx [guar_intros]: "guar progress (login_tx C key input code now)"
  unfolding login_tx_def by (intro guar_intros)

lemma progress_refresh_tx [guar_intros]: "guar progress (refresh_tx C h now)"
  unfolding refresh_tx_def by (intro guar_intros progress_consume) simp

lemma progress_logout_tx [guar_intros]: "guar progress (logout_tx h)"
  unfolding logout_tx_def by (intro guar_intros progress_consume) simp

lemma progress_device_and_password [guar_intros]:
  "guar progress (revoke_device_tx actor d now)"
  "guar progress (change_password_tx C actor password h)"
  "guar progress (request_password_reset_tx e r h t now)"
  "guar progress (reset_password_tx h h' now)"
  unfolding revoke_device_tx_def change_password_tx_def request_password_reset_tx_def
    reset_password_tx_def Let_def
  by (intro guar_intros; simp)+

lemma svc_progress_sessions [guar_intros]:
  "guar svc_progress (register U C ri now)"
  "guar svc_progress (login_with_second_factor C li code now)"
  "guar svc_progress (login C li now)"
  "guar svc_progress (refresh C token now)"
  "guar svc_progress (logout C token)"
  "guar svc_progress (revoke_device actor d now)"
  "guar svc_progress (change_password U C actor password new)"
  "guar svc_progress (request_password_reset C email now)"
  "guar svc_progress (reset_password U C token new now)"
  unfolding register_def login_def login_with_second_factor_def refresh_def logout_def
    revoke_device_def change_password_def request_password_reset_def reset_password_def
  by (intro guar_intros)+

section \<open>What the operations do\<close>

definition token_at :: "'z txn_scheme \<Rightarrow> nat \<Rightarrow> rstr" where
  "token_at s k = to_hex (map (rand_src s k) [0..<32])"

definition fresh_token :: "user_id \<Rightarrow> device_id \<Rightarrow> uuid \<Rightarrow> datetime \<Rightarrow> token_record" where
  "fresh_token u d f t = \<lparr>tok_user_id = u, tok_device_id = d, tok_family_id = f, tok_expires_at = t,
     tok_revoked = False\<rparr>"

lemma issue_session_in_family_run:
  "issue_session_in_family C u d p now f s =
     (Inr \<lparr>as_access_token = token_at s (rand_next s), as_refresh_token = token_at s (Suc (rand_next s)),
           as_access_expires_at = now + minutes 15, as_refresh_expires_at = now + days 30,
           as_profile = p, as_device_id = d\<rparr>,
      s\<lparr>rand_next := rand_next s + 2,
        st_access_tokens := hm_insert (hash_token C (token_at s (rand_next s)))
          (fresh_token u d f (now + minutes 15)) (st_access_tokens s),
        st_refresh_tokens := hm_insert (hash_token C (token_at s (Suc (rand_next s))))
          (fresh_token u d f (now + days 30)) (st_refresh_tokens s)\<rparr>)"
  by (simp add: issue_session_in_family_def random_token_def fill_bytes_def run_bnd token_at_def
      fresh_token_def ACCESS_TOKEN_MINUTES_def REFRESH_TOKEN_DAYS_def Let_def)

lemma issue_session_run:
  "issue_session C u d p now s =
     issue_session_in_family C u d p now (uuid_src s (uuid_next s)) (s\<lparr>uuid_next := Suc (uuid_next s)\<rparr>)"
  by (simp add: issue_session_def new_uuid_def run_bnd)

lemma refresh_tx_InrE:
  assumes "refresh_tx C h now s = (Inr (Inr session), s')"
  obtains rec a where "hm_get h (st_consumed_refresh_tokens s) = None"
    "hm_get h (st_refresh_tokens s) = Some rec" "\<not> tok_revoked rec" "now < tok_expires_at rec"
    "live_account s (tok_user_id rec) = Some a"
    "issue_session_in_family C (tok_user_id rec) (tok_device_id rec) (acc_profile a) now
       (tok_family_id rec)
       (s\<lparr>st_refresh_tokens := hm_remove h (st_refresh_tokens s),
         st_consumed_refresh_tokens := hm_insert h (tok_family_id rec) (st_consumed_refresh_tokens s)\<rparr>)
     = (Inr session, s')"
  using assms
  by (auto simp: refresh_tx_def ok_or_def live_account_def split: option.splits if_splits)

lemma refresh_tx_reuse:
  assumes "hm_get h (st_consumed_refresh_tokens s) = Some family"
  shows "refresh_tx C h now s = (Inr (Inl RefreshTokenReuse), s\<lparr>
     st_access_tokens := hm_map (revoke_if (\<lambda>r. family = tok_family_id r)) (st_access_tokens s),
     st_refresh_tokens := hm_map (revoke_if (\<lambda>r. family = tok_family_id r)) (st_refresh_tokens s)\<rparr>)"
  using assms by (simp add: refresh_tx_def revoke_family_def revoke_tokens_def)

lemma revoke_if_frame [simp]:
  "tok_user_id (revoke_if P r) = tok_user_id r" "tok_device_id (revoke_if P r) = tok_device_id r"
  "tok_family_id (revoke_if P r) = tok_family_id r" "tok_expires_at (revoke_if P r) = tok_expires_at r"
  "tok_revoked (revoke_if P r) = (P r \<or> tok_revoked r)"
  by (simp_all add: revoke_if_def)

text \<open>No session of a class of tokens can be used or renewed: what a revocation establishes.\<close>

definition tokens_dead :: "crypto \<Rightarrow> (token_record \<Rightarrow> bool) \<Rightarrow> txn \<Rightarrow> bool" where
  "tokens_dead C P s \<longleftrightarrow>
     (\<forall>token t. (case hm_get (hash_token C token) (st_access_tokens s) of
                  None \<Rightarrow> True
                | Some r \<Rightarrow> P r \<longrightarrow> authenticate_identity C s token t = Inl SessionExpired)
          \<and> (case hm_get (hash_token C token) (st_refresh_tokens s) of
               None \<Rightarrow> True
             | Some r \<Rightarrow> P r \<longrightarrow> \<not> (\<exists>session s'. refresh_tx C (hash_token C token) t s = (Inr (Inr session), s'))))"

lemma tokens_deadI:
  assumes "\<And>h r. hm_get h (st_access_tokens s) = Some r \<Longrightarrow> P r \<Longrightarrow> tok_revoked r"
    and "\<And>h r. hm_get h (st_refresh_tokens s) = Some r \<Longrightarrow> P r \<Longrightarrow> tok_revoked r"
  shows "tokens_dead C P s"
  using assms
  by (auto simp: tokens_dead_def authenticate_identity_def err_if_def elim!: refresh_tx_InrE
      split: option.split)

lemma tokens_dead_revoke:
  assumes "st_access_tokens s' = hm_map (revoke_if P) (st_access_tokens s)"
    and "st_refresh_tokens s' = hm_map (revoke_if P) (st_refresh_tokens s)"
    and "\<And>r. P (revoke_if P r) = P r"
  shows "tokens_dead C P s'"
  using assms by (intro tokens_deadI) auto

section \<open>Session properties\<close>

lemma login_tx_InrE:
  assumes "login_tx C key input code now s = (Inr session, s')"
  obtains u a a' d s1 where
    "login_user s (to_ascii_lowercase (trim (li_login input))) = Some u" "active_account s u = Some a"
    "verify_password C (li_password input) (acc_password_hash a)"
    "verify_second_factor_for_account C a code now key = Inr a'"
    "s1 = s\<lparr>st_accounts := hm_insert u (mark_online now a') (st_accounts s), uuid_next := Suc (uuid_next s),
       st_devices := hm_insert d \<lparr>dev_id = d, dev_user_id = u, dev_name = li_device_name input,
         dev_platform = li_platform input, dev_app_version = li_app_version input,
         dev_last_seen_at = now, dev_revoked_at = None\<rparr> (st_devices s)\<rparr>"
    "issue_session C u d (acc_profile (mark_online now a')) now s1 = (Inr session, s')"
  using assms
  by (auto simp: login_tx_def expect_def put_account_def new_uuid_def run_bnd add_device_def
      active_account_def Option.bind_eq_Some_conv ok_or_def split: option.splits if_splits sum.splits)

lemma verify_second_factor_frame:
  assumes "verify_second_factor_for_account C a code now key = Inr a'"
  shows "acc_deleted_at a' = acc_deleted_at a" "acc_suspended a' = acc_suspended a"
    "acc_password_hash a' = acc_password_hash a" "acc_profile a' = acc_profile a"
    "acc_second_factor a \<noteq> None \<longrightarrow> code \<noteq> None"
  using assms
  by (auto simp: verify_second_factor_for_account_def Let_def Option.bind_eq_Some_conv
      split: option.splits if_splits)

lemma fresh_token_of:
  "\<not> tok_revoked r \<Longrightarrow>
    fresh_token (tok_user_id r) (tok_device_id r) (tok_family_id r) t = r\<lparr>tok_expires_at := t\<rparr>"
  by (cases r) (simp add: fresh_token_def)

lemma issue_session_effects:
  assumes "issue_session_in_family C u d p now f s = (Inr session, s')"
  shows "hm_get (hash_token C (as_access_token session)) (st_access_tokens s')
      = Some (fresh_token u d f (now + minutes 15))"
    "hm_get (hash_token C (as_refresh_token session)) (st_refresh_tokens s')
      = Some (fresh_token u d f (now + days 30))"
    "st_consumed_refresh_tokens s' = st_consumed_refresh_tokens s"
    "st_devices s' = st_devices s" "st_accounts s' = st_accounts s" "as_device_id session = d"
  using assms by (auto simp: issue_session_in_family_run)

text \<open>C9. A login succeeds only for an active account whose password, and second factor if it has one,
  were given; and the access token it returns identifies that user and the new device for exactly
  fifteen minutes, as long as nothing else happens.\<close>

theorem login_opens_session:
  assumes "login_with_second_factor C input code now sv = (Inr session, sv')"
  shows "\<exists>u a. login_user (svc_txn sv) (to_ascii_lowercase (trim (li_login input))) = Some u
    \<and> active_account (svc_txn sv) u = Some a
    \<and> verify_password C (li_password input) (acc_password_hash a)
    \<and> (acc_second_factor a \<noteq> None \<longrightarrow> code \<noteq> None)
    \<and> (\<exists>a'. verify_second_factor_for_account C a code now (svc_data_encryption_key sv) = Inr a')
    \<and> (\<forall>t. authenticate_identity C (svc_txn sv') (as_access_token session) t =
         (if t < now + minutes 15 then Inr (u, as_device_id session) else Inl SessionExpired))"
proof -
  from assms have "mutate (login_tx C (svc_data_encryption_key sv) input code now) sv = (Inr session, sv')"
    unfolding login_with_second_factor_def checked_def by (auto simp: run_bnd split: sum.splits)
  from mutate_InrD(1) [OF this] obtain u a a' d s1 where
    *: "login_user (svc_txn sv) (to_ascii_lowercase (trim (li_login input))) = Some u"
    "active_account (svc_txn sv) u = Some a"
    "verify_password C (li_password input) (acc_password_hash a)"
    "verify_second_factor_for_account C a code now (svc_data_encryption_key sv) = Inr a'" and
    s1: "s1 = (svc_txn sv)\<lparr>st_accounts := hm_insert u (mark_online now a') (st_accounts (svc_txn sv)),
       uuid_next := Suc (uuid_next (svc_txn sv)),
       st_devices := hm_insert d \<lparr>dev_id = d, dev_user_id = u, dev_name = li_device_name input,
         dev_platform = li_platform input, dev_app_version = li_app_version input,
         dev_last_seen_at = now, dev_revoked_at = None\<rparr> (st_devices (svc_txn sv))\<rparr>" and
    issue: "issue_session C u d (acc_profile (mark_online now a')) now s1 = (Inr session, svc_txn sv')"
    by (rule login_tx_InrE)
  note frame = verify_second_factor_frame [OF *(4)]
  have live: "acc_deleted_at a' = None" "\<not> acc_suspended a'"
    using *(2) frame by (auto simp: active_account_def split: option.splits if_splits)
  note effects = issue_session_effects [OF issue [unfolded issue_session_run]]
  have "authenticate_identity C (svc_txn sv') (as_access_token session) t =
      (if t < now + minutes 15 then Inr (u, as_device_id session) else Inl SessionExpired)" for t
    unfolding authenticate_identity_def effects(1,4-6)
    using live by (simp add: s1 fresh_token_def err_if_def mark_online_def)
  with * frame(5) show ?thesis by blast
qed

text \<open>C10. Rotation: a refresh succeeds only with a live, unexpired refresh token of a live account; the
  old token is then consumed, and the new pair belongs to the same user, device and family.\<close>

theorem refresh_rotates:
  assumes "refresh C token now sv = (Inr session, sv')"
  shows "\<exists>r. hm_get (hash_token C token) (st_refresh_tokens (svc_txn sv)) = Some r
    \<and> \<not> tok_revoked r \<and> now < tok_expires_at r
    \<and> live_account (svc_txn sv) (tok_user_id r) \<noteq> None
    \<and> hm_get (hash_token C token) (st_consumed_refresh_tokens (svc_txn sv')) = Some (tok_family_id r)
    \<and> hm_get (hash_token C (as_access_token session)) (st_access_tokens (svc_txn sv')) =
        Some (r\<lparr>tok_expires_at := now + minutes 15\<rparr>)
    \<and> hm_get (hash_token C (as_refresh_token session)) (st_refresh_tokens (svc_txn sv')) =
        Some (r\<lparr>tok_expires_at := now + days 30\<rparr>)"
proof -
  from assms have "mutate (refresh_tx C (hash_token C token) now) sv = (Inr (Inr session), sv')"
    unfolding refresh_def by (auto simp: run_bnd split: prod.splits sum.splits)
  from mutate_InrD(1) [OF this] obtain r a where
    *: "hm_get (hash_token C token) (st_refresh_tokens (svc_txn sv)) = Some r" "\<not> tok_revoked r"
      "now < tok_expires_at r" "live_account (svc_txn sv) (tok_user_id r) = Some a" and
    issue: "issue_session_in_family C (tok_user_id r) (tok_device_id r) (acc_profile a) now
       (tok_family_id r)
       ((svc_txn sv)\<lparr>st_refresh_tokens := hm_remove (hash_token C token) (st_refresh_tokens (svc_txn sv)),
         st_consumed_refresh_tokens := hm_insert (hash_token C token) (tok_family_id r)
           (st_consumed_refresh_tokens (svc_txn sv))\<rparr>) = (Inr session, svc_txn sv')"
    by (rule refresh_tx_InrE)
  show ?thesis
    using * issue_session_effects [OF issue] by (intro exI [of _ r]) (simp add: fresh_token_of)
qed

text \<open>C11. Replaying a refresh token that was already used, by a rotation or a logout, revokes its whole
  family: no token of the family can be used or renewed any more.  The call fails either way; it
  leaves the tokens alone only if the database refused the write.\<close>

theorem refresh_reuse_revokes_family:
  assumes "hm_get (hash_token C token) (st_consumed_refresh_tokens (svc_txn sv)) = Some family"
  shows "\<exists>sv'. refresh C token now sv = (Inl RefreshTokenReuse, sv')
        \<and> tokens_dead C (\<lambda>r. tok_family_id r = family) (svc_txn sv')
      \<or> refresh C token now sv = (Inl Storage, sv') \<and> stored sv' = stored sv"
proof -
  let ?s = "svc_txn sv" and ?P = "\<lambda>r. family = tok_family_id r"
  let ?s' = "?s\<lparr>st_access_tokens := hm_map (revoke_if ?P) (st_access_tokens ?s),
    st_refresh_tokens := hm_map (revoke_if ?P) (st_refresh_tokens ?s)\<rparr>"
  have dead: "tokens_dead C (\<lambda>r. tok_family_id r = family) ?s'"
    by (rule tokens_dead_revoke [of _ _ ?s]) (auto simp: eq_commute [of family])
  obtain r sv' where run: "mutate (refresh_tx C (hash_token C token) now) sv = (r, sv')"
    by (cases "mutate (refresh_tx C (hash_token C token) now) sv")
  show ?thesis
  proof (cases r)
    case (Inr x)
    from mutate_InrD(1) [OF run [unfolded Inr]] refresh_tx_reuse [OF assms] dead run Inr
    show ?thesis by (intro exI [of _ sv']) (auto simp: refresh_def run_bnd)
  next
    case (Inl e)
    from mutate_InlD(1) [OF run [unfolded Inl]] refresh_tx_reuse [OF assms] run Inl
    show ?thesis
      by (intro exI [of _ sv'], cases "refresh_tx C (hash_token C token) now" sv rule: mutate_cases)
        (auto simp: refresh_def run_bnd)
  qed
qed

lemma revoke_device_tx_InrD:
  assumes "revoke_device_tx actor d now s = (Inr (), s')"
  shows "\<exists>dev. hm_get d (st_devices s) = Some dev \<and> dev_user_id dev = actor"
    "st_access_tokens s' = hm_map (revoke_if (\<lambda>r. tok_device_id r = d)) (st_access_tokens s)"
    "st_refresh_tokens s' = hm_map (revoke_if (\<lambda>r. tok_device_id r = d)) (st_refresh_tokens s)"
  using assms
  by (auto simp: revoke_device_tx_def revoke_tokens_def ok_or_def split: option.splits if_splits)

lemma change_password_tx_InrD:
  assumes "change_password_tx C actor current h s = (Inr (), s')"
  shows "\<exists>a. hm_get actor (st_accounts s) = Some a \<and> verify_password C current (acc_password_hash a)
      \<and> hm_get actor (st_accounts s') = Some (a\<lparr>acc_password_hash := h\<rparr>)"
    "st_access_tokens s' = hm_map (revoke_if (\<lambda>r. tok_user_id r = actor)) (st_access_tokens s)"
    "st_refresh_tokens s' = hm_map (revoke_if (\<lambda>r. tok_user_id r = actor)) (st_refresh_tokens s)"
  using assms
  by (auto simp: change_password_tx_def found_def put_account_def revoke_user_sessions_def
      revoke_tokens_def ok_or_def split: option.splits if_splits)

lemma reset_password_tx_InrD:
  assumes "reset_password_tx th h now s = (Inr (), s')"
  shows "\<exists>r. hm_get th (st_password_resets s) = Some r \<and> \<not> pr_consumed r \<and> now < pr_expires_at r
      \<and> st_access_tokens s' = hm_map (revoke_if (\<lambda>k. tok_user_id k = pr_user_id r)) (st_access_tokens s)
      \<and> st_refresh_tokens s' = hm_map (revoke_if (\<lambda>k. tok_user_id k = pr_user_id r)) (st_refresh_tokens s)
      \<and> st_devices s' = hm_map (\<lambda>device. if dev_user_id device = pr_user_id r
           then device\<lparr>dev_revoked_at := Some now\<rparr> else device) (st_devices s)"
    "\<exists>r'. hm_get th (st_password_resets s') = Some r' \<and> pr_consumed r'"
  using assms
  by (auto simp: reset_password_tx_def found_def put_account_def revoke_user_sessions_def
      revoke_tokens_def revoke_devices_def ok_or_def Let_def split: option.splits if_splits)

lemma reset_password_tx_consumed:
  "hm_get th (st_password_resets s) = Some r \<Longrightarrow> pr_consumed r \<Longrightarrow>
    \<exists>s'. reset_password_tx th h now s = (Inl InvalidCredentials, s')"
  by (simp add: reset_password_tx_def Let_def)

text \<open>Revoking a device: only its owner can, and afterwards none of the device's tokens can be used
  or renewed, while tokens of other devices are untouched.\<close>

theorem revoke_device_ends_sessions:
  assumes "revoke_device actor d now sv = (Inr (), sv')"
  shows "(\<exists>dev. hm_get d (st_devices (svc_txn sv)) = Some dev \<and> dev_user_id dev = actor)
    \<and> tokens_dead C (\<lambda>r. tok_device_id r = d) (svc_txn sv')
    \<and> (\<forall>h r. hm_get h (st_access_tokens (svc_txn sv)) = Some r \<and> tok_device_id r \<noteq> d \<longrightarrow>
         hm_get h (st_access_tokens (svc_txn sv')) = Some r)"
proof -
  let ?P = "\<lambda>r. tok_device_id r = d"
  note run = revoke_device_tx_InrD [OF mutate_InrD(1) [OF assms [unfolded revoke_device_def]]]
  have "tokens_dead C ?P (svc_txn sv')" by (rule tokens_dead_revoke [OF run(2,3)]) simp
  with run(1) show ?thesis by (auto simp: run(2) revoke_if_def)
qed

text \<open>A changed password needs the current one, replaces it, and ends every session of the user.\<close>

theorem change_password_ends_sessions:
  assumes "change_password U C actor current new sv = (Inr (), sv')"
  shows "\<exists>a h. hm_get actor (st_accounts (svc_txn sv)) = Some a
    \<and> verify_password C current (acc_password_hash a)
    \<and> (\<exists>k. c_argon2_hash C k (utf8 new) = Some h)
    \<and> hm_get actor (st_accounts (svc_txn sv')) = Some (a\<lparr>acc_password_hash := h\<rparr>)
    \<and> tokens_dead C (\<lambda>r. tok_user_id r = actor) (svc_txn sv')"
proof -
  from assms obtain h sv1 where hash: "drawing (hash_password C new) sv = (Inr h, sv1)"
    and run: "mutate (change_password_tx C actor current h) sv1 = (Inr (), sv')"
    unfolding change_password_def checked_def by (auto split: sum.splits)
  from hash have same: "st_accounts (svc_txn sv1) = st_accounts (svc_txn sv)"
    and argon: "c_argon2_hash C (rand_next (svc_txn sv)) (utf8 new) = Some h"
    by (auto simp: drawing_def hash_password_def)
  let ?P = "\<lambda>r. tok_user_id r = actor"
  note tx = change_password_tx_InrD [OF mutate_InrD(1) [OF run]]
  have "tokens_dead C ?P (svc_txn sv')" by (rule tokens_dead_revoke [OF tx(2,3)]) simp
  with tx(1) same argon show ?thesis by auto
qed

text \<open>C16. A password reset needs a token that is unused and unexpired, sets the new password, ends every
  session of the user, and uses the token up: a second reset with it never succeeds.\<close>

theorem reset_password_single_use:
  assumes "reset_password U C token new now sv = (Inr (), sv')"
  shows "\<exists>r. hm_get (hash_token C token) (st_password_resets (svc_txn sv)) = Some r
    \<and> \<not> pr_consumed r \<and> now < pr_expires_at r
    \<and> tokens_dead C (\<lambda>k. tok_user_id k = pr_user_id r) (svc_txn sv')
    \<and> (\<forall>d dev. hm_get d (st_devices (svc_txn sv')) = Some dev \<and> dev_user_id dev = pr_user_id r \<longrightarrow>
         dev_revoked_at dev \<noteq> None)
    \<and> (\<forall>new' t. \<exists>e sv''. reset_password U C token new' t sv' = (Inl e, sv''))"
proof -
  from assms obtain h sv1 where hash: "drawing (hash_password C new) sv = (Inr h, sv1)"
    and run: "mutate (reset_password_tx (hash_token C token) h now) sv1 = (Inr (), sv')"
    unfolding reset_password_def checked_def by (auto split: sum.splits)
  from hash have same: "st_password_resets (svc_txn sv1) = st_password_resets (svc_txn sv)"
    by (auto simp: drawing_def hash_password_def)
  note tx = reset_password_tx_InrD [OF mutate_InrD(1) [OF run]]
  from tx(1) obtain r where
    r: "hm_get (hash_token C token) (st_password_resets (svc_txn sv1)) = Some r" "\<not> pr_consumed r"
      "now < pr_expires_at r" and
    acc: "st_access_tokens (svc_txn sv')
      = hm_map (revoke_if (\<lambda>k. tok_user_id k = pr_user_id r)) (st_access_tokens (svc_txn sv1))" and
    ref: "st_refresh_tokens (svc_txn sv')
      = hm_map (revoke_if (\<lambda>k. tok_user_id k = pr_user_id r)) (st_refresh_tokens (svc_txn sv1))" and
    dev: "st_devices (svc_txn sv') = hm_map (\<lambda>device. if dev_user_id device = pr_user_id r
        then device\<lparr>dev_revoked_at := Some now\<rparr> else device) (st_devices (svc_txn sv1))"
    by blast
  have dead: "tokens_dead C (\<lambda>k. tok_user_id k = pr_user_id r) (svc_txn sv')"
    by (rule tokens_dead_revoke [OF acc ref]) simp
  have again: "\<exists>e sv''. reset_password U C token new' t sv' = (Inl e, sv'')" for new' t
  proof (rule ccontr)
    assume "\<not> (\<exists>e sv''. reset_password U C token new' t sv' = (Inl e, sv''))"
    then obtain sv'' where "reset_password U C token new' t sv' = (Inr (), sv'')"
      by (metis old.sum.exhaust old.unit.exhaust surj_pair)
    then obtain h' sv2 where "drawing (hash_password C new') sv' = (Inr h', sv2)"
      and "mutate (reset_password_tx (hash_token C token) h' t) sv2 = (Inr (), sv'')"
      unfolding reset_password_def checked_def by (auto split: sum.splits)
    note again = this(1) mutate_InrD(1) [OF this(2)]
    from tx(2) again(1) obtain r' where
      "hm_get (hash_token C token) (st_password_resets (svc_txn sv2)) = Some r'" "pr_consumed r'"
      by (auto simp: drawing_def hash_password_def)
    from reset_password_tx_consumed [OF this] again(2) show False by (metis Inl_Inr_False fst_conv)
  qed
  have "dev_revoked_at x \<noteq> None"
    if x: "hm_get d (st_devices (svc_txn sv')) = Some x" "dev_user_id x = pr_user_id r" for d x
  proof -
    from x(1) obtain z where
      "x = (if dev_user_id z = pr_user_id r then z\<lparr>dev_revoked_at := Some now\<rparr> else z)"
      by (auto simp: dev)
    with x(2) show ?thesis by (cases "dev_user_id z = pr_user_id r") simp_all
  qed
  with r same dead again show ?thesis by (intro exI [of _ r]) auto
qed


end
