(* ===== verification/Profiles.thy ===== *)
theory Profiles
  imports Sessions "HOL-Library.Product_Lexorder"
begin

text \<open>
  Profiles, privacy settings, the export of personal data and the deletion of an account
  (\<open>crates/application/src/service.rs\<close>, lines 1365-1571 and 4162-4297).
\<close>

section \<open>Editing a profile\<close>

record update_profile_input =
  upi_nickname :: rstr
  upi_signature :: rstr
  upi_avatar_url :: "rstr option"
  upi_avatar_attachment_id :: "attachment_id option"
  upi_gender :: "rstr option"
  upi_birthday :: "date option"
  upi_region :: "rstr option"
  upi_presence :: "presence option"

definition owned_available :: "'z store_scheme \<Rightarrow> user_id \<Rightarrow> attachment_id \<Rightarrow> attachment option" where
  "owned_available s u i = (case hm_get i (st_attachments s) of
     None \<Rightarrow> None
   | Some p \<Rightarrow> if pa_owner_id p = u \<and> pa_available p then Some (pa_attachment p) else None)"

definition check_profile_avatar ::
  "'z store_scheme \<Rightarrow> user_id \<Rightarrow> attachment_id option \<Rightarrow> application_error + unit" where
  "check_profile_avatar s u avatar = (case avatar of
     None \<Rightarrow> Inr ()
   | Some i \<Rightarrow>
       and_then (ok_or (owned_available s u i) NotFound) (\<lambda>a.
       err_if (att_kind a \<noteq> KImage) (invalid ''avatar_attachment_id'' ''image_required'')))"

definition update_profile_tx ::
  "user_id \<Rightarrow> update_profile_input \<Rightarrow> date \<Rightarrow> datetime \<Rightarrow> user_profile tx" where
  "update_profile_tx user_id input today now =
     bnd (gets (\<lambda>s. check_profile_avatar s user_id (upi_avatar_attachment_id input))) (\<lambda>r.
     bnd (lift r) (\<lambda>_.
     bnd (gets (\<lambda>s. hm_get user_id (st_accounts s))) (\<lambda>a.
     bnd (found a) (\<lambda>a.
     bnd (gets (\<lambda>s. case upi_presence input of
              Some p \<Rightarrow> p
            | None \<Rightarrow> (case hm_get user_id (st_preferred_presence s) of
                        Some p \<Rightarrow> p | None \<Rightarrow> prof_presence (acc_profile a)))) (\<lambda>presence.
     bnd (dom (update_public_fields today
            \<lparr>upu_nickname = upi_nickname input, upu_signature = upi_signature input,
             upu_avatar_url = upi_avatar_url input,
             upu_avatar_attachment_id = upi_avatar_attachment_id input,
             upu_gender = upi_gender input, upu_birthday = upi_birthday input,
             upu_region = upi_region input, upu_presence = presence\<rparr> (acc_profile a))) (\<lambda>profile.
     bnd (put_account user_id (a\<lparr>acc_profile := profile\<rparr>)) (\<lambda>_.
     bnd (case upi_presence input of
            None \<Rightarrow> ret ()
          | Some p \<Rightarrow> modify (\<lambda>s. s\<lparr>st_preferred_presence :=
                        hm_insert user_id p (st_preferred_presence s)\<rparr>)) (\<lambda>_.
     bnd (append_profile_events user_id profile now) (\<lambda>_.
     ret profile)))))))))"

text \<open>\<open>today\<close> is the date of \<open>Utc::now()\<close>, which \<open>update_public_fields\<close> reads itself.\<close>

definition update_profile ::
  "user_id \<Rightarrow> update_profile_input \<Rightarrow> date \<Rightarrow> datetime \<Rightarrow> user_profile svc" where
  "update_profile user_id input today now = mutate (update_profile_tx user_id input today now)"

definition profile_privacy :: "'z store_scheme \<Rightarrow> user_id \<Rightarrow> profile_privacy_settings" where
  "profile_privacy s actor = (case hm_get actor (st_profile_privacy s) of
     None \<Rightarrow> default_privacy | Some settings \<Rightarrow> settings)"

definition update_profile_privacy_tx ::
  "user_id \<Rightarrow> profile_privacy_settings \<Rightarrow> datetime \<Rightarrow> profile_privacy_settings tx" where
  "update_profile_privacy_tx actor settings now =
     bnd (get_live_account actor) (\<lambda>_.
     bnd (modify (\<lambda>s. s\<lparr>st_profile_privacy := hm_insert actor settings (st_profile_privacy s)\<rparr>)) (\<lambda>_.
     bnd (gets (\<lambda>s. friend_ids s actor)) (\<lambda>recipients.
     bnd (for_each recipients (append_visible_profile actor now)) (\<lambda>_.
     bnd (append_event {actor} PresenceUpdated (PPrivacy settings) now) (\<lambda>_.
     ret settings)))))"

definition update_profile_privacy ::
  "user_id \<Rightarrow> profile_privacy_settings \<Rightarrow> datetime \<Rightarrow> profile_privacy_settings svc" where
  "update_profile_privacy actor settings now = mutate (update_profile_privacy_tx actor settings now)"

section \<open>Exporting personal data\<close>

record personal_data_export =
  pde_generated_at :: datetime
  pde_email :: rstr
  pde_profile :: user_profile
  pde_privacy :: profile_privacy_settings
  pde_friend_ids :: "user_id list"
  pde_friend_requests :: "friend_request list"
  pde_conversations :: "conversation list"
  pde_messages :: "message list"

definition export_personal_data ::
  "'z store_scheme \<Rightarrow> user_id \<Rightarrow> datetime \<Rightarrow> application_error + personal_data_export" where
  "export_personal_data s actor now =
     and_then (ok_or (live_account s actor) NotFound) (\<lambda>a.
     and_then (account_email s actor) (\<lambda>email.
     let readable = filter (\<lambda>c. can_read c actor) (hm_values (st_conversations s));
         ids = set (map conv_id readable)
     in Inr \<lparr>pde_generated_at = now, pde_email = email, pde_profile = acc_profile a,
             pde_privacy = profile_privacy s actor,
             pde_friend_ids = sort (friend_ids s actor),
             pde_friend_requests = sort_key fr_created_at
               (filter (\<lambda>r. fr_sender_id r = actor \<or> fr_recipient_id r = actor)
                 (hm_values (st_friend_requests s))),
             pde_conversations = sort_key conv_created_at readable,
             pde_messages = sort_key (\<lambda>m. (msg_created_at m, msg_id m))
               (concat (map snd (filter (\<lambda>(cid, _). cid \<in> ids) (st_messages s))))\<rparr>))"

section \<open>Deleting an account\<close>

definition account_relationship_recipients :: "'z store_scheme \<Rightarrow> user_id \<Rightarrow> user_id set" where
  "account_relationship_recipients s actor =
     {u \<in> set (concat (map (\<lambda>f. [fs_lower_user_id f, fs_upper_user_id f])
                 (filter (\<lambda>f. friendship_contains f actor) (st_friendships s)))). u \<noteq> actor}
     \<union> {u \<in> set (concat (map member_ids
                 (filter (\<lambda>c. can_read c actor) (hm_values (st_conversations s))))). u \<noteq> actor}"

text \<open>\<open>Iterator::max_by_key\<close>: of several maximal elements, the last.\<close>

fun max_by_key :: "('a \<Rightarrow> 'b::linorder) \<Rightarrow> 'a list \<Rightarrow> 'a option" where
  "max_by_key f [] = None"
| "max_by_key f (x # xs) = Some (fold (\<lambda>y best. if f best \<le> f y then y else best) xs x)"

definition ownership_successor :: "user_id \<Rightarrow> conversation \<Rightarrow> user_id option" where
  "ownership_successor actor c =
     (if is_group c \<and> role_of c actor = Some Owner
      then map_option mem_user_id
             (max_by_key (\<lambda>m. (mem_role m, - mem_joined_at m))
               (filter (\<lambda>m. mem_user_id m \<noteq> actor) (bt_values (conv_members c))))
      else None)"

definition detach_account :: "user_id \<Rightarrow> datetime \<Rightarrow> conversation \<Rightarrow> conversation" where
  "detach_account actor now c =
     (if \<not> can_read c actor then c
      else
        let members = (case ownership_successor actor c of
                         None \<Rightarrow> conv_members c
                       | Some u \<Rightarrow> bt_update u (set_role Owner) (conv_members c))
        in c\<lparr>conv_members := bt_remove actor members, conv_updated_at := now\<rparr>)"

definition detach_account_from_conversations :: "user_id \<Rightarrow> datetime \<Rightarrow> unit tx" where
  "detach_account_from_conversations actor now = modify (\<lambda>s. s\<lparr>st_conversations :=
     hm_map (detach_account actor now) (st_conversations s)\<rparr>)"

text \<open>The nickname is ``yi zhuxiao yonghu'' (deleted user).\<close>

definition anonymized :: "crypto \<Rightarrow> user_id \<Rightarrow> user_profile \<Rightarrow> user_profile" where
  "anonymized C actor p =
     p\<lparr>prof_username := lit ''deleted-'' @ filter (\<lambda>c. c \<noteq> 45) (c_uuid_text C (user_uuid actor)),
       prof_nickname := [0x5DF2, 0x6CE8, 0x9500, 0x7528, 0x6237], prof_avatar_url := None, prof_avatar_attachment_id := None,
       prof_signature := [], prof_gender := None, prof_birthday := None, prof_region := None,
       prof_presence := Offline, prof_last_seen_at := None\<rparr>"

definition anonymize_account :: "crypto \<Rightarrow> user_id \<Rightarrow> datetime \<Rightarrow> user_profile tx" where
  "anonymize_account C actor now =
     bnd (gets (\<lambda>s. hm_get actor (st_accounts s))) (\<lambda>a.
     bnd (found a) (\<lambda>a.
     bnd (put_account actor (a\<lparr>acc_deleted_at := Some now,
            acc_profile := anonymized C actor (acc_profile a)\<rparr>)) (\<lambda>_.
     ret (anonymized C actor (acc_profile a)))))"

definition purge_account_relationships :: "user_id \<Rightarrow> datetime \<Rightarrow> unit tx" where
  "purge_account_relationships actor now =
     bnd (modify (\<lambda>s. s\<lparr>
       st_by_email := hm_retain (\<lambda>_ u. u \<noteq> actor) (st_by_email s),
       st_by_username := hm_retain (\<lambda>_ u. u \<noteq> actor) (st_by_username s)\<rparr>)) (\<lambda>_.
     bnd (revoke_user_sessions actor (Some now)) (\<lambda>_.
     modify (\<lambda>s. s\<lparr>
       st_password_resets := hm_retain (\<lambda>_ r. pr_user_id r \<noteq> actor) (st_password_resets s),
       st_friend_requests := hm_retain (\<lambda>_ r. fr_sender_id r \<noteq> actor \<and> fr_recipient_id r \<noteq> actor)
         (st_friend_requests s),
       st_friendships := filter (\<lambda>f. \<not> friendship_contains f actor) (st_friendships s),
       st_friend_settings := hm_retain (\<lambda>(owner, friend) _. owner \<noteq> actor \<and> friend \<noteq> actor)
         (st_friend_settings s),
       st_conversation_settings := hm_retain (\<lambda>(u, _) _. u \<noteq> actor) (st_conversation_settings s),
       st_read_positions := hm_retain (\<lambda>(u, _) _. u \<noteq> actor) (st_read_positions s),
       st_blocks := Set.filter (\<lambda>(owner, target). owner \<noteq> actor \<and> target \<noteq> actor) (st_blocks s),
       st_reports := filter (\<lambda>r. ur_reporter_id r \<noteq> actor) (st_reports s),
       st_favorite_messages := Set.filter (\<lambda>(u, _). u \<noteq> actor) (st_favorite_messages s),
       st_scheduled_messages := filter (\<lambda>m. sched_actor m \<noteq> actor) (st_scheduled_messages s),
       st_stickers := hm_retain (\<lambda>_ k. stk_owner_id k \<noteq> actor) (st_stickers s),
       st_profile_privacy := hm_remove actor (st_profile_privacy s),
       st_preferred_presence := hm_remove actor (st_preferred_presence s)\<rparr>)))"

definition delete_account_in_store :: "crypto \<Rightarrow> user_id \<Rightarrow> rstr \<Rightarrow> datetime \<Rightarrow> unit tx" where
  "delete_account_in_store C actor current_password now =
     bnd (get_live_account actor) (\<lambda>a.
     bnd (fail_if (\<not> verify_password C current_password (acc_password_hash a)) InvalidCredentials) (\<lambda>_.
     bnd (gets (\<lambda>s. account_relationship_recipients s actor)) (\<lambda>recipients.
     bnd (detach_account_from_conversations actor now) (\<lambda>_.
     bnd (anonymize_account C actor now) (\<lambda>profile.
     bnd (purge_account_relationships actor now) (\<lambda>_.
     append_event recipients PresenceUpdated (PProfileDeleted profile) now))))))"

definition delete_account :: "crypto \<Rightarrow> user_id \<Rightarrow> rstr \<Rightarrow> rstr \<Rightarrow> datetime \<Rightarrow> unit svc" where
  "delete_account C actor current_password confirmation now =
     (if confirmation \<noteq> lit ''DELETE'' then throw (invalid ''confirmation'' ''confirmation_required'')
      else mutate (delete_account_in_store C actor current_password now))"

section \<open>Guarantees\<close>

lemma progress_append_visible_profile [guar_intros]:
  "guar progress (append_visible_profile actor now u)"
  unfolding append_visible_profile_def by (intro guar_intros)

lemma progress_update_profile [guar_intros]:
  "guar progress (update_profile_tx u i today now)"
  "guar progress (update_profile_privacy_tx u settings now)"
  unfolding update_profile_tx_def update_profile_privacy_tx_def by (intro guar_intros; simp)+

lemma progress_delete_account [guar_intros]:
  "guar progress (delete_account_in_store C actor password now)"
  unfolding delete_account_in_store_def detach_account_from_conversations_def anonymize_account_def
    purge_account_relationships_def
  by (intro guar_intros) simp_all

lemma svc_progress_profiles [guar_intros]:
  "guar svc_progress (update_profile u i today now)"
  "guar svc_progress (update_profile_privacy u settings now)"
  "guar svc_progress (delete_account C actor password confirmation now)"
  unfolding update_profile_def update_profile_privacy_def delete_account_def by (intro guar_intros)+

end
