(* ===== verification/Friends.thy ===== *)
theory Friends
  imports Service_Core
begin

text \<open>
  Friend requests, friendships, blocks and reports (\<open>crates/application/src/service.rs\<close>, lines
  1823-2181).
\<close>

section \<open>Search and requests\<close>

definition blocked_pair :: "'z store_scheme \<Rightarrow> user_id \<Rightarrow> user_id \<Rightarrow> bool" where
  "blocked_pair s a b \<longleftrightarrow> (a, b) \<in> st_blocks s \<or> (b, a) \<in> st_blocks s"

definition search_user_exact :: "'z store_scheme \<Rightarrow> user_id \<Rightarrow> rstr \<Rightarrow> user_profile option" where
  "search_user_exact s actor username =
     (case hm_get (to_ascii_lowercase (trim username)) (st_by_username s) of
        None \<Rightarrow> None
      | Some u \<Rightarrow> if u = actor \<or> blocked_pair s actor u then None else visible_profile s actor u)"

definition same_pending_request :: "user_id \<Rightarrow> user_id \<Rightarrow> friend_request \<Rightarrow> bool" where
  "same_pending_request sender recipient r \<longleftrightarrow>
     fr_status r = FrPending \<and> fr_sender_id r = sender \<and> fr_recipient_id r = recipient"

definition send_friend_request_tx :: "user_id \<Rightarrow> rstr \<Rightarrow> rstr \<Rightarrow> datetime \<Rightarrow> friend_request tx" where
  "send_friend_request_tx sender username message now =
     bnd (gets (\<lambda>s. hm_get username (st_by_username s))) (\<lambda>r.
     bnd (found r) (\<lambda>recipient.
     bnd (gets (\<lambda>s. blocked_pair s sender recipient)) (\<lambda>blocked.
     bnd (fail_if blocked forbidden) (\<lambda>_.
     bnd (gets (\<lambda>s. are_friends s sender recipient
            \<or> list_ex (same_pending_request sender recipient) (hm_values (st_friend_requests s)))) (\<lambda>dup.
     bnd (fail_if dup Conflict) (\<lambda>_.
     bnd new_uuid (\<lambda>fresh.
     bnd (dom (friend_request_new (FriendRequestId fresh) sender recipient message now)) (\<lambda>request.
     bnd (modify (\<lambda>s. s\<lparr>st_friend_requests :=
            hm_insert (fr_id request) request (st_friend_requests s)\<rparr>)) (\<lambda>_.
     bnd (append_event {sender, recipient} FriendshipUpdated (PFriendRequest request) now) (\<lambda>_.
     ret request))))))))))"

definition send_friend_request :: "user_id \<Rightarrow> rstr \<Rightarrow> rstr \<Rightarrow> datetime \<Rightarrow> friend_request svc" where
  "send_friend_request sender username message now =
     mutate (send_friend_request_tx sender (to_ascii_lowercase (trim username)) message now)"

definition friend_requests :: "'z store_scheme \<Rightarrow> user_id \<Rightarrow> friend_request list" where
  "friend_requests s u = sort_key (\<lambda>r. - fr_updated_at r)
     (filter (\<lambda>r. fr_sender_id r = u \<or> fr_recipient_id r = u) (hm_values (st_friend_requests s)))"

text \<open>The other party of a request, if \<open>actor\<close> is one of the two.\<close>

definition request_peer :: "user_id \<Rightarrow> friend_request \<Rightarrow> user_id option" where
  "request_peer actor r =
     (if fr_sender_id r = actor then Some (fr_recipient_id r)
      else if fr_recipient_id r = actor then Some (fr_sender_id r) else None)"

text \<open>\<open>order\<close> lists the collected set of users in its iteration order.\<close>

definition profiles_by_nickname ::
  "unicode \<Rightarrow> 'z store_scheme \<Rightarrow> user_id \<Rightarrow> user_id list \<Rightarrow> user_profile list" where
  "profiles_by_nickname U s viewer order =
     sort_key (\<lambda>p. to_lowercase U (prof_nickname p))
       (List.map_filter (visible_profile s viewer) order)"

definition friend_request_profiles :: "unicode \<Rightarrow> 'z store_scheme \<Rightarrow> user_id \<Rightarrow> user_profile list" where
  "friend_request_profiles U s actor = profiles_by_nickname U s actor
     (remdups (List.map_filter (request_peer actor) (hm_values (st_friend_requests s))))"

definition friends :: "unicode \<Rightarrow> 'z store_scheme \<Rightarrow> user_id \<Rightarrow> user_profile list" where
  "friends U s u = profiles_by_nickname U s u (remdups (friend_ids s u))"

section \<open>Deciding a request\<close>

definition new_friend_settings :: "user_id \<Rightarrow> friend_settings" where
  "new_friend_settings friend = \<lparr>fset_user_id = friend, fset_remark = None, fset_group = None,
     fset_share_presence = True, fset_allow_files = True\<rparr>"

definition put_friend_settings :: "user_id \<Rightarrow> user_id \<Rightarrow> friend_settings \<Rightarrow> unit tx" where
  "put_friend_settings owner friend settings = modify (\<lambda>s. s\<lparr>st_friend_settings :=
     hm_insert (owner, friend) settings (st_friend_settings s)\<rparr>)"

definition make_friends :: "user_id \<Rightarrow> user_id \<Rightarrow> datetime \<Rightarrow> unit tx" where
  "make_friends sender recipient now =
     bnd (dom (friendship_new sender recipient now)) (\<lambda>f.
     bnd (modify (\<lambda>s. s\<lparr>st_friendships := st_friendships s @ [f]\<rparr>)) (\<lambda>_.
     bnd (for_each [(sender, recipient), (recipient, sender)] (\<lambda>(owner, friend).
            put_friend_settings owner friend (new_friend_settings friend))) (\<lambda>_.
     bnd new_uuid (\<lambda>fresh.
     bnd (dom (conversation_direct (ConversationId fresh) sender recipient now)) (\<lambda>direct.
     store_conversation direct)))))"

definition decide_friend_request_tx ::
  "user_id \<Rightarrow> friend_request_id \<Rightarrow> friend_request_decision \<Rightarrow> datetime \<Rightarrow> friend_request tx" where
  "decide_friend_request_tx actor rid decision now =
     bnd (gets (\<lambda>s. hm_get rid (st_friend_requests s))) (\<lambda>r.
     bnd (found r) (\<lambda>request.
     bnd (dom (case decision of
                 Accept \<Rightarrow> friend_request_accept actor now request
               | Reject \<Rightarrow> friend_request_reject actor now request)) (\<lambda>request.
     bnd (modify (\<lambda>s. s\<lparr>st_friend_requests := hm_insert rid request (st_friend_requests s)\<rparr>)) (\<lambda>_.
     bnd (if decision = Accept
          then make_friends (fr_sender_id request) (fr_recipient_id request) now
          else ret ()) (\<lambda>_.
     bnd (append_event {fr_sender_id request, fr_recipient_id request} FriendshipUpdated
            (PFriendRequest request) now) (\<lambda>_.
     ret request))))))"

definition decide_friend_request ::
  "user_id \<Rightarrow> friend_request_id \<Rightarrow> friend_request_decision \<Rightarrow> datetime \<Rightarrow> friend_request svc" where
  "decide_friend_request actor rid decision now =
     mutate (decide_friend_request_tx actor rid decision now)"

section \<open>Friends\<close>

definition list_friend_settings :: "'z store_scheme \<Rightarrow> user_id \<Rightarrow> friend_settings list" where
  "list_friend_settings s actor = sort_key fset_user_id
     (map snd (filter (\<lambda>((owner, _), _). owner = actor) (st_friend_settings s)))"

definition validate_optional_label :: "rstr option \<Rightarrow> string \<Rightarrow> nat \<Rightarrow> domain_error + unit" where
  "validate_optional_label value field maximum =
     err_if (case value of None \<Rightarrow> False | Some v \<Rightarrow> length (trim v) > maximum)
       (Validation field ''invalid_length'')"

definition update_friend_settings_tx ::
  "user_id \<Rightarrow> user_id \<Rightarrow> update_friend_settings_request \<Rightarrow> datetime \<Rightarrow> friend_settings tx" where
  "update_friend_settings_tx actor friend request now =
     bnd (gets (\<lambda>s. are_friends s actor friend)) (\<lambda>are.
     bnd (fail_if (\<not> are) NotFound) (\<lambda>_.
     let settings = \<lparr>fset_user_id = friend,
           fset_remark = Option.bind (ufs_remark request) some_non_empty,
           fset_group = Option.bind (ufs_group request) some_non_empty,
           fset_share_presence = ufs_share_presence request,
           fset_allow_files = ufs_allow_files request\<rparr>
     in
     bnd (put_friend_settings actor friend settings) (\<lambda>_.
     bnd (append_event {actor} FriendshipUpdated (PFriendSettings settings) now) (\<lambda>_.
     ret settings))))"

definition update_friend_settings ::
  "user_id \<Rightarrow> user_id \<Rightarrow> update_friend_settings_request \<Rightarrow> datetime \<Rightarrow> friend_settings svc" where
  "update_friend_settings actor friend request now =
     bnd (checked (validate_optional_label (ufs_remark request) ''remark'' 48)) (\<lambda>_.
     bnd (checked (validate_optional_label (ufs_group request) ''friend_group'' 48)) (\<lambda>_.
     mutate (update_friend_settings_tx actor friend request now)))"

text \<open>Both \<open>delete_friend\<close> and \<open>block_user\<close> drop the friendships of the pair and their settings.\<close>

definition drop_friendships :: "user_id \<Rightarrow> user_id \<Rightarrow> friendship list \<Rightarrow> friendship list" where
  "drop_friendships a b fs = filter (\<lambda>f. \<not> (friendship_contains f a \<and> friendship_contains f b)) fs"

definition drop_friend_settings :: "user_id \<Rightarrow> user_id \<Rightarrow> unit tx" where
  "drop_friend_settings a b = modify (\<lambda>s. s\<lparr>st_friend_settings :=
     hm_remove (b, a) (hm_remove (a, b) (st_friend_settings s))\<rparr>)"

definition delete_friend_tx :: "user_id \<Rightarrow> user_id \<Rightarrow> datetime \<Rightarrow> unit tx" where
  "delete_friend_tx actor friend now =
     bnd (gets (\<lambda>s. length (st_friendships s))) (\<lambda>before.
     bnd (modify (\<lambda>s. s\<lparr>st_friendships := drop_friendships actor friend (st_friendships s)\<rparr>)) (\<lambda>_.
     bnd (gets (\<lambda>s. length (st_friendships s))) (\<lambda>after.
     bnd (fail_if (before = after) NotFound) (\<lambda>_.
     bnd (drop_friend_settings actor friend) (\<lambda>_.
     append_event {actor, friend} FriendshipUpdated (PRemovedFriends actor friend) now)))))"

definition delete_friend :: "user_id \<Rightarrow> user_id \<Rightarrow> datetime \<Rightarrow> unit svc" where
  "delete_friend actor friend now = mutate (delete_friend_tx actor friend now)"

definition cancel_between :: "user_id \<Rightarrow> user_id \<Rightarrow> datetime \<Rightarrow> friend_request \<Rightarrow> friend_request" where
  "cancel_between a b now r =
     (if fr_status r = FrPending
         \<and> ((fr_sender_id r = a \<and> fr_recipient_id r = b) \<or> (fr_sender_id r = b \<and> fr_recipient_id r = a))
      then r\<lparr>fr_status := FrCancelled, fr_updated_at := now\<rparr> else r)"

definition block_user_tx :: "user_id \<Rightarrow> user_id \<Rightarrow> datetime \<Rightarrow> unit tx" where
  "block_user_tx actor target now =
     bnd (gets (\<lambda>s. hm_contains target (st_accounts s))) (\<lambda>known.
     bnd (fail_if (\<not> known) NotFound) (\<lambda>_.
     bnd (modify (\<lambda>s. s\<lparr>st_blocks := insert (actor, target) (st_blocks s),
            st_friendships := drop_friendships actor target (st_friendships s)\<rparr>)) (\<lambda>_.
     bnd (drop_friend_settings actor target) (\<lambda>_.
     bnd (modify (\<lambda>s. s\<lparr>st_friend_requests :=
            hm_map (cancel_between actor target now) (st_friend_requests s)\<rparr>)) (\<lambda>_.
     append_event {actor, target} FriendshipUpdated (PBlocked actor target) now)))))"

definition block_user :: "user_id \<Rightarrow> user_id \<Rightarrow> datetime \<Rightarrow> unit svc" where
  "block_user actor target now =
     (if actor = target then throw (Domain SelfTarget) else mutate (block_user_tx actor target now))"

definition unblock_user_tx :: "user_id \<Rightarrow> user_id \<Rightarrow> datetime \<Rightarrow> unit tx" where
  "unblock_user_tx actor target now =
     bnd (gets (\<lambda>s. (actor, target) \<in> st_blocks s)) (\<lambda>blocked.
     bnd (modify (\<lambda>s. s\<lparr>st_blocks := st_blocks s - {(actor, target)}\<rparr>)) (\<lambda>_.
     bnd (fail_if (\<not> blocked) NotFound) (\<lambda>_.
     append_event {actor} FriendshipUpdated (PUnblocked target) now)))"

definition unblock_user :: "user_id \<Rightarrow> user_id \<Rightarrow> datetime \<Rightarrow> unit svc" where
  "unblock_user actor target now = mutate (unblock_user_tx actor target now)"

definition report_reasons :: "rstr list" where
  "report_reasons = [lit ''spam'', lit ''harassment'', lit ''impersonation'', lit ''unsafe_file'',
     lit ''other'']"

definition report_user_tx ::
  "user_id \<Rightarrow> user_id \<Rightarrow> rstr \<Rightarrow> rstr option \<Rightarrow> datetime \<Rightarrow> uuid tx" where
  "report_user_tx actor target reason details now =
     bnd (gets (\<lambda>s. hm_contains target (st_accounts s))) (\<lambda>known.
     bnd (fail_if (\<not> known) NotFound) (\<lambda>_.
     bnd new_uuid (\<lambda>fresh.
     bnd (modify (\<lambda>s. s\<lparr>st_reports := st_reports s @
            [\<lparr>ur_id = fresh, ur_reporter_id = actor, ur_reported_id = target, ur_reason = reason,
              ur_details = details, ur_created_at = now\<rparr>]\<rparr>)) (\<lambda>_.
     ret fresh))))"

definition report_user ::
  "user_id \<Rightarrow> user_id \<Rightarrow> report_user_request \<Rightarrow> datetime \<Rightarrow> uuid svc" where
  "report_user actor target request now =
     (if actor = target then throw (Domain SelfTarget)
      else let reason = trim (rep_reason request) in
        if reason \<notin> set report_reasons
           \<or> (case rep_details request of None \<Rightarrow> False | Some d \<Rightarrow> length d > 1000)
        then throw (invalid ''report'' ''invalid_value'')
        else mutate (report_user_tx actor target reason (rep_details request) now))"

section \<open>Guarantees\<close>

lemma progress_friend_writes [guar_intros]:
  "guar progress (put_friend_settings owner friend settings)"
  "guar progress (drop_friend_settings a b)"
  by (simp_all add: put_friend_settings_def drop_friend_settings_def guar_def)

lemma progress_make_friends [guar_intros]: "guar progress (make_friends sender recipient now)"
  unfolding make_friends_def by (intro guar_intros) simp

lemma progress_friends [guar_intros]:
  "guar progress (send_friend_request_tx sender username message now)"
  "guar progress (decide_friend_request_tx actor rid decision now)"
  "guar progress (update_friend_settings_tx actor friend ufs now)"
  "guar progress (delete_friend_tx actor friend now)"
  "guar progress (block_user_tx actor target now)"
  "guar progress (unblock_user_tx actor target now)"
  "guar progress (report_user_tx actor target reason details now)"
  unfolding send_friend_request_tx_def decide_friend_request_tx_def update_friend_settings_tx_def
    delete_friend_tx_def block_user_tx_def unblock_user_tx_def report_user_tx_def Let_def
  by (intro guar_intros; simp)+

lemma svc_progress_friends [guar_intros]:
  "guar svc_progress (send_friend_request sender username message now)"
  "guar svc_progress (decide_friend_request actor rid decision now)"
  "guar svc_progress (update_friend_settings actor friend ufs now)"
  "guar svc_progress (delete_friend actor friend now)"
  "guar svc_progress (block_user actor target now)"
  "guar svc_progress (unblock_user actor target now)"
  "guar svc_progress (report_user actor target rep now)"
  unfolding send_friend_request_def decide_friend_request_def update_friend_settings_def
    delete_friend_def block_user_def unblock_user_def report_user_def Let_def
  by (intro guar_intros)+

end
