(* ===== verification/Group_Admin.thy ===== *)
theory Group_Admin
  imports Service_Core "HOL-Library.Product_Lexorder"
begin

text \<open>
  Conversations and group administration (\<open>crates/application/src/service.rs\<close>, lines 2183-2768 and
  3175-3373): direct and group conversations, members, roles, muting, leaving and disbanding, and each
  user's settings of a conversation.  Boards (announcements, join requests, polls) are in
  \<open>Group_Boards\<close>.
\<close>

section \<open>Creating conversations\<close>

definition is_direct_between :: "user_id \<Rightarrow> user_id \<Rightarrow> conversation \<Rightarrow> bool" where
  "is_direct_between actor peer c \<longleftrightarrow> length (conv_members c) = 2
     \<and> bt_contains actor (conv_members c) \<and> bt_contains peer (conv_members c) \<and> \<not> is_group c"

definition create_direct_tx :: "user_id \<Rightarrow> user_id \<Rightarrow> datetime \<Rightarrow> conversation tx" where
  "create_direct_tx actor peer now =
     bnd (gets (\<lambda>s. are_friends s actor peer)) (\<lambda>friends.
     bnd (fail_if (\<not> friends) forbidden) (\<lambda>_.
     bnd (gets (\<lambda>s. find (is_direct_between actor peer) (hm_values (st_conversations s)))) (\<lambda>r.
     case r of
       Some existing \<Rightarrow> ret (conversation_for_user existing actor)
     | None \<Rightarrow>
         bnd new_uuid (\<lambda>fresh.
         bnd (dom (conversation_direct (ConversationId fresh) actor peer now)) (\<lambda>c.
         bnd (store_conversation c) (\<lambda>_.
         bnd (for_each [actor, peer] (\<lambda>recipient.
                append_event {recipient} ConversationUpdated
                  (PConversation (conversation_for_user c recipient)) now)) (\<lambda>_.
         ret (conversation_for_user c actor))))))))"

definition create_direct :: "user_id \<Rightarrow> user_id \<Rightarrow> datetime \<Rightarrow> conversation svc" where
  "create_direct actor peer now = mutate (create_direct_tx actor peer now)"

definition create_group_tx :: "user_id \<Rightarrow> user_id list \<Rightarrow> rstr \<Rightarrow> datetime \<Rightarrow> conversation tx" where
  "create_group_tx owner members name now =
     bnd (gets (\<lambda>s. list_ex (\<lambda>m. m \<noteq> owner \<and> \<not> are_friends s owner m) members)) (\<lambda>stranger.
     bnd (fail_if stranger forbidden) (\<lambda>_.
     bnd new_uuid (\<lambda>fresh.
     bnd new_uuid (\<lambda>fresh_group.
     bnd (dom (conversation_group (ConversationId fresh) (GroupId fresh_group) owner members name now)) (\<lambda>c.
     bnd (store_conversation c) (\<lambda>_.
     bnd (append_event (set (member_ids c)) ConversationUpdated (PConversation c) now) (\<lambda>_.
     ret c)))))))"

definition create_group :: "user_id \<Rightarrow> user_id list \<Rightarrow> rstr \<Rightarrow> datetime \<Rightarrow> conversation svc" where
  "create_group owner members name now = mutate (create_group_tx owner members name now)"

section \<open>Updating a group\<close>

definition validate_group_name :: "rstr \<Rightarrow> domain_error + unit" where
  "validate_group_name name =
     err_if (\<not> (1 \<le> length (trim name) \<and> length (trim name) \<le> 80))
       (Validation ''group_name'' ''invalid_length'')"

text \<open>\<open>url_scheme\<close> is \<open>Url::parse\<close> of the \<open>url\<close> crate, reduced to the scheme of the result.\<close>

definition validate_public_url ::
  "(rstr \<Rightarrow> rstr option) \<Rightarrow> rstr \<Rightarrow> string \<Rightarrow> domain_error + unit" where
  "validate_public_url url_scheme value field =
     err_if (\<not> (url_scheme value = Some (lit ''http'') \<or> url_scheme value = Some (lit ''https'')))
       (Validation field ''invalid_url'')"

text \<open>An image of the actor that is ready to be used as an avatar.\<close>

definition check_avatar :: "user_id \<Rightarrow> attachment_id \<Rightarrow> unit tx" where
  "check_avatar actor aid =
     bnd (gets (\<lambda>s. hm_get aid (st_attachments s))) (\<lambda>p.
     bnd (found (case p of None \<Rightarrow> None
                 | Some p \<Rightarrow> if pa_owner_id p = actor \<and> pa_available p then Some p else None)) (\<lambda>pending.
     fail_if (att_kind (pa_attachment pending) \<noteq> KImage)
       (invalid ''avatar_attachment_id'' ''image_required'')))"

text \<open>The descriptions are ``qun mingcheng yi gengxin'' (group name updated) and ``qun touxiang yi
  gengxin'' (group avatar updated), joined with a full-width comma.\<close>

definition apply_group_update ::
  "update_group_request \<Rightarrow> datetime \<Rightarrow> conversation \<Rightarrow> conversation \<times> rstr list" where
  "apply_group_update request now c =
     (let (c, changes) =
            (case ug_name request of
               None \<Rightarrow> (c, [])
             | Some name \<Rightarrow> (c\<lparr>conv_name := trim name\<rparr>, [[0x7FA4, 0x540D, 0x79F0, 0x5DF2, 0x66F4, 0x65B0]]));
          (c, changes) =
            (case ug_avatar_url request of
               None \<Rightarrow> (c, changes)
             | Some url \<Rightarrow> (c\<lparr>conv_avatar_url := url, conv_avatar_attachment_id := None\<rparr>,
                            changes @ [[0x7FA4, 0x5934, 0x50CF, 0x5DF2, 0x66F4, 0x65B0]]));
          (c, changes) =
            (case ug_avatar_attachment_id request of
               None \<Rightarrow> (c, changes)
             | Some aid \<Rightarrow>
                 ((if aid \<noteq> None then c\<lparr>conv_avatar_attachment_id := aid, conv_avatar_url := None\<rparr>
                   else c\<lparr>conv_avatar_attachment_id := aid\<rparr>),
                  changes @ [[0x7FA4, 0x5934, 0x50CF, 0x5DF2, 0x66F4, 0x65B0]]))
      in (c\<lparr>conv_updated_at := now\<rparr>, changes))"

fun join_with :: "rstr \<Rightarrow> rstr list \<Rightarrow> rstr" where
  "join_with sep [] = []"
| "join_with sep [x] = x"
| "join_with sep (x # xs) = x @ sep @ join_with sep xs"

definition update_group_tx ::
  "user_id \<Rightarrow> conversation_id \<Rightarrow> update_group_request \<Rightarrow> datetime \<Rightarrow> conversation tx" where
  "update_group_tx actor cid request now =
     bnd (case ug_avatar_attachment_id request of
            Some (Some aid) \<Rightarrow> check_avatar actor aid
          | _ \<Rightarrow> ret ()) (\<lambda>_.
     bnd (get_conversation cid) (\<lambda>c.
     bnd (lift (ensure_group c)) (\<lambda>_.
     bnd (lift (require_role_at_least c actor Administrator)) (\<lambda>_.
     let (c, changes) = apply_group_update request now c;
         description = join_with [0xFF0C] changes
     in
     bnd (put_conversation cid c) (\<lambda>_.
     bnd (if description \<noteq> []
          then bnd (append_system_message cid actor description now) (\<lambda>_. ret ())
          else ret ()) (\<lambda>_.
     bnd (append_event (set (member_ids c)) ConversationUpdated (PConversation c) now) (\<lambda>_.
     ret c)))))))"

definition update_group ::
  "(rstr \<Rightarrow> rstr option) \<Rightarrow> user_id \<Rightarrow> conversation_id \<Rightarrow> update_group_request \<Rightarrow> datetime
     \<Rightarrow> conversation svc" where
  "update_group url_scheme actor cid request now =
     bnd (case ug_name request of
            None \<Rightarrow> ret () | Some name \<Rightarrow> checked (validate_group_name name)) (\<lambda>_.
     bnd (case ug_avatar_url request of
            Some (Some url) \<Rightarrow> checked (validate_public_url url_scheme url ''avatar_url'')
          | _ \<Rightarrow> ret ()) (\<lambda>_.
     mutate (update_group_tx actor cid request now)))"

section \<open>Members\<close>

fun insert_members ::
  "datetime \<Rightarrow> user_id list \<Rightarrow> (user_id, conversation_member) btree
     \<Rightarrow> (user_id, conversation_member) btree \<times> user_id list" where
  "insert_members now [] m = (m, [])"
| "insert_members now (u # us) m =
     (if bt_contains u m then insert_members now us m
      else let (m', added) = insert_members now us (bt_insert u (new_member u Member now) m)
           in (m', u # added))"

definition check_invitee :: "user_id \<Rightarrow> user_id \<Rightarrow> unit tx" where
  "check_invitee actor u =
     bnd (gets (\<lambda>s. are_friends s actor u)) (\<lambda>friends.
     bnd (fail_if (u = actor \<or> \<not> friends) forbidden) (\<lambda>_.
     bnd (gets (\<lambda>s. hm_contains u (st_accounts s))) (\<lambda>known.
     fail_if (\<not> known) NotFound)))"

definition put_settings :: "user_id \<Rightarrow> conversation_id \<Rightarrow> unit tx" where
  "put_settings u cid = modify (\<lambda>s. s\<lparr>st_conversation_settings :=
     hm_insert (u, cid) (default_conversation_settings cid) (st_conversation_settings s)\<rparr>)"

definition drop_settings :: "user_id \<Rightarrow> conversation_id \<Rightarrow> unit tx" where
  "drop_settings u cid = modify (\<lambda>s. s\<lparr>st_conversation_settings :=
     hm_remove (u, cid) (st_conversation_settings s)\<rparr>)"

text \<open>The text is ``yi yaoqing N wei chengyuan jiaru qunliao'' (invited N members to the group).\<close>

definition add_group_members_tx ::
  "user_id \<Rightarrow> conversation_id \<Rightarrow> user_id list \<Rightarrow> datetime \<Rightarrow> conversation tx" where
  "add_group_members_tx actor cid invitees now =
     bnd (get_conversation cid) (\<lambda>existing.
     bnd (lift (ensure_group existing)) (\<lambda>_.
     bnd (lift (require_member existing actor)) (\<lambda>_.
     bnd (for_each invitees (check_invitee actor)) (\<lambda>_.
     let (members, added) = insert_members now invitees (conv_members existing);
         grown = existing\<lparr>conv_members := members\<rparr>
     in
     bnd (put_conversation cid grown) (\<lambda>_.
     bnd (fail_if (length members > 500) (invalid ''member_ids'' ''group_member_limit'')) (\<lambda>_.
     bnd (put_conversation cid (grown\<lparr>conv_updated_at := now\<rparr>)) (\<lambda>_.
     bnd (for_each added (\<lambda>u. put_settings u cid)) (\<lambda>_.
     bnd (if added \<noteq> []
          then bnd (append_system_message cid actor
                      ([0x5DF2, 0x9080, 0x8BF7, 0x20] @ decimal (length added) @ [0x20, 0x4F4D, 0x6210, 0x5458, 0x52A0, 0x5165, 0x7FA4, 0x804A]) now) (\<lambda>_. ret ())
          else ret ()) (\<lambda>_.
     bnd (gets (\<lambda>s. hm_get cid (st_conversations s))) (\<lambda>r.
     bnd (expect r ''conversation exists'') (\<lambda>c.
     bnd (append_event (set (member_ids c)) GroupMembershipUpdated (PMembersAdded c added) now) (\<lambda>_.
     ret c))))))))))))"

definition add_group_members ::
  "user_id \<Rightarrow> conversation_id \<Rightarrow> user_id list \<Rightarrow> datetime \<Rightarrow> conversation svc" where
  "add_group_members actor cid invitees now =
     (if invitees = [] \<or> length invitees > 100 then throw (invalid ''member_ids'' ''invalid_count'')
      else mutate (add_group_members_tx actor cid invitees now))"

text \<open>``yi wei chengyuan yi tuichu qunliao'': a member has left the group.\<close>

definition leave_group_tx :: "user_id \<Rightarrow> conversation_id \<Rightarrow> datetime \<Rightarrow> unit tx" where
  "leave_group_tx actor cid now =
     bnd (get_conversation cid) (\<lambda>c.
     bnd (lift (ensure_group c)) (\<lambda>_.
     bnd (lift (require_member c actor)) (\<lambda>member.
     bnd (fail_if (mem_role member = Owner) Conflict) (\<lambda>_.
     let c = c\<lparr>conv_members := bt_remove actor (conv_members c), conv_updated_at := now\<rparr> in
     bnd (put_conversation cid c) (\<lambda>_.
     bnd (drop_settings actor cid) (\<lambda>_.
     bnd (append_system_message cid actor [0x4E00, 0x4F4D, 0x6210, 0x5458, 0x5DF2, 0x9000, 0x51FA, 0x7FA4, 0x804A] now) (\<lambda>_.
     append_event (set (member_ids c)) GroupMembershipUpdated (PMemberLeft cid actor) now)))))))"

definition leave_group :: "user_id \<Rightarrow> conversation_id \<Rightarrow> datetime \<Rightarrow> unit svc" where
  "leave_group actor cid now = mutate (leave_group_tx actor cid now)"

definition disband_group_tx :: "user_id \<Rightarrow> conversation_id \<Rightarrow> datetime \<Rightarrow> unit tx" where
  "disband_group_tx actor cid now =
     bnd (get_conversation cid) (\<lambda>c.
     bnd (lift (ensure_group c)) (\<lambda>_.
     bnd (lift (require_role_at_least c actor Owner)) (\<lambda>_.
     bnd (modify (\<lambda>s. s\<lparr>
            st_conversations := hm_remove cid (st_conversations s),
            st_conversation_settings := hm_retain (\<lambda>(_, i) _. i \<noteq> cid) (st_conversation_settings s),
            st_group_mute_all := st_group_mute_all s - {cid}\<rparr>)) (\<lambda>_.
     append_event (set (member_ids c)) ConversationUpdated (PDisbanded cid) now))))"

definition disband_group :: "user_id \<Rightarrow> conversation_id \<Rightarrow> datetime \<Rightarrow> unit svc" where
  "disband_group actor cid now = mutate (disband_group_tx actor cid now)"

definition apply_member_update ::
  "update_group_member_request \<Rightarrow> conversation_member \<Rightarrow> conversation_member" where
  "apply_member_update request m =
     (let m = (case ugm_nickname request of
                 None \<Rightarrow> m | Some n \<Rightarrow> m\<lparr>mem_nickname := normalize_optional n\<rparr>);
          m = (case ugm_role request of None \<Rightarrow> m | Some r \<Rightarrow> m\<lparr>mem_role := r\<rparr>)
      in (case ugm_muted_until request of None \<Rightarrow> m | Some u \<Rightarrow> m\<lparr>mem_muted_until := u\<rparr>))"

text \<open>``qun chengyuan shezhi yi gengxin'': member settings updated.\<close>

definition update_group_member_tx ::
  "user_id \<Rightarrow> conversation_id \<Rightarrow> user_id \<Rightarrow> update_group_member_request \<Rightarrow> datetime
     \<Rightarrow> conversation tx" where
  "update_group_member_tx actor cid target request now =
     bnd (get_conversation cid) (\<lambda>c.
     bnd (lift (ensure_group c)) (\<lambda>_.
     bnd (lift (require_member c actor)) (\<lambda>actor_member.
     bnd (lift (require_member c target)) (\<lambda>target_member.
     let actor_role = mem_role actor_member; target_role = mem_role target_member in
     bnd (fail_if (ugm_nickname request \<noteq> None \<and> actor \<noteq> target \<and> actor_role < Administrator)
            forbidden) (\<lambda>_.
     bnd (fail_if (case ugm_role request of
                     None \<Rightarrow> False
                   | Some role \<Rightarrow> actor_role \<noteq> Owner \<or> role = Owner \<or> target_role = Owner)
            forbidden) (\<lambda>_.
     bnd (fail_if (ugm_muted_until request \<noteq> None
                   \<and> (actor_role < Administrator \<or> actor_role \<le> target_role)) forbidden) (\<lambda>_.
     let c = c\<lparr>conv_members := bt_update target (apply_member_update request) (conv_members c),
               conv_updated_at := now\<rparr>
     in
     bnd (put_conversation cid c) (\<lambda>_.
     bnd (append_system_message cid actor [0x7FA4, 0x6210, 0x5458, 0x8BBE, 0x7F6E, 0x5DF2, 0x66F4, 0x65B0] now) (\<lambda>_.
     bnd (append_event (set (member_ids c)) GroupMembershipUpdated (PMemberUpdated c target) now) (\<lambda>_.
     ret c))))))))))"

definition update_group_member ::
  "user_id \<Rightarrow> conversation_id \<Rightarrow> user_id \<Rightarrow> update_group_member_request \<Rightarrow> datetime
     \<Rightarrow> conversation svc" where
  "update_group_member actor cid target request now =
     (if (case ugm_nickname request of Some (Some n) \<Rightarrow> length (trim n) > 48 | _ \<Rightarrow> False)
      then throw (invalid ''group_nickname'' ''invalid_length'')
      else mutate (update_group_member_tx actor cid target request now))"

text \<open>``yi wei chengyuan yi bei yichu qunliao'': a member was removed from the group.\<close>

definition remove_group_member_tx ::
  "user_id \<Rightarrow> conversation_id \<Rightarrow> user_id \<Rightarrow> datetime \<Rightarrow> unit tx" where
  "remove_group_member_tx actor cid target now =
     bnd (get_conversation cid) (\<lambda>c.
     bnd (lift (ensure_group c)) (\<lambda>_.
     bnd (dom (remove_member actor target now c)) (\<lambda>c.
     bnd (put_conversation cid c) (\<lambda>_.
     bnd (drop_settings target cid) (\<lambda>_.
     bnd (append_system_message cid actor [0x4E00, 0x4F4D, 0x6210, 0x5458, 0x5DF2, 0x88AB, 0x79FB, 0x51FA, 0x7FA4, 0x804A] now) (\<lambda>_.
     append_event (set (member_ids c)) GroupMembershipUpdated (PMemberRemoved cid target) now))))))"

definition remove_group_member ::
  "user_id \<Rightarrow> conversation_id \<Rightarrow> user_id \<Rightarrow> datetime \<Rightarrow> unit svc" where
  "remove_group_member actor cid target now = mutate (remove_group_member_tx actor cid target now)"

text \<open>``qunzhu yi zhuanrang'': ownership transferred.\<close>

definition transfer_group_ownership_tx ::
  "user_id \<Rightarrow> conversation_id \<Rightarrow> user_id \<Rightarrow> datetime \<Rightarrow> conversation tx" where
  "transfer_group_ownership_tx actor cid target now =
     bnd (get_conversation cid) (\<lambda>c.
     bnd (lift (ensure_group c)) (\<lambda>_.
     bnd (dom (transfer_ownership actor target now c)) (\<lambda>c.
     bnd (put_conversation cid c) (\<lambda>_.
     bnd (append_system_message cid actor [0x7FA4, 0x4E3B, 0x5DF2, 0x8F6C, 0x8BA9] now) (\<lambda>_.
     bnd (append_event (set (member_ids c)) GroupMembershipUpdated (PConversation c) now) (\<lambda>_.
     ret c))))))"

definition transfer_group_ownership ::
  "user_id \<Rightarrow> conversation_id \<Rightarrow> user_id \<Rightarrow> datetime \<Rightarrow> conversation svc" where
  "transfer_group_ownership actor cid target now =
     mutate (transfer_group_ownership_tx actor cid target now)"

text \<open>``qunliao yi kaiqi quanyuan jinyan'' and ``qunliao yi jiechu quanyuan jinyan'': the group is
  muted, the group is no longer muted.\<close>

definition set_group_mute_tx :: "user_id \<Rightarrow> conversation_id \<Rightarrow> bool \<Rightarrow> datetime \<Rightarrow> unit tx" where
  "set_group_mute_tx actor cid muted now =
     bnd (get_conversation cid) (\<lambda>c.
     bnd (lift (ensure_group c)) (\<lambda>_.
     bnd (lift (require_role_at_least c actor Administrator)) (\<lambda>_.
     bnd (modify (\<lambda>s. s\<lparr>st_group_mute_all :=
            (if muted then insert cid (st_group_mute_all s) else st_group_mute_all s - {cid})\<rparr>)) (\<lambda>_.
     bnd (append_system_message cid actor
            (if muted then [0x7FA4, 0x804A, 0x5DF2, 0x5F00, 0x542F, 0x5168, 0x5458, 0x7981, 0x8A00] else [0x7FA4, 0x804A, 0x5DF2, 0x89E3, 0x9664, 0x5168, 0x5458, 0x7981, 0x8A00]) now) (\<lambda>_.
     append_event (set (member_ids c)) GroupMembershipUpdated (PGroupMuted cid muted) now)))))"

definition set_group_mute :: "user_id \<Rightarrow> conversation_id \<Rightarrow> bool \<Rightarrow> datetime \<Rightarrow> unit svc" where
  "set_group_mute actor cid muted now = mutate (set_group_mute_tx actor cid muted now)"

section \<open>Reading groups and conversations\<close>

definition group_for_member ::
  "'z store_scheme \<Rightarrow> conversation_id \<Rightarrow> user_id \<Rightarrow> application_error + conversation" where
  "group_for_member s cid actor =
     and_then (ok_or (hm_get cid (st_conversations s)) NotFound) (\<lambda>c.
     and_then (ensure_group c) (\<lambda>_.
     and_then (require_member c actor) (\<lambda>_. Inr c)))"

fun file_of :: "message_content \<Rightarrow> attachment option" where
  "file_of (CFile a) = Some a"
| "file_of _ = None"

definition group_file_item :: "message \<Rightarrow> group_file_item option" where
  "group_file_item m = map_option (\<lambda>a. \<lparr>gf_message_id = msg_id m, gf_sender_id = msg_sender_id m,
     gf_attachment = a,
     gf_created_at = (case msg_server_created_at m of None \<Rightarrow> msg_created_at m | Some t \<Rightarrow> t)\<rparr>)
     (file_of (msg_content m))"

definition group_files ::
  "'z store_scheme \<Rightarrow> user_id \<Rightarrow> conversation_id \<Rightarrow> application_error + group_file_item list" where
  "group_files s actor cid =
     and_then (group_for_member s cid actor) (\<lambda>_.
     Inr (take 500 (List.map_filter group_file_item (rev (messages_of s cid)))))"

definition group_mute_status ::
  "'z store_scheme \<Rightarrow> user_id \<Rightarrow> conversation_id \<Rightarrow> application_error + bool" where
  "group_mute_status s actor cid =
     and_then (ok_or (hm_get cid (st_conversations s)) NotFound) (\<lambda>c.
     if \<not> is_group c \<or> \<not> Domain_Chat.can_read c actor then Inl forbidden
     else Inr (cid \<in> st_group_mute_all s))"

definition settings_of ::
  "'z store_scheme \<Rightarrow> user_id \<Rightarrow> conversation_id \<Rightarrow> conversation_settings" where
  "settings_of s u cid = (case hm_get (u, cid) (st_conversation_settings s) of
     None \<Rightarrow> default_conversation_settings cid | Some c \<Rightarrow> c)"

definition listed_conversation :: "'z store_scheme \<Rightarrow> user_id \<Rightarrow> conversation \<Rightarrow> conversation option" where
  "listed_conversation s u c =
     (if \<not> can_read c u then None
      else case hm_get (u, conv_id c) (st_conversation_settings s) of
             None \<Rightarrow> Some (conversation_for_user c u)
           | Some settings \<Rightarrow>
               if cs_hidden settings then None
               else Some (conversation_for_user
                      (c\<lparr>conv_pinned := cs_pinned settings, conv_muted := cs_muted settings\<rparr>) u))"

definition conversations :: "'z store_scheme \<Rightarrow> user_id \<Rightarrow> conversation list" where
  "conversations s u = sort_key (\<lambda>c. (if conv_pinned c then 0 else 1 :: nat, - conv_updated_at c))
     (List.map_filter (listed_conversation s u) (hm_values (st_conversations s)))"

definition conversation_settings ::
  "'z store_scheme \<Rightarrow> user_id \<Rightarrow> conversation_id \<Rightarrow> application_error + conversation_settings" where
  "conversation_settings s actor cid =
     and_then (ok_or (hm_get cid (st_conversations s)) NotFound) (\<lambda>c.
     if can_read c actor then Inr (settings_of s actor cid) else Inl forbidden)"

definition unread_message :: "user_id \<Rightarrow> u64 \<Rightarrow> message \<Rightarrow> bool" where
  "unread_message actor last_read m \<longleftrightarrow> msg_sender_id m \<noteq> actor
     \<and> (case msg_sequence m of None \<Rightarrow> False | Some q \<Rightarrow> last_read < q)"

definition conversation_state :: "'z store_scheme \<Rightarrow> user_id \<Rightarrow> conversation \<Rightarrow> conversation_state" where
  "conversation_state s actor c =
     (let settings = settings_of s actor (conv_id c);
          unread = length (filter (unread_message actor (cs_last_read_sequence settings))
                             (messages_of s (conv_id c)))
      in \<lparr>cst_conversation_id = conv_id c, cst_pinned = cs_pinned settings,
          cst_muted = cs_muted settings, cst_hidden = cs_hidden settings,
          cst_manually_unread = cs_manually_unread settings,
          cst_last_read_sequence = cs_last_read_sequence settings,
          cst_unread_count = word_of_nat unread, cst_draft = cs_draft settings,
          cst_label = cs_label settings\<rparr>)"

definition conversation_states :: "'z store_scheme \<Rightarrow> user_id \<Rightarrow> conversation_state list" where
  "conversation_states s actor =
     map (conversation_state s actor)
       (filter (\<lambda>c. can_read c actor) (hm_values (st_conversations s)))"

section \<open>Settings\<close>

definition apply_settings_update ::
  "update_conversation_settings_request \<Rightarrow> conversation_settings \<Rightarrow> conversation_settings" where
  "apply_settings_update r c =
     (let c = (case ucs_pinned r of None \<Rightarrow> c | Some v \<Rightarrow> c\<lparr>cs_pinned := v\<rparr>);
          c = (case ucs_muted r of None \<Rightarrow> c | Some v \<Rightarrow> c\<lparr>cs_muted := v\<rparr>);
          c = (case ucs_hidden r of None \<Rightarrow> c | Some v \<Rightarrow> c\<lparr>cs_hidden := v\<rparr>);
          c = (case ucs_manually_unread r of None \<Rightarrow> c | Some v \<Rightarrow> c\<lparr>cs_manually_unread := v\<rparr>);
          c = (case ucs_draft r of None \<Rightarrow> c | Some v \<Rightarrow> c\<lparr>cs_draft := v\<rparr>)
      in (case ucs_label r of None \<Rightarrow> c | Some v \<Rightarrow> c\<lparr>cs_label := normalize_optional v\<rparr>))"

definition update_conversation_settings_tx ::
  "user_id \<Rightarrow> conversation_id \<Rightarrow> update_conversation_settings_request \<Rightarrow> datetime
     \<Rightarrow> conversation_settings tx" where
  "update_conversation_settings_tx actor cid request now =
     bnd (get_conversation cid) (\<lambda>c.
     bnd (fail_if (\<not> can_read c actor) forbidden) (\<lambda>_.
     bnd (gets (\<lambda>s. apply_settings_update request (settings_of s actor cid))) (\<lambda>settings.
     bnd (modify (\<lambda>s. s\<lparr>st_conversation_settings :=
            hm_insert (actor, cid) settings (st_conversation_settings s)\<rparr>)) (\<lambda>_.
     bnd (append_event {actor} ConversationUpdated (PConversationSettings settings) now) (\<lambda>_.
     ret settings)))))"

definition update_conversation_settings ::
  "user_id \<Rightarrow> conversation_id \<Rightarrow> update_conversation_settings_request \<Rightarrow> datetime
     \<Rightarrow> conversation_settings svc" where
  "update_conversation_settings actor cid request now =
     (if (case ucs_draft request of None \<Rightarrow> False | Some d \<Rightarrow> length d > 8000)
      then throw (invalid ''draft'' ''invalid_length'')
      else if (case ucs_label request of Some (Some l) \<Rightarrow> length (trim l) > 48 | _ \<Rightarrow> False)
      then throw (invalid ''label'' ''invalid_length'')
      else mutate (update_conversation_settings_tx actor cid request now))"

definition mark_conversation_read :: "user_id \<Rightarrow> conversation_id \<Rightarrow> unit tx" where
  "mark_conversation_read actor cid = modify (\<lambda>s. s\<lparr>
     st_read_positions := hm_insert (actor, cid) (last_sequence s cid) (st_read_positions s),
     st_conversation_settings :=
       hm_upd_default (actor, cid) (default_conversation_settings cid)
         (\<lambda>c. c\<lparr>cs_last_read_sequence := last_sequence s cid, cs_manually_unread := False\<rparr>)
         (st_conversation_settings s)\<rparr>)"

definition mark_all_read_tx :: "user_id \<Rightarrow> datetime \<Rightarrow> unit tx" where
  "mark_all_read_tx actor now =
     bnd (gets (\<lambda>s. map conv_id
            (filter (\<lambda>c. can_read c actor) (hm_values (st_conversations s))))) (\<lambda>ids.
     bnd (for_each ids (mark_conversation_read actor)) (\<lambda>_.
     append_event {actor} ReadPositionUpdated PAllRead now))"

definition mark_all_read :: "user_id \<Rightarrow> datetime \<Rightarrow> unit svc" where
  "mark_all_read actor now = mutate (mark_all_read_tx actor now)"

section \<open>Guarantees\<close>

lemma progress_group_writes [guar_intros]:
  "guar progress (check_avatar actor aid)"
  "guar progress (check_invitee actor u)"
  "guar progress (put_settings u cid)"
  "guar progress (drop_settings u cid)"
  "guar progress (mark_conversation_read actor cid)"
  unfolding check_avatar_def check_invitee_def put_settings_def drop_settings_def
    mark_conversation_read_def
  by (intro guar_intros; simp)+

lemma progress_groups [guar_intros]:
  "guar progress (create_direct_tx actor peer now)"
  "guar progress (create_group_tx actor members name now)"
  "guar progress (update_group_tx actor cid ugr now)"
  "guar progress (add_group_members_tx actor cid invitees now)"
  "guar progress (leave_group_tx actor cid now)"
  "guar progress (disband_group_tx actor cid now)"
  "guar progress (update_group_member_tx actor cid target request now)"
  "guar progress (remove_group_member_tx actor cid target now)"
  "guar progress (transfer_group_ownership_tx actor cid target now)"
  "guar progress (set_group_mute_tx actor cid muted now)"
  "guar progress (update_conversation_settings_tx actor cid ucs now)"
  "guar progress (mark_all_read_tx actor now)"
  unfolding create_direct_tx_def create_group_tx_def update_group_tx_def add_group_members_tx_def
    leave_group_tx_def disband_group_tx_def update_group_member_tx_def remove_group_member_tx_def
    transfer_group_ownership_tx_def set_group_mute_tx_def update_conversation_settings_tx_def
    mark_all_read_tx_def Let_def
  by (intro guar_intros; simp)+

lemma svc_progress_groups [guar_intros]:
  "guar svc_progress (create_direct actor peer now)"
  "guar svc_progress (create_group actor members name now)"
  "guar svc_progress (update_group url actor cid ugr now)"
  "guar svc_progress (add_group_members actor cid invitees now)"
  "guar svc_progress (leave_group actor cid now)"
  "guar svc_progress (disband_group actor cid now)"
  "guar svc_progress (update_group_member actor cid target request now)"
  "guar svc_progress (remove_group_member actor cid target now)"
  "guar svc_progress (transfer_group_ownership actor cid target now)"
  "guar svc_progress (set_group_mute actor cid muted now)"
  "guar svc_progress (update_conversation_settings actor cid ucs now)"
  "guar svc_progress (mark_all_read actor now)"
  unfolding create_direct_def create_group_def update_group_def add_group_members_def
    leave_group_def disband_group_def update_group_member_def remove_group_member_def
    transfer_group_ownership_def set_group_mute_def update_conversation_settings_def
    mark_all_read_def
  by (intro guar_intros)+

end
