(* ===== verification/Messaging.thy ===== *)
theory Messaging
  imports Service_Core "HOL-Library.Product_Lexorder"
begin

text \<open>
  Messages (\<open>crates/application/src/service.rs\<close>, lines 3534-4027, 4438-4662 and 5072-5201): sending
  with deduplication, paging, details, delivery and read receipts, recall, reactions, favourites and
  forwarding.  \<open>x_tx\<close> is the closure the method \<open>x\<close> hands to \<open>mutate\<close>; methods that only read the
  store are functions of it.
\<close>

section \<open>Checks before sending\<close>

function message_contains_attachment :: "message_content \<Rightarrow> attachment_id \<Rightarrow> bool" where
  "message_contains_attachment (CImage a) i = (att_id a = i)"
| "message_contains_attachment (CFile a) i = (att_id a = i)"
| "message_contains_attachment (CAudio a d) i = (att_id a = i)"
| "message_contains_attachment (CSticker a n) i = (att_id a = i)"
| "message_contains_attachment (CForwardBundle t ms) i =
     (\<exists>m\<in>set ms. message_contains_attachment (fwd_content m) i)"
| "message_contains_attachment (CText t) i = False"
| "message_contains_attachment (CSystem t) i = False"
  by pat_completeness auto
termination
proof (relation "measure (size \<circ> fst)")
  fix t ms i and m :: forwarded_message
  assume "m \<in> set ms"
  then have "size m \<le> size_list size ms" by (rule size_list_estimation') simp
  moreover have "size (fwd_content m) < size m" by (cases m) simp
  ultimately show "((fwd_content m, i), CForwardBundle t ms, i) \<in> measure (size \<circ> fst)" by simp
qed simp

definition validate_message_attachment ::
  "'z store_scheme \<Rightarrow> user_id \<Rightarrow> message_content \<Rightarrow> application_error + unit" where
  "validate_message_attachment s actor content =
     (if is_bundle content then Inl forbidden
      else case content_attachment content of
             None \<Rightarrow> Inr ()
           | Some a \<Rightarrow>
               (case hm_get (att_id a) (st_attachments s) of
                  None \<Rightarrow> Inl forbidden
                | Some p \<Rightarrow>
                    if \<not> (pa_owner_id p = actor \<and> pa_available p) then Inl forbidden
                    else if pa_attachment p \<noteq> a then Inl (invalid ''attachment'' ''metadata_mismatch'')
                    else Inr ()))"

definition validate_message_mentions ::
  "'z store_scheme \<Rightarrow> user_id \<Rightarrow> conversation_id \<Rightarrow> message_content \<Rightarrow> user_id list \<Rightarrow> bool
     \<Rightarrow> application_error + unit" where
  "validate_message_mentions s actor cid content mentions mention_all =
     (if mentions = [] \<and> \<not> mention_all then Inr ()
      else if \<not> is_text content \<or> length mentions > 50
      then Inl (invalid ''mentions'' ''invalid_mentions'')
      else
        and_then (ok_or (hm_get cid (st_conversations s)) NotFound) (\<lambda>c.
        and_then (ensure_group c) (\<lambda>_.
        and_then (require_member c actor) (\<lambda>actor_member.
        and_then (err_if (list_ex (\<lambda>u. u = actor \<or> \<not> bt_contains u (conv_members c)) mentions)
                    (invalid ''mentions'' ''member_required'')) (\<lambda>_.
        err_if (mention_all \<and> mem_role actor_member = Member) forbidden)))))"

definition message_recipients_for_send ::
  "'z store_scheme \<Rightarrow> user_id \<Rightarrow> conversation_id \<Rightarrow> message_content \<Rightarrow> datetime
     \<Rightarrow> application_error + user_id list" where
  "message_recipients_for_send s actor cid content now =
     and_then (ok_or (hm_get cid (st_conversations s)) NotFound) (\<lambda>c.
     and_then (err_if (\<not> can_send c actor now) forbidden) (\<lambda>_.
     and_then (if is_group c \<and> cid \<in> st_group_mute_all s
               then and_then (require_member c actor) (\<lambda>m. err_if (mem_role m = Member) forbidden)
               else Inr ()) (\<lambda>_.
     and_then (if is_group c then Inr ()
               else
                 and_then (ok_or (find (\<lambda>m. m \<noteq> actor) (member_ids c)) NotFound) (\<lambda>peer.
                 and_then (err_if (\<not> are_friends s actor peer
                                   \<or> (actor, peer) \<in> st_blocks s
                                   \<or> (peer, actor) \<in> st_blocks s) forbidden) (\<lambda>_.
                 err_if (content_attachment content \<noteq> None
                         \<and> map_option fset_allow_files (hm_get (peer, actor) (st_friend_settings s))
                             = Some False) forbidden))) (\<lambda>_.
     Inr (member_ids c)))))"

section \<open>Sending\<close>

definition receipt_delivered :: "message_id \<Rightarrow> user_id \<Rightarrow> unit tx" where
  "receipt_delivered mid u = modify (\<lambda>s. s\<lparr>st_message_receipts :=
     hm_upd_default mid no_receipts
       (\<lambda>r. r\<lparr>rc_delivered_to := insert u (rc_delivered_to r)\<rparr>) (st_message_receipts s)\<rparr>)"

definition remember_sent :: "user_id \<Rightarrow> message_id \<Rightarrow> message_id \<Rightarrow> u64 \<Rightarrow> unit tx" where
  "remember_sent actor client_message_id mid sequence = modify (\<lambda>s. s\<lparr>st_message_dedup :=
     hm_insert (actor, client_message_id) (mid, sequence) (st_message_dedup s)\<rparr>)"

definition set_expiration :: "message_id \<Rightarrow> u32 option \<Rightarrow> datetime \<Rightarrow> unit tx" where
  "set_expiration mid expires_in now = modify (\<lambda>s.
     case expires_in of
       None \<Rightarrow> s
     | Some n \<Rightarrow> s\<lparr>st_message_expirations :=
                   hm_insert mid (now + seconds (uint n)) (st_message_expirations s)\<rparr>)"

definition deliver_message ::
  "user_id \<Rightarrow> conversation_id \<Rightarrow> send_message_request \<Rightarrow> user_id list \<Rightarrow> user_id list \<Rightarrow> datetime
     \<Rightarrow> (message \<times> message_ack) tx" where
  "deliver_message actor cid request mentions recipients now =
     bnd (gets (\<lambda>s. last_sequence s cid + 1)) (\<lambda>sequence.
     bnd new_uuid (\<lambda>fresh.
     bnd (dom (message_pending (MessageId fresh) (sm_client_message_id request) cid actor
                (sm_content request) now)) (\<lambda>pending.
     bnd (dom (mark_sent sequence now
                (pending\<lparr>msg_reply_to := sm_reply_to request, msg_mentions := mentions,
                         msg_mention_all := sm_mention_all request\<rparr>))) (\<lambda>message.
     bnd (push_message cid message) (\<lambda>_.
     bnd (remember_sent actor (sm_client_message_id request) (msg_id message) sequence) (\<lambda>_.
     bnd (receipt_delivered (msg_id message) actor) (\<lambda>_.
     bnd (set_expiration (msg_id message) (sm_expires_in_seconds request) now) (\<lambda>_.
     bnd (touch_conversation cid now) (\<lambda>_.
     bnd (append_event (set recipients) MessageCreated (PMessage message) now) (\<lambda>_.
     ret (message, \<lparr>ack_client_message_id = sm_client_message_id request,
                    ack_message_id = msg_id message, ack_sequence = sequence,
                    ack_server_time = now\<rparr>)))))))))))"

definition send_message_in_store ::
  "user_id \<Rightarrow> conversation_id \<Rightarrow> send_message_request \<Rightarrow> datetime \<Rightarrow> (message \<times> message_ack) tx" where
  "send_message_in_store actor cid request now =
     bnd (gets (\<lambda>s. hm_get (actor, sm_client_message_id request) (st_message_dedup s))) (\<lambda>known.
     case known of
       Some (mid, sequence) \<Rightarrow>
         bnd (gets (\<lambda>s. find_message s mid)) (\<lambda>m.
         bnd (found m) (\<lambda>existing.
         ret (existing, \<lparr>ack_client_message_id = sm_client_message_id request,
                         ack_message_id = mid, ack_sequence = sequence,
                         ack_server_time = now\<rparr>)))
     | None \<Rightarrow>
         let mentions = remdups_adj (sort (sm_mentions request)) in
         bnd (gets (\<lambda>s. validate_message_mentions s actor cid (sm_content request) mentions
                          (sm_mention_all request))) (\<lambda>mentions_ok.
         bnd (lift mentions_ok) (\<lambda>_.
         bnd (gets (\<lambda>s. message_recipients_for_send s actor cid (sm_content request) now)) (\<lambda>r.
         bnd (lift r) (\<lambda>recipients.
         bnd (gets (\<lambda>s. validate_message_attachment s actor (sm_content request))) (\<lambda>attachment_ok.
         bnd (lift attachment_ok) (\<lambda>_.
         deliver_message actor cid request mentions recipients now)))))))"

definition invalid_expiry :: "u32 option \<Rightarrow> bool" where
  "invalid_expiry e = (case e of None \<Rightarrow> False | Some n \<Rightarrow> \<not> (5 \<le> n \<and> n \<le> 604800))"

definition send_message_request ::
  "user_id \<Rightarrow> conversation_id \<Rightarrow> send_message_request \<Rightarrow> datetime \<Rightarrow> (message \<times> message_ack) svc" where
  "send_message_request actor cid request now =
     (if invalid_expiry (sm_expires_in_seconds request)
      then throw (invalid ''expires_in_seconds'' ''invalid_range'')
      else mutate (send_message_in_store actor cid request now))"

definition send_message ::
  "user_id \<Rightarrow> conversation_id \<Rightarrow> message_id \<Rightarrow> message_content \<Rightarrow> message_id option \<Rightarrow> datetime
     \<Rightarrow> (message \<times> message_ack) svc" where
  "send_message actor cid client_message_id content reply_to now =
     send_message_request actor cid
       \<lparr>sm_client_message_id = client_message_id, sm_content = content, sm_reply_to = reply_to,
        sm_mentions = [], sm_mention_all = False, sm_expires_in_seconds = None\<rparr> now"

section \<open>Reading messages\<close>

definition readable_conversation ::
  "'z store_scheme \<Rightarrow> conversation_id \<Rightarrow> user_id \<Rightarrow> application_error + conversation" where
  "readable_conversation s cid actor =
     and_then (ok_or (hm_get cid (st_conversations s)) NotFound) (\<lambda>c.
     if can_read c actor then Inr c else Inl forbidden)"

definition shows_receipts :: "'z store_scheme \<Rightarrow> user_id \<Rightarrow> bool" where
  "shows_receipts s u = pps_read_receipts_enabled (privacy_of s u)"

definition status_for_sender :: "'z store_scheme \<Rightarrow> user_id \<Rightarrow> message \<Rightarrow> message" where
  "status_for_sender s actor m =
     (if msg_sender_id m \<noteq> actor then m
      else case hm_get (msg_id m) (st_message_receipts s) of
             None \<Rightarrow> m
           | Some r \<Rightarrow>
               if \<exists>u\<in>rc_read_by r. u \<noteq> actor \<and> shows_receipts s u then m\<lparr>msg_status := Read\<rparr>
               else if \<exists>u\<in>rc_delivered_to r. u \<noteq> actor then m\<lparr>msg_status := Delivered\<rparr>
               else m)"

definition MAX_MESSAGE_PAGE :: nat where "MAX_MESSAGE_PAGE = 200"

definition clamp :: "nat \<Rightarrow> nat \<Rightarrow> nat \<Rightarrow> nat" where
  "clamp lo hi n = max lo (min hi n)"

definition not_expired :: "'z store_scheme \<Rightarrow> datetime \<Rightarrow> message \<Rightarrow> bool" where
  "not_expired s clock m =
     (case hm_get (msg_id m) (st_message_expirations s) of None \<Rightarrow> True | Some t \<Rightarrow> clock < t)"

definition before_cursor :: "u64 option \<Rightarrow> message \<Rightarrow> bool" where
  "before_cursor before m =
     (case before of
        None \<Rightarrow> True
      | Some cursor \<Rightarrow> (case msg_sequence m of None \<Rightarrow> False | Some q \<Rightarrow> q < cursor))"

text \<open>\<open>clock\<close> is \<open>Utc::now()\<close>.\<close>

definition message_page ::
  "'z store_scheme \<Rightarrow> datetime \<Rightarrow> user_id \<Rightarrow> conversation_id \<Rightarrow> u64 option \<Rightarrow> nat
     \<Rightarrow> application_error + message list" where
  "message_page s clock actor cid before limit =
     and_then (readable_conversation s cid actor) (\<lambda>_.
     Inr (map (status_for_sender s actor)
       (rev (take (clamp 1 MAX_MESSAGE_PAGE limit)
         (rev (filter (before_cursor before) (filter (not_expired s clock) (messages_of s cid))))))))"

definition readable_message ::
  "'z store_scheme \<Rightarrow> user_id \<Rightarrow> message_id \<Rightarrow> application_error + message" where
  "readable_message s actor mid =
     and_then (ok_or (find_message s mid) NotFound) (\<lambda>m.
     and_then (readable_conversation s (msg_conversation_id m) actor) (\<lambda>_. Inr m))"

definition reactions_list :: "(rstr, user_id set) hashmap \<Rightarrow> message_reaction list" where
  "reactions_list rs = sort_key mr_emoji
     (map (\<lambda>(emoji, users). \<lparr>mr_emoji = emoji, mr_user_ids = sorted_list_of_set users\<rparr>) rs)"

definition message_details ::
  "'z store_scheme \<Rightarrow> user_id \<Rightarrow> message_id \<Rightarrow> application_error + message_details" where
  "message_details s actor mid =
     and_then (readable_message s actor mid) (\<lambda>m.
     let receipts = (case hm_get mid (st_message_receipts s) of None \<Rightarrow> no_receipts | Some r \<Rightarrow> r)
     in Inr \<lparr>md_message = m,
             md_reactions = reactions_list
               (case hm_get mid (st_message_reactions s) of None \<Rightarrow> [] | Some rs \<Rightarrow> rs),
             md_delivered_to = sorted_list_of_set (rc_delivered_to receipts),
             md_read_by = sorted_list_of_set
               (Set.filter (\<lambda>u. u = actor \<or> shows_receipts s u) (rc_read_by receipts)),
             md_favorited = ((actor, mid) \<in> st_favorite_messages s),
             md_expires_at = hm_get mid (st_message_expirations s)\<rparr>)"

definition message_text_for_translation ::
  "'z store_scheme \<Rightarrow> user_id \<Rightarrow> message_id \<Rightarrow> application_error + rstr" where
  "message_text_for_translation s actor mid =
     and_then (readable_message s actor mid) (\<lambda>m.
     case msg_content m of
       CText text \<Rightarrow> Inr text
     | _ \<Rightarrow> Inl (invalid ''message_id'' ''text_message_required''))"

definition message_audio_for_transcription ::
  "'z store_scheme \<Rightarrow> user_id \<Rightarrow> message_id \<Rightarrow> application_error + attachment" where
  "message_audio_for_transcription s actor mid =
     and_then (readable_message s actor mid) (\<lambda>m.
     case msg_content m of
       CAudio a _ \<Rightarrow> Inr a
     | _ \<Rightarrow> Inl (invalid ''message_id'' ''audio_message_required''))"

section \<open>Receipts and read positions\<close>

definition acknowledge_delivery_tx :: "user_id \<Rightarrow> message_id \<Rightarrow> datetime \<Rightarrow> unit tx" where
  "acknowledge_delivery_tx actor mid now =
     bnd (gets (\<lambda>s. find_message s mid)) (\<lambda>m.
     bnd (found m) (\<lambda>message.
     bnd (get_conversation (msg_conversation_id message)) (\<lambda>c.
     bnd (fail_if (\<not> can_read c actor \<or> msg_sender_id message = actor) forbidden) (\<lambda>_.
     bnd (receipt_delivered mid actor) (\<lambda>_.
     append_event {msg_sender_id message} MessageUpdated (PDelivered mid actor) now)))))"

definition acknowledge_delivery :: "user_id \<Rightarrow> message_id \<Rightarrow> datetime \<Rightarrow> unit svc" where
  "acknowledge_delivery actor mid now = mutate (acknowledge_delivery_tx actor mid now)"

text \<open>The receipts of a message and the read position of a user, as the readers of the store see them.\<close>

definition receipts_of :: "'z store_scheme \<Rightarrow> message_id \<Rightarrow> receipt_state" where
  "receipts_of s mid = (case hm_get mid (st_message_receipts s) of None \<Rightarrow> no_receipts | Some r \<Rightarrow> r)"

definition read_position :: "'z store_scheme \<Rightarrow> user_id \<Rightarrow> conversation_id \<Rightarrow> u64" where
  "read_position s u cid = (case hm_get (u, cid) (st_read_positions s) of None \<Rightarrow> 0 | Some q \<Rightarrow> q)"

definition receipt_read :: "user_id \<Rightarrow> message_id \<Rightarrow> unit tx" where
  "receipt_read u mid = modify (\<lambda>s. s\<lparr>st_message_receipts :=
     hm_upd_default mid no_receipts
       (\<lambda>r. r\<lparr>rc_delivered_to := insert u (rc_delivered_to r), rc_read_by := insert u (rc_read_by r)\<rparr>)
       (st_message_receipts s)\<rparr>)"

definition read_by_position :: "user_id \<Rightarrow> u64 \<Rightarrow> message \<Rightarrow> bool" where
  "read_by_position actor next m \<longleftrightarrow> msg_sender_id m \<noteq> actor
     \<and> (case msg_sequence m of None \<Rightarrow> False | Some q \<Rightarrow> q \<le> next)"

definition advance_position :: "user_id \<Rightarrow> conversation_id \<Rightarrow> u64 \<Rightarrow> unit tx" where
  "advance_position actor cid next = modify (\<lambda>s. s\<lparr>
     st_read_positions := hm_upd_default (actor, cid) 0 (\<lambda>p. max p next) (st_read_positions s),
     st_conversation_settings :=
       hm_upd_default (actor, cid) (default_conversation_settings cid)
         (\<lambda>c. c\<lparr>cs_last_read_sequence := max (cs_last_read_sequence c) next,
                cs_manually_unread := False\<rparr>) (st_conversation_settings s)\<rparr>)"

definition mark_read_tx :: "user_id \<Rightarrow> conversation_id \<Rightarrow> u64 \<Rightarrow> datetime \<Rightarrow> unit tx" where
  "mark_read_tx actor cid through_sequence now =
     bnd (get_conversation cid) (\<lambda>c.
     bnd (fail_if (\<not> can_read c actor) forbidden) (\<lambda>_.
     bnd (gets (\<lambda>s. min through_sequence (last_sequence s cid))) (\<lambda>next.
     bnd (gets (\<lambda>s. map msg_id (filter (read_by_position actor next) (messages_of s cid)))) (\<lambda>ids.
     bnd (for_each ids (receipt_read actor)) (\<lambda>_.
     bnd (advance_position actor cid next) (\<lambda>_.
     append_event (set (member_ids c)) ReadPositionUpdated (PReadPosition actor cid next) now))))))"

definition mark_read :: "user_id \<Rightarrow> conversation_id \<Rightarrow> u64 \<Rightarrow> datetime \<Rightarrow> unit svc" where
  "mark_read actor cid through_sequence now = mutate (mark_read_tx actor cid through_sequence now)"

section \<open>Recall, reactions, favourites\<close>

fun update_first :: "('a \<Rightarrow> bool) \<Rightarrow> ('a \<Rightarrow> 'a) \<Rightarrow> 'a list \<Rightarrow> 'a list" where
  "update_first P f [] = []"
| "update_first P f (x # xs) = (if P x then f x # xs else x # update_first P f xs)"

text \<open>The text is ``xiaoxi yi chehui'' (message recalled).\<close>

definition recalled :: "datetime \<Rightarrow> message \<Rightarrow> message" where
  "recalled now m = m\<lparr>msg_status := Recalled,
     msg_content := CSystem [0x6D88, 0x606F, 0x5DF2, 0x64A4, 0x56DE], msg_edited_at := Some now\<rparr>"

definition recall_message_tx :: "user_id \<Rightarrow> message_id \<Rightarrow> datetime \<Rightarrow> message tx" where
  "recall_message_tx actor mid now =
     bnd (gets (\<lambda>s. find_message s mid)) (\<lambda>m.
     bnd (found m) (\<lambda>original.
     bnd (get_conversation (msg_conversation_id original)) (\<lambda>c.
     bnd (if is_group c
          then bnd (lift (require_member c actor)) (\<lambda>member. ret (Administrator \<le> mem_role member))
          else ret False) (\<lambda>can_moderate.
     bnd (fail_if (msg_sender_id original \<noteq> actor \<and> \<not> can_moderate) forbidden) (\<lambda>_.
     bnd (fail_if (msg_status original = Recalled
                   \<or> (msg_sender_id original = actor \<and> now - msg_created_at original > minutes 2))
            Conflict) (\<lambda>_.
     bnd (gets (\<lambda>s. hm_get (msg_conversation_id original) (st_messages s))) (\<lambda>ms.
     bnd (expect ms ''message conversation exists'') (\<lambda>messages.
     bnd (expect (find (\<lambda>x. msg_id x = mid) messages) ''message checked'') (\<lambda>target.
     bnd (modify (\<lambda>s. s\<lparr>st_messages := hm_insert (msg_conversation_id original)
            (update_first (\<lambda>x. msg_id x = mid) (recalled now) messages) (st_messages s)\<rparr>)) (\<lambda>_.
     bnd (modify (\<lambda>s. s\<lparr>st_message_expirations := hm_remove mid (st_message_expirations s)\<rparr>)) (\<lambda>_.
     bnd (append_event (set (member_ids c)) MessageUpdated (PMessage (recalled now target)) now) (\<lambda>_.
     ret (recalled now target)))))))))))))"

definition recall_message :: "user_id \<Rightarrow> message_id \<Rightarrow> datetime \<Rightarrow> message svc" where
  "recall_message actor mid now = mutate (recall_message_tx actor mid now)"

definition toggle_reaction ::
  "user_id \<Rightarrow> rstr \<Rightarrow> bool \<Rightarrow> (rstr, user_id set) hashmap \<Rightarrow> (rstr, user_id set) hashmap" where
  "toggle_reaction actor emoji active rs =
     hm_retain (\<lambda>_ users. users \<noteq> {})
       (hm_upd_default emoji {} (\<lambda>users. if active then insert actor users else users - {actor}) rs)"

definition react_to_message_tx ::
  "user_id \<Rightarrow> message_id \<Rightarrow> rstr \<Rightarrow> bool \<Rightarrow> datetime \<Rightarrow> (message_reaction list) tx" where
  "react_to_message_tx actor mid emoji active now =
     bnd (gets (\<lambda>s. find_message s mid)) (\<lambda>m.
     bnd (found m) (\<lambda>message.
     bnd (get_conversation (msg_conversation_id message)) (\<lambda>c.
     bnd (fail_if (\<not> can_read c actor) forbidden) (\<lambda>_.
     bnd (modify (\<lambda>s. s\<lparr>st_message_reactions :=
            hm_upd_default mid [] (toggle_reaction actor emoji active) (st_message_reactions s)\<rparr>)) (\<lambda>_.
     bnd (gets (\<lambda>s. reactions_list
            (case hm_get mid (st_message_reactions s) of None \<Rightarrow> [] | Some rs \<Rightarrow> rs))) (\<lambda>output.
     bnd (append_event (set (member_ids c)) MessageUpdated (PReactions mid output) now) (\<lambda>_.
     ret output)))))))"

definition react_to_message ::
  "user_id \<Rightarrow> message_id \<Rightarrow> rstr \<Rightarrow> bool \<Rightarrow> datetime \<Rightarrow> (message_reaction list) svc" where
  "react_to_message actor mid emoji active now =
     (let emoji = trim emoji in
      if emoji = [] \<or> length emoji > 8 then throw (invalid ''emoji'' ''invalid_length'')
      else mutate (react_to_message_tx actor mid emoji active now))"

definition set_message_favorite_tx :: "user_id \<Rightarrow> message_id \<Rightarrow> bool \<Rightarrow> unit tx" where
  "set_message_favorite_tx actor mid favorite =
     bnd (gets (\<lambda>s. find_message s mid)) (\<lambda>m.
     bnd (found m) (\<lambda>message.
     bnd (get_conversation (msg_conversation_id message)) (\<lambda>c.
     bnd (fail_if (\<not> can_read c actor) forbidden) (\<lambda>_.
     modify (\<lambda>s. s\<lparr>st_favorite_messages :=
       (if favorite then insert (actor, mid) (st_favorite_messages s)
        else st_favorite_messages s - {(actor, mid)})\<rparr>)))))"

definition set_message_favorite :: "user_id \<Rightarrow> message_id \<Rightarrow> bool \<Rightarrow> unit svc" where
  "set_message_favorite actor mid favorite = mutate (set_message_favorite_tx actor mid favorite)"

section \<open>Forwarding\<close>

text \<open>\<open>iter().map(f).collect::<Result<Vec<_>, _>>()\<close>: the first error wins.\<close>

fun collect_results :: "('x \<Rightarrow> 'e + 'y) \<Rightarrow> 'x list \<Rightarrow> 'e + 'y list" where
  "collect_results f [] = Inr []"
| "collect_results f (x # xs) =
     and_then (f x) (\<lambda>y. and_then (collect_results f xs) (\<lambda>ys. Inr (y # ys)))"

text \<open>The fallback name is ``yi zhuxiao yonghu'' (deleted user), the title ``liaotian jilu'' (chat log).\<close>

definition forward_source ::
  "'z store_scheme \<Rightarrow> user_id \<Rightarrow> forward_mode \<Rightarrow> message_id \<Rightarrow> application_error + forwarded_message" where
  "forward_source s actor mode mid =
     and_then (ok_or (find_message s mid) NotFound) (\<lambda>m.
     and_then (ok_or (hm_get (msg_conversation_id m) (st_conversations s)) NotFound) (\<lambda>source.
     if \<not> can_read source actor \<or> is_system (msg_content m) then Inl forbidden
     else if mode = Merged \<and> is_bundle (msg_content m)
     then Inl (invalid ''message_ids'' ''nested_bundle'')
     else Inr (ForwardedMessage (msg_sender_id m)
       (case hm_get (msg_sender_id m) (st_accounts s) of
          None \<Rightarrow> [0x5DF2, 0x6CE8, 0x9500, 0x7528, 0x6237]
        | Some a \<Rightarrow> prof_nickname (acc_profile a))
       (msg_content m)
       (case msg_server_created_at m of None \<Rightarrow> msg_created_at m | Some t \<Rightarrow> t))))"

definition collect_forward_sources ::
  "'z store_scheme \<Rightarrow> user_id \<Rightarrow> message_id list \<Rightarrow> forward_mode
     \<Rightarrow> application_error + forwarded_message list" where
  "collect_forward_sources s actor mids mode = collect_results (forward_source s actor mode) mids"

definition append_forwarded_message ::
  "user_id \<Rightarrow> conversation_id \<Rightarrow> message_content \<Rightarrow> u64 \<Rightarrow> user_id list \<Rightarrow> datetime \<Rightarrow> message tx" where
  "append_forwarded_message actor cid content sequence recipients now =
     bnd new_uuid (\<lambda>client_message_id.
     bnd new_uuid (\<lambda>fresh.
     bnd (dom (message_pending (MessageId fresh) (MessageId client_message_id) cid actor content now)) (\<lambda>pending.
     bnd (dom (mark_sent sequence now pending)) (\<lambda>message.
     bnd (push_message cid message) (\<lambda>_.
     bnd (remember_sent actor (MessageId client_message_id) (msg_id message) sequence) (\<lambda>_.
     bnd (receipt_delivered (msg_id message) actor) (\<lambda>_.
     bnd (append_event (set recipients) MessageCreated (PForwarded message) now) (\<lambda>_.
     ret message))))))))"

fun forward_loop ::
  "user_id \<Rightarrow> conversation_id \<Rightarrow> user_id list \<Rightarrow> datetime \<Rightarrow> message_content list \<Rightarrow> u64
     \<Rightarrow> (message list) tx" where
  "forward_loop actor cid recipients now [] sequence = ret []"
| "forward_loop actor cid recipients now (content # contents) sequence =
     (let sequence = sat_add sequence 1 in
      bnd (append_forwarded_message actor cid content sequence recipients now) (\<lambda>m.
      bnd (forward_loop actor cid recipients now contents sequence) (\<lambda>ms.
      ret (m # ms))))"

definition forward_messages_in_store ::
  "user_id \<Rightarrow> message_id list \<Rightarrow> conversation_id \<Rightarrow> forward_mode \<Rightarrow> datetime \<Rightarrow> (message list) tx" where
  "forward_messages_in_store actor mids target_id mode now =
     bnd (gets (\<lambda>s. collect_forward_sources s actor mids mode)) (\<lambda>r.
     bnd (lift r) (\<lambda>source_messages.
     bnd (get_conversation target_id) (\<lambda>target.
     bnd (fail_if (\<not> can_send target actor now) forbidden) (\<lambda>_.
     let contents = (case mode of
                       Individually \<Rightarrow> map fwd_content source_messages
                     | Merged \<Rightarrow> [CForwardBundle [0x804A, 0x5929, 0x8BB0, 0x5F55] source_messages])
     in
     bnd (gets (\<lambda>s. last_sequence s target_id)) (\<lambda>sequence.
     bnd (forward_loop actor target_id (member_ids target) now contents sequence) (\<lambda>forwarded.
     bnd (touch_conversation target_id now) (\<lambda>_.
     ret forwarded)))))))"

definition forward_messages ::
  "user_id \<Rightarrow> message_id list \<Rightarrow> conversation_id \<Rightarrow> forward_mode \<Rightarrow> datetime \<Rightarrow> (message list) svc" where
  "forward_messages actor mids target_id mode now =
     (let n = card (set mids) in
      if n = 0 \<or> n \<noteq> length mids \<or> n > 100 then throw (invalid ''message_ids'' ''invalid_count'')
      else if mode = Merged \<and> n < 2
      then throw (invalid ''message_ids'' ''bundle_requires_multiple_messages'')
      else mutate (forward_messages_in_store actor mids target_id mode now))"

text \<open>\<open>order\<close> is the iteration order of the set of favourites.  \<open>Reverse(server_created_at)\<close>: the
  latest first, messages without a time last.\<close>

definition favorite_messages :: "'z store_scheme \<Rightarrow> message_id list \<Rightarrow> user_id \<Rightarrow> message list" where
  "favorite_messages s order actor =
     sort_key (\<lambda>m. case msg_server_created_at m of None \<Rightarrow> (1::nat, 0) | Some t \<Rightarrow> (0, - t))
       (List.map_filter (\<lambda>mid. if (actor, mid) \<in> st_favorite_messages s then find_message s mid
                               else None) order)"

section \<open>Guarantees\<close>

lemma progress_message_writes [guar_intros]:
  "guar progress (receipt_delivered mid u)"
  "guar progress (receipt_read u mid)"
  "guar progress (set_expiration mid e now)"
  "guar progress (advance_position actor cid q)"
  by (simp_all add: receipt_delivered_def receipt_read_def set_expiration_def
      advance_position_def guar_def split: option.split)

lemma progress_step_remember:
  assumes "hm_get (actor, i) (st_message_dedup s) = None \<or> i \<in> MessageId ` range (uuid_src s)"
    and "guar progress (f ())"
  shows "progress s (snd (bnd (remember_sent actor i mid q) f s))"
proof -
  have "progress s (snd (remember_sent actor i mid q s))"
    using assms(1) by (auto simp: progress_def sent_kept_def remember_sent_def messages_of_def)
  from progress_then [OF this assms(2)] show ?thesis by (simp add: remember_sent_def)
qed

lemma progress_deliver_message:
  assumes "hm_get (actor, sm_client_message_id request) (st_message_dedup s) = None"
  shows "progress s (snd (deliver_message actor cid request mentions recipients now s))"
  unfolding deliver_message_def bnd_gets
  by (intro progress_steps progress_step_push_then progress_step_remember guar_intros)
    (use assms in \<open>auto dest!: mark_sent_InrD simp: message_pending_Inr_iff\<close>)

lemma progress_send_message_in_store [guar_intros]:
  "guar progress (send_message_in_store actor cid request now)"
proof (rule guarI)
  fix s
  show "progress s (snd (send_message_in_store actor cid request now s))"
    using progress_deliver_message [of actor request s]
    by (auto simp: send_message_in_store_def Let_def found_def progress.refl
        split: option.splits sum.splits)
qed

interpretation same_messages: effect_preorder "\<lambda>s s'. st_messages s' = st_messages s"
  by unfold_locales simp_all

lemma same_messages_writes [guar_intros]:
  "guar (\<lambda>s s'. st_messages s' = st_messages s) (receipt_delivered mid u)"
  "guar (\<lambda>s s'. st_messages s' = st_messages s) (remember_sent actor i mid q)"
  "guar (\<lambda>s s'. st_messages s' = st_messages s) (append_event rs k p now)"
  by (simp_all add: receipt_delivered_def remember_sent_def append_event_run guar_def)

lemma append_forwarded_message_numbers:
  assumes run: "append_forwarded_message actor cid content q recipients now s = (Inr m, s')"
  shows "last_sequence s' cid = q"
proof -
  from run obtain c p s1 s2 s3 s4 where sent: "mark_sent q now p = Inr m"
    and push: "push_message cid m s1 = (Inr (), s2)"
    and rest: "remember_sent actor (MessageId c) (msg_id m) q s2 = (Inr (), s3)"
      "receipt_delivered (msg_id m) actor s3 = (Inr (), s4)"
      "append_event (set recipients) MessageCreated (PForwarded m) now s4 = (Inr (), s')"
    unfolding append_forwarded_message_def dom_def by auto
  have "st_messages s' = st_messages s2"
    using same_messages_writes [THEN guarD] rest by metis
  with push mark_sent_InrD [OF sent] show ?thesis
    by (auto simp: push_message_def last_sequence_def messages_of_def sequence_after_def)
qed

lemma progress_append_forwarded_message:
  assumes "q = sat_add (last_sequence s cid) 1"
  shows "progress s (snd (append_forwarded_message actor cid content q recipients now s))"
  unfolding append_forwarded_message_def
  by (intro progress_steps progress_step_push_then progress_step_remember guar_intros)
    (use assms in \<open>auto dest!: mark_sent_InrD simp: message_pending_Inr_iff\<close>)

lemma progress_forward_loop:
  "q = last_sequence s cid \<Longrightarrow>
    progress s (snd (forward_loop actor cid recipients now contents q s))"
proof (induction contents arbitrary: q s)
  case (Cons content contents)
  let ?q = "sat_add q 1" and ?append = "append_forwarded_message actor cid content (sat_add q 1) recipients now"
  obtain r t where run: "?append s = (r, t)" by (cases "?append s")
  have step: "progress s t"
    using progress_append_forwarded_message [of ?q s cid actor content recipients now] run Cons.prems
    by simp
  show ?case
  proof (cases r)
    case (Inl e)
    with run step show ?thesis by (simp add: Let_def bnd_def)
  next
    case (Inr m)
    with run Cons.prems have "?q = last_sequence t cid"
      by (simp add: append_forwarded_message_numbers)
    from progress_trans [OF step Cons.IH [OF this]] run Inr show ?thesis
      by (auto simp: Let_def bnd_def split: prod.split sum.split)
  qed
qed (simp add: progress.refl)

lemma progress_forward_all:
  "guar progress (bnd (gets (\<lambda>s. last_sequence s cid)) (\<lambda>sequence.
     forward_loop actor cid recipients now contents sequence))"
  by (rule guarI) (simp add: progress_forward_loop)

lemma bnd_assoc: "bnd m (\<lambda>x. bnd (f x) g) = bnd (bnd m f) g"
  by (auto simp: bnd_def fun_eq_iff split: prod.split sum.split)

lemma progress_forward_messages_in_store [guar_intros]:
  "guar progress (forward_messages_in_store actor mids target mode now)"
  unfolding forward_messages_in_store_def Let_def bnd_assoc [of "gets (\<lambda>s. last_sequence s target)"]
  by (intro guar_intros progress_forward_all)

lemma progress_receipts [guar_intros]:
  "guar progress (acknowledge_delivery_tx actor mid now)"
  "guar progress (mark_read_tx actor cid q now)"
  unfolding acknowledge_delivery_tx_def mark_read_tx_def by (intro guar_intros)+

lemma update_first_recalled: "map fixed (update_first P (recalled now) ms) = map fixed ms"
  by (induction ms) (auto simp: fixed_def recalled_def)

lemma progress_recall:
  assumes "hm_get cid (st_messages s) = Some ms"
  shows "progress s (s\<lparr>st_messages := hm_insert cid (update_first P (recalled now) ms) (st_messages s)\<rparr>)"
  using assms by (auto simp: progress_def messages_of_def update_first_recalled intro: history_same_fixed)

lemma progress_recall_step:
  assumes "\<And>target u. guar progress (f target u)"
  shows "guar progress (bnd (gets (\<lambda>s. hm_get cid (st_messages s))) (\<lambda>ms.
     bnd (expect ms why) (\<lambda>messages.
     bnd (expect (find P messages) why') (\<lambda>target.
     bnd (modify (\<lambda>s. s\<lparr>st_messages := hm_insert cid
            (update_first P (recalled now) messages) (st_messages s)\<rparr>)) (f target)))))"
  unfolding expect_def
  by (rule guarI, unfold bnd_gets, intro progress_step_lift)
    (auto intro!: progress_then [OF progress_recall assms])

lemma progress_recall_message [guar_intros]: "guar progress (recall_message_tx actor mid now)"
  unfolding recall_message_tx_def
  by (intro progress_recall_step guar_intros) simp

lemma progress_reactions [guar_intros]:
  "guar progress (react_to_message_tx actor mid emoji active now)"
  "guar progress (set_message_favorite_tx actor mid favorite)"
  unfolding react_to_message_tx_def set_message_favorite_tx_def by (intro guar_intros; simp)+

lemma svc_progress_messaging [guar_intros]:
  "guar svc_progress (send_message_request actor cid request now)"
  "guar svc_progress (send_message actor cid i content reply now)"
  "guar svc_progress (acknowledge_delivery actor mid now)"
  "guar svc_progress (mark_read actor cid q now)"
  "guar svc_progress (recall_message actor mid now)"
  "guar svc_progress (react_to_message actor mid emoji active now)"
  "guar svc_progress (set_message_favorite actor mid favorite)"
  "guar svc_progress (forward_messages actor mids target mode now)"
  unfolding send_message_def send_message_request_def acknowledge_delivery_def mark_read_def
    recall_message_def react_to_message_def set_message_favorite_def forward_messages_def Let_def
  by (intro guar_intros)+

section \<open>Sending\<close>

text \<open>A message that may be sent: the sender is a member who is not muted, in a group that is not
  silenced for him, or in a direct conversation with a friend, no block standing between the two
  and no file the other does not accept.\<close>

definition may_send ::
  "'z store_scheme \<Rightarrow> user_id \<Rightarrow> conversation_id \<Rightarrow> conversation \<Rightarrow> message_content \<Rightarrow> datetime \<Rightarrow> bool"
where
  "may_send s actor cid c content now \<longleftrightarrow> can_send c actor now
     \<and> (is_group c \<longrightarrow> cid \<in> st_group_mute_all s \<longrightarrow> role_of c actor \<noteq> Some Member)
     \<and> (\<not> is_group c \<longrightarrow> (\<exists>peer. peer \<noteq> actor \<and> bt_contains peer (conv_members c)
          \<and> are_friends s actor peer \<and> (actor, peer) \<notin> st_blocks s \<and> (peer, actor) \<notin> st_blocks s
          \<and> (content_attachment content = None
              \<or> map_option fset_allow_files (hm_get (peer, actor) (st_friend_settings s)) \<noteq> Some False)))"

text \<open>An attachment that may be sent: uploaded by the sender, checked, and described as it is stored.\<close>

definition attachment_ready :: "'z store_scheme \<Rightarrow> user_id \<Rightarrow> message_content \<Rightarrow> bool" where
  "attachment_ready s actor content \<longleftrightarrow> \<not> is_bundle content
     \<and> (case content_attachment content of None \<Rightarrow> True
        | Some a \<Rightarrow> (case hm_get (att_id a) (st_attachments s) of None \<Rightarrow> False
            | Some p \<Rightarrow> pa_owner_id p = actor \<and> pa_available p \<and> pa_attachment p = a))"

lemma member_ids_iff: "u \<in> set (member_ids c) \<longleftrightarrow> bt_contains u (conv_members c)"
  by (simp add: member_ids_def bt_keys_iff)

lemma message_recipients_InrD:
  assumes "message_recipients_for_send s actor cid content now = Inr recipients"
  shows "\<exists>c. hm_get cid (st_conversations s) = Some c \<and> recipients = member_ids c
    \<and> may_send s actor cid c content now"
  using assms
  by (auto simp: message_recipients_for_send_def may_send_def role_of_def err_if_def find_Some_iff
      simp flip: member_ids_iff split: if_splits)

lemma validate_message_attachment_InrD:
  "validate_message_attachment s actor content = Inr u \<Longrightarrow> attachment_ready s actor content"
  by (auto simp: validate_message_attachment_def attachment_ready_def split: option.splits if_splits)

text \<open>The steps of \<open>deliver_message\<close> that leave messages and log alone.\<close>

lemma touch_conversation_InrD:
  "touch_conversation cid now s = (r, s') \<Longrightarrow> st_messages s' = st_messages s \<and> st_events s' = st_events s
     \<and> st_cursor s' = st_cursor s \<and> st_message_dedup s' = st_message_dedup s"
  by (auto simp: touch_conversation_def split: option.splits)

lemma set_expiration_InrD:
  "set_expiration mid e now s = (r, s') \<Longrightarrow> st_messages s' = st_messages s \<and> st_events s' = st_events s
     \<and> st_cursor s' = st_cursor s \<and> st_message_dedup s' = st_message_dedup s"
  by (auto simp: set_expiration_def split: option.splits)

lemma deliver_message_InrD:
  assumes "deliver_message actor cid request mentions recipients now s = (Inr (m, ack), s')"
  shows "content_validate (sm_content request) = Inr ()"
    and "m = \<lparr>msg_id = MessageId (uuid_src s (uuid_next s)),
      msg_client_message_id = sm_client_message_id request, msg_conversation_id = cid,
      msg_sender_id = actor, msg_sequence = Some (last_sequence s cid + 1),
      msg_content = sm_content request, msg_status = Sent, msg_reply_to = sm_reply_to request,
      msg_mentions = mentions, msg_mention_all = sm_mention_all request, msg_created_at = now,
      msg_server_created_at = Some now, msg_edited_at = None\<rparr>"
    and "ack = \<lparr>ack_client_message_id = sm_client_message_id request, ack_message_id = msg_id m,
      ack_sequence = last_sequence s cid + 1, ack_server_time = now\<rparr>"
    and "messages_of s' cid = messages_of s cid @ [m]"
    and "hm_get (actor, sm_client_message_id request) (st_message_dedup s')
      = Some (msg_id m, last_sequence s cid + 1)"
    and "\<exists>i. st_events s' = st_events s @ [\<lparr>ue_recipients = set recipients, ue_event =
       \<lparr>ev_id = i, ev_cursor = st_cursor s', ev_kind = MessageCreated, ev_payload = PMessage m,
        ev_created_at = now\<rparr>\<rparr>]"
  using assms unfolding deliver_message_def
  by (auto simp: bnd_new_uuid message_pending_Inr_iff dom_def push_message_def remember_sent_def
      receipt_delivered_def append_event_run messages_of_def
      dest!: mark_sent_InrD touch_conversation_InrD set_expiration_InrD split: sum.splits)


lemma send_request_tx:
  assumes "send_message_request actor cid request now sv = (Inr r, sv')"
  shows "send_message_in_store actor cid request now (svc_txn sv) = (Inr r, svc_txn sv')"
  using assms mutate_InrD(1) by (auto simp: send_message_request_def split: if_splits)

lemma send_in_store_new:
  assumes "send_message_in_store actor cid request now s = (Inr (m, ack), s')"
    and "hm_get (actor, sm_client_message_id request) (st_message_dedup s) = None"
  obtains c mentions where "hm_get cid (st_conversations s) = Some c"
    "may_send s actor cid c (sm_content request) now" "attachment_ready s actor (sm_content request)"
    "deliver_message actor cid request mentions (member_ids c) now s = (Inr (m, ack), s')"
proof -
  from assms obtain recipients u mentions where
    "message_recipients_for_send s actor cid (sm_content request) now = Inr recipients"
    "validate_message_attachment s actor (sm_content request) = Inr u"
    "deliver_message actor cid request mentions recipients now s = (Inr (m, ack), s')"
    by (auto simp: send_message_in_store_def Let_def split: sum.splits)
  with that show thesis
    by (auto dest!: message_recipients_InrD validate_message_attachment_InrD)
qed

lemma send_in_store_known:
  assumes "send_message_in_store actor cid request now s = (Inr (m, ack), s')"
    and "hm_get (actor, sm_client_message_id request) (st_message_dedup s) = Some (mid, q)"
  shows "s' = s \<and> find_message s mid = Some m \<and> ack_message_id ack = mid \<and> ack_sequence ack = q
    \<and> ack_client_message_id ack = sm_client_message_id request"
  using assms
  by (auto simp: send_message_in_store_def found_def split: option.splits sum.splits)

text \<open>C25. A message sent for the first time is accepted only from a sender who may send it there, with
  content and attachment in order; it is appended to the conversation under the next sequence
  number and published to exactly the members; and the acknowledgement names it.\<close>

theorem send_message_appends:
  assumes "send_message_request actor cid request now sv = (Inr (m, ack), sv')"
    and "hm_get (actor, sm_client_message_id request) (st_message_dedup (svc_txn sv)) = None"
  shows "\<exists>c i. hm_get cid (st_conversations (svc_txn sv)) = Some c
    \<and> may_send (svc_txn sv) actor cid c (sm_content request) now
    \<and> attachment_ready (svc_txn sv) actor (sm_content request)
    \<and> content_validate (sm_content request) = Inr ()
    \<and> msg_sender_id m = actor \<and> msg_content m = sm_content request \<and> msg_status m = Sent
    \<and> msg_sequence m = Some (last_sequence (svc_txn sv) cid + 1)
    \<and> messages_of (svc_txn sv') cid = messages_of (svc_txn sv) cid @ [m]
    \<and> svc_events sv' = svc_events sv @ [(set (member_ids c), \<lparr>ev_id = i, ev_cursor = st_cursor (svc_txn sv'),
        ev_kind = MessageCreated, ev_payload = PMessage m, ev_created_at = now\<rparr>)]
    \<and> ack = \<lparr>ack_client_message_id = sm_client_message_id request, ack_message_id = msg_id m,
        ack_sequence = last_sequence (svc_txn sv) cid + 1, ack_server_time = now\<rparr>"
proof -
  note tx = send_request_tx [OF assms(1)]
  from send_in_store_new [OF tx assms(2)] obtain c mentions where
    c: "hm_get cid (st_conversations (svc_txn sv)) = Some c"
      "may_send (svc_txn sv) actor cid c (sm_content request) now"
      "attachment_ready (svc_txn sv) actor (sm_content request)"
    and deliver: "deliver_message actor cid request mentions (member_ids c) now (svc_txn sv)
      = (Inr (m, ack), svc_txn sv')" .
  note d = deliver_message_InrD [OF deliver]
  have "svc_events sv' = svc_events sv @ published (length (st_events (svc_txn sv))) (svc_txn sv')"
    using assms(1) mutate_InrD(2) by (auto simp: send_message_request_def split: if_splits)
  with d(6) have "\<exists>i. svc_events sv' = svc_events sv @ [(set (member_ids c),
      \<lparr>ev_id = i, ev_cursor = st_cursor (svc_txn sv'), ev_kind = MessageCreated, ev_payload = PMessage m,
       ev_created_at = now\<rparr>)]"
    by (auto simp: published_def)
  with c d(1,2,3,4) show ?thesis by auto
qed

text \<open>What a client is told when it sends under an identifier that is already known.\<close>

lemma resend_known:
  assumes "hm_get (actor, sm_client_message_id request) (st_message_dedup (svc_txn sv)) = Some (mid, q)"
    and "find_message (svc_txn sv) mid = Some m"
    and "\<not> invalid_expiry (sm_expires_in_seconds request)"
  shows "\<exists>r sv'. send_message_request actor cid request now sv = (r, sv') \<and> stored sv' = stored sv
    \<and> svc_events sv' = svc_events sv
    \<and> (r = Inl Storage \<or> r = Inr (m, \<lparr>ack_client_message_id = sm_client_message_id request,
         ack_message_id = mid, ack_sequence = q, ack_server_time = now\<rparr>))"
proof -
  let ?op = "send_message_in_store actor cid request now"
  have tx: "?op (svc_txn sv) = (Inr (m, \<lparr>ack_client_message_id = sm_client_message_id request,
      ack_message_id = mid, ack_sequence = q, ack_server_time = now\<rparr>), svc_txn sv)"
    using assms(1,2) by (simp add: send_message_in_store_def found_def)
  show ?thesis
    unfolding send_message_request_def using assms(3)
    by (cases ?op sv rule: mutate_cases) (use tx in \<open>auto simp: published_def\<close>)
qed

section \<open>Reading\<close>

lemma for_each_receipt_read:
  "for_each ids (receipt_read u) s = (r, s') \<Longrightarrow>
     (\<exists>R. s' = s\<lparr>st_message_receipts := R\<rparr>)
     \<and> (\<forall>mid. receipts_of s' mid = (if mid \<in> set ids
          then (receipts_of s mid)\<lparr>rc_delivered_to := insert u (rc_delivered_to (receipts_of s mid)),
                 rc_read_by := insert u (rc_read_by (receipts_of s mid))\<rparr>
          else receipts_of s mid))"
proof (induction ids arbitrary: s)
  case Nil
  then show ?case by (auto intro: exI [of _ "st_message_receipts s"])
next
  case (Cons i ids)
  obtain s1 where s1: "receipt_read u i s = (Inr (), s1)" by (simp add: receipt_read_def)
  then have r1: "receipts_of s1 mid = (if mid = i
      then (receipts_of s mid)\<lparr>rc_delivered_to := insert u (rc_delivered_to (receipts_of s mid)),
             rc_read_by := insert u (rc_read_by (receipts_of s mid))\<rparr> else receipts_of s mid)"
    and same: "\<exists>R. s1 = s\<lparr>st_message_receipts := R\<rparr>" for mid
    by (auto simp: receipt_read_def receipts_of_def split: option.split)
  from Cons.prems s1 have "for_each ids (receipt_read u) s1 = (r, s')" by (simp add: bnd_def)
  from Cons.IH [OF this] same show ?case by (auto simp: r1)
qed

lemma read_position_messages:
  "msg_sender_id m \<noteq> actor \<Longrightarrow> msg_sequence m = Some p \<Longrightarrow> p \<le> q \<Longrightarrow> read_by_position actor q m"
  by (simp add: read_by_position_def)

lemma mark_read_txE:
  fixes s s' :: txn
  assumes "mark_read_tx actor cid through_sequence now s = (Inr (), s')"
  obtains c s1 where "hm_get cid (st_conversations s) = Some c" "can_read c actor"
    "for_each (map msg_id (filter (read_by_position actor (min through_sequence (last_sequence s cid)))
       (messages_of s cid))) (receipt_read actor) s = (Inr (), s1)"
    "st_read_positions s' = hm_upd_default (actor, cid) 0
       (\<lambda>p. max p (min through_sequence (last_sequence s cid))) (st_read_positions s1)"
    "st_messages s' = st_messages s1" "st_message_receipts s' = st_message_receipts s1"
  using assms
  by (auto simp: mark_read_tx_def get_conversation_def found_def advance_position_def append_event_run
      split: if_splits option.splits sum.splits)

text \<open>Marking a conversation as read needs access to it and moves the reader's position forward only,
  never past the last message; every message of the others up to the new mark is receipted as read
  and delivered, and no receipt of another user and no message changes.\<close>

theorem mark_read_advances:
  assumes "mark_read actor cid through_sequence now sv = (Inr (), sv')"
  defines "next \<equiv> min through_sequence (last_sequence (svc_txn sv) cid)"
  shows "(\<exists>c. hm_get cid (st_conversations (svc_txn sv)) = Some c \<and> can_read c actor)
    \<and> hm_get (actor, cid) (st_read_positions (svc_txn sv'))
        = Some (max (read_position (svc_txn sv) actor cid) next)
    \<and> (\<forall>m\<in>set (messages_of (svc_txn sv) cid). \<forall>q. msg_sender_id m \<noteq> actor \<longrightarrow> msg_sequence m = Some q
        \<longrightarrow> q \<le> next \<longrightarrow> actor \<in> rc_read_by (receipts_of (svc_txn sv') (msg_id m))
          \<and> actor \<in> rc_delivered_to (receipts_of (svc_txn sv') (msg_id m)))
    \<and> (\<forall>mid u. u \<noteq> actor \<longrightarrow>
        (u \<in> rc_read_by (receipts_of (svc_txn sv') mid) \<longleftrightarrow> u \<in> rc_read_by (receipts_of (svc_txn sv) mid)))
    \<and> st_messages (svc_txn sv') = st_messages (svc_txn sv)"
proof -
  let ?s = "svc_txn sv"
  let ?ids = "map msg_id (filter (read_by_position actor next) (messages_of ?s cid))"
  from mutate_InrD(1) [of "mark_read_tx actor cid through_sequence now"] assms(1)
  have "mark_read_tx actor cid through_sequence now ?s = (Inr (), svc_txn sv')"
    by (simp add: mark_read_def)
  from mark_read_txE [OF this] obtain c s1 where
    c: "hm_get cid (st_conversations ?s) = Some c" "can_read c actor"
    and s1: "for_each ?ids (receipt_read actor) ?s = (Inr (), s1)"
    and s': "st_read_positions (svc_txn sv')
        = hm_upd_default (actor, cid) 0 (\<lambda>p. max p next) (st_read_positions s1)"
      "st_messages (svc_txn sv') = st_messages s1"
      "st_message_receipts (svc_txn sv') = st_message_receipts s1"
    unfolding next_def by blast
  have same: "receipts_of (svc_txn sv') mid = receipts_of s1 mid" for mid
    by (simp add: receipts_of_def s')
  from for_each_receipt_read [OF s1] obtain R where "s1 = ?s\<lparr>st_message_receipts := R\<rparr>"
    and r: "receipts_of s1 mid = (if mid \<in> set ?ids
          then (receipts_of ?s mid)\<lparr>rc_delivered_to := insert actor (rc_delivered_to (receipts_of ?s mid)),
                 rc_read_by := insert actor (rc_read_by (receipts_of ?s mid))\<rparr>
          else receipts_of ?s mid)" for mid
    by blast
  then show ?thesis
    using c s' by (auto simp: same r read_position_def image_iff intro: read_position_messages)
qed

section \<open>Recalling\<close>

definition recall_allowed :: "user_id \<Rightarrow> datetime \<Rightarrow> message \<Rightarrow> conversation \<Rightarrow> bool" where
  "recall_allowed actor now m c \<longleftrightarrow> msg_status m \<noteq> Recalled
     \<and> (if msg_sender_id m = actor then now - msg_created_at m \<le> minutes 2
        else is_group c \<and> (\<exists>role. role_of c actor = Some role \<and> Administrator \<le> role))"

lemma recall_message_txE:
  fixes s s' :: txn
  assumes "recall_message_tx actor mid now s = (Inr m, s')"
  obtains old c messages target where "find_message s mid = Some old"
    "hm_get (msg_conversation_id old) (st_conversations s) = Some c" "recall_allowed actor now old c"
    "hm_get (msg_conversation_id old) (st_messages s) = Some messages"
    "find (\<lambda>x. msg_id x = mid) messages = Some target" "m = recalled now target"
    "st_messages s' = hm_insert (msg_conversation_id old)
       (update_first (\<lambda>x. msg_id x = mid) (recalled now) messages) (st_messages s)"
  using assms
  by (auto simp: recall_message_tx_def get_conversation_def found_def expect_def append_event_run
      recall_allowed_def role_of_def not_less split: if_splits option.splits sum.splits)

text \<open>C27. A message can be recalled once: by its sender within two minutes of sending it, or by an
  owner or administrator of its group at any time.  Its entry, and no other, is replaced by
  the recall notice.\<close>

theorem recall_message_rules:
  assumes "recall_message actor mid now sv = (Inr m, sv')"
  shows "\<exists>old c. find_message (svc_txn sv) mid = Some old
    \<and> hm_get (msg_conversation_id old) (st_conversations (svc_txn sv)) = Some c
    \<and> msg_status old \<noteq> Recalled
    \<and> (if msg_sender_id old = actor then now - msg_created_at old \<le> minutes 2
       else is_group c \<and> (\<exists>role. role_of c actor = Some role \<and> Administrator \<le> role))
    \<and> msg_id m = mid \<and> msg_status m = Recalled
    \<and> (\<forall>cid. messages_of (svc_txn sv') cid = (if cid = msg_conversation_id old
         then update_first (\<lambda>x. msg_id x = mid) (recalled now) (messages_of (svc_txn sv) cid)
         else messages_of (svc_txn sv) cid))"
proof -
  from mutate_InrD(1) [of "recall_message_tx actor mid now"] assms
  have "recall_message_tx actor mid now (svc_txn sv) = (Inr m, svc_txn sv')"
    by (simp add: recall_message_def)
  from recall_message_txE [OF this] obtain old c messages target where
    old: "find_message (svc_txn sv) mid = Some old"
      "hm_get (msg_conversation_id old) (st_conversations (svc_txn sv)) = Some c"
      "recall_allowed actor now old c" "hm_get (msg_conversation_id old) (st_messages (svc_txn sv)) = Some messages"
    and target: "find (\<lambda>x. msg_id x = mid) messages = Some target" "m = recalled now target"
    and s': "st_messages (svc_txn sv') = hm_insert (msg_conversation_id old)
        (update_first (\<lambda>x. msg_id x = mid) (recalled now) messages) (st_messages (svc_txn sv))" .
  have "msg_id m = mid" "msg_status m = Recalled"
    using target by (auto simp: recalled_def find_Some_iff)
  moreover have "messages_of (svc_txn sv') cid = (if cid = msg_conversation_id old
      then update_first (\<lambda>x. msg_id x = mid) (recalled now) (messages_of (svc_txn sv) cid)
      else messages_of (svc_txn sv) cid)" for cid
    using old(4) by (simp add: messages_of_def s')
  ultimately show ?thesis
    using old(1-3) unfolding recall_allowed_def by blast
qed

end
