(* ===== verification/Sync_Log.thy ===== *)
theory Sync_Log
  imports Profiles Friends Group_Admin Messaging
begin

text \<open>
  Synchronisation: the server's page of events and its bootstrap answer
  (\<open>crates/application/src/service.rs\<close>, lines 4029-4083), and the client's loop that catches up after
  a reconnect (\<open>apps/desktop/src/realtime.rs\<close>, \<open>catch_up\<close>).

  The contract between the two is the locale \<open>paged_source\<close>: what a page is, and how the events
  still pending grow while the client pages through them.  The client's loop is verified against
  the contract, and the service's event log is shown to meet it.
\<close>

section \<open>The server side\<close>

definition MAX_SYNC_PAGE :: nat where "MAX_SYNC_PAGE = 500"

definition pending_events :: "'z store_scheme \<Rightarrow> user_id \<Rightarrow> u64 \<Rightarrow> event list" where
  "pending_events s actor after =
     map ue_event (filter (\<lambda>u. ev_cursor (ue_event u) > after \<and> actor \<in> ue_recipients u) (st_events s))"

definition sync :: "'z store_scheme \<Rightarrow> user_id \<Rightarrow> u64 \<Rightarrow> nat \<Rightarrow> sync_response" where
  "sync s actor after limit =
     (let limit = clamp 1 MAX_SYNC_PAGE limit;
          events = take (limit + 1) (pending_events s actor after);
          has_more = length events > limit;
          events = take limit events;
          next_cursor = (if events = [] then after else ev_cursor (last events))
      in \<lparr>sr_events = events, sr_next_cursor = next_cursor, sr_has_more = has_more\<rparr>)"

definition latest_cursor :: "'z store_scheme \<Rightarrow> u64" where
  "latest_cursor s = st_cursor s"

record bootstrap_response =
  br_profile :: user_profile
  br_profile_privacy :: profile_privacy_settings
  br_friends :: "user_profile list"
  br_friend_settings :: "friend_settings list"
  br_friend_requests :: "friend_request list"
  br_friend_request_profiles :: "user_profile list"
  br_conversations :: "conversation list"
  br_conversation_states :: "conversation_state list"
  br_cursor :: u64

text \<open>\<open>bootstrap\<close> takes the read lock nine times; \<open>st i\<close> is the store it sees the \<open>i\<close>-th time.\<close>

definition bootstrap ::
  "unicode \<Rightarrow> (nat \<Rightarrow> 'z store_scheme) \<Rightarrow> user_id \<Rightarrow> application_error + bootstrap_response" where
  "bootstrap U st actor =
     and_then (profile (st 0) actor) (\<lambda>p.
     Inr \<lparr>br_profile = p, br_profile_privacy = profile_privacy (st 1) actor,
          br_friends = friends U (st 2) actor,
          br_friend_settings = list_friend_settings (st 3) actor,
          br_friend_requests = friend_requests (st 4) actor,
          br_friend_request_profiles = friend_request_profiles U (st 5) actor,
          br_conversations = conversations (st 6) actor,
          br_conversation_states = conversation_states (st 7) actor,
          br_cursor = st_cursor (st 8)\<rparr>)"

section \<open>The client side\<close>

text \<open>\<open>api k cursor limit\<close> is the answer to the client's \<open>k\<close>-th request, \<open>None\<close> when it fails;
  \<open>listening\<close> says whether the receiver of the client's event channel still exists.  The loop need not
  end for an arbitrary \<open>api\<close>, so it is a partial function.  The result is the cursor reached, or why it
  was given up, with every event handed to the channel so far.\<close>

datatype sync_failure = Request_failed | Client_stopped

partial_function (option) catch_up ::
  "(nat \<Rightarrow> u64 \<Rightarrow> nat \<Rightarrow> sync_response option) \<Rightarrow> bool \<Rightarrow> nat \<Rightarrow> u64 \<Rightarrow> event list
     \<Rightarrow> ((sync_failure + u64) \<times> event list) option" where
  "catch_up api listening k cursor sent =
     (case api k cursor 200 of
        None \<Rightarrow> Some (Inl Request_failed, sent)
      | Some response \<Rightarrow>
          if sr_events response \<noteq> [] \<and> \<not> listening then Some (Inl Client_stopped, sent)
          else
            let sent' = sent @ sr_events response;
                cursor' = max (fold (\<lambda>e c. max c (ev_cursor e)) (sr_events response) cursor)
                              (sr_next_cursor response)
            in if \<not> sr_has_more response then Some (Inr cursor', sent')
               else catch_up api listening (Suc k) cursor' sent')"

section \<open>The contract\<close>

definition cursor_after :: "u64 \<Rightarrow> event list \<Rightarrow> u64" where
  "cursor_after c es = (if es = [] then c else ev_cursor (last es))"

lemma cursor_after_append: "cursor_after c (es @ es') = cursor_after (cursor_after c es) es'"
  by (simp add: cursor_after_def)

lemma fold_max_cursor:
  assumes "sorted_wrt (<) (map ev_cursor es)" "\<forall>e\<in>set es. c < ev_cursor e"
  shows "fold (\<lambda>e c. max c (ev_cursor e)) es c = cursor_after c es"
  using assms
proof (induction es arbitrary: c)
  case (Cons e es)
  from Cons.prems have "max c (ev_cursor e) = ev_cursor e" by (simp add: max.absorb2 less_imp_le)
  with Cons show ?case by (simp add: cursor_after_def)
qed (simp add: cursor_after_def)

locale paged_source =
  fixes ok :: "'s \<Rightarrow> bool"
    and later :: "'s \<Rightarrow> 's \<Rightarrow> bool"
    and page :: "'s \<Rightarrow> u64 \<Rightarrow> nat \<Rightarrow> sync_response"
    and pending :: "'s \<Rightarrow> u64 \<Rightarrow> event list"
  assumes page_eq: "0 < n \<Longrightarrow> n \<le> 500 \<Longrightarrow> page s c n =
      \<lparr>sr_events = take n (pending s c), sr_next_cursor = cursor_after c (take n (pending s c)),
       sr_has_more = (n < length (pending s c))\<rparr>"
    and pending_sorted: "ok s \<Longrightarrow> sorted_wrt (<) (map ev_cursor (pending s c))"
    and pending_above: "e \<in> set (pending s c) \<Longrightarrow> c < ev_cursor e"
    and pending_filter: "c \<le> c' \<Longrightarrow> pending s c' = filter (\<lambda>e. c' < ev_cursor e) (pending s c)"
    and pending_grows: "later s s' \<Longrightarrow> \<exists>new. pending s' c = pending s c @ new"
    and later_refl: "later s s"
    and later_trans: "later s s' \<Longrightarrow> later s' s'' \<Longrightarrow> later s s''"
begin

lemma later_chain:
  assumes "\<And>i. later (srv i) (srv (Suc i))" and "k \<le> K"
  shows "later (srv k) (srv K)"
  using \<open>k \<le> K\<close> by (induction K rule: dec_induct) (auto intro: later_refl later_trans assms(1))

lemma pending_rest:
  assumes "ok s'" "later s s'" "es = take n (pending s c)" "es \<noteq> []"
  shows "pending s' c = es @ pending s' (ev_cursor (last es))"
proof -
  from pending_grows [OF assms(2)] obtain new where "pending s' c = pending s c @ new" by blast
  then obtain rest where split: "pending s' c = es @ rest"
    using assms(3) by (metis append_assoc append_take_drop_id)
  have sorted: "sorted_wrt (<) (map ev_cursor (es @ rest))"
    using pending_sorted [OF assms(1), of c] split by simp
  have low: "ev_cursor e \<le> ev_cursor (last es)" if "e \<in> set es" for e
  proof -
    obtain es' where "es = es' @ [last es]" using assms(4) by (metis append_butlast_last_id)
    then have "sorted_wrt (<) (map ev_cursor (es' @ [last es]))"
      and "e \<in> set es' \<or> e = last es"
      using sorted that by (metis map_append sorted_wrt_append, metis that Un_iff empty_iff empty_set set_append set_ConsD)
    then show ?thesis by (auto simp: sorted_wrt_append)
  qed
  have "\<forall>e\<in>set rest. ev_cursor (last es) < ev_cursor e"
    using sorted assms(4) by (auto simp: sorted_wrt_append)
  moreover have "c \<le> ev_cursor (last es)"
    using pending_above [of "last es" s' c] split assms(4) by (simp add: less_imp_le)
  ultimately have "pending s' (ev_cursor (last es)) = rest"
    using low by (simp add: pending_filter split filter_empty_conv leD filter_id_conv)
  with split show ?thesis by simp
qed

lemma catch_up_page:
  assumes "ok (srv k)" and "api k c 200 = Some (page (srv k) c 200)"
  shows "catch_up api True k c sent = (let es = take 200 (pending (srv k) c) in
    if length (pending (srv k) c) \<le> 200 then Some (Inr (cursor_after c es), sent @ es)
    else catch_up api True (Suc k) (cursor_after c es) (sent @ es))"
proof -
  let ?es = "take 200 (pending (srv k) c)"
  have above: "\<forall>e\<in>set ?es. c < ev_cursor e"
    using pending_above by (meson in_set_takeD)
  have cursor: "max (fold (\<lambda>e c. max c (ev_cursor e)) ?es c) (cursor_after c ?es) = cursor_after c ?es"
    using fold_max_cursor [OF _ above] pending_sorted [OF assms(1), of c]
    by (simp add: sorted_wrt_take take_map [symmetric])
  have page: "page (srv k) c 200 = \<lparr>sr_events = ?es, sr_next_cursor = cursor_after c ?es,
      sr_has_more = (200 < length (pending (srv k) c))\<rparr>"
    by (rule page_eq) simp_all
  show ?thesis
    by (subst catch_up.simps) (simp add: assms(2) page cursor Let_def not_less)
qed

text \<open>Whether requests fail or not, what was handed on is a beginning of what is pending; it is all of it
  when the loop returns a cursor, and the loop gives up only after a failed request.\<close>

theorem catch_up_pages:
  assumes ok: "\<And>i. ok (srv i)" and grow: "\<And>i. later (srv i) (srv (Suc i))"
    and api: "\<And>i c n. api i c n = None \<or> api i c n = Some (page (srv i) c n)"
  shows "\<exists>K r es. k \<le> K \<and> catch_up api True k c sent = Some (r, sent @ es)
    \<and> (case r of Inr c' \<Rightarrow> es = pending (srv K) c \<and> c' = cursor_after c es
       | Inl _ \<Rightarrow> (\<exists>rest. pending (srv K) c = es @ rest) \<and> (\<exists>i c n. api i c n = None))"
proof (induction "2 ^ 64 - unat c" arbitrary: k c sent rule: less_induct)
  case less
  let ?es = "take 200 (pending (srv k) c)"
  show ?case
  proof (cases "api k c 200")
    case None
    then have "catch_up api True k c sent = Some (Inl Request_failed, sent @ [])"
      by (simp add: catch_up.simps)
    with None show ?thesis by fastforce
  next
    case (Some a)
    with api [of k c 200] have step: "catch_up api True k c sent = (let es = ?es in
        if length (pending (srv k) c) \<le> 200 then Some (Inr (cursor_after c es), sent @ es)
        else catch_up api True (Suc k) (cursor_after c es) (sent @ es))"
      by (intro catch_up_page ok) simp
    show ?thesis
    proof (cases "length (pending (srv k) c) \<le> 200")
      case True
      with step show ?thesis by (intro exI [of _ k]) (auto simp: Let_def)
    next
      case False
      then have ne: "?es \<noteq> []" by auto
      then have "c < ev_cursor (last ?es)"
        using pending_above [of "last ?es" "srv k" c] last_in_set [OF ne] by (meson in_set_takeD)
      moreover have cursor_es: "cursor_after c ?es = ev_cursor (last ?es)"
        using ne by (simp only: cursor_after_def if_False)
      ultimately have "2 ^ 64 - unat (cursor_after c ?es) < 2 ^ 64 - unat c"
        using unsigned_less [of "ev_cursor (last ?es)", where ?'a = nat] by (simp add: word_less_nat_alt)
      from less [OF this, of "Suc k" "sent @ ?es"] obtain K r es where K: "Suc k \<le> K"
        and run: "catch_up api True (Suc k) (cursor_after c ?es) (sent @ ?es) = Some (r, (sent @ ?es) @ es)"
        and r: "case r of Inr c' \<Rightarrow> es = pending (srv K) (cursor_after c ?es) \<and> c' = cursor_after (cursor_after c ?es) es
          | Inl _ \<Rightarrow> (\<exists>rest. pending (srv K) (cursor_after c ?es) = es @ rest) \<and> (\<exists>i c n. api i c n = None)"
        by blast
      from K have "later (srv k) (srv K)" by (auto intro: later_chain [where srv = srv, OF grow])
      then have rest: "pending (srv K) c = ?es @ pending (srv K) (cursor_after c ?es)"
        unfolding cursor_es by (intro pending_rest [OF ok _ refl ne])
      have "catch_up api True k c sent = Some (r, sent @ (?es @ es))"
        using step run False by (simp add: Let_def)
      moreover have "case r of Inr c' \<Rightarrow> ?es @ es = pending (srv K) c \<and> c' = cursor_after c (?es @ es)
          | Inl _ \<Rightarrow> (\<exists>rest. pending (srv K) c = (?es @ es) @ rest) \<and> (\<exists>i c n. api i c n = None)"
        using r rest by (auto simp: cursor_after_append split: sum.splits)
      ultimately show ?thesis using K by (intro exI [of _ K] exI [of _ r] exI [of _ "?es @ es"]) simp
    qed
  qed
qed

corollary catch_up_complete:
  assumes "\<And>i. ok (srv i)" and "\<And>i. later (srv i) (srv (Suc i))"
  shows "\<exists>K\<ge>k. catch_up (\<lambda>i c n. Some (page (srv i) c n)) True k c sent =
    Some (Inr (cursor_after c (pending (srv K) c)), sent @ pending (srv K) c)"
proof -
  let ?api = "\<lambda>i c n. Some (page (srv i) c n)"
  obtain K r es where K: "k \<le> K" "catch_up ?api True k c sent = Some (r, sent @ es)"
    and r: "case r of Inr c' \<Rightarrow> es = pending (srv K) c \<and> c' = cursor_after c es
      | Inl _ \<Rightarrow> (\<exists>rest. pending (srv K) c = es @ rest) \<and> (\<exists>i c n. ?api i c n = None)"
    using catch_up_pages [where srv = srv and api = ?api and k = k and c = c and sent = sent, OF assms] by auto
  then show ?thesis by (cases r) auto
qed

end

section \<open>The service's log meets the contract\<close>

definition log_small :: "txn \<Rightarrow> bool" where
  "log_small s \<longleftrightarrow> log_ok s \<and> length (st_events s) < 2 ^ 64"

lemma sync_page:
  assumes "0 < n" "n \<le> 500"
  shows "sync s actor c n =
    \<lparr>sr_events = take n (pending_events s actor c),
     sr_next_cursor = cursor_after c (take n (pending_events s actor c)),
     sr_has_more = (n < length (pending_events s actor c))\<rparr>"
proof -
  have "clamp 1 MAX_SYNC_PAGE n = n" using assms by (simp add: clamp_def MAX_SYNC_PAGE_def)
  then show ?thesis using assms by (auto simp: sync_def Let_def cursor_after_def min_def)
qed

lemma pending_events_sorted:
  assumes "log_small s"
  shows "sorted_wrt (<) (map ev_cursor (pending_events s actor c))"
proof -
  have "sorted_wrt (\<lambda>u v. ev_cursor (ue_event u) < ev_cursor (ue_event v)) (st_events s)"
    using assms log_sorted [of s] by (simp add: log_small_def sorted_wrt_map)
  then show ?thesis
    by (simp add: pending_events_def sorted_wrt_map sorted_wrt_filter)
qed

lemma pending_events_filter:
  "c \<le> c' \<Longrightarrow> pending_events s actor c' = filter (\<lambda>e. c' < ev_cursor e) (pending_events s actor c)"
  by (auto simp: pending_events_def filter_map o_def intro!: arg_cong [of _ _ "map ue_event"] filter_cong)

interpretation sync_source: paged_source log_small progress
    "\<lambda>s. sync s actor" "\<lambda>s. pending_events s actor" for actor
proof unfold_locales
  fix s s' :: txn and c
  assume "progress s s'"
  then obtain new where "st_events s' = st_events s @ new" unfolding progress_def by blast
  then show "\<exists>new. pending_events s' actor c = pending_events s actor c @ new"
    by (auto simp: pending_events_def)
qed (simp_all add: sync_page pending_events_sorted pending_events_filter progress.refl,
    auto simp: pending_events_def intro: progress_trans)

end
