(* ===== verification/Local_Codec.thy ===== *)
theory Local_Codec
  imports Utf8 Sync_Log
begin

text \<open>
  The text codec of the desktop client's local store (\<open>crates/client-core/src/lib.rs\<close>): the
  sealed form of a text at rest (\<open>protect\<close>, \<open>unprotect\<close>), the identifier and setting-key
  checks, and the data directory.

  Third-party code is the record \<open>platform\<close>, a parameter of every definition that needs it: the
  \<open>uuid\<close> crate's text form, the \<open>data-encoding\<close> crate's base 64, the \<open>aes-gcm\<close> crate, and
  \<open>serde_json\<close> with the derived codecs of the domain's types.  What the client relies on is
  the predicate \<open>platform_ok\<close>.
\<close>

section \<open>Third-party functions\<close>

record platform =
  pf_uuid_text :: "uuid \<Rightarrow> rstr"
  pf_uuid_parse :: "rstr \<Rightarrow> uuid option"
  pf_b64_encode :: "u8 list \<Rightarrow> rstr"
  pf_b64_decode :: "rstr \<Rightarrow> u8 list option"
  pf_encrypt :: "u8 list \<Rightarrow> u8 list \<Rightarrow> u8 list \<Rightarrow> u8 list option"
  pf_decrypt :: "u8 list \<Rightarrow> u8 list \<Rightarrow> u8 list \<Rightarrow> u8 list option"
  pf_message_json :: "message \<Rightarrow> rstr option"
  pf_message_parse :: "rstr \<Rightarrow> message option"
  pf_profile_json :: "user_profile \<Rightarrow> rstr option"
  pf_profile_parse :: "rstr \<Rightarrow> user_profile option"
  pf_conversation_json :: "conversation \<Rightarrow> rstr option"
  pf_conversation_parse :: "rstr \<Rightarrow> conversation option"
  pf_bootstrap_json :: "bootstrap_response \<Rightarrow> rstr option"
  pf_bootstrap_parse :: "rstr \<Rightarrow> bootstrap_response option"
  pf_request_parse :: "rstr \<Rightarrow> send_message_request option"
  pf_json_valid :: "rstr \<Rightarrow> bool"

text \<open>JSON text that the encoder writes for a structure: it opens with a brace, is made of scalar
  values, and is read back by the decoder.\<close>

definition json_codec :: "('a \<Rightarrow> rstr option) \<Rightarrow> (rstr \<Rightarrow> 'a option) \<Rightarrow> bool" where
  "json_codec enc dec \<longleftrightarrow>
     (\<forall>x t. enc x = Some t \<longrightarrow> dec t = Some x \<and> take 1 t = lit ''{'' \<and> (\<forall>c\<in>set t. scalar_value c))"

definition platform_ok :: "platform \<Rightarrow> bool" where
  "platform_ok P \<longleftrightarrow>
     (\<forall>u. pf_uuid_parse P (pf_uuid_text P u) = Some u) \<and>
     (\<forall>bs. pf_b64_decode P (pf_b64_encode P bs) = Some bs) \<and>
     (\<forall>k n p c. pf_encrypt P k n p = Some c \<longrightarrow>
        pf_decrypt P k n c = Some p \<and> length c = length p + 16) \<and>
     (\<forall>t. pf_json_valid P t \<longrightarrow> take 1 t \<noteq> lit ''e'') \<and>
     json_codec (pf_message_json P) (pf_message_parse P) \<and>
     json_codec (pf_profile_json P) (pf_profile_parse P) \<and>
     json_codec (pf_conversation_json P) (pf_conversation_parse P) \<and>
     json_codec (pf_bootstrap_json P) (pf_bootstrap_parse P)"

lemma json_codecD:
  assumes "json_codec enc dec" "enc x = Some t"
  shows "dec t = Some x" "take 1 t = lit ''{''" "\<forall>c\<in>set t. scalar_value c"
  using assms unfolding json_codec_def by blast+

lemma platform_okD:
  assumes "platform_ok P"
  shows "pf_uuid_parse P (pf_uuid_text P u) = Some u"
    and "pf_b64_decode P (pf_b64_encode P bs) = Some bs"
    and "pf_encrypt P k n p = Some c \<Longrightarrow> pf_decrypt P k n c = Some p"
    and "pf_encrypt P k n p = Some c \<Longrightarrow> length c = length p + 16"
    and "pf_json_valid P t \<Longrightarrow> take 1 t \<noteq> lit ''e''"
    and "json_codec (pf_message_json P) (pf_message_parse P)"
    and "json_codec (pf_profile_json P) (pf_profile_parse P)"
    and "json_codec (pf_conversation_json P) (pf_conversation_parse P)"
    and "json_codec (pf_bootstrap_json P) (pf_bootstrap_parse P)"
  using assms unfolding platform_ok_def by blast+

section \<open>Text at rest\<close>

definition ENCRYPTED_PREFIX :: rstr where
  "ENCRYPTED_PREFIX = lit ''enc:v1:''"

definition is_sealed :: "rstr \<Rightarrow> bool" where
  "is_sealed s \<longleftrightarrow> starts_with ENCRYPTED_PREFIX s"

text \<open>The encrypting branch of \<open>protect\<close>: the nonce and the cipher text in base 64 after the prefix.\<close>

definition seal :: "platform \<Rightarrow> u8 list \<Rightarrow> u8 list \<Rightarrow> rstr \<Rightarrow> string + rstr" where
  "seal P key nonce s =
     (if length key \<noteq> 32 then Inl ''local encryption initialization failed''
      else case pf_encrypt P key nonce (utf8 s) of
             None \<Rightarrow> Inl ''failed to encrypt local content''
           | Some ciphertext \<Rightarrow> Inr (ENCRYPTED_PREFIX @ pf_b64_encode P (nonce @ ciphertext)))"

definition unprotect :: "platform \<Rightarrow> rstr \<Rightarrow> u8 list option \<Rightarrow> string + rstr" where
  "unprotect P s key =
     (if \<not> is_sealed s then Inr s
      else and_then (ok_or key ''local cache is encrypted but its key is unavailable'') (\<lambda>k.
      and_then (ok_or (pf_b64_decode P (drop (length ENCRYPTED_PREFIX) s))
                  ''encrypted local content is invalid'') (\<lambda>payload.
      and_then (err_if (length payload < 28) ''encrypted local content is invalid'') (\<lambda>_.
      and_then (err_if (length k \<noteq> 32) ''local decryption initialization failed'') (\<lambda>_.
      and_then (ok_or (pf_decrypt P k (take 12 payload) (drop 12 payload))
                  ''failed to decrypt local content'') (\<lambda>plaintext.
      ok_or (utf8_decode plaintext) ''decrypted local content is invalid''))))))"

lemma is_sealed_prefix [simp]: "is_sealed (ENCRYPTED_PREFIX @ s)"
  by (simp add: is_sealed_def starts_with_def)

lemma seal_sealed: "seal P k n s = Inr t \<Longrightarrow> is_sealed t"
  by (auto simp: seal_def split: if_splits option.splits)

lemma unprotect_plain [simp]: "\<not> is_sealed s \<Longrightarrow> unprotect P s key = Inr s"
  by (simp add: unprotect_def)

lemma unprotect_seal:
  assumes P: "platform_ok P" and s: "seal P k n s = Inr t" and n: "length n = 12"
    and sv: "\<forall>c\<in>set s. scalar_value c"
  shows "unprotect P t (Some k) = Inr s"
proof -
  from s obtain c where k: "length k = 32" and c: "pf_encrypt P k n (utf8 s) = Some c"
    and t: "t = ENCRYPTED_PREFIX @ pf_b64_encode P (n @ c)"
    by (auto simp: seal_def split: if_splits option.splits)
  from platform_okD(3,4) [OF P c] n t k sv show ?thesis
    by (simp add: unprotect_def platform_okD(2) [OF P] utf8_decode_utf8 err_if_def)
qed

text \<open>JSON is never taken for a sealed text.\<close>

lemma valid_json_not_sealed: "platform_ok P \<Longrightarrow> pf_json_valid P t \<Longrightarrow> \<not> is_sealed t"
  using platform_okD(5) [of P t]
  by (cases t) (auto simp: is_sealed_def starts_with_def ENCRYPTED_PREFIX_def)

lemma json_not_sealed:
  assumes "json_codec enc dec" "enc x = Some t"
  shows "\<not> is_sealed t"
  using json_codecD(2) [OF assms]
  by (cases t) (auto simp: is_sealed_def starts_with_def ENCRYPTED_PREFIX_def)

section \<open>Checked identifiers and setting names\<close>

definition validate_uuid :: "platform \<Rightarrow> rstr \<Rightarrow> string + unit" where
  "validate_uuid P s = err_if (pf_uuid_parse P s = None) ''invalid identifier''"

definition is_ascii_alphanumeric :: "nat \<Rightarrow> bool" where
  "is_ascii_alphanumeric c \<longleftrightarrow> is_ascii_upper c \<or> is_ascii_lower c \<or> is_ascii_digit c"

text \<open>The bytes a setting name and an error code are made of.\<close>

definition is_name_byte :: "u8 \<Rightarrow> bool" where
  "is_name_byte b \<longleftrightarrow> is_ascii_alphanumeric (unat b) \<or> unat b \<in> {95, 45, 46}"

definition validate_setting_key :: "rstr \<Rightarrow> string + unit" where
  "validate_setting_key key =
     (if 1 \<le> byte_len key \<and> byte_len key \<le> 96 \<and> list_all is_name_byte (utf8 key) then Inr ()
      else Inl ''setting key is invalid'')"

section \<open>The data directory\<close>

text \<open>The program is compiled for one of three platforms; \<open>env\<close> are the process's variables.\<close>

datatype os = Windows | Macos | Other_Unix

definition path_join :: "os \<Rightarrow> rstr \<Rightarrow> rstr \<Rightarrow> rstr" where
  "path_join target base relative =
     (let separators = (if target = Windows then lit ''/'' @ [92] else lit ''/'')
      in if base = [] \<or> last base \<in> set separators then base @ relative
         else base @ (if target = Windows then [92] else lit ''/'') @ relative)"

definition platform_data_directory :: "os \<Rightarrow> (string \<Rightarrow> rstr option) \<Rightarrow> string + rstr" where
  "platform_data_directory target env =
     (case target of
        Windows \<Rightarrow>
          and_then (ok_or (env ''APPDATA'') ''Windows application data directory is unavailable'')
            (\<lambda>path. Inr (path_join target path (lit ''I Am Rust'')))
      | Macos \<Rightarrow>
          and_then (ok_or (env ''HOME'') ''macOS application data directory is unavailable'')
            (\<lambda>path. Inr (path_join target path (lit ''Library/Application Support/I Am Rust'')))
      | Other_Unix \<Rightarrow>
          (case env ''XDG_DATA_HOME'' of
             Some path \<Rightarrow> Inr (path_join target path (lit ''i-am-rust''))
           | None \<Rightarrow>
               and_then (ok_or (env ''HOME'') ''Unix application data directory is unavailable'')
                 (\<lambda>path. Inr (path_join target path (lit ''.local/share/i-am-rust'')))))"

definition default_data_directory :: "os \<Rightarrow> (string \<Rightarrow> rstr option) \<Rightarrow> string + rstr" where
  "default_data_directory target env =
     (case env ''IAMRUST_DATA_DIR'' of
        Some path \<Rightarrow> if path = [] then Inl ''IAMRUST_DATA_DIR cannot be empty'' else Inr path
      | None \<Rightarrow> platform_data_directory target env)"

end
