(* ===== verification/Local_Store.thy ===== *)
theory Local_Store
  imports Local_Codec
begin

text \<open>
  The desktop client's local store (\<open>crates/client-core/src/lib.rs\<close>, \<open>migrations/\<close>): the SQLite
  tables, and the operations that cache the server's answers, keep drafts, settings and the outbox,
  and follow the event log.

  A table is an association list from its primary key in insertion order; \<open>hm_insert\<close> is
  \<open>INSERT .. ON CONFLICT(key) DO UPDATE\<close>.  The constraints of the schema that can fail are written
  out where a statement can violate them: the foreign keys to \<open>cached_conversations\<close>, the two
  \<open>UNIQUE\<close> constraints of \<open>cached_messages\<close>, that of \<open>seen_events\<close>, and the length of a draft.
  Columns that no statement reads or writes (\<open>hidden\<close>, \<open>unread_count\<close>, \<open>last_read_sequence\<close>,
  \<open>last_message_sequence\<close>, the table \<open>pending_transfers\<close>) are left out, and so are failures of the
  disk.  Time stamps are stored as RFC 3339 text, whose order is that of the times; the model keeps
  the times.  \<open>INTEGER\<close> columns are 64-bit signed.

  The clock, the random bytes and the answers of the operating system's credential store are parts of
  the state that the operations read and the environment may change between operations.
\<close>

section \<open>Tables\<close>

record cached_user =
  cu_username :: rstr
  cu_nickname :: rstr
  cu_avatar_url :: "rstr option"
  cu_signature :: rstr
  cu_presence :: rstr
  cu_last_seen_at :: "datetime option"
  cu_payload :: rstr
  cu_updated_at :: datetime

record cached_conversation =
  cc_kind :: rstr
  cc_display_name :: rstr
  cc_pinned :: bool
  cc_muted :: bool
  cc_payload :: rstr
  cc_updated_at :: datetime

record cached_message =
  cm_client_message_id :: rstr
  cm_conversation_id :: rstr
  cm_sender_id :: rstr
  cm_sequence :: "int option"
  cm_kind :: rstr
  cm_payload :: rstr
  cm_status :: rstr
  cm_created_at :: datetime
  cm_server_created_at :: "datetime option"

record search_row =
  sr_message_id :: rstr
  sr_conversation_id :: rstr
  sr_sender_id :: rstr
  sr_body :: rstr

record draft_row =
  dr_body :: rstr
  dr_updated_at :: datetime

record outbox_row =
  ob_conversation_id :: rstr
  ob_payload :: rstr
  ob_attempt_count :: int
  ob_next_attempt_at :: datetime
  ob_last_error_code :: "rstr option"
  ob_created_at :: datetime
  ob_updated_at :: datetime

record local_db =
  db_meta :: "(rstr, rstr \<times> datetime) hashmap"
  db_users :: "(rstr, cached_user) hashmap"
  db_conversations :: "(rstr, cached_conversation) hashmap"
  db_messages :: "(rstr, cached_message) hashmap"
  db_search :: "search_row list"
  db_drafts :: "(rstr, draft_row) hashmap"
  db_outbox :: "(rstr, outbox_row) hashmap"
  db_settings :: "(rstr, rstr \<times> datetime) hashmap"
  db_seen :: "(rstr, int \<times> datetime) hashmap"

record local_store =
  ls_db :: local_db
  ls_key :: "u8 list option"
  ls_keychain :: "rstr option"
  ls_can_save :: bool
  ls_can_load :: bool
  ls_can_clear :: bool
  ls_now :: datetime
  ls_random :: "nat \<Rightarrow> u8"
  ls_drawn :: nat

type_synonym 'a store_op = "(local_store, string, 'a) eff"

text \<open>A database as the migrations leave it.\<close>

definition fresh_db :: "datetime \<Rightarrow> local_db" where
  "fresh_db now = \<lparr>db_meta = [(lit ''sync_cursor'', lit ''0'', now)], db_users = [],
     db_conversations = [], db_messages = [], db_search = [], db_drafts = [], db_outbox = [],
     db_settings = [], db_seen = []\<rparr>"

section \<open>Statements\<close>

definition reads :: "(local_db \<Rightarrow> 'a) \<Rightarrow> 'a store_op" where
  "reads f = gets (\<lambda>s. f (ls_db s))"

definition writes :: "(local_db \<Rightarrow> local_db) \<Rightarrow> unit store_op" where
  "writes f = modify (\<lambda>s. s\<lparr>ls_db := f (ls_db s)\<rparr>)"

text \<open>A statement a constraint may refuse.\<close>

definition tries :: "string \<Rightarrow> (local_db \<Rightarrow> local_db option) \<Rightarrow> unit store_op" where
  "tries e f = (\<lambda>s. case f (ls_db s) of None \<Rightarrow> (Inl e, s) | Some d \<Rightarrow> (Inr (), s\<lparr>ls_db := d\<rparr>))"

text \<open>A transaction is rolled back when it is dropped without a commit, as an error does.\<close>

definition transaction :: "'a store_op \<Rightarrow> 'a store_op" where
  "transaction m = (\<lambda>s. case m s of
     (Inl e, s') \<Rightarrow> (Inl e, s'\<lparr>ls_db := ls_db s\<rparr>)
   | (Inr x, s') \<Rightarrow> (Inr x, s'))"

definition draw_bytes :: "nat \<Rightarrow> u8 list store_op" where
  "draw_bytes n = (\<lambda>s. (Inr (map (\<lambda>i. ls_random s (ls_drawn s + i)) [0..<n]),
                        s\<lparr>ls_drawn := ls_drawn s + n\<rparr>))"

definition protect :: "platform \<Rightarrow> rstr \<Rightarrow> u8 list option \<Rightarrow> rstr store_op" where
  "protect P value key =
     (case key of
        None \<Rightarrow> ret value
      | Some k \<Rightarrow>
          if is_sealed value then ret value
          else if length k \<noteq> 32 then throw ''local encryption initialization failed''
          else bnd (draw_bytes 12) (\<lambda>nonce. lift (seal P k nonce value)))"

definition meta_value :: "rstr \<Rightarrow> local_db \<Rightarrow> rstr option" where
  "meta_value k d = map_option fst (hm_get k (db_meta d))"

definition put_meta :: "rstr \<Rightarrow> rstr \<Rightarrow> datetime \<Rightarrow> local_db \<Rightarrow> local_db" where
  "put_meta k v now d = d\<lparr>db_meta := hm_insert k (v, now) (db_meta d)\<rparr>"

definition SNAPSHOT :: rstr where "SNAPSHOT = lit ''bootstrap_snapshot''"
definition CURSOR :: rstr where "CURSOR = lit ''sync_cursor''"
definition ENCRYPTION :: rstr where "ENCRYPTION = lit ''cache_encryption''"

lemmas meta_keys = SNAPSHOT_def CURSOR_def ENCRYPTION_def

text \<open>\<open>INTEGER\<close> columns hold an \<open>i64\<close>.\<close>

definition to_i64 :: "u64 \<Rightarrow> int option" where
  "to_i64 n = (if unat n < 2 ^ 63 then Some (int (unat n)) else None)"

definition presence_text :: "presence \<Rightarrow> rstr" where
  "presence_text p = (case p of Online \<Rightarrow> lit ''online'' | Away \<Rightarrow> lit ''away'' | Busy \<Rightarrow> lit ''busy''
     | Invisible \<Rightarrow> lit ''invisible'' | Offline \<Rightarrow> lit ''offline'')"

definition status_text :: "message_status \<Rightarrow> rstr" where
  "status_text st = (case st of Pending \<Rightarrow> lit ''pending'' | Sent \<Rightarrow> lit ''sent''
     | Delivered \<Rightarrow> lit ''delivered'' | Read \<Rightarrow> lit ''read'' | Failed \<Rightarrow> lit ''failed''
     | Recalled \<Rightarrow> lit ''recalled'')"

section \<open>The bootstrap snapshot\<close>

definition cache_profile ::
  "platform \<Rightarrow> u8 list option \<Rightarrow> datetime \<Rightarrow> user_profile \<Rightarrow> unit store_op" where
  "cache_profile P key now user =
     bnd (lift (ok_or (pf_profile_json P user) ''profile serialization failed'')) (\<lambda>payload.
     bnd (protect P payload key) (\<lambda>payload.
     let hide = key \<noteq> None;
         row = \<lparr>cu_username = (if hide then [] else prof_username user),
                cu_nickname = (if hide then [] else prof_nickname user),
                cu_avatar_url = (if hide then None else prof_avatar_url user),
                cu_signature = (if hide then [] else prof_signature user),
                cu_presence = presence_text (prof_presence user),
                cu_last_seen_at = prof_last_seen_at user,
                cu_payload = payload, cu_updated_at = now\<rparr>
     in writes (\<lambda>d. d\<lparr>db_users := hm_insert (pf_uuid_text P (user_uuid (prof_id user))) row (db_users d)\<rparr>)))"

definition cache_profiles ::
  "platform \<Rightarrow> bootstrap_response \<Rightarrow> u8 list option \<Rightarrow> datetime \<Rightarrow> unit store_op" where
  "cache_profiles P value key now =
     for_each (br_profile value # br_friends value) (cache_profile P key now)"

definition conversation_kind_text :: "conversation_kind \<Rightarrow> rstr" where
  "conversation_kind_text k = (case k of Direct _ \<Rightarrow> lit ''direct'' | Group _ \<Rightarrow> lit ''group'')"

definition cache_conversation ::
  "platform \<Rightarrow> u8 list option \<Rightarrow> datetime \<Rightarrow> conversation \<Rightarrow> unit store_op" where
  "cache_conversation P key now c =
     bnd (lift (ok_or (pf_conversation_json P c) ''conversation serialization failed'')) (\<lambda>payload.
     bnd (protect P payload key) (\<lambda>payload.
     let row = \<lparr>cc_kind = conversation_kind_text (conv_kind c),
                cc_display_name = (if key \<noteq> None then [] else conv_name c),
                cc_pinned = conv_pinned c, cc_muted = conv_muted c,
                cc_payload = payload, cc_updated_at = now\<rparr>
     in writes (\<lambda>d. d\<lparr>db_conversations :=
          hm_insert (pf_uuid_text P (conversation_uuid (conv_id c))) row (db_conversations d)\<rparr>)))"

definition cache_conversations ::
  "platform \<Rightarrow> bootstrap_response \<Rightarrow> u8 list option \<Rightarrow> datetime \<Rightarrow> unit store_op" where
  "cache_conversations P value key now =
     for_each (br_conversations value) (cache_conversation P key now)"

definition cache_bootstrap :: "platform \<Rightarrow> bootstrap_response \<Rightarrow> unit store_op" where
  "cache_bootstrap P value =
     bnd (gets ls_key) (\<lambda>key. transaction (
     bnd (gets ls_now) (\<lambda>now.
     bnd (cache_profiles P value key now) (\<lambda>_.
     bnd (cache_conversations P value key now) (\<lambda>_.
     bnd (lift (ok_or (pf_bootstrap_json P value) ''bootstrap serialization failed'')) (\<lambda>snapshot.
     bnd (protect P snapshot key) (\<lambda>snapshot.
     bnd (writes (put_meta SNAPSHOT snapshot now)) (\<lambda>_.
     writes (put_meta CURSOR (decimal (unat (br_cursor value))) now)))))))))"

definition load_bootstrap :: "platform \<Rightarrow> bootstrap_response option store_op" where
  "load_bootstrap P =
     bnd (gets ls_key) (\<lambda>key.
     bnd (reads (meta_value SNAPSHOT)) (\<lambda>raw.
     case raw of
       None \<Rightarrow> ret None
     | Some value \<Rightarrow>
         bnd (lift (unprotect P value key)) (\<lambda>value.
         lift (and_then (ok_or (pf_bootstrap_parse P value) ''local cache is invalid'')
                 (\<lambda>b. Inr (Some b))))))"

section \<open>Messages\<close>

definition message_kind_text :: "message_content \<Rightarrow> rstr" where
  "message_kind_text c = (case c of CText _ \<Rightarrow> lit ''text'' | CImage _ \<Rightarrow> lit ''image''
     | CFile _ \<Rightarrow> lit ''file'' | CAudio _ _ \<Rightarrow> lit ''audio'' | CSticker _ _ \<Rightarrow> lit ''sticker''
     | CForwardBundle _ _ \<Rightarrow> lit ''forward_bundle'' | CSystem _ \<Rightarrow> lit ''system'')"

text \<open>A row with another primary key that a new value of the unique columns would collide with.\<close>

definition sequence_taken :: "rstr \<Rightarrow> rstr \<Rightarrow> int option \<Rightarrow> local_db \<Rightarrow> bool" where
  "sequence_taken i c q d \<longleftrightarrow>
     q \<noteq> None \<and> list_ex (\<lambda>(j, r). j \<noteq> i \<and> cm_conversation_id r = c \<and> cm_sequence r = q) (db_messages d)"

definition sender_taken :: "rstr \<Rightarrow> rstr \<Rightarrow> rstr \<Rightarrow> local_db \<Rightarrow> bool" where
  "sender_taken i u cid d \<longleftrightarrow>
     list_ex (\<lambda>(j, r). j \<noteq> i \<and> cm_sender_id r = u \<and> cm_client_message_id r = cid) (db_messages d)"

text \<open>The upsert of a message: on a conflict only four columns change.\<close>

definition upsert_message :: "rstr \<Rightarrow> cached_message \<Rightarrow> local_db \<Rightarrow> local_db option" where
  "upsert_message i row d =
     (case hm_get i (db_messages d) of
        Some old \<Rightarrow>
          if sequence_taken i (cm_conversation_id old) (cm_sequence row) d then None
          else Some (d\<lparr>db_messages := hm_insert i (old\<lparr>cm_sequence := cm_sequence row,
                 cm_payload := cm_payload row, cm_status := cm_status row,
                 cm_server_created_at := cm_server_created_at row\<rparr>) (db_messages d)\<rparr>)
      | None \<Rightarrow>
          if \<not> hm_contains (cm_conversation_id row) (db_conversations d)
             \<or> sequence_taken i (cm_conversation_id row) (cm_sequence row) d
             \<or> sender_taken i (cm_sender_id row) (cm_client_message_id row) d then None
          else Some (d\<lparr>db_messages := hm_insert i row (db_messages d)\<rparr>))"

definition same_client_message :: "rstr \<Rightarrow> rstr \<Rightarrow> rstr \<Rightarrow> rstr \<Rightarrow> cached_message \<Rightarrow> bool" where
  "same_client_message u cid i j r \<longleftrightarrow>
     cm_sender_id r = u \<and> cm_client_message_id r = cid \<and> j \<noteq> i"

definition drop_search :: "(rstr \<Rightarrow> bool) \<Rightarrow> local_db \<Rightarrow> local_db" where
  "drop_search ids d = d\<lparr>db_search := filter (\<lambda>r. \<not> ids (sr_message_id r)) (db_search d)\<rparr>"

definition drop_messages :: "(rstr \<Rightarrow> cached_message \<Rightarrow> bool) \<Rightarrow> local_db \<Rightarrow> local_db" where
  "drop_messages Q d = d\<lparr>db_messages := hm_retain (\<lambda>j r. \<not> Q j r) (db_messages d)\<rparr>"

definition ids_where :: "(rstr \<Rightarrow> cached_message \<Rightarrow> bool) \<Rightarrow> local_db \<Rightarrow> rstr \<Rightarrow> bool" where
  "ids_where Q d i \<longleftrightarrow> list_ex (\<lambda>(j, r). j = i \<and> Q j r) (db_messages d)"

definition add_search :: "search_row \<Rightarrow> local_db \<Rightarrow> local_db" where
  "add_search r d = d\<lparr>db_search := db_search d @ [r]\<rparr>"

definition cache_message :: "platform \<Rightarrow> u8 list option \<Rightarrow> message \<Rightarrow> unit store_op" where
  "cache_message P key m =
     bnd (lift (ok_or (pf_message_json P m) ''message serialization failed'')) (\<lambda>payload.
     bnd (protect P payload key) (\<lambda>payload.
     let i = pf_uuid_text P (message_uuid (msg_id m));
         cid = pf_uuid_text P (message_uuid (msg_client_message_id m));
         c = pf_uuid_text P (conversation_uuid (msg_conversation_id m));
         u = pf_uuid_text P (user_uuid (msg_sender_id m))
     in
     bnd (writes (\<lambda>d. drop_search (ids_where (same_client_message u cid i) d) d)) (\<lambda>_.
     bnd (writes (drop_messages (same_client_message u cid i))) (\<lambda>_.
     bnd (lift (case msg_sequence m of
                  None \<Rightarrow> Inr None
                | Some n \<Rightarrow> and_then (ok_or (to_i64 n) ''message sequence is too large'') (\<lambda>q. Inr (Some q))))
       (\<lambda>q.
     bnd (tries ''failed to cache message'' (upsert_message i
            \<lparr>cm_client_message_id = cid, cm_conversation_id = c, cm_sender_id = u, cm_sequence = q,
             cm_kind = message_kind_text (msg_content m), cm_payload = payload,
             cm_status = status_text (msg_status m), cm_created_at = msg_created_at m,
             cm_server_created_at = msg_server_created_at m\<rparr>)) (\<lambda>_.
     bnd (writes (drop_search (\<lambda>j. j = i))) (\<lambda>_.
     case (key, msg_content m) of
       (None, CText text) \<Rightarrow>
         writes (add_search \<lparr>sr_message_id = i, sr_conversation_id = c, sr_sender_id = u, sr_body = text\<rparr>)
     | _ \<Rightarrow> ret ())))))))"

definition cache_messages :: "platform \<Rightarrow> message list \<Rightarrow> unit store_op" where
  "cache_messages P messages =
     bnd (gets ls_key) (\<lambda>key. transaction (for_each messages (cache_message P key)))"

definition read_message :: "platform \<Rightarrow> u8 list option \<Rightarrow> cached_message \<Rightarrow> string + message" where
  "read_message P key row =
     and_then (unprotect P (cm_payload row) key) (\<lambda>payload.
     ok_or (pf_message_parse P payload) ''cached message is invalid'')"

text \<open>\<open>ORDER BY sequence, created_at\<close>: \<open>NULL\<close> sorts before every number.\<close>

definition null_first :: "int option \<Rightarrow> int" where
  "null_first q = (case q of None \<Rightarrow> - (2 ^ 63) - 1 | Some n \<Rightarrow> n)"

definition timeline :: "rstr \<Rightarrow> local_db \<Rightarrow> cached_message list" where
  "timeline c d =
     sort_key (\<lambda>r. null_first (cm_sequence r)) (sort_key cm_created_at
       (filter (\<lambda>r. cm_conversation_id r = c) (hm_values (db_messages d))))"

fun read_all :: "('r \<Rightarrow> string + 'a) \<Rightarrow> 'r list \<Rightarrow> string + 'a list" where
  "read_all f [] = Inr []"
| "read_all f (r # rs) = and_then (f r) (\<lambda>x. and_then (read_all f rs) (\<lambda>xs. Inr (x # xs)))"

definition load_messages :: "platform \<Rightarrow> rstr \<Rightarrow> message list store_op" where
  "load_messages P c =
     bnd (lift (validate_uuid P c)) (\<lambda>_.
     bnd (gets ls_key) (\<lambda>key.
     bnd (reads (timeline c)) (\<lambda>rows.
     lift (read_all (read_message P key) rows))))"

definition text_contains :: "rstr \<Rightarrow> rstr \<Rightarrow> bool" where
  "text_contains s needle \<longleftrightarrow> list_ex (\<lambda>i. starts_with needle (drop i s)) [0..<Suc (length s)]"

definition searched_text :: "message_content \<Rightarrow> rstr option" where
  "searched_text c = (case c of CText t \<Rightarrow> Some t | CSystem t \<Rightarrow> Some t | _ \<Rightarrow> None)"

definition search_candidates :: "local_db \<Rightarrow> cached_message list" where
  "search_candidates d =
     take 10000 (sort_key (\<lambda>r. - (case cm_sequence r of None \<Rightarrow> 2 ^ 63 - 1 | Some n \<Rightarrow> n))
       (sort_key (\<lambda>r. - cm_created_at r)
         (filter (\<lambda>r. cm_kind r = lit ''text'' \<or> cm_kind r = lit ''system'') (hm_values (db_messages d)))))"

text \<open>The loop over the rows ends when \<open>limit\<close> matches are found; \<open>room\<close> of them are still missing.\<close>

fun search_rows ::
  "platform \<Rightarrow> unicode \<Rightarrow> u8 list option \<Rightarrow> rstr \<Rightarrow> nat \<Rightarrow> cached_message list \<Rightarrow> string + message list" where
  "search_rows P U key query room [] = Inr []"
| "search_rows P U key query room (row # rows) =
     and_then (read_message P key row) (\<lambda>m.
     case searched_text (msg_content m) of
       None \<Rightarrow> search_rows P U key query room rows
     | Some body \<Rightarrow>
         if text_contains (to_lowercase U body) query then
           (if room = 1 then Inr [m]
            else and_then (search_rows P U key query (room - 1) rows) (\<lambda>ms. Inr (m # ms)))
         else search_rows P U key query room rows)"

definition search_messages :: "platform \<Rightarrow> unicode \<Rightarrow> rstr \<Rightarrow> nat \<Rightarrow> message list store_op" where
  "search_messages P U query limit =
     (let query = trim query in
      bnd (fail_if (query = [] \<or> length query > 200 \<or> \<not> (1 \<le> limit \<and> limit \<le> 100))
             ''message search query is invalid'') (\<lambda>_.
      bnd (gets ls_key) (\<lambda>key.
      bnd (reads search_candidates) (\<lambda>rows.
      lift (search_rows P U key (to_lowercase U query) limit rows)))))"

end
