(* ===== verification/Local_Outbox.thy ===== *)
theory Local_Outbox
  imports Local_Store
begin

text \<open>
  Drafts, the outbox with its retry schedule, settings, and the synchronisation cursor of the
  client's local store (\<open>crates/client-core/src/lib.rs\<close>, lines 390-705 and 738-780).

  \<open>pick n\<close> stands for the random number the \<open>rand\<close> crate draws from \<open>0..=n\<close>.
\<close>

section \<open>Drafts\<close>

definition put_draft :: "rstr \<Rightarrow> rstr \<Rightarrow> datetime \<Rightarrow> local_db \<Rightarrow> local_db option" where
  "put_draft c body now d =
     (if length body > 32768 \<or> (\<not> hm_contains c (db_drafts d) \<and> \<not> hm_contains c (db_conversations d))
      then None
      else Some (d\<lparr>db_drafts := hm_insert c \<lparr>dr_body = body, dr_updated_at = now\<rparr> (db_drafts d)\<rparr>))"

definition save_draft :: "platform \<Rightarrow> rstr \<Rightarrow> rstr \<Rightarrow> unit store_op" where
  "save_draft P c body =
     bnd (lift (validate_uuid P c)) (\<lambda>_.
     bnd (fail_if (length body > 8000) ''draft is too large'') (\<lambda>_.
     bnd (gets ls_key) (\<lambda>key.
     bnd (protect P body key) (\<lambda>protected.
     bnd (gets ls_now) (\<lambda>now.
     tries ''failed to save draft'' (put_draft c protected now))))))"

definition load_draft :: "platform \<Rightarrow> rstr \<Rightarrow> rstr store_op" where
  "load_draft P c =
     bnd (lift (validate_uuid P c)) (\<lambda>_.
     bnd (gets ls_key) (\<lambda>key.
     bnd (reads (\<lambda>d. hm_get c (db_drafts d))) (\<lambda>row.
     case row of None \<Rightarrow> ret [] | Some r \<Rightarrow> lift (unprotect P (dr_body r) key))))"

section \<open>Outbox\<close>

definition put_outbox :: "rstr \<Rightarrow> rstr \<Rightarrow> rstr \<Rightarrow> datetime \<Rightarrow> local_db \<Rightarrow> local_db option" where
  "put_outbox cid c payload now d =
     (case hm_get cid (db_outbox d) of
        Some old \<Rightarrow> Some (d\<lparr>db_outbox := hm_insert cid
            (old\<lparr>ob_payload := payload, ob_updated_at := now\<rparr>) (db_outbox d)\<rparr>)
      | None \<Rightarrow>
          if \<not> hm_contains c (db_conversations d) then None
          else Some (d\<lparr>db_outbox := hm_insert cid
            \<lparr>ob_conversation_id = c, ob_payload = payload, ob_attempt_count = 0,
             ob_next_attempt_at = now, ob_last_error_code = None, ob_created_at = now,
             ob_updated_at = now\<rparr> (db_outbox d)\<rparr>))"

definition enqueue_outbox :: "platform \<Rightarrow> rstr \<Rightarrow> rstr \<Rightarrow> rstr \<Rightarrow> unit store_op" where
  "enqueue_outbox P cid c payload =
     bnd (lift (validate_uuid P cid)) (\<lambda>_.
     bnd (lift (validate_uuid P c)) (\<lambda>_.
     bnd (fail_if (byte_len payload > 1048576 \<or> \<not> pf_json_valid P payload) ''outbox payload is invalid'') (\<lambda>_.
     bnd (gets ls_key) (\<lambda>key.
     bnd (protect P payload key) (\<lambda>payload.
     bnd (gets ls_now) (\<lambda>now.
     tries ''failed to enqueue message'' (put_outbox cid c payload now)))))))"

record outbox_item =
  oi_client_message_id :: rstr
  oi_conversation_id :: rstr
  oi_payload_json :: rstr
  oi_attempt_count :: int
  oi_next_attempt_at :: datetime
  oi_last_error_code :: "rstr option"

definition outbox_due :: "datetime \<Rightarrow> local_db \<Rightarrow> (rstr \<times> outbox_row) list" where
  "outbox_due now d =
     take 100 (sort_key (\<lambda>(_, r). ob_created_at r)
       (filter (\<lambda>(_, r). ob_next_attempt_at r \<le> now) (db_outbox d)))"

definition read_outbox_row ::
  "platform \<Rightarrow> u8 list option \<Rightarrow> rstr \<times> outbox_row \<Rightarrow> string + outbox_item" where
  "read_outbox_row P key = (\<lambda>(cid, r).
     and_then (unprotect P (ob_payload r) key) (\<lambda>payload.
     Inr \<lparr>oi_client_message_id = cid, oi_conversation_id = ob_conversation_id r,
          oi_payload_json = payload, oi_attempt_count = ob_attempt_count r,
          oi_next_attempt_at = ob_next_attempt_at r, oi_last_error_code = ob_last_error_code r\<rparr>))"

definition ready_outbox :: "platform \<Rightarrow> outbox_item list store_op" where
  "ready_outbox P =
     bnd (gets ls_key) (\<lambda>key.
     bnd (gets ls_now) (\<lambda>now.
     bnd (reads (outbox_due now)) (\<lambda>rows.
     lift (read_all (read_outbox_row P key) rows))))"

definition drop_outbox :: "rstr \<Rightarrow> local_db \<Rightarrow> local_db" where
  "drop_outbox cid d = d\<lparr>db_outbox := hm_remove cid (db_outbox d)\<rparr>"

definition acknowledge_outbox :: "platform \<Rightarrow> rstr \<Rightarrow> unit store_op" where
  "acknowledge_outbox P cid =
     bnd (lift (validate_uuid P cid)) (\<lambda>_. writes (drop_outbox cid))"

definition set_outbox :: "rstr \<Rightarrow> (outbox_row \<Rightarrow> outbox_row) \<Rightarrow> local_db \<Rightarrow> local_db" where
  "set_outbox cid f d =
     (case hm_get cid (db_outbox d) of
        None \<Rightarrow> d
      | Some r \<Rightarrow> d\<lparr>db_outbox := hm_insert cid (f r) (db_outbox d)\<rparr>)"

definition retry_outbox_now :: "platform \<Rightarrow> rstr \<Rightarrow> unit store_op" where
  "retry_outbox_now P cid =
     bnd (lift (validate_uuid P cid)) (\<lambda>_.
     bnd (gets ls_now) (\<lambda>now.
     bnd (reads (\<lambda>d. hm_contains cid (db_outbox d))) (\<lambda>affected.
     bnd (writes (set_outbox cid (\<lambda>r. r\<lparr>ob_next_attempt_at := now, ob_last_error_code := None,
                                          ob_updated_at := now\<rparr>))) (\<lambda>_.
     fail_if (\<not> affected) ''outbox message not found''))))"

definition discard_pending_message :: "platform \<Rightarrow> rstr \<Rightarrow> unit store_op" where
  "discard_pending_message P cid =
     bnd (lift (validate_uuid P cid)) (\<lambda>_. transaction (
     bnd (writes (\<lambda>d. drop_search (ids_where (\<lambda>_ r. cm_client_message_id r = cid) d) d)) (\<lambda>_.
     bnd (writes (drop_messages (\<lambda>_ r. cm_client_message_id r = cid))) (\<lambda>_.
     writes (drop_outbox cid)))))"

text \<open>The delay before the next attempt: a power of two seconds up to 256, half as much again at
  random, at most 300.\<close>

definition I64_MAX :: int where "I64_MAX = 2 ^ 63 - 1"

definition next_attempt :: "int \<Rightarrow> int" where
  "next_attempt n = min I64_MAX (n + 1)"

definition base_seconds :: "int \<Rightarrow> int" where
  "base_seconds n = 2 ^ nat (min 8 (max 0 n))"

definition retry_delay :: "(int \<Rightarrow> int) \<Rightarrow> int \<Rightarrow> int" where
  "retry_delay pick n = min 300 (base_seconds n + pick (base_seconds n div 2))"

definition record_outbox_failure :: "platform \<Rightarrow> (int \<Rightarrow> int) \<Rightarrow> rstr \<Rightarrow> rstr \<Rightarrow> unit store_op" where
  "record_outbox_failure P pick cid error_code =
     bnd (lift (validate_uuid P cid)) (\<lambda>_.
     bnd (fail_if (error_code = [] \<or> byte_len error_code > 96 \<or> \<not> list_all is_name_byte (utf8 error_code))
            ''outbox error code is invalid'') (\<lambda>_.
     bnd (reads (\<lambda>d. hm_get cid (db_outbox d))) (\<lambda>row.
     bnd (lift (ok_or (map_option ob_attempt_count row) ''outbox message not found'')) (\<lambda>attempt_count.
     bnd (gets ls_now) (\<lambda>now.
     let n = next_attempt attempt_count in
     writes (set_outbox cid (\<lambda>r. r\<lparr>ob_attempt_count := n,
       ob_next_attempt_at := now + seconds (retry_delay pick n),
       ob_last_error_code := Some error_code, ob_updated_at := now\<rparr>)))))))"

section \<open>Settings\<close>

text \<open>\<open>json\<close> is the outcome of \<open>serde_json\<close> on the value, \<open>parse\<close> its decoder for the type asked for.\<close>

definition save_setting :: "rstr \<Rightarrow> rstr option \<Rightarrow> unit store_op" where
  "save_setting name json =
     bnd (lift (validate_setting_key name)) (\<lambda>_.
     bnd (lift (ok_or json ''setting serialization failed'')) (\<lambda>v.
     bnd (fail_if (byte_len v > 65536) ''setting is too large'') (\<lambda>_.
     bnd (gets ls_now) (\<lambda>now.
     writes (\<lambda>d. d\<lparr>db_settings := hm_insert name (v, now) (db_settings d)\<rparr>)))))"

definition load_setting :: "(rstr \<Rightarrow> 'v option) \<Rightarrow> rstr \<Rightarrow> 'v option store_op" where
  "load_setting parse name =
     bnd (lift (validate_setting_key name)) (\<lambda>_.
     bnd (reads (\<lambda>d. hm_get name (db_settings d))) (\<lambda>row.
     case row of
       None \<Rightarrow> ret None
     | Some (v, _) \<Rightarrow> lift (and_then (ok_or (parse v) ''stored setting is invalid'') (\<lambda>x. Inr (Some x)))))"

section \<open>Following the event log\<close>

definition stored_cursor :: "local_db \<Rightarrow> rstr" where
  "stored_cursor d = (case meta_value CURSOR d of None \<Rightarrow> lit ''0'' | Some v \<Rightarrow> v)"

definition sync_cursor :: "u64 store_op" where
  "sync_cursor =
     bnd (reads stored_cursor) (\<lambda>v. lift (ok_or (parse_u64 v) ''stored sync cursor is invalid''))"

definition insert_seen :: "rstr \<Rightarrow> int \<Rightarrow> datetime \<Rightarrow> local_db \<Rightarrow> local_db option" where
  "insert_seen i c now d =
     (if hm_contains i (db_seen d) \<or> list_ex (\<lambda>(_, c', _). c' = c) (db_seen d) then None
      else Some (d\<lparr>db_seen := hm_insert i (c, now) (db_seen d)\<rparr>))"

definition prune_seen :: "int \<Rightarrow> local_db \<Rightarrow> local_db" where
  "prune_seen before d = d\<lparr>db_seen := hm_retain (\<lambda>_ (c, _). \<not> c < before) (db_seen d)\<rparr>"

definition record_sync_event :: "platform \<Rightarrow> 'p sync_event \<Rightarrow> bool store_op" where
  "record_sync_event P event = transaction (
     let i = pf_uuid_text P (ev_id event) in
     bnd (reads (\<lambda>d. hm_contains i (db_seen d))) (\<lambda>seen.
     if seen then ret False
     else
       bnd (reads stored_cursor) (\<lambda>v.
       bnd (lift (ok_or (parse_u64 v) ''stored sync cursor is invalid'')) (\<lambda>cursor.
       if ev_cursor event \<le> cursor then ret False
       else
         bnd (lift (ok_or (to_i64 (ev_cursor event)) ''sync cursor is too large'')) (\<lambda>c.
         bnd (gets ls_now) (\<lambda>now.
         bnd (tries ''failed to record sync event'' (insert_seen i c now)) (\<lambda>_.
         bnd (writes (put_meta CURSOR (decimal (unat (ev_cursor event))) now)) (\<lambda>_.
         let before = (case to_i64 (sat_sub (ev_cursor event) 50000) of None \<Rightarrow> I64_MAX | Some b \<Rightarrow> b) in
         bnd (writes (prune_seen before)) (\<lambda>_. ret True)))))))))"

section \<open>Statistics and account change\<close>

record cache_stats =
  stat_database_bytes :: u64
  stat_media_bytes :: u64
  stat_message_count :: nat
  stat_pending_outbox_count :: nat

text \<open>\<open>file_bytes\<close> is the size of the database file, when the system reports it.\<close>

definition cache_stats :: "u64 option \<Rightarrow> cache_stats store_op" where
  "cache_stats file_bytes = reads (\<lambda>d.
     \<lparr>stat_database_bytes = (case file_bytes of None \<Rightarrow> 0 | Some n \<Rightarrow> n), stat_media_bytes = 0,
      stat_message_count = length (db_messages d), stat_pending_outbox_count = length (db_outbox d)\<rparr>)"

definition clear_account_cache :: "unit store_op" where
  "clear_account_cache = transaction (
     bnd (gets ls_now) (\<lambda>now.
     bnd (writes (\<lambda>d. d\<lparr>db_search := []\<rparr>)) (\<lambda>_.
     bnd (writes (\<lambda>d. d\<lparr>db_outbox := []\<rparr>)) (\<lambda>_.
     bnd (writes (\<lambda>d. d\<lparr>db_drafts := []\<rparr>)) (\<lambda>_.
     bnd (writes (\<lambda>d. d\<lparr>db_messages := []\<rparr>)) (\<lambda>_.
     bnd (writes (\<lambda>d. d\<lparr>db_conversations := []\<rparr>)) (\<lambda>_.
     bnd (writes (\<lambda>d. d\<lparr>db_users := []\<rparr>)) (\<lambda>_.
     bnd (writes (\<lambda>d. d\<lparr>db_seen := []\<rparr>)) (\<lambda>_.
     bnd (writes (\<lambda>d. d\<lparr>db_meta := hm_retain (\<lambda>k _. k = CURSOR \<or> k = ENCRYPTION) (db_meta d)\<rparr>)) (\<lambda>_.
     writes (\<lambda>d. if hm_contains CURSOR (db_meta d) then put_meta CURSOR (lit ''0'') now d else d)))))))))))"

end
