(* ===== verification/Local_Vault.thy ===== *)
theory Local_Vault
  imports Local_Outbox
begin

text \<open>
  Encryption of the local store at rest (\<open>crates/client-core/src/lib.rs\<close>): the key in the operating
  system's credential store, turning encryption on and off over the existing rows, and opening the
  store with the key.
\<close>

section \<open>The key\<close>

definition save_cache_key :: "platform \<Rightarrow> u8 list \<Rightarrow> unit store_op" where
  "save_cache_key P key = (\<lambda>s.
     if ls_can_save s then (Inr (), s\<lparr>ls_keychain := Some (pf_b64_encode P key)\<rparr>)
     else (Inl ''failed to save local cache key'', s))"

definition load_cache_key :: "platform \<Rightarrow> u8 list option store_op" where
  "load_cache_key P =
     bnd (gets ls_can_load) (\<lambda>can.
     bnd (fail_if (\<not> can) ''failed to read local cache key'') (\<lambda>_.
     bnd (gets ls_keychain) (\<lambda>entry.
     case entry of
       None \<Rightarrow> ret None
     | Some encoded \<Rightarrow>
         bnd (lift (ok_or (pf_b64_decode P encoded) ''local cache key is invalid'')) (\<lambda>decoded.
         bnd (fail_if (length decoded \<noteq> 32) ''local cache key is invalid'') (\<lambda>_.
         ret (Some decoded))))))"

definition clear_cache_key :: "unit store_op" where
  "clear_cache_key = (\<lambda>s.
     if ls_can_clear s \<or> ls_keychain s = None then (Inr (), s\<lparr>ls_keychain := None\<rparr>)
     else (Inl ''failed to remove local cache key'', s))"

section \<open>Turning encryption on\<close>

text \<open>Each loop reads its rows first and then rewrites them by primary key.  \<open>f\<close> computes the new row and
  the statement that follows the update.\<close>

definition for_rows ::
  "(local_db \<Rightarrow> (rstr, 'r) hashmap) \<Rightarrow> ((rstr, 'r) hashmap \<Rightarrow> local_db \<Rightarrow> local_db)
     \<Rightarrow> ('r \<Rightarrow> ('r \<times> unit store_op) store_op) \<Rightarrow> unit store_op" where
  "for_rows get put f =
     bnd (reads get) (\<lambda>rows. for_each rows (\<lambda>(i, r).
     bnd (f r) (\<lambda>(r', after).
     bnd (writes (\<lambda>d. put (hm_insert i r' (get d)) d)) (\<lambda>_. after))))"

definition put_users :: "(rstr, cached_user) hashmap \<Rightarrow> local_db \<Rightarrow> local_db" where
  "put_users t d = d\<lparr>db_users := t\<rparr>"

definition put_conversations :: "(rstr, cached_conversation) hashmap \<Rightarrow> local_db \<Rightarrow> local_db" where
  "put_conversations t d = d\<lparr>db_conversations := t\<rparr>"

definition put_messages :: "(rstr, cached_message) hashmap \<Rightarrow> local_db \<Rightarrow> local_db" where
  "put_messages t d = d\<lparr>db_messages := t\<rparr>"

definition put_drafts :: "(rstr, draft_row) hashmap \<Rightarrow> local_db \<Rightarrow> local_db" where
  "put_drafts t d = d\<lparr>db_drafts := t\<rparr>"

definition put_outboxes :: "(rstr, outbox_row) hashmap \<Rightarrow> local_db \<Rightarrow> local_db" where
  "put_outboxes t d = d\<lparr>db_outbox := t\<rparr>"

lemmas put_defs = put_users_def put_conversations_def put_messages_def put_drafts_def put_outboxes_def

text \<open>The \<open>CHECK\<close> on the length of a draft refuses the update.\<close>

definition rewrite_draft :: "string \<Rightarrow> (rstr \<Rightarrow> rstr store_op) \<Rightarrow> draft_row \<Rightarrow> (draft_row \<times> unit store_op) store_op" where
  "rewrite_draft e f r =
     bnd (f (dr_body r)) (\<lambda>body.
     bnd (fail_if (length body > 32768) e) (\<lambda>_.
     ret (r\<lparr>dr_body := body\<rparr>, ret ())))"

definition rewrite_outbox :: "(rstr \<Rightarrow> rstr store_op) \<Rightarrow> outbox_row \<Rightarrow> (outbox_row \<times> unit store_op) store_op" where
  "rewrite_outbox f r = bnd (f (ob_payload r)) (\<lambda>p. ret (r\<lparr>ob_payload := p\<rparr>, ret ()))"

definition rewrite_snapshot :: "(rstr \<Rightarrow> rstr store_op) \<Rightarrow> unit store_op" where
  "rewrite_snapshot f =
     bnd (reads (\<lambda>d. hm_get SNAPSHOT (db_meta d))) (\<lambda>row.
     case row of
       None \<Rightarrow> ret ()
     | Some (v, t) \<Rightarrow>
         bnd (f v) (\<lambda>v'. writes (put_meta SNAPSHOT v' t)))"

definition seal_user :: "(rstr \<Rightarrow> rstr store_op) \<Rightarrow> cached_user \<Rightarrow> (cached_user \<times> unit store_op) store_op" where
  "seal_user lock r =
     bnd (lock (cu_payload r)) (\<lambda>p.
     ret (r\<lparr>cu_username := [], cu_nickname := [], cu_avatar_url := None, cu_signature := [],
            cu_payload := p\<rparr>, ret ()))"

definition seal_conversation ::
  "(rstr \<Rightarrow> rstr store_op) \<Rightarrow> cached_conversation \<Rightarrow> (cached_conversation \<times> unit store_op) store_op" where
  "seal_conversation lock r =
     bnd (lock (cc_payload r)) (\<lambda>p. ret (r\<lparr>cc_display_name := [], cc_payload := p\<rparr>, ret ()))"

definition seal_message ::
  "(rstr \<Rightarrow> rstr store_op) \<Rightarrow> cached_message \<Rightarrow> (cached_message \<times> unit store_op) store_op" where
  "seal_message lock r = bnd (lock (cm_payload r)) (\<lambda>p. ret (r\<lparr>cm_payload := p\<rparr>, ret ()))"

definition encrypt_existing_cache :: "platform \<Rightarrow> u8 list \<Rightarrow> unit store_op" where
  "encrypt_existing_cache P key = transaction (
     let lock = (\<lambda>v. protect P v (Some key)) in
     bnd (for_rows db_users put_users (seal_user lock)) (\<lambda>_.
     bnd (for_rows db_conversations put_conversations (seal_conversation lock)) (\<lambda>_.
     bnd (for_rows db_messages put_messages (seal_message lock)) (\<lambda>_.
     bnd (for_rows db_drafts put_drafts (rewrite_draft ''failed to encrypt draft'' lock)) (\<lambda>_.
     bnd (for_rows db_outbox put_outboxes (rewrite_outbox lock)) (\<lambda>_.
     bnd (rewrite_snapshot lock) (\<lambda>_.
     bnd (writes (drop_search (\<lambda>_. True))) (\<lambda>_.
     bnd (gets ls_now) (\<lambda>now.
     writes (put_meta ENCRYPTION (lit ''v1'') now))))))))))"

section \<open>Turning encryption off\<close>

definition restore_user ::
  "platform \<Rightarrow> u8 list \<Rightarrow> cached_user \<Rightarrow> (cached_user \<times> unit store_op) store_op" where
  "restore_user P key r =
     bnd (lift (unprotect P (cu_payload r) (Some key))) (\<lambda>payload.
     bnd (lift (ok_or (pf_profile_parse P payload) ''encrypted profile cache is invalid'')) (\<lambda>p.
     ret (r\<lparr>cu_username := prof_username p, cu_nickname := prof_nickname p,
            cu_avatar_url := prof_avatar_url p, cu_signature := prof_signature p,
            cu_presence := presence_text (prof_presence p), cu_last_seen_at := prof_last_seen_at p,
            cu_payload := payload\<rparr>, ret ())))"

definition restore_conversation ::
  "platform \<Rightarrow> u8 list \<Rightarrow> cached_conversation \<Rightarrow> (cached_conversation \<times> unit store_op) store_op" where
  "restore_conversation P key r =
     bnd (lift (unprotect P (cc_payload r) (Some key))) (\<lambda>payload.
     bnd (lift (ok_or (pf_conversation_parse P payload) ''encrypted conversation cache is invalid'')) (\<lambda>c.
     ret (r\<lparr>cc_display_name := conv_name c, cc_payload := payload\<rparr>, ret ())))"

definition search_row_of :: "platform \<Rightarrow> message \<Rightarrow> rstr \<Rightarrow> search_row" where
  "search_row_of P m text =
     \<lparr>sr_message_id = pf_uuid_text P (message_uuid (msg_id m)),
      sr_conversation_id = pf_uuid_text P (conversation_uuid (msg_conversation_id m)),
      sr_sender_id = pf_uuid_text P (user_uuid (msg_sender_id m)), sr_body = text\<rparr>"

definition restore_message ::
  "platform \<Rightarrow> u8 list \<Rightarrow> cached_message \<Rightarrow> (cached_message \<times> unit store_op) store_op" where
  "restore_message P key r =
     bnd (lift (unprotect P (cm_payload r) (Some key))) (\<lambda>payload.
     bnd (lift (ok_or (pf_message_parse P payload) ''encrypted message cache is invalid'')) (\<lambda>m.
     ret (r\<lparr>cm_payload := payload\<rparr>,
          case msg_content m of
            CText text \<Rightarrow> writes (add_search (search_row_of P m text))
          | _ \<Rightarrow> ret ())))"

definition decrypt_existing_cache :: "platform \<Rightarrow> u8 list \<Rightarrow> unit store_op" where
  "decrypt_existing_cache P key = transaction (
     let unlock = (\<lambda>v. lift (unprotect P v (Some key))) in
     bnd (for_rows db_users put_users (restore_user P key)) (\<lambda>_.
     bnd (for_rows db_conversations put_conversations (restore_conversation P key)) (\<lambda>_.
     bnd (writes (drop_search (\<lambda>_. True))) (\<lambda>_.
     bnd (for_rows db_messages put_messages (restore_message P key)) (\<lambda>_.
     bnd (for_rows db_drafts put_drafts (rewrite_draft ''failed to decrypt draft'' unlock)) (\<lambda>_.
     bnd (for_rows db_outbox put_outboxes (rewrite_outbox unlock)) (\<lambda>_.
     bnd (rewrite_snapshot unlock) (\<lambda>_.
     writes (\<lambda>d. d\<lparr>db_meta := hm_remove ENCRYPTION (db_meta d)\<rparr>)))))))))"

definition encryption_enabled :: "bool store_op" where
  "encryption_enabled = gets (\<lambda>s. ls_key s \<noteq> None)"

definition set_key :: "u8 list option \<Rightarrow> unit store_op" where
  "set_key k = modify (\<lambda>s. s\<lparr>ls_key := k\<rparr>)"

text \<open>\<open>cleanup_on_error m h\<close> runs \<open>h\<close> for its effect when \<open>m\<close> fails, and keeps the error of \<open>m\<close>.\<close>

definition cleanup_on_error :: "'a store_op \<Rightarrow> unit store_op \<Rightarrow> 'a store_op" where
  "cleanup_on_error m h = (\<lambda>s. case m s of
     (Inl e, s') \<Rightarrow> (Inl e, snd (h s'))
   | (Inr x, s') \<Rightarrow> (Inr x, s'))"

definition set_encryption_enabled :: "platform \<Rightarrow> bool \<Rightarrow> bool store_op" where
  "set_encryption_enabled P enabled =
     bnd encryption_enabled (\<lambda>current.
     if current = enabled then ret enabled
     else if enabled then
       bnd (draw_bytes 32) (\<lambda>key.
       bnd (save_cache_key P key) (\<lambda>_.
       bnd (cleanup_on_error (encrypt_existing_cache P key) clear_cache_key) (\<lambda>_.
       bnd (set_key (Some key)) (\<lambda>_. ret True))))
     else
       bnd (gets ls_key) (\<lambda>key.
       bnd (lift (ok_or key ''local cache encryption key is unavailable'')) (\<lambda>key.
       bnd (decrypt_existing_cache P key) (\<lambda>_.
       bnd (set_key None) (\<lambda>_.
       bnd clear_cache_key (\<lambda>_. ret False))))))"

section \<open>Opening the store\<close>

definition open_store :: "platform \<Rightarrow> unit store_op" where
  "open_store P =
     bnd (reads (meta_value ENCRYPTION)) (\<lambda>v.
     if v = Some (lit ''v1'') then
       bnd (load_cache_key P) (\<lambda>k.
       bnd (lift (ok_or k ''encrypted local cache key is unavailable'')) (\<lambda>k. set_key (Some k)))
     else set_key None)"

end
