(* ===== verification/Local_Invariant.thy ===== *)
theory Local_Invariant
  imports Local_Vault
begin

text \<open>
  The invariant of the client's local store: every JSON payload can be read back, and while
  encryption is on nothing but sealed text is kept.  The rules are about weakest preconditions
  (\<open>wpe\<close>, \<open>wp\<close> of the prelude); the loops over a table are covered once, by the locale \<open>row_table\<close>.
\<close>

section \<open>Good text\<close>

text \<open>\<open>good_text P key t v\<close>: the stored text \<open>v\<close> stands for \<open>t\<close> under \<open>key\<close>.\<close>

definition good_text :: "platform \<Rightarrow> u8 list option \<Rightarrow> rstr \<Rightarrow> rstr \<Rightarrow> bool" where
  "good_text P key t v \<longleftrightarrow> \<not> is_sealed t \<and> (\<forall>c\<in>set t. scalar_value c) \<and>
     (case key of None \<Rightarrow> v = t | Some k \<Rightarrow> is_sealed v \<and> unprotect P v (Some k) = Inr t)"

lemma unprotect_good: "good_text P key t v \<Longrightarrow> unprotect P v key = Inr t"
  by (auto simp: good_text_def split: option.splits)

lemma good_text_sealed: "good_text P (Some k) t v \<Longrightarrow> is_sealed v"
  by (simp add: good_text_def)

lemma good_text_unlock: "good_text P (Some k) t v \<Longrightarrow> good_text P None t t"
  by (simp add: good_text_def)

definition key_size :: "u8 list option \<Rightarrow> bool" where
  "key_size key \<longleftrightarrow> (\<forall>k. key = Some k \<longrightarrow> length k = 32)"

lemma wpe_draw_bytes [wp_simps]:
  "wpe (draw_bytes n) Q E s =
     Q (map (\<lambda>i. ls_random s (ls_drawn s + i)) [0..<n]) (s\<lparr>ls_drawn := ls_drawn s + n\<rparr>)"
  by (simp add: wpe_def draw_bytes_def)

lemma wpe_reads [wp_simps]: "wpe (reads f) Q E s = Q (f (ls_db s)) s"
  by (simp add: reads_def wp_simps)

lemma wpe_writes [wp_simps]: "wpe (writes f) Q E s = Q () (s\<lparr>ls_db := f (ls_db s)\<rparr>)"
  by (simp add: writes_def wp_simps)

lemma wpe_tries [wp_simps]:
  "wpe (tries e f) Q E s = (case f (ls_db s) of None \<Rightarrow> E e s | Some d \<Rightarrow> Q () (s\<lparr>ls_db := d\<rparr>))"
  by (simp add: wpe_def tries_def split: option.split)

lemma wpe_set_key [wp_simps]: "wpe (set_key k) Q E s = Q () (s\<lparr>ls_key := k\<rparr>)"
  by (simp add: set_key_def wp_simps)

lemma wpe_transaction:
  "wpe (transaction m) Q E s = wpe m Q (\<lambda>e s'. E e (s'\<lparr>ls_db := ls_db s\<rparr>)) s"
  by (simp add: wpe_def transaction_def split: prod.split sum.split)

lemma wpe_protect:
  assumes P: "platform_ok P" and key: "key_size key"
    and t: "\<not> is_sealed t" "\<forall>c\<in>set t. scalar_value c"
    and Q: "\<And>v n. good_text P key t v \<Longrightarrow> Q v (s\<lparr>ls_drawn := n\<rparr>)"
    and E: "\<And>e n. E e (s\<lparr>ls_drawn := n\<rparr>)"
  shows "wpe (protect P t key) Q E s"
proof (cases key)
  case None
  with Q [of t "ls_drawn s"] t show ?thesis by (simp add: protect_def wp_simps good_text_def)
next
  case (Some k)
  then have k: "length k = 32" using key by (simp add: key_size_def)
  have "good_text P key t v" if "seal P k n t = Inr v" "length n = 12" for n v
    using that t Some by (simp add: good_text_def seal_sealed [OF that(1)] unprotect_seal [OF P])
  with Some t k Q E show ?thesis by (simp add: protect_def wp_simps split: sum.split)
qed

text \<open>Whatever the text, while encryption is on the result is sealed.\<close>

lemma wpe_protect_any:
  assumes Q: "\<And>v n. (key \<noteq> None \<Longrightarrow> is_sealed v) \<Longrightarrow> (key = None \<Longrightarrow> v = t) \<Longrightarrow> Q v (s\<lparr>ls_drawn := n\<rparr>)"
    and E: "\<And>e n. E e (s\<lparr>ls_drawn := n\<rparr>)"
  shows "wpe (protect P t key) Q E s"
proof (cases key)
  case None
  with Q [of t "ls_drawn s"] show ?thesis by (simp add: protect_def wp_simps)
next
  case (Some k)
  with Q [of t "ls_drawn s"] E [of _ "ls_drawn s"] Q [of _ "ls_drawn s + 12"] E [of _ "ls_drawn s + 12"]
  show ?thesis by (auto simp: protect_def wp_simps seal_sealed split: sum.split)
qed

section \<open>The invariant\<close>

definition user_row :: "platform \<Rightarrow> u8 list option \<Rightarrow> cached_user \<Rightarrow> bool" where
  "user_row P key r \<longleftrightarrow>
     (\<exists>t. pf_profile_parse P t \<noteq> None \<and> good_text P key t (cu_payload r)) \<and>
     (key \<noteq> None \<longrightarrow> cu_username r = [] \<and> cu_nickname r = [] \<and> cu_avatar_url r = None \<and> cu_signature r = [])"

definition conversation_row :: "platform \<Rightarrow> u8 list option \<Rightarrow> cached_conversation \<Rightarrow> bool" where
  "conversation_row P key r \<longleftrightarrow>
     (\<exists>t. pf_conversation_parse P t \<noteq> None \<and> good_text P key t (cc_payload r)) \<and>
     (key \<noteq> None \<longrightarrow> cc_display_name r = [])"

definition message_row :: "platform \<Rightarrow> u8 list option \<Rightarrow> cached_message \<Rightarrow> bool" where
  "message_row P key r \<longleftrightarrow> (\<exists>t. pf_message_parse P t \<noteq> None \<and> good_text P key t (cm_payload r))"

definition outbox_row_ok :: "platform \<Rightarrow> u8 list option \<Rightarrow> outbox_row \<Rightarrow> bool" where
  "outbox_row_ok P key r \<longleftrightarrow> (\<exists>t. pf_json_valid P t \<and> good_text P key t (ob_payload r))"

definition draft_row_ok :: "u8 list option \<Rightarrow> draft_row \<Rightarrow> bool" where
  "draft_row_ok key r \<longleftrightarrow> (key \<noteq> None \<longrightarrow> is_sealed (dr_body r))"

definition rows :: "('r \<Rightarrow> bool) \<Rightarrow> (rstr, 'r) hashmap \<Rightarrow> bool" where
  "rows Q t \<longleftrightarrow> hm_wf t \<and> (\<forall>(i, r)\<in>set t. Q r)"

definition snapshot_ok :: "platform \<Rightarrow> u8 list option \<Rightarrow> local_db \<Rightarrow> bool" where
  "snapshot_ok P key d \<longleftrightarrow>
     (\<forall>v. meta_value SNAPSHOT d = Some v \<longrightarrow> (\<exists>t. pf_bootstrap_parse P t \<noteq> None \<and> good_text P key t v))"

definition intact_db :: "platform \<Rightarrow> u8 list option \<Rightarrow> local_db \<Rightarrow> bool" where
  "intact_db P key d \<longleftrightarrow>
     rows (user_row P key) (db_users d) \<and> rows (conversation_row P key) (db_conversations d) \<and>
     rows (message_row P key) (db_messages d) \<and> rows (outbox_row_ok P key) (db_outbox d) \<and>
     rows (draft_row_ok key) (db_drafts d) \<and> snapshot_ok P key d \<and>
     (key \<noteq> None \<longrightarrow> db_search d = []) \<and>
     (key \<noteq> None \<longleftrightarrow> meta_value ENCRYPTION d = Some (lit ''v1''))"

definition key_stored :: "platform \<Rightarrow> local_store \<Rightarrow> bool" where
  "key_stored P s \<longleftrightarrow> (\<forall>k. ls_key s = Some k \<longrightarrow> length k = 32 \<and> ls_keychain s = Some (pf_b64_encode P k))"

definition intact :: "platform \<Rightarrow> local_store \<Rightarrow> bool" where
  "intact P s \<longleftrightarrow> intact_db P (ls_key s) (ls_db s) \<and> key_stored P s"

lemma rows_Nil [simp]: "rows Q []"
  by (simp add: rows_def)

lemma rows_insert [simp]: "rows Q t \<Longrightarrow> Q r \<Longrightarrow> rows Q (hm_insert i r t)"
  using hm_wf_insert [of t i r]
  by (auto simp: rows_def hm_get_iff [symmetric] split: if_splits)

lemma rows_retain [simp]: "rows Q t \<Longrightarrow> rows Q (hm_retain R t)"
  by (auto simp: rows_def hm_retain_def hm_wf_filter)

lemma rows_remove [simp]: "rows Q t \<Longrightarrow> rows Q (hm_remove i t)"
  by (auto simp: rows_def hm_remove_def hm_wf_filter)

lemma rowsD: "rows Q t \<Longrightarrow> hm_get i t = Some r \<Longrightarrow> Q r"
  using hm_get_SomeD by (fastforce simp: rows_def)

lemma meta_value_put [simp]: "meta_value j (put_meta k v n d) = (if j = k then Some v else meta_value j d)"
  by (simp add: meta_value_def put_meta_def)

lemma put_meta_simps [simp]:
  "db_users (put_meta k v n d) = db_users d" "db_conversations (put_meta k v n d) = db_conversations d"
  "db_messages (put_meta k v n d) = db_messages d" "db_search (put_meta k v n d) = db_search d"
  "db_drafts (put_meta k v n d) = db_drafts d" "db_outbox (put_meta k v n d) = db_outbox d"
  "db_settings (put_meta k v n d) = db_settings d" "db_seen (put_meta k v n d) = db_seen d"
  by (simp_all add: put_meta_def)

lemma meta_keys_distinct [simp]:
  "SNAPSHOT \<noteq> CURSOR" "SNAPSHOT \<noteq> ENCRYPTION" "CURSOR \<noteq> ENCRYPTION"
  "CURSOR \<noteq> SNAPSHOT" "ENCRYPTION \<noteq> SNAPSHOT" "ENCRYPTION \<noteq> CURSOR"
  by (simp_all add: meta_keys)

text \<open>Updates of other columns of the database do not matter to a property of some of them.\<close>

lemma meta_value_upd [simp]:
  "meta_value k (d\<lparr>db_users := a\<rparr>) = meta_value k d"
  "meta_value k (d\<lparr>db_conversations := b\<rparr>) = meta_value k d"
  "meta_value k (d\<lparr>db_messages := c\<rparr>) = meta_value k d"
  "meta_value k (d\<lparr>db_search := e\<rparr>) = meta_value k d"
  "meta_value k (d\<lparr>db_drafts := f\<rparr>) = meta_value k d"
  "meta_value k (d\<lparr>db_outbox := g\<rparr>) = meta_value k d"
  "meta_value k (d\<lparr>db_settings := h\<rparr>) = meta_value k d"
  "meta_value k (d\<lparr>db_seen := i\<rparr>) = meta_value k d"
  by (simp_all add: meta_value_def)

lemma intactI:
  "intact_db P (ls_key s) (ls_db s) \<Longrightarrow> key_stored P s \<Longrightarrow> intact P s"
  by (simp add: intact_def)

lemma intactD:
  assumes "intact P s"
  shows "intact_db P (ls_key s) (ls_db s)" "key_stored P s" "key_size (ls_key s)"
  using assms by (auto simp: intact_def key_stored_def key_size_def)

lemma key_stored_cong [simp]:
  "key_stored P (s\<lparr>ls_db := d\<rparr>) = key_stored P s" "key_stored P (s\<lparr>ls_drawn := n\<rparr>) = key_stored P s"
  by (simp_all add: key_stored_def)

lemma intact_drawn [simp]: "intact P (s\<lparr>ls_drawn := n\<rparr>) = intact P s"
  by (simp add: intact_def)

lemma intact_upd: "intact P s \<Longrightarrow> intact_db P (ls_key s) d \<Longrightarrow> intact P (s\<lparr>ls_db := d\<rparr>)"
  by (simp add: intact_def)

lemma drawn_db [simp]: "s\<lparr>ls_drawn := n, ls_db := d\<rparr> = s\<lparr>ls_db := d, ls_drawn := n\<rparr>"
  for s :: local_store
  by (cases s) simp

text \<open>Replacing one table by another whose rows are good.\<close>

lemmas db_ok = intact_db_def snapshot_ok_def

lemma intact_db_upd [intro]:
  "intact_db P key d \<Longrightarrow> rows (user_row P key) a \<Longrightarrow> intact_db P key (d\<lparr>db_users := a\<rparr>)"
  "intact_db P key d \<Longrightarrow> rows (conversation_row P key) b \<Longrightarrow> intact_db P key (d\<lparr>db_conversations := b\<rparr>)"
  "intact_db P key d \<Longrightarrow> rows (message_row P key) c \<Longrightarrow> intact_db P key (d\<lparr>db_messages := c\<rparr>)"
  "intact_db P key d \<Longrightarrow> rows (draft_row_ok key) e \<Longrightarrow> intact_db P key (d\<lparr>db_drafts := e\<rparr>)"
  "intact_db P key d \<Longrightarrow> rows (outbox_row_ok P key) f \<Longrightarrow> intact_db P key (d\<lparr>db_outbox := f\<rparr>)"
  "intact_db P key d \<Longrightarrow> intact_db P key (d\<lparr>db_settings := g\<rparr>)"
  "intact_db P key d \<Longrightarrow> intact_db P key (d\<lparr>db_seen := h\<rparr>)"
  "intact_db P key d \<Longrightarrow> key = None \<or> i = [] \<Longrightarrow> intact_db P key (d\<lparr>db_search := i\<rparr>)"
  by (auto simp: db_ok simp del: not_None_eq)

lemma intact_db_rows:
  assumes "intact_db P key d"
  shows "rows (user_row P key) (db_users d)" "rows (conversation_row P key) (db_conversations d)"
    "rows (message_row P key) (db_messages d)" "rows (draft_row_ok key) (db_drafts d)"
    "rows (outbox_row_ok P key) (db_outbox d)" "snapshot_ok P key d"
  using assms by (simp_all add: intact_db_def)

lemma intact_db_put_cursor [intro]: "intact_db P key d \<Longrightarrow> intact_db P key (put_meta CURSOR v n d)"
  by (simp add: db_ok)

lemma intact_db_put_snapshot:
  "intact_db P key d \<Longrightarrow> pf_bootstrap_parse P t \<noteq> None \<Longrightarrow> good_text P key t v
     \<Longrightarrow> intact_db P key (put_meta SNAPSHOT v n d)"
  by (auto simp: db_ok)

end
