(* ===== verification/Local_Steps.thy ===== *)
theory Local_Steps
  imports Local_Invariant
begin

text \<open>
  Every operation of the client's local store keeps the invariant \<open>intact\<close>.

  \<open>keeps P key kc m\<close>: run with the key \<open>key\<close> and the credential entry \<open>kc\<close>, \<open>m\<close> keeps the invariant and
  both of them, whether it fails or not.  Its rules are collected in \<open>keeps_intros\<close>.
\<close>

named_theorems keeps_intros \<open>rules for keeps\<close>

section \<open>Running inside a transaction\<close>

definition env :: "u8 list option \<Rightarrow> rstr option \<Rightarrow> local_store \<Rightarrow> bool" where
  "env key kc s \<longleftrightarrow> ls_key s = key \<and> ls_keychain s = kc"

definition at :: "platform \<Rightarrow> u8 list option \<Rightarrow> rstr option \<Rightarrow> local_store \<Rightarrow> bool" where
  "at P key kc s \<longleftrightarrow> intact P s \<and> env key kc s"

definition keeps :: "platform \<Rightarrow> u8 list option \<Rightarrow> rstr option \<Rightarrow> 'a store_op \<Rightarrow> bool" where
  "keeps P key kc m \<longleftrightarrow> (\<forall>s. at P key kc s \<longrightarrow> wpe m (\<lambda>_. at P key kc) (\<lambda>_. at P key kc) s)"

lemma env_simps [simp]:
  "env key kc (s\<lparr>ls_db := d\<rparr>) = env key kc s" "env key kc (s\<lparr>ls_drawn := n\<rparr>) = env key kc s"
  by (simp_all add: env_def)

lemma at_drawn [simp]: "at P key kc (s\<lparr>ls_drawn := n\<rparr>) = at P key kc s"
  by (simp add: at_def)

lemma atD:
  assumes "at P key kc s"
  shows "env key kc s" "key_size key" "intact_db P key (ls_db s)" "intact P s"
  using assms intactD by (auto simp: at_def env_def)

lemma at_upd:
  assumes "at P key kc s" "intact_db P key d"
  shows "at P key kc (s\<lparr>ls_db := d\<rparr>)"
  using assms by (auto simp: at_def env_def intro: intact_upd)

lemma pres_wpe:
  assumes "\<And>s. I s \<Longrightarrow> wpe m (\<lambda>_. I) (\<lambda>_. I) s"
  shows "pres I m"
proof (rule presI)
  fix s assume "I s"
  from assms [OF this] show "I (snd (m s))" by (auto simp: wpe_def split: prod.splits sum.splits)
qed

lemma keepsD: "keeps P key kc m \<Longrightarrow> at P key kc s \<Longrightarrow> wpe m (\<lambda>_. at P key kc) (\<lambda>_. at P key kc) s"
  by (simp add: keeps_def)

lemma pres_keeps:
  assumes "\<And>key kc. key_size key \<Longrightarrow> keeps P key kc m"
  shows "pres (intact P) m"
proof (rule pres_wpe)
  fix s assume s: "intact P s"
  then have a: "at P (ls_key s) (ls_keychain s) s" by (simp add: at_def env_def)
  from keepsD [OF assms [OF atD(2) [OF a]] a]
  show "wpe m (\<lambda>_. intact P) (\<lambda>_. intact P) s" by (rule wpe_mono) (auto dest: atD(4))
qed

lemma keeps_keyed [keeps_intros]:
  assumes "key_size key \<Longrightarrow> keeps P key kc (f key)"
  shows "keeps P key kc (bnd (gets ls_key) f)"
  unfolding keeps_def wpe_bnd wpe_gets using keepsD [OF assms]
  by (auto simp: at_def env_def dest: intactD(3))

lemma keeps_transaction [keeps_intros]:
  assumes "keeps P key kc m"
  shows "keeps P key kc (transaction m)"
  unfolding keeps_def wpe_transaction
proof (intro allI impI)
  fix s assume s: "at P key kc s"
  from keepsD [OF assms s]
  show "wpe m (\<lambda>_. at P key kc) (\<lambda>_ s'. at P key kc (s'\<lparr>ls_db := ls_db s\<rparr>)) s"
    by (rule wpe_mono) (auto intro: at_upd atD(3) [OF s])
qed

lemma keeps_bnd [keeps_intros]:
  assumes "keeps P key kc m" and "\<And>x. keeps P key kc (f x)"
  shows "keeps P key kc (bnd m f)"
  unfolding keeps_def wpe_bnd
proof (intro allI impI)
  fix s assume "at P key kc s"
  from keepsD [OF assms(1) this]
  show "wpe m (\<lambda>x. wpe (f x) (\<lambda>_. at P key kc) (\<lambda>_. at P key kc)) (\<lambda>_. at P key kc) s"
    by (rule wpe_mono) (auto intro: keepsD [OF assms(2)])
qed

lemma keeps_ret [keeps_intros]: "keeps P key kc (ret x)"
  by (simp add: keeps_def wp_simps)

lemma keeps_throw [keeps_intros]: "keeps P key kc (throw e)"
  by (simp add: keeps_def wp_simps atD)

lemma keeps_gets [keeps_intros]: "keeps P key kc (gets f)"
  by (simp add: keeps_def wp_simps)

lemma keeps_reads [keeps_intros]: "keeps P key kc (reads f)"
  by (simp add: keeps_def wp_simps)

lemma keeps_lift [keeps_intros]: "keeps P key kc (lift r)"
  by (auto simp: keeps_def wp_simps atD split: sum.split)

lemma keeps_fail_if [keeps_intros]: "keeps P key kc (fail_if b e)"
  by (simp add: keeps_def wp_simps atD)

lemma keeps_writes [keeps_intros]:
  "(\<And>d. intact_db P key d \<Longrightarrow> intact_db P key (f d)) \<Longrightarrow> keeps P key kc (writes f)"
  by (simp add: keeps_def wp_simps at_upd atD)

lemma keeps_tries [keeps_intros]:
  "(\<And>d d'. intact_db P key d \<Longrightarrow> f d = Some d' \<Longrightarrow> intact_db P key d') \<Longrightarrow> keeps P key kc (tries e f)"
  by (auto simp: keeps_def wp_simps atD(1) intro!: at_upd dest: atD(3) split: option.split)

lemma keeps_if [keeps_intros]: "(b \<Longrightarrow> keeps P key kc m) \<Longrightarrow> (\<not> b \<Longrightarrow> keeps P key kc n)
  \<Longrightarrow> keeps P key kc (if b then m else n)"
  by simp

lemma keeps_let [keeps_intros]: "(\<And>x. keeps P key kc (f x)) \<Longrightarrow> keeps P key kc (let x = v in f x)"
  by simp

lemma keeps_for_each [keeps_intros]:
  "(\<And>x. x \<in> set xs \<Longrightarrow> keeps P key kc (body x)) \<Longrightarrow> keeps P key kc (for_each xs body)"
  unfolding keeps_def by (auto intro!: wpe_for_each)

text \<open>Encoding and protecting a value: what follows may rely on the stored text.\<close>

lemma keeps_protect:
  assumes P: "platform_ok P" and key: "key_size key"
    and t: "\<not> is_sealed t" "\<forall>c\<in>set t. scalar_value c"
    and f: "\<And>v. good_text P key t v \<Longrightarrow> keeps P key kc (f v)"
  shows "keeps P key kc (bnd (protect P t key) f)"
  unfolding keeps_def wpe_bnd
  by (intro allI impI wpe_protect [OF P key t]) (auto intro!: keepsD [OF f] dest: atD(1))

lemma keeps_json:
  assumes P: "platform_ok P" and key: "key_size key" and c: "json_codec enc dec"
    and f: "\<And>t v. dec t \<noteq> None \<Longrightarrow> good_text P key t v \<Longrightarrow> keeps P key kc (f v)"
  shows "keeps P key kc (bnd (lift (ok_or (enc x) e)) (\<lambda>t. bnd (protect P t key) f))"
proof (cases "enc x")
  case None
  then show ?thesis by (auto simp: keeps_def wp_simps atD)
next
  case (Some t)
  then have "keeps P key kc (bnd (protect P t key) f)"
    using json_codecD [OF c Some] by (intro keeps_protect P key json_not_sealed [OF c Some] f) auto
  with Some show ?thesis by (simp add: keeps_def wp_simps)
qed

section \<open>Caching\<close>

lemma keeps_cache_profile:
  assumes P: "platform_ok P" and key: "key_size key"
  shows "keeps P key kc (cache_profile P key now u)"
  unfolding cache_profile_def
  by (rule keeps_json [OF P key platform_okD(7) [OF P]])
    (simp only: Let_def, intro keeps_intros intact_db_upd rows_insert intact_db_rows,
      assumption+, force simp: user_row_def)

lemma keeps_cache_conversation:
  assumes P: "platform_ok P" and key: "key_size key"
  shows "keeps P key kc (cache_conversation P key now c)"
  unfolding cache_conversation_def
  by (rule keeps_json [OF P key platform_okD(8) [OF P]])
    (simp only: Let_def, intro keeps_intros intact_db_upd rows_insert intact_db_rows,
      assumption+, force simp: conversation_row_def)

lemma cache_bootstrap_pres:
  assumes P: "platform_ok P"
  shows "pres (intact P) (cache_bootstrap P value)"
  unfolding cache_bootstrap_def cache_profiles_def cache_conversations_def
  by (intro pres_keeps keeps_intros keeps_cache_profile keeps_cache_conversation P
      keeps_json [OF P _ platform_okD(9) [OF P]] intact_db_put_cursor intact_db_put_snapshot; assumption)

lemma upsert_message_intact:
  assumes "intact_db P key d" "upsert_message i row d = Some d'" "message_row P key row"
  shows "intact_db P key d'"
proof -
  have "message_row P key (old\<lparr>cm_sequence := q, cm_payload := cm_payload row, cm_status := st,
      cm_server_created_at := t\<rparr>)" for old q st t
    using assms(3) by (simp add: message_row_def)
  with assms show ?thesis
    by (auto simp: upsert_message_def intro!: rows_insert intact_db_rows split: option.splits if_splits)
qed

lemma drop_search_intact: "intact_db P key d \<Longrightarrow> intact_db P key (drop_search f d)"
  unfolding drop_search_def by (rule intact_db_upd) (auto simp: intact_db_def)

lemma drop_messages_intact: "intact_db P key d \<Longrightarrow> intact_db P key (drop_messages f d)"
  unfolding drop_messages_def by (intro intact_db_upd rows_retain intact_db_rows)

lemma add_search_intact: "intact_db P None d \<Longrightarrow> intact_db P None (add_search r d)"
  unfolding add_search_def by (intro intact_db_upd) auto

lemma keeps_cache_message:
  assumes P: "platform_ok P" and key: "key_size key"
  shows "keeps P key kc (cache_message P key m)"
proof -
  have row: "message_row P key r" if "pf_message_parse P t \<noteq> None" "good_text P key t (cm_payload r)" for t r
    using that by (auto simp: message_row_def)
  have index: "keeps P key kc (case (key, msg_content m) of
      (None, CText text) \<Rightarrow> writes (add_search (f text)) | _ \<Rightarrow> ret ())" for f
    by (cases key; cases "msg_content m") (auto intro!: keeps_intros add_search_intact)
  show ?thesis
    unfolding cache_message_def Let_def
    by (rule keeps_json [OF P key platform_okD(6) [OF P]], intro keeps_intros index drop_search_intact
        drop_messages_intact, assumption+, erule upsert_message_intact, assumption, erule row, simp)
qed

lemma cache_messages_pres:
  assumes P: "platform_ok P"
  shows "pres (intact P) (cache_messages P ms)"
  unfolding cache_messages_def
  by (intro pres_keeps keeps_intros keeps_cache_message P)

section \<open>Drafts, outbox, settings, cursor\<close>

lemma keeps_protect_any:
  assumes "\<And>v. (key \<noteq> None \<Longrightarrow> is_sealed v) \<Longrightarrow> keeps P key kc (f v)"
  shows "keeps P key kc (bnd (protect P t key) f)"
  unfolding keeps_def wpe_bnd
  by (intro allI impI wpe_protect_any) (auto intro!: keepsD [OF assms])

lemma put_draft_intact:
  assumes "intact_db P key d" "put_draft c v now d = Some d'" "key \<noteq> None \<Longrightarrow> is_sealed v"
  shows "intact_db P key d'"
  using assms
  by (auto simp: put_draft_def draft_row_ok_def intro!: rows_insert intact_db_rows split: if_splits)

lemma save_draft_pres: "pres (intact P) (save_draft P c body)"
  unfolding save_draft_def
  by (intro pres_keeps keeps_intros keeps_protect_any, erule put_draft_intact, assumption, simp)

lemma put_outbox_intact:
  assumes "intact_db P key d" "put_outbox cid c v now d = Some d'"
    "pf_json_valid P t" "good_text P key t v"
  shows "intact_db P key d'"
proof -
  have "outbox_row_ok P key r" if "ob_payload r = v" for r
    using that assms(3,4) by (auto simp: outbox_row_ok_def)
  with assms(1,2) show ?thesis
    by (auto simp: put_outbox_def intro!: rows_insert intact_db_rows split: option.splits if_splits)
qed

lemma enqueue_outbox_pres:
  assumes P: "platform_ok P" and t: "\<forall>c\<in>set t. scalar_value c"
  shows "pres (intact P) (enqueue_outbox P cid c t)"
proof (cases "pf_json_valid P t")
  case True
  show ?thesis
    unfolding enqueue_outbox_def
    by (intro pres_keeps keeps_intros keeps_protect P valid_json_not_sealed [OF P True] t,
        assumption, erule put_outbox_intact, assumption, rule True)
next
  case False
  then have "pres (intact P) (bnd (fail_if (byte_len t > 1048576 \<or> \<not> pf_json_valid P t) e) f)" for e f
    by (simp add: pres_def)
  then show ?thesis
    unfolding enqueue_outbox_def by (intro pres_bnd [OF pres_basic(4)])
qed

lemma set_outbox_intact:
  assumes "intact_db P key d" "\<And>r. ob_payload (f r) = ob_payload r"
  shows "intact_db P key (set_outbox cid f d)"
proof (cases "hm_get cid (db_outbox d)")
  case (Some r)
  have "outbox_row_ok P key (f r)"
    using rowsD [OF intact_db_rows(5) [OF assms(1)] Some] assms(2) by (simp add: outbox_row_ok_def)
  with Some assms(1) show ?thesis
    by (auto simp: set_outbox_def intro!: rows_insert intact_db_rows)
qed (simp add: set_outbox_def assms)

lemma drop_outbox_intact: "intact_db P key d \<Longrightarrow> intact_db P key (drop_outbox cid d)"
  unfolding drop_outbox_def by (intro intact_db_upd rows_remove intact_db_rows)

lemma acknowledge_outbox_pres: "pres (intact P) (acknowledge_outbox P cid)"
  unfolding acknowledge_outbox_def by (intro pres_keeps keeps_intros drop_outbox_intact)

lemma retry_outbox_now_pres: "pres (intact P) (retry_outbox_now P cid)"
  unfolding retry_outbox_now_def by (intro pres_keeps keeps_intros set_outbox_intact) simp_all

lemma record_outbox_failure_pres: "pres (intact P) (record_outbox_failure P pick cid e)"
  unfolding record_outbox_failure_def by (intro pres_keeps keeps_intros set_outbox_intact) simp_all

lemma discard_pending_message_pres: "pres (intact P) (discard_pending_message P cid)"
  unfolding discard_pending_message_def
  by (intro pres_keeps keeps_intros drop_outbox_intact drop_search_intact drop_messages_intact)

lemma save_setting_pres: "pres (intact P) (save_setting name json)"
  unfolding save_setting_def by (intro pres_keeps keeps_intros intact_db_upd)

lemma insert_seen_intact: "intact_db P key d \<Longrightarrow> insert_seen i c now d = Some d' \<Longrightarrow> intact_db P key d'"
  by (auto simp: insert_seen_def split: if_splits)

lemma prune_seen_intact: "intact_db P key d \<Longrightarrow> intact_db P key (prune_seen b d)"
  by (auto simp: prune_seen_def)

lemma record_sync_event_pres: "pres (intact P) (record_sync_event P event)"
  unfolding record_sync_event_def Let_def
  by (intro pres_keeps keeps_intros prune_seen_intact intact_db_put_cursor;
      (assumption | erule insert_seen_intact, assumption))

lemma clear_meta_intact:
  assumes "intact_db P key d"
  shows "intact_db P key (d\<lparr>db_meta := hm_retain (\<lambda>k _. k = CURSOR \<or> k = ENCRYPTION) (db_meta d)\<rparr>)"
proof -
  have "meta_value j (d\<lparr>db_meta := hm_retain (\<lambda>k _. k = CURSOR \<or> k = ENCRYPTION) (db_meta d)\<rparr>)
      = (if j = CURSOR \<or> j = ENCRYPTION then meta_value j d else None)" for j
    by (simp add: meta_value_def hm_get_def hm_retain_def map_of_filter_key)
  with assms show ?thesis by (simp add: db_ok)
qed

lemma clear_account_cache_pres: "pres (intact P) clear_account_cache"
  unfolding clear_account_cache_def
  by (intro pres_keeps keeps_intros clear_meta_intact) (auto intro!: intact_db_put_cursor)

end
