(* ===== verification/Local_Sealing.thy ===== *)
theory Local_Sealing
  imports Local_Steps
begin

text \<open>
  Turning the encryption of the local store on and off: what the two passes over the tables do, that
  they keep the invariant \<open>intact\<close>, and that what can be read is the same before and after.
\<close>

section \<open>A pass over a table\<close>

definition same_keys :: "('r \<Rightarrow> 'r \<Rightarrow> bool) \<Rightarrow> (rstr, 'r) hashmap \<Rightarrow> (rstr, 'r) hashmap \<Rightarrow> bool" where
  "same_keys R = list_all2 (\<lambda>(i, r) (j, r'). i = j \<and> R r r')"

lemma hm_insert_at:
  "i \<notin> fst ` set pre \<Longrightarrow> hm_insert i r' (pre @ (i, r) # post) = pre @ (i, r') # post"
  by (induction pre) (auto simp: hm_insert_def)

lemma same_keys_fst: "same_keys R t t' \<Longrightarrow> map fst t' = map fst t"
  unfolding same_keys_def by (induction rule: list_all2_induct) auto

lemma same_keys_rows:
  assumes "same_keys R t t'" "rows Q t" "\<And>r r'. Q r \<Longrightarrow> R r r' \<Longrightarrow> Q' r'"
  shows "rows Q' t'"
proof -
  have "hm_wf t'" using assms(2) same_keys_fst [OF assms(1)] by (simp add: rows_def hm_wf_def)
  moreover have "\<forall>(i, r)\<in>set t'. Q' r"
  proof (intro ballI)
    fix x assume "x \<in> set t'"
    then obtain n where n: "n < length t'" "x = t' ! n" by (auto simp: in_set_conv_nth)
    then have "R (snd (t ! n)) (snd x)" "t ! n \<in> set t"
      using assms(1) by (auto simp: same_keys_def list_all2_conv_all_nth split_beta)
    then show "case x of (i, r) \<Rightarrow> Q' r" using assms(2) by (cases x) (force simp: rows_def intro: assms(3))
  qed
  ultimately show ?thesis by (simp add: rows_def)
qed

locale row_table =
  fixes get :: "local_db \<Rightarrow> (rstr, 'r) hashmap"
    and put :: "(rstr, 'r) hashmap \<Rightarrow> local_db \<Rightarrow> local_db"
  assumes get_put: "get (put t d) = t"
    and put_get: "put (get d) d = d"
    and put_put: "put t (put u d) = put t d"
begin

lemma wpe_rest_rows:
  assumes F_put: "\<And>s t. F s \<Longrightarrow> F (s\<lparr>ls_db := put t (ls_db s)\<rparr>)"
    and body: "\<And>r s. Q r \<Longrightarrow> F s \<Longrightarrow> wpe (f r) (\<lambda>(r', after) s'. R r r' \<and> F s' \<and> get (ls_db s') = get (ls_db s)
        \<and> (\<forall>u. F u \<longrightarrow> wpe after (\<lambda>_ u'. F u' \<and> get (ls_db u') = get (ls_db u)) E u)) E s"
    and "F s" "get (ls_db s) = pre @ rem" "distinct (map fst (pre @ rem))" "\<forall>(i, r)\<in>set rem. Q r"
  shows "wpe (for_each rem (\<lambda>(i, r). bnd (f r) (\<lambda>(r', after).
      bnd (writes (\<lambda>d. put (hm_insert i r' (get d)) d)) (\<lambda>_. after))))
    (\<lambda>_ s'. F s' \<and> (\<exists>rem'. get (ls_db s') = pre @ rem' \<and> same_keys R rem rem')) E s"
  using assms(3-)
proof (induction rem arbitrary: pre s)
  case Nil
  then show ?case by (simp only: for_each.simps wpe_ret) (simp add: same_keys_def)
next
  case (Cons x rem)
  obtain i r where x: "x = (i, r)" by (cases x)
  let ?Q = "\<lambda>_ s'. F s' \<and> (\<exists>rem'. get (ls_db s') = pre @ rem' \<and> same_keys R (x # rem) rem')"
  let ?body = "\<lambda>(i, r). bnd (f r) (\<lambda>(r', after).
      bnd (writes (\<lambda>d. put (hm_insert i r' (get d)) d)) (\<lambda>_. after))"
  have next_rows: "wpe (for_each rem ?body) ?Q E u"
    if "F u" "get (ls_db u) = pre @ (i, r') # rem" "R r r'" for u r'
  proof -
    have "wpe (for_each rem ?body)
        (\<lambda>_ s'. F s' \<and> (\<exists>rem'. get (ls_db s') = (pre @ [(i, r')]) @ rem' \<and> same_keys R rem rem')) E u"
      by (rule Cons.IH) (use Cons.prems that x in auto)
    then show ?thesis
      by (rule wpe_mono) (use that(3) x in \<open>auto simp: same_keys_def\<close>)
  qed
  have "Q r" using Cons.prems(4) x by simp
  from body [OF this Cons.prems(1)]
  have "wpe (f r) (\<lambda>(r', after) s'. wpe after (\<lambda>_. wpe (for_each rem ?body) ?Q E) E
      (s'\<lparr>ls_db := put (hm_insert i r' (get (ls_db s'))) (ls_db s')\<rparr>)) E s"
  proof (rule wpe_mono)
    fix ra s'
    assume ra: "(case ra of (r', after) \<Rightarrow> \<lambda>s'. R r r' \<and> F s' \<and> get (ls_db s') = get (ls_db s)
        \<and> (\<forall>u. F u \<longrightarrow> wpe after (\<lambda>_ u'. F u' \<and> get (ls_db u') = get (ls_db u)) E u)) s'"
    obtain r' after where p: "ra = (r', after)" by (cases ra)
    let ?u = "s'\<lparr>ls_db := put (hm_insert i r' (get (ls_db s'))) (ls_db s')\<rparr>"
    have "i \<notin> fst ` set pre" using Cons.prems(3) x by auto
    then have t: "get (ls_db ?u) = pre @ (i, r') # rem"
      using ra p Cons.prems(2) x by (simp add: get_put hm_insert_at)
    have "F ?u" using ra p by (simp add: F_put)
    then have "wpe after (\<lambda>_ u'. F u' \<and> get (ls_db u') = get (ls_db ?u)) E ?u" using ra p by auto
    then have "wpe after (\<lambda>_. wpe (for_each rem ?body) ?Q E) E ?u"
      by (rule wpe_mono) (use ra p t in \<open>auto intro!: next_rows simp del: for_each.simps\<close>)
    with p show "(case ra of (r', after) \<Rightarrow> \<lambda>s'. wpe after (\<lambda>_. wpe (for_each rem ?body) ?Q E) E
      (s'\<lparr>ls_db := put (hm_insert i r' (get (ls_db s'))) (ls_db s')\<rparr>)) s'" by simp
  qed simp
  then show ?case
    unfolding x for_each.simps prod.case wpe_bnd
    by (rule wpe_mono) (auto simp: wpe_bnd wpe_writes simp del: for_each.simps)
qed

lemma wpe_for_rows:
  assumes F_put: "\<And>s t. F s \<Longrightarrow> F (s\<lparr>ls_db := put t (ls_db s)\<rparr>)"
    and body: "\<And>r s. Q r \<Longrightarrow> F s \<Longrightarrow> wpe (f r) (\<lambda>(r', after) s'. R r r' \<and> F s' \<and> get (ls_db s') = get (ls_db s)
        \<and> (\<forall>u. F u \<longrightarrow> wpe after (\<lambda>_ u'. F u' \<and> get (ls_db u') = get (ls_db u)) E u)) E s"
    and "F s" "rows Q (get (ls_db s))"
  shows "wpe (for_rows get put f) (\<lambda>_ s'. F s' \<and> same_keys R (get (ls_db s)) (get (ls_db s'))) E s"
  unfolding for_rows_def wp_simps
  by (rule wpe_mono [OF wpe_rest_rows [of F Q f R E s "[]", OF F_put body]])
    (use assms(3,4) in \<open>auto simp: rows_def hm_wf_def\<close>)

text \<open>A pass that changes nothing but its table and the number of random bytes drawn.\<close>

lemma wpe_for_rows_only:
  assumes body: "\<And>r s. Q r \<Longrightarrow> wpe (f r) (\<lambda>(r', after) s'. R r r' \<and> after = ret () \<and> (\<exists>n. s' = s\<lparr>ls_drawn := n\<rparr>))
      (\<lambda>_ s'. \<exists>n. s' = s\<lparr>ls_drawn := n\<rparr>) s"
    and rows: "rows Q (get (ls_db s))"
  shows "wpe (for_rows get put f)
    (\<lambda>_ s'. \<exists>t n. s' = s\<lparr>ls_db := put t (ls_db s), ls_drawn := n\<rparr> \<and> same_keys R (get (ls_db s)) t)
    (\<lambda>_ s'. \<exists>d n. s' = s\<lparr>ls_db := d, ls_drawn := n\<rparr>) s"
proof -
  define F where "F = (\<lambda>s'. \<exists>t n. s' = s\<lparr>ls_db := put t (ls_db s), ls_drawn := n\<rparr>)"
  have start: "F s"
    unfolding F_def by (rule exI [of _ "get (ls_db s)"], rule exI [of _ "ls_drawn s"]) (simp add: put_get)
  have F_put: "F (s'\<lparr>ls_db := put t (ls_db s')\<rparr>)" if "F s'" for s' t
  proof -
    from that obtain u n where "s' = s\<lparr>ls_db := put u (ls_db s), ls_drawn := n\<rparr>" by (auto simp: F_def)
    then have "s'\<lparr>ls_db := put t (ls_db s')\<rparr> = s\<lparr>ls_db := put t (ls_db s), ls_drawn := n\<rparr>"
      by (cases s) (simp add: put_put)
    then show ?thesis unfolding F_def by blast
  qed
  have "wpe (for_rows get put f) (\<lambda>_ s'. F s' \<and> same_keys R (get (ls_db s)) (get (ls_db s')))
      (\<lambda>_ s'. \<exists>d n. s' = s\<lparr>ls_db := d, ls_drawn := n\<rparr>) s"
  proof (rule wpe_for_rows [OF F_put _ start rows])
    fix r s' assume r: "Q r" and s': "F s'"
    have moved: "F (s'\<lparr>ls_drawn := n\<rparr>)" for n
    proof -
      from s' obtain t m where "s' = s\<lparr>ls_db := put t (ls_db s), ls_drawn := m\<rparr>" by (auto simp: F_def)
      then have "s'\<lparr>ls_drawn := n\<rparr> = s\<lparr>ls_db := put t (ls_db s), ls_drawn := n\<rparr>" by (cases s) simp
      then show ?thesis unfolding F_def by blast
    qed
    show "wpe (f r) (\<lambda>(r', after) s''. R r r' \<and> F s'' \<and> get (ls_db s'') = get (ls_db s')
        \<and> (\<forall>u. F u \<longrightarrow> wpe after (\<lambda>_ u'. F u' \<and> get (ls_db u') = get (ls_db u))
            (\<lambda>_ s'. \<exists>d n. s' = s\<lparr>ls_db := d, ls_drawn := n\<rparr>) u))
      (\<lambda>_ s'. \<exists>d n. s' = s\<lparr>ls_db := d, ls_drawn := n\<rparr>) s'"
    proof (rule wpe_mono [OF body [OF r]], goal_cases)
      case (1 x s'')
      then show ?case using moved by (auto simp: wpe_ret split: prod.splits)
    next
      case (2 e s'')
      then have "F s''" using moved by auto
      then show ?case unfolding F_def by blast
    qed
  qed
  then show ?thesis
    by (rule wpe_mono) (auto simp: F_def get_put)
qed

end

interpretation users: row_table db_users put_users
  by unfold_locales (simp_all add: put_defs)

interpretation conversations: row_table db_conversations put_conversations
  by unfold_locales (simp_all add: put_defs)

interpretation messages: row_table db_messages put_messages
  by unfold_locales (simp_all add: put_defs)

interpretation drafts: row_table db_drafts put_drafts
  by unfold_locales (simp_all add: put_defs)

interpretation outbox: row_table db_outbox put_outboxes
  by unfold_locales (simp_all add: put_defs)

section \<open>Sequences of passes\<close>

text \<open>\<open>dbt m d Q s\<close>: run on the tables \<open>d\<close> and otherwise on \<open>s\<close>, \<open>m\<close> ends with tables that satisfy \<open>Q\<close> or
  fails, and changes nothing but the tables and the number of random bytes drawn.\<close>

definition dbt :: "unit store_op \<Rightarrow> local_db \<Rightarrow> (local_db \<Rightarrow> bool) \<Rightarrow> local_store \<Rightarrow> bool" where
  "dbt m d Q s \<longleftrightarrow> (\<forall>n. wpe m (\<lambda>_ s'. \<exists>d' n'. s' = s\<lparr>ls_db := d', ls_drawn := n'\<rparr> \<and> Q d')
     (\<lambda>_ s'. \<exists>d' n'. s' = s\<lparr>ls_db := d', ls_drawn := n'\<rparr>) (s\<lparr>ls_db := d, ls_drawn := n\<rparr>))"

definition row_step :: "('r \<times> unit store_op) store_op \<Rightarrow> ('r \<Rightarrow> bool) \<Rightarrow> bool" where
  "row_step c R \<longleftrightarrow> (\<forall>s. wpe c
     (\<lambda>(r', after) s'. R r' \<and> after = ret () \<and> (\<exists>n. s' = s\<lparr>ls_drawn := n\<rparr>))
     (\<lambda>_ s'. \<exists>n. s' = s\<lparr>ls_drawn := n\<rparr>) s)"

lemma dbt_bnd:
  assumes "dbt m d Q s" "\<And>d'. Q d' \<Longrightarrow> dbt m' d' Q' s"
  shows "dbt (bnd m (\<lambda>_. m')) d Q' s"
  unfolding dbt_def wpe_bnd
proof
  fix n
  show "wpe m (\<lambda>x. wpe m' (\<lambda>_ s'. \<exists>d' n'. s' = s\<lparr>ls_db := d', ls_drawn := n'\<rparr> \<and> Q' d')
      (\<lambda>_ s'. \<exists>d' n'. s' = s\<lparr>ls_db := d', ls_drawn := n'\<rparr>))
    (\<lambda>_ s'. \<exists>d' n'. s' = s\<lparr>ls_db := d', ls_drawn := n'\<rparr>) (s\<lparr>ls_db := d, ls_drawn := n\<rparr>)"
    by (rule wpe_mono [OF assms(1) [unfolded dbt_def, THEN spec]])
      (use assms(2) in \<open>auto simp: dbt_def\<close>)
qed

lemma dbt_now: "(\<And>now. dbt (f now) d Q s) \<Longrightarrow> dbt (bnd (gets ls_now) f) d Q s"
  by (simp add: dbt_def wpe_bnd wpe_gets)

lemma dbt_writes: "Q (f d) \<Longrightarrow> dbt (writes f) d Q s"
  unfolding dbt_def wpe_writes
  by (intro allI exI [of _ "f d"]) (rule exI, rule conjI, cases s, simp_all)

lemma dbt_bnd_writes: "dbt m (f d) Q s \<Longrightarrow> dbt (bnd (writes f) (\<lambda>_. m)) d Q s"
  by (rule dbt_bnd, rule dbt_writes [where Q = "\<lambda>d'. d' = f d"]) simp_all

lemma dbt_ret: "Q d \<Longrightarrow> dbt (ret ()) d Q s"
  unfolding dbt_def wpe_ret by blast

lemma dbt_mono: "dbt m d Q s \<Longrightarrow> (\<And>d'. Q d' \<Longrightarrow> Q' d') \<Longrightarrow> dbt m d Q' s"
  unfolding dbt_def by (blast intro: wpe_mono)

context row_table begin

lemma dbt_for_rows:
  assumes "rows Q (get d)" "\<And>r. Q r \<Longrightarrow> row_step (f r) (R r)"
  shows "dbt (for_rows get put f) d (\<lambda>d'. \<exists>t. d' = put t d \<and> same_keys R (get d) t) s"
  unfolding dbt_def
proof
  fix n
  let ?s = "s\<lparr>ls_db := d, ls_drawn := n\<rparr>"
  have "wpe (for_rows get put f)
    (\<lambda>_ s'. \<exists>t n. s' = ?s\<lparr>ls_db := put t (ls_db ?s), ls_drawn := n\<rparr> \<and> same_keys R (get (ls_db ?s)) t)
    (\<lambda>_ s'. \<exists>d n. s' = ?s\<lparr>ls_db := d, ls_drawn := n\<rparr>) ?s"
    by (rule wpe_for_rows_only [of Q f R])
      (use assms(2) in \<open>force simp: row_step_def\<close>, use assms(1) in simp)
  then show "wpe (for_rows get put f)
     (\<lambda>_ s'. \<exists>d' n'. s' = s\<lparr>ls_db := d', ls_drawn := n'\<rparr> \<and> (\<exists>t. d' = put t d \<and> same_keys R (get d) t))
     (\<lambda>_ s'. \<exists>d' n'. s' = s\<lparr>ls_db := d', ls_drawn := n'\<rparr>) ?s"
    by (rule wpe_mono) (simp_all, blast+)
qed

end

text \<open>A transaction restores the tables when it fails.\<close>

lemma wpe_transaction_dbt:
  assumes "dbt m (ls_db s) Q s"
  shows "wpe (transaction m) (\<lambda>_ s'. \<exists>d n. s' = s\<lparr>ls_db := d, ls_drawn := n\<rparr> \<and> Q d)
    (\<lambda>_ s'. \<exists>n. s' = s\<lparr>ls_drawn := n\<rparr>) s"
proof -
  have "wpe m (\<lambda>_ s'. \<exists>d' n'. s' = s\<lparr>ls_db := d', ls_drawn := n'\<rparr> \<and> Q d')
     (\<lambda>_ s'. \<exists>d' n'. s' = s\<lparr>ls_db := d', ls_drawn := n'\<rparr>) s"
    using assms [unfolded dbt_def, THEN spec, of "ls_drawn s"] by simp
  then show ?thesis
    unfolding wpe_transaction
    by (rule wpe_mono) (blast, cases s, auto)
qed

section \<open>What the passes do to the rows\<close>

text \<open>The stored text \<open>v\<close> under the key \<open>k\<close> and \<open>v'\<close> under \<open>k'\<close> stand for the same text.\<close>

definition same_text :: "platform \<Rightarrow> u8 list option \<Rightarrow> u8 list option \<Rightarrow> (rstr \<Rightarrow> bool) \<Rightarrow> rstr \<Rightarrow> rstr \<Rightarrow> bool" where
  "same_text P k k' A v v' \<longleftrightarrow> (\<exists>t. A t \<and> good_text P k t v \<and> good_text P k' t v')"

definition message_again :: "platform \<Rightarrow> u8 list option \<Rightarrow> u8 list option \<Rightarrow> cached_message \<Rightarrow> cached_message \<Rightarrow> bool" where
  "message_again P k k' r r' \<longleftrightarrow> r' = r\<lparr>cm_payload := cm_payload r'\<rparr> \<and>
     same_text P k k' (\<lambda>t. pf_message_parse P t \<noteq> None) (cm_payload r) (cm_payload r')"

definition outbox_again :: "platform \<Rightarrow> u8 list option \<Rightarrow> u8 list option \<Rightarrow> outbox_row \<Rightarrow> outbox_row \<Rightarrow> bool" where
  "outbox_again P k k' r r' \<longleftrightarrow> r' = r\<lparr>ob_payload := ob_payload r'\<rparr> \<and>
     same_text P k k' (pf_json_valid P) (ob_payload r) (ob_payload r')"

definition same_snapshot :: "platform \<Rightarrow> u8 list option \<Rightarrow> u8 list option \<Rightarrow> local_db \<Rightarrow> local_db \<Rightarrow> bool" where
  "same_snapshot P k k' d d' \<longleftrightarrow>
     rel_option (same_text P k k' (\<lambda>t. pf_bootstrap_parse P t \<noteq> None)) (meta_value SNAPSHOT d) (meta_value SNAPSHOT d')"

text \<open>What the store holds is the same before and after, under another key.\<close>

definition resealed :: "platform \<Rightarrow> u8 list option \<Rightarrow> u8 list option \<Rightarrow> local_db \<Rightarrow> local_db \<Rightarrow> bool" where
  "resealed P k k' d d' \<longleftrightarrow>
     same_keys (message_again P k k') (db_messages d) (db_messages d') \<and>
     same_keys (outbox_again P k k') (db_outbox d) (db_outbox d') \<and>
     same_snapshot P k k' d d' \<and> meta_value CURSOR d' = meta_value CURSOR d \<and>
     db_settings d' = db_settings d \<and> db_seen d' = db_seen d"

lemma same_snapshot_ok:
  assumes "same_snapshot P k k' d d'"
  shows "snapshot_ok P k' d'"
  unfolding snapshot_ok_def
proof (intro allI impI)
  fix v assume "meta_value SNAPSHOT d' = Some v"
  with assms obtain w where "same_text P k k' (\<lambda>t. pf_bootstrap_parse P t \<noteq> None) w v"
    by (auto simp: same_snapshot_def option_rel_Some2)
  then show "\<exists>t. pf_bootstrap_parse P t \<noteq> None \<and> good_text P k' t v"
    unfolding same_text_def by blast
qed

lemma row_step_lock:
  assumes P: "platform_ok P" and k: "length k = 32" and t: "good_text P None t v"
    and R: "\<And>v'. good_text P (Some k) t v' \<Longrightarrow> R (g v')"
  shows "row_step (bnd (protect P v (Some k)) (\<lambda>p. ret (g p, ret ()))) R"
  unfolding row_step_def wpe_bnd
proof
  fix s
  from t have v: "v = t" "\<not> is_sealed t" "\<forall>c\<in>set t. scalar_value c" by (auto simp: good_text_def)
  show "wpe (protect P v (Some k)) (\<lambda>p. wpe (ret (g p, ret ()))
      (\<lambda>(r', after) s'. R r' \<and> after = ret () \<and> (\<exists>n. s' = s\<lparr>ls_drawn := n\<rparr>))
      (\<lambda>_ s'. \<exists>n. s' = s\<lparr>ls_drawn := n\<rparr>)) (\<lambda>_ s'. \<exists>n. s' = s\<lparr>ls_drawn := n\<rparr>) s"
    unfolding v(1)
    by (rule wpe_protect [OF P _ v(2,3)]) (use k R in \<open>auto simp: key_size_def wpe_ret\<close>)
qed

lemma seal_user_step:
  assumes "platform_ok P" "length k = 32" "user_row P None r"
  shows "row_step (seal_user (\<lambda>v. protect P v (Some k)) r) (user_row P (Some k))"
proof -
  from assms(3) obtain t where t: "pf_profile_parse P t \<noteq> None" "good_text P None t (cu_payload r)"
    by (auto simp: user_row_def)
  show ?thesis
    unfolding seal_user_def by (rule row_step_lock [OF assms(1,2) t(2)]) (use t(1) in \<open>auto simp: user_row_def\<close>)
qed

lemma seal_conversation_step:
  assumes "platform_ok P" "length k = 32" "conversation_row P None r"
  shows "row_step (seal_conversation (\<lambda>v. protect P v (Some k)) r) (conversation_row P (Some k))"
proof -
  from assms(3) obtain t where t: "pf_conversation_parse P t \<noteq> None" "good_text P None t (cc_payload r)"
    by (auto simp: conversation_row_def)
  show ?thesis
    unfolding seal_conversation_def by (rule row_step_lock [OF assms(1,2) t(2)])
      (use t(1) in \<open>auto simp: conversation_row_def\<close>)
qed

lemma seal_message_step:
  assumes "platform_ok P" "length k = 32" "message_row P None r"
  shows "row_step (seal_message (\<lambda>v. protect P v (Some k)) r) (message_again P None (Some k) r)"
proof -
  from assms(3) obtain t where t: "pf_message_parse P t \<noteq> None" "good_text P None t (cm_payload r)"
    by (auto simp: message_row_def)
  show ?thesis
    unfolding seal_message_def by (rule row_step_lock [OF assms(1,2) t(2)])
      (use t in \<open>auto simp: message_again_def same_text_def\<close>)
qed

lemma seal_outbox_step:
  assumes "platform_ok P" "length k = 32" "outbox_row_ok P None r"
  shows "row_step (rewrite_outbox (\<lambda>v. protect P v (Some k)) r) (outbox_again P None (Some k) r)"
proof -
  from assms(3) obtain t where t: "pf_json_valid P t" "good_text P None t (ob_payload r)"
    by (auto simp: outbox_row_ok_def)
  show ?thesis
    unfolding rewrite_outbox_def by (rule row_step_lock [OF assms(1,2) t(2)])
      (use t in \<open>auto simp: outbox_again_def same_text_def\<close>)
qed

lemma seal_draft_step:
  "row_step (rewrite_draft e (\<lambda>v. protect P v (Some k)) r) (draft_row_ok (Some k))"
  unfolding row_step_def rewrite_draft_def wpe_bnd
  by (intro allI wpe_protect_any) (auto simp: wp_simps draft_row_ok_def)

section \<open>Encryption on\<close>

lemma meta_value_puts [simp]:
  "meta_value k (put_users a d) = meta_value k d" "meta_value k (put_conversations b d) = meta_value k d"
  "meta_value k (put_messages c d) = meta_value k d" "meta_value k (put_drafts e d) = meta_value k d"
  "meta_value k (put_outboxes f d) = meta_value k d" "meta_value k (drop_search g d) = meta_value k d"
  by (simp_all add: put_defs drop_search_def)

lemma dbt_snapshot_lock:
  assumes P: "platform_ok P" and k: "length k = 32" and d: "snapshot_ok P None d"
  shows "dbt (rewrite_snapshot (\<lambda>v. protect P v (Some k))) d
    (\<lambda>d'. (d' = d \<or> (\<exists>v n. d' = put_meta SNAPSHOT v n d)) \<and> same_snapshot P None (Some k) d d') s"
proof (cases "hm_get SNAPSHOT (db_meta d)")
  case None
  then show ?thesis
    by (auto simp: dbt_def rewrite_snapshot_def wpe_bnd wpe_reads wpe_ret same_snapshot_def meta_value_def)
next
  case (Some vt)
  obtain v n where vt: "vt = (v, n)" by (cases vt)
  with Some d obtain t where t: "pf_bootstrap_parse P t \<noteq> None" "good_text P None t v"
    by (auto simp: snapshot_ok_def meta_value_def)
  then have v: "v = t" "\<not> is_sealed t" "\<forall>c\<in>set t. scalar_value c" by (auto simp: good_text_def)
  have good: "same_snapshot P None (Some k) d (put_meta SNAPSHOT w n d)" if "good_text P (Some k) t w" for w
    using that t Some vt by (auto simp: same_snapshot_def same_text_def meta_value_def put_meta_def)
  show ?thesis
    unfolding dbt_def rewrite_snapshot_def wpe_bnd wpe_reads
    using Some vt v(1)
    by (auto simp: wpe_bnd wpe_writes key_size_def k intro!: wpe_protect [OF P _ v(2,3)])
      (use good in blast)+
qed

lemma encrypt_existing_cache_wp:
  assumes P: "platform_ok P" and k: "length k = 32" and d: "intact_db P None (ls_db s)"
  shows "wpe (encrypt_existing_cache P k)
    (\<lambda>_ s'. \<exists>d n. s' = s\<lparr>ls_db := d, ls_drawn := n\<rparr> \<and> intact_db P (Some k) d
      \<and> resealed P None (Some k) (ls_db s) d)
    (\<lambda>_ s'. \<exists>n. s' = s\<lparr>ls_drawn := n\<rparr>) s"
  unfolding encrypt_existing_cache_def Let_def
proof (rule wpe_transaction_dbt,
    rule dbt_bnd, rule users.dbt_for_rows [OF intact_db_rows(1) [OF d] seal_user_step [OF P k]], assumption,
    rule dbt_bnd, rule conversations.dbt_for_rows [where Q = "conversation_row P None", OF _ seal_conversation_step [OF P k]],
    force simp: put_defs intact_db_rows [OF d], assumption,
    rule dbt_bnd, rule messages.dbt_for_rows [where Q = "message_row P None", OF _ seal_message_step [OF P k]],
    force simp: put_defs intact_db_rows [OF d], assumption,
    rule dbt_bnd, rule drafts.dbt_for_rows [where R = "\<lambda>_. draft_row_ok (Some k)" and Q = "draft_row_ok None", OF _ seal_draft_step],
    force simp: put_defs intact_db_rows [OF d],
    rule dbt_bnd, rule outbox.dbt_for_rows [where Q = "outbox_row_ok P None", OF _ seal_outbox_step [OF P k]],
    force simp: put_defs intact_db_rows [OF d], assumption,
    rule dbt_bnd, rule dbt_snapshot_lock [OF P k],
    use intact_db_rows(6) [OF d] in \<open>force simp: snapshot_ok_def\<close>,
    rule dbt_bnd_writes, rule dbt_now, rule dbt_writes, goal_cases)
  case (1 d1 d2 d3 d4 d5 d6 now)
  then obtain tu tc tm td tb where
    d1: "d1 = put_users tu (ls_db s)" and tu: "same_keys (\<lambda>_. user_row P (Some k)) (db_users (ls_db s)) tu"
    and d2: "d2 = put_conversations tc d1"
    and tc: "same_keys (\<lambda>_. conversation_row P (Some k)) (db_conversations d1) tc"
    and d3: "d3 = put_messages tm d2" and tm: "same_keys (message_again P None (Some k)) (db_messages d2) tm"
    and d4: "d4 = put_drafts td d3" and td: "same_keys (\<lambda>_. draft_row_ok (Some k)) (db_drafts d3) td"
    and d5: "d5 = put_outboxes tb d4" and tb: "same_keys (outbox_again P None (Some k)) (db_outbox d4) tb"
    by blast
  have d6: "d6 = d5 \<or> (\<exists>v n. d6 = put_meta SNAPSHOT v n d5)" "same_snapshot P None (Some k) d5 d6"
    using 1 by blast+
  have ru: "rows (user_row P (Some k)) tu"
    by (rule same_keys_rows [OF tu intact_db_rows(1) [OF d]]) simp
  have rc: "rows (conversation_row P (Some k)) tc"
    by (rule same_keys_rows [OF tc]) (use intact_db_rows(2) [OF d] in \<open>auto simp: d1 put_defs\<close>)
  have rm: "rows (message_row P (Some k)) tm"
    by (rule same_keys_rows [OF tm, of "message_row P None"])
      (use intact_db_rows(3) [OF d] in \<open>auto simp: d2 d1 put_defs message_again_def message_row_def same_text_def\<close>)
  have rd: "rows (draft_row_ok (Some k)) td"
    by (rule same_keys_rows [OF td, of "draft_row_ok None"])
      (use intact_db_rows(4) [OF d] in \<open>auto simp: d3 d2 d1 put_defs\<close>)
  have rb: "rows (outbox_row_ok P (Some k)) tb"
    by (rule same_keys_rows [OF tb, of "outbox_row_ok P None"])
      (use intact_db_rows(5) [OF d] in \<open>auto simp: d4 d3 d2 d1 put_defs outbox_again_def outbox_row_ok_def same_text_def\<close>)
  have snap: "same_snapshot P None (Some k) (ls_db s) d6"
    using d6 d1 d2 d3 d4 d5 by (auto simp: same_snapshot_def)
  let ?d = "put_meta ENCRYPTION (lit ''v1'') now (drop_search (\<lambda>_. True) d6)"
  have tables: "db_users d6 = tu" "db_conversations d6 = tc" "db_messages d6 = tm" "db_drafts d6 = td"
    "db_outbox d6 = tb" "db_settings d6 = db_settings (ls_db s)" "db_seen d6 = db_seen (ls_db s)"
    "meta_value CURSOR d6 = meta_value CURSOR (ls_db s)"
    using d6(1) d1 d2 d3 d4 d5 by (auto simp: put_defs)
  have "snapshot_ok P (Some k) d6"
    using same_snapshot_ok [OF snap] .
  then have "intact_db P (Some k) ?d"
    using ru rc rm rd rb tables by (simp add: db_ok) (simp add: drop_search_def)
  moreover have "resealed P None (Some k) (ls_db s) ?d"
    using tm tb snap tables
    by (simp add: resealed_def same_snapshot_def) (simp add: d4 d3 d2 d1 put_defs drop_search_def)
  ultimately show ?case by blast
qed

section \<open>Encryption off\<close>

lemma drawn_self [simp]: "\<exists>n. s = s\<lparr>ls_drawn := n\<rparr>"
  for s :: local_store
  by (rule exI [of _ "ls_drawn s"]) simp

lemma row_step_unlock:
  assumes t: "good_text P (Some k) t v" and "row_step (f t) R"
  shows "row_step (bnd (lift (unprotect P v (Some k))) f) R"
  using assms by (simp add: row_step_def wpe_bnd wpe_lift unprotect_good [OF t])

lemma row_step_ret: "R r \<Longrightarrow> row_step (ret (r, ret ())) R"
  by (simp add: row_step_def wpe_ret)

lemma row_step_fail_if: "row_step m R \<Longrightarrow> row_step (bnd (fail_if b e) (\<lambda>_. m)) R"
  by (simp add: row_step_def wpe_bnd wpe_fail_if)

lemma restore_user_step:
  assumes "user_row P (Some k) r"
  shows "row_step (restore_user P k r) (user_row P None)"
proof -
  from assms obtain t p where t: "pf_profile_parse P t = Some p" "good_text P (Some k) t (cu_payload r)"
    by (auto simp: user_row_def)
  show ?thesis
    unfolding restore_user_def
    by (rule row_step_unlock [OF t(2)], simp only: t(1) ok_or_eq, subst row_step_def)
      (auto simp: wpe_bnd wpe_lift wpe_ret user_row_def t(1) intro!: exI [of _ t]
         good_text_unlock [OF t(2)])
qed

lemma restore_conversation_step:
  assumes "conversation_row P (Some k) r"
  shows "row_step (restore_conversation P k r) (conversation_row P None)"
proof -
  from assms obtain t p where t: "pf_conversation_parse P t = Some p" "good_text P (Some k) t (cc_payload r)"
    by (auto simp: conversation_row_def)
  show ?thesis
    unfolding restore_conversation_def
    by (rule row_step_unlock [OF t(2)], simp only: t(1) ok_or_eq, subst row_step_def)
      (auto simp: wpe_bnd wpe_lift wpe_ret conversation_row_def t(1) intro!: exI [of _ t]
         good_text_unlock [OF t(2)])
qed

lemma restore_outbox_step:
  assumes "outbox_row_ok P (Some k) r"
  shows "row_step (rewrite_outbox (\<lambda>v. lift (unprotect P v (Some k))) r) (outbox_again P (Some k) None r)"
proof -
  from assms obtain t where t: "pf_json_valid P t" "good_text P (Some k) t (ob_payload r)"
    by (auto simp: outbox_row_ok_def)
  show ?thesis
    unfolding rewrite_outbox_def
    by (rule row_step_unlock [OF t(2)], rule row_step_ret)
      (use t good_text_unlock [OF t(2)] in \<open>auto simp: outbox_again_def same_text_def\<close>)
qed

lemma restore_draft_step:
  "row_step (rewrite_draft e (\<lambda>v. lift (unprotect P v (Some k))) r) (draft_row_ok None)"
  by (auto simp: row_step_def rewrite_draft_def wp_simps draft_row_ok_def split: sum.split)

lemma dbt_restore_messages:
  assumes d: "rows (message_row P (Some k)) (db_messages d)"
  shows "dbt (for_rows db_messages put_messages (restore_message P k)) d
    (\<lambda>d'. \<exists>t e. d' = d\<lparr>db_messages := t, db_search := e\<rparr>
        \<and> same_keys (message_again P (Some k) None) (db_messages d) t) s"
  unfolding dbt_def
proof
  fix n
  let ?E = "\<lambda>_ s'. \<exists>d' n'. s' = s\<lparr>ls_db := d', ls_drawn := n'\<rparr>"
  define F where "F = (\<lambda>s'. \<exists>t e. s' = s\<lparr>ls_db := d\<lparr>db_messages := t, db_search := e\<rparr>, ls_drawn := n\<rparr>)"
  have start: "F (s\<lparr>ls_db := d, ls_drawn := n\<rparr>)"
    unfolding F_def by (rule exI [of _ "db_messages d"], rule exI [of _ "db_search d"]) simp
  have put: "F (u\<lparr>ls_db := put_messages t (ls_db u)\<rparr>)" if u: "F u" for u t
  proof -
    from u obtain t' e where "u = s\<lparr>ls_db := d\<lparr>db_messages := t', db_search := e\<rparr>, ls_drawn := n\<rparr>"
      by (auto simp: F_def)
    then have "u\<lparr>ls_db := put_messages t (ls_db u)\<rparr>
        = s\<lparr>ls_db := d\<lparr>db_messages := t, db_search := e\<rparr>, ls_drawn := n\<rparr>"
      by (cases s; cases d) (simp add: put_messages_def)
    then show ?thesis unfolding F_def by blast
  qed
  have add: "F (u\<lparr>ls_db := add_search x (ls_db u)\<rparr>)" if u: "F u" for u x
  proof -
    from u obtain t e where "u = s\<lparr>ls_db := d\<lparr>db_messages := t, db_search := e\<rparr>, ls_drawn := n\<rparr>"
      by (auto simp: F_def)
    then have "u\<lparr>ls_db := add_search x (ls_db u)\<rparr>
        = s\<lparr>ls_db := d\<lparr>db_messages := t, db_search := e @ [x]\<rparr>, ls_drawn := n\<rparr>"
      by (cases s; cases d) (simp add: add_search_def)
    then show ?thesis unfolding F_def by blast
  qed
  have body: "wpe (restore_message P k r) (\<lambda>(r', after) s'. message_again P (Some k) None r r' \<and> F s'
      \<and> db_messages (ls_db s') = db_messages (ls_db u)
      \<and> (\<forall>u. F u \<longrightarrow> wpe after (\<lambda>_ u'. F u' \<and> db_messages (ls_db u') = db_messages (ls_db u)) ?E u)) ?E u"
    if r: "message_row P (Some k) r" and u: "F u" for r u
  proof -
    from r obtain t m where t: "pf_message_parse P t = Some m" "good_text P (Some k) t (cm_payload r)"
      by (auto simp: message_row_def)
    have "wpe (case msg_content m of CText text \<Rightarrow> writes (add_search (search_row_of P m text)) | _ \<Rightarrow> ret ())
        (\<lambda>_ u'. F u' \<and> db_messages (ls_db u') = db_messages (ls_db w)) ?E w" if "F w" for w
      using that add [OF that] by (cases "msg_content m") (simp_all only: message_content.case wpe_ret wpe_writes,
        simp_all add: add_search_def)
    then show ?thesis
      using u t good_text_unlock [OF t(2)] exI [of "\<lambda>t. (\<exists>y. pf_message_parse P t = Some y) \<and> good_text P (Some k) t (cm_payload r) \<and> good_text P None t _" t]
      by (simp add: restore_message_def wpe_bnd wpe_lift unprotect_good [OF t(2)] t(1) wpe_ret
          message_again_def same_text_def)
  qed
  have "wpe (for_rows db_messages put_messages (restore_message P k))
      (\<lambda>_ s'. F s' \<and> same_keys (message_again P (Some k) None) (db_messages d) (db_messages (ls_db s')))
      ?E (s\<lparr>ls_db := d, ls_drawn := n\<rparr>)"
    using messages.wpe_for_rows [of F "message_row P (Some k)" "restore_message P k" "message_again P (Some k) None" ?E,
        OF put body start] d by simp
  then show "wpe (for_rows db_messages put_messages (restore_message P k))
     (\<lambda>_ s'. \<exists>d' n'. s' = s\<lparr>ls_db := d', ls_drawn := n'\<rparr> \<and>
        (\<exists>t e. d' = d\<lparr>db_messages := t, db_search := e\<rparr> \<and> same_keys (message_again P (Some k) None) (db_messages d) t))
     ?E (s\<lparr>ls_db := d, ls_drawn := n\<rparr>)"
    by (rule wpe_mono) (auto simp: F_def, blast)
qed

lemma dbt_snapshot_unlock:
  assumes d: "snapshot_ok P (Some k) d"
  shows "dbt (rewrite_snapshot (\<lambda>v. lift (unprotect P v (Some k)))) d
    (\<lambda>d'. (d' = d \<or> (\<exists>v n. d' = put_meta SNAPSHOT v n d)) \<and> same_snapshot P (Some k) None d d') s"
proof (cases "hm_get SNAPSHOT (db_meta d)")
  case None
  then show ?thesis
    by (auto simp: dbt_def rewrite_snapshot_def wpe_bnd wpe_reads wpe_ret same_snapshot_def meta_value_def)
next
  case (Some vt)
  obtain v n where vt: "vt = (v, n)" by (cases vt)
  with Some d obtain t where t: "pf_bootstrap_parse P t \<noteq> None" "good_text P (Some k) t v"
    by (auto simp: snapshot_ok_def meta_value_def)
  then have "same_text P (Some k) None (\<lambda>t. pf_bootstrap_parse P t \<noteq> None) v t"
    using good_text_unlock [OF t(2)] unfolding same_text_def by blast
  then have "same_snapshot P (Some k) None d (put_meta SNAPSHOT t n d)"
    using Some vt by (simp add: same_snapshot_def meta_value_def put_meta_def)
  with Some vt show ?thesis
    by (simp add: dbt_def rewrite_snapshot_def wpe_bnd wpe_reads wpe_writes wpe_lift unprotect_good [OF t(2)])
      blast
qed

lemma meta_value_remove [simp]:
  "meta_value j (d\<lparr>db_meta := hm_remove k (db_meta d)\<rparr>) = (if j = k then None else meta_value j d)"
  by (simp add: meta_value_def)

lemma decrypt_existing_cache_wp:
  assumes d: "intact_db P (Some k) (ls_db s)"
  shows "wpe (decrypt_existing_cache P k)
    (\<lambda>_ s'. \<exists>d n. s' = s\<lparr>ls_db := d, ls_drawn := n\<rparr> \<and> intact_db P None d
      \<and> resealed P (Some k) None (ls_db s) d)
    (\<lambda>_ s'. \<exists>n. s' = s\<lparr>ls_drawn := n\<rparr>) s"
  unfolding decrypt_existing_cache_def Let_def
proof (rule wpe_transaction_dbt,
    rule dbt_bnd, rule users.dbt_for_rows [OF intact_db_rows(1) [OF d] restore_user_step], assumption,
    rule dbt_bnd, rule conversations.dbt_for_rows [where Q = "conversation_row P (Some k)", OF _ restore_conversation_step],
    force simp: put_defs intact_db_rows [OF d], assumption,
    rule dbt_bnd_writes, rule dbt_bnd, rule dbt_restore_messages,
    force simp: put_defs drop_search_def intact_db_rows [OF d],
    rule dbt_bnd, rule drafts.dbt_for_rows [where R = "\<lambda>_. draft_row_ok None" and Q = "draft_row_ok (Some k)", OF _ restore_draft_step],
    force simp: put_defs drop_search_def intact_db_rows [OF d],
    rule dbt_bnd, rule outbox.dbt_for_rows [where Q = "outbox_row_ok P (Some k)", OF _ restore_outbox_step],
    force simp: put_defs drop_search_def intact_db_rows [OF d], assumption,
    rule dbt_bnd, rule dbt_snapshot_unlock,
    use intact_db_rows(6) [OF d] in \<open>force simp: snapshot_ok_def\<close>,
    rule dbt_writes, goal_cases)
  case (1 d1 d2 d3 d4 d5 d6)
  then obtain tu tc tm te td tb where
    d1: "d1 = put_users tu (ls_db s)" and tu: "same_keys (\<lambda>_. user_row P None) (db_users (ls_db s)) tu"
    and d2: "d2 = put_conversations tc d1"
    and tc: "same_keys (\<lambda>_. conversation_row P None) (db_conversations d1) tc"
    and d3: "d3 = (drop_search (\<lambda>_. True) d2)\<lparr>db_messages := tm, db_search := te\<rparr>"
    and tm: "same_keys (message_again P (Some k) None) (db_messages (drop_search (\<lambda>_. True) d2)) tm"
    and d4: "d4 = put_drafts td d3" and td: "same_keys (\<lambda>_. draft_row_ok None) (db_drafts d3) td"
    and d5: "d5 = put_outboxes tb d4" and tb: "same_keys (outbox_again P (Some k) None) (db_outbox d4) tb"
    by blast
  have d6: "d6 = d5 \<or> (\<exists>v n. d6 = put_meta SNAPSHOT v n d5)" "same_snapshot P (Some k) None d5 d6"
    using 1 by blast+
  have ru: "rows (user_row P None) tu"
    by (rule same_keys_rows [OF tu intact_db_rows(1) [OF d]]) simp
  have rc: "rows (conversation_row P None) tc"
    by (rule same_keys_rows [OF tc]) (use intact_db_rows(2) [OF d] in \<open>auto simp: d1 put_defs\<close>)
  have rm: "rows (message_row P None) tm"
    by (rule same_keys_rows [OF tm, of "message_row P (Some k)"])
      (use intact_db_rows(3) [OF d] in \<open>auto simp: d2 d1 put_defs drop_search_def message_again_def message_row_def same_text_def\<close>)
  have rd: "rows (draft_row_ok None) td"
    by (rule same_keys_rows [OF td, of "draft_row_ok (Some k)"])
      (use intact_db_rows(4) [OF d] in \<open>auto simp: d3 d2 d1 put_defs drop_search_def\<close>)
  have rb: "rows (outbox_row_ok P None) tb"
    by (rule same_keys_rows [OF tb, of "outbox_row_ok P (Some k)"])
      (use intact_db_rows(5) [OF d] in \<open>auto simp: d4 d3 d2 d1 put_defs drop_search_def outbox_again_def outbox_row_ok_def same_text_def\<close>)
  have snap: "same_snapshot P (Some k) None (ls_db s) d6"
    using d6 d1 d2 d3 d4 d5 by (auto simp: same_snapshot_def)
  let ?d = "d6\<lparr>db_meta := hm_remove ENCRYPTION (db_meta d6)\<rparr>"
  have tables: "db_users d6 = tu" "db_conversations d6 = tc" "db_messages d6 = tm" "db_drafts d6 = td"
    "db_outbox d6 = tb" "db_settings d6 = db_settings (ls_db s)" "db_seen d6 = db_seen (ls_db s)"
    "meta_value CURSOR d6 = meta_value CURSOR (ls_db s)"
    using d6(1) d1 d2 d3 d4 d5 by (auto simp: put_defs drop_search_def)
  have "snapshot_ok P None d6" using same_snapshot_ok [OF snap] .
  then have "intact_db P None ?d"
    using ru rc rm rd rb tables by (simp add: db_ok)
  moreover have "resealed P (Some k) None (ls_db s) ?d"
    using tm tb snap tables
    by (simp add: resealed_def same_snapshot_def) (simp add: d4 d3 d2 d1 put_defs drop_search_def)
  ultimately show ?case by blast
qed

section \<open>The switch, and opening the store\<close>

lemma wpe_save_cache_key:
  "wpe (save_cache_key P k) Q E s =
    (if ls_can_save s then Q () (s\<lparr>ls_keychain := Some (pf_b64_encode P k)\<rparr>)
     else E ''failed to save local cache key'' s)"
  by (simp add: wpe_def save_cache_key_def)

lemma set_encryption_on_wp:
  assumes P: "platform_ok P" and s: "intact P s" "ls_key s = None"
  shows "wpe (set_encryption_enabled P True)
    (\<lambda>b s'. b \<and> intact P s' \<and> ls_now s' = ls_now s \<and> (\<exists>k. ls_key s' = Some k \<and> resealed P None (Some k) (ls_db s) (ls_db s')))
    (\<lambda>_ s'. intact P s' \<and> ls_now s' = ls_now s \<and> ls_key s' = None \<and> ls_db s' = ls_db s) s"
proof -
  define k where "k = map (\<lambda>i. ls_random s (ls_drawn s + i)) [0..<32]"
  define u where "u = s\<lparr>ls_drawn := ls_drawn s + 32, ls_keychain := Some (pf_b64_encode P k)\<rparr>"
  have k: "length k = 32" by (simp add: k_def)
  have u: "ls_key u = None" "ls_db u = ls_db s" "ls_keychain u = Some (pf_b64_encode P k)" "ls_now u = ls_now s"
    using s(2) by (simp_all add: u_def)
  have d: "intact_db P None (ls_db u)" using intactD(1) [OF s(1)] s(2) u by simp
  have clear: "intact P (snd (clear_cache_key (u\<lparr>ls_drawn := n\<rparr>)))
      \<and> ls_key (snd (clear_cache_key (u\<lparr>ls_drawn := n\<rparr>))) = None
      \<and> ls_db (snd (clear_cache_key (u\<lparr>ls_drawn := n\<rparr>))) = ls_db s
      \<and> ls_now (snd (clear_cache_key (u\<lparr>ls_drawn := n\<rparr>))) = ls_now s" for n
    using d u by (simp add: clear_cache_key_def intact_def key_stored_def)
  have "wpe (encrypt_existing_cache P k)
     (\<lambda>_ s'. intact P (s'\<lparr>ls_key := Some k\<rparr>) \<and> ls_now s' = ls_now s \<and> resealed P None (Some k) (ls_db s) (ls_db s'))
     (\<lambda>_ s'. \<exists>n. s' = u\<lparr>ls_drawn := n\<rparr>) u"
    by (rule wpe_mono [OF encrypt_existing_cache_wp [OF P k d]])
      (use k u in \<open>auto simp: intact_def key_stored_def\<close>)
  then have "wpe (cleanup_on_error (encrypt_existing_cache P k) clear_cache_key)
     (\<lambda>_ s'. intact P (s'\<lparr>ls_key := Some k\<rparr>) \<and> ls_now s' = ls_now s \<and> resealed P None (Some k) (ls_db s) (ls_db s'))
     (\<lambda>_ s'. intact P s' \<and> ls_now s' = ls_now s \<and> ls_key s' = None \<and> ls_db s' = ls_db s) u"
    using clear by (auto simp: wpe_def cleanup_on_error_def split: prod.splits sum.splits)
  then have "wpe (bnd (cleanup_on_error (encrypt_existing_cache P k) clear_cache_key)
      (\<lambda>_. bnd (set_key (Some k)) (\<lambda>_. ret True)))
    (\<lambda>b s'. b \<and> intact P s' \<and> ls_now s' = ls_now s \<and> (\<exists>k. ls_key s' = Some k \<and> resealed P None (Some k) (ls_db s) (ls_db s')))
    (\<lambda>_ s'. intact P s' \<and> ls_now s' = ls_now s \<and> ls_key s' = None \<and> ls_db s' = ls_db s) u" (is "wpe ?rest ?Q ?E u")
    unfolding wpe_bnd by (rule wpe_mono) (auto simp: wpe_set_key wpe_ret)
  then have "wpe (bnd (save_cache_key P k) (\<lambda>_. ?rest)) ?Q ?E (s\<lparr>ls_drawn := ls_drawn s + 32\<rparr>)"
    using s by (simp add: wpe_bnd [of "save_cache_key P k"] wpe_save_cache_key u_def)
  then show ?thesis
    using s(2)
    by (simp add: set_encryption_enabled_def encryption_enabled_def wpe_bnd [of "gets _"]
        wpe_bnd [of "draw_bytes _"] wpe_gets wpe_draw_bytes k_def [symmetric])
qed

lemma set_encryption_off_wp:
  assumes s: "intact P s" "ls_key s = Some k"
  shows "wpe (set_encryption_enabled P False)
    (\<lambda>b s'. \<not> b \<and> intact P s' \<and> ls_now s' = ls_now s \<and> ls_key s' = None \<and> resealed P (Some k) None (ls_db s) (ls_db s'))
    (\<lambda>_ s'. intact P s' \<and> ls_now s' = ls_now s \<and> (ls_key s' = Some k \<and> ls_db s' = ls_db s \<or>
        ls_key s' = None \<and> resealed P (Some k) None (ls_db s) (ls_db s'))) s"
proof -
  have d: "intact_db P (Some k) (ls_db s)" using intactD(1) [OF s(1)] s(2) by simp
  have "wpe (bnd (set_key None) (\<lambda>_. bnd clear_cache_key (\<lambda>_. ret False)))
    (\<lambda>b s'. \<not> b \<and> intact P s' \<and> ls_now s' = ls_now s \<and> ls_key s' = None \<and> resealed P (Some k) None (ls_db s) (ls_db s'))
    (\<lambda>_ s'. intact P s' \<and> ls_now s' = ls_now s \<and> (ls_key s' = Some k \<and> ls_db s' = ls_db s \<or>
        ls_key s' = None \<and> resealed P (Some k) None (ls_db s) (ls_db s'))) u"
    if "intact_db P None (ls_db u)" "resealed P (Some k) None (ls_db s) (ls_db u)" "ls_now u = ls_now s" for u
    using that by (simp add: wpe_bnd wpe_set_key) (simp add: wpe_def clear_cache_key_def bnd_def ret_def intact_def key_stored_def)
  then have "wpe (bnd (decrypt_existing_cache P k) (\<lambda>_. bnd (set_key None) (\<lambda>_. bnd clear_cache_key (\<lambda>_. ret False))))
    (\<lambda>b s'. \<not> b \<and> intact P s' \<and> ls_now s' = ls_now s \<and> ls_key s' = None \<and> resealed P (Some k) None (ls_db s) (ls_db s'))
    (\<lambda>_ s'. intact P s' \<and> ls_now s' = ls_now s \<and> (ls_key s' = Some k \<and> ls_db s' = ls_db s \<or>
        ls_key s' = None \<and> resealed P (Some k) None (ls_db s) (ls_db s'))) s"
    unfolding wpe_bnd [of "decrypt_existing_cache P k"]
    by (rule wpe_mono [OF decrypt_existing_cache_wp [OF d]]) (use s in auto)
  with s(2) show ?thesis
    by (simp add: set_encryption_enabled_def encryption_enabled_def wpe_bnd wpe_gets wpe_lift)
qed

lemma set_encryption_enabled_pres:
  assumes P: "platform_ok P"
  shows "pres (intact P) (set_encryption_enabled P enabled)"
proof (rule pres_wpe)
  fix s assume s: "intact P s"
  consider "(ls_key s \<noteq> None) = enabled" | "ls_key s = None" enabled | k where "ls_key s = Some k" "\<not> enabled"
    by (cases "ls_key s") auto
  then show "wpe (set_encryption_enabled P enabled) (\<lambda>_. intact P) (\<lambda>_. intact P) s"
  proof cases
    case 1
    with s show ?thesis by (simp add: set_encryption_enabled_def encryption_enabled_def wp_simps)
  next
    case 2
    then show ?thesis using set_encryption_on_wp [OF P s 2(1)] by (simp add: wpe_def split: prod.splits sum.splits)
  next
    case 3
    then show ?thesis using set_encryption_off_wp [OF s 3(1)] by (auto simp: wpe_def split: prod.splits sum.splits)
  qed
qed

text \<open>Reopening after any reachable state finds the key, when the credential store answers.\<close>

lemma open_store_again:
  assumes P: "platform_ok P" and s: "intact P s" "ls_can_load s"
  shows "open_store P (s\<lparr>ls_key := None\<rparr>) = (Inr (), s)"
proof (cases "ls_key s")
  case None
  then have "meta_value ENCRYPTION (ls_db s) \<noteq> Some (lit ''v1'')"
    using intactD(1) [OF s(1)] by (simp add: db_ok)
  then show ?thesis using None by (simp add: open_store_def reads_def set_key_def)
next
  case (Some k)
  then have "meta_value ENCRYPTION (ls_db s) = Some (lit ''v1'')" "length k = 32"
      "ls_keychain s = Some (pf_b64_encode P k)"
    using intactD(1,2) [OF s(1)] by (auto simp: db_ok key_stored_def)
  then show ?thesis
    using Some s(2)
    by (simp add: open_store_def reads_def set_key_def load_cache_key_def platform_okD(2) [OF P] bnd_def)
qed

end
