(* ===== verification/Local_Cache.thy ===== *)
theory Local_Cache
  imports Local_Sealing
begin

text \<open>
  What the client's local store promises over any run: sealed rows while encryption is on, cached
  answers that can always be read back, a switch that does not change what is read, and a store
  that reopens as it was closed.
\<close>

section \<open>Runs of the client\<close>

text \<open>
  The operations in any order, the passage of time, fresh random bytes, a credential store that
  comes and goes, and restarts.  The text handed to \<open>enqueue_outbox\<close> is a Rust string: a list of
  scalar values.
\<close>

inductive client_reach :: "platform \<Rightarrow> local_store \<Rightarrow> bool" for P where
  Fresh: "ls_db s = fresh_db now \<Longrightarrow> ls_key s = None \<Longrightarrow> client_reach P s"
| Environment: "client_reach P s \<Longrightarrow> client_reach P (s\<lparr>ls_now := now, ls_random := random, ls_can_save := a,
    ls_can_load := b, ls_can_clear := c\<rparr>)"
| Restart: "client_reach P s \<Longrightarrow> open_store P (s\<lparr>ls_key := None\<rparr>) = (Inr (), s') \<Longrightarrow> client_reach P s'"
| Bootstrap: "client_reach P s \<Longrightarrow> client_reach P (snd (cache_bootstrap P value s))"
| Messages: "client_reach P s \<Longrightarrow> client_reach P (snd (cache_messages P ms s))"
| Draft: "client_reach P s \<Longrightarrow> client_reach P (snd (save_draft P c body s))"
| Enqueue: "client_reach P s \<Longrightarrow> \<forall>c\<in>set payload. scalar_value c
    \<Longrightarrow> client_reach P (snd (enqueue_outbox P cid c payload s))"
| Acknowledge: "client_reach P s \<Longrightarrow> client_reach P (snd (acknowledge_outbox P cid s))"
| Retry: "client_reach P s \<Longrightarrow> client_reach P (snd (retry_outbox_now P cid s))"
| Discard: "client_reach P s \<Longrightarrow> client_reach P (snd (discard_pending_message P cid s))"
| Failure: "client_reach P s \<Longrightarrow> client_reach P (snd (record_outbox_failure P pick cid e s))"
| Setting: "client_reach P s \<Longrightarrow> client_reach P (snd (save_setting name json s))"
| Event: "client_reach P s \<Longrightarrow> client_reach P (snd (record_sync_event P (e :: event) s))"
| Encryption: "client_reach P s \<Longrightarrow> client_reach P (snd (set_encryption_enabled P enabled s))"
| Clear: "client_reach P s \<Longrightarrow> client_reach P (snd (clear_account_cache s))"

lemma presD': "pres I m \<Longrightarrow> I s \<Longrightarrow> I (snd (m s))"
  by (simp add: pres_def)

lemma fresh_intact: "ls_db s = fresh_db now \<Longrightarrow> ls_key s = None \<Longrightarrow> intact P s"
  by (simp add: intact_def key_stored_def db_ok fresh_db_def meta_value_def meta_keys hm_get_def)

lemma restart_intact:
  assumes P: "platform_ok P" and s: "intact P s" and r: "open_store P (s\<lparr>ls_key := None\<rparr>) = (Inr (), s')"
  shows "intact P s'"
proof (cases "ls_can_load s")
  case True
  with open_store_again [OF P s] r s show ?thesis by simp
next
  case False
  have "meta_value ENCRYPTION (ls_db s) \<noteq> Some (lit ''v1'')"
  proof
    assume "meta_value ENCRYPTION (ls_db s) = Some (lit ''v1'')"
    with r False show False
      by (auto simp: open_store_def reads_def load_cache_key_def bnd_Inr_iff)
  qed
  moreover from this s have "ls_key s = None" using intactD(1) [OF s] by (simp add: db_ok)
  ultimately have "s' = s\<lparr>ls_key := ls_key s\<rparr>" using r by (auto simp: open_store_def reads_def set_key_def)
  with s show ?thesis by simp
qed

theorem client_reach_intact:
  assumes P: "platform_ok P" and "client_reach P s"
  shows "intact P s"
  using assms(2)
proof induction
  case (Environment s now random a b c)
  then show ?case by (simp add: intact_def key_stored_def)
qed (auto intro: fresh_intact restart_intact [OF P] presD' [OF cache_bootstrap_pres [OF P]]
    presD' [OF cache_messages_pres [OF P]] presD' [OF save_draft_pres] presD' [OF enqueue_outbox_pres [OF P]]
    presD' [OF acknowledge_outbox_pres] presD' [OF retry_outbox_now_pres]
    presD' [OF discard_pending_message_pres] presD' [OF record_outbox_failure_pres]
    presD' [OF save_setting_pres] presD' [OF record_sync_event_pres]
    presD' [OF set_encryption_enabled_pres [OF P]] presD' [OF clear_account_cache_pres])

section \<open>Nothing but sealed text\<close>


section \<open>Readable answers\<close>

lemma read_all_Inr: "(\<And>r. r \<in> set rs \<Longrightarrow> \<exists>x. f r = Inr x) \<Longrightarrow> \<exists>xs. read_all f rs = Inr xs"
proof (induction rs)
  case (Cons r rs)
  then obtain x xs where "f r = Inr x" "read_all f rs = Inr xs" by (metis list.set_intros)
  then show ?case by simp
qed simp

lemma message_row_readable: "message_row P key r \<Longrightarrow> \<exists>m. read_message P key r = Inr m"
  by (auto simp: message_row_def read_message_def dest: unprotect_good)

lemma set_timeline: "r \<in> set (timeline c d) \<longleftrightarrow> (\<exists>i. (i, r) \<in> set (db_messages d)) \<and> cm_conversation_id r = c"
  by (force simp: timeline_def hm_values_def)


section \<open>The switch is transparent\<close>

lemma same_keys_values: "same_keys R t t' \<Longrightarrow> list_all2 R (hm_values t) (hm_values t')"
  unfolding same_keys_def hm_values_def
  by (simp add: list_all2_map1 list_all2_map2) (erule list_all2_mono, auto)

lemma list_all2_filter:
  assumes "list_all2 R xs ys" "\<And>x y. R x y \<Longrightarrow> Q x \<longleftrightarrow> Q' y"
  shows "list_all2 R (filter Q xs) (filter Q' ys)"
  using assms(1) by (induction rule: list_all2_induct) (auto simp: assms(2))

lemma list_all2_insort_key:
  assumes "list_all2 R xs ys" "R x y" "\<And>x y. R x y \<Longrightarrow> f x = g y"
  shows "list_all2 R (insort_key f x xs) (insort_key g y ys)"
  using assms(1,2) by (induction rule: list_all2_induct) (auto simp: assms(3))

lemma list_all2_sort_key:
  assumes "list_all2 R xs ys" "\<And>x y. R x y \<Longrightarrow> f x = g y"
  shows "list_all2 R (sort_key f xs) (sort_key g ys)"
  using assms(1)
  by (induction rule: list_all2_induct) (auto intro: list_all2_insort_key assms(2))

lemma list_all2_read_all:
  assumes "list_all2 R xs ys" "\<And>x y. R x y \<Longrightarrow> f x = g y"
  shows "read_all f xs = read_all g ys"
  using assms(1) by (induction rule: list_all2_induct) (auto simp: assms(2))

lemma resealed_reads:
  assumes d: "resealed P (ls_key s) (ls_key s') (ls_db s) (ls_db s')" and now: "ls_now s' = ls_now s"
  shows "fst (load_messages P c s') = fst (load_messages P c s)"
    and "fst (ready_outbox P s') = fst (ready_outbox P s)"
    and "fst (load_bootstrap P s') = fst (load_bootstrap P s)"
    and "fst (sync_cursor s') = fst (sync_cursor s)"
proof -
  let ?M = "message_again P (ls_key s) (ls_key s')"
  have cols: "cm_conversation_id r' = cm_conversation_id r" "cm_sequence r' = cm_sequence r"
    "cm_created_at r' = cm_created_at r" "read_message P (ls_key s') r' = read_message P (ls_key s) r"
    if "?M r r'" for r r'
  proof -
    from that have r': "r' = r\<lparr>cm_payload := cm_payload r'\<rparr>" by (simp add: message_again_def)
    show "cm_conversation_id r' = cm_conversation_id r" "cm_sequence r' = cm_sequence r"
      "cm_created_at r' = cm_created_at r" by (subst r', simp)+
    from that obtain t where "good_text P (ls_key s) t (cm_payload r)" "good_text P (ls_key s') t (cm_payload r')"
      by (auto simp: message_again_def same_text_def)
    then show "read_message P (ls_key s') r' = read_message P (ls_key s) r"
      by (simp add: read_message_def unprotect_good)
  qed
  have "list_all2 ?M (hm_values (db_messages (ls_db s))) (hm_values (db_messages (ls_db s')))"
    using d by (simp add: resealed_def same_keys_values)
  then have "list_all2 ?M (timeline c (ls_db s)) (timeline c (ls_db s'))"
    unfolding timeline_def by (intro list_all2_sort_key list_all2_filter) (simp_all add: cols)
  then have "read_all (read_message P (ls_key s)) (timeline c (ls_db s))
      = read_all (read_message P (ls_key s')) (timeline c (ls_db s'))"
    by (rule list_all2_read_all) (simp add: cols)
  then show "fst (load_messages P c s') = fst (load_messages P c s)"
    by (simp add: load_messages_def reads_def split: sum.split)
  let ?O = "\<lambda>(i, r) (j, r'). i = j \<and> outbox_again P (ls_key s) (ls_key s') r r'"
  have ocols: "ob_next_attempt_at (snd p') = ob_next_attempt_at (snd p)"
    "ob_created_at (snd p') = ob_created_at (snd p)"
    "read_outbox_row P (ls_key s') p' = read_outbox_row P (ls_key s) p"
    if "?O p p'" for p p'
  proof -
    from that obtain t where r': "snd p' = (snd p)\<lparr>ob_payload := ob_payload (snd p')\<rparr>" and i: "fst p' = fst p"
      and t: "good_text P (ls_key s) t (ob_payload (snd p))" "good_text P (ls_key s') t (ob_payload (snd p'))"
      by (auto simp: outbox_again_def same_text_def split_beta)
    have eqs: "ob_next_attempt_at (snd p') = ob_next_attempt_at (snd p)"
      "ob_created_at (snd p') = ob_created_at (snd p)"
      "ob_conversation_id (snd p') = ob_conversation_id (snd p)"
      "ob_attempt_count (snd p') = ob_attempt_count (snd p)"
      "ob_last_error_code (snd p') = ob_last_error_code (snd p)" by (subst r', simp)+
    show "ob_next_attempt_at (snd p') = ob_next_attempt_at (snd p)"
      "ob_created_at (snd p') = ob_created_at (snd p)" by (fact eqs)+
    from t i show "read_outbox_row P (ls_key s') p' = read_outbox_row P (ls_key s) p"
      by (simp add: read_outbox_row_def split_beta unprotect_good eqs)
  qed
  have ocols_pair: "ob_next_attempt_at (snd p') = ob_next_attempt_at (snd p)"
    "ob_created_at (snd p') = ob_created_at (snd p)"
    "read_outbox_row P (ls_key s') p' = read_outbox_row P (ls_key s) p"
    if "fst p = fst p' \<and> outbox_again P (ls_key s) (ls_key s') (snd p) (snd p')" for p p'
    using ocols [of p p'] that by (simp_all add: split_beta)
  have "list_all2 ?O (db_outbox (ls_db s)) (db_outbox (ls_db s'))"
    using d by (simp add: resealed_def same_keys_def)
  then have "list_all2 ?O (outbox_due (ls_now s) (ls_db s)) (outbox_due (ls_now s') (ls_db s'))"
    unfolding outbox_due_def now
    by (intro list_all2_takeI list_all2_sort_key list_all2_filter)
      (simp_all add: split_beta ocols_pair)
  then have "read_all (read_outbox_row P (ls_key s)) (outbox_due (ls_now s) (ls_db s))
      = read_all (read_outbox_row P (ls_key s')) (outbox_due (ls_now s') (ls_db s'))"
    by (rule list_all2_read_all) (simp add: split_beta ocols_pair)
  then show "fst (ready_outbox P s') = fst (ready_outbox P s)"
    by (simp add: ready_outbox_def reads_def)
  show "fst (load_bootstrap P s') = fst (load_bootstrap P s)"
    using d unfolding resealed_def same_snapshot_def
    by (auto simp: load_bootstrap_def reads_def same_text_def unprotect_good rel_option_iff
        split: option.splits sum.splits)
  show "fst (sync_cursor s') = fst (sync_cursor s)"
    using d by (simp add: resealed_def sync_cursor_def reads_def stored_cursor_def)
qed


text \<open>Closing the client after any run and opening it again gives back the store as it was, with its key,
  whenever the credential store answers.\<close>

theorem reopen_restores_store:
  assumes "platform_ok P" and "client_reach P s" and "ls_can_load s"
  shows "open_store P (s\<lparr>ls_key := None\<rparr>) = (Inr (), s)"
  by (rule open_store_again [OF assms(1) client_reach_intact [OF assms(1,2)] assms(3)])

section \<open>Drafts\<close>

text \<open>A draft that was saved is loaded again letter for letter, encrypted or not, unless it begins with
  the marker of sealed text.\<close>

theorem draft_round_trip:
  assumes "platform_ok P" and "client_reach P s" and "save_draft P c body s = (Inr (), s')"
    and "\<not> is_sealed body" and "\<forall>x\<in>set body. scalar_value x"
  shows "load_draft P c s' = (Inr body, s')"
proof -
  from assms(3) obtain v t where uuid: "validate_uuid P c = Inr ()"
    and v: "protect P body (ls_key s) s = (Inr v, t)"
    and put: "tries ''failed to save draft'' (put_draft c v (ls_now t)) t = (Inr (), s')"
    by (auto simp: save_draft_def validate_uuid_def err_if_def split: if_splits)
  have key: "key_size (ls_key s)" by (rule intactD(3) [OF client_reach_intact [OF assms(1,2)]])
  have "wpe (protect P body (ls_key s)) (\<lambda>v t. good_text P (ls_key s) body v \<and> ls_key t = ls_key s) (\<lambda>_ _. True) s"
    by (rule wpe_protect [OF assms(1) key assms(4,5)]) auto
  with v have "good_text P (ls_key s) body v" "ls_key t = ls_key s" by (auto simp: wpe_def)
  moreover from put obtain d where "put_draft c v (ls_now t) (ls_db t) = Some d" "s' = t\<lparr>ls_db := d\<rparr>"
    by (auto simp: tries_def split: option.splits)
  ultimately show ?thesis
    using uuid by (auto simp: load_draft_def reads_def put_draft_def unprotect_good split: if_splits)
qed

text \<open>A draft that does begin with the marker is stored as it is and can never be loaded.\<close>

lemma marked_draft_unreadable:
  assumes "save_draft P c body s = (Inr (), s')" and "ls_key s = None" and "is_sealed body"
  shows "fst (load_draft P c s') = Inl ''local cache is encrypted but its key is unavailable''"
  using assms
  by (auto simp: save_draft_def load_draft_def protect_def reads_def tries_def put_draft_def unprotect_def
      validate_uuid_def err_if_def split: option.splits if_splits)

end
