(* ===== verification/Local_Sync.thy ===== *)
theory Local_Sync
  imports Local_Cache
begin

text \<open>
  The client's cursor against the domain's synchronisation state, the outbox schedule, and the
  removal of an account's data.
\<close>

section \<open>The stored cursor refines the domain's state\<close>

text \<open>
  \<open>record_sync_event\<close> is the durable form of \<open>SyncState::apply\<close>.  It forgets events 50000 cursors
  back, and answers \<open>false\<close> where the domain reports a stale cursor.  \<open>follows\<close> relates the tables
  to a domain state that remembers every event of the log \<open>L\<close> applied so far.
\<close>

definition one_cursor :: "event list \<Rightarrow> bool" where
  "one_cursor L \<longleftrightarrow> (\<forall>e\<in>set L. \<forall>e'\<in>set L. ev_id e = ev_id e' \<longrightarrow> ev_cursor e = ev_cursor e')"

definition follows :: "platform \<Rightarrow> event list \<Rightarrow> sync_state \<Rightarrow> local_db \<Rightarrow> bool" where
  "follows P L a d \<longleftrightarrow>
     parse_u64 (stored_cursor d) = Some (ss_cursor a) \<and>
     (\<forall>u. hm_contains (pf_uuid_text P u) (db_seen d) \<longrightarrow> u \<in> ss_seen a) \<and>
     (\<forall>(i, c, t)\<in>set (db_seen d). c \<le> int (unat (ss_cursor a))) \<and>
     (\<forall>u\<in>ss_seen a. \<exists>e\<in>set L. ev_id e = u \<and> ev_cursor e \<le> ss_cursor a)"

text \<open>The client's answer to one event, and its run over a stream.\<close>

fun record_events :: "platform \<Rightarrow> event list \<Rightarrow> local_store \<Rightarrow> (string + bool) list \<times> local_store" where
  "record_events P [] s = ([], s)"
| "record_events P (e # es) s =
     (let (r, s') = record_sync_event P e s; (rs, s'') = record_events P es s' in (r # rs, s''))"

lemma uuid_text_inj: "platform_ok P \<Longrightarrow> pf_uuid_text P u = pf_uuid_text P v \<longleftrightarrow> u = v"
  by (metis option.inject platform_okD(1))

lemma stored_cursor_put [simp]: "stored_cursor (put_meta CURSOR v n d) = v"
  by (simp add: stored_cursor_def)

lemma stored_cursor_seen [simp]: "stored_cursor (d\<lparr>db_seen := x\<rparr>) = stored_cursor d"
  by (simp add: stored_cursor_def)

lemma set_hm_insert_subset: "set (hm_insert k v m) \<subseteq> insert (k, v) (set m)"
  by (induction m) (auto simp: hm_insert_def)

lemma hm_get_retain_imp: "hm_contains k (hm_retain Q m) \<Longrightarrow> hm_contains k m"
  by (induction m) (auto simp: hm_contains_def hm_get_def hm_retain_def split: if_splits)

lemma record_sync_event_step:
  assumes P: "platform_ok P" and L: "one_cursor L" "e \<in> set L" "unat (ev_cursor e) < 2 ^ 63"
    and f: "follows P L a (ls_db s)" and a: "sync_apply e a = (r, a')"
  shows "\<exists>s'. record_sync_event P e s = (Inr (r = Inr True), s') \<and> follows P L a' (ls_db s')"
proof -
  note cursor = f [unfolded follows_def, THEN conjunct1]
  show ?thesis
  proof (cases "hm_contains (pf_uuid_text P (ev_id e)) (db_seen (ls_db s))")
    case True
    then have "record_sync_event P e s = (Inr False, s)"
      by (simp add: record_sync_event_def transaction_def reads_def Let_def)
    moreover have "a' = a" "r = Inr False" using a True f by (auto simp: sync_apply_def follows_def split: if_splits)
    ultimately show ?thesis using f by simp
  next
    case False
    note unseen = False
    show ?thesis
    proof (cases "ev_cursor e \<le> ss_cursor a")
      case True
      then have "record_sync_event P e s = (Inr False, s)"
        using unseen cursor by (simp add: record_sync_event_def transaction_def reads_def Let_def)
      moreover have "a' = a" "r \<noteq> Inr True" using a True by (auto simp: sync_apply_def split: if_splits)
      ultimately show ?thesis using f by simp
    next
      case False
      have new: "ev_id e \<notin> ss_seen a"
      proof
        assume "ev_id e \<in> ss_seen a"
        with f obtain e' where "e' \<in> set L" "ev_id e' = ev_id e" "ev_cursor e' \<le> ss_cursor a"
          by (auto simp: follows_def)
        moreover from this L(1,2) have "ev_cursor e' = ev_cursor e" unfolding one_cursor_def by blast
        ultimately show False using False by simp
      qed
      have a': "r = Inr True" "a' = a\<lparr>ss_seen := insert (ev_id e) (ss_seen a), ss_cursor := ev_cursor e\<rparr>"
        using a new False by (auto simp: sync_apply_def)
      let ?c = "int (unat (ev_cursor e))"
      have "unat (ss_cursor a) < unat (ev_cursor e)" using False by (simp add: word_le_nat_alt)
      then have above: "int (unat (ss_cursor a)) < ?c" by (simp only: of_nat_less_iff)
      have "\<not> list_ex (\<lambda>(_, c', _). c' = ?c) (db_seen (ls_db s))"
      proof
        assume "list_ex (\<lambda>(_, c', _). c' = ?c) (db_seen (ls_db s))"
        then obtain i t where "(i, ?c, t) \<in> set (db_seen (ls_db s))" by (auto simp: list_ex_iff)
        then have "?c \<le> int (unat (ss_cursor a))" using f unfolding follows_def by blast
        with above show False by simp
      qed
      then have run: "\<exists>b. record_sync_event P e s = (Inr True, s\<lparr>ls_db := prune_seen b
          (put_meta CURSOR (decimal (unat (ev_cursor e))) (ls_now s)
            ((ls_db s)\<lparr>db_seen := hm_insert (pf_uuid_text P (ev_id e)) (?c, ls_now s) (db_seen (ls_db s))\<rparr>))\<rparr>)"
        using unseen cursor False L(3)
        by (auto simp: record_sync_event_def transaction_def reads_def writes_def tries_def insert_seen_def
            to_i64_def Let_def bnd_def)
      have "follows P L a' (prune_seen b (put_meta CURSOR (decimal (unat (ev_cursor e))) t
          (d\<lparr>db_seen := hm_insert (pf_uuid_text P (ev_id e)) (?c, t) (db_seen d)\<rparr>)))"
        if d: "follows P L a d" for b t d
      proof -
        let ?seen = "hm_insert (pf_uuid_text P (ev_id e)) (?c, t) (db_seen d)"
        have sub: "set (hm_retain Q ?seen) \<subseteq> insert (pf_uuid_text P (ev_id e), ?c, t) (set (db_seen d))" for Q
          using set_hm_insert_subset [of _ _ "db_seen d"] by (auto simp: hm_retain_def)
        have "hm_contains (pf_uuid_text P u) (hm_retain Q ?seen) \<longrightarrow> u \<in> ss_seen a'" for Q u
        proof
          assume "hm_contains (pf_uuid_text P u) (hm_retain Q ?seen)"
          then have "hm_contains (pf_uuid_text P u) ?seen" by (rule hm_get_retain_imp)
          then show "u \<in> ss_seen a'"
            using d by (auto simp: hm_contains_iff follows_def a' uuid_text_inj [OF P] split: if_splits)
        qed
        moreover have "c \<le> int (unat (ss_cursor a'))" if "(i, c, u) \<in> set (hm_retain Q ?seen)" for i c u Q
        proof -
          from that sub have "(i, c, u) = (pf_uuid_text P (ev_id e), ?c, t) \<or> (i, c, u) \<in> set (db_seen d)" by blast
          then show ?thesis using d above by (fastforce simp: follows_def a')
        qed
        moreover have "\<exists>e'\<in>set L. ev_id e' = u \<and> ev_cursor e' \<le> ss_cursor a'" if "u \<in> ss_seen a'" for u
        proof -
          have "ss_cursor a \<le> ev_cursor e" using False by simp
          with that d L(2) show ?thesis by (fastforce simp: follows_def a' intro: order_trans)
        qed
        ultimately show ?thesis
          by (auto simp: follows_def a' parse_decimal prune_seen_def)
      qed
      with f run a'(1) show ?thesis by fastforce
    qed
  qed
qed


section \<open>The retry schedule\<close>

lemma base_seconds_bounds: "1 \<le> base_seconds n" "base_seconds n \<le> 256"
proof -
  have "nat (min 8 (max 0 n)) \<le> 8" by simp
  then have "(2::int) ^ nat (min 8 (max 0 n)) \<le> 2 ^ 8" by (rule power_increasing) simp
  then show "base_seconds n \<le> 256" by (simp add: base_seconds_def)
qed (simp add: base_seconds_def)

text \<open>After a failed attempt the outbox entry counts it and waits 2^min(8,n) seconds for its n-th attempt,
  lengthened by a random part of at most half of that and cut off at 300 seconds, so never less than 2 seconds;
  its text stays, and no other entry and nothing else in the store changes.\<close>

theorem outbox_backoff_bounds:
  assumes "record_outbox_failure P pick cid code s = (Inr (), s')"
    and "\<And>n. 0 \<le> n \<Longrightarrow> 0 \<le> pick n \<and> pick n \<le> n"
    and "hm_get cid (db_outbox (ls_db s)) = Some r" and "0 \<le> ob_attempt_count r" "ob_attempt_count r < I64_MAX"
  shows "\<exists>r' delay. ls_db s' = (ls_db s)\<lparr>db_outbox := hm_insert cid r' (db_outbox (ls_db s))\<rparr>
    \<and> ob_attempt_count r' = ob_attempt_count r + 1
    \<and> ob_next_attempt_at r' = ls_now s + seconds delay
    \<and> 2 ^ nat (min 8 (ob_attempt_count r + 1)) \<le> delay
    \<and> delay \<le> 3 * 2 ^ nat (min 8 (ob_attempt_count r + 1)) div 2 \<and> 2 \<le> delay \<and> delay \<le> 300
    \<and> ob_payload r' = ob_payload r \<and> ob_conversation_id r' = ob_conversation_id r"
proof -
  let ?n = "ob_attempt_count r + 1"
  let ?b = "base_seconds ?n"
  have n: "next_attempt (ob_attempt_count r) = ?n" using assms(5) by (simp add: next_attempt_def)
  have b: "?b = 2 ^ nat (min 8 ?n)" using assms(4) by (simp add: base_seconds_def)
  have pick: "0 \<le> pick (?b div 2)" "pick (?b div 2) \<le> ?b div 2" using assms(2) base_seconds_bounds(1) [of ?n] by auto
  have "(2::int) ^ 1 \<le> 2 ^ nat (min 8 ?n)" using assms(4) by (intro power_increasing) auto
  then have "2 \<le> ?b" using b by simp
  then have delay: "?b \<le> retry_delay pick ?n" "retry_delay pick ?n \<le> 3 * ?b div 2" "2 \<le> retry_delay pick ?n"
    "retry_delay pick ?n \<le> 300"
    using pick base_seconds_bounds(2) [of ?n] unfolding retry_delay_def by linarith+
  from assms(1,3) have "ls_db s' = (ls_db s)\<lparr>db_outbox := hm_insert cid
      (r\<lparr>ob_attempt_count := ?n, ob_next_attempt_at := ls_now s + seconds (retry_delay pick ?n),
         ob_last_error_code := Some code, ob_updated_at := ls_now s\<rparr>) (db_outbox (ls_db s))\<rparr>"
    by (auto simp: record_outbox_failure_def reads_def writes_def set_outbox_def n Let_def
        split: sum.splits if_splits)
  with delay show ?thesis
    by (intro exI [of _ "r\<lparr>ob_attempt_count := ?n, ob_next_attempt_at := ls_now s + seconds (retry_delay pick ?n),
         ob_last_error_code := Some code, ob_updated_at := ls_now s\<rparr>"] exI [of _ "retry_delay pick ?n"])
      (simp add: b)
qed

section \<open>Leaving an account\<close>

text \<open>Clearing the account's cache always succeeds and leaves no profile, conversation, message, draft,
  outbox entry, search entry or snapshot; the cursor is back at zero; settings and the encryption mode stay.\<close>

theorem clear_account_cache_forgets:
  assumes "client_reach P s" and "platform_ok P"
  shows "\<exists>s'. clear_account_cache s = (Inr (), s') \<and> ls_key s' = ls_key s \<and>
    db_users (ls_db s') = [] \<and> db_conversations (ls_db s') = [] \<and> db_messages (ls_db s') = [] \<and>
    db_search (ls_db s') = [] \<and> db_drafts (ls_db s') = [] \<and> db_outbox (ls_db s') = [] \<and>
    db_seen (ls_db s') = [] \<and> db_settings (ls_db s') = db_settings (ls_db s) \<and>
    load_bootstrap P s' = (Inr None, s') \<and> sync_cursor s' = (Inr 0, s') \<and>
    (meta_value ENCRYPTION (ls_db s') = meta_value ENCRYPTION (ls_db s))"
proof -
  let ?m = "hm_retain (\<lambda>k _. k = CURSOR \<or> k = ENCRYPTION) (db_meta (ls_db s))"
  have m: "hm_get j ?m = (if j = CURSOR \<or> j = ENCRYPTION then hm_get j (db_meta (ls_db s)) else None)" for j
    by (simp add: hm_get_def hm_retain_def map_of_filter_key)
  have zero: "parse_u64 [48] = Some 0" by (simp add: parse_u64_def is_ascii_digit_def)
  show ?thesis
    by (auto simp: clear_account_cache_def transaction_def writes_def load_bootstrap_def sync_cursor_def
        reads_def stored_cursor_def meta_value_def m put_meta_def zero hm_contains_def split: option.splits)
qed

end
