(* ===== verification/Qr_Login.thy ===== *)
theory Qr_Login
  imports Sessions
begin

text \<open>
  Login by QR code (\<open>crates/application/src/service.rs\<close>, lines 1005-1109).  A challenge lives outside
  the store, in \<open>svc_qr_logins\<close>: a new device begins it and shows the secret, a signed-in device
  approves it, and the new device polls until it gets its session, once.
\<close>

section \<open>Operations\<close>

record qr_login_challenge_info =
  qri_challenge_id :: uuid
  qri_secret :: rstr
  qri_qr_payload :: rstr
  qri_expires_at :: datetime

definition begin_qr_login ::
  "crypto \<Rightarrow> rstr \<Rightarrow> rstr \<Rightarrow> rstr \<Rightarrow> datetime \<Rightarrow> qr_login_challenge_info svc" where
  "begin_qr_login C device_name platform app_version now =
     bnd (checked (validate_device_name device_name)) (\<lambda>_.
     bnd (checked (validate_device_metadata platform app_version)) (\<lambda>_.
     bnd (drawing new_uuid) (\<lambda>challenge_id.
     bnd (drawing random_token) (\<lambda>secret.
     let expires_at = now + minutes 5 in
     bnd (modify (\<lambda>sv. sv\<lparr>svc_qr_logins := hm_insert challenge_id
            \<lparr>qr_secret_hash = hash_token C secret, qr_approved_user_id = None,
             qr_device_name = device_name, qr_platform = platform, qr_app_version = app_version,
             qr_expires_at = expires_at\<rparr> (svc_qr_logins sv)\<rparr>)) (\<lambda>_.
     ret \<lparr>qri_challenge_id = challenge_id, qri_secret = secret,
          qri_qr_payload = lit ''iamrust://auth/qr-login?challenge_id='' @ c_uuid_text C challenge_id
            @ lit ''&secret='' @ secret,
          qri_expires_at = expires_at\<rparr>)))))"

definition prune_qr_logins :: "datetime \<Rightarrow> unit svc" where
  "prune_qr_logins now = modify (\<lambda>sv. sv\<lparr>svc_qr_logins :=
     hm_retain (\<lambda>_ challenge. qr_expires_at challenge > now) (svc_qr_logins sv)\<rparr>)"

text \<open>The challenge, for a caller that knows its secret.\<close>

definition verified_challenge :: "crypto \<Rightarrow> uuid \<Rightarrow> rstr \<Rightarrow> qr_login_challenge svc" where
  "verified_challenge C challenge_id secret =
     bnd (gets (\<lambda>sv. hm_get challenge_id (svc_qr_logins sv))) (\<lambda>c.
     bnd (lift (ok_or c NotFound)) (\<lambda>challenge.
     bnd (fail_if (\<not> secure_eq (qr_secret_hash challenge) (hash_token C secret)) NotFound) (\<lambda>_.
     ret challenge)))"

definition approve_qr_login :: "crypto \<Rightarrow> user_id \<Rightarrow> uuid \<Rightarrow> rstr \<Rightarrow> datetime \<Rightarrow> unit svc" where
  "approve_qr_login C actor challenge_id secret now =
     bnd (prune_qr_logins now) (\<lambda>_.
     bnd (verified_challenge C challenge_id secret) (\<lambda>challenge.
     bnd (fail_if (qr_approved_user_id challenge \<noteq> None) Conflict) (\<lambda>_.
     modify (\<lambda>sv. sv\<lparr>svc_qr_logins :=
       hm_insert challenge_id (challenge\<lparr>qr_approved_user_id := Some actor\<rparr>) (svc_qr_logins sv)\<rparr>))))"

definition qr_session_tx ::
  "crypto \<Rightarrow> user_id \<Rightarrow> qr_login_challenge \<Rightarrow> datetime \<Rightarrow> authenticated_session tx" where
  "qr_session_tx C user_id challenge now =
     bnd (gets (\<lambda>s. active_account s user_id)) (\<lambda>a.
     bnd (lift (ok_or a Unauthorized)) (\<lambda>a.
     bnd new_uuid (\<lambda>d.
     bnd (add_device (DeviceId d) user_id (qr_device_name challenge) (qr_platform challenge)
            (qr_app_version challenge) now) (\<lambda>_.
     issue_session C user_id (DeviceId d) (acc_profile a) now))))"

definition poll_qr_login ::
  "crypto \<Rightarrow> uuid \<Rightarrow> rstr \<Rightarrow> datetime \<Rightarrow> (authenticated_session option) svc" where
  "poll_qr_login C challenge_id secret now =
     bnd (prune_qr_logins now) (\<lambda>_.
     bnd (verified_challenge C challenge_id secret) (\<lambda>challenge.
     case qr_approved_user_id challenge of
       None \<Rightarrow> ret None
     | Some user_id \<Rightarrow>
         bnd (modify (\<lambda>sv. sv\<lparr>svc_qr_logins := hm_remove challenge_id (svc_qr_logins sv)\<rparr>)) (\<lambda>_.
         bnd (mutate (qr_session_tx C user_id challenge now)) (\<lambda>session. ret (Some session)))))"

section \<open>Guarantees\<close>

lemma progress_qr_session_tx [guar_intros]: "guar progress (qr_session_tx C u c now)"
  unfolding qr_session_tx_def by (intro guar_intros)

lemma svc_progress_qr [guar_intros]:
  "guar svc_progress (begin_qr_login C n p v now)"
  "guar svc_progress (approve_qr_login C actor i secret now)"
  "guar svc_progress (poll_qr_login C i secret now)"
  unfolding begin_qr_login_def approve_qr_login_def poll_qr_login_def prune_qr_logins_def
    verified_challenge_def Let_def
  by (intro guar_intros; simp)+

end
