(* ===== verification/Realtime.thy ===== *)
theory Realtime
  imports Profiles Qr_Login
begin

text \<open>
  Signals that are not stored, and administration (\<open>crates/application/src/service.rs\<close>, lines
  409-662 and 4085-4158): call rooms and call signals, typing, the count of a user's connections and
  the presence that follows from it, suspension and the audit log.
\<close>

section \<open>Call rooms\<close>

definition CALL_ROOM_TTL_MINUTES :: int where "CALL_ROOM_TTL_MINUTES = 180"

definition put_room :: "conversation_id \<times> uuid \<Rightarrow> call_room \<Rightarrow> unit svc" where
  "put_room key room = modify (\<lambda>sv. sv\<lparr>svc_call_rooms := hm_insert key room (svc_call_rooms sv)\<rparr>)"

definition room_at :: "conversation_id \<times> uuid \<Rightarrow> call_room svc" where
  "room_at key = bnd (gets (\<lambda>sv. hm_get key (svc_call_rooms sv))) (\<lambda>r. lift (ok_or r NotFound))"

definition relay_in_room ::
  "user_id \<Rightarrow> conversation_id \<times> uuid \<Rightarrow> user_id option \<Rightarrow> datetime \<Rightarrow> (user_id list option) svc" where
  "relay_in_room actor key target expires_at =
     bnd (room_at key) (\<lambda>room.
     bnd (fail_if (actor \<notin> room_participants room
                   \<or> (case target of None \<Rightarrow> False | Some t \<Rightarrow> t \<notin> room_participants room))
            forbidden) (\<lambda>_.
     bnd (put_room key (room\<lparr>room_expires_at := expires_at\<rparr>)) (\<lambda>_.
     ret None)))"

definition leave_room :: "user_id \<Rightarrow> datetime \<Rightarrow> conversation_id \<times> uuid \<Rightarrow> service \<Rightarrow> service" where
  "leave_room actor expires_at key sv =
     (case hm_get key (svc_call_rooms sv) of
        None \<Rightarrow> sv
      | Some room \<Rightarrow>
          let participants = room_participants room - {actor} in
          sv\<lparr>svc_call_rooms :=
            (if participants = {} then hm_remove key (svc_call_rooms sv)
             else hm_insert key \<lparr>room_participants = participants, room_expires_at = expires_at\<rparr>
                    (svc_call_rooms sv))\<rparr>)"

definition prune_rooms :: "datetime \<Rightarrow> unit svc" where
  "prune_rooms now = modify (\<lambda>sv. sv\<lparr>svc_call_rooms :=
     hm_retain (\<lambda>_ room. room_expires_at room > now) (svc_call_rooms sv)\<rparr>)"

fun room_transition ::
  "user_id \<Rightarrow> conversation_id \<times> uuid \<Rightarrow> user_id option \<Rightarrow> datetime \<Rightarrow> call_signal
     \<Rightarrow> (user_id list option) svc" where
  "room_transition actor key target expires_at (CallInvite video) =
     bnd (gets (\<lambda>sv. hm_contains key (svc_call_rooms sv))) (\<lambda>exists.
     bnd (fail_if exists Conflict) (\<lambda>_.
     bnd (put_room key \<lparr>room_participants = {actor}, room_expires_at = expires_at\<rparr>) (\<lambda>_.
     ret None)))"
| "room_transition actor key target expires_at CallAccept =
     bnd (room_at key) (\<lambda>room.
     bnd (put_room key \<lparr>room_participants = insert actor (room_participants room),
                        room_expires_at = expires_at\<rparr>) (\<lambda>_.
     ret (Some (sorted_list_of_set (insert actor (room_participants room))))))"
| "room_transition actor key target expires_at (CallOffer sdp) = relay_in_room actor key target expires_at"
| "room_transition actor key target expires_at (CallAnswer sdp) = relay_in_room actor key target expires_at"
| "room_transition actor key target expires_at (CallIceCandidate c m l) =
     relay_in_room actor key target expires_at"
| "room_transition actor key target expires_at CallHangup =
     bnd (modify (leave_room actor expires_at key)) (\<lambda>_. ret None)"
| "room_transition actor key target expires_at CallReject = ret None"
| "room_transition actor key target expires_at CallBusy = ret None"
| "room_transition actor key target expires_at (CallParticipants us) = ret None"

definition update_call_room ::
  "user_id \<Rightarrow> conversation_id \<Rightarrow> uuid \<Rightarrow> user_id option \<Rightarrow> call_signal \<Rightarrow> datetime
     \<Rightarrow> (user_id list option) svc" where
  "update_call_room actor cid call_id target signal now =
     bnd (prune_rooms now) (\<lambda>_.
     room_transition actor (cid, call_id) target (now + minutes CALL_ROOM_TTL_MINUTES) signal)"

fun oversized_signal :: "call_signal \<Rightarrow> bool" where
  "oversized_signal (CallOffer sdp) \<longleftrightarrow> byte_len sdp > 262144"
| "oversized_signal (CallAnswer sdp) \<longleftrightarrow> byte_len sdp > 262144"
| "oversized_signal (CallIceCandidate candidate m l) \<longleftrightarrow> byte_len candidate > 8192"
| "oversized_signal _ \<longleftrightarrow> False"

fun is_participants :: "call_signal \<Rightarrow> bool" where
  "is_participants (CallParticipants _) = True"
| "is_participants _ = False"

definition signal_recipients ::
  "'z store_scheme \<Rightarrow> user_id \<Rightarrow> conversation_id \<Rightarrow> user_id option \<Rightarrow> datetime
     \<Rightarrow> application_error + user_id list" where
  "signal_recipients s actor cid target now =
     and_then (ok_or (hm_get cid (st_conversations s)) NotFound) (\<lambda>c.
     and_then (err_if (\<not> can_send c actor now) forbidden) (\<lambda>_.
     case target of
       Some t \<Rightarrow> if t = actor \<or> \<not> bt_contains t (conv_members c) then Inl forbidden else Inr [t]
     | None \<Rightarrow> Inr (filter (\<lambda>u. u \<noteq> actor) (member_ids c))))"

definition send_call :: "user_id list \<Rightarrow> call_signal_delivery \<Rightarrow> unit svc" where
  "send_call recipients delivery =
     modify (\<lambda>sv. sv\<lparr>svc_calls := svc_calls sv @ [(recipients, delivery)]\<rparr>)"

definition publish_call_signal ::
  "user_id \<Rightarrow> conversation_id \<Rightarrow> uuid \<Rightarrow> user_id option \<Rightarrow> call_signal \<Rightarrow> datetime \<Rightarrow> unit svc" where
  "publish_call_signal actor cid call_id target signal now =
     bnd (fail_if (oversized_signal signal \<or> call_id = 0)
            (invalid ''call_signal'' ''invalid_payload'')) (\<lambda>_.
     bnd (fail_if (is_participants signal) forbidden) (\<lambda>_.
     bnd (gets (\<lambda>sv. signal_recipients (svc_txn sv) actor cid target now)) (\<lambda>r.
     bnd (lift r) (\<lambda>recipients.
     bnd (update_call_room actor cid call_id target signal now) (\<lambda>participant_roster.
     bnd (send_call recipients \<lparr>cd_conversation_id = cid, cd_call_id = call_id,
            cd_from_user_id = actor, cd_signal = signal\<rparr>) (\<lambda>_.
     case participant_roster of
       None \<Rightarrow> ret ()
     | Some user_ids \<Rightarrow>
         send_call user_ids \<lparr>cd_conversation_id = cid, cd_call_id = call_id,
           cd_from_user_id = actor, cd_signal = CallParticipants user_ids\<rparr>))))))"

section \<open>Typing\<close>

definition publish_typing :: "user_id \<Rightarrow> conversation_id \<Rightarrow> bool \<Rightarrow> datetime \<Rightarrow> unit svc" where
  "publish_typing actor cid active now =
     bnd (gets (\<lambda>sv. hm_get cid (st_conversations (svc_txn sv)))) (\<lambda>c.
     bnd (lift (ok_or c NotFound)) (\<lambda>c.
     bnd (fail_if (\<not> can_read c actor) forbidden) (\<lambda>_.
     modify (\<lambda>sv. sv\<lparr>svc_typing := svc_typing sv @
       [(filter (\<lambda>u. u \<noteq> actor) (member_ids c),
         \<lparr>ts_conversation_id = cid, ts_user_id = actor, ts_active = active,
          ts_expires_at = now + seconds 6\<rparr>)]\<rparr>))))"

section \<open>Connections\<close>

definition set_connection_presence_tx :: "user_id \<Rightarrow> bool \<Rightarrow> datetime \<Rightarrow> unit tx" where
  "set_connection_presence_tx actor connected now =
     bnd (gets (\<lambda>s. case hm_get actor (st_preferred_presence s) of
              None \<Rightarrow> Online | Some p \<Rightarrow> p)) (\<lambda>preferred.
     bnd (get_live_account actor) (\<lambda>a.
     let profile = (acc_profile a)\<lparr>prof_presence := (if connected then preferred else Offline),
                                   prof_last_seen_at := Some now\<rparr> in
     bnd (put_account actor (a\<lparr>acc_profile := profile\<rparr>)) (\<lambda>_.
     append_profile_events actor profile now)))"

definition set_connection_presence :: "user_id \<Rightarrow> bool \<Rightarrow> datetime \<Rightarrow> unit svc" where
  "set_connection_presence actor connected now =
     mutate (set_connection_presence_tx actor connected now)"

text \<open>\<open>if let Err(error) = m { h; return Err(error) }\<close>; a panic does not run \<open>h\<close>.\<close>

definition on_error :: "'a svc \<Rightarrow> (service \<Rightarrow> service) \<Rightarrow> 'a svc" where
  "on_error m h = (\<lambda>sv. case m sv of
     (Inl (Panicked why), sv') \<Rightarrow> (Inl (Panicked why), sv')
   | (Inl e, sv') \<Rightarrow> (Inl e, h sv')
   | (Inr x, sv') \<Rightarrow> (Inr x, sv'))"

definition forget_connections :: "user_id \<Rightarrow> service \<Rightarrow> service" where
  "forget_connections actor sv = sv\<lparr>svc_connections := hm_remove actor (svc_connections sv)\<rparr>"

definition connection_count :: "service \<Rightarrow> user_id \<Rightarrow> u64" where
  "connection_count sv u = (case hm_get u (svc_connections sv) of None \<Rightarrow> 0 | Some n \<Rightarrow> n)"

definition connection_opened :: "user_id \<Rightarrow> datetime \<Rightarrow> unit svc" where
  "connection_opened actor now =
     bnd (modify (\<lambda>sv. sv\<lparr>svc_connections :=
            hm_upd_default actor 0 (\<lambda>count. sat_add count 1) (svc_connections sv)\<rparr>)) (\<lambda>_.
     bnd (gets (\<lambda>sv. connection_count sv actor = 1)) (\<lambda>first.
     if \<not> first then ret ()
     else on_error (set_connection_presence actor True now) (forget_connections actor)))"

definition connection_closed :: "user_id \<Rightarrow> datetime \<Rightarrow> unit svc" where
  "connection_closed actor now =
     bnd (gets (\<lambda>sv. hm_get actor (svc_connections sv))) (\<lambda>count.
     case count of
       None \<Rightarrow> ret ()
     | Some count \<Rightarrow>
         let count = sat_sub count 1 in
         if count = 0
         then bnd (modify (forget_connections actor)) (\<lambda>_. set_connection_presence actor False now)
         else modify (\<lambda>sv. sv\<lparr>svc_connections := hm_insert actor count (svc_connections sv)\<rparr>))"

section \<open>Administration\<close>

definition append_audit :: "rstr \<Rightarrow> user_id \<Rightarrow> datetime \<Rightarrow> unit tx" where
  "append_audit action target now =
     bnd new_uuid (\<lambda>fresh.
     modify (\<lambda>s. s\<lparr>st_audit_events := st_audit_events s @
       [\<lparr>aud_id = fresh, aud_actor_id = None, aud_action = action,
         aud_target_user_id = Some target, aud_outcome = lit ''success'', aud_created_at = now\<rparr>]\<rparr>))"

definition admin_set_user_suspended_tx :: "user_id \<Rightarrow> bool \<Rightarrow> datetime \<Rightarrow> unit tx" where
  "admin_set_user_suspended_tx target suspended now =
     bnd (get_live_account target) (\<lambda>a.
     bnd (put_account target (a\<lparr>acc_suspended := suspended\<rparr>)) (\<lambda>_.
     bnd (if suspended then revoke_user_sessions target (Some now) else ret ()) (\<lambda>_.
     append_audit (if suspended then lit ''user.suspend'' else lit ''user.restore'') target now)))"

definition admin_set_user_suspended :: "user_id \<Rightarrow> bool \<Rightarrow> datetime \<Rightarrow> unit svc" where
  "admin_set_user_suspended target suspended now =
     mutate (admin_set_user_suspended_tx target suspended now)"

definition admin_revoke_user_sessions_tx :: "user_id \<Rightarrow> datetime \<Rightarrow> unit tx" where
  "admin_revoke_user_sessions_tx target now =
     bnd (get_live_account target) (\<lambda>_.
     bnd (revoke_user_sessions target (Some now)) (\<lambda>_.
     append_audit (lit ''sessions.revoke'') target now))"

definition admin_revoke_user_sessions :: "user_id \<Rightarrow> datetime \<Rightarrow> unit svc" where
  "admin_revoke_user_sessions target now = mutate (admin_revoke_user_sessions_tx target now)"

definition admin_audit :: "'z store_scheme \<Rightarrow> nat \<Rightarrow> admin_audit_entry list" where
  "admin_audit s limit =
     take (max 1 (min 500 limit))
       (sort_key (\<lambda>e. - aud_created_at e)
         (st_audit_events s @
          map (\<lambda>r. \<lparr>aud_id = ur_id r, aud_actor_id = Some (ur_reporter_id r),
                     aud_action = lit ''report.'' @ ur_reason r,
                     aud_target_user_id = Some (ur_reported_id r),
                     aud_outcome = lit ''recorded'', aud_created_at = ur_created_at r\<rparr>)
            (st_reports s)))"

section \<open>Guarantees\<close>

lemma svc_progress_rooms [guar_intros]:
  "guar svc_progress (put_room key room)"
  "guar svc_progress (room_at key)"
  "guar svc_progress (send_call us d)"
  "guar svc_progress (prune_rooms now)"
  unfolding put_room_def room_at_def send_call_def prune_rooms_def by (intro guar_intros; simp)+

lemma svc_txn_leave_room [simp]: "svc_txn (leave_room actor t key sv) = svc_txn sv"
  by (simp add: leave_room_def Let_def split: option.split)

lemma svc_events_leave_room [simp]: "svc_events (leave_room actor t key sv) = svc_events sv"
  by (simp add: leave_room_def Let_def split: option.split)

lemma svc_progress_room_transition [guar_intros]:
  "guar svc_progress (room_transition actor key target t signal)"
  by (cases signal) (simp_all add: relay_in_room_def, (intro guar_intros; simp)+)

lemma svc_progress_signals [guar_intros]:
  "guar svc_progress (update_call_room actor cid i target signal now)"
  "guar svc_progress (publish_typing actor cid active now)"
  unfolding update_call_room_def publish_typing_def by (intro guar_intros; simp)+

lemma svc_progress_publish_call_signal [guar_intros]:
  "guar svc_progress (publish_call_signal actor cid i target signal now)"
  unfolding publish_call_signal_def by (intro guar_intros)

lemma guar_on_error:
  assumes "guar svc_progress m" "\<And>sv. svc_progress sv (h sv)"
  shows "guar svc_progress (on_error m h)"
  using guarD [OF assms(1)] svc_progress.trans [OF guarD [OF assms(1)] assms(2)]
  by (auto simp: guar_def on_error_def split: prod.split sum.split application_error.split)

lemma forget_connections_fields [simp]:
  "svc_txn (forget_connections actor sv) = svc_txn sv"
  "svc_events (forget_connections actor sv) = svc_events sv"
  by (simp_all add: forget_connections_def)

lemma progress_presence_tx [guar_intros]:
  "guar progress (set_connection_presence_tx actor connected now)"
  unfolding set_connection_presence_tx_def Let_def by (intro guar_intros)

lemma svc_progress_connections [guar_intros]:
  "guar svc_progress (set_connection_presence actor connected now)"
  "guar svc_progress (connection_opened actor now)"
  "guar svc_progress (connection_closed actor now)"
  unfolding set_connection_presence_def connection_opened_def connection_closed_def Let_def
  by (intro guar_intros guar_on_error; simp)+

lemma progress_append_audit [guar_intros]: "guar progress (append_audit action target now)"
  unfolding append_audit_def by (intro guar_intros) simp

lemma progress_admin [guar_intros]:
  "guar progress (admin_set_user_suspended_tx target suspended now)"
  "guar progress (admin_revoke_user_sessions_tx target now)"
  unfolding admin_set_user_suspended_tx_def admin_revoke_user_sessions_tx_def
  by (intro guar_intros)+

lemma svc_progress_admin [guar_intros]:
  "guar svc_progress (admin_set_user_suspended target suspended now)"
  "guar svc_progress (admin_revoke_user_sessions target now)"
  unfolding admin_set_user_suspended_def admin_revoke_user_sessions_def by (intro guar_intros)+

end
