(* ===== verification/Schedule.thy ===== *)
theory Schedule
  imports Messaging Profiles
begin

text \<open>
  Scheduled messages (\<open>crates/application/src/service.rs\<close>, lines 3375-3532): scheduling, listing,
  cancelling, and the pass over the due messages that a timer of the server runs.
\<close>

section \<open>Operations\<close>

definition schedule_message_tx ::
  "user_id \<Rightarrow> schedule_message_request \<Rightarrow> user_id list \<Rightarrow> datetime \<Rightarrow> scheduled_message_response tx" where
  "schedule_message_tx actor request mentions now =
     (let cid = sch_conversation_id request; client_message_id = sch_client_message_id request in
      bnd (gets (\<lambda>s. validate_message_mentions s actor cid (sch_content request) mentions
                       (sch_mention_all request))) (\<lambda>mentions_ok.
      bnd (lift mentions_ok) (\<lambda>_.
      bnd (get_conversation cid) (\<lambda>c.
      bnd (fail_if (\<not> can_send c actor now) forbidden) (\<lambda>_.
      bnd (gets (\<lambda>s. list_ex (\<lambda>m. sched_actor m = actor \<and> sched_client_message_id m = client_message_id)
                         (st_scheduled_messages s)
                       \<or> hm_contains (actor, client_message_id) (st_message_dedup s))) (\<lambda>known.
      bnd (fail_if known Conflict) (\<lambda>_.
      bnd new_uuid (\<lambda>fresh.
      bnd (modify (\<lambda>s. s\<lparr>st_scheduled_messages := st_scheduled_messages s @
             [\<lparr>sched_id = fresh, sched_actor = actor, sched_conversation_id = cid,
               sched_client_message_id = client_message_id, sched_content = sch_content request,
               sched_reply_to = sch_reply_to request, sched_mentions = mentions,
               sched_mention_all = sch_mention_all request,
               sched_scheduled_for = sch_scheduled_for request,
               sched_expires_in_seconds = sch_expires_in_seconds request\<rparr>]\<rparr>)) (\<lambda>_.
      ret \<lparr>schr_schedule_id = fresh, schr_scheduled_for = sch_scheduled_for request\<rparr>)))))))))"

definition schedule_message ::
  "user_id \<Rightarrow> schedule_message_request \<Rightarrow> datetime \<Rightarrow> scheduled_message_response svc" where
  "schedule_message actor request now =
     bnd (checked (content_validate (sch_content request))) (\<lambda>_.
     if sch_scheduled_for request < now + seconds 10
        \<or> sch_scheduled_for request > now + days 30
        \<or> invalid_expiry (sch_expires_in_seconds request)
     then throw (invalid ''scheduled_for'' ''invalid_range'')
     else mutate (schedule_message_tx actor request
                    (remdups_adj (sort (sch_mentions request))) now))"

definition scheduled_messages :: "'z store_scheme \<Rightarrow> user_id \<Rightarrow> scheduled_message_info list" where
  "scheduled_messages s actor =
     sort_key schi_scheduled_for
       (map (\<lambda>m. \<lparr>schi_schedule_id = sched_id m, schi_conversation_id = sched_conversation_id m,
                  schi_content = sched_content m, schi_reply_to = sched_reply_to m,
                  schi_mentions = sched_mentions m, schi_mention_all = sched_mention_all m,
                  schi_scheduled_for = sched_scheduled_for m,
                  schi_expires_in_seconds = sched_expires_in_seconds m\<rparr>)
         (filter (\<lambda>m. sched_actor m = actor) (st_scheduled_messages s)))"

definition cancel_scheduled_message_tx :: "user_id \<Rightarrow> uuid \<Rightarrow> unit tx" where
  "cancel_scheduled_message_tx actor schedule_id =
     bnd (gets (\<lambda>s. length (st_scheduled_messages s))) (\<lambda>before.
     bnd (modify (\<lambda>s. s\<lparr>st_scheduled_messages :=
            filter (\<lambda>m. \<not> (sched_id m = schedule_id \<and> sched_actor m = actor))
              (st_scheduled_messages s)\<rparr>)) (\<lambda>_.
     bnd (gets (\<lambda>s. length (st_scheduled_messages s))) (\<lambda>after.
     fail_if (before = after) NotFound)))"

definition cancel_scheduled_message :: "user_id \<Rightarrow> uuid \<Rightarrow> unit svc" where
  "cancel_scheduled_message actor schedule_id = mutate (cancel_scheduled_message_tx actor schedule_id)"

section \<open>Delivery of what is due\<close>

text \<open>\<open>.await.is_ok()\<close>: an error is swallowed, a panic is not.\<close>

definition is_ok :: "'a svc \<Rightarrow> bool svc" where
  "is_ok m = (\<lambda>sv. case m sv of
     (Inl (Panicked why), sv') \<Rightarrow> (Inl (Panicked why), sv')
   | (Inl e, sv') \<Rightarrow> (Inr False, sv')
   | (Inr x, sv') \<Rightarrow> (Inr True, sv'))"

definition scheduled_request :: "scheduled_message \<Rightarrow> send_message_request" where
  "scheduled_request m = \<lparr>sm_client_message_id = sched_client_message_id m,
     sm_content = sched_content m, sm_reply_to = sched_reply_to m, sm_mentions = sched_mentions m,
     sm_mention_all = sched_mention_all m, sm_expires_in_seconds = sched_expires_in_seconds m\<rparr>"

definition unschedule_tx :: "uuid \<Rightarrow> unit tx" where
  "unschedule_tx i = modify (\<lambda>s. s\<lparr>st_scheduled_messages :=
     filter (\<lambda>m. sched_id m \<noteq> i) (st_scheduled_messages s)\<rparr>)"

definition deliver_scheduled :: "scheduled_message \<Rightarrow> datetime \<Rightarrow> bool svc" where
  "deliver_scheduled m now =
     bnd (is_ok (send_message_request (sched_actor m) (sched_conversation_id m)
                   (scheduled_request m) now)) (\<lambda>sent.
     if sent then is_ok (mutate (unschedule_tx (sched_id m))) else ret False)"

fun deliver_loop :: "scheduled_message list \<Rightarrow> datetime \<Rightarrow> nat \<Rightarrow> nat svc" where
  "deliver_loop [] now delivered = ret delivered"
| "deliver_loop (m # ms) now delivered =
     bnd (deliver_scheduled m now) (\<lambda>ok. deliver_loop ms now (if ok then delivered + 1 else delivered))"

definition deliver_due_messages :: "datetime \<Rightarrow> nat svc" where
  "deliver_due_messages now =
     bnd (gets (\<lambda>sv. filter (\<lambda>m. sched_scheduled_for m \<le> now)
                       (st_scheduled_messages (svc_txn sv)))) (\<lambda>due.
     deliver_loop due now 0)"

section \<open>Guarantees\<close>

lemma progress_schedule [guar_intros]:
  "guar progress (schedule_message_tx actor request mentions now)"
  "guar progress (cancel_scheduled_message_tx actor i)"
  "guar progress (unschedule_tx i)"
  unfolding schedule_message_tx_def cancel_scheduled_message_tx_def unschedule_tx_def Let_def
  by (intro guar_intros; simp)+

lemma snd_is_ok [simp]: "snd (is_ok m sv) = snd (m sv)"
  by (auto simp: is_ok_def split: prod.split sum.split application_error.split)

lemma guar_is_ok [guar_intros]: "guar R m \<Longrightarrow> guar R (is_ok m)"
  by (simp add: guar_def)

lemma svc_progress_deliver_loop [guar_intros]: "guar svc_progress (deliver_loop ms now n)"
proof (induction ms arbitrary: n)
  case (Cons m ms)
  then show ?case
    unfolding deliver_loop.simps deliver_scheduled_def by (intro guar_intros)
qed (simp add: guar_intros)

lemma svc_progress_schedule [guar_intros]:
  "guar svc_progress (schedule_message actor request now)"
  "guar svc_progress (cancel_scheduled_message actor i)"
  "guar svc_progress (deliver_due_messages now)"
  unfolding schedule_message_def cancel_scheduled_message_def deliver_due_messages_def
  by (intro guar_intros)+

end
