(* ===== verification/Attachments.thy ===== *)
theory Attachments
  imports Messaging Profiles
begin

text \<open>
  Attachments and stickers (\<open>crates/application/src/service.rs\<close>, lines 1573-1821 and 4375-4436).  An
  upload is authorised, then completed or quarantined; until completed it is not available and
  expires.  The bytes themselves are in the object store, outside this model.
\<close>

section \<open>Metadata\<close>

definition MIB :: u64 where "MIB = 1024 * 1024"

definition validate_attachment_metadata ::
  "rstr \<Rightarrow> rstr \<Rightarrow> u64 \<Rightarrow> rstr option \<Rightarrow> domain_error + unit" where
  "validate_attachment_metadata file_name mime_type byte_size sha256 =
     (let file_name = trim file_name;
          mime_type = to_ascii_lowercase (trim mime_type);
          maximum = (if starts_with (lit ''image/'') mime_type \<or> starts_with (lit ''audio/'') mime_type
                     then 25 * MIB else 100 * MIB)
      in
      and_then (err_if (file_name = [] \<or> length file_name > 255
                        \<or> list_ex (\<lambda>c. c = 47 \<or> c = 92 \<or> c = 0) file_name
                        \<or> file_name = lit ''.'' \<or> file_name = lit ''..'')
                  (Validation ''file_name'' ''unsafe_name'')) (\<lambda>_.
      and_then (err_if (byte_size = 0 \<or> byte_size > maximum)
                  (Validation ''byte_size'' ''invalid_range'')) (\<lambda>_.
      and_then (err_if (byte_len mime_type > 127 \<or> 47 \<notin> set mime_type
                        \<or> list_ex is_whitespace mime_type)
                  (Validation ''mime_type'' ''invalid_value'')) (\<lambda>_.
      err_if (case sha256 of None \<Rightarrow> False
              | Some h \<Rightarrow> byte_len h \<noteq> 64 \<or> \<not> list_all is_ascii_hexdigit h)
        (Validation ''sha256'' ''invalid_value'')))))"

definition attachment_kind_for_mime :: "rstr \<Rightarrow> attachment_kind" where
  "attachment_kind_for_mime mime_type =
     (if starts_with (lit ''image/'') mime_type then KImage
      else if starts_with (lit ''audio/'') mime_type then KAudio
      else if starts_with (lit ''video/'') mime_type then KVideo
      else KFile)"

section \<open>The life of an upload\<close>

record attachment_authorization =
  aa_attachment :: attachment
  aa_expires_at :: datetime

definition put_attachment :: "attachment_id \<Rightarrow> pending_attachment \<Rightarrow> unit tx" where
  "put_attachment i p = modify (\<lambda>s. s\<lparr>st_attachments := hm_insert i p (st_attachments s)\<rparr>)"

definition authorized_attachment ::
  "crypto \<Rightarrow> attachment_id \<Rightarrow> user_id \<Rightarrow> rstr \<Rightarrow> rstr \<Rightarrow> u64 \<Rightarrow> rstr option \<Rightarrow> attachment" where
  "authorized_attachment C i actor file_name mime_type byte_size sha256 =
     \<lparr>att_id = i, att_kind = attachment_kind_for_mime mime_type, att_file_name = trim file_name,
      att_mime_type = to_ascii_lowercase (trim mime_type), att_byte_size = byte_size,
      att_sha256 = map_option to_ascii_lowercase sha256,
      att_storage_key = lit ''uploads/'' @ c_uuid_text C (user_uuid actor) @ lit ''/''
        @ c_uuid_text C (attachment_uuid i),
      att_thumbnail_key = None\<rparr>"

definition authorize_attachment_tx ::
  "user_id \<Rightarrow> attachment \<Rightarrow> datetime \<Rightarrow> attachment_authorization tx" where
  "authorize_attachment_tx actor a expires_at =
     bnd (put_attachment (att_id a) \<lparr>pa_attachment = a, pa_owner_id = actor,
            pa_expires_at = expires_at, pa_available = False, pa_quarantined = False\<rparr>) (\<lambda>_.
     ret \<lparr>aa_attachment = a, aa_expires_at = expires_at\<rparr>)"

definition authorize_attachment ::
  "crypto \<Rightarrow> user_id \<Rightarrow> rstr \<Rightarrow> rstr \<Rightarrow> u64 \<Rightarrow> rstr option \<Rightarrow> datetime
     \<Rightarrow> attachment_authorization svc" where
  "authorize_attachment C actor file_name mime_type byte_size sha256 now =
     bnd (checked (validate_attachment_metadata file_name mime_type byte_size sha256)) (\<lambda>_.
     bnd (drawing new_uuid) (\<lambda>fresh.
     mutate (authorize_attachment_tx actor
       (authorized_attachment C (AttachmentId fresh) actor file_name mime_type byte_size sha256)
       (now + minutes 10))))"

definition owned_pending :: "user_id \<Rightarrow> pending_attachment option \<Rightarrow> pending_attachment option" where
  "owned_pending actor p = (case p of
     None \<Rightarrow> None | Some pending \<Rightarrow> if pa_owner_id pending = actor then Some pending else None)"

definition complete_attachment_tx :: "user_id \<Rightarrow> attachment_id \<Rightarrow> datetime \<Rightarrow> attachment tx" where
  "complete_attachment_tx actor i now =
     bnd (gets (\<lambda>s. owned_pending actor (hm_get i (st_attachments s)))) (\<lambda>p.
     bnd (found p) (\<lambda>pending.
     bnd (fail_if (pa_expires_at pending \<le> now) Conflict) (\<lambda>_.
     bnd (fail_if (pa_quarantined pending) forbidden) (\<lambda>_.
     bnd (put_attachment i (pending\<lparr>pa_available := True\<rparr>)) (\<lambda>_.
     ret (pa_attachment pending))))))"

definition complete_attachment :: "user_id \<Rightarrow> attachment_id \<Rightarrow> datetime \<Rightarrow> attachment svc" where
  "complete_attachment actor i now = mutate (complete_attachment_tx actor i now)"

definition quarantine_attachment_tx :: "user_id \<Rightarrow> attachment_id \<Rightarrow> datetime \<Rightarrow> unit tx" where
  "quarantine_attachment_tx actor i now =
     bnd (gets (\<lambda>s. owned_pending actor (hm_get i (st_attachments s)))) (\<lambda>p.
     bnd (found (case p of None \<Rightarrow> None
                 | Some pending \<Rightarrow> if pa_available pending then None else Some pending)) (\<lambda>pending.
     put_attachment i (pending\<lparr>pa_quarantined := True, pa_expires_at := now + days 7\<rparr>)))"

definition quarantine_attachment :: "user_id \<Rightarrow> attachment_id \<Rightarrow> datetime \<Rightarrow> unit svc" where
  "quarantine_attachment actor i now = mutate (quarantine_attachment_tx actor i now)"

definition pending_attachment ::
  "'z store_scheme \<Rightarrow> user_id \<Rightarrow> attachment_id \<Rightarrow> datetime \<Rightarrow> application_error + attachment" where
  "pending_attachment s actor i now =
     (case owned_pending actor (hm_get i (st_attachments s)) of
        None \<Rightarrow> Inl NotFound
      | Some p \<Rightarrow> if pa_expires_at p > now \<and> \<not> pa_quarantined p then Inr (pa_attachment p)
                  else Inl NotFound)"

definition attachment_for_download ::
  "'z store_scheme \<Rightarrow> user_id \<Rightarrow> attachment_id \<Rightarrow> application_error + attachment" where
  "attachment_for_download s actor i =
     (case hm_get i (st_attachments s) of
        None \<Rightarrow> Inl NotFound
      | Some p \<Rightarrow>
          if \<not> pa_available p then Inl NotFound
          else if pa_owner_id p = actor then Inr (pa_attachment p)
          else if list_ex (\<lambda>a. prof_avatar_attachment_id (acc_profile a) = Some i)
                    (hm_values (st_accounts s)) then Inr (pa_attachment p)
          else if list_ex (\<lambda>c. conv_avatar_attachment_id c = Some i \<and> can_read c actor)
                    (hm_values (st_conversations s)) then Inr (pa_attachment p)
          else if \<not> list_ex (\<lambda>m. message_contains_attachment (msg_content m) i
                      \<and> (case hm_get (msg_conversation_id m) (st_conversations s) of
                           None \<Rightarrow> False | Some c \<Rightarrow> can_read c actor))
                    (concat (hm_values (st_messages s))) then Inl forbidden
          else Inr (pa_attachment p))"

definition stale_upload :: "datetime \<Rightarrow> pending_attachment \<Rightarrow> bool" where
  "stale_upload now p \<longleftrightarrow> \<not> pa_available p \<and> pa_expires_at p \<le> now"

definition cleanup_expired_attachments_tx :: "datetime \<Rightarrow> (rstr list) tx" where
  "cleanup_expired_attachments_tx now =
     bnd (gets (\<lambda>s. map (att_storage_key \<circ> pa_attachment)
                      (filter (stale_upload now) (hm_values (st_attachments s))))) (\<lambda>expired.
     bnd (modify (\<lambda>s. s\<lparr>st_attachments :=
            hm_retain (\<lambda>_ p. pa_available p \<or> pa_expires_at p > now) (st_attachments s)\<rparr>)) (\<lambda>_.
     ret expired))"

definition cleanup_expired_attachments :: "datetime \<Rightarrow> (rstr list) svc" where
  "cleanup_expired_attachments now = mutate (cleanup_expired_attachments_tx now)"

section \<open>Stickers\<close>

definition stickers :: "'z store_scheme \<Rightarrow> user_id \<Rightarrow> sticker list" where
  "stickers s actor = sort_key stk_created_at
     (filter (\<lambda>k. stk_owner_id k = actor) (hm_values (st_stickers s)))"

definition create_sticker_tx ::
  "user_id \<Rightarrow> attachment_id \<Rightarrow> rstr \<Rightarrow> rstr option \<Rightarrow> datetime \<Rightarrow> sticker tx" where
  "create_sticker_tx actor i name shortcut now =
     bnd (gets (\<lambda>s. length (filter (\<lambda>k. stk_owner_id k = actor) (hm_values (st_stickers s))))) (\<lambda>n.
     bnd (fail_if (n \<ge> 100) Conflict) (\<lambda>_.
     bnd (gets (\<lambda>s. owned_available s actor i)) (\<lambda>a.
     bnd (found (case a of None \<Rightarrow> None
                 | Some a \<Rightarrow> if att_kind a = KImage \<and> att_byte_size a \<le> 10 * MIB
                             then Some a else None)) (\<lambda>a.
     bnd new_uuid (\<lambda>fresh.
     let sticker = \<lparr>stk_id = fresh, stk_owner_id = actor, stk_attachment = a, stk_name = name,
                     stk_shortcut = shortcut, stk_created_at = now\<rparr> in
     bnd (modify (\<lambda>s. s\<lparr>st_stickers := hm_insert fresh sticker (st_stickers s)\<rparr>)) (\<lambda>_.
     ret sticker))))))"

definition create_sticker :: "user_id \<Rightarrow> create_sticker_request \<Rightarrow> datetime \<Rightarrow> sticker svc" where
  "create_sticker actor request now =
     (let name = trim (cst_name request);
          shortcut = normalize_optional (cst_shortcut request)
      in if name = [] \<or> length name > 48
            \<or> (case shortcut of None \<Rightarrow> False
                | Some v \<Rightarrow> length v > 32 \<or> list_ex is_whitespace v)
         then throw (invalid ''sticker'' ''invalid_metadata'')
         else mutate (create_sticker_tx actor (cst_attachment_id request) name shortcut now))"

definition delete_sticker_tx :: "user_id \<Rightarrow> uuid \<Rightarrow> unit tx" where
  "delete_sticker_tx actor i =
     bnd (gets (\<lambda>s. case hm_get i (st_stickers s) of
              None \<Rightarrow> True | Some k \<Rightarrow> stk_owner_id k \<noteq> actor)) (\<lambda>missing.
     bnd (fail_if missing NotFound) (\<lambda>_.
     modify (\<lambda>s. s\<lparr>st_stickers := hm_remove i (st_stickers s)\<rparr>)))"

definition delete_sticker :: "user_id \<Rightarrow> uuid \<Rightarrow> unit svc" where
  "delete_sticker actor i = mutate (delete_sticker_tx actor i)"

section \<open>Guarantees\<close>

lemma progress_put_attachment [guar_intros]: "guar progress (put_attachment i p)"
  by (simp add: put_attachment_def guar_def)

lemma progress_attachments [guar_intros]:
  "guar progress (authorize_attachment_tx actor a t)"
  "guar progress (complete_attachment_tx actor i now)"
  "guar progress (quarantine_attachment_tx actor i now)"
  "guar progress (cleanup_expired_attachments_tx now)"
  "guar progress (create_sticker_tx actor i name shortcut now)"
  "guar progress (delete_sticker_tx actor i')"
  unfolding authorize_attachment_tx_def complete_attachment_tx_def quarantine_attachment_tx_def
    cleanup_expired_attachments_tx_def create_sticker_tx_def delete_sticker_tx_def Let_def
  by (intro guar_intros; simp)+

lemma svc_progress_attachments [guar_intros]:
  "guar svc_progress (authorize_attachment C actor n m z h now)"
  "guar svc_progress (complete_attachment actor i now)"
  "guar svc_progress (quarantine_attachment actor i now)"
  "guar svc_progress (cleanup_expired_attachments now)"
  "guar svc_progress (create_sticker actor request now)"
  "guar svc_progress (delete_sticker actor i')"
  unfolding authorize_attachment_def complete_attachment_def quarantine_attachment_def
    cleanup_expired_attachments_def create_sticker_def delete_sticker_def Let_def
  by (intro guar_intros)+

end
