(* ===== verification/Group_Boards.thy ===== *)
theory Group_Boards
  imports Group_Admin
begin

text \<open>
  The boards of a group (\<open>crates/application/src/service.rs\<close>, lines 2697-2717, 2770-3173):
  announcements and who has read them, requests to join and their decision, polls and votes.
\<close>

section \<open>Announcements\<close>

definition group_announcements ::
  "'z store_scheme \<Rightarrow> user_id \<Rightarrow> conversation_id \<Rightarrow> application_error + group_announcement list" where
  "group_announcements s actor cid =
     and_then (group_for_member s cid actor) (\<lambda>_.
     Inr (sort_key (\<lambda>a. - ann_updated_at a)
       (filter (\<lambda>a. ann_conversation_id a = cid) (hm_values (st_group_announcements s)))))"

text \<open>``fabu le xin de qun gonggao'': a new announcement was posted.\<close>

definition create_group_announcement_tx ::
  "user_id \<Rightarrow> conversation_id \<Rightarrow> rstr \<Rightarrow> datetime \<Rightarrow> group_announcement tx" where
  "create_group_announcement_tx actor cid content now =
     bnd (get_conversation cid) (\<lambda>c.
     bnd (lift (ensure_group c)) (\<lambda>_.
     bnd (lift (require_role_at_least c actor Administrator)) (\<lambda>_.
     bnd new_uuid (\<lambda>fresh.
     let announcement = \<lparr>ann_id = fresh, ann_conversation_id = cid, ann_author_id = actor,
           ann_content = content, ann_read_by = [actor], ann_created_at = now,
           ann_updated_at = now\<rparr>
     in
     bnd (modify (\<lambda>s. s\<lparr>st_group_announcements :=
            hm_insert fresh announcement (st_group_announcements s)\<rparr>)) (\<lambda>_.
     bnd (append_system_message cid actor [0x53D1, 0x5E03, 0x4E86, 0x65B0, 0x7684, 0x7FA4, 0x516C, 0x544A] now) (\<lambda>_.
     bnd (append_event (set (member_ids c)) ConversationUpdated (PAnnouncement announcement) now) (\<lambda>_.
     ret announcement)))))))"

definition create_group_announcement ::
  "user_id \<Rightarrow> conversation_id \<Rightarrow> rstr \<Rightarrow> datetime \<Rightarrow> group_announcement svc" where
  "create_group_announcement actor cid content now =
     (let content = trim content in
      if content = [] \<or> length content > 4000 then throw (invalid ''announcement'' ''invalid_length'')
      else mutate (create_group_announcement_tx actor cid content now))"

definition announcement_read_by ::
  "user_id \<Rightarrow> datetime \<Rightarrow> group_announcement \<Rightarrow> group_announcement" where
  "announcement_read_by actor now a =
     (if actor \<in> set (ann_read_by a) then a
      else a\<lparr>ann_read_by := ann_read_by a @ [actor], ann_updated_at := now\<rparr>)"

definition read_group_announcement_tx :: "user_id \<Rightarrow> uuid \<Rightarrow> datetime \<Rightarrow> unit tx" where
  "read_group_announcement_tx actor aid now =
     bnd (gets (\<lambda>s. hm_get aid (st_group_announcements s))) (\<lambda>r.
     bnd (found r) (\<lambda>announcement.
     bnd (get_conversation (ann_conversation_id announcement)) (\<lambda>c.
     bnd (lift (require_member c actor)) (\<lambda>_.
     modify (\<lambda>s. s\<lparr>st_group_announcements :=
       hm_insert aid (announcement_read_by actor now announcement) (st_group_announcements s)\<rparr>)))))"

definition read_group_announcement :: "user_id \<Rightarrow> uuid \<Rightarrow> datetime \<Rightarrow> unit svc" where
  "read_group_announcement actor aid now = mutate (read_group_announcement_tx actor aid now)"

section \<open>Requests to join\<close>

definition pending_join_request :: "user_id \<Rightarrow> conversation_id \<Rightarrow> group_join_request \<Rightarrow> bool" where
  "pending_join_request actor cid r \<longleftrightarrow>
     jr_conversation_id r = cid \<and> jr_applicant_id r = actor \<and> jr_status r = JrPending"

definition request_to_join_group_tx ::
  "user_id \<Rightarrow> conversation_id \<Rightarrow> rstr \<Rightarrow> datetime \<Rightarrow> group_join_request tx" where
  "request_to_join_group_tx actor cid message now =
     bnd (get_conversation cid) (\<lambda>c.
     bnd (lift (ensure_group c)) (\<lambda>_.
     bnd (fail_if (can_read c actor) Conflict) (\<lambda>_.
     let recipients = map mem_user_id
           (filter (\<lambda>m. Administrator \<le> mem_role m) (bt_values (conv_members c)))
     in
     bnd (gets (\<lambda>s. list_ex (pending_join_request actor cid) (hm_values (st_group_join_requests s)))) (\<lambda>dup.
     bnd (fail_if dup Conflict) (\<lambda>_.
     bnd new_uuid (\<lambda>fresh.
     let join_request = \<lparr>jr_id = fresh, jr_conversation_id = cid, jr_applicant_id = actor,
           jr_message = message, jr_status = JrPending, jr_reviewed_by = None,
           jr_created_at = now, jr_updated_at = now\<rparr>
     in
     bnd (modify (\<lambda>s. s\<lparr>st_group_join_requests :=
            hm_insert fresh join_request (st_group_join_requests s)\<rparr>)) (\<lambda>_.
     bnd (append_event (set recipients) GroupMembershipUpdated (PJoinRequest join_request) now) (\<lambda>_.
     ret join_request))))))))"

definition request_to_join_group ::
  "user_id \<Rightarrow> conversation_id \<Rightarrow> rstr \<Rightarrow> datetime \<Rightarrow> group_join_request svc" where
  "request_to_join_group actor cid message now =
     (if length message > 120 then throw (invalid ''message'' ''invalid_length'')
      else mutate (request_to_join_group_tx actor cid message now))"

definition group_join_requests ::
  "'z store_scheme \<Rightarrow> user_id \<Rightarrow> conversation_id \<Rightarrow> application_error + group_join_request list" where
  "group_join_requests s actor cid =
     and_then (ok_or (hm_get cid (st_conversations s)) NotFound) (\<lambda>c.
     and_then (ensure_group c) (\<lambda>_.
     and_then (require_role_at_least c actor Administrator) (\<lambda>_.
     Inr (sort_key (\<lambda>r. - jr_updated_at r)
       (filter (\<lambda>r. jr_conversation_id r = cid) (hm_values (st_group_join_requests s)))))))"

text \<open>``yi wei xin chengyuan yi jiaru qunliao'': a new member has joined.\<close>

definition admit_applicant :: "conversation_id \<Rightarrow> user_id \<Rightarrow> datetime \<Rightarrow> conversation \<Rightarrow> unit tx" where
  "admit_applicant cid applicant now c =
     bnd (put_conversation cid
            (c\<lparr>conv_members := bt_insert applicant (new_member applicant Member now) (conv_members c),
               conv_updated_at := now\<rparr>)) (\<lambda>_.
     put_settings applicant cid)"

definition decide_group_join_request_tx ::
  "user_id \<Rightarrow> uuid \<Rightarrow> bool \<Rightarrow> datetime \<Rightarrow> group_join_request tx" where
  "decide_group_join_request_tx actor rid accept now =
     bnd (gets (\<lambda>s. hm_get rid (st_group_join_requests s))) (\<lambda>r.
     bnd (found r) (\<lambda>request.
     bnd (fail_if (jr_status request \<noteq> JrPending) Conflict) (\<lambda>_.
     let cid = jr_conversation_id request; applicant = jr_applicant_id request in
     bnd (get_conversation cid) (\<lambda>c.
     bnd (lift (require_role_at_least c actor Administrator)) (\<lambda>_.
     let recipients = member_ids c @ [applicant] in
     bnd (if accept then admit_applicant cid applicant now c else ret ()) (\<lambda>_.
     let decided = request\<lparr>jr_status := (if accept then JrAccepted else JrRejected),
           jr_reviewed_by := Some actor, jr_updated_at := now\<rparr>
     in
     bnd (modify (\<lambda>s. s\<lparr>st_group_join_requests :=
            hm_insert rid decided (st_group_join_requests s)\<rparr>)) (\<lambda>_.
     bnd (if accept
          then bnd (append_system_message cid actor [0x4E00, 0x4F4D, 0x65B0, 0x6210, 0x5458, 0x5DF2, 0x52A0, 0x5165, 0x7FA4, 0x804A] now) (\<lambda>_. ret ())
          else ret ()) (\<lambda>_.
     bnd (append_event (set recipients) GroupMembershipUpdated (PJoinRequest decided) now) (\<lambda>_.
     ret decided)))))))))"

definition decide_group_join_request ::
  "user_id \<Rightarrow> uuid \<Rightarrow> bool \<Rightarrow> datetime \<Rightarrow> group_join_request svc" where
  "decide_group_join_request actor rid accept now =
     mutate (decide_group_join_request_tx actor rid accept now)"

section \<open>Polls\<close>

definition new_poll_option :: "rstr \<Rightarrow> group_poll_option tx" where
  "new_poll_option label =
     bnd new_uuid (\<lambda>fresh. ret \<lparr>opt_id = fresh, opt_label = label, opt_voter_ids = []\<rparr>)"

text \<open>``faqi le qun toupiao'': a poll was started.\<close>

definition create_group_poll_tx ::
  "user_id \<Rightarrow> conversation_id \<Rightarrow> rstr \<Rightarrow> rstr list \<Rightarrow> bool \<Rightarrow> datetime option \<Rightarrow> datetime
     \<Rightarrow> group_poll tx" where
  "create_group_poll_tx actor cid question options multiple closes_at now =
     bnd (get_conversation cid) (\<lambda>c.
     bnd (lift (ensure_group c)) (\<lambda>_.
     bnd (lift (require_member c actor)) (\<lambda>_.
     bnd new_uuid (\<lambda>fresh.
     bnd (map_each options new_poll_option) (\<lambda>poll_options.
     let poll = \<lparr>poll_id = fresh, poll_conversation_id = cid, poll_creator_id = actor,
           poll_question = question, poll_multiple_choice = multiple,
           poll_options = poll_options, poll_closes_at = closes_at, poll_created_at = now\<rparr>
     in
     bnd (modify (\<lambda>s. s\<lparr>st_group_polls := hm_insert fresh poll (st_group_polls s)\<rparr>)) (\<lambda>_.
     bnd (append_system_message cid actor [0x53D1, 0x8D77, 0x4E86, 0x7FA4, 0x6295, 0x7968] now) (\<lambda>_.
     bnd (append_event (set (member_ids c)) ConversationUpdated (PPoll poll) now) (\<lambda>_.
     ret poll))))))))"

definition create_group_poll ::
  "user_id \<Rightarrow> conversation_id \<Rightarrow> create_group_poll_request \<Rightarrow> datetime \<Rightarrow> group_poll svc" where
  "create_group_poll actor cid request now =
     (let question = trim (cgp_question request); options = map trim (cgp_options request) in
      if question = [] \<or> length question > 240
         \<or> \<not> (2 \<le> length options \<and> length options \<le> 10)
         \<or> list_ex (\<lambda>option. option = [] \<or> length option > 160) options
         \<or> (case cgp_closes_at request of None \<Rightarrow> False | Some t \<Rightarrow> t \<le> now)
      then throw (invalid ''poll'' ''invalid_value'')
      else mutate (create_group_poll_tx actor cid question options (cgp_multiple_choice request)
                     (cgp_closes_at request) now))"

definition group_polls ::
  "'z store_scheme \<Rightarrow> user_id \<Rightarrow> conversation_id \<Rightarrow> application_error + group_poll list" where
  "group_polls s actor cid =
     and_then (group_for_member s cid actor) (\<lambda>_.
     Inr (sort_key (\<lambda>p. - poll_created_at p)
       (filter (\<lambda>p. poll_conversation_id p = cid) (hm_values (st_group_polls s)))))"

definition invalid_vote :: "uuid list \<Rightarrow> datetime \<Rightarrow> group_poll \<Rightarrow> bool" where
  "invalid_vote option_ids now p \<longleftrightarrow>
     (case poll_closes_at p of None \<Rightarrow> False | Some t \<Rightarrow> t \<le> now)
     \<or> option_ids = []
     \<or> (\<not> poll_multiple_choice p \<and> length option_ids \<noteq> 1)
     \<or> length option_ids > length (poll_options p)
     \<or> list_ex (\<lambda>i. \<not> list_ex (\<lambda>option. opt_id option = i) (poll_options p)) option_ids"

definition vote_option :: "user_id \<Rightarrow> uuid list \<Rightarrow> group_poll_option \<Rightarrow> group_poll_option" where
  "vote_option actor option_ids option =
     (let others = filter (\<lambda>v. v \<noteq> actor) (opt_voter_ids option) in
      option\<lparr>opt_voter_ids := (if opt_id option \<in> set option_ids then others @ [actor] else others)\<rparr>)"

definition cast_vote :: "user_id \<Rightarrow> uuid list \<Rightarrow> group_poll \<Rightarrow> group_poll" where
  "cast_vote actor option_ids p = p\<lparr>poll_options := map (vote_option actor option_ids) (poll_options p)\<rparr>"

definition vote_group_poll_tx :: "user_id \<Rightarrow> uuid \<Rightarrow> uuid list \<Rightarrow> datetime \<Rightarrow> group_poll tx" where
  "vote_group_poll_tx actor pid option_ids now =
     bnd (gets (\<lambda>s. hm_get pid (st_group_polls s))) (\<lambda>r.
     bnd (found r) (\<lambda>poll.
     bnd (get_conversation (poll_conversation_id poll)) (\<lambda>c.
     bnd (lift (require_member c actor)) (\<lambda>_.
     bnd (fail_if (invalid_vote option_ids now poll) (invalid ''option_ids'' ''invalid_value'')) (\<lambda>_.
     let voted = cast_vote actor option_ids poll in
     bnd (modify (\<lambda>s. s\<lparr>st_group_polls := hm_insert pid voted (st_group_polls s)\<rparr>)) (\<lambda>_.
     bnd (append_event (set (member_ids c)) ConversationUpdated (PPoll voted) now) (\<lambda>_.
     ret voted)))))))"

definition vote_group_poll :: "user_id \<Rightarrow> uuid \<Rightarrow> uuid list \<Rightarrow> datetime \<Rightarrow> group_poll svc" where
  "vote_group_poll actor pid option_ids now = mutate (vote_group_poll_tx actor pid option_ids now)"

section \<open>Guarantees\<close>

lemma progress_admit [guar_intros]:
  "guar progress (admit_applicant cid applicant now c)" "guar progress (new_poll_option label)"
  unfolding admit_applicant_def new_poll_option_def by (intro guar_intros)+

lemma progress_boards [guar_intros]:
  "guar progress (create_group_announcement_tx actor cid content now)"
  "guar progress (read_group_announcement_tx actor aid now)"
  "guar progress (request_to_join_group_tx actor cid message now)"
  "guar progress (decide_group_join_request_tx actor rid accept now)"
  "guar progress (create_group_poll_tx actor cid question options multiple closes now)"
  "guar progress (vote_group_poll_tx actor pid option_ids now)"
  unfolding create_group_announcement_tx_def read_group_announcement_tx_def
    request_to_join_group_tx_def decide_group_join_request_tx_def create_group_poll_tx_def
    vote_group_poll_tx_def Let_def
  by (intro guar_intros; simp)+

lemma svc_progress_boards [guar_intros]:
  "guar svc_progress (create_group_announcement actor cid content now)"
  "guar svc_progress (read_group_announcement actor aid now)"
  "guar svc_progress (request_to_join_group actor cid message now)"
  "guar svc_progress (decide_group_join_request actor rid accept now)"
  "guar svc_progress (create_group_poll actor cid request now)"
  "guar svc_progress (vote_group_poll actor pid option_ids now)"
  unfolding create_group_announcement_def read_group_announcement_def request_to_join_group_def
    decide_group_join_request_def create_group_poll_def vote_group_poll_def Let_def
  by (intro guar_intros)+

end
