(* ===== verification/Panic_Free.thy ===== *)
theory Panic_Free
  imports Sync_Log Realtime Schedule Attachments Group_Boards
begin

text \<open>
  No operation of the service panics.  The \<open>expect\<close>s of \<open>service.rs\<close> are \<open>Panicked\<close> errors of the
  model; \<open>safe I m\<close> says that from a state where \<open>I\<close> holds \<open>m\<close> neither panics nor breaks \<open>I\<close>.  Most
  closures are safe from any state (\<open>never_panics\<close>); recalling a message needs the messages to be
  stored under their own conversation (\<open>messages_ok\<close>), which follows from \<open>progress\<close>.
\<close>

named_theorems safe_intros \<open>rules for absence of panics\<close>

section \<open>Results and computations\<close>

definition panics :: "application_error + 'a \<Rightarrow> bool" where
  "panics r \<longleftrightarrow> (\<exists>e. r = Inl e \<and> is_panic e)"

definition safe :: "('s \<Rightarrow> bool) \<Rightarrow> ('s, application_error, 'a) eff \<Rightarrow> bool" where
  "safe I m \<longleftrightarrow> (\<forall>s. I s \<longrightarrow> \<not> panics (fst (m s)) \<and> I (snd (m s)))"

abbreviation never_panics :: "('s, application_error, 'a) eff \<Rightarrow> bool" where
  "never_panics m \<equiv> safe (\<lambda>_. True) m"

lemma panics_simps [simp]:
  "panics (Inl e) = is_panic e"
  "panics (Inr x) = False"
  by (simp_all add: panics_def)

lemma panics_ok_or [simp]: "panics (ok_or x e) \<longleftrightarrow> x = None \<and> is_panic e"
  by (cases x) auto

lemma panics_and_then [simp]: "panics (and_then r f) \<longleftrightarrow> panics r \<or> (\<exists>x. r = Inr x \<and> panics (f x))"
  by (cases r) auto

lemma panics_err_if [simp]: "panics (err_if b e) \<longleftrightarrow> b \<and> is_panic e"
  by (simp add: err_if_def)

lemma panics_map_err_Domain [simp]: "\<not> panics (map_err Domain r)"
  by (cases r) auto

lemma safeI: "(\<And>s. I s \<Longrightarrow> \<not> panics (fst (m s)) \<and> I (snd (m s))) \<Longrightarrow> safe I m"
  by (simp add: safe_def)

lemma safeD: "safe I m \<Longrightarrow> I s \<Longrightarrow> m s = (r, s') \<Longrightarrow> \<not> panics r \<and> I s'"
  by (metis fst_conv safe_def snd_conv)

lemma safe_basic [safe_intros]:
  "safe I (ret x)" "safe I (gets f)"
  by (simp_all add: safe_def)

lemma safe_throw [safe_intros]: "\<not> is_panic e \<Longrightarrow> safe I (throw e)"
  by (simp add: safe_def)

lemma safe_fail_if [safe_intros]: "\<not> is_panic e \<Longrightarrow> safe I (fail_if b e)"
  by (simp add: safe_def)

lemma safe_lift [safe_intros]: "\<not> panics r \<Longrightarrow> safe I (lift r)"
  by (simp add: safe_def)

lemma safe_modify [safe_intros]: "(\<And>s. I s \<Longrightarrow> I (g s)) \<Longrightarrow> safe I (modify g)"
  by (simp add: safe_def)

lemma safe_bnd [safe_intros]:
  assumes m: "safe I m" and f: "\<And>x. safe I (f x)"
  shows "safe I (bnd m f)"
proof (rule safeI)
  fix s assume I: "I s"
  obtain r s' where run: "m s = (r, s')" by (cases "m s")
  from safeD [OF m I run] have s': "\<not> panics r" "I s'" by simp_all
  then show "\<not> panics (fst (bnd m f s)) \<and> I (snd (bnd m f s))"
    using f by (cases r) (auto simp: bnd_def run safe_def)
qed

lemma safe_if [safe_intros]: "safe I m \<Longrightarrow> safe I m' \<Longrightarrow> safe I (if b then m else m')"
  by simp

lemma safe_case_option [safe_intros]:
  "safe I m \<Longrightarrow> (\<And>x. safe I (f x)) \<Longrightarrow> safe I (case v of None \<Rightarrow> m | Some x \<Rightarrow> f x)"
  by (simp split: option.split)

lemma safe_case_prod [safe_intros]:
  "(\<And>x y. safe I (f x y)) \<Longrightarrow> safe I (case p of (x, y) \<Rightarrow> f x y)"
  by (simp split: prod.split)

lemma safe_let [safe_intros]: "(\<And>x. safe I (f x)) \<Longrightarrow> safe I (let x = v in f x)"
  by simp

lemma safe_for_each [safe_intros]: "(\<And>x. safe I (body x)) \<Longrightarrow> safe I (for_each xs body)"
  by (induction xs) (auto intro!: safe_intros)

lemma safe_map_each [safe_intros]: "(\<And>x. safe I (body x)) \<Longrightarrow> safe I (map_each xs body)"
  by (induction xs) (auto intro!: safe_intros)

text \<open>A result that was looked up and is then unwrapped with \<open>?\<close>.\<close>

lemma safe_gets_lift:
  assumes "\<And>s. \<not> panics (f s)" "\<And>x. safe I (g x)"
  shows "safe I (bnd (gets f) (\<lambda>r. bnd (lift r) g))"
proof -
  have "safe I (bnd (lift (f s)) g)" for s by (intro safe_intros assms)
  then show ?thesis by (simp add: safe_def)
qed

lemma safe_store_basic [safe_intros]:
  "safe I (dom r)" "safe I (found x)"
  by (auto simp: dom_def found_def intro!: safe_lift)

lemma never_panics_basic [safe_intros]:
  "never_panics (append_event rs k p now)" "never_panics new_uuid" "never_panics (fill_bytes n)"
  by (simp_all add: safe_def append_event_run new_uuid_def fill_bytes_def)

section \<open>Pure checks\<close>

lemma quiet_core [simp]:
  "\<not> panics (ensure_group c)" "\<not> panics (require_member c u)"
  "\<not> panics (require_role_at_least c u role)"
  by (simp_all add: ensure_group_def require_member_def require_role_at_least_def split: option.split)

lemma quiet_messaging [simp]:
  "\<not> panics (validate_message_attachment s u content)"
  "\<not> panics (validate_message_mentions s u cid content ms all)"
  "\<not> panics (message_recipients_for_send s u cid content now)"
  "\<not> panics (forward_source s u mode mid)"
  by (auto simp: validate_message_attachment_def validate_message_mentions_def
      message_recipients_for_send_def forward_source_def split: option.split)

lemma quiet_collect [simp]: "(\<And>x. \<not> panics (f x)) \<Longrightarrow> \<not> panics (collect_results f xs)"
  by (induction xs) auto

lemma quiet_forward_sources [simp]: "\<not> panics (collect_forward_sources s u mids mode)"
  by (simp add: collect_forward_sources_def)

lemma quiet_second_factor [simp]:
  "\<not> panics (decrypt_secret C key x)"
  "\<not> panics (verify_second_factor_for_account C a code now key)"
  by (auto simp: decrypt_secret_def verify_second_factor_for_account_def Let_def split: option.split)

lemma quiet_profiles [simp]:
  "\<not> panics (check_profile_avatar s u avatar)" "\<not> panics (signal_recipients s u cid target now)"
  by (auto simp: check_profile_avatar_def signal_recipients_def split: option.split)

section \<open>Closures that panic in no state\<close>

lemma never_panics_core [safe_intros]:
  "never_panics (get_conversation cid)"
  "never_panics (put_conversation cid c)"
  "never_panics (store_conversation c)"
  "never_panics (touch_conversation cid now)"
  "never_panics (push_message cid m)"
  "never_panics (append_system_message cid actor text now)"
  "never_panics (append_visible_profile actor now u)"
  "never_panics (append_profile_events actor p now)"
  unfolding get_conversation_def put_conversation_def store_conversation_def touch_conversation_def
    push_message_def append_system_message_def append_visible_profile_def append_profile_events_def
  by (intro safe_gets_lift safe_intros; simp)+

lemma never_panics_messaging [safe_intros]:
  "never_panics (receipt_delivered mid u)"
  "never_panics (receipt_read u mid)"
  "never_panics (remember_sent actor i mid q)"
  "never_panics (set_expiration mid e now)"
  "never_panics (advance_position actor cid q)"
  unfolding receipt_delivered_def receipt_read_def remember_sent_def set_expiration_def
    advance_position_def
  by (intro safe_intros; simp)+

lemma never_panics_send [safe_intros]:
  "never_panics (deliver_message actor cid request mentions recipients now)"
  "never_panics (send_message_in_store actor cid request now)"
  "never_panics (append_forwarded_message actor cid content q recipients now)"
  unfolding deliver_message_def send_message_in_store_def append_forwarded_message_def Let_def
  by (intro safe_gets_lift safe_intros; simp)+

lemma never_panics_forward_loop [safe_intros]:
  "never_panics (forward_loop actor cid recipients now contents q)"
proof (induction contents arbitrary: q)
  case (Cons content contents)
  then show ?case unfolding forward_loop.simps Let_def by (intro safe_intros)
qed (simp add: safe_intros)

lemma never_panics_messages [safe_intros]:
  "never_panics (forward_messages_in_store actor mids target mode now)"
  "never_panics (acknowledge_delivery_tx actor mid now)"
  "never_panics (mark_read_tx actor cid q now)"
  "never_panics (react_to_message_tx actor mid emoji active now)"
  "never_panics (set_message_favorite_tx actor mid favorite)"
  unfolding forward_messages_in_store_def acknowledge_delivery_tx_def mark_read_tx_def
    react_to_message_tx_def set_message_favorite_tx_def Let_def
  by (intro safe_gets_lift safe_intros; simp)+

text \<open>\<open>add_group_members\<close> unwraps a conversation that it has just written.\<close>

abbreviation has_conversation :: "conversation_id \<Rightarrow> txn \<Rightarrow> bool" where
  "has_conversation cid s \<equiv> hm_contains cid (st_conversations s)"

lemma safe_put_conversation:
  assumes "safe (has_conversation cid) (f ())"
  shows "never_panics (bnd (put_conversation cid c) f)"
  using assms by (simp add: put_conversation_def safe_def hm_contains_def)

lemma safe_expect_conversation:
  assumes "\<And>c. safe (has_conversation cid) (f c)"
  shows "safe (has_conversation cid)
    (bnd (gets (\<lambda>s. hm_get cid (st_conversations s))) (\<lambda>r. bnd (expect r why) f))"
  using assms by (auto simp: safe_def expect_def hm_contains_def)

lemma has_conversation_writes [safe_intros]:
  "safe (has_conversation cid) (put_conversation cid' c)"
  "safe (has_conversation cid) (append_event rs k p now)"
  "safe (has_conversation cid) new_uuid"
  "safe (has_conversation cid) (put_settings u cid')"
  "safe (has_conversation cid) (push_message cid' m)"
  "safe (has_conversation cid) (touch_conversation cid' now)"
  by (simp_all add: safe_def put_conversation_def append_event_run new_uuid_def put_settings_def
      push_message_def touch_conversation_def hm_contains_def split: option.split)

lemma has_conversation_append_system_message [safe_intros]:
  "safe (has_conversation cid) (append_system_message cid' actor text now)"
  unfolding append_system_message_def get_conversation_def by (intro safe_intros; simp)

lemma never_panics_group_writes [safe_intros]:
  "never_panics (check_avatar actor aid)"
  "never_panics (check_invitee actor u)"
  "never_panics (put_settings u cid)"
  "never_panics (drop_settings u cid)"
  "never_panics (mark_conversation_read actor cid)"
  unfolding check_avatar_def check_invitee_def put_settings_def drop_settings_def
    mark_conversation_read_def Let_def
  by (intro safe_gets_lift safe_intros; simp)+

lemma never_panics_add_group_members [safe_intros]:
  "never_panics (add_group_members_tx actor cid invitees now)"
  unfolding add_group_members_tx_def Let_def
  by (intro safe_put_conversation safe_expect_conversation safe_gets_lift safe_intros; simp)

lemma never_panics_groups [safe_intros]:
  "never_panics (create_direct_tx actor peer now)"
  "never_panics (create_group_tx actor members name now)"
  "never_panics (update_group_tx actor cid ugr now)"
  "never_panics (leave_group_tx actor cid now)"
  "never_panics (disband_group_tx actor cid now)"
  "never_panics (update_group_member_tx actor cid target request now)"
  "never_panics (remove_group_member_tx actor cid target now)"
  "never_panics (transfer_group_ownership_tx actor cid target now)"
  "never_panics (set_group_mute_tx actor cid muted now)"
  "never_panics (update_conversation_settings_tx actor cid ucs now)"
  "never_panics (mark_all_read_tx actor now)"
  unfolding create_direct_tx_def create_group_tx_def update_group_tx_def leave_group_tx_def
    disband_group_tx_def update_group_member_tx_def remove_group_member_tx_def
    transfer_group_ownership_tx_def set_group_mute_tx_def update_conversation_settings_tx_def
    mark_all_read_tx_def Let_def
  by (intro safe_gets_lift safe_intros; simp)+

lemma never_panics_boards [safe_intros]:
  "never_panics (admit_applicant cid applicant now c)"
  "never_panics (new_poll_option label)"
  "never_panics (create_group_announcement_tx actor cid content now)"
  "never_panics (read_group_announcement_tx actor aid now)"
  "never_panics (request_to_join_group_tx actor cid message now)"
  "never_panics (decide_group_join_request_tx actor rid accept now)"
  "never_panics (create_group_poll_tx actor cid question options multiple closes now)"
  "never_panics (vote_group_poll_tx actor pid option_ids now)"
  unfolding admit_applicant_def new_poll_option_def create_group_announcement_tx_def
    read_group_announcement_tx_def request_to_join_group_tx_def decide_group_join_request_tx_def
    create_group_poll_tx_def vote_group_poll_tx_def Let_def
  by (intro safe_gets_lift safe_intros; simp)+

lemma never_panics_friends [safe_intros]:
  "never_panics (put_friend_settings owner friend settings)"
  "never_panics (drop_friend_settings a b)"
  "never_panics (make_friends sender recipient now)"
  "never_panics (send_friend_request_tx sender username message now)"
  "never_panics (decide_friend_request_tx actor rid decision now)"
  "never_panics (update_friend_settings_tx actor friend ufs now)"
  "never_panics (delete_friend_tx actor friend now)"
  "never_panics (block_user_tx actor target now)"
  "never_panics (unblock_user_tx actor target now)"
  "never_panics (report_user_tx actor target reason details now)"
  unfolding put_friend_settings_def drop_friend_settings_def make_friends_def
    send_friend_request_tx_def decide_friend_request_tx_def update_friend_settings_tx_def
    delete_friend_tx_def block_user_tx_def unblock_user_tx_def report_user_tx_def Let_def
  by (intro safe_gets_lift safe_intros; simp)+

lemma never_panics_hash_password [safe_intros]: "never_panics (hash_password C p)"
  by (simp add: safe_def hash_password_def)

lemma never_panics_second_factor [safe_intros]:
  "never_panics (encrypt_secret C key x)"
  "never_panics (random_token)"
  "never_panics (generate_recovery_codes C)"
  "never_panics (get_live_account u)"
  "never_panics (put_account u a)"
  "never_panics (begin_second_factor_setup_tx u e x t)"
  "never_panics (enable_second_factor_tx C key u code now)"
  "never_panics (disable_second_factor_tx C key u p code now)"
  "never_panics (regenerate_recovery_codes_tx C key u p code now)"
  unfolding encrypt_secret_def random_token_def generate_recovery_codes_def get_live_account_def
    put_account_def begin_second_factor_setup_tx_def enable_second_factor_tx_def
    disable_second_factor_tx_def regenerate_recovery_codes_tx_def Let_def
  by (intro safe_gets_lift safe_intros; simp)+

lemma never_panics_tokens [safe_intros]:
  "never_panics (revoke_tokens P)"
  "never_panics (revoke_devices u t)"
  "never_panics (add_device d u n p v now)"
  "never_panics (revoke_family f)"
  "never_panics (revoke_user_sessions u t')"
  "never_panics (issue_session_in_family C u d pr now f)"
  "never_panics (issue_session C u d pr now)"
  unfolding revoke_tokens_def revoke_devices_def add_device_def revoke_family_def
    revoke_user_sessions_def issue_session_in_family_def issue_session_def Let_def
  by (intro safe_gets_lift safe_intros; simp)+

lemma never_panics_sessions [safe_intros]:
  "never_panics (register_tx C e n h u d pr dn pl av now)"
  "never_panics (refresh_tx C h now)"
  "never_panics (logout_tx h)"
  "never_panics (revoke_device_tx actor d now)"
  "never_panics (change_password_tx C actor password h)"
  "never_panics (request_password_reset_tx e r h t now)"
  "never_panics (reset_password_tx h h' now)"
  "never_panics (qr_session_tx C u c now)"
  unfolding register_tx_def refresh_tx_def logout_tx_def revoke_device_tx_def
    change_password_tx_def request_password_reset_tx_def reset_password_tx_def qr_session_tx_def
    Let_def
  by (intro safe_gets_lift safe_intros; simp)+

text \<open>\<open>login\<close> unwraps the user and the account that it has just verified.\<close>

lemma safe_login_lookup:
  assumes "\<And>u a. safe I (f u a)"
  shows "safe I (bnd (gets look) (\<lambda>user_id.
     bnd (gets (\<lambda>s. case Option.bind user_id (active_account s) of
              None \<Rightarrow> False | Some a \<Rightarrow> verify a)) (\<lambda>verified.
     bnd (fail_if (\<not> verified) InvalidCredentials) (\<lambda>_.
     bnd (expect user_id why) (\<lambda>u.
     bnd (gets (\<lambda>s. hm_get u (st_accounts s))) (\<lambda>a. bnd (expect a why') (f u)))))))"
  using assms
  by (auto simp: safe_def expect_def active_account_def Option.bind_eq_Some_conv bnd_def fail_if_def
      split: option.splits)

lemma never_panics_login [safe_intros]: "never_panics (login_tx C key input code now)"
  unfolding login_tx_def by (intro safe_login_lookup safe_intros; simp)

lemma never_panics_profiles [safe_intros]:
  "never_panics (update_profile_tx u i today now)"
  "never_panics (update_profile_privacy_tx u settings now)"
  "never_panics (detach_account_from_conversations u now)"
  "never_panics (anonymize_account C u now)"
  "never_panics (purge_account_relationships u now)"
  "never_panics (delete_account_in_store C actor password now)"
  unfolding update_profile_tx_def update_profile_privacy_tx_def
    detach_account_from_conversations_def anonymize_account_def purge_account_relationships_def
    delete_account_in_store_def Let_def
  by (intro safe_gets_lift safe_intros; simp)+

lemma never_panics_attachments [safe_intros]:
  "never_panics (put_attachment i p)"
  "never_panics (authorize_attachment_tx actor a t)"
  "never_panics (complete_attachment_tx actor i now)"
  "never_panics (quarantine_attachment_tx actor i now)"
  "never_panics (cleanup_expired_attachments_tx now)"
  "never_panics (create_sticker_tx actor i name shortcut now)"
  "never_panics (delete_sticker_tx actor i')"
  unfolding put_attachment_def authorize_attachment_tx_def complete_attachment_tx_def
    quarantine_attachment_tx_def cleanup_expired_attachments_tx_def create_sticker_tx_def
    delete_sticker_tx_def Let_def
  by (intro safe_gets_lift safe_intros; simp)+

lemma never_panics_schedule_and_admin [safe_intros]:
  "never_panics (schedule_message_tx actor request mentions now)"
  "never_panics (cancel_scheduled_message_tx actor i)"
  "never_panics (unschedule_tx i)"
  "never_panics (set_connection_presence_tx actor connected now)"
  "never_panics (append_audit action target now)"
  "never_panics (admin_set_user_suspended_tx target suspended now)"
  "never_panics (admin_revoke_user_sessions_tx target now)"
  unfolding schedule_message_tx_def cancel_scheduled_message_tx_def unschedule_tx_def
    set_connection_presence_tx_def append_audit_def admin_set_user_suspended_tx_def
    admin_revoke_user_sessions_tx_def Let_def
  by (intro safe_gets_lift safe_intros; simp)+

section \<open>Messages are stored under their conversation\<close>

definition messages_ok :: "txn \<Rightarrow> bool" where
  "messages_ok s \<longleftrightarrow> hm_wf (st_messages s) \<and> (\<forall>cid. numbered cid 0 (messages_of s cid))"

lemma numbered_fixed: "map fixed ms = map fixed ms' \<Longrightarrow> numbered cid q ms = numbered cid q ms'"
proof (induction ms arbitrary: ms' q)
  case (Cons m ms)
  then obtain m' rest where ms': "ms' = m' # rest" and eq: "fixed m = fixed m'" "map fixed ms = map fixed rest"
    by (cases ms') auto
  have "msg_sequence m = msg_sequence m'" "msg_conversation_id m = msg_conversation_id m'"
    using eq(1) fixed_frame by metis+
  with Cons.IH [OF eq(2)] show ?case by (simp add: ms' sequence_after_def)
qed simp

lemma numbered_history:
  assumes "numbered cid 0 ms" "history cid ms ms'"
  shows "numbered cid 0 ms'"
proof -
  from assms(2) obtain new where "map fixed ms' = map fixed (ms @ new)" "numbered cid (sequence_after 0 ms) new"
    unfolding history_def by blast
  with assms(1) show ?thesis by (simp add: numbered_fixed [of ms' "ms @ new"])
qed

lemma progress_messages_ok: "progress s s' \<Longrightarrow> messages_ok s \<Longrightarrow> messages_ok s'"
  by (auto simp: progress_def messages_ok_def intro: numbered_history)

interpretation message_inv: store_invariant messages_ok
  by unfold_locales (simp add: messages_ok_def messages_of_def)

lemma numbered_conversation: "numbered cid q ms \<Longrightarrow> m \<in> set ms \<Longrightarrow> msg_conversation_id m = cid"
  by (induction ms arbitrary: q) auto

lemma find_message_stored:
  assumes ok: "messages_ok s" and m: "find_message s mid = Some m"
  shows "\<exists>ms. hm_get (msg_conversation_id m) (st_messages s) = Some ms \<and> m \<in> set ms \<and> msg_id m = mid"
proof -
  from m have "m \<in> set (concat (hm_values (st_messages s)))" "msg_id m = mid"
    unfolding find_message_def find_Some_iff using nth_mem by metis+
  then obtain ms where ms: "ms \<in> set (hm_values (st_messages s))" "m \<in> set ms" by auto
  from ok have wf: "hm_wf (st_messages s)" by (simp add: messages_ok_def)
  from hm_valuesE [OF wf ms(1)] obtain cid where cid: "hm_get cid (st_messages s) = Some ms" .
  then have "msg_conversation_id m = cid"
    using ok ms(2) numbered_conversation [of cid 0 ms m]
    by (auto simp: messages_ok_def messages_of_def dest!: spec [of _ cid])
  with cid ms(2) \<open>msg_id m = mid\<close> show ?thesis by blast
qed

lemma find_by_id: "m \<in> set ms \<Longrightarrow> \<exists>x. find (\<lambda>x. msg_id x = msg_id m) ms = Some x"
  by (induction ms) auto

lemma recall_lookup:
  assumes "messages_ok s" and f: "\<And>c m ms x. never_panics (f c m ms x)"
    and guard: "\<And>m c. \<exists>r. guard m c s = (r, s) \<and> \<not> panics r"
  shows "\<not> panics (fst (bnd (gets (\<lambda>s. find_message s mid)) (\<lambda>m.
     bnd (found m) (\<lambda>m.
     bnd (get_conversation (msg_conversation_id m)) (\<lambda>c.
     bnd (guard m c) (\<lambda>can_moderate.
     bnd (fail_if (b m c can_moderate) forbidden) (\<lambda>_.
     bnd (fail_if (b' m) Conflict) (\<lambda>_.
     bnd (gets (\<lambda>s. hm_get (msg_conversation_id m) (st_messages s))) (\<lambda>ms.
     bnd (expect ms why) (\<lambda>ms.
     bnd (expect (find (\<lambda>x. msg_id x = mid) ms) why') (f c m ms))))))))) s))"
proof (cases "find_message s mid")
  case None
  then show ?thesis by (simp add: found_def)
next
  case (Some m)
  from find_message_stored [OF assms(1) this] obtain ms x where
    ms: "hm_get (msg_conversation_id m) (st_messages s) = Some ms" "find (\<lambda>x. msg_id x = mid) ms = Some x"
    using find_by_id by metis
  have "\<not> panics (fst (f c m ms x s))" for c using f by (simp add: safe_def)
  moreover obtain r where "guard m c s = (r c, s)" "\<not> panics (r c)" for c using guard by metis
  ultimately show ?thesis
    using Some ms
    by (cases "hm_get (msg_conversation_id m) (st_conversations s)")
      (auto simp: found_def get_conversation_def expect_def run_bnd panics_def split: sum.split)
qed

lemma recall_does_not_panic:
  assumes "messages_ok s"
  shows "\<not> panics (fst (recall_message_tx actor mid now s))"
proof -
  have "\<exists>r. (if is_group c then bnd (lift (require_member c actor)) (\<lambda>member. ret (Administrator \<le> mem_role member))
      else ret False) s = (r, s) \<and> \<not> panics r" for c
    by (cases "bt_get actor (conv_members c)") (auto simp: run_bnd require_member_def)
  then show ?thesis
    unfolding recall_message_tx_def
    by (intro recall_lookup assms) (intro safe_intros; simp)
qed

end
