(* ===== verification/Group_Rules.thy ===== *)
theory Group_Rules
  imports Panic_Free
begin

text \<open>
  An invariant of the conversations of every reachable state: a conversation is stored under its own
  identifier, its member list is ordered and names each member under his own identifier, and a
  group never has two owners.  Every closure of the service keeps it (\<open>keeps_conversations\<close>); the
  rules \<open>pres_get_conversation\<close> and \<open>pres_put_conversation\<close> hand the invariant of one conversation
  from its lookup to its replacement.
\<close>

section \<open>The invariant\<close>

definition members_ok :: "(user_id, conversation_member) btree \<Rightarrow> bool" where
  "members_ok ms \<longleftrightarrow> bt_wf ms \<and> (\<forall>u m. bt_get u ms = Some m \<longrightarrow> mem_user_id m = u)
     \<and> (\<forall>u v m m'. bt_get u ms = Some m \<longrightarrow> bt_get v ms = Some m' \<longrightarrow>
          mem_role m = Owner \<longrightarrow> mem_role m' = Owner \<longrightarrow> u = v)"

definition conversation_ok :: "conversation_id \<Rightarrow> conversation \<Rightarrow> bool" where
  "conversation_ok cid c \<longleftrightarrow> conv_id c = cid \<and> members_ok (conv_members c)"

definition conversations_ok :: "txn \<Rightarrow> bool" where
  "conversations_ok s \<longleftrightarrow> hm_wf (st_conversations s)
     \<and> (\<forall>cid c. hm_get cid (st_conversations s) = Some c \<longrightarrow> conversation_ok cid c)"

lemma members_ok_Nil [simp]: "members_ok []"
  by (simp add: members_ok_def)

lemma members_ok_remove: "members_ok ms \<Longrightarrow> members_ok (bt_remove u ms)"
  by (auto simp: members_ok_def)

lemma members_ok_insert_member: "members_ok ms \<Longrightarrow> members_ok (bt_insert u (new_member u Member now) ms)"
  by (auto simp: members_ok_def new_member_def)

lemma members_ok_add_vacant: "members_ok ms \<Longrightarrow> members_ok (add_vacant now u ms)"
  by (simp add: add_vacant_def bt_or_insert_def members_ok_insert_member split: option.split)

lemma members_ok_add_all: "members_ok ms \<Longrightarrow> members_ok (fold (add_vacant now) us ms)"
  by (induction us arbitrary: ms) (simp_all add: members_ok_add_vacant)

lemma members_ok_insert_members:
  "insert_members now us ms = (ms', added) \<Longrightarrow> members_ok ms \<Longrightarrow> members_ok ms'"
  by (induction us arbitrary: ms ms' added)
    (auto simp: members_ok_insert_member split: if_splits prod.splits)

lemma members_ok_update:
  assumes "members_ok ms" and "\<And>m. mem_user_id (f m) = mem_user_id m"
    and "\<And>m. bt_get u ms = Some m \<Longrightarrow> mem_role (f m) = Owner \<Longrightarrow> mem_role m = Owner"
  shows "members_ok (bt_update u f ms)"
  using assms by (fastforce simp: members_ok_def)

text \<open>Ownership may pass to a member once nobody else holds it.\<close>

lemma members_ok_promote:
  assumes "members_ok ms"
    and "\<And>v m. bt_get v ms = Some m \<Longrightarrow> mem_role m = Owner \<Longrightarrow> v = u"
  shows "members_ok (bt_update u (set_role Owner) ms)"
  using assms by (fastforce simp: members_ok_def set_role_def)

lemma transfer_ownership_ok:
  assumes "transfer_ownership actor target now c = Inr c'" "conversation_ok cid c"
  shows "conversation_ok cid c'"
proof -
  let ?demoted = "bt_update actor (set_role Member) (conv_members c)"
  from assms have owner: "\<exists>m. bt_get actor (conv_members c) = Some m \<and> mem_role m = Owner"
    and c': "c' = c\<lparr>conv_members := bt_update target (set_role Owner) ?demoted, conv_updated_at := now\<rparr>"
    by (auto simp: transfer_ownership_def role_of_def split: if_splits)
  from assms(2) have ok: "members_ok (conv_members c)" by (simp add: conversation_ok_def)
  then have "members_ok ?demoted" by (rule members_ok_update) (simp_all add: set_role_def)
  moreover have "v = target" if "bt_get v ?demoted = Some m" "mem_role m = Owner" for v m
    using that owner ok by (fastforce simp: members_ok_def set_role_def split: if_splits)
  ultimately have "members_ok (bt_update target (set_role Owner) ?demoted)"
    by (rule members_ok_promote)
  then show ?thesis
    using assms(2) by (simp add: conversation_ok_def c')
qed

lemma remove_member_ok:
  "remove_member actor target now c = Inr c' \<Longrightarrow> conversation_ok cid c \<Longrightarrow> conversation_ok cid c'"
  by (auto simp: remove_member_def conversation_ok_def members_ok_remove split: if_splits)

lemma conversation_direct_ok:
  "conversation_direct cid a b now = Inr c \<Longrightarrow> conversation_ok (conv_id c) c"
  by (auto simp: conversation_direct_def conversation_ok_def members_ok_insert_member split: if_splits)

lemma members_ok_founder: "members_ok (bt_insert u (new_member u Owner now) [])"
  by (simp add: members_ok_def new_member_def)

lemma conversation_group_ok:
  "conversation_group cid g owner us name now = Inr c \<Longrightarrow> conversation_ok (conv_id c) c"
  by (auto simp: conversation_group_def Let_def conversation_ok_def
      intro!: members_ok_add_all members_ok_founder split: if_splits)

lemma apply_group_update_ok:
  "apply_group_update request now c = (c', ds) \<Longrightarrow> conversation_ok cid c \<Longrightarrow> conversation_ok cid c'"
  by (auto simp: apply_group_update_def Let_def conversation_ok_def split: option.splits prod.splits)

lemma detach_account_ok:
  assumes "conversation_ok cid c"
  shows "conversation_ok cid (detach_account actor now c)"
proof (cases "can_read c actor")
  case True
  have ok: "members_ok (conv_members c)" using assms by (simp add: conversation_ok_def)
  have "members_ok (bt_remove actor (bt_update u (set_role Owner) (conv_members c)))"
    if "ownership_successor actor c = Some u" for u
  proof -
    from that have owner: "\<exists>m. bt_get actor (conv_members c) = Some m \<and> mem_role m = Owner"
      by (auto simp: ownership_successor_def role_of_def split: if_splits)
    have wf: "bt_wf (bt_remove actor (bt_update u (set_role Owner) (conv_members c)))"
      using ok by (simp add: members_ok_def)
    show ?thesis
      using ok owner wf by (fastforce simp: members_ok_def set_role_def split: if_splits)
  qed
  with True assms ok show ?thesis
    by (auto simp: detach_account_def Let_def conversation_ok_def members_ok_remove split: option.split)
qed (simp add: detach_account_def assms)

section \<open>Preservation by the closures\<close>

named_theorems conversation_intros \<open>closures that keep the conversations in order\<close>

abbreviation keeps_conversations :: "'a tx \<Rightarrow> bool" where
  "keeps_conversations m \<equiv> pres conversations_ok m"

lemma conversations_ok_insert [simp]:
  "conversations_ok s \<Longrightarrow> conversation_ok cid c \<Longrightarrow>
    conversations_ok (s\<lparr>st_conversations := hm_insert cid c (st_conversations s)\<rparr>)"
  by (simp add: conversations_ok_def)

lemma pres_get_conversation:
  assumes "\<And>c. conversation_ok cid c \<Longrightarrow> keeps_conversations (f c)"
  shows "keeps_conversations (bnd (get_conversation cid) f)"
  using assms
  by (auto simp: pres_def get_conversation_def found_def bnd_def conversations_ok_def split: option.splits
      sum.splits)

lemma pres_put_conversation [conversation_intros]:
  "conversation_ok cid c \<Longrightarrow> keeps_conversations (put_conversation cid c)"
  by (simp add: pres_def put_conversation_def)

lemma pres_bnd_lift:
  "(\<And>x. r = Inr x \<Longrightarrow> pres I (f x)) \<Longrightarrow> pres I (bnd (lift r) f)"
  by (cases r) (simp_all add: pres_def)

lemma pres_bnd_dom:
  "(\<And>x. r = Inr x \<Longrightarrow> pres I (f x)) \<Longrightarrow> pres I (bnd (dom r) f)"
  unfolding dom_def by (rule pres_bnd_lift) simp

lemma pres_bnd_fail_if: "(\<not> b \<Longrightarrow> pres I (f ())) \<Longrightarrow> pres I (bnd (fail_if b e) f)"
  by (simp add: pres_def)

lemma pres_case_known:
  "(\<And>x y. p = (x, y) \<Longrightarrow> pres I (f x y)) \<Longrightarrow> pres I (case p of (x, y) \<Rightarrow> f x y)"
  by (cases p) simp

lemmas conversation_steps = pres_case_known pres_get_conversation pres_bnd_lift pres_bnd_dom pres_bnd_fail_if

text \<open>A step that leaves the conversations alone.\<close>

lemma pres_modify_conversations [conversation_intros]:
  "(\<And>s. st_conversations (g s) = st_conversations s) \<Longrightarrow> keeps_conversations (modify g)"
  by (simp add: pres_def conversations_ok_def)

lemma keeps_basic [conversation_intros]:
  "keeps_conversations (append_event rs k p now)" "keeps_conversations new_uuid"
  "keeps_conversations (fill_bytes n)" "keeps_conversations (hash_password C w)"
  by (simp_all add: pres_def append_event_run new_uuid_def fill_bytes_def hash_password_def
      conversations_ok_def)

lemma keeps_lookups [conversation_intros]:
  "keeps_conversations (dom r)" "keeps_conversations (found x)" "keeps_conversations (expect y why)"
  by (auto simp: dom_def found_def expect_def intro: pres_intros)

lemma keeps_core [conversation_intros]:
  "keeps_conversations (get_conversation cid)"
  "keeps_conversations (push_message cid m)"
  by (simp_all add: pres_def get_conversation_def found_def push_message_def conversations_ok_def
      run_bnd split: option.split)

lemma keeps_touch_conversation [conversation_intros]: "keeps_conversations (touch_conversation cid now)"
  by (auto simp: pres_def touch_conversation_def conversations_ok_def conversation_ok_def
      split: option.split)

lemma keeps_store_conversation:
  "conversation_ok (conv_id c) c \<Longrightarrow> keeps_conversations (store_conversation c)"
  by (auto simp: pres_def store_conversation_def conversations_ok_def)

lemma keeps_system_message [conversation_intros]:
  "keeps_conversations (append_system_message cid actor text now)"
  unfolding append_system_message_def by (intro conversation_steps conversation_intros pres_intros)

lemma keeps_messaging [conversation_intros]:
  "keeps_conversations (receipt_delivered mid u)"
  "keeps_conversations (receipt_read u mid)"
  "keeps_conversations (remember_sent actor i mid q)"
  "keeps_conversations (set_expiration mid e now)"
  "keeps_conversations (advance_position actor cid q)"
  unfolding receipt_delivered_def receipt_read_def remember_sent_def set_expiration_def
    advance_position_def
  by (intro conversation_steps conversation_intros pres_intros; simp split: option.split)+

lemma keeps_send [conversation_intros]:
  "keeps_conversations (deliver_message actor cid request mentions recipients now)"
  "keeps_conversations (append_forwarded_message actor cid content q recipients now)"
  unfolding deliver_message_def append_forwarded_message_def by (intro conversation_steps conversation_intros pres_intros)+

lemma keeps_send_message_in_store [conversation_intros]:
  "keeps_conversations (send_message_in_store actor cid request now)"
  unfolding send_message_in_store_def Let_def by (intro conversation_steps conversation_intros pres_intros)

lemma keeps_forward_loop [conversation_intros]:
  "keeps_conversations (forward_loop actor cid recipients now contents q)"
  by (induction contents arbitrary: q) (auto simp: Let_def intro!: conversation_steps conversation_intros pres_intros)

lemma keeps_messages [conversation_intros]:
  "keeps_conversations (forward_messages_in_store actor mids target mode now)"
  "keeps_conversations (acknowledge_delivery_tx actor mid now)"
  "keeps_conversations (mark_read_tx actor cid q now)"
  "keeps_conversations (recall_message_tx actor mid now)"
  "keeps_conversations (react_to_message_tx actor mid emoji active now)"
  "keeps_conversations (set_message_favorite_tx actor mid favorite)"
  unfolding forward_messages_in_store_def acknowledge_delivery_tx_def mark_read_tx_def
    recall_message_tx_def react_to_message_tx_def set_message_favorite_tx_def Let_def
  by (intro conversation_steps conversation_intros pres_intros; simp)+

lemma keeps_group_writes [conversation_intros]:
  "keeps_conversations (check_avatar actor aid)"
  "keeps_conversations (check_invitee actor u)"
  "keeps_conversations (put_settings u cid)"
  "keeps_conversations (drop_settings u cid)"
  "keeps_conversations (mark_conversation_read actor cid)"
  unfolding check_avatar_def check_invitee_def put_settings_def drop_settings_def
    mark_conversation_read_def Let_def
  by (intro conversation_steps conversation_intros pres_intros; simp)+

lemma keeps_create [conversation_intros]:
  "keeps_conversations (create_direct_tx actor peer now)"
  "keeps_conversations (create_group_tx actor members name now)"
  "keeps_conversations (make_friends sender recipient now)"
  unfolding create_direct_tx_def create_group_tx_def make_friends_def put_friend_settings_def
  by (intro conversation_steps conversation_intros pres_intros keeps_store_conversation;
    (erule conversation_direct_ok conversation_group_ok | simp))+

text \<open>What the closures make of a conversation that is in order.\<close>

lemma conversation_ok_frame [simp]:
  "conversation_ok cid (c\<lparr>conv_updated_at := now\<rparr>) = conversation_ok cid c"
  by (simp add: conversation_ok_def)

lemma conversation_ok_members:
  "conversation_ok cid c \<Longrightarrow> members_ok ms \<Longrightarrow> conversation_ok cid (c\<lparr>conv_members := ms\<rparr>)"
  by (simp add: conversation_ok_def)

lemma conversation_ok_members_of: "conversation_ok cid c \<Longrightarrow> members_ok (conv_members c)"
  by (simp add: conversation_ok_def)

lemma keeps_update_group [conversation_intros]:
  "keeps_conversations (update_group_tx actor cid request now)"
  unfolding update_group_tx_def Let_def
  by (intro conversation_steps conversation_intros pres_intros)
    (auto intro: apply_group_update_ok)

lemma keeps_members_changed [conversation_intros]:
  "keeps_conversations (add_group_members_tx actor cid invitees now)"
  "keeps_conversations (leave_group_tx actor cid now)"
  unfolding add_group_members_tx_def leave_group_tx_def Let_def
  by (intro conversation_steps conversation_intros pres_intros;
    auto intro!: conversation_ok_members members_ok_remove
      intro: members_ok_insert_members conversation_ok_members_of)+

lemma keeps_domain_changes [conversation_intros]:
  "keeps_conversations (remove_group_member_tx actor cid target now)"
  "keeps_conversations (transfer_group_ownership_tx actor cid target now)"
  unfolding remove_group_member_tx_def transfer_group_ownership_tx_def
  by (intro conversation_steps conversation_intros pres_intros;
    erule (1) remove_member_ok transfer_ownership_ok)+

lemma keeps_group_settings [conversation_intros]:
  "keeps_conversations (set_group_mute_tx actor cid muted now)"
  "keeps_conversations (update_conversation_settings_tx actor cid ucs now)"
  "keeps_conversations (mark_all_read_tx actor now)"
  unfolding set_group_mute_tx_def update_conversation_settings_tx_def mark_all_read_tx_def
  by (intro conversation_steps conversation_intros pres_intros; simp)+

lemma keeps_disband_group [conversation_intros]: "keeps_conversations (disband_group_tx actor cid now)"
proof -
  have "conversations_ok s \<Longrightarrow> conversations_ok (s\<lparr>st_conversations := hm_remove cid (st_conversations s),
      st_conversation_settings := a, st_group_mute_all := b\<rparr>)" for s :: txn and a b
    by (auto simp: conversations_ok_def)
  then show ?thesis
    unfolding disband_group_tx_def
    by (intro conversation_steps conversation_intros pres_intros pres_modify) auto
qed

lemma members_ok_apply_update:
  assumes "members_ok ms" "case ugm_role request of None \<Rightarrow> True | Some role \<Rightarrow> role \<noteq> Owner"
  shows "members_ok (bt_update u (apply_member_update request) ms)"
  using assms
  by (intro members_ok_update) (auto simp: apply_member_update_def Let_def split: option.splits)

lemma keeps_update_group_member [conversation_intros]:
  "keeps_conversations (update_group_member_tx actor cid target request now)"
  unfolding update_group_member_tx_def Let_def
  by (intro conversation_steps conversation_intros pres_intros)
    (auto intro!: conversation_ok_members members_ok_apply_update conversation_ok_members_of
      split: option.splits)

lemma keeps_boards [conversation_intros]:
  "keeps_conversations (new_poll_option label)"
  "keeps_conversations (create_group_announcement_tx actor cid content now)"
  "keeps_conversations (read_group_announcement_tx actor aid now)"
  "keeps_conversations (request_to_join_group_tx actor cid message now)"
  "keeps_conversations (create_group_poll_tx actor cid question options multiple closes now)"
  "keeps_conversations (vote_group_poll_tx actor pid option_ids now)"
  unfolding new_poll_option_def create_group_announcement_tx_def
    read_group_announcement_tx_def request_to_join_group_tx_def
    create_group_poll_tx_def vote_group_poll_tx_def Let_def
  by (intro conversation_steps conversation_intros pres_intros; simp)+

lemma keeps_join_decision [conversation_intros]:
  "keeps_conversations (decide_group_join_request_tx actor rid accept now)"
  unfolding decide_group_join_request_tx_def admit_applicant_def Let_def
  by (intro conversation_steps conversation_intros pres_intros)
    (auto intro!: conversation_ok_members members_ok_insert_member conversation_ok_members_of)

lemma keeps_friends [conversation_intros]:
  "keeps_conversations (put_friend_settings owner friend settings)"
  "keeps_conversations (drop_friend_settings a b)"
  "keeps_conversations (send_friend_request_tx sender username message now)"
  "keeps_conversations (update_friend_settings_tx actor friend ufs now)"
  "keeps_conversations (delete_friend_tx actor friend now)"
  "keeps_conversations (block_user_tx actor target now)"
  "keeps_conversations (unblock_user_tx actor target now)"
  "keeps_conversations (report_user_tx actor target reason details now)"
  unfolding put_friend_settings_def drop_friend_settings_def
    send_friend_request_tx_def update_friend_settings_tx_def delete_friend_tx_def
    block_user_tx_def unblock_user_tx_def report_user_tx_def Let_def
  by (intro conversation_steps conversation_intros pres_intros; simp)+

lemma keeps_decide_friend_request [conversation_intros]:
  "keeps_conversations (decide_friend_request_tx actor rid decision now)"
  unfolding decide_friend_request_tx_def
  by (intro conversation_steps conversation_intros pres_intros; simp)

lemma keeps_accounts [conversation_intros]:
  "keeps_conversations (get_live_account u)"
  "keeps_conversations (put_account u a)"
  "keeps_conversations (begin_second_factor_setup_tx u e x t)"
  "keeps_conversations (enable_second_factor_tx C key u code now)"
  "keeps_conversations (disable_second_factor_tx C key u p code now)"
  "keeps_conversations (regenerate_recovery_codes_tx C key u p code now)"
  unfolding get_live_account_def put_account_def begin_second_factor_setup_tx_def
    enable_second_factor_tx_def disable_second_factor_tx_def regenerate_recovery_codes_tx_def
    generate_recovery_codes_def random_token_def Let_def
  by (intro conversation_steps conversation_intros pres_intros; simp)+

lemma keeps_drawing [conversation_intros]:
  "keeps_conversations (encrypt_secret C key x)" "keeps_conversations random_token"
  unfolding encrypt_secret_def random_token_def Let_def
  by (intro conversation_steps conversation_intros pres_intros)+

lemma keeps_tokens [conversation_intros]:
  "keeps_conversations (revoke_tokens P)"
  "keeps_conversations (revoke_devices u t)"
  "keeps_conversations (add_device d u n p v now)"
  "keeps_conversations (revoke_family f)"
  "keeps_conversations (revoke_user_sessions u t')"
  "keeps_conversations (issue_session_in_family C u d pr now f)"
  "keeps_conversations (issue_session C u d pr now)"
  unfolding revoke_tokens_def revoke_devices_def add_device_def revoke_family_def
    revoke_user_sessions_def issue_session_in_family_def issue_session_def Let_def
  by (intro conversation_steps conversation_intros pres_intros; simp)+

lemma keeps_sessions [conversation_intros]:
  "keeps_conversations (register_tx C e n h u d pr dn pl av now)"
  "keeps_conversations (login_tx C key input code now)"
  "keeps_conversations (refresh_tx C h now)"
  "keeps_conversations (logout_tx h)"
  "keeps_conversations (revoke_device_tx actor d now)"
  "keeps_conversations (change_password_tx C actor password h)"
  "keeps_conversations (request_password_reset_tx e r h t now)"
  "keeps_conversations (reset_password_tx h h' now)"
  "keeps_conversations (qr_session_tx C u c now)"
  unfolding register_tx_def login_tx_def refresh_tx_def logout_tx_def revoke_device_tx_def
    change_password_tx_def request_password_reset_tx_def reset_password_tx_def qr_session_tx_def
    Let_def
  by (intro conversation_steps conversation_intros pres_intros; simp)+

lemma keeps_detach [conversation_intros]:
  "keeps_conversations (detach_account_from_conversations actor now)"
  unfolding detach_account_from_conversations_def
  by (rule pres_modify) (auto simp: conversations_ok_def intro: detach_account_ok)

lemma keeps_profiles [conversation_intros]:
  "keeps_conversations (append_visible_profile actor now u)"
  "keeps_conversations (append_profile_events actor p now)"
  "keeps_conversations (update_profile_tx u i today now)"
  "keeps_conversations (update_profile_privacy_tx u settings now)"
  "keeps_conversations (anonymize_account C u now)"
  "keeps_conversations (purge_account_relationships u now)"
  "keeps_conversations (delete_account_in_store C actor password now)"
  unfolding append_visible_profile_def append_profile_events_def update_profile_tx_def
    update_profile_privacy_tx_def anonymize_account_def purge_account_relationships_def
    delete_account_in_store_def Let_def
  by (intro conversation_steps conversation_intros pres_intros; simp)+

lemma keeps_attachments [conversation_intros]:
  "keeps_conversations (put_attachment i p)"
  "keeps_conversations (authorize_attachment_tx actor a t)"
  "keeps_conversations (complete_attachment_tx actor i now)"
  "keeps_conversations (quarantine_attachment_tx actor i now)"
  "keeps_conversations (cleanup_expired_attachments_tx now)"
  "keeps_conversations (create_sticker_tx actor i name shortcut now)"
  "keeps_conversations (delete_sticker_tx actor i')"
  unfolding put_attachment_def authorize_attachment_tx_def complete_attachment_tx_def
    quarantine_attachment_tx_def cleanup_expired_attachments_tx_def create_sticker_tx_def
    delete_sticker_tx_def Let_def
  by (intro conversation_steps conversation_intros pres_intros; simp)+

lemma keeps_schedule_and_admin [conversation_intros]:
  "keeps_conversations (schedule_message_tx actor request mentions now)"
  "keeps_conversations (cancel_scheduled_message_tx actor i)"
  "keeps_conversations (unschedule_tx i)"
  "keeps_conversations (set_connection_presence_tx actor connected now)"
  "keeps_conversations (append_audit action target now)"
  "keeps_conversations (admin_set_user_suspended_tx target suspended now)"
  "keeps_conversations (admin_revoke_user_sessions_tx target now)"
  unfolding schedule_message_tx_def cancel_scheduled_message_tx_def unschedule_tx_def
    set_connection_presence_tx_def append_audit_def admin_set_user_suspended_tx_def
    admin_revoke_user_sessions_tx_def Let_def
  by (intro conversation_steps conversation_intros pres_intros; simp)+

section \<open>Preservation by the service\<close>

interpretation conversation_inv: store_invariant conversations_ok
  by unfold_locales (simp add: conversations_ok_def)

end
