(* ===== verification/Service_Steps.thy ===== *)
theory Service_Steps
  imports Group_Rules
begin

text \<open>
  The service as a transition system: one transition for every public method of \<open>ChatService\<close> that
  writes, with any arguments at any time, whatever its outcome.  Three facts hold of every run: it
  only ever makes \<open>progress\<close>, it never panics, and from a fresh or restored service every state is
  \<open>consistent\<close>: what the database holds is what was committed, and messages and conversations are
  in order.
\<close>

section \<open>Operations of the service\<close>

text \<open>What every operation keeps: the snapshot row holds the committed store, and the messages and
  conversations are in order.\<close>

definition consistent :: "service \<Rightarrow> bool" where
  "consistent sv \<longleftrightarrow> durable sv \<and> messages_ok (svc_txn sv) \<and> conversations_ok (svc_txn sv)"

definition broadcast_from :: "nat \<Rightarrow> service \<Rightarrow> bool" where
  "broadcast_from base sv \<longleftrightarrow> base \<le> length (st_events (svc_txn sv))
     \<and> svc_events sv = published base (svc_txn sv)"

definition steady :: "nat \<Rightarrow> service \<Rightarrow> bool" where
  "steady base sv \<longleftrightarrow> consistent sv \<and> broadcast_from base sv"

lemma published_append:
  "base \<le> length (st_events s) \<Longrightarrow> st_events s' = st_events s @ new \<Longrightarrow>
    published base s' = published base s @ published (length (st_events s)) s'"
  by (simp add: published_def)

lemma published_restore [simp]: "published base (restore s s') = published base s"
  by (simp add: published_def restore_def)

lemma restore_log [simp]: "st_events (restore s s') = st_events s"
  by (simp add: restore_def)

lemma broadcast_from_mutate:
  assumes b: "broadcast_from base sv" and g: "guar progress operation"
    and q: "\<not> panics (fst (operation (svc_txn sv)))"
  shows "broadcast_from base (snd (mutate operation sv))"
proof -
  have grown: "base \<le> length (st_events s) \<and>
      published base s = svc_events sv @ published (length (st_events (svc_txn sv))) s"
    if "operation (svc_txn sv) = (r, s)" for r s
  proof -
    from guarD [OF g that] obtain new where "st_events s = st_events (svc_txn sv) @ new"
      unfolding progress_def by blast
    with b published_append [OF _ this, of base] show ?thesis by (simp add: broadcast_from_def)
  qed
  show ?thesis
  proof (cases operation sv rule: mutate_cases)
    case panicked
    with q show ?thesis by auto
  next
    case (volatile r s)
    with grown [OF volatile(1)] show ?thesis by (simp add: broadcast_from_def)
  next
    case (saved r s db)
    with grown [OF saved(1)] show ?thesis by (simp add: broadcast_from_def)
  qed (use b in \<open>simp_all add: broadcast_from_def\<close>)
qed

lemma safe_mutate_messages:
  assumes quiet: "\<And>s. messages_ok s \<Longrightarrow> \<not> panics (fst (operation s))"
    and g: "guar progress operation" and k: "keeps_conversations operation"
  shows "safe (steady base) (mutate operation)"
proof (rule safeI)
  fix sv assume "steady base sv"
  then have c: "consistent sv" and b: "broadcast_from base sv" by (simp_all add: steady_def)
  then have q: "\<not> panics (fst (operation (svc_txn sv)))" by (simp add: consistent_def quiet)
  then have "\<And>e s. operation (svc_txn sv) = (Inl e, s) \<Longrightarrow> \<not> is_panic e" by auto
  with c have "durable (snd (mutate operation sv))" by (intro mutate_durable) (auto simp: consistent_def)
  moreover have "svc_progress sv (snd (mutate operation sv))"
    using mutate_progress [OF g] by (simp add: guar_def)
  then have "messages_ok (svc_txn (snd (mutate operation sv)))"
    using c by (auto simp: svc_progress_def consistent_def intro: progress_messages_ok)
  moreover have "conversations_ok (svc_txn (snd (mutate operation sv)))"
    using conversation_inv.mutate_pres [OF k g] c by (simp add: pres_def consistent_def)
  moreover have "\<not> panics (fst (mutate operation sv))"
    using q by (cases operation sv rule: mutate_cases) auto
  ultimately show "\<not> panics (fst (mutate operation sv)) \<and> steady base (snd (mutate operation sv))"
    using broadcast_from_mutate [OF b g q] by (simp add: steady_def consistent_def)
qed

lemma safe_mutate [safe_intros]:
  "never_panics operation \<Longrightarrow> guar progress operation \<Longrightarrow> keeps_conversations operation
    \<Longrightarrow> safe (steady base) (mutate operation)"
  by (rule safe_mutate_messages) (simp_all add: safe_def)

lemma safe_checked [safe_intros]: "safe (steady base) (checked r)"
  unfolding checked_def by (intro safe_intros) simp

lemma steady_frame [simp]:
  "steady base (sv\<lparr>svc_qr_logins := a\<rparr>) = steady base sv"
  "steady base (sv\<lparr>svc_connections := b\<rparr>) = steady base sv"
  "steady base (sv\<lparr>svc_call_rooms := c\<rparr>) = steady base sv"
  "steady base (sv\<lparr>svc_calls := d\<rparr>) = steady base sv"
  "steady base (sv\<lparr>svc_typing := e\<rparr>) = steady base sv"
  by (simp_all add: steady_def broadcast_from_def consistent_def durable_def split: option.split)

lemma steady_leave_room [simp]: "steady base (leave_room actor t key sv) = steady base sv"
  by (simp add: leave_room_def Let_def split: option.split)


section \<open>Operations that neither panic nor leave the database behind\<close>

definition draws_only :: "txn \<Rightarrow> txn \<Rightarrow> bool" where
  "draws_only s s' \<longleftrightarrow> store.truncate s' = store.truncate s"

interpretation draws_only: effect_preorder draws_only
  by unfold_locales (simp_all add: draws_only_def)

lemma draws_only_basic [guar_intros]:
  "guar draws_only new_uuid" "guar draws_only (fill_bytes n)" "guar draws_only (hash_password C p)"
  by (simp_all add: guar_def draws_only_def new_uuid_def fill_bytes_def hash_password_def store.defs)

lemma draws_only_tokens [guar_intros]:
  "guar draws_only random_token" "guar draws_only (encrypt_secret C key x)"
  unfolding random_token_def encrypt_secret_def by (intro guar_intros)+

lemma safe_drawing [safe_intros]:
  assumes "never_panics m" "guar draws_only m" "guar progress m" "keeps_conversations m"
  shows "safe (steady base) (drawing m)"
proof (rule safeI)
  fix sv assume "steady base sv"
  then have c: "consistent sv" and b: "broadcast_from base sv" by (simp_all add: steady_def)
  obtain r s where run: "m (svc_txn sv) = (r, s)" by (cases "m (svc_txn sv)")
  have "store.truncate s = stored sv" "\<not> panics r" "progress (svc_txn sv) s"
    using guarD [OF assms(2) run] safeD [OF assms(1) _ run] guarD [OF assms(3) run]
    by (simp_all add: draws_only_def)
  moreover have "conversations_ok s"
    using presD [OF assms(4) _ run] c by (simp add: consistent_def)
  moreover from \<open>store.truncate s = stored sv\<close> have "st_events s = st_events (svc_txn sv)"
    by (simp add: store.defs)
  then have "broadcast_from base (sv\<lparr>svc_txn := s\<rparr>)"
    using b by (simp add: broadcast_from_def published_def)
  ultimately show "\<not> panics (fst (drawing m sv)) \<and> steady base (snd (drawing m sv))"
    using c run by (auto simp: drawing_def steady_def consistent_def durable_def split: option.splits
        intro: progress_messages_ok)
qed

lemma safe_is_ok [safe_intros]: "safe I m \<Longrightarrow> safe I (is_ok m)"
  unfolding safe_def snd_is_ok
  by (auto simp: is_ok_def panics_def split: prod.splits sum.splits application_error.splits)

lemma safe_on_error [safe_intros]:
  assumes "safe I m" "\<And>sv. I sv \<Longrightarrow> I (h sv)"
  shows "safe I (on_error m h)"
proof (rule safeI)
  fix sv assume "I sv"
  obtain r sv' where run: "m sv = (r, sv')" by (cases "m sv")
  from safeD [OF assms(1) \<open>I sv\<close> run] assms(2) show "\<not> panics (fst (on_error m h sv)) \<and> I (snd (on_error m h sv))"
    by (auto simp: on_error_def run split: sum.split application_error.split)
qed

lemma safe_messaging [safe_intros]:
  "safe (steady base) (send_message_request actor cid request now)"
  "safe (steady base) (send_message actor cid i content reply now)"
  "safe (steady base) (acknowledge_delivery actor mid now)"
  "safe (steady base) (mark_read actor cid q now)"
  "safe (steady base) (react_to_message actor mid emoji active now)"
  "safe (steady base) (set_message_favorite actor mid favorite)"
  "safe (steady base) (forward_messages actor mids target mode now)"
  unfolding send_message_def send_message_request_def acknowledge_delivery_def mark_read_def
    react_to_message_def set_message_favorite_def forward_messages_def Let_def
  by (intro safe_intros guar_intros conversation_intros; simp)+

lemma safe_recall_message [safe_intros]: "safe (steady base) (recall_message actor mid now)"
  unfolding recall_message_def
  by (rule safe_mutate_messages) (simp_all add: recall_does_not_panic guar_intros conversation_intros)

lemma safe_group_admin [safe_intros]:
  "safe (steady base) (create_direct actor peer now)"
  "safe (steady base) (create_group actor members name now)"
  "safe (steady base) (update_group url actor cid ugr now)"
  "safe (steady base) (add_group_members actor cid invitees now)"
  "safe (steady base) (leave_group actor cid now)"
  "safe (steady base) (disband_group actor cid now)"
  "safe (steady base) (update_group_member actor cid target request now)"
  "safe (steady base) (remove_group_member actor cid target now)"
  "safe (steady base) (transfer_group_ownership actor cid target now)"
  "safe (steady base) (set_group_mute actor cid muted now)"
  "safe (steady base) (update_conversation_settings actor cid ucs now)"
  "safe (steady base) (mark_all_read actor now)"
  unfolding create_direct_def create_group_def update_group_def add_group_members_def
    leave_group_def disband_group_def update_group_member_def remove_group_member_def
    transfer_group_ownership_def set_group_mute_def update_conversation_settings_def
    mark_all_read_def Let_def
  by (intro safe_intros guar_intros conversation_intros; simp)+

lemma safe_group_boards [safe_intros]:
  "safe (steady base) (create_group_announcement actor cid content now)"
  "safe (steady base) (read_group_announcement actor aid now)"
  "safe (steady base) (request_to_join_group actor cid message now)"
  "safe (steady base) (decide_group_join_request actor rid accept now)"
  "safe (steady base) (create_group_poll actor cid request now)"
  "safe (steady base) (vote_group_poll actor pid option_ids now)"
  unfolding create_group_announcement_def read_group_announcement_def request_to_join_group_def
    decide_group_join_request_def create_group_poll_def vote_group_poll_def Let_def
  by (intro safe_intros guar_intros conversation_intros; simp)+

lemma safe_friends [safe_intros]:
  "safe (steady base) (send_friend_request sender username message now)"
  "safe (steady base) (decide_friend_request actor rid decision now)"
  "safe (steady base) (update_friend_settings actor friend ufs now)"
  "safe (steady base) (delete_friend actor friend now)"
  "safe (steady base) (block_user actor target now)"
  "safe (steady base) (unblock_user actor target now)"
  "safe (steady base) (report_user actor target rep now)"
  unfolding send_friend_request_def decide_friend_request_def update_friend_settings_def
    delete_friend_def block_user_def unblock_user_def report_user_def Let_def
  by (intro safe_intros guar_intros conversation_intros; simp)+

lemma safe_second_factor [safe_intros]:
  "safe (steady base) (begin_second_factor_setup C actor now)"
  "safe (steady base) (enable_second_factor C actor code now)"
  "safe (steady base) (disable_second_factor C actor password code now)"
  "safe (steady base) (regenerate_recovery_codes C actor password code now)"
  unfolding begin_second_factor_setup_def enable_second_factor_def disable_second_factor_def
    regenerate_recovery_codes_def Let_def
  by (intro safe_intros guar_intros conversation_intros; simp)+

lemma safe_sessions [safe_intros]:
  "safe (steady base) (register U C ri now)"
  "safe (steady base) (login_with_second_factor C li code now)"
  "safe (steady base) (logout C token)"
  "safe (steady base) (revoke_device actor d now)"
  "safe (steady base) (change_password U C actor password new)"
  "safe (steady base) (request_password_reset C email now)"
  "safe (steady base) (reset_password U C token new now)"
  "safe (steady base) (login C li now)"
  unfolding login_def register_def login_with_second_factor_def logout_def revoke_device_def
    change_password_def request_password_reset_def reset_password_def Let_def
  by (intro safe_intros guar_intros conversation_intros; simp)+

lemma safe_profiles [safe_intros]:
  "safe (steady base) (update_profile u i today now)"
  "safe (steady base) (update_profile_privacy u settings now)"
  "safe (steady base) (delete_account C actor password confirmation now)"
  unfolding update_profile_def update_profile_privacy_def delete_account_def Let_def
  by (intro safe_intros guar_intros conversation_intros; simp)+

lemma safe_attachments [safe_intros]:
  "safe (steady base) (authorize_attachment C actor n m z h now)"
  "safe (steady base) (complete_attachment actor i now)"
  "safe (steady base) (quarantine_attachment actor i now)"
  "safe (steady base) (cleanup_expired_attachments now)"
  "safe (steady base) (create_sticker actor request now)"
  "safe (steady base) (delete_sticker actor i')"
  unfolding authorize_attachment_def complete_attachment_def quarantine_attachment_def
    cleanup_expired_attachments_def create_sticker_def delete_sticker_def Let_def
  by (intro safe_intros guar_intros conversation_intros; simp)+

lemma safe_schedule [safe_intros]:
  "safe (steady base) (schedule_message actor request now)"
  "safe (steady base) (cancel_scheduled_message actor i)"
  unfolding schedule_message_def cancel_scheduled_message_def Let_def
  by (intro safe_intros guar_intros conversation_intros; simp)+

lemma safe_realtime [safe_intros]:
  "safe (steady base) (publish_typing actor cid active now)"
  "safe (steady base) (admin_set_user_suspended target suspended now)"
  "safe (steady base) (admin_revoke_user_sessions target now)"
  unfolding publish_typing_def admin_set_user_suspended_def admin_revoke_user_sessions_def Let_def
  by (intro safe_intros guar_intros conversation_intros; simp)+

text \<open>The inner result that \<open>refresh\<close> unwraps is a session or the report of a reuse.\<close>

lemma refresh_tx_result:
  assumes "refresh_tx C h now s = (Inr r, s')"
  shows "\<not> panics r"
  using assms by (auto simp: refresh_tx_def ok_or_def split: option.splits if_splits)

lemma safe_refresh [safe_intros]: "safe (steady base) (refresh C token now)"
proof (rule safeI)
  fix sv assume c: "steady base sv"
  let ?m = "mutate (refresh_tx C (hash_token C token) now)"
  obtain r sv' where run: "?m sv = (r, sv')" by (cases "?m sv")
  have "safe (steady base) ?m" by (intro safe_intros guar_intros conversation_intros)
  from safeD [OF this c run] have "\<not> panics r" "steady base sv'" by simp_all
  then show "\<not> panics (fst (refresh C token now sv)) \<and> steady base (snd (refresh C token now sv))"
    using run refresh_tx_result [OF mutate_InrD(1)] by (cases r) (auto simp: refresh_def run_bnd)
qed

lemma safe_qr [safe_intros]:
  "safe (steady base) (begin_qr_login C n p v now)"
  "safe (steady base) (approve_qr_login C actor i secret now)"
  "safe (steady base) (poll_qr_login C i secret now)"
  unfolding begin_qr_login_def approve_qr_login_def poll_qr_login_def prune_qr_logins_def
    verified_challenge_def Let_def
  by (intro safe_intros guar_intros conversation_intros; simp)+

lemma safe_deliver_loop [safe_intros]: "safe (steady base) (deliver_loop ms now n)"
proof (induction ms arbitrary: n)
  case (Cons m ms)
  then show ?case
    unfolding deliver_loop.simps deliver_scheduled_def by (intro safe_intros guar_intros conversation_intros)
qed (simp add: safe_intros)

lemma safe_deliver_due_messages [safe_intros]: "safe (steady base) (deliver_due_messages now)"
  unfolding deliver_due_messages_def by (intro safe_intros)

lemma safe_rooms [safe_intros]:
  "safe (steady base) (put_room key room)"
  "safe (steady base) (room_at key)"
  "safe (steady base) (send_call us d)"
  "safe (steady base) (prune_rooms now)"
  unfolding put_room_def room_at_def send_call_def prune_rooms_def by (intro safe_intros; simp)+

lemma safe_room_transition [safe_intros]:
  "safe (steady base) (room_transition actor key target t signal)"
  by (cases signal) (simp_all add: relay_in_room_def, (intro safe_intros; simp)+)

lemma safe_publish_call_signal [safe_intros]:
  "safe (steady base) (publish_call_signal actor cid i target signal now)"
  unfolding publish_call_signal_def update_call_room_def
  by (intro safe_gets_lift safe_intros; simp)

lemma safe_connections [safe_intros]:
  "safe (steady base) (set_connection_presence actor connected now)"
  "safe (steady base) (connection_opened actor now)"
  "safe (steady base) (connection_closed actor now)"
  unfolding set_connection_presence_def connection_opened_def connection_closed_def Let_def
    forget_connections_def
  by (intro safe_intros guar_intros conversation_intros; simp)+

section \<open>Runs of the service\<close>

text \<open>A transition is labelled with its error, if it has one.\<close>

definition outcome :: "application_error + 'a \<Rightarrow> application_error option" where
  "outcome r = (case r of Inl e \<Rightarrow> Some e | Inr _ \<Rightarrow> None)"

inductive service_step ::
  "unicode \<Rightarrow> crypto \<Rightarrow> service \<Rightarrow> application_error option \<Rightarrow> service \<Rightarrow> bool" for U C where
  SendMessageRequest: "send_message_request actor cid request now sv = (r, sv') \<Longrightarrow> service_step U C sv (outcome r) sv'"
| SendMessage: "send_message actor cid i content reply now sv = (r, sv') \<Longrightarrow> service_step U C sv (outcome r) sv'"
| AcknowledgeDelivery: "acknowledge_delivery actor mid now sv = (r, sv') \<Longrightarrow> service_step U C sv (outcome r) sv'"
| MarkRead: "mark_read actor cid q now sv = (r, sv') \<Longrightarrow> service_step U C sv (outcome r) sv'"
| RecallMessage: "recall_message actor mid now sv = (r, sv') \<Longrightarrow> service_step U C sv (outcome r) sv'"
| ReactToMessage: "react_to_message actor mid emoji active now sv = (r, sv') \<Longrightarrow> service_step U C sv (outcome r) sv'"
| SetMessageFavorite: "set_message_favorite actor mid favorite sv = (r, sv') \<Longrightarrow> service_step U C sv (outcome r) sv'"
| ForwardMessages: "forward_messages actor mids target mode now sv = (r, sv') \<Longrightarrow> service_step U C sv (outcome r) sv'"
| CreateDirect: "create_direct actor peer now sv = (r, sv') \<Longrightarrow> service_step U C sv (outcome r) sv'"
| CreateGroup: "create_group actor members name now sv = (r, sv') \<Longrightarrow> service_step U C sv (outcome r) sv'"
| UpdateGroup: "update_group url actor cid ugr now sv = (r, sv') \<Longrightarrow> service_step U C sv (outcome r) sv'"
| AddGroupMembers: "add_group_members actor cid invitees now sv = (r, sv') \<Longrightarrow> service_step U C sv (outcome r) sv'"
| LeaveGroup: "leave_group actor cid now sv = (r, sv') \<Longrightarrow> service_step U C sv (outcome r) sv'"
| DisbandGroup: "disband_group actor cid now sv = (r, sv') \<Longrightarrow> service_step U C sv (outcome r) sv'"
| UpdateGroupMember: "update_group_member actor cid target request now sv = (r, sv') \<Longrightarrow> service_step U C sv (outcome r) sv'"
| RemoveGroupMember: "remove_group_member actor cid target now sv = (r, sv') \<Longrightarrow> service_step U C sv (outcome r) sv'"
| TransferGroupOwnership: "transfer_group_ownership actor cid target now sv = (r, sv') \<Longrightarrow> service_step U C sv (outcome r) sv'"
| SetGroupMute: "set_group_mute actor cid muted now sv = (r, sv') \<Longrightarrow> service_step U C sv (outcome r) sv'"
| UpdateConversationSettings: "update_conversation_settings actor cid ucs now sv = (r, sv') \<Longrightarrow> service_step U C sv (outcome r) sv'"
| MarkAllRead: "mark_all_read actor now sv = (r, sv') \<Longrightarrow> service_step U C sv (outcome r) sv'"
| CreateGroupAnnouncement: "create_group_announcement actor cid content now sv = (r, sv') \<Longrightarrow> service_step U C sv (outcome r) sv'"
| ReadGroupAnnouncement: "read_group_announcement actor aid now sv = (r, sv') \<Longrightarrow> service_step U C sv (outcome r) sv'"
| RequestToJoinGroup: "request_to_join_group actor cid message now sv = (r, sv') \<Longrightarrow> service_step U C sv (outcome r) sv'"
| DecideGroupJoinRequest: "decide_group_join_request actor rid accept now sv = (r, sv') \<Longrightarrow> service_step U C sv (outcome r) sv'"
| CreateGroupPoll: "create_group_poll actor cid request now sv = (r, sv') \<Longrightarrow> service_step U C sv (outcome r) sv'"
| VoteGroupPoll: "vote_group_poll actor pid option_ids now sv = (r, sv') \<Longrightarrow> service_step U C sv (outcome r) sv'"
| SendFriendRequest: "send_friend_request sender username message now sv = (r, sv') \<Longrightarrow> service_step U C sv (outcome r) sv'"
| DecideFriendRequest: "decide_friend_request actor rid decision now sv = (r, sv') \<Longrightarrow> service_step U C sv (outcome r) sv'"
| UpdateFriendSettings: "update_friend_settings actor friend ufs now sv = (r, sv') \<Longrightarrow> service_step U C sv (outcome r) sv'"
| DeleteFriend: "delete_friend actor friend now sv = (r, sv') \<Longrightarrow> service_step U C sv (outcome r) sv'"
| BlockUser: "block_user actor target now sv = (r, sv') \<Longrightarrow> service_step U C sv (outcome r) sv'"
| UnblockUser: "unblock_user actor target now sv = (r, sv') \<Longrightarrow> service_step U C sv (outcome r) sv'"
| ReportUser: "report_user actor target rep now sv = (r, sv') \<Longrightarrow> service_step U C sv (outcome r) sv'"
| BeginSecondFactorSetup: "begin_second_factor_setup C actor now sv = (r, sv') \<Longrightarrow> service_step U C sv (outcome r) sv'"
| EnableSecondFactor: "enable_second_factor C actor code now sv = (r, sv') \<Longrightarrow> service_step U C sv (outcome r) sv'"
| DisableSecondFactor: "disable_second_factor C actor password code now sv = (r, sv') \<Longrightarrow> service_step U C sv (outcome r) sv'"
| RegenerateRecoveryCodes: "regenerate_recovery_codes C actor password code now sv = (r, sv') \<Longrightarrow> service_step U C sv (outcome r) sv'"
| Register: "register U C ri now sv = (r, sv') \<Longrightarrow> service_step U C sv (outcome r) sv'"
| LoginWithSecondFactor: "login_with_second_factor C li code now sv = (r, sv') \<Longrightarrow> service_step U C sv (outcome r) sv'"
| Login: "login C li now sv = (r, sv') \<Longrightarrow> service_step U C sv (outcome r) sv'"
| Refresh: "refresh C token now sv = (r, sv') \<Longrightarrow> service_step U C sv (outcome r) sv'"
| Logout: "logout C token sv = (r, sv') \<Longrightarrow> service_step U C sv (outcome r) sv'"
| RevokeDevice: "revoke_device actor d now sv = (r, sv') \<Longrightarrow> service_step U C sv (outcome r) sv'"
| ChangePassword: "change_password U C actor password new sv = (r, sv') \<Longrightarrow> service_step U C sv (outcome r) sv'"
| RequestPasswordReset: "request_password_reset C email now sv = (r, sv') \<Longrightarrow> service_step U C sv (outcome r) sv'"
| ResetPassword: "reset_password U C token new now sv = (r, sv') \<Longrightarrow> service_step U C sv (outcome r) sv'"
| BeginQrLogin: "begin_qr_login C n p v now sv = (r, sv') \<Longrightarrow> service_step U C sv (outcome r) sv'"
| ApproveQrLogin: "approve_qr_login C actor i secret now sv = (r, sv') \<Longrightarrow> service_step U C sv (outcome r) sv'"
| PollQrLogin: "poll_qr_login C i secret now sv = (r, sv') \<Longrightarrow> service_step U C sv (outcome r) sv'"
| UpdateProfile: "update_profile u i today now sv = (r, sv') \<Longrightarrow> service_step U C sv (outcome r) sv'"
| UpdateProfilePrivacy: "update_profile_privacy u settings now sv = (r, sv') \<Longrightarrow> service_step U C sv (outcome r) sv'"
| DeleteAccount: "delete_account C actor password confirmation now sv = (r, sv') \<Longrightarrow> service_step U C sv (outcome r) sv'"
| AuthorizeAttachment: "authorize_attachment C actor n m z h now sv = (r, sv') \<Longrightarrow> service_step U C sv (outcome r) sv'"
| CompleteAttachment: "complete_attachment actor i now sv = (r, sv') \<Longrightarrow> service_step U C sv (outcome r) sv'"
| QuarantineAttachment: "quarantine_attachment actor i now sv = (r, sv') \<Longrightarrow> service_step U C sv (outcome r) sv'"
| CleanupExpiredAttachments: "cleanup_expired_attachments now sv = (r, sv') \<Longrightarrow> service_step U C sv (outcome r) sv'"
| CreateSticker: "create_sticker actor request now sv = (r, sv') \<Longrightarrow> service_step U C sv (outcome r) sv'"
| DeleteSticker: "delete_sticker actor i' sv = (r, sv') \<Longrightarrow> service_step U C sv (outcome r) sv'"
| ScheduleMessage: "schedule_message actor request now sv = (r, sv') \<Longrightarrow> service_step U C sv (outcome r) sv'"
| CancelScheduledMessage: "cancel_scheduled_message actor i sv = (r, sv') \<Longrightarrow> service_step U C sv (outcome r) sv'"
| DeliverDueMessages: "deliver_due_messages now sv = (r, sv') \<Longrightarrow> service_step U C sv (outcome r) sv'"
| PublishTyping: "publish_typing actor cid active now sv = (r, sv') \<Longrightarrow> service_step U C sv (outcome r) sv'"
| PublishCallSignal: "publish_call_signal actor cid i target signal now sv = (r, sv') \<Longrightarrow> service_step U C sv (outcome r) sv'"
| ConnectionOpened: "connection_opened actor now sv = (r, sv') \<Longrightarrow> service_step U C sv (outcome r) sv'"
| ConnectionClosed: "connection_closed actor now sv = (r, sv') \<Longrightarrow> service_step U C sv (outcome r) sv'"
| AdminSetUserSuspended: "admin_set_user_suspended target suspended now sv = (r, sv') \<Longrightarrow> service_step U C sv (outcome r) sv'"
| AdminRevokeUserSessions: "admin_revoke_user_sessions target now sv = (r, sv') \<Longrightarrow> service_step U C sv (outcome r) sv'"

text \<open>Every transition is an operation that is safe and makes progress.\<close>

definition faithful :: "service \<Rightarrow> application_error option \<Rightarrow> service \<Rightarrow> bool" where
  "faithful sv l sv' \<longleftrightarrow> svc_progress sv sv'
     \<and> (\<forall>base. steady base sv \<longrightarrow> steady base sv' \<and> (case l of None \<Rightarrow> True | Some e \<Rightarrow> \<not> is_panic e))"

lemma faithful_operation:
  assumes "m sv = (r, sv')" "\<And>base. safe (steady base) m" "guar svc_progress m"
  shows "faithful sv (outcome r) sv'"
  using safeD [OF assms(2) _ assms(1)] guarD [OF assms(3,1)]
  by (auto simp: faithful_def outcome_def split: sum.splits)

lemma service_step_faithful: "service_step U C sv l sv' \<Longrightarrow> faithful sv l sv'"
  by (induction rule: service_step.induct; rule faithful_operation;
    (assumption | rule safe_intros | rule guar_intros))

inductive service_run :: "unicode \<Rightarrow> crypto \<Rightarrow> service \<Rightarrow> service \<Rightarrow> bool" for U C where
  Run_refl: "service_run U C sv sv"
| Run_step: "service_run U C sv sv' \<Longrightarrow> service_step U C sv' l sv'' \<Longrightarrow> service_run U C sv sv''"

lemma service_run_progress: "service_run U C sv sv' \<Longrightarrow> svc_progress sv sv'"
  by (induction rule: service_run.induct)
    (auto dest!: service_step_faithful simp: faithful_def intro: svc_progress.refl svc_progress.trans)

lemma service_run_steady: "service_run U C sv sv' \<Longrightarrow> steady base sv \<Longrightarrow> steady base sv'"
  by (induction rule: service_run.induct) (auto dest!: service_step_faithful simp: faithful_def)

section \<open>From the start\<close>

text \<open>\<open>started sv\<close>: \<open>sv\<close> is what \<open>ChatService::new\<close> returns, or \<open>ChatService::postgres\<close> on a database
  whose snapshot, if it has one, was taken from a service that kept the invariants of the store.\<close>

definition good_snapshot :: "(nat \<Rightarrow> uuid) \<Rightarrow> (nat \<Rightarrow> nat \<Rightarrow> u8) \<Rightarrow> database \<Rightarrow> bool" where
  "good_snapshot uuids rands db \<longleftrightarrow> (case db_snapshot db of None \<Rightarrow> True
     | Some st \<Rightarrow> (let s = store.extend st (txn.fields uuids 0 rands 0) in messages_ok s \<and> conversations_ok s \<and> log_ok s))"

inductive started :: "crypto \<Rightarrow> service \<Rightarrow> bool" for C where
  New: "started C (service_new C uuids rands)"
| Postgres: "good_snapshot uuids rands db \<Longrightarrow> started C (service_postgres C uuids rands db)"

definition reachable :: "unicode \<Rightarrow> crypto \<Rightarrow> service \<Rightarrow> bool" where
  "reachable U C sv \<longleftrightarrow> (\<exists>sv0. started C sv0 \<and> service_run U C sv0 sv)"

lemma default_store_ok:
  "messages_ok (store.extend default_store (txn.fields uuids 0 rands 0))"
  "conversations_ok (store.extend default_store (txn.fields uuids 0 rands 0))"
  "log_ok (store.extend default_store (txn.fields uuids 0 rands 0))"
  by (simp_all add: messages_ok_def messages_of_def log_ok_def conversations_ok_def default_store_def store.defs txn.defs)

lemma service_of_fields:
  "svc_txn (service_of C uuids rands st db) = store.extend st (txn.fields uuids 0 rands 0)"
  "svc_database (service_of C uuids rands st db) = db"
  by (simp_all add: service_of_def)

lemma durable_service_of:
  "durable (service_of C uuids rands default_store None)"
  "durable (service_of C uuids rands (case db_snapshot db of None \<Rightarrow> default_store | Some st \<Rightarrow> st) (Some db))"
  unfolding durable_def service_of_fields(2) truncate_service_of by (simp_all split: option.split)

lemma started_broadcast: "started C sv \<Longrightarrow> \<exists>base. broadcast_from base sv"
  by (induction rule: started.induct)
    (auto simp: service_new_def service_postgres_def service_of_def broadcast_from_def published_def)

lemma started_ok: "started C sv \<Longrightarrow> consistent sv \<and> log_ok (svc_txn sv)"
proof (induction rule: started.induct)
  case (New uuids rands)
  then show ?case
    unfolding service_new_def consistent_def service_of_fields(1)
    using durable_service_of(1) default_store_ok by blast
next
  case (Postgres uuids rands db)
  then show ?case
    unfolding service_postgres_def consistent_def service_of_fields(1)
    using durable_service_of(2) [of C uuids rands db] default_store_ok
    by (cases "db_snapshot db") (auto simp: good_snapshot_def Let_def)
qed

lemma reachable_steady:
  assumes "reachable U C sv"
  obtains base where "steady base sv"
  using assms started_ok started_broadcast service_run_steady unfolding reachable_def steady_def by metis

lemma reachable_ok:
  assumes "reachable U C sv"
  shows "consistent sv" "log_ok (svc_txn sv)"
  using assms reachable_steady [OF assms] started_ok service_run_progress progress_log_ok
  unfolding reachable_def svc_progress_def steady_def by metis+

lemma reachable_step: "reachable U C sv \<Longrightarrow> service_step U C sv l sv' \<Longrightarrow> reachable U C sv'"
  unfolding reachable_def by (metis Run_step)

lemma reachable_run: "reachable U C sv \<Longrightarrow> service_run U C sv sv' \<Longrightarrow> reachable U C sv'"
  by (rotate_tac, induction rule: service_run.induct) (auto intro: reachable_step)

lemma sat_add_Suc: "unat q + 1 < 2 ^ 64 \<Longrightarrow> sat_add q 1 = q + 1" for q :: u64
  by (simp add: sat_add_def)

lemma numbered_nth:
  "numbered cid q ms \<Longrightarrow> unat q + length ms < 2 ^ 64 \<Longrightarrow> i < length ms \<Longrightarrow>
    msg_sequence (ms ! i) = Some (q + word_of_nat (Suc i))"
proof (induction ms arbitrary: q i)
  case (Cons m ms)
  then have m: "msg_sequence m = Some (q + 1)" using sat_add_Suc [of q] by auto
  have "unat (q + 1) = unat q + 1" using Cons.prems(2) by (simp add: unat_word_ariths)
  with Cons.IH [of "q + 1"] Cons.prems m show ?case
    by (cases i) (auto simp: sequence_after_def ac_simps)
qed simp

section \<open>Properties of every run\<close>



text \<open>C6. In every reachable state the events of the log carry the cursors 1, 2, 3, \<open>..\<close> in order, and
  the service's cursor is the last of them.\<close>

theorem event_log_numbered:
  assumes "reachable U C sv"
  shows "map (ev_cursor \<circ> ue_event) (st_events (svc_txn sv))
      = map cursor_at [1..<Suc (length (st_events (svc_txn sv)))]
    \<and> latest_cursor (svc_txn sv) = cursor_at (length (st_events (svc_txn sv)))"
  using reachable_ok(2) [OF assms] by (simp only: log_ok_iff latest_cursor_def)

text \<open>C4. In every reachable state the messages of a conversation belong to it and carry the sequence
  numbers 1, 2, 3, \<open>..\<close> in order, without gap or repetition.\<close>

theorem message_sequences_contiguous:
  assumes "reachable U C sv" and "length (messages_of (svc_txn sv) cid) < 2 ^ 64"
    and "i < length (messages_of (svc_txn sv) cid)"
  shows "msg_sequence (messages_of (svc_txn sv) cid ! i) = Some (word_of_nat (Suc i))
    \<and> msg_conversation_id (messages_of (svc_txn sv) cid ! i) = cid"
proof -
  let ?ms = "messages_of (svc_txn sv) cid"
  have n: "numbered cid 0 ?ms"
    using reachable_ok(1) [OF assms(1)] by (simp add: consistent_def messages_ok_def)
  show ?thesis
    using numbered_nth [OF n _ assms(3)] assms(2) numbered_conversation [OF n nth_mem [OF assms(3)]]
    by simp
qed


lemma refresh_consumed:
  assumes "hm_contains (hash_token C token) (st_consumed_refresh_tokens (svc_txn sv))"
    and "refresh C token now sv = (Inr session, sv')"
  shows False
proof -
  from assms(2) obtain sv1 where
    "mutate (refresh_tx C (hash_token C token) now) sv = (Inr (Inr session), sv1)"
    unfolding refresh_def by (auto elim!: bnd_InrE)
  from mutate_InrD(1) [OF this] assms(1) show False
    by (auto simp: refresh_tx_def hm_contains_iff revoke_family_def revoke_tokens_def)
qed

lemma refresh_consumes:
  assumes "refresh C token now sv = (Inr session, sv')"
  shows "hm_contains (hash_token C token) (st_consumed_refresh_tokens (svc_txn sv'))"
proof -
  from assms have "mutate (refresh_tx C (hash_token C token) now) sv = (Inr (Inr session), sv')"
    unfolding refresh_def by (auto simp: run_bnd split: prod.splits sum.splits)
  from mutate_InrD(1) [OF this] show ?thesis
    by (rule refresh_tx_InrE) (simp add: issue_session_effects(3) hm_contains_def)
qed

text \<open>C12. A refresh token that was exchanged once never yields a session again, in any later state of the
  service, whatever requests come in between.\<close>

theorem refresh_token_used_once:
  assumes "refresh C token now sv = (Inr session, sv1)" and "service_run U C sv1 sv2"
  shows "\<nexists>session' sv3. refresh C token t sv2 = (Inr session', sv3)"
  using refresh_consumes [OF assms(1)] service_run_progress [OF assms(2)] refresh_consumed
  unfolding svc_progress_def progress_def by blast

text \<open>C8. Reconnecting: the desktop client's catch-up loop always ends, even while the server keeps
  committing new events between its requests; it hands on exactly the user's events above the
  cursor it started from, in order and without repetition, as the log stands at its last request,
  and returns the cursor of the last of them.\<close>

theorem catch_up_delivers_every_event:
  assumes "\<And>i. reachable U C (srv i)" and "\<And>i. service_run U C (srv i) (srv (Suc i))"
    and "\<And>i. length (st_events (svc_txn (srv i))) < 2 ^ 64"
  shows "\<exists>K. catch_up (\<lambda>i c n. Some (sync (svc_txn (srv i)) actor c n)) True 0 cursor [] =
    Some (Inr (cursor_after cursor (pending_events (svc_txn (srv K)) actor cursor)),
          pending_events (svc_txn (srv K)) actor cursor)"
proof -
  have "log_small (svc_txn (srv i))" for i
    using reachable_ok(2) [OF assms(1)] assms(3) by (simp add: log_small_def)
  moreover have "progress (svc_txn (srv i)) (svc_txn (srv (Suc i)))" for i
    using service_run_progress [OF assms(2)] by (simp add: svc_progress_def)
  ultimately show ?thesis
    using sync_source.catch_up_complete [of "\<lambda>i. svc_txn (srv i)" 0 actor cursor "[]"] by auto
qed

section \<open>Groups\<close>

text \<open>C26. In every reachable state a conversation is stored under its own identifier, and a group has at
  most one owner: no sequence of invitations, role changes, transfers, join requests and account
  deletions produces a second one.\<close>

theorem group_owner_unique:
  assumes "reachable U C sv" and "hm_get cid (st_conversations (svc_txn sv)) = Some c"
  shows "conv_id c = cid \<and> distinct (member_ids c)
    \<and> (\<forall>u v. role_of c u = Some Owner \<and> role_of c v = Some Owner \<longrightarrow> u = v)"
proof -
  from reachable_ok(1) [OF assms(1)] assms(2) have "conversation_ok cid c"
    by (auto simp: consistent_def conversations_ok_def)
  then show ?thesis
    by (auto simp: conversation_ok_def members_ok_def role_of_def member_ids_def bt_keys_def
        intro: bt_wf_distinct)
qed

lemma append_system_message_InrD:
  fixes s s' :: txn
  assumes "append_system_message cid actor text now s = (Inr m, s')"
  shows "\<exists>c. hm_get cid (st_conversations s) = Some c
    \<and> st_conversations s' = hm_insert cid (c\<lparr>conv_updated_at := now\<rparr>) (st_conversations s)"
  using assms
  by (auto simp: append_system_message_def get_conversation_def found_def dom_def new_uuid_def
      push_message_def touch_conversation_def append_event_run split: option.splits sum.splits)

lemma decide_group_join_request_accepted:
  fixes s s' :: txn
  assumes "decide_group_join_request_tx actor rid True now s = (Inr r, s')"
    and "hm_get rid (st_group_join_requests s) = Some request"
  obtains c c' where "hm_get (jr_conversation_id request) (st_conversations s) = Some c"
    "hm_get (jr_conversation_id request) (st_conversations s') = Some c'"
    "conv_members c' = bt_insert (jr_applicant_id request) (new_member (jr_applicant_id request) Member now)
       (conv_members c)"
    "jr_status request = JrPending"
    "\<exists>m. bt_get actor (conv_members c) = Some m \<and> Administrator \<le> mem_role m"
  using assms
  by (auto simp: decide_group_join_request_tx_def Let_def found_def get_conversation_def
      admit_applicant_def put_conversation_def put_settings_def append_event_run
      dest!: append_system_message_InrD split: if_splits option.splits sum.splits)

text \<open>C29. Accepting a request to join overwrites the membership the applicant may have got in the meantime:
  an applicant who has become the group's owner is made a plain member, and the group is left
  without an owner, so that nobody can disband it or pass it on.\<close>

theorem join_decision_demotes_owner:
  assumes "reachable U C sv"
    and "hm_get rid (st_group_join_requests (svc_txn sv)) = Some request"
    and "hm_get (jr_conversation_id request) (st_conversations (svc_txn sv)) = Some c"
    and "role_of c (jr_applicant_id request) = Some Owner"
    and "decide_group_join_request actor rid True now sv = (Inr r, sv')"
  shows "\<exists>c'. hm_get (jr_conversation_id request) (st_conversations (svc_txn sv')) = Some c'
    \<and> (\<forall>u. role_of c' u \<noteq> Some Owner)"
proof -
  from reachable_ok(1) [OF assms(1)] assms(3) have ok: "members_ok (conv_members c)"
    by (auto simp: consistent_def conversations_ok_def conversation_ok_def)
  from mutate_InrD(1) [of "decide_group_join_request_tx actor rid True now"] assms(5)
  have "decide_group_join_request_tx actor rid True now (svc_txn sv) = (Inr r, svc_txn sv')"
    by (simp add: decide_group_join_request_def)
  from decide_group_join_request_accepted [OF this assms(2)] assms(3) obtain c' where
    c': "hm_get (jr_conversation_id request) (st_conversations (svc_txn sv')) = Some c'"
      "conv_members c' = bt_insert (jr_applicant_id request) (new_member (jr_applicant_id request) Member now)
         (conv_members c)"
    by auto
  have "role_of c' u \<noteq> Some Owner" for u
    using ok assms(4) by (auto simp: role_of_def c'(2) new_member_def members_ok_def)
  with c'(1) show ?thesis by blast
qed

end
