(* ===== verification/Delivery.thy ===== *)
theory Delivery
  imports Service_Steps
begin

text \<open>
  Sending and reading over whole runs of the service: a message sent twice is stored once, and the
  pages of a conversation join without gap or overlap.
\<close>

section \<open>Sending again\<close>

lemma find_message_of:
  assumes "m \<in> set (messages_of s cid)" "msg_id m = mid"
  shows "\<exists>m'. find_message s mid = Some m'"
proof -
  from assms(1) obtain ms where "hm_get cid (st_messages s) = Some ms" "m \<in> set ms"
    by (cases "hm_get cid (st_messages s)") (simp_all add: messages_of_def)
  then have "m \<in> set (concat (hm_values (st_messages s)))" by (auto dest: hm_get_in_values)
  with assms(2) have "find_message s mid \<noteq> None" by (auto simp: find_message_def find_None_iff)
  then show ?thesis by simp
qed

lemma history_keeps:
  assumes "history cid ms ms'" "m \<in> set ms"
  shows "\<exists>m'\<in>set ms'. msg_id m' = msg_id m"
proof -
  from assms(1) obtain new where "map fixed ms' = map fixed (ms @ new)" by (auto simp: history_def)
  with assms(2) have "fixed m \<in> fixed ` set ms'" by (metis Un_iff image_eqI image_set set_append)
  then obtain m' where "m' \<in> set ms'" "fixed m = fixed m'" by auto
  with fixed_frame(3) show ?thesis by metis
qed

lemma find_message_kept:
  assumes "messages_ok s" "progress s s'" "find_message s mid = Some m"
  shows "\<exists>m'. find_message s' mid = Some m'"
proof -
  from find_message_stored [OF assms(1,3)]
  have "m \<in> set (messages_of s (msg_conversation_id m))" "msg_id m = mid"
    by (auto simp: messages_of_def)
  moreover have "history (msg_conversation_id m) (messages_of s (msg_conversation_id m))
      (messages_of s' (msg_conversation_id m))"
    using assms(2) by (simp add: progress_def)
  ultimately obtain m' where "m' \<in> set (messages_of s' (msg_conversation_id m))" "msg_id m' = mid"
    using history_keeps by metis
  then show ?thesis by (rule find_message_of)
qed

lemma sent_is_known:
  assumes "send_message_request actor cid request now sv = (Inr (m, ack), sv')"
  shows "hm_get (actor, sm_client_message_id request) (st_message_dedup (svc_txn sv'))
      = Some (ack_message_id ack, ack_sequence ack)"
    and "\<exists>m'. find_message (svc_txn sv') (ack_message_id ack) = Some m'"
    and "ack_client_message_id ack = sm_client_message_id request"
proof -
  let ?known = "hm_get (actor, sm_client_message_id request) (st_message_dedup (svc_txn sv))"
  note tx = send_request_tx [OF assms]
  have "hm_get (actor, sm_client_message_id request) (st_message_dedup (svc_txn sv'))
      = Some (ack_message_id ack, ack_sequence ack)
    \<and> (\<exists>m'. find_message (svc_txn sv') (ack_message_id ack) = Some m')
    \<and> ack_client_message_id ack = sm_client_message_id request"
  proof (cases ?known)
    case None
    from send_in_store_new [OF tx None] obtain c mentions where
      "deliver_message actor cid request mentions (member_ids c) now (svc_txn sv) = (Inr (m, ack), svc_txn sv')" .
    note d = deliver_message_InrD [OF this]
    from d(4) have "m \<in> set (messages_of (svc_txn sv') cid)" by simp
    from find_message_of [OF this] d(3,5) show ?thesis by simp
  next
    case (Some entry)
    then show ?thesis using send_in_store_known [OF tx] by (cases entry) auto
  qed
  then show "hm_get (actor, sm_client_message_id request) (st_message_dedup (svc_txn sv'))
      = Some (ack_message_id ack, ack_sequence ack)"
    "\<exists>m'. find_message (svc_txn sv') (ack_message_id ack) = Some m'"
    "ack_client_message_id ack = sm_client_message_id request" by simp_all
qed

text \<open>C24. Sending is idempotent: once a message was accepted under a client identifier, sending under that
  identifier again, at any later time and with whatever content, stores and publishes nothing and
  is acknowledged with the identity and sequence number of the first message (unless the database
  is down).  The client's identifier must not be one of the UUIDs the server draws.\<close>

theorem send_message_idempotent:
  assumes "reachable U C sv"
    and "send_message_request actor cid request now sv = (Inr (m, ack), sv1)"
    and "service_run U C sv1 sv2"
    and "sm_client_message_id request = MessageId i" "i \<notin> range (uuid_src (svc_txn sv))"
    and "sm_client_message_id again = MessageId i" "\<not> invalid_expiry (sm_expires_in_seconds again)"
  shows "\<exists>r sv3. send_message_request actor cid' again later sv2 = (r, sv3)
    \<and> stored sv3 = stored sv2 \<and> svc_events sv3 = svc_events sv2
    \<and> (r = Inl Storage \<or> (\<exists>m'. msg_id m' = ack_message_id ack \<and> r = Inr (m', ack\<lparr>ack_server_time := later\<rparr>)))"
proof -
  have sv1: "reachable U C sv1"
    using reachable_step [OF assms(1)] service_step.SendMessageRequest [OF assms(2)] by blast
  have p: "progress (svc_txn sv) (svc_txn sv1)" "progress (svc_txn sv1) (svc_txn sv2)"
    using service_run_progress [OF Run_step [OF Run_refl service_step.SendMessageRequest [OF assms(2)]]]
      service_run_progress [OF assms(3)] by (simp_all add: svc_progress_def)
  note known = sent_is_known [OF assms(2)]
  have "uuid_src (svc_txn sv1) = uuid_src (svc_txn sv)" using p(1) by (simp add: progress_def)
  then have dedup: "hm_get (actor, sm_client_message_id again) (st_message_dedup (svc_txn sv2))
      = Some (ack_message_id ack, ack_sequence ack)"
    using p(2) known(1) assms(4-6) by (simp add: progress_def sent_kept_def)
  from find_message_kept [OF _ p(2)] known(2) reachable_ok(1) [OF sv1]
  obtain m' where found: "find_message (svc_txn sv2) (ack_message_id ack) = Some m'"
    by (auto simp: consistent_def)
  from sent_is_known(3) [OF assms(2)] assms(4) have "ack_client_message_id ack = MessageId i" by simp
  with resend_known [OF dedup found assms(7), of cid' later] find_message_SomeD [OF found] assms(6)
  show ?thesis by (cases ack) fastforce
qed

section \<open>Paging\<close>

lemma rev_take_rev: "rev (take n (rev xs)) = drop (length xs - n) xs"
  by (simp add: take_rev)

lemma filter_less_nth:
  fixes f :: "'a \<Rightarrow> 'b::linorder"
  assumes "sorted_wrt (\<lambda>x y. f x < f y) xs" "d < length xs"
  shows "filter (\<lambda>x. f x < f (xs ! d)) xs = take d xs"
proof -
  let ?P = "\<lambda>x. f x < f (xs ! d)"
  have split: "xs = take d xs @ xs ! d # drop (Suc d) xs" by (rule id_take_nth_drop [OF assms(2)])
  have "sorted_wrt (\<lambda>x y. f x < f y) (take d xs @ xs ! d # drop (Suc d) xs)"
    by (subst split [symmetric]) (rule assms(1))
  then have "\<forall>x\<in>set (take d xs). f x < f (xs ! d)" "\<forall>x\<in>set (drop (Suc d) xs). f (xs ! d) < f x"
    by (auto simp: sorted_wrt_append)
  then have "filter ?P (take d xs) = take d xs" "filter ?P (drop (Suc d) xs) = []"
    by (auto simp: filter_id_conv filter_empty_conv)
  then have "filter ?P (take d xs @ xs ! d # drop (Suc d) xs) = take d xs" by simp
  then show ?thesis using arg_cong [OF split, of "filter ?P"] by simp
qed

lemma drop_take_join:
  assumes "d \<le> length xs"
  shows "drop (d - k) (take d xs) @ drop d xs = drop (d - k) xs"
proof -
  have "drop (d - k) (take d xs @ drop d xs) = drop (d - k) (take d xs) @ drop d xs"
    using assms by (simp only: drop_append) simp
  then show ?thesis by simp
qed

definition visible_messages :: "'z store_scheme \<Rightarrow> datetime \<Rightarrow> conversation_id \<Rightarrow> u64 option \<Rightarrow> message list" where
  "visible_messages s clock cid before =
     filter (before_cursor before) (filter (not_expired s clock) (messages_of s cid))"

lemma message_page_eq:
  "message_page s clock actor cid before limit = and_then (readable_conversation s cid actor) (\<lambda>_.
     let ms = visible_messages s clock cid before in
     Inr (map (status_for_sender s actor) (drop (length ms - clamp 1 MAX_MESSAGE_PAGE limit) ms)))"
  by (simp add: message_page_def visible_messages_def rev_take_rev Let_def)

lemma status_for_sender_sequence [simp]: "msg_sequence (status_for_sender s u m) = msg_sequence m"
  by (simp add: status_for_sender_def split: option.split)

abbreviation sequence_number :: "message \<Rightarrow> u64" where
  "sequence_number m \<equiv> the (msg_sequence m)"

lemma messages_sorted:
  assumes "numbered cid 0 ms" "length ms < 2 ^ 64"
  shows "sorted_wrt (\<lambda>m m'. sequence_number m < sequence_number m') ms"
    and "\<forall>m\<in>set ms. msg_sequence m \<noteq> None"
proof -
  have n: "msg_sequence (ms ! i) = Some (word_of_nat (Suc i))" if "i < length ms" for i
    using numbered_nth [OF assms(1) _ that] assms(2) by simp
  have "(word_of_nat (Suc i) :: u64) < word_of_nat (Suc j)" if "i < j" "j < length ms" for i j
    using that assms(2) unfolding word_less_nat_alt unat_of_nat by simp
  then show "sorted_wrt (\<lambda>m m'. sequence_number m < sequence_number m') ms"
    using n by (simp add: sorted_wrt_iff_nth_less)
  show "\<forall>m\<in>set ms. msg_sequence m \<noteq> None" using n by (auto simp: in_set_conv_nth)
qed

text \<open>The page before the first message of a page.\<close>

lemma visible_before:
  assumes sorted: "sorted_wrt (\<lambda>m m'. sequence_number m < sequence_number m') (messages_of s cid)"
    and seqs: "\<forall>m\<in>set (messages_of s cid). msg_sequence m \<noteq> None"
    and d: "d < length (visible_messages s clock cid before)"
  shows "visible_messages s clock cid (msg_sequence (visible_messages s clock cid before ! d))
    = take d (visible_messages s clock cid before)"
proof -
  let ?F = "visible_messages s clock cid before"
  let ?V = "filter (not_expired s clock) (messages_of s cid)"
  have F: "sorted_wrt (\<lambda>m m'. sequence_number m < sequence_number m') ?F"
    using sorted by (simp add: visible_messages_def sorted_wrt_filter)
  have "?F ! d \<in> set ?F" using d by simp
  then obtain q where q: "msg_sequence (?F ! d) = Some q" "before_cursor before (?F ! d)"
    using seqs by (auto simp: visible_messages_def)
  have "before_cursor (Some q) m \<longleftrightarrow> before_cursor before m \<and> sequence_number m < q" if "m \<in> set ?V" for m
    using that seqs q by (auto simp: before_cursor_def split: option.splits)
  then have "visible_messages s clock cid (Some q) = filter (\<lambda>m. sequence_number m < q) ?F"
    unfolding visible_messages_def filter_filter [of "\<lambda>m. sequence_number m < q"]
    by (intro filter_cong) auto
  with filter_less_nth [OF F d] q show ?thesis by simp
qed

text \<open>Scrolling back: the page that precedes the first message of a page joins it without gap or
  repetition, so that two consecutive pages are one page of their combined size; a page shows only
  messages that have not expired.\<close>

theorem pages_join:
  assumes "reachable U C sv" and "length (messages_of (svc_txn sv) cid) < 2 ^ 64"
    and "1 \<le> n" "1 \<le> k" "n + k \<le> MAX_MESSAGE_PAGE"
    and "message_page (svc_txn sv) clock actor cid before n = Inr page" "page \<noteq> []"
    and "message_page (svc_txn sv) clock actor cid (msg_sequence (hd page)) k = Inr older"
  shows "message_page (svc_txn sv) clock actor cid before (k + n) = Inr (older @ page)"
proof -
  let ?s = "svc_txn sv" and ?F = "visible_messages (svc_txn sv) clock cid before"
  let ?d = "length ?F - n"
  from reachable_ok(1) [OF assms(1)] have "numbered cid 0 (messages_of ?s cid)"
    by (simp add: consistent_def messages_ok_def)
  note order = messages_sorted [OF this assms(2)]
  have clamps: "clamp (Suc 0) MAX_MESSAGE_PAGE n = n" "clamp (Suc 0) MAX_MESSAGE_PAGE k = k"
    "clamp (Suc 0) MAX_MESSAGE_PAGE (k + n) = k + n"
    using assms(3-5) by (simp_all add: clamp_def)
  from assms(6) have read: "\<exists>c. readable_conversation ?s cid actor = Inr c"
    and page: "page = map (status_for_sender ?s actor) (drop ?d ?F)"
    by (auto simp: message_page_eq clamps Let_def)
  from assms(7) page have d: "?d < length ?F" by auto
  then have "msg_sequence (hd page) = msg_sequence (?F ! ?d)"
    by (simp add: page hd_map hd_drop_conv_nth)
  with visible_before [OF order d]
  have "visible_messages ?s clock cid (msg_sequence (hd page)) = take ?d ?F" by simp
  with assms(8) have older: "older = map (status_for_sender ?s actor) (drop (?d - k) (take ?d ?F))"
    using d by (auto simp: message_page_eq clamps Let_def)
  have "older @ page = map (status_for_sender ?s actor) (drop (length ?F - (k + n)) ?F)"
    using drop_take_join [of ?d ?F k] by (simp add: older page add.commute flip: map_append)
  then show ?thesis
    using read by (auto simp: message_page_eq clamps Let_def)
qed

end
