(* ===== verification/Outbox_Delivery.thy ===== *)
theory Outbox_Delivery
  imports Local_Sync Delivery
begin

text \<open>
  The desktop client's outbox flush (\<open>apps/desktop/src/ui.rs\<close>, \<open>flush_ready_outbox\<close>) against the
  service.  The client's request is a function \<open>api\<close> on a world that holds the server.  What the
  flush needs of it is the locale \<open>message_api\<close>; \<open>over_network\<close> is the service's own
  \<open>send_message_request\<close> behind a network that loses requests and replies, with any other activity
  of the service between two requests.
\<close>

section \<open>The flush\<close>

record flush_report =
  fl_sent :: "(message_id \<times> message_id) list"
  fl_retrying :: "(message_id \<times> rstr) list"
  fl_cache_warning :: "string option"

type_synonym 'w api = "conversation_id \<Rightarrow> send_message_request \<Rightarrow> 'w \<Rightarrow> (rstr + message_ack) \<times> 'w"

text \<open>\<open>if let Err(error) = op { report.cache_warning = Some(error) }\<close>.\<close>

definition warned :: "'a store_op \<Rightarrow> local_store \<times> flush_report \<Rightarrow> local_store \<times> flush_report" where
  "warned op = (\<lambda>(ls, rep). case op ls of
     (Inl e, ls') \<Rightarrow> (ls', rep\<lparr>fl_cache_warning := Some e\<rparr>)
   | (Inr _, ls') \<Rightarrow> (ls', rep))"

text \<open>The cached copy of a message the server accepted.\<close>

definition mark_cached ::
  "platform \<Rightarrow> rstr \<Rightarrow> message_id \<Rightarrow> message_ack \<Rightarrow> local_store \<times> flush_report \<Rightarrow> local_store \<times> flush_report" where
  "mark_cached P c cid ack = (\<lambda>(ls, rep). case load_messages P c ls of
     (Inl e, ls) \<Rightarrow> (ls, rep\<lparr>fl_cache_warning := Some e\<rparr>)
   | (Inr ms, ls) \<Rightarrow>
       (case find (\<lambda>m. msg_client_message_id m = cid) ms of
          None \<Rightarrow> (ls, rep)
        | Some m \<Rightarrow>
            (case mark_sent (ack_sequence ack) (ack_server_time ack) (m\<lparr>msg_id := ack_message_id ack\<rparr>) of
               Inl _ \<Rightarrow> (ls, rep)
             | Inr m' \<Rightarrow> warned (cache_messages P [m']) (ls, rep))))"

definition flush_item ::
  "platform \<Rightarrow> 'w api \<Rightarrow> (int \<Rightarrow> int) \<Rightarrow> outbox_item \<Rightarrow> local_store \<times> flush_report \<times> 'w
     \<Rightarrow> local_store \<times> flush_report \<times> 'w" where
  "flush_item P api pick item = (\<lambda>(ls, rep, w).
     let drop_it = (let (ls, rep) = warned (acknowledge_outbox P (oi_client_message_id item)) (ls, rep)
                    in (ls, rep, w))
     in case (map_option MessageId (pf_uuid_parse P (oi_client_message_id item)),
              map_option ConversationId (pf_uuid_parse P (oi_conversation_id item)),
              pf_request_parse P (oi_payload_json item)) of
          (Some cid, Some c, Some request) \<Rightarrow>
            if sm_client_message_id request \<noteq> cid then drop_it
            else (case api c request w of
                    (Inr ack, w) \<Rightarrow>
                      let (ls, rep) = mark_cached P (oi_conversation_id item) cid ack (ls, rep);
                          (ls, rep) = warned (acknowledge_outbox P (oi_client_message_id item)) (ls, rep)
                      in (ls, rep\<lparr>fl_sent := fl_sent rep @ [(cid, ack_message_id ack)]\<rparr>, w)
                  | (Inl e, w) \<Rightarrow>
                      let (ls, rep) = warned (record_outbox_failure P pick (oi_client_message_id item)
                                                (lit ''send_failed'')) (ls, rep)
                      in (ls, rep\<lparr>fl_retrying := fl_retrying rep @ [(cid, e)]\<rparr>, w))
        | _ \<Rightarrow> drop_it)"

fun flush_items ::
  "platform \<Rightarrow> 'w api \<Rightarrow> (int \<Rightarrow> int) \<Rightarrow> outbox_item list \<Rightarrow> local_store \<times> flush_report \<times> 'w
     \<Rightarrow> local_store \<times> flush_report \<times> 'w" where
  "flush_items P api pick [] st = st"
| "flush_items P api pick (item # items) st = flush_items P api pick items (flush_item P api pick item st)"

definition empty_report :: flush_report where
  "empty_report = \<lparr>fl_sent = [], fl_retrying = [], fl_cache_warning = None\<rparr>"

definition flush_ready_outbox ::
  "platform \<Rightarrow> 'w api \<Rightarrow> (int \<Rightarrow> int) \<Rightarrow> local_store \<times> 'w \<Rightarrow> flush_report \<times> local_store \<times> 'w" where
  "flush_ready_outbox P api pick = (\<lambda>(ls, w).
     case ready_outbox P ls of
       (Inl e, ls) \<Rightarrow> (empty_report\<lparr>fl_cache_warning := Some e\<rparr>, ls, w)
     | (Inr items, ls) \<Rightarrow>
         let (ls, rep, w) = flush_items P api pick items (ls, empty_report, w) in (rep, ls, w))"

section \<open>What the flush does to one entry\<close>

text \<open>The plain text of an entry, with its conversation.\<close>

definition outbox_text :: "platform \<Rightarrow> rstr \<Rightarrow> local_store \<Rightarrow> (rstr \<times> (string + rstr)) option" where
  "outbox_text P cid ls = map_option (\<lambda>r. (ob_conversation_id r, unprotect P (ob_payload r) (ls_key ls)))
     (hm_get cid (db_outbox (ls_db ls)))"

definition same_outbox :: "local_store \<Rightarrow> local_store \<Rightarrow> bool" where
  "same_outbox ls ls' \<longleftrightarrow> db_outbox (ls_db ls') = db_outbox (ls_db ls) \<and> ls_key ls' = ls_key ls"

lemma same_outbox_text: "same_outbox ls ls' \<Longrightarrow> outbox_text P cid ls' = outbox_text P cid ls"
  by (simp add: same_outbox_def outbox_text_def)

interpretation same_outbox: effect_preorder same_outbox
  by unfold_locales (simp_all add: same_outbox_def)

lemma same_outbox_basic [guar_intros]:
  "guar same_outbox (reads f)" "guar same_outbox (draw_bytes n)"
  by (simp_all add: guar_def same_outbox_def reads_def draw_bytes_def)

lemma same_outbox_writes:
  "(\<And>d. db_outbox (f d) = db_outbox d) \<Longrightarrow> guar same_outbox (writes f)"
  "(\<And>d d'. g d = Some d' \<Longrightarrow> db_outbox d' = db_outbox d) \<Longrightarrow> guar same_outbox (tries e g)"
  by (auto simp: guar_def same_outbox_def writes_def tries_def split: option.split)

lemma same_outbox_transaction [guar_intros]:
  assumes "guar same_outbox m"
  shows "guar same_outbox (transaction m)"
proof (rule guarI)
  fix s
  obtain r s' where "m s = (r, s')" by (cases "m s")
  with guarD [OF assms this] show "same_outbox s (snd (transaction m s))"
    by (cases r) (simp_all add: transaction_def same_outbox_def)
qed

lemma same_outbox_protect [guar_intros]: "guar same_outbox (protect P t key)"
  unfolding protect_def by (auto intro!: guar_intros split: option.split)

lemma upsert_outbox: "upsert_message i row d = Some d' \<Longrightarrow> db_outbox d' = db_outbox d"
  by (auto simp: upsert_message_def split: option.splits if_splits)

lemma same_outbox_cache_messages: "guar same_outbox (cache_messages P ms)"
proof -
  have index: "guar same_outbox (case (key, msg_content m) of
      (None, CText text) \<Rightarrow> writes (add_search (f text)) | _ \<Rightarrow> ret ())" for f and key :: "u8 list option" and m
    by (cases key; cases "msg_content m") (auto intro!: guar_intros same_outbox_writes simp: add_search_def)
  show ?thesis
    unfolding cache_messages_def cache_message_def Let_def
    by (intro guar_intros same_outbox_writes index)
      (auto simp: drop_search_def drop_messages_def dest: upsert_outbox)
qed

lemma load_messages_same: "load_messages P c ls = (r, ls') \<Longrightarrow> ls' = ls"
  by (auto simp: load_messages_def reads_def split: sum.splits)

lemma warned_same: "guar same_outbox op \<Longrightarrow> warned op (ls, rep) = (ls', rep') \<Longrightarrow> same_outbox ls ls'"
  by (auto simp: warned_def dest: guarD split: prod.splits sum.splits)

lemma mark_cached_same: "mark_cached P c cid ack (ls, rep) = (ls', rep') \<Longrightarrow> same_outbox ls ls'"
  unfolding mark_cached_def
  by (auto dest: load_messages_same warned_same [OF same_outbox_cache_messages]
      simp: same_outbox.refl split: prod.splits sum.splits option.splits)

text \<open>Acknowledging and rescheduling one entry leave the others alone.\<close>

lemma acknowledge_text:
  "warned (acknowledge_outbox P i) (ls, rep) = (ls', rep') \<Longrightarrow>
    outbox_text P cid ls' = (if cid = i \<and> validate_uuid P i = Inr () then None else outbox_text P cid ls)
    \<and> fl_sent rep' = fl_sent rep \<and> ls_key ls' = ls_key ls"
  by (auto simp: warned_def acknowledge_outbox_def writes_def drop_outbox_def outbox_text_def
      split: sum.splits)

lemma failure_text:
  "warned (record_outbox_failure P pick i e) (ls, rep) = (ls', rep') \<Longrightarrow>
    outbox_text P cid ls' = outbox_text P cid ls \<and> fl_sent rep' = fl_sent rep \<and> ls_key ls' = ls_key ls"
  by (auto simp: warned_def record_outbox_failure_def writes_def reads_def set_outbox_def outbox_text_def Let_def
      split: sum.splits option.splits if_splits)

lemma mark_cached_sent: "mark_cached P c cid ack (ls, rep) = (ls', rep') \<Longrightarrow> fl_sent rep' = fl_sent rep"
  by (auto simp: mark_cached_def warned_def split: prod.splits sum.splits option.splits)

text \<open>The three things that can happen to an entry that is due.\<close>

definition well_formed_item :: "platform \<Rightarrow> outbox_item \<Rightarrow> uuid \<Rightarrow> uuid \<Rightarrow> send_message_request \<Rightarrow> bool" where
  "well_formed_item P item u c request \<longleftrightarrow>
     pf_uuid_parse P (oi_client_message_id item) = Some u \<and>
     pf_uuid_parse P (oi_conversation_id item) = Some c \<and>
     pf_request_parse P (oi_payload_json item) = Some request \<and> sm_client_message_id request = MessageId u"

lemma flush_item_cases:
  assumes "flush_item P api pick item (ls, rep, w) = (ls', rep', w')"
  obtains (dropped) rep1 where "\<nexists>u c request. well_formed_item P item u c request" "w' = w"
      "warned (acknowledge_outbox P (oi_client_message_id item)) (ls, rep) = (ls', rep1)"
  | (failed) u c request e rep1 where "well_formed_item P item u c request"
      "api (ConversationId c) request w = (Inl e, w')"
      "warned (record_outbox_failure P pick (oi_client_message_id item) (lit ''send_failed'')) (ls, rep) = (ls', rep1)"
  | (sent) u c request ack ls1 rep1 rep2 where "well_formed_item P item u c request"
      "api (ConversationId c) request w = (Inr ack, w')"
      "mark_cached P (oi_conversation_id item) (MessageId u) ack (ls, rep) = (ls1, rep1)"
      "warned (acknowledge_outbox P (oi_client_message_id item)) (ls1, rep1) = (ls', rep2)"
proof (cases "\<exists>u c request. well_formed_item P item u c request")
  case False
  then obtain rep1 where "warned (acknowledge_outbox P (oi_client_message_id item)) (ls, rep) = (ls', rep1)" "w' = w"
    using assms
    by (cases "pf_uuid_parse P (oi_client_message_id item)"; cases "pf_uuid_parse P (oi_conversation_id item)";
        cases "pf_request_parse P (oi_payload_json item)")
      (auto simp: flush_item_def well_formed_item_def Let_def split: prod.splits if_splits)
  with False show ?thesis by (intro dropped)
next
  case True
  then obtain u c request where item: "well_formed_item P item u c request" by blast
  obtain r w1 where api: "api (ConversationId c) request w = (r, w1)" by (cases "api (ConversationId c) request w")
  show ?thesis
  proof (cases r)
    case (Inl e)
    with assms item api obtain rep1 where
      "warned (record_outbox_failure P pick (oi_client_message_id item) (lit ''send_failed'')) (ls, rep) = (ls', rep1)"
      "w' = w1"
      by (auto simp: flush_item_def well_formed_item_def Let_def split: prod.splits)
    with item api Inl show ?thesis by (intro failed) simp_all
  next
    case (Inr ack)
    obtain ls1 rep1 where m: "mark_cached P (oi_conversation_id item) (MessageId u) ack (ls, rep) = (ls1, rep1)"
      by (cases "mark_cached P (oi_conversation_id item) (MessageId u) ack (ls, rep)")
    with Inr assms item api obtain rep2 where
      "warned (acknowledge_outbox P (oi_client_message_id item)) (ls1, rep1) = (ls', rep2)" "w' = w1"
      by (auto simp: flush_item_def well_formed_item_def Let_def split: prod.splits)
    with item api Inr m show ?thesis by (intro sent) simp_all
  qed
qed

section \<open>The contract of the request\<close>

locale message_api =
  fixes api :: "'w api" and ok :: "'w \<Rightarrow> bool"
    and accepted :: "'w \<Rightarrow> message_id \<Rightarrow> bool"
  assumes ok: "ok w \<Longrightarrow> api c request w = (r, w') \<Longrightarrow> ok w'"
    and kept: "ok w \<Longrightarrow> accepted w i \<Longrightarrow> api c request w = (r, w') \<Longrightarrow> accepted w' i"
    and acked: "ok w \<Longrightarrow> api c request w = (Inr ack, w') \<Longrightarrow> accepted w' (sm_client_message_id request)"
begin

lemma flush_item_tracks:
  assumes "ok w" and "flush_item P api pick item (ls, rep, w) = (ls', rep', w')"
    and item: "oi_client_message_id item = cid \<Longrightarrow> oi_payload_json item = t \<and> oi_conversation_id item = conv"
    and t: "pf_request_parse P t = Some request" "pf_uuid_parse P cid = Some i"
      "sm_client_message_id request = MessageId i" "pf_uuid_parse P conv = Some c"
  shows "ok w' \<and> (accepted w (MessageId i) \<longrightarrow> accepted w' (MessageId i))
    \<and> (outbox_text P cid ls' = outbox_text P cid ls
      \<or> outbox_text P cid ls' = None \<and> accepted w' (MessageId i))"
  using assms(2)
proof (cases rule: flush_item_cases)
  case (dropped rep1)
  moreover from this have "oi_client_message_id item \<noteq> cid" using item t by (auto simp: well_formed_item_def)
  ultimately show ?thesis using acknowledge_text [of P _ ls rep ls' rep1 cid] assms(1) by auto
next
  case (failed u c' request' e rep1)
  then show ?thesis using failure_text ok [OF assms(1)] kept [OF assms(1)] by metis
next
  case (sent u c' request' ack ls1 rep1 rep2)
  note facts = acknowledge_text [OF sent(4), of cid] same_outbox_text [OF mark_cached_same [OF sent(3)], of P cid]
  have "accepted w' (MessageId u)" using acked [OF assms(1) sent(2)] sent(1) by (simp add: well_formed_item_def)
  moreover have "u = i" if "oi_client_message_id item = cid" using that sent(1) t(2) by (simp add: well_formed_item_def)
  ultimately show ?thesis
    using facts ok [OF assms(1) sent(2)] kept [OF assms(1) _ sent(2)] by (auto split: if_splits)
qed

lemma flush_items_track:
  assumes "ok w" and "flush_items P api pick items (ls, rep, w) = (ls', rep', w')"
    and "outbox_text P cid ls = None \<or> outbox_text P cid ls = Some (conv, Inr t)"
    and "\<forall>item\<in>set items. oi_client_message_id item = cid \<longrightarrow> oi_payload_json item = t \<and> oi_conversation_id item = conv"
    and t: "pf_request_parse P t = Some request" "pf_uuid_parse P cid = Some i"
      "sm_client_message_id request = MessageId i" "pf_uuid_parse P conv = Some c"
  shows "ok w' \<and> (accepted w (MessageId i) \<longrightarrow> accepted w' (MessageId i))
    \<and> (outbox_text P cid ls' = outbox_text P cid ls
      \<or> outbox_text P cid ls' = None \<and> accepted w' (MessageId i))"
  using assms(1-4)
proof (induction items arbitrary: ls rep w)
  case (Cons item items)
  obtain ls1 rep1 w1 where one: "flush_item P api pick item (ls, rep, w) = (ls1, rep1, w1)"
    by (cases "flush_item P api pick item (ls, rep, w)") auto
  note step = flush_item_tracks [OF Cons.prems(1) one _ t]
  have item: "oi_client_message_id item = cid \<Longrightarrow> oi_payload_json item = t \<and> oi_conversation_id item = conv"
    using Cons.prems(4) by auto
  from Cons.prems(2) one have rest: "flush_items P api pick items (ls1, rep1, w1) = (ls', rep', w')" by simp
  from step [OF item] Cons.prems(3)
  have "outbox_text P cid ls1 = None \<or> outbox_text P cid ls1 = Some (conv, Inr t)" by auto
  from Cons.IH [OF _ rest this] step [OF item] Cons.prems(4) show ?case by auto
qed auto

lemma flush_tracks:
  assumes "ok w" and flush: "flush_ready_outbox P api pick (ls, w) = (rep, ls', w')"
    and entry: "outbox_text P cid ls = None \<or> outbox_text P cid ls = Some (conv, Inr t)" and wf: "hm_wf (db_outbox (ls_db ls))"
    and t: "pf_request_parse P t = Some request" "pf_uuid_parse P cid = Some i"
      "sm_client_message_id request = MessageId i" "pf_uuid_parse P conv = Some c"
  shows "ok w' \<and> (accepted w (MessageId i) \<longrightarrow> accepted w' (MessageId i))
    \<and> (outbox_text P cid ls' = outbox_text P cid ls
      \<or> outbox_text P cid ls' = None \<and> accepted w' (MessageId i))"
proof (cases "read_all (read_outbox_row P (ls_key ls)) (outbox_due (ls_now ls) (ls_db ls))")
  case (Inl e)
  with flush assms(1) show ?thesis
    by (auto simp: flush_ready_outbox_def ready_outbox_def reads_def)
next
  case (Inr items)
  have item: "oi_payload_json x = t \<and> oi_conversation_id x = conv"
    if "x \<in> set items" "oi_client_message_id x = cid" for x
  proof -
    have "\<exists>r\<in>set rs. f r = Inr x" if "read_all f rs = Inr xs" "x \<in> set xs"
      for f :: "rstr \<times> outbox_row \<Rightarrow> string + outbox_item" and rs xs
      using that by (induction rs arbitrary: xs) auto
    with Inr that(1) obtain p where p: "p \<in> set (outbox_due (ls_now ls) (ls_db ls))"
      "read_outbox_row P (ls_key ls) p = Inr x" by blast
    then have "p \<in> set (db_outbox (ls_db ls))" by (auto simp: outbox_due_def dest!: in_set_takeD)
    then have "hm_get (fst p) (db_outbox (ls_db ls)) = Some (snd p)" using hm_get_iff [OF wf] by (cases p) auto
    with p(2) that(2) entry show ?thesis by (auto simp: read_outbox_row_def outbox_text_def split_beta)
  qed
  from Inr flush obtain rep1 where "flush_items P api pick items (ls, empty_report, w) = (ls', rep1, w')"
    by (auto simp: flush_ready_outbox_def ready_outbox_def reads_def Let_def split: prod.splits)
  from flush_items_track [OF assms(1) this _ _ t] entry item show ?thesis by auto
qed

end

section \<open>The service behind a network\<close>

datatype outcome = Lost_request | Lost_reply | Answered

record wire =
  wire_server :: service
  wire_turn :: nat

text \<open>\<open>actor\<close> is the user the access token names; \<open>activity n\<close> is what else the service did before the
  \<open>n\<close>-th request, \<open>clock n\<close> its time, \<open>shown e\<close> the message the client shows for an error.\<close>

definition over_network ::
  "user_id \<Rightarrow> (nat \<Rightarrow> outcome) \<Rightarrow> (nat \<Rightarrow> datetime) \<Rightarrow> (nat \<Rightarrow> service \<Rightarrow> service)
     \<Rightarrow> (application_error \<Rightarrow> rstr) \<Rightarrow> wire api" where
  "over_network actor outcomes clock activity shown c request w =
     (let n = wire_turn w;
          sv = activity n (wire_server w);
          w = w\<lparr>wire_server := sv, wire_turn := Suc n\<rparr>
      in case outcomes n of
           Lost_request \<Rightarrow> (Inl [], w)
         | Lost_reply \<Rightarrow>
             (Inl [], w\<lparr>wire_server := snd (send_message_request actor c request (clock n) sv)\<rparr>)
         | Answered \<Rightarrow>
             (case send_message_request actor c request (clock n) sv of
                (Inl e, sv') \<Rightarrow> (Inl (shown e), w\<lparr>wire_server := sv'\<rparr>)
              | (Inr (m, ack), sv') \<Rightarrow> (Inr ack, w\<lparr>wire_server := sv'\<rparr>)))"

text \<open>The server holds a message under the client's identifier (an identifier the server does not draw).\<close>

definition holds_message :: "user_id \<Rightarrow> service \<Rightarrow> message_id \<Rightarrow> bool" where
  "holds_message actor sv i \<longleftrightarrow> (i \<notin> MessageId ` range (uuid_src (svc_txn sv)) \<longrightarrow>
     (\<exists>mid q m. hm_get (actor, i) (st_message_dedup (svc_txn sv)) = Some (mid, q)
        \<and> find_message (svc_txn sv) mid = Some m))"

lemma holds_message_progress:
  assumes "reachable U C sv" "service_run U C sv sv'" "holds_message actor sv i"
  shows "holds_message actor sv' i"
proof -
  have p: "progress (svc_txn sv) (svc_txn sv')" using service_run_progress [OF assms(2)] by (simp add: svc_progress_def)
  have src: "uuid_src (svc_txn sv') = uuid_src (svc_txn sv)" using p by (simp add: progress_def)
  obtain u where i: "i = MessageId u" by (cases i)
  show ?thesis
    unfolding holds_message_def
  proof
    assume "i \<notin> MessageId ` range (uuid_src (svc_txn sv'))"
    with assms(3) src obtain mid q m where
      "hm_get (actor, i) (st_message_dedup (svc_txn sv)) = Some (mid, q)" "find_message (svc_txn sv) mid = Some m"
      by (auto simp: holds_message_def)
    moreover have "u \<notin> range (uuid_src (svc_txn sv))"
      using \<open>i \<notin> _\<close> src i by auto
    ultimately show "\<exists>mid q m. hm_get (actor, i) (st_message_dedup (svc_txn sv')) = Some (mid, q)
        \<and> find_message (svc_txn sv') mid = Some m"
      using find_message_kept [OF _ p] reachable_ok(1) [OF assms(1)] p i
      by (fastforce simp: progress_def sent_kept_def consistent_def)
  qed
qed

lemma send_run:
  "send_message_request actor c request now sv = (r, sv') \<Longrightarrow> service_run U C sv sv'"
  by (blast intro: Run_step Run_refl service_step.SendMessageRequest)

definition quiet :: "unicode \<Rightarrow> crypto \<Rightarrow> (nat \<Rightarrow> service \<Rightarrow> service) \<Rightarrow> bool" where
  "quiet U C activity \<longleftrightarrow> (\<forall>n sv. service_run U C sv (activity n sv))"

lemma run_trans: "service_run U C sv' sv'' \<Longrightarrow> service_run U C sv sv' \<Longrightarrow> service_run U C sv sv''"
  by (induction rule: service_run.induct) (auto intro: Run_step)

lemma over_network_run:
  assumes "quiet U C activity" "over_network actor outcomes clock activity shown c request w = (r, w')"
  shows "service_run U C (wire_server w) (wire_server w')"
proof -
  let ?sv = "activity (wire_turn w) (wire_server w)"
  have a: "service_run U C (wire_server w) ?sv" using assms(1) by (simp add: quiet_def)
  obtain q sv' where s: "send_message_request actor c request (clock (wire_turn w)) ?sv = (q, sv')"
    by (cases "send_message_request actor c request (clock (wire_turn w)) ?sv")
  have "wire_server w' = ?sv \<or> wire_server w' = sv'"
    using assms(2) s by (auto simp: over_network_def Let_def split: outcome.splits sum.splits)
  with a run_trans [OF send_run [OF s] a] show ?thesis by auto
qed

lemma over_network_acked:
  assumes "over_network actor outcomes clock activity shown c request w = (Inr ack, w')"
  shows "holds_message actor (wire_server w') (sm_client_message_id request)"
proof -
  from assms obtain m where "send_message_request actor c request (clock (wire_turn w))
      (activity (wire_turn w) (wire_server w)) = (Inr (m, ack), wire_server w')"
    by (auto simp: over_network_def Let_def split: outcome.splits sum.splits prod.splits)
  from sent_is_known [OF this] show ?thesis by (auto simp: holds_message_def)
qed

text \<open>Activity restricted to runs of the service.\<close>

definition honest_activity :: "unicode \<Rightarrow> crypto \<Rightarrow> (nat \<Rightarrow> service \<Rightarrow> service) \<Rightarrow> nat \<Rightarrow> service \<Rightarrow> service" where
  "honest_activity U C activity n sv = (if service_run U C sv (activity n sv) then activity n sv else sv)"

lemma quiet_honest: "quiet U C (honest_activity U C activity)"
  by (simp add: quiet_def honest_activity_def Run_refl)

lemma honest_id: "quiet U C activity \<Longrightarrow> honest_activity U C activity = activity"
  by (intro ext) (simp add: quiet_def honest_activity_def)

interpretation network_api: message_api
    "over_network actor outcomes clock (honest_activity U C activity) shown"
    "\<lambda>w. reachable U C (wire_server w)"
    "\<lambda>w. holds_message actor (wire_server w)"
    for U C actor outcomes clock activity shown
  by unfold_locales
    (blast intro: reachable_run over_network_run [OF quiet_honest],
     blast intro: holds_message_progress over_network_run [OF quiet_honest],
     rule over_network_acked)

section \<open>Runs of the client and the server\<close>

lemma warned_intact: "pres (intact P) op \<Longrightarrow> intact P ls \<Longrightarrow> warned op (ls, rep) = (ls', rep') \<Longrightarrow> intact P ls'"
  by (auto simp: warned_def dest: presD split: prod.splits sum.splits)

lemma flush_item_intact:
  assumes P: "platform_ok P" and "intact P ls" "flush_item P api pick item (ls, rep, w) = (ls', rep', w')"
  shows "intact P ls'"
  using assms(3)
proof (cases rule: flush_item_cases)
  case (dropped rep1)
  show ?thesis by (rule warned_intact [OF acknowledge_outbox_pres assms(2) dropped(3)])
next
  case (failed u c request e rep1)
  show ?thesis by (rule warned_intact [OF record_outbox_failure_pres assms(2) failed(3)])
next
  case (sent u c request ack ls1 rep1 rep2)
  have "intact P ls1"
    using sent(3) assms(2) warned_intact [OF cache_messages_pres [OF P]]
    by (auto simp: mark_cached_def dest: load_messages_same split: prod.splits sum.splits option.splits)
  from warned_intact [OF acknowledge_outbox_pres this sent(4)] show ?thesis .
qed

lemma flush_intact:
  assumes P: "platform_ok P" and "intact P ls" "flush_ready_outbox P api pick (ls, w) = (rep, ls', w')"
  shows "intact P ls'"
proof -
  have items: "intact P ls'" if "flush_items P api pick items (ls, rep, w) = (ls', rep', w')" "intact P ls"
    for items ls rep w ls' rep' w'
    using that
  proof (induction items arbitrary: ls rep w)
    case (Cons item items)
    obtain ls1 rep1 w1 where one: "flush_item P api pick item (ls, rep, w) = (ls1, rep1, w1)"
      by (cases "flush_item P api pick item (ls, rep, w)") auto
    with Cons.IH [OF _ flush_item_intact [OF P Cons.prems(2) one]] Cons.prems(1) show ?case by simp
  qed simp
  have ready: "ready_outbox P ls = (r, ls1) \<Longrightarrow> ls1 = ls" for r ls1
    by (auto simp: ready_outbox_def reads_def)
  show ?thesis
    using assms(2,3) items ready
    by (auto simp: flush_ready_outbox_def Let_def split: prod.splits sum.splits)
qed

text \<open>Flushes over any network, other operations of the client that leave the entry \<open>cid\<close> alone (switching
  encryption on or off among them), and the service's own steps.\<close>

inductive desk_run :: "platform \<Rightarrow> unicode \<Rightarrow> crypto \<Rightarrow> user_id \<Rightarrow> rstr
    \<Rightarrow> local_store \<times> wire \<Rightarrow> local_store \<times> wire \<Rightarrow> bool"
  for P U C actor cid where
  Desk_idle: "desk_run P U C actor cid st st"
| Desk_flush: "desk_run P U C actor cid st (ls, w) \<Longrightarrow> quiet U C activity \<Longrightarrow>
    flush_ready_outbox P (over_network actor outcomes clock activity shown) pick (ls, w) = (rep, ls', w')
    \<Longrightarrow> desk_run P U C actor cid st (ls', w')"
| Desk_client: "desk_run P U C actor cid st (ls, w) \<Longrightarrow> client_reach P ls'
    \<Longrightarrow> outbox_text P cid ls' = outbox_text P cid ls \<Longrightarrow> desk_run P U C actor cid st (ls', w)"
| Desk_server: "desk_run P U C actor cid st (ls, w) \<Longrightarrow> service_run U C (wire_server w) sv
    \<Longrightarrow> desk_run P U C actor cid st (ls, w\<lparr>wire_server := sv\<rparr>)"


end
