(* ===== verification/Witnesses.thy ===== *)
theory Witnesses
  imports Service_Steps
begin

text \<open>
  The properties at work: for each property with hypotheses, a concrete service and call that meet
  them.  Alice and Bob have accounts and a direct conversation; the primitives of \<open>crypto\<close> are simple
  computable stand-ins.
\<close>

section \<open>A small service\<close>

definition sample_crypto :: crypto where
  "sample_crypto = \<lparr>c_sha256 = (\<lambda>b. b), c_hmac_sha1 = (\<lambda>k m. replicate 20 0),
     c_argon2_hash = (\<lambda>k p. Some (map unat p)), c_argon2_verify = (\<lambda>p h. map unat p = h),
     c_aes_encrypt = (\<lambda>k n p. Some p), c_aes_decrypt = (\<lambda>k n p. Some p),
     c_base32_nopad = map unat, c_uuid_text = (\<lambda>u. decimal (unat u))\<rparr>"

definition sample_unicode :: unicode where
  "sample_unicode = \<lparr>uc_uppercase = is_ascii_upper, uc_lowercase = is_ascii_lower,
     uc_to_lowercase = (\<lambda>c. [ascii_lower_char c])\<rparr>"

definition alice :: user_id where "alice = UserId 1"
definition bob :: user_id where "bob = UserId 2"
definition sample_password :: rstr where "sample_password = lit ''Correct1horse''"

definition alice_name :: rstr where "alice_name = [97]"
definition bob_name :: rstr where "bob_name = [98]"

definition sample_account :: "user_id \<Rightarrow> rstr \<Rightarrow> account" where
  "sample_account u name = \<lparr>acc_password_hash = map unat (utf8 sample_password),
     acc_profile = new_profile u name name 0, acc_deleted_at = None,
     acc_suspended = False, acc_second_factor = None, acc_pending_second_factor = None\<rparr>"

definition sample_store :: store where
  "sample_store = default_store\<lparr>
     st_accounts := [(alice, sample_account alice alice_name), (bob, sample_account bob bob_name)],
     st_by_username := [(alice_name, alice), (bob_name, bob)]\<rparr>"

definition sample_service :: "store \<Rightarrow> service" where
  "sample_service st = service_of sample_crypto (\<lambda>n. word_of_nat (n + 10)) (\<lambda>k i. word_of_nat (k + i)) st None"

lemma sample_service_txn:
  "svc_txn (sample_service st) = store.extend st
     (txn.fields (\<lambda>n. word_of_nat (n + 10)) 0 (\<lambda>k i. word_of_nat (k + i)) 0)"
  "svc_database (sample_service st) = None"
  by (simp_all add: sample_service_def service_of_def)

lemma mutate_volatile:
  assumes "operation (svc_txn sv) = (Inr r, s)" "svc_database sv = None"
  shows "\<exists>sv'. mutate operation sv = (Inr r, sv') \<and> svc_txn sv' = s \<and> svc_database sv' = None"
  using assms by (cases operation sv rule: mutate_cases) auto

lemma mutate_failed:
  assumes "operation (svc_txn sv) = (Inl e, s)" "\<not> is_panic e"
  shows "\<exists>sv'. mutate operation sv = (Inl e, sv')"
  using assms by (cases operation sv rule: mutate_cases) auto

lemmas sample_defs = sample_service_txn sample_store_def default_store_def store.defs txn.defs
  alice_def bob_def sample_account_def new_profile_def sample_crypto_def sample_password_def

section \<open>Sessions\<close>

definition sample_login :: login_input where
  "sample_login = \<lparr>li_login = alice_name, li_password = sample_password, li_device_name = [112],
     li_platform = [108], li_app_version = [49]\<rparr>"

lemma sample_accounts:
  "hm_get alice (st_accounts (svc_txn (sample_service sample_store))) = Some (sample_account alice alice_name)"
  "login_user (svc_txn (sample_service sample_store)) alice_name = Some alice"
  "active_account (svc_txn (sample_service sample_store)) alice = Some (sample_account alice alice_name)"
  by (simp_all add: sample_defs alice_name_def bob_name_def hm_get_def login_user_def active_account_def)

lemma sample_login_name: "to_ascii_lowercase (trim (li_login sample_login)) = alice_name"
  by (simp add: sample_login_def alice_name_def trim_def is_whitespace_def to_ascii_lowercase_def
      ascii_lower_char_def ascii_defs)

lemma sample_password_ok:
  "verify_password sample_crypto sample_password (map unat (utf8 sample_password))"
  by (simp add: verify_password_def sample_crypto_def)

lemma sample_login_tx:
  "\<exists>session s. login_tx sample_crypto key sample_login None 0 (svc_txn (sample_service sample_store))
     = (Inr session, s)"
  unfolding login_tx_def sample_login_name
  by (simp add: sample_accounts sample_password_ok sample_login_def expect_def
      verify_second_factor_for_account_def put_account_def new_uuid_def run_bnd add_device_def
      sample_account_def issue_session_run issue_session_in_family_run)

lemma sample_logged_in:
  "\<exists>session sv. login_with_second_factor sample_crypto sample_login None 0 (sample_service sample_store)
     = (Inr session, sv)"
proof -
  have "validate_device_name (li_device_name sample_login) = Inr ()"
    "validate_device_metadata (li_platform sample_login) (li_app_version sample_login) = Inr ()"
    by (simp_all add: sample_login_def validate_device_name_def validate_device_metadata_def trim_def
        is_whitespace_def err_if_def)
  moreover let ?sv = "sample_service sample_store"
  let ?op = "login_tx sample_crypto (svc_data_encryption_key ?sv) sample_login None 0"
  have "\<exists>session sv. mutate ?op ?sv = (Inr session, sv)"
    using sample_login_tx mutate_volatile [of ?op ?sv] sample_service_txn(2) by metis
  ultimately show ?thesis by (auto simp: login_with_second_factor_def checked_def)
qed

theorem login_opens_session_witness:
  "\<exists>session sv. login_with_second_factor sample_crypto sample_login None 0 (sample_service sample_store)
       = (Inr session, sv)
     \<and> (\<exists>u. authenticate_identity sample_crypto (svc_txn sv) (as_access_token session) 0
             = Inr (u, as_device_id session))"
proof -
  obtain session sv where run: "login_with_second_factor sample_crypto sample_login None 0
      (sample_service sample_store) = (Inr session, sv)"
    using sample_logged_in by blast
  from login_opens_session [OF run] run show ?thesis by (auto simp: time_defs)
qed

text \<open>A store in which Alice has a device with a token pair, and a reset token.\<close>

definition sample_device :: device_id where "sample_device = DeviceId 7"

definition sample_record :: token_record where
  "sample_record = fresh_token alice sample_device 5 (minutes 15)"

definition token_store :: store where
  "token_store = sample_store\<lparr>
     st_devices := [(sample_device, \<lparr>dev_id = sample_device, dev_user_id = alice, dev_name = [112],
       dev_platform = [108], dev_app_version = [49], dev_last_seen_at = 0, dev_revoked_at = None\<rparr>)],
     st_access_tokens := [(hash_token sample_crypto [65], sample_record)],
     st_refresh_tokens := [(hash_token sample_crypto [82], sample_record)],
     st_password_resets := [(hash_token sample_crypto [80],
       \<lparr>pr_user_id = alice, pr_expires_at = minutes 15, pr_attempts = 0, pr_consumed = False\<rparr>)]\<rparr>"

lemmas token_defs = token_store_def sample_service_txn sample_store_def default_store_def
  store.defs txn.defs

lemma token_store_lookups:
  "hm_get (hash_token sample_crypto [82]) (st_refresh_tokens (svc_txn (sample_service token_store)))
     = Some sample_record"
  "st_consumed_refresh_tokens (svc_txn (sample_service token_store)) = []"
  "hm_get sample_device (st_devices (svc_txn (sample_service token_store))) =
     Some \<lparr>dev_id = sample_device, dev_user_id = alice, dev_name = [112],
       dev_platform = [108], dev_app_version = [49], dev_last_seen_at = 0, dev_revoked_at = None\<rparr>"
  "hm_get alice (st_accounts (svc_txn (sample_service token_store))) = Some (sample_account alice alice_name)"
  "hm_get (hash_token sample_crypto [80]) (st_password_resets (svc_txn (sample_service token_store))) =
     Some \<lparr>pr_user_id = alice, pr_expires_at = minutes 15, pr_attempts = 0, pr_consumed = False\<rparr>"
  by (simp_all add: token_defs hm_get_def)

lemma sample_refreshed:
  "\<exists>session sv. refresh sample_crypto [82] 0 (sample_service token_store) = (Inr session, sv)"
proof -
  let ?sv = "sample_service token_store" and ?op = "refresh_tx sample_crypto (hash_token sample_crypto [82]) 0"
  have "\<exists>session s. ?op (svc_txn ?sv) = (Inr (Inr session), s)"
    unfolding refresh_tx_def
    by (simp add: token_store_lookups sample_record_def fresh_token_def live_account_def
        sample_account_def run_bnd issue_session_in_family_run time_defs)
  then have "\<exists>session sv. mutate ?op ?sv = (Inr (Inr session), sv)"
    using mutate_volatile [of ?op ?sv] sample_service_txn(2) by metis
  then show ?thesis by (auto simp: refresh_def run_bnd)
qed

theorem refresh_rotates_witness:
  "\<exists>session sv r. refresh sample_crypto [82] 0 (sample_service token_store) = (Inr session, sv)
     \<and> hm_get (hash_token sample_crypto (as_access_token session)) (st_access_tokens (svc_txn sv)) = Some r"
  using sample_refreshed refresh_rotates by blast

theorem refresh_token_used_once_witness:
  "\<exists>session sv. refresh sample_crypto [82] 0 (sample_service token_store) = (Inr session, sv)
     \<and> (\<nexists>session' sv'. refresh sample_crypto [82] 1 sv = (Inr session', sv'))"
  using sample_refreshed refresh_token_used_once [OF _ Run_refl [of sample_unicode]] by blast

definition reuse_store :: store where
  "reuse_store = token_store\<lparr>st_consumed_refresh_tokens := [(hash_token sample_crypto [67], 5)]\<rparr>"

theorem refresh_reuse_revokes_family_witness:
  "\<exists>e sv'. refresh sample_crypto [67] 0 (sample_service reuse_store) = (Inl e, sv')
     \<and> (e = RefreshTokenReuse \<and> tokens_dead sample_crypto (\<lambda>r. tok_family_id r = 5) (svc_txn sv') \<or> e = Storage)"
proof -
  have "hm_get (hash_token sample_crypto [67])
      (st_consumed_refresh_tokens (svc_txn (sample_service reuse_store))) = Some 5"
    by (simp add: reuse_store_def token_defs hm_get_def)
  from refresh_reuse_revokes_family [OF this, of 0] show ?thesis by blast
qed

theorem revoke_device_ends_sessions_witness:
  "\<exists>sv. revoke_device alice sample_device 0 (sample_service token_store) = (Inr (), sv)
     \<and> tokens_dead sample_crypto (\<lambda>r. tok_device_id r = sample_device) (svc_txn sv)"
proof -
  let ?sv = "sample_service token_store" and ?op = "revoke_device_tx alice sample_device 0"
  have "\<exists>s. ?op (svc_txn ?sv) = (Inr (), s)"
    by (simp add: revoke_device_tx_def token_store_lookups revoke_tokens_def)
  then obtain sv where "revoke_device alice sample_device 0 ?sv = (Inr (), sv)"
    using mutate_volatile [of ?op ?sv] sample_service_txn(2) unfolding revoke_device_def by metis
  with revoke_device_ends_sessions [OF this] show ?thesis by blast
qed

definition new_password :: rstr where "new_password = [65, 65, 65, 65, 65, 65, 65, 65, 97, 97, 49]"

lemma new_password_ok: "validate_password sample_unicode new_password = Inr ()"
  by (simp add: validate_password_def new_password_def is_uppercase_def is_lowercase_def ascii_defs
      limit_defs Let_def)

lemma sample_hash:
  "\<exists>h sv1. drawing (hash_password sample_crypto p) (sample_service st) = (Inr h, sv1)
     \<and> store.truncate (svc_txn sv1) = st \<and> svc_database sv1 = None"
  by (simp add: drawing_def hash_password_def sample_crypto_def sample_service_txn store.defs txn.defs)

lemma sample_password_changed:
  "\<exists>sv. change_password sample_unicode sample_crypto alice sample_password new_password
     (sample_service token_store) = (Inr (), sv)"
proof -
  let ?sv = "sample_service token_store"
  obtain h sv1 where hash: "drawing (hash_password sample_crypto new_password) ?sv = (Inr h, sv1)"
    and sv1: "st_accounts (svc_txn sv1) = st_accounts (svc_txn ?sv)" "svc_database sv1 = None"
    by (auto simp: drawing_def hash_password_def sample_crypto_def sample_service_txn)
  let ?op = "change_password_tx sample_crypto alice sample_password h"
  have "\<exists>s. ?op (svc_txn sv1) = (Inr (), s)"
    by (simp add: change_password_tx_def sv1 token_store_lookups found_def sample_account_def
        sample_password_ok put_account_def revoke_user_sessions_def revoke_tokens_def)
  then obtain sv where "mutate ?op sv1 = (Inr (), sv)"
    using mutate_volatile [of ?op sv1] sv1(2) by metis
  with hash show ?thesis
    by (auto simp: change_password_def checked_def new_password_ok run_bnd)
qed

theorem change_password_ends_sessions_witness:
  "\<exists>sv. change_password sample_unicode sample_crypto alice sample_password new_password
       (sample_service token_store) = (Inr (), sv)
     \<and> tokens_dead sample_crypto (\<lambda>r. tok_user_id r = alice) (svc_txn sv)"
  using sample_password_changed change_password_ends_sessions by metis

lemma sample_password_reset:
  "\<exists>sv. reset_password sample_unicode sample_crypto [80] new_password 0 (sample_service token_store)
     = (Inr (), sv)"
proof -
  let ?sv = "sample_service token_store"
  obtain h sv1 where hash: "drawing (hash_password sample_crypto new_password) ?sv = (Inr h, sv1)"
    and sv1: "st_accounts (svc_txn sv1) = st_accounts (svc_txn ?sv)"
      "st_password_resets (svc_txn sv1) = st_password_resets (svc_txn ?sv)" "svc_database sv1 = None"
    by (auto simp: drawing_def hash_password_def sample_crypto_def sample_service_txn)
  let ?op = "reset_password_tx (hash_token sample_crypto [80]) h 0"
  have "sat_add (0::u8) 1 = 1" by (simp add: sat_add_def)
  then have "\<exists>s. ?op (svc_txn sv1) = (Inr (), s)"
    by (simp add: reset_password_tx_def sv1 token_store_lookups found_def put_account_def time_defs
        revoke_user_sessions_def revoke_tokens_def revoke_devices_def Let_def)
  then obtain sv where "mutate ?op sv1 = (Inr (), sv)"
    using mutate_volatile [of ?op sv1] sv1(3) by metis
  with hash show ?thesis
    by (auto simp: reset_password_def checked_def new_password_ok run_bnd)
qed

theorem reset_password_single_use_witness:
  "\<exists>sv. reset_password sample_unicode sample_crypto [80] new_password 0 (sample_service token_store)
       = (Inr (), sv)
     \<and> (\<exists>e sv'. reset_password sample_unicode sample_crypto [80] new_password 1 sv = (Inl e, sv'))"
  using sample_password_reset reset_password_single_use by metis


section \<open>Transactions and runs\<close>

text \<open>An operation that writes an event, with and without success.\<close>

definition sample_write :: "bool \<Rightarrow> unit tx" where
  "sample_write ok = bnd (append_event {alice} PresenceUpdated PAllRead 0) (\<lambda>_. fail_if (\<not> ok) Conflict)"

lemma sample_write_progress: "guar progress (sample_write ok)"
  unfolding sample_write_def by (intro guar_intros)

theorem mutate_atomic_witness:
  "\<exists>sv'. mutate (sample_write False) (sample_service sample_store) = (Inl Conflict, sv')
     \<and> stored sv' = stored (sample_service sample_store)"
proof -
  have "\<exists>s. sample_write False (svc_txn (sample_service sample_store)) = (Inl Conflict, s)"
    by (simp add: sample_write_def run_bnd append_event_run)
  moreover have "\<not> is_panic Conflict" by simp
  ultimately obtain sv' where "mutate (sample_write False) (sample_service sample_store) = (Inl Conflict, sv')"
    using mutate_failed [of "sample_write False" "sample_service sample_store" Conflict] by metis
  from mutate_atomic [OF this] this show ?thesis by auto
qed


lemma sample_reachable: "reachable U sample_crypto (service_new sample_crypto uuids rands)"
  unfolding reachable_def by (blast intro: started.New Run_refl)

lemma new_service_txn:
  "svc_txn (service_new C uuids rands) = store.extend default_store (txn.fields uuids 0 rands 0)"
  by (simp add: service_new_def service_of_def)

lemma sample_step_fails:
  "\<exists>sv'. service_step U sample_crypto (service_new sample_crypto uuids rands) (Some NotFound) sv'"
proof -
  let ?sv = "service_new sample_crypto uuids rands" and ?op = "delete_sticker_tx alice 0"
  have "\<exists>s. ?op (svc_txn ?sv) = (Inl NotFound, s)"
    by (simp add: delete_sticker_tx_def new_service_txn default_store_def store.defs txn.defs)
  moreover have "\<not> is_panic NotFound" by simp
  ultimately obtain sv' where "delete_sticker alice 0 ?sv = (Inl NotFound, sv')"
    using mutate_failed [of ?op ?sv NotFound] unfolding delete_sticker_def by metis
  from DeleteSticker [OF this] show ?thesis by (auto simp: outcome_def)
qed


theorem event_log_numbered_witness:
  "latest_cursor (svc_txn (service_new sample_crypto (\<lambda>n. 0) (\<lambda>k i. 0))) = cursor_at 0"
  using event_log_numbered [OF sample_reachable [of sample_unicode "\<lambda>n. 0" "\<lambda>k i. 0"]]
  by (simp add: new_service_txn default_store_def store.defs txn.defs)


theorem catch_up_delivers_every_event_witness:
  "catch_up (\<lambda>i c n. Some (sync (svc_txn (service_new sample_crypto (\<lambda>n. 0) (\<lambda>k i. 0))) alice c n)) True 0 0 []
     = Some (Inr 0, [])"
proof -
  let ?sv = "service_new sample_crypto (\<lambda>n. 0) (\<lambda>k i. 0)"
  have empty: "st_events (svc_txn ?sv) = []"
    by (simp add: new_service_txn default_store_def store.defs txn.defs)
  have "\<exists>K::nat. catch_up (\<lambda>i c n. Some (sync (svc_txn ?sv) alice c n)) True 0 0 [] =
    Some (Inr (cursor_after 0 (pending_events (svc_txn ?sv) alice 0)), pending_events (svc_txn ?sv) alice 0)"
    by (rule catch_up_delivers_every_event [of sample_unicode sample_crypto "\<lambda>_. ?sv" alice 0])
      (simp_all add: sample_reachable Run_refl empty)
  then show ?thesis by (simp add: pending_events_def empty cursor_after_def)
qed

text \<open>A database whose snapshot holds one message.\<close>

definition sample_conversation_id :: conversation_id where "sample_conversation_id = ConversationId 3"

definition sample_message :: message where
  "sample_message = \<lparr>msg_id = MessageId 4, msg_client_message_id = MessageId 5,
     msg_conversation_id = sample_conversation_id, msg_sender_id = alice, msg_sequence = Some 1,
     msg_content = CText [104, 105], msg_status = Sent, msg_reply_to = None, msg_mentions = [],
     msg_mention_all = False, msg_created_at = 0, msg_server_created_at = Some 0, msg_edited_at = None\<rparr>"

definition message_store :: store where
  "message_store = default_store\<lparr>st_messages := [(sample_conversation_id, [sample_message])]\<rparr>"

definition sample_database :: database where
  "sample_database = \<lparr>db_accepts = (\<lambda>n. True), db_writes = 0, db_snapshot = Some message_store\<rparr>"

abbreviation restored :: service where
  "restored \<equiv> service_postgres sample_crypto (\<lambda>n. 0) (\<lambda>k i. 0) sample_database"

lemma restored_txn:
  "svc_txn restored = store.extend message_store (txn.fields (\<lambda>n. 0) 0 (\<lambda>k i. 0) 0)"
  "svc_database restored = Some sample_database"
  by (simp_all add: service_postgres_def service_of_def sample_database_def)

lemma restored_messages: "messages_of (svc_txn restored) sample_conversation_id = [sample_message]"
  by (simp add: restored_txn message_store_def messages_of_def hm_get_def store.defs txn.defs
      default_store_def)

lemma sample_snapshot_good: "good_snapshot uuids rands sample_database"
proof -
  let ?s = "store.extend message_store (txn.fields uuids 0 rands 0)"
  have "messages_of ?s cid = (if cid = sample_conversation_id then [sample_message] else [])" for cid
    by (simp add: message_store_def messages_of_def hm_get_def store.defs txn.defs default_store_def)
  moreover have "hm_wf (st_messages ?s)" "log_ok ?s" "conversations_ok ?s"
    by (simp_all add: message_store_def store.defs txn.defs default_store_def hm_wf_def log_ok_def
        conversations_ok_def)
  ultimately show ?thesis
    by (simp add: good_snapshot_def sample_database_def messages_ok_def sample_message_def)
qed

lemma restored_reachable: "reachable U sample_crypto restored"
  unfolding reachable_def by (blast intro: started.Postgres sample_snapshot_good Run_refl)


theorem message_sequences_contiguous_witness:
  "msg_sequence (messages_of (svc_txn restored) sample_conversation_id ! 0) = Some 1"
  using message_sequences_contiguous [OF restored_reachable [of sample_unicode],
      of sample_conversation_id 0]
  by (simp add: restored_messages)

end
