(* ===== verification/Forwarding.thy ===== *)
theory Forwarding
  imports Messaging
begin

text \<open>
  What \<open>forward_messages\<close> does not look at.  \<open>commutes g m\<close> says that changing the state by \<open>g\<close> before
  \<open>m\<close> is the same as changing it after: \<open>m\<close> neither reads nor writes what \<open>g\<close> changes.
\<close>

definition commutes :: "('s \<Rightarrow> 's) \<Rightarrow> ('s, 'e, 'a) eff \<Rightarrow> bool" where
  "commutes g m \<longleftrightarrow> (\<forall>s. m (g s) = (fst (m s), g (snd (m s))))"

named_theorems commute_intros \<open>rules for commutation\<close>

lemma commutes_basic [commute_intros]:
  "commutes g (ret x)" "commutes g (lift r)" "commutes g (fail_if b e)"
  "commutes g (dom d)" "commutes g (found y)"
  by (simp_all add: commutes_def dom_def found_def)

lemma commutes_gets [commute_intros]: "(\<And>s. f (g s) = f s) \<Longrightarrow> commutes g (gets f)"
  by (simp add: commutes_def)

lemma commutes_modify [commute_intros]: "(\<And>s. f (g s) = g (f s)) \<Longrightarrow> commutes g (modify f)"
  by (simp add: commutes_def)

lemma commutes_bnd [commute_intros]:
  assumes "commutes g m" and "\<And>x. commutes g (f x)"
  shows "commutes g (bnd m f)"
  unfolding commutes_def
proof
  fix s
  obtain r t where "m s = (r, t)" by (cases "m s")
  with assms show "bnd m f (g s) = (fst (bnd m f s), g (snd (bnd m f s)))"
    by (cases r) (simp_all add: commutes_def bnd_def)
qed

text \<open>The friendships, blocks, friends' settings, muted groups and attachments of a store replaced by
  arbitrary others.\<close>

definition other_relations ::
  "friendship list \<Rightarrow> (user_id \<times> user_id) set \<Rightarrow> (user_id \<times> user_id, friend_settings) hashmap
     \<Rightarrow> conversation_id set \<Rightarrow> (attachment_id, pending_attachment) hashmap \<Rightarrow> txn \<Rightarrow> txn" where
  "other_relations fs bs settings muted as s = s\<lparr>st_friendships := fs, st_blocks := bs,
     st_friend_settings := settings, st_group_mute_all := muted, st_attachments := as\<rparr>"

lemma other_relations_frame [simp]:
  "find_message (other_relations fs bs settings muted as s) mid = find_message s mid"
  "st_conversations (other_relations fs bs settings muted as s) = st_conversations s"
  "st_accounts (other_relations fs bs settings muted as s) = st_accounts s"
  "last_sequence (other_relations fs bs settings muted as s) cid = last_sequence s cid"
  by (simp_all add: other_relations_def find_message_def last_sequence_def messages_of_def)

lemma other_relations_sources [simp]:
  "collect_forward_sources (other_relations fs bs settings muted as s) actor mids mode
     = collect_forward_sources s actor mids mode"
proof -
  have "forward_source (other_relations fs bs settings muted as s) actor mode
      = forward_source s actor mode"
    by (simp add: forward_source_def fun_eq_iff cong: if_cong)
  then show ?thesis by (simp add: collect_forward_sources_def)
qed

lemma commutes_relations [commute_intros]:
  "commutes (other_relations fs bs settings muted as) new_uuid"
  "commutes (other_relations fs bs settings muted as) (append_event rs k p now)"
  "commutes (other_relations fs bs settings muted as) (push_message cid m)"
  "commutes (other_relations fs bs settings muted as) (remember_sent actor i mid q)"
  "commutes (other_relations fs bs settings muted as) (receipt_delivered mid u)"
  "commutes (other_relations fs bs settings muted as) (touch_conversation cid now)"
  "commutes (other_relations fs bs settings muted as) (get_conversation cid)"
  by (simp_all add: commutes_def other_relations_def new_uuid_def append_event_run push_message_def
      remember_sent_def receipt_delivered_def touch_conversation_def get_conversation_def found_def
      split: option.split)

lemma commutes_append_forwarded [commute_intros]:
  "commutes (other_relations fs bs settings muted as)
     (append_forwarded_message actor cid content q recipients now)"
  unfolding append_forwarded_message_def by (intro commute_intros)

lemma commutes_forward_loop [commute_intros]:
  "commutes (other_relations fs bs settings muted as) (forward_loop actor cid recipients now contents q)"
  by (induction contents arbitrary: q) (auto simp: Let_def intro!: commute_intros)

text \<open>C28. Forwarding ignores what sending enforces: neither friendship nor blocks, the group's mute, the
  recipient's refusal of files or the ownership of an attachment has any influence on what
  \<open>forward_messages\<close> does or returns.\<close>

theorem forwarding_ignores_relations:
  "forward_messages_in_store actor mids target mode now (other_relations fs bs settings muted as s)
     = (let (r, s') = forward_messages_in_store actor mids target mode now s
        in (r, other_relations fs bs settings muted as s'))"
proof -
  have "commutes (other_relations fs bs settings muted as) (forward_messages_in_store actor mids target mode now)"
    unfolding forward_messages_in_store_def Let_def by (intro commute_intros) simp_all
  then show ?thesis by (simp add: commutes_def split: prod.split)
qed

end
