(* ===== verification/Chat_Witnesses.thy ===== *)
theory Chat_Witnesses
  imports Witnesses Delivery Forwarding
begin

text \<open>
  The properties of messages and groups at work: services restored from a snapshot in which Alice and
  Bob are friends with a direct conversation, and one in which Bob owns a group that he has
  also asked to join.
\<close>

section \<open>A direct conversation\<close>

definition direct_conversation :: conversation where
  "direct_conversation = \<lparr>conv_id = sample_conversation_id, conv_kind = Direct bob, conv_name = [],
     conv_avatar_url = None, conv_avatar_attachment_id = None,
     conv_members = [(alice, new_member alice Member 0), (bob, new_member bob Member 0)],
     conv_muted = False, conv_pinned = False, conv_created_at = 0, conv_updated_at = 0\<rparr>"

definition chat_store :: store where
  "chat_store = default_store\<lparr>
     st_friendships := [\<lparr>fs_lower_user_id = alice, fs_upper_user_id = bob, fs_created_at = 0\<rparr>],
     st_conversations := [(sample_conversation_id, direct_conversation)],
     st_messages := [(sample_conversation_id, [sample_message])]\<rparr>"

text \<open>A service restored from the snapshot \<open>st\<close>.\<close>

definition restored_from :: "store \<Rightarrow> service" where
  "restored_from st = service_postgres sample_crypto (\<lambda>n. 0) (\<lambda>k i. 0)
     \<lparr>db_accepts = (\<lambda>n. True), db_writes = 0, db_snapshot = Some st\<rparr>"

lemma restored_from_txn:
  "svc_txn (restored_from st) = store.extend st (txn.fields (\<lambda>n. 0) 0 (\<lambda>k i. 0) 0)"
  by (simp add: restored_from_def service_postgres_def service_of_def)

lemma restored_from_reachable:
  assumes "\<And>s. s = store.extend st (txn.fields (\<lambda>n. 0) 0 (\<lambda>k i. 0) 0) \<Longrightarrow>
    messages_ok s \<and> conversations_ok s \<and> log_ok s"
  shows "reachable U sample_crypto (restored_from st)"
proof -
  have "started sample_crypto (restored_from st)"
    unfolding restored_from_def by (rule started.Postgres) (use assms in \<open>simp add: good_snapshot_def\<close>)
  then show ?thesis unfolding reachable_def using Run_refl by metis
qed

lemma mutate_restored:
  assumes "operation (svc_txn (restored_from st)) = (Inr r, s)"
  shows "\<exists>sv'. mutate operation (restored_from st) = (Inr r, sv') \<and> svc_txn sv' = s"
  using assms
  by (cases operation "restored_from st" rule: mutate_cases)
    (auto simp: restored_from_def service_postgres_def service_of_def)

lemmas chat_defs = restored_from_txn chat_store_def default_store_def store.defs txn.defs

lemma chat_conversations:
  "st_conversations (svc_txn (restored_from chat_store)) = [(sample_conversation_id, direct_conversation)]"
  by (simp add: chat_defs)

lemma chat_fields:
  "st_messages (svc_txn (restored_from chat_store)) = [(sample_conversation_id, [sample_message])]"
  "st_message_dedup (svc_txn (restored_from chat_store)) = []"
  "st_blocks (svc_txn (restored_from chat_store)) = {}"
  "st_friend_settings (svc_txn (restored_from chat_store)) = []"
  "st_message_receipts (svc_txn (restored_from chat_store)) = []"
  "st_message_expirations (svc_txn (restored_from chat_store)) = []"
  "st_friendships (svc_txn (restored_from chat_store))
     = [\<lparr>fs_lower_user_id = alice, fs_upper_user_id = bob, fs_created_at = 0\<rparr>]"
  "st_events (svc_txn (restored_from chat_store)) = []"
  "st_cursor (svc_txn (restored_from chat_store)) = 0"
  "uuid_src (svc_txn (restored_from chat_store)) = (\<lambda>n. 0)"
  by (simp_all add: chat_defs)

lemma chat_members:
  "bt_get alice (conv_members direct_conversation) = Some (new_member alice Member 0)"
  "bt_get bob (conv_members direct_conversation) = Some (new_member bob Member 0)"
  "member_ids direct_conversation = [alice, bob]" "\<not> is_group direct_conversation"
  "alice \<noteq> bob" "bob \<noteq> alice"
  by (simp_all add: direct_conversation_def bt_get_def alice_def bob_def member_ids_def bt_keys_def
      is_group_def)

lemma chat_messages:
  "messages_of (svc_txn (restored_from chat_store)) cid =
     (if cid = sample_conversation_id then [sample_message] else [])"
  by (simp add: messages_of_def hm_get_def chat_fields)

lemma chat_conversation:
  "hm_get cid (st_conversations (svc_txn (restored_from chat_store))) =
     (if cid = sample_conversation_id then Some direct_conversation else None)"
  by (simp add: hm_get_def chat_conversations)

lemma chat_message_list:
  "hm_get sample_conversation_id (st_messages (svc_txn (restored_from chat_store))) = Some [sample_message]"
  by (simp add: hm_get_def chat_fields)

lemma sample_message_fields:
  "msg_conversation_id sample_message = sample_conversation_id" "msg_sender_id sample_message = alice"
  "msg_id sample_message = MessageId 4" "msg_status sample_message = Sent"
  "msg_created_at sample_message = 0" "msg_sequence sample_message = Some 1"
  by (simp_all add: sample_message_def)

lemma chat_reachable: "reachable U sample_crypto (restored_from chat_store)"
proof (rule restored_from_reachable)
  fix s assume "s = store.extend chat_store (txn.fields (\<lambda>n. 0) 0 (\<lambda>k i. 0) 0)"
  then have s: "s = svc_txn (restored_from chat_store)" by (simp add: restored_from_txn)
  have "members_ok (conv_members direct_conversation)"
    by (auto simp: members_ok_def bt_wf_def direct_conversation_def new_member_def bt_get_def
        alice_def bob_def less_user_id_def split: if_splits)
  moreover have "conv_id direct_conversation = sample_conversation_id"
    by (simp add: direct_conversation_def)
  moreover have "hm_wf (st_conversations s)" by (simp add: s chat_conversations hm_wf_def)
  ultimately have "conversations_ok s"
    by (simp add: s conversations_ok_def conversation_ok_def chat_conversation)
  then show "messages_ok s \<and> conversations_ok s \<and> log_ok s"
    by (simp add: s messages_ok_def chat_messages chat_fields hm_wf_def log_ok_def sample_message_def)
qed

section \<open>Sending\<close>

definition sample_request :: send_message_request where
  "sample_request = \<lparr>sm_client_message_id = MessageId 9, sm_content = CText [104, 105],
     sm_reply_to = None, sm_mentions = [], sm_mention_all = False, sm_expires_in_seconds = None\<rparr>"

lemma sample_request_content:
  "content_validate (sm_content sample_request) = Inr ()"
  by (simp add: sample_request_def validate_message_text_def trim_def is_whitespace_def limit_defs)


lemma sample_deliver:
  "\<exists>m ack s'. deliver_message actor cid sample_request mentions recipients now s = (Inr (m, ack), s')"
  using sample_request_content
  by (auto simp: deliver_message_def run_bnd new_uuid_def dom_def message_pending_def mark_sent_def
      push_message_def remember_sent_def receipt_delivered_def set_expiration_def
      touch_conversation_def append_event_run split: option.split)

lemma sample_send:
  "\<exists>m ack sv. send_message_request bob sample_conversation_id sample_request 0 (restored_from chat_store)
     = (Inr (m, ack), sv)"
proof -
  let ?s = "svc_txn (restored_from chat_store)"
  have "message_recipients_for_send ?s bob sample_conversation_id (CText t) 0 = Inr [alice, bob]" for t
    by (simp add: message_recipients_for_send_def chat_conversation can_send_def chat_members
        new_member_def are_friends_def friendship_contains_def chat_fields err_if_def)
  then have "\<exists>m ack s'. send_message_in_store bob sample_conversation_id sample_request 0 ?s = (Inr (m, ack), s')"
    using sample_deliver [of bob sample_conversation_id "[]" "[alice, bob]" 0 ?s]
    by (simp add: send_message_in_store_def Let_def chat_fields validate_message_mentions_def
        validate_message_attachment_def sample_request_def hm_get_def)
  then obtain m ack s' where
    "send_message_in_store bob sample_conversation_id sample_request 0 ?s = (Inr (m, ack), s')" by blast
  from mutate_restored [of "send_message_in_store bob sample_conversation_id sample_request 0", OF this]
  show ?thesis
    by (auto simp: send_message_request_def sample_request_def invalid_expiry_def)
qed

theorem send_message_appends_witness:
  "\<exists>m ack sv. send_message_request bob sample_conversation_id sample_request 0 (restored_from chat_store)
       = (Inr (m, ack), sv)
     \<and> messages_of (svc_txn sv) sample_conversation_id = [sample_message, m]"
proof -
  obtain m ack sv where run: "send_message_request bob sample_conversation_id sample_request 0
      (restored_from chat_store) = (Inr (m, ack), sv)" using sample_send by blast
  have "hm_get (bob, sm_client_message_id sample_request)
      (st_message_dedup (svc_txn (restored_from chat_store))) = None"
    by (simp add: chat_fields hm_get_def)
  from send_message_appends [OF run this] run show ?thesis by (auto simp: chat_messages)
qed

theorem send_message_idempotent_witness:
  "\<exists>m ack sv r sv'. send_message_request bob sample_conversation_id sample_request 0
        (restored_from chat_store) = (Inr (m, ack), sv)
     \<and> send_message_request bob sample_conversation_id sample_request 1 sv = (r, sv')
     \<and> stored sv' = stored sv"
proof -
  obtain m ack sv where run: "send_message_request bob sample_conversation_id sample_request 0
      (restored_from chat_store) = (Inr (m, ack), sv)" using sample_send by blast
  have "sm_client_message_id sample_request = MessageId 9" "\<not> invalid_expiry (sm_expires_in_seconds sample_request)"
    "(9::uuid) \<notin> range (uuid_src (svc_txn (restored_from chat_store)))"
    by (simp_all add: sample_request_def invalid_expiry_def chat_fields)
  from send_message_idempotent [OF chat_reachable run Run_refl this(1,3,1,2),
      of sample_conversation_id 1] run
  show ?thesis by blast
qed

section \<open>Reading, recalling, paging\<close>

theorem mark_read_advances_witness:
  "\<exists>sv. mark_read bob sample_conversation_id 5 0 (restored_from chat_store) = (Inr (), sv)
     \<and> hm_get (bob, sample_conversation_id) (st_read_positions (svc_txn sv)) = Some 1"
proof -
  let ?s = "svc_txn (restored_from chat_store)"
  have last: "last_sequence ?s sample_conversation_id = 1"
    by (simp add: last_sequence_def sequence_after_def chat_messages sample_message_def)
  have "\<exists>s'. mark_read_tx bob sample_conversation_id 5 0 ?s = (Inr (), s')"
    by (simp add: mark_read_tx_def get_conversation_def found_def run_bnd chat_conversation can_read_def
        bt_contains_def chat_members chat_messages read_by_position_def sample_message_def last
        receipt_read_def advance_position_def append_event_run chat_members)
  then obtain sv where run: "mark_read bob sample_conversation_id 5 0 (restored_from chat_store) = (Inr (), sv)"
    unfolding mark_read_def using mutate_restored by metis
  have "read_position ?s bob sample_conversation_id = 0"
    by (simp add: read_position_def chat_defs hm_get_def)
  moreover have "min (5::u64) 1 = 1" "max (0::u64) 1 = 1"
    by (simp_all add: min_def max_def word_le_nat_alt)
  ultimately show ?thesis using mark_read_advances [OF run] run last by simp
qed

theorem recall_message_rules_witness:
  "\<exists>m sv. recall_message alice (MessageId 4) 0 (restored_from chat_store) = (Inr m, sv)
     \<and> msg_status m = Recalled"
proof -
  let ?s = "svc_txn (restored_from chat_store)"
  have "find_message ?s (MessageId 4) = Some sample_message"
    by (simp add: find_message_def hm_values_def chat_fields sample_message_def)
  then have "\<exists>m s'. recall_message_tx alice (MessageId 4) 0 ?s = (Inr m, s')"
    by (simp add: recall_message_tx_def found_def get_conversation_def expect_def run_bnd
        chat_conversation chat_members chat_message_list sample_message_fields time_defs append_event_run)
  then obtain m sv where "recall_message alice (MessageId 4) 0 (restored_from chat_store) = (Inr m, sv)"
    unfolding recall_message_def using mutate_restored by metis
  with recall_message_rules [OF this] show ?thesis by blast
qed

theorem pages_join_witness:
  "message_page (svc_txn (restored_from chat_store)) 0 bob sample_conversation_id None 2 = Inr [sample_message]"
proof -
  let ?s = "svc_txn (restored_from chat_store)"
  have read: "readable_conversation ?s sample_conversation_id bob = Inr direct_conversation"
    by (simp add: readable_conversation_def chat_conversation can_read_def bt_contains_def chat_members)
  have seq: "msg_sequence sample_message = Some 1" and sender: "msg_sender_id sample_message \<noteq> bob"
    by (simp_all add: sample_message_def chat_members)
  have page: "message_page ?s 0 bob sample_conversation_id None 1 = Inr [sample_message]"
    using sender by (simp add: message_page_def read chat_messages clamp_def MAX_MESSAGE_PAGE_def not_expired_def
        chat_fields before_cursor_def status_for_sender_def hm_get_def)
  have older: "message_page ?s 0 bob sample_conversation_id (msg_sequence (hd [sample_message])) 1 = Inr []"
    using sender by (simp add: message_page_def read chat_messages not_expired_def chat_fields before_cursor_def
        seq hm_get_def)
  have "length (messages_of ?s sample_conversation_id) < 2 ^ 64" by (simp add: chat_messages)
  from pages_join [OF chat_reachable this _ _ _ page _ older]
  show ?thesis by (simp add: MAX_MESSAGE_PAGE_def numeral_2_eq_2)
qed


section \<open>A group\<close>

definition group_conversation :: conversation where
  "group_conversation = direct_conversation\<lparr>conv_kind := Group (GroupId 1),
     conv_members := [(alice, new_member alice Administrator 0), (bob, new_member bob Owner 0)]\<rparr>"

definition bobs_request :: group_join_request where
  "bobs_request = \<lparr>jr_id = 2, jr_conversation_id = sample_conversation_id, jr_applicant_id = bob,
     jr_message = [], jr_status = JrPending, jr_reviewed_by = None, jr_created_at = 0, jr_updated_at = 0\<rparr>"

definition group_store :: store where
  "group_store = default_store\<lparr>st_conversations := [(sample_conversation_id, group_conversation)],
     st_group_join_requests := [(2, bobs_request)]\<rparr>"

lemmas group_defs = restored_from_txn group_store_def default_store_def store.defs txn.defs

lemma group_lookups:
  "hm_get cid (st_conversations (svc_txn (restored_from group_store))) =
     (if cid = sample_conversation_id then Some group_conversation else None)"
  "hm_get 2 (st_group_join_requests (svc_txn (restored_from group_store))) = Some bobs_request"
  "messages_of (svc_txn (restored_from group_store)) cid = []"
  by (simp_all add: hm_get_def group_defs messages_of_def)

lemma group_members:
  "bt_get alice (conv_members group_conversation) = Some (new_member alice Administrator 0)"
  "bt_get bob (conv_members group_conversation) = Some (new_member bob Owner 0)"
  "is_group group_conversation"
  using chat_members by (simp_all add: group_conversation_def bt_get_def is_group_def)

lemma group_reachable: "reachable U sample_crypto (restored_from group_store)"
proof (rule restored_from_reachable)
  fix s assume "s = store.extend group_store (txn.fields (\<lambda>n. 0) 0 (\<lambda>k i. 0) 0)"
  then have s: "s = svc_txn (restored_from group_store)" by (simp add: restored_from_txn)
  have "members_ok (conv_members group_conversation)"
    by (auto simp: members_ok_def bt_wf_def group_conversation_def new_member_def bt_get_def
        alice_def bob_def less_user_id_def split: if_splits)
  moreover have "conv_id group_conversation = sample_conversation_id"
    by (simp add: group_conversation_def direct_conversation_def)
  moreover have "hm_wf (st_conversations s)" "hm_wf (st_messages s)" "log_ok s"
    by (simp_all add: s group_defs hm_wf_def log_ok_def)
  ultimately show "messages_ok s \<and> conversations_ok s \<and> log_ok s"
    by (simp add: s conversations_ok_def conversation_ok_def group_lookups messages_ok_def)
qed

theorem group_owner_unique_witness:
  "distinct (member_ids group_conversation) \<and> role_of group_conversation bob = Some Owner"
  using group_owner_unique [OF group_reachable [of sample_unicode],
      of sample_conversation_id group_conversation]
  by (simp add: group_lookups role_of_def group_members new_member_def)

lemma sample_decided:
  "\<exists>r sv. decide_group_join_request alice 2 True 0 (restored_from group_store) = (Inr r, sv)"
proof -
  have "\<exists>r s'. decide_group_join_request_tx alice 2 True 0 (svc_txn (restored_from group_store)) = (Inr r, s')"
    by (simp add: decide_group_join_request_tx_def found_def get_conversation_def run_bnd group_lookups
        bobs_request_def group_members new_member_def admit_applicant_def put_conversation_def
        put_settings_def append_system_message_def new_uuid_def dom_def message_pending_def
        mark_sent_def push_message_def touch_conversation_def append_event_run Let_def
        require_role_at_least_def require_member_def err_if_def trim_def is_whitespace_def
        less_member_role_def)
  then show ?thesis unfolding decide_group_join_request_def using mutate_restored by metis
qed

theorem join_decision_demotes_owner_witness:
  "\<exists>r sv c. decide_group_join_request alice 2 True 0 (restored_from group_store) = (Inr r, sv)
     \<and> hm_get sample_conversation_id (st_conversations (svc_txn sv)) = Some c
     \<and> (\<forall>u. role_of c u \<noteq> Some Owner)"
proof -
  obtain r sv where run: "decide_group_join_request alice 2 True 0 (restored_from group_store) = (Inr r, sv)"
    using sample_decided by blast
  have "hm_get (jr_conversation_id bobs_request) (st_conversations (svc_txn (restored_from group_store)))
      = Some group_conversation" "role_of group_conversation (jr_applicant_id bobs_request) = Some Owner"
    by (simp_all add: bobs_request_def group_lookups role_of_def group_members new_member_def)
  from join_decision_demotes_owner [OF group_reachable [of sample_unicode] group_lookups(2) this run] run
  show ?thesis by (auto simp: bobs_request_def)
qed

end
