(* ===== verification/Client_Witnesses.thy ===== *)
theory Client_Witnesses
  imports Outbox_Delivery Chat_Witnesses
begin

text \<open>
  A concrete platform, and a client that logged in, cached a conversation and a message, wrote a draft
  and queued a message; the theorems about the local store applied to it.
\<close>

section \<open>A platform\<close>

definition sample_profile :: user_profile where
  "sample_profile = new_profile alice alice_name alice_name 0"

definition sample_bootstrap :: bootstrap_response where
  "sample_bootstrap = \<lparr>br_profile = sample_profile, br_profile_privacy = default_privacy, br_friends = [],
     br_friend_settings = [], br_friend_requests = [], br_friend_request_profiles = [],
     br_conversations = [direct_conversation], br_conversation_states = [], br_cursor = 12\<rparr>"

definition sample_platform :: platform where
  "sample_platform = \<lparr>pf_uuid_text = (\<lambda>u. [unat u]),
     pf_uuid_parse = (\<lambda>s. case s of [n] \<Rightarrow> Some (word_of_nat n) | _ \<Rightarrow> None),
     pf_b64_encode = map unat, pf_b64_decode = (\<lambda>s. Some (map word_of_nat s)),
     pf_encrypt = (\<lambda>k n p. Some (p @ replicate 16 0)),
     pf_decrypt = (\<lambda>k n c. Some (take (length c - 16) c)),
     pf_message_json = (\<lambda>m. if m = sample_message then Some [123, 1] else None),
     pf_message_parse = (\<lambda>t. if t = [123, 1] then Some sample_message else None),
     pf_profile_json = (\<lambda>p. if p = sample_profile then Some [123, 2] else None),
     pf_profile_parse = (\<lambda>t. if t = [123, 2] then Some sample_profile else None),
     pf_conversation_json = (\<lambda>c. if c = direct_conversation then Some [123, 3] else None),
     pf_conversation_parse = (\<lambda>t. if t = [123, 3] then Some direct_conversation else None),
     pf_bootstrap_json = (\<lambda>b. if b = sample_bootstrap then Some [123, 4] else None),
     pf_bootstrap_parse = (\<lambda>t. if t = [123, 4] then Some sample_bootstrap else None),
     pf_request_parse = (\<lambda>t. if t = [123, 5] then Some sample_request else None),
     pf_json_valid = (\<lambda>t. t = [123, 5])\<rparr>"

lemma sample_platform_ok: "platform_ok sample_platform"
  by (simp add: platform_ok_def sample_platform_def json_codec_def scalar_value_def o_def)

lemma sample_platform_simps:
  "pf_uuid_text sample_platform u = [unat u]"
  "pf_uuid_parse sample_platform [n] = Some (word_of_nat n)"
  "pf_b64_encode sample_platform = map unat"
  "pf_profile_json sample_platform sample_profile = Some [123, 2]"
  "pf_conversation_json sample_platform direct_conversation = Some [123, 3]"
  "pf_bootstrap_json sample_platform sample_bootstrap = Some [123, 4]"
  "pf_message_json sample_platform sample_message = Some [123, 1]"
  "pf_json_valid sample_platform [123, 5]"
  "pf_request_parse sample_platform [123, 5] = Some sample_request"
  by (simp_all add: sample_platform_def)

definition fresh_client :: local_store where
  "fresh_client = \<lparr>ls_db = fresh_db 0, ls_key = None, ls_keychain = None, ls_can_save = True,
     ls_can_load = True, ls_can_clear = True, ls_now = 0, ls_random = (\<lambda>n. 7), ls_drawn = 0\<rparr>"

text \<open>Logged in with one conversation and one message cached.\<close>

definition cached_client :: local_store where
  "cached_client = snd (cache_messages sample_platform [sample_message]
     (snd (cache_bootstrap sample_platform sample_bootstrap fresh_client)))"

definition queued_client :: local_store where
  "queued_client = snd (enqueue_outbox sample_platform [9] [3] [123, 5]
     (snd (save_draft sample_platform [3] [104] cached_client)))"

lemma fresh_client_reach: "client_reach sample_platform fresh_client"
  by (rule client_reach.Fresh [of _ 0]) (simp_all add: fresh_client_def)

lemma cached_client_reach: "client_reach sample_platform cached_client"
  unfolding cached_client_def
  by (rule client_reach.Messages, rule client_reach.Bootstrap, rule fresh_client_reach)

lemma queued_client_reach: "client_reach sample_platform queued_client"
  unfolding queued_client_def
  by (rule client_reach.Enqueue, rule client_reach.Draft, rule cached_client_reach) (simp add: scalar_value_def)

lemma sample_fields:
  "br_profile sample_bootstrap = sample_profile" "br_friends sample_bootstrap = []"
  "br_conversations sample_bootstrap = [direct_conversation]" "br_cursor sample_bootstrap = 12"
  "prof_id sample_profile = UserId 1" "prof_username sample_profile = [97]" "prof_nickname sample_profile = [97]"
  "prof_avatar_url sample_profile = None" "prof_signature sample_profile = []"
  "conv_id direct_conversation = ConversationId 3" "conv_kind direct_conversation = Direct bob"
  "conv_name direct_conversation = []" "\<not> conv_pinned direct_conversation" "\<not> conv_muted direct_conversation"
  by (simp_all add: sample_bootstrap_def sample_profile_def new_profile_def alice_def alice_name_def
      direct_conversation_def sample_conversation_id_def)

text \<open>The operations computed in a given state.\<close>

lemma client_run:
  "bnd (reads q) f s = f (q (ls_db s)) s"
  "bnd (writes w) h s = h () (s\<lparr>ls_db := w (ls_db s)\<rparr>)"
  "writes w s = (Inr (), s\<lparr>ls_db := w (ls_db s)\<rparr>)"
  "protect P v None = ret v"
  by (simp_all add: bnd_def reads_def writes_def protect_def)

lemma client_tries:
  "w (ls_db s) = Some d \<Longrightarrow> bnd (tries e w) h s = h () (s\<lparr>ls_db := d\<rparr>)"
  "w (ls_db s) = Some d \<Longrightarrow> tries e w s = (Inr (), s\<lparr>ls_db := d\<rparr>)"
  by (simp_all add: bnd_def tries_def)

lemma bootstrap_client:
  "snd (cache_bootstrap sample_platform sample_bootstrap fresh_client) = fresh_client\<lparr>ls_db := (fresh_db 0)\<lparr>
     db_users := [([1], \<lparr>cu_username = [97], cu_nickname = [97], cu_avatar_url = None, cu_signature = [],
       cu_presence = presence_text (prof_presence sample_profile), cu_last_seen_at = prof_last_seen_at sample_profile,
       cu_payload = [123, 2], cu_updated_at = 0\<rparr>)],
     db_conversations := [([3], \<lparr>cc_kind = lit ''direct'', cc_display_name = [], cc_pinned = False, cc_muted = False,
       cc_payload = [123, 3], cc_updated_at = 0\<rparr>)],
     db_meta := [(CURSOR, decimal 12, 0), (SNAPSHOT, [123, 4], 0)]\<rparr>\<rparr>"
  by (simp add: cache_bootstrap_def cache_profiles_def cache_profile_def cache_conversations_def cache_conversation_def
      client_run bnd_assoc [symmetric] fresh_client_def fresh_db_def transaction_def Let_def sample_platform_simps
      sample_fields put_meta_def hm_insert_def conversation_kind_text_def meta_keys)

definition cached_db :: local_db where
  "cached_db = ls_db (snd (cache_bootstrap sample_platform sample_bootstrap fresh_client))"

lemma cached_message_fields:
  "msg_id sample_message = MessageId 4" "msg_client_message_id sample_message = MessageId 5"
  "msg_conversation_id sample_message = ConversationId 3" "msg_sender_id sample_message = UserId 1"
  "msg_sequence sample_message = Some 1" "msg_content sample_message = CText [104, 105]"
  "msg_status sample_message = Sent" "msg_created_at sample_message = 0"
  "msg_server_created_at sample_message = Some 0"
  by (simp_all add: sample_message_def alice_def sample_conversation_id_def)

definition cached_row :: cached_message where
  "cached_row = \<lparr>cm_client_message_id = [5], cm_conversation_id = [3], cm_sender_id = [1], cm_sequence = Some 1,
     cm_kind = lit ''text'', cm_payload = [123, 1], cm_status = lit ''sent'', cm_created_at = 0,
     cm_server_created_at = Some 0\<rparr>"

lemma cached_client_eq:
  "cached_client = fresh_client\<lparr>ls_db := cached_db\<lparr>db_messages := [([4], cached_row)],
     db_search := [\<lparr>sr_message_id = [4], sr_conversation_id = [3], sr_sender_id = [1], sr_body = [104, 105]\<rparr>]\<rparr>\<rparr>"
  unfolding cached_client_def cached_db_def bootstrap_client
  by (simp add: cache_messages_def cache_message_def client_run bnd_assoc [symmetric] transaction_def Let_def
      sample_platform_simps cached_message_fields fresh_client_def fresh_db_def to_i64_def drop_search_def
      drop_messages_def hm_retain_def client_tries upsert_message_def hm_contains_def hm_get_def sequence_taken_def
      sender_taken_def hm_insert_def add_search_def message_kind_text_def status_text_def cached_row_def)

lemma queued_client_eq:
  "queued_client = cached_client\<lparr>ls_db := (ls_db cached_client)\<lparr>
     db_drafts := [([3], \<lparr>dr_body = [104], dr_updated_at = 0\<rparr>)],
     db_outbox := [([9], \<lparr>ob_conversation_id = [3], ob_payload = [123, 5], ob_attempt_count = 0,
       ob_next_attempt_at = 0, ob_last_error_code = None, ob_created_at = 0, ob_updated_at = 0\<rparr>)]\<rparr>\<rparr>"
  unfolding queued_client_def cached_client_eq cached_db_def bootstrap_client
  by (simp add: save_draft_def enqueue_outbox_def client_run bnd_assoc [symmetric] Let_def validate_uuid_def err_if_def
      sample_platform_simps fresh_client_def fresh_db_def client_tries put_draft_def put_outbox_def
      hm_contains_def hm_get_def hm_insert_def byte_len_def utf8_def utf8_char_def)

section \<open>Sealing\<close>

definition sample_key :: "u8 list" where "sample_key = map (\<lambda>i. 7) [0..<32]"
definition sample_nonce :: "u8 list" where "sample_nonce = map (\<lambda>i. 7) [0..<12]"

definition locked :: "rstr \<Rightarrow> rstr" where
  "locked v = ENCRYPTED_PREFIX @ map unat (sample_nonce @ utf8 v @ replicate 16 0)"

text \<open>\<open>sealing_client\<close> turned encryption on before it cached anything.\<close>

definition sealing_client :: local_store where
  "sealing_client = snd (set_encryption_enabled sample_platform True fresh_client)"

definition sealed_client :: local_store where
  "sealed_client = snd (cache_messages sample_platform [sample_message]
     (snd (cache_bootstrap sample_platform sample_bootstrap sealing_client)))"

lemma sealed_client_reach: "client_reach sample_platform sealed_client"
  unfolding sealed_client_def sealing_client_def
  by (rule client_reach.Messages, rule client_reach.Bootstrap, rule client_reach.Encryption, rule fresh_client_reach)

lemma bnd_draw: "bnd (draw_bytes n) f s = f (map (\<lambda>i. ls_random s (ls_drawn s + i)) [0..<n]) (s\<lparr>ls_drawn := ls_drawn s + n\<rparr>)"
  by (simp add: bnd_def draw_bytes_def)

lemma bnd_protect:
  assumes "\<not> is_sealed v" "ls_random s = (\<lambda>n. 7)"
  shows "bnd (protect sample_platform v (Some sample_key)) f s = f (locked v) (s\<lparr>ls_drawn := ls_drawn s + 12\<rparr>)"
  using assms
  by (simp add: protect_def bnd_assoc [symmetric] bnd_draw sample_key_def locked_def seal_def sample_platform_def
      sample_nonce_def comp_def)

lemma plain_samples: "\<not> is_sealed [123, n]"
  by (simp add: is_sealed_def starts_with_def ENCRYPTED_PREFIX_def)

lemma fresh_fields:
  "ls_db fresh_client = fresh_db 0" "ls_key fresh_client = None" "ls_can_save fresh_client"
  "ls_random fresh_client = (\<lambda>n. 7)" "ls_drawn fresh_client = 0" "ls_now fresh_client = 0"
  by (simp_all add: fresh_client_def)

lemma sealing_client_eq:
  "sealing_client = fresh_client\<lparr>ls_db := (fresh_db 0)\<lparr>db_meta := [(CURSOR, lit ''0'', 0), (ENCRYPTION, lit ''v1'', 0)]\<rparr>,
     ls_key := Some sample_key, ls_keychain := Some (map unat sample_key), ls_drawn := 32\<rparr>"
proof -
  let ?s = "fresh_client\<lparr>ls_drawn := 32, ls_keychain := Some (map unat sample_key)\<rparr>"
  let ?d = "(fresh_db 0)\<lparr>db_meta := [(CURSOR, lit ''0'', 0), (ENCRYPTION, lit ''v1'', 0)]\<rparr>"
  have "encrypt_existing_cache sample_platform sample_key ?s = (Inr (), ?s\<lparr>ls_db := ?d\<rparr>)"
    by (simp add: encrypt_existing_cache_def for_rows_def rewrite_snapshot_def client_run bnd_assoc [symmetric] transaction_def
        Let_def fresh_client_def fresh_db_def hm_get_def meta_keys drop_search_def put_meta_def hm_insert_def)
  then have run: "bnd (cleanup_on_error (encrypt_existing_cache sample_platform sample_key) clear_cache_key) f ?s
      = f () (?s\<lparr>ls_db := ?d\<rparr>)" for f
    by (simp add: bnd_def cleanup_on_error_def)
  have save: "bnd (save_cache_key sample_platform sample_key) f (fresh_client\<lparr>ls_drawn := 32\<rparr>) = f () ?s" for f
    by (simp add: bnd_def save_cache_key_def fresh_fields sample_platform_simps)
  have "sealing_client = ?s\<lparr>ls_db := ?d, ls_key := Some sample_key\<rparr>"
    by (simp add: sealing_client_def set_encryption_enabled_def encryption_enabled_def bnd_draw fresh_fields
        sample_key_def [symmetric] save run set_key_def)
  then show ?thesis by (simp add: fresh_client_def)
qed

lemma sealed_client_facts:
  "ls_key sealed_client = Some sample_key" "ls_can_load sealed_client"
  "db_messages (ls_db sealed_client) = [([4], cached_row\<lparr>cm_payload := locked [123, 1]\<rparr>)]"
proof -
  show "ls_key sealed_client = Some sample_key" "ls_can_load sealed_client"
  "db_messages (ls_db sealed_client) = [([4], cached_row\<lparr>cm_payload := locked [123, 1]\<rparr>)]" 
    unfolding sealed_client_def sealing_client_eq
    by (simp_all add: cache_bootstrap_def cache_profiles_def cache_profile_def cache_conversations_def cache_conversation_def
      client_run bnd_assoc [symmetric] fresh_client_def fresh_db_def transaction_def Let_def sample_platform_simps
      sample_fields put_meta_def hm_insert_def conversation_kind_text_def meta_keys bnd_protect plain_samples
      cache_messages_def cache_message_def cached_message_fields to_i64_def drop_search_def
      drop_messages_def hm_retain_def client_tries upsert_message_def hm_contains_def hm_get_def sequence_taken_def
      sender_taken_def message_kind_text_def status_text_def cached_row_def)
qed
section \<open>The theorems at work\<close>




theorem reopen_restores_store_witness:
  "open_store sample_platform (sealed_client\<lparr>ls_key := None\<rparr>) = (Inr (), sealed_client)"
  by (rule reopen_restores_store [OF sample_platform_ok sealed_client_reach sealed_client_facts(2)])

lemma draft_saved: "\<exists>s'. save_draft sample_platform [3] [104] cached_client = (Inr (), s')"
  unfolding cached_client_eq cached_db_def bootstrap_client
  by (simp add: save_draft_def client_run bnd_assoc [symmetric] Let_def validate_uuid_def err_if_def
      sample_platform_simps fresh_client_def fresh_db_def client_tries put_draft_def hm_contains_def hm_get_def)

theorem draft_round_trip_witness:
  "\<exists>s'. save_draft sample_platform [3] [104] cached_client = (Inr (), s')
    \<and> load_draft sample_platform [3] s' = (Inr [104], s')"
proof -
  obtain s' where "save_draft sample_platform [3] [104] cached_client = (Inr (), s')" using draft_saved by blast
  with draft_round_trip [OF sample_platform_ok cached_client_reach this] show ?thesis
    by (simp add: scalar_value_def is_sealed_def starts_with_def ENCRYPTED_PREFIX_def)
qed

definition sample_events :: "event list" where
  "sample_events = [\<lparr>ev_id = 1, ev_cursor = 3, ev_kind = PresenceUpdated, ev_payload = PAllRead, ev_created_at = 0\<rparr>,
     \<lparr>ev_id = 2, ev_cursor = 2, ev_kind = PresenceUpdated, ev_payload = PAllRead, ev_created_at = 0\<rparr>,
     \<lparr>ev_id = 1, ev_cursor = 3, ev_kind = PresenceUpdated, ev_payload = PAllRead, ev_created_at = 0\<rparr>]"


theorem outbox_backoff_bounds_witness:
  "\<exists>s' r'. record_outbox_failure sample_platform (\<lambda>n. 0) [9] (lit ''offline'') queued_client = (Inr (), s')
    \<and> hm_get [9] (db_outbox (ls_db s')) = Some r' \<and> seconds 2 \<le> ob_next_attempt_at r'
    \<and> ob_next_attempt_at r' \<le> seconds 3 \<and> ob_attempt_count r' = 1"
proof -
  let ?r = "\<lparr>ob_conversation_id = [3], ob_payload = [123, 5], ob_attempt_count = 0,
       ob_next_attempt_at = 0, ob_last_error_code = None, ob_created_at = 0, ob_updated_at = 0\<rparr>"
  have row: "hm_get [9] (db_outbox (ls_db queued_client)) = Some ?r" "ls_now queued_client = 0"
    by (simp_all add: queued_client_eq cached_client_eq hm_get_def fresh_fields)
  have "\<exists>s'. record_outbox_failure sample_platform (\<lambda>n. 0) [9] (lit ''offline'') queued_client = (Inr (), s')"
    by (simp add: record_outbox_failure_def client_run Let_def validate_uuid_def err_if_def sample_platform_simps row
        byte_len_def utf8_def utf8_char_def is_name_byte_def is_ascii_alphanumeric_def ascii_defs unat_of_nat)
  then obtain s' where s': "record_outbox_failure sample_platform (\<lambda>n. 0) [9] (lit ''offline'') queued_client = (Inr (), s')"
    by blast
  from outbox_backoff_bounds [OF s' _ row(1)] show ?thesis
    using s' row(2) by (auto simp: I64_MAX_def seconds_def)
qed

theorem clear_account_cache_forgets_witness:
  "\<exists>s'. clear_account_cache queued_client = (Inr (), s') \<and> db_drafts (ls_db s') = [] \<and> db_messages (ls_db s') = []"
  using clear_account_cache_forgets [OF queued_client_reach sample_platform_ok] by blast


end
