(* ===== verification/Live_Frames.thy ===== *)
theory Live_Frames
  imports Protocol
begin

text \<open>
  The frames of the WebSocket connection (\<open>crates/protocol/src/lib.rs\<close>, \<open>ClientFrame\<close>,
  \<open>ServerFrame\<close>, \<open>ApiError\<close>).  The access token and the version in \<open>Hello\<close> are kept although the server
  does not look at them.
\<close>

definition WS_PROTOCOL_VERSION :: u16 where "WS_PROTOCOL_VERSION = 1"

datatype error_code =
    ValidationError | AuthenticationRequired | AuthenticationFailed | ForbiddenError | NotFoundError
  | ConflictError | RateLimited | PayloadTooLarge | UnsupportedMediaType | ProtocolMismatch
  | SyncRequired | InternalError | ServiceUnavailable

record api_error =
  ae_code :: error_code
  ae_message_key :: rstr
  ae_field :: "rstr option"
  ae_correlation_id :: uuid
  ae_retryable :: bool

datatype client_frame =
    CfHello u16 rstr rstr u64
  | CfPing uuid
  | CfSendMessage uuid conversation_id send_message_request
  | CfMarkRead uuid conversation_id u64
  | CfTyping conversation_id bool
  | CfCallSignal conversation_id uuid "user_id option" call_signal

datatype server_frame =
    SfWelcome u16 user_id datetime u64
  | SfPong uuid
  | SfAck uuid message_ack
  | SfEvent event
  | SfTyping conversation_id user_id bool datetime
  | SfCallSignal conversation_id uuid user_id call_signal
  | SfError "uuid option" api_error
  | SfClose u16 rstr

end
