(* ===== verification/Live_Server.thy ===== *)
theory Live_Server
  imports Live_Frames Service_Steps
begin

text \<open>
  The server's end of a WebSocket connection (\<open>apps/server/src/websocket.rs\<close>).

  \<open>serve\<close> selects among its heartbeat, three broadcast receivers and the socket; \<open>serve_turn\<close> is one
  branch of that \<open>select!\<close>, with what the source of the branch produced as its argument.  What a broadcast
  receiver produces (a value, a lag, the end of the channel) is \<open>tokio\<close>'s business and enters here as a
  value.  Writing to the socket may fail at any write.
\<close>

section \<open>State\<close>

datatype ws_message = Frame server_frame | PingFrame | CloseFrame rstr

text \<open>\<open>ws_open n\<close> says whether the \<open>n\<close>-th write to the socket succeeds; \<open>ws_fresh\<close> yields the correlation
  identifiers of errors; \<open>ws_active\<close> is \<open>last_activity\<close> in milliseconds.\<close>

record session =
  ws_service :: service
  ws_out :: "ws_message list"
  ws_open :: "nat \<Rightarrow> bool"
  ws_writes :: nat
  ws_fresh :: "nat \<Rightarrow> uuid"
  ws_drawn :: nat
  ws_active :: int

datatype 'a received = Received 'a | Lagged | Closed

datatype incoming = Text_frame "client_frame option" | Ping_or_pong | Close_or_error | Binary_frame | Stream_end

datatype turn =
    Heartbeat int
  | Event_turn "(user_id set \<times> event) received"
  | Typing_turn "(user_id list \<times> typing_signal) received"
  | Call_turn "(user_id list \<times> call_signal_delivery) received"
  | Incoming int datetime incoming

section \<open>Writing\<close>

definition send_ws :: "ws_message \<Rightarrow> (session, unit, unit) eff" where
  "send_ws m = (\<lambda>s. let s' = s\<lparr>ws_writes := Suc (ws_writes s)\<rparr> in
     if ws_open s (ws_writes s) then (Inr (), s'\<lparr>ws_out := ws_out s @ [m]\<rparr>) else (Inl (), s'))"

definition send_frame :: "server_frame \<Rightarrow> (session, unit, unit) eff" where
  "send_frame f = send_ws (Frame f)"

definition protocol_error :: "uuid option \<Rightarrow> string \<Rightarrow> session \<Rightarrow> server_frame \<times> session" where
  "protocol_error request_id key s =
     (SfError request_id
        \<lparr>ae_code = (if key = ''protocol_mismatch'' then ProtocolMismatch else ValidationError),
         ae_message_key = lit ''error.'' @ lit key, ae_field = None,
         ae_correlation_id = ws_fresh s (ws_drawn s), ae_retryable = False\<rparr>,
      s\<lparr>ws_drawn := Suc (ws_drawn s)\<rparr>)"

text \<open>\<open>m.map_err(|_| protocol_error(request_id, key))\<close>, and a call of the service.\<close>

definition or_frame :: "uuid option \<Rightarrow> string \<Rightarrow> (session, 'e, 'a) eff \<Rightarrow> (session, server_frame, 'a) eff" where
  "or_frame request_id key m = (\<lambda>s. case m s of
     (Inr x, s') \<Rightarrow> (Inr x, s')
   | (Inl _, s') \<Rightarrow> (case protocol_error request_id key s' of (f, s'') \<Rightarrow> (Inl f, s'')))"

definition in_service :: "'a svc \<Rightarrow> (session, application_error, 'a) eff" where
  "in_service m = (\<lambda>s. case m (ws_service s) of (r, sv) \<Rightarrow> (r, s\<lparr>ws_service := sv\<rparr>))"

section \<open>Frames of the client\<close>

fun handle_frame :: "client_frame option \<Rightarrow> user_id \<Rightarrow> datetime \<Rightarrow> (session, server_frame, unit) eff" where
  "handle_frame None user now = or_frame None ''invalid_frame'' (throw ())"
| "handle_frame (Some (CfHello version client_version token last_cursor)) user now =
     (if version \<noteq> WS_PROTOCOL_VERSION then or_frame None ''protocol_mismatch'' (throw ()) else ret ())"
| "handle_frame (Some (CfTyping cid active)) user now =
     or_frame None ''typing_forbidden'' (in_service (publish_typing user cid active now))"
| "handle_frame (Some (CfCallSignal cid call_id target signal)) user now =
     or_frame None ''call_signal_forbidden''
       (in_service (publish_call_signal user cid call_id target signal now))"
| "handle_frame (Some (CfPing nonce)) user now =
     or_frame None ''connection_closed'' (send_frame (SfPong nonce))"
| "handle_frame (Some (CfSendMessage request_id cid message)) user now =
     bnd (or_frame (Some request_id) ''send_failed'' (in_service (send_message_request user cid message now)))
       (\<lambda>(_, ack). or_frame (Some request_id) ''connection_closed'' (send_frame (SfAck request_id ack)))"
| "handle_frame (Some (CfMarkRead request_id cid through)) user now =
     or_frame (Some request_id) ''mark_read_failed'' (in_service (mark_read user cid through now))"

section \<open>One turn of the loop\<close>

text \<open>The result says whether the loop goes on.\<close>

definition heartbeat_tick :: "int \<Rightarrow> (session, unit, unit) eff" where
  "heartbeat_tick now = (\<lambda>s.
     if now - ws_active s > 75000
     then (Inl (), snd (send_ws (CloseFrame (lit ''heartbeat timeout'')) s))
     else send_ws PingFrame s)"

definition went_on :: "(unit + unit) \<times> session \<Rightarrow> bool \<times> session" where
  "went_on r = (case r of (Inl _, s) \<Rightarrow> (False, s) | (Inr _, s) \<Rightarrow> (True, s))"

definition forward ::
  "bool \<Rightarrow> server_frame \<Rightarrow> session \<Rightarrow> bool \<times> session" where
  "forward mine f s = (if mine then went_on (send_frame f s) else (True, s))"

fun serve_turn :: "user_id \<Rightarrow> turn \<Rightarrow> session \<Rightarrow> bool \<times> session" where
  "serve_turn user (Heartbeat now) s = went_on (heartbeat_tick now s)"
| "serve_turn user (Event_turn (Received (recipients, event))) s =
     forward (user \<in> recipients) (SfEvent event) s"
| "serve_turn user (Event_turn Lagged) s = (True, s)"
| "serve_turn user (Event_turn Closed) s = (False, s)"
| "serve_turn user (Typing_turn (Received (recipients, signal))) s =
     forward (user \<in> set recipients)
       (SfTyping (ts_conversation_id signal) (ts_user_id signal) (ts_active signal) (ts_expires_at signal)) s"
| "serve_turn user (Typing_turn Lagged) s = (True, s)"
| "serve_turn user (Typing_turn Closed) s = (False, s)"
| "serve_turn user (Call_turn (Received (recipients, delivery))) s =
     forward (user \<in> set recipients)
       (SfCallSignal (cd_conversation_id delivery) (cd_call_id delivery) (cd_from_user_id delivery)
         (cd_signal delivery)) s"
| "serve_turn user (Call_turn Lagged) s = (True, s)"
| "serve_turn user (Call_turn Closed) s = (False, s)"
| "serve_turn user (Incoming instant now (Text_frame frame)) s =
     (case handle_frame frame user now (s\<lparr>ws_active := instant\<rparr>) of
        (Inr _, s') \<Rightarrow> (True, s')
      | (Inl error, s') \<Rightarrow> went_on (send_frame error s'))"
| "serve_turn user (Incoming instant now Ping_or_pong) s = (True, s\<lparr>ws_active := instant\<rparr>)"
| "serve_turn user (Incoming instant now Close_or_error) s = (False, s)"
| "serve_turn user (Incoming instant now Binary_frame) s =
     (case protocol_error None ''binary_not_supported'' s of
        (error, s') \<Rightarrow> (True, snd (send_frame error s')))"
| "serve_turn user (Incoming instant now Stream_end) s = (False, s)"

section \<open>The connection\<close>

definition send_welcome :: "user_id \<Rightarrow> datetime \<Rightarrow> (session, unit, unit) eff" where
  "send_welcome user server_time = (\<lambda>s.
     send_frame (SfWelcome WS_PROTOCOL_VERSION user server_time (latest_cursor (svc_txn (ws_service s)))) s)"

fun serve_loop :: "user_id \<Rightarrow> turn list \<Rightarrow> session \<Rightarrow> bool \<times> session" where
  "serve_loop user [] s = (True, s)"
| "serve_loop user (t # ts) s =
     (case serve_turn user t s of (True, s') \<Rightarrow> serve_loop user ts s' | (False, s') \<Rightarrow> (False, s'))"

text \<open>\<open>serve\<close> with the turns its loop takes: a connection whose loop has not ended yet is left open.\<close>

definition serve :: "user_id \<Rightarrow> datetime \<Rightarrow> int \<Rightarrow> datetime \<Rightarrow> turn list \<Rightarrow> session \<Rightarrow> session" where
  "serve user opened_at instant closed_at turns s =
     (case in_service (connection_opened user opened_at) s of
        (Inl _, s) \<Rightarrow> s
      | (Inr _, s) \<Rightarrow>
          let close = (\<lambda>s. snd (in_service (connection_closed user closed_at) s)) in
          (case send_welcome user opened_at s of
             (Inl _, s) \<Rightarrow> close s
           | (Inr _, s) \<Rightarrow>
               (case serve_loop user turns (s\<lparr>ws_active := instant\<rparr>) of
                  (True, s) \<Rightarrow> s
                | (False, s) \<Rightarrow> close s)))"

section \<open>What a turn does\<close>

text \<open>The events among the messages written to the socket.\<close>

fun event_of :: "ws_message \<Rightarrow> event list" where
  "event_of (Frame (SfEvent e)) = [e]"
| "event_of _ = []"

definition events_in :: "ws_message list \<Rightarrow> event list" where
  "events_in ms = concat (map event_of ms)"

lemma events_in_simps [simp]:
  "events_in [] = []" "events_in (m # ms) = event_of m @ events_in ms"
  "events_in (ms @ ms') = events_in ms @ events_in ms'"
  by (simp_all add: events_in_def)

text \<open>\<open>adds evs s s'\<close>: the service has run on, and what was written appends messages whose events are \<open>evs\<close>.\<close>

definition adds :: "unicode \<Rightarrow> crypto \<Rightarrow> event list \<Rightarrow> session \<Rightarrow> session \<Rightarrow> bool" where
  "adds U C evs s s' \<longleftrightarrow> service_run U C (ws_service s) (ws_service s')
     \<and> (\<exists>new. ws_out s' = ws_out s @ new \<and> events_in new = evs)"

lemma service_run_trans: "service_run U C b c \<Longrightarrow> service_run U C a b \<Longrightarrow> service_run U C a c"
  by (induction rule: service_run.induct) (auto intro: Run_step)

lemma adds_trans: "adds U C xs a b \<Longrightarrow> adds U C ys b c \<Longrightarrow> adds U C (xs @ ys) a c"
  by (auto simp: adds_def intro: service_run_trans)

lemma adds_refl [intro]: "ws_service s' = ws_service s \<Longrightarrow> ws_out s' = ws_out s \<Longrightarrow> adds U C [] s s'"
  by (simp add: adds_def Run_refl)

lemma adds_send: "send_ws m s = (r, s') \<Longrightarrow> adds U C (case r of Inl _ \<Rightarrow> [] | Inr _ \<Rightarrow> event_of m) s s'"
  by (auto simp: send_ws_def adds_def Let_def Run_refl split: if_splits)

lemma adds_error: "protocol_error rid key s = (f, s') \<Longrightarrow> adds U C [] s s' \<and> event_of (Frame f) = []"
  by (auto simp: protocol_error_def)

text \<open>Operations that write no event and whose error frames are none.\<close>

definition eventless :: "unicode \<Rightarrow> crypto \<Rightarrow> (session, server_frame, 'a) eff \<Rightarrow> bool" where
  "eventless U C m \<longleftrightarrow> (\<forall>s r s'. m s = (r, s') \<longrightarrow>
     adds U C [] s s' \<and> (case r of Inl f \<Rightarrow> event_of (Frame f) = [] | Inr _ \<Rightarrow> True))"

lemma eventless_or_frame:
  assumes "\<And>s r s'. m s = (r, s') \<Longrightarrow> adds U C [] s s'"
  shows "eventless U C (or_frame rid key m)"
  unfolding eventless_def
proof (intro allI impI)
  fix s r s' assume run: "or_frame rid key m s = (r, s')"
  obtain q t where m: "m s = (q, t)" by (cases "m s")
  obtain f u where "protocol_error rid key t = (f, u)" by (cases "protocol_error rid key t")
  with m run adds_error [OF this, of U C] assms [OF m] adds_trans [of U C "[]" s t "[]" u]
  show "adds U C [] s s' \<and> (case r of Inl f \<Rightarrow> event_of (Frame f) = [] | Inr _ \<Rightarrow> True)"
    by (cases q) (auto simp: or_frame_def)
qed

lemma eventless_service:
  assumes "\<And>sv r sv'. m sv = (r, sv') \<Longrightarrow> service_step U C sv (outcome r) sv'"
  shows "eventless U C (or_frame rid key (in_service m))"
proof (rule eventless_or_frame)
  fix s r s' assume "in_service m s = (r, s')"
  then obtain sv' where "m (ws_service s) = (r, sv')" "s' = s\<lparr>ws_service := sv'\<rparr>"
    by (auto simp: in_service_def split: prod.splits)
  with Run_step [OF Run_refl assms] show "adds U C [] s s'" by (auto simp: adds_def)
qed

lemma eventless_send: "event_of (Frame f) = [] \<Longrightarrow> eventless U C (or_frame rid key (send_frame f))"
  by (rule eventless_or_frame) (auto simp: send_frame_def dest: adds_send [of _ _ _ _ U C] split: sum.splits)

lemma eventless_throw: "eventless U C (or_frame rid key (throw ()))"
  by (rule eventless_or_frame) auto

lemma eventless_ret: "eventless U C (ret x)"
  by (auto simp: eventless_def)

lemma eventless_bnd:
  assumes m: "eventless U C m" and f: "\<And>x. eventless U C (f x)"
  shows "eventless U C (bnd m f)"
  unfolding eventless_def
proof (intro allI impI)
  fix s r s' assume run: "bnd m f s = (r, s')"
  obtain q t where q: "m s = (q, t)" by (cases "m s")
  with m have t: "adds U C [] s t \<and> (case q of Inl f \<Rightarrow> event_of (Frame f) = [] | Inr _ \<Rightarrow> True)"
    unfolding eventless_def by blast
  show "adds U C [] s s' \<and> (case r of Inl f \<Rightarrow> event_of (Frame f) = [] | Inr _ \<Rightarrow> True)"
  proof (cases q)
    case (Inl e)
    with q run t show ?thesis by (auto simp: run_bnd)
  next
    case (Inr x)
    with q run have "f x t = (r, s')" by (simp add: run_bnd)
    with f [of x] have "adds U C [] t s' \<and> (case r of Inl f \<Rightarrow> event_of (Frame f) = [] | Inr _ \<Rightarrow> True)"
      unfolding eventless_def by blast
    with t adds_trans [of U C "[]" s t "[]" s'] show ?thesis by simp
  qed
qed

lemma handle_frame_eventless: "eventless U C (handle_frame frame user now)"
proof (cases "(frame, user, now)" rule: handle_frame.cases)
  case (6 rid cid message u t)
  then show ?thesis
    by (auto intro!: eventless_bnd eventless_service eventless_send SendMessageRequest simp: case_prod_unfold)
qed (auto intro!: eventless_service eventless_send eventless_throw eventless_ret
    dest: PublishTyping PublishCallSignal MarkRead)

text \<open>A turn hands on exactly the event it received for this user, and nothing else that is an event.\<close>

fun turn_events :: "user_id \<Rightarrow> turn \<Rightarrow> event list" where
  "turn_events user (Event_turn (Received (recipients, event))) = (if user \<in> recipients then [event] else [])"
| "turn_events user _ = []"

lemma adds_forward:
  assumes "forward mine f s = (True, s')"
  shows "adds U C (if mine then event_of (Frame f) else []) s s'"
  using assms by (auto simp: forward_def went_on_def send_frame_def dest: adds_send [of _ _ _ _ U C]
      split: if_splits prod.splits sum.splits)

lemma serve_turn_adds:
  assumes "serve_turn user t s = (True, s')"
  shows "adds U C (turn_events user t) s s'"
proof (cases "(user, t, s)" rule: serve_turn.cases)
  case (1 u now s1)
  with assms show ?thesis
    by (auto simp: went_on_def heartbeat_tick_def dest: adds_send [of _ _ _ _ U C] split: if_splits prod.splits sum.splits)
next
  case (11 u instant now frame s1)
  let ?s = "s\<lparr>ws_active := instant\<rparr>"
  obtain r s2 where run: "handle_frame frame user now ?s = (r, s2)" by (cases "handle_frame frame user now ?s")
  then have s2: "adds U C [] ?s s2 \<and> (case r of Inl f \<Rightarrow> event_of (Frame f) = [] | Inr _ \<Rightarrow> True)"
    using handle_frame_eventless [of U C frame user now] unfolding eventless_def by blast
  then have first: "adds U C [] s s2" by (simp add: adds_def)
  show ?thesis
  proof (cases r)
    case (Inr x)
    with 11 run assms first show ?thesis by auto
  next
    case (Inl f)
    with 11 run assms have "went_on (send_frame f s2) = (True, s')" by auto
    then have "send_ws (Frame f) s2 = (Inr (), s')" by (auto simp: went_on_def send_frame_def split: prod.splits sum.splits)
    from adds_send [OF this, of U C] s2 Inl have "adds U C [] s2 s'" by simp
    with adds_trans [OF first this] 11 show ?thesis by simp
  qed
next
  case (14 u instant now s1)
  obtain f s2 where f: "protocol_error None ''binary_not_supported'' s = (f, s2)"
    by (cases "protocol_error None ''binary_not_supported'' s")
  obtain r s3 where "send_ws (Frame f) s2 = (r, s3)" by (cases "send_ws (Frame f) s2")
  with adds_send [OF this, of U C] adds_error [OF f, of U C] f 14 assms adds_trans [of U C "[]" s s2 "[]" s3]
  show ?thesis by (auto simp: send_frame_def split: sum.splits)
qed (use assms in \<open>auto dest!: adds_forward [of _ _ _ _ U C] simp: adds_def Run_refl split: if_splits\<close>)

end
