(* ===== verification/Live_Client.thy ===== *)
theory Live_Client
  imports Live_Frames Sync_Log
begin

text \<open>
  The client's end of the connection (\<open>apps/desktop/src/realtime.rs\<close>): what it does with a frame of the
  server, with a tick, a command or a message of the socket, and the loop that reconnects with a growing,
  jittered delay.

  The channel to the user interface is the list of what was sent on it; \<open>rt_listening\<close> says whether its
  receiver still exists.  Answers of the HTTP interface are an argument, as in \<open>catch_up\<close>.
\<close>

section \<open>State\<close>

datatype connection_state = Connecting | Syncing | Connected | Disconnected | Sync_failed

datatype live_error =
    Request_error | Client_gone | Version_mismatch | Heartbeat_timeout | Write_failed | Read_failed
  | Invalid_response | Unsupported_frame | Connect_failed

datatype error_text = Server_key rstr | Server_reason rstr | Local live_error

datatype realtime_event =
    RtState connection_state
  | RtSync event
  | RtTyping conversation_id user_id bool
  | RtCall conversation_id uuid user_id call_signal
  | RtError error_text

datatype realtime_command =
    RcTyping conversation_id bool
  | RcCall conversation_id uuid "user_id option" call_signal
  | RcStop

datatype disconnect = Stopped | Reconnect

record client =
  rt_cursor :: u64
  rt_sent :: "realtime_event list"
  rt_listening :: bool
  rt_last_pong :: int

definition emit :: "realtime_event \<Rightarrow> client \<Rightarrow> client" where
  "emit e cl = (if rt_listening cl then cl\<lparr>rt_sent := rt_sent cl @ [e]\<rparr> else cl)"

definition emit_state :: "connection_state \<Rightarrow> client \<Rightarrow> client" where
  "emit_state st = emit (RtState st)"

section \<open>Frames of the server\<close>

text \<open>\<open>catch_up\<close> sends every event as it comes; \<open>None\<close> is a catch-up that never ends.\<close>

definition catch_up_client ::
  "(nat \<Rightarrow> u64 \<Rightarrow> nat \<Rightarrow> sync_response option) \<Rightarrow> client \<Rightarrow> ((live_error + u64) \<times> client) option" where
  "catch_up_client api cl =
     map_option (\<lambda>(r, events).
         (map_err (\<lambda>e. case e of Request_failed \<Rightarrow> Request_error | Client_stopped \<Rightarrow> Client_gone) r,
          cl\<lparr>rt_sent := rt_sent cl @ map RtSync events\<rparr>))
       (catch_up api (rt_listening cl) 0 (rt_cursor cl) [])"

fun handle_server_frame ::
  "(nat \<Rightarrow> u64 \<Rightarrow> nat \<Rightarrow> sync_response option) \<Rightarrow> int \<Rightarrow> server_frame \<Rightarrow> client
     \<Rightarrow> ((live_error + disconnect option) \<times> client) option" where
  "handle_server_frame api now (SfWelcome protocol_version user server_time latest) cl =
     (if protocol_version \<noteq> WS_PROTOCOL_VERSION
      then Some (Inl Version_mismatch, emit_state Sync_failed cl)
      else if latest > rt_cursor cl then
        (case catch_up_client api (emit_state Syncing cl) of
           None \<Rightarrow> None
         | Some (Inl e, cl') \<Rightarrow> Some (Inl e, cl')
         | Some (Inr cursor, cl') \<Rightarrow> Some (Inr None, emit_state Connected (cl'\<lparr>rt_cursor := cursor\<rparr>)))
      else Some (Inr None, emit_state Connected cl))"
| "handle_server_frame api now (SfPong nonce) cl = Some (Inr None, cl\<lparr>rt_last_pong := now\<rparr>)"
| "handle_server_frame api now (SfEvent event) cl =
     (if ev_cursor event > rt_cursor cl
      then let cl' = cl\<lparr>rt_cursor := ev_cursor event\<rparr>
           in if rt_listening cl then Some (Inr None, emit (RtSync event) cl')
              else Some (Inr (Some Stopped), cl')
      else Some (Inr None, cl))"
| "handle_server_frame api now (SfTyping cid user active expires_at) cl =
     Some (Inr None, emit (RtTyping cid user active) cl)"
| "handle_server_frame api now (SfCallSignal cid call_id from signal) cl =
     Some (Inr None, emit (RtCall cid call_id from signal) cl)"
| "handle_server_frame api now (SfError request_id error) cl =
     Some (Inr None, emit (RtError (Server_key (ae_message_key error))) cl)"
| "handle_server_frame api now (SfClose code reason) cl =
     Some (Inr (Some Reconnect), emit (RtError (Server_reason reason)) cl)"
| "handle_server_frame api now (SfAck request_id ack) cl = Some (Inr None, cl)"

section \<open>One turn of a connection\<close>

text \<open>\<open>None\<close> in \<open>From_user\<close> is a command channel whose senders are gone; \<open>None\<close> in \<open>From_server\<close> is the end of the
  stream.  \<open>written\<close> says whether the write of this turn, if it makes one, succeeds.\<close>

datatype socket_message = Text_message "server_frame option" | Ping_message | Pong_message | Close_message
  | Other_message

datatype client_turn =
    Tick
  | From_user "realtime_command option"
  | From_server "(unit + socket_message) option"

datatype client_output = Out_frame client_frame | Out_pong | Out_close

record connection =
  cx_client :: client
  cx_online :: bool
  cx_out :: "client_output list"

type_synonym connection_result = "(live_error + disconnect) option \<times> connection"

definition write_out :: "bool \<Rightarrow> client_output \<Rightarrow> connection \<Rightarrow> connection_result" where
  "write_out written m cx =
     (if written then (None, cx\<lparr>cx_out := cx_out cx @ [m]\<rparr>) else (Some (Inl Write_failed), cx))"

definition is_welcome :: "server_frame \<Rightarrow> bool" where
  "is_welcome f \<longleftrightarrow> (case f of SfWelcome _ _ _ _ \<Rightarrow> True | _ \<Rightarrow> False)"

fun connection_turn ::
  "(nat \<Rightarrow> u64 \<Rightarrow> nat \<Rightarrow> sync_response option) \<Rightarrow> (uuid \<times> int \<times> bool) \<Rightarrow> client_turn
     \<Rightarrow> connection \<Rightarrow> connection_result option" where
  "connection_turn api (nonce, now, written) Tick cx =
     Some (if now - rt_last_pong (cx_client cx) > 45000 then (Some (Inl Heartbeat_timeout), cx)
           else write_out written (Out_frame (CfPing nonce)) cx)"
| "connection_turn api (nonce, now, written) (From_user None) cx = Some (Some (Inr Stopped), cx)"
| "connection_turn api (nonce, now, written) (From_user (Some (RcTyping cid active))) cx =
     Some (write_out written (Out_frame (CfTyping cid active)) cx)"
| "connection_turn api (nonce, now, written) (From_user (Some (RcCall cid call_id target signal))) cx =
     Some (write_out written (Out_frame (CfCallSignal cid call_id target signal)) cx)"
| "connection_turn api (nonce, now, written) (From_user (Some RcStop)) cx =
     Some (Some (Inr Stopped), snd (write_out written Out_close cx))"
| "connection_turn api (nonce, now, written) (From_server None) cx = Some (Some (Inr Reconnect), cx)"
| "connection_turn api (nonce, now, written) (From_server (Some (Inl _))) cx =
     Some (Some (Inl Read_failed), cx)"
| "connection_turn api (nonce, now, written) (From_server (Some (Inr (Text_message None)))) cx =
     Some (Some (Inl Invalid_response), cx)"
| "connection_turn api (nonce, now, written) (From_server (Some (Inr (Text_message (Some frame))))) cx =
     map_option (\<lambda>(r, cl). case r of
         Inl e \<Rightarrow> (Some (Inl e), cx\<lparr>cx_client := cl\<rparr>)
       | Inr (Some d) \<Rightarrow> (Some (Inr d), cx\<lparr>cx_client := cl\<rparr>)
       | Inr None \<Rightarrow> (None, cx\<lparr>cx_client := cl, cx_online := (is_welcome frame \<or> cx_online cx)\<rparr>))
       (handle_server_frame api now frame (cx_client cx))"
| "connection_turn api (nonce, now, written) (From_server (Some (Inr Ping_message))) cx =
     Some (write_out written Out_pong cx)"
| "connection_turn api (nonce, now, written) (From_server (Some (Inr Pong_message))) cx =
     Some (None, cx\<lparr>cx_client := (cx_client cx)\<lparr>rt_last_pong := now\<rparr>\<rparr>)"
| "connection_turn api (nonce, now, written) (From_server (Some (Inr Close_message))) cx =
     Some (Some (Inr Reconnect), cx)"
| "connection_turn api (nonce, now, written) (From_server (Some (Inr Other_message))) cx =
     Some (Some (Inl Unsupported_frame), cx)"

section \<open>Reconnecting\<close>

text \<open>\<open>pick low high\<close> is the random draw.\<close>

definition reconnect_base :: "nat \<Rightarrow> nat" where
  "reconnect_base retry = min 30000 (800 * 2 ^ min retry 6)"

definition reconnect_delay :: "(nat \<Rightarrow> nat \<Rightarrow> nat) \<Rightarrow> nat \<Rightarrow> nat" where
  "reconnect_delay pick retry =
     (let base = reconnect_base retry; low = base * 3 div 4; high = base * 5 div 4 in pick low high)"

text \<open>What the loop does when a connection has ended: it returns (\<open>None\<close>), or it waits for the delay, with
  the number of failures in a row.\<close>

definition after_connection ::
  "(nat \<Rightarrow> nat \<Rightarrow> nat) \<Rightarrow> live_error + disconnect \<Rightarrow> bool \<Rightarrow> u32 \<Rightarrow> client
     \<Rightarrow> (nat \<times> u32) option \<times> client" where
  "after_connection pick result online retry cl =
     (let go_on = (\<lambda>cl. let retry = (if online then 0 else retry)
                        in (Some (reconnect_delay pick (unat retry), sat_add retry 1),
                            emit_state Disconnected cl))
      in case result of
           Inr Stopped \<Rightarrow> (None, cl)
         | Inr Reconnect \<Rightarrow> go_on cl
         | Inl e \<Rightarrow> let cl = emit (RtError (Local e)) cl
                     in if e = Version_mismatch then (None, emit_state Sync_failed cl) else go_on cl)"

text \<open>While it waits: the time passes, or a command arrives; a stop, or the end of the commands, ends the
  loop, and any other command is swallowed and cuts the wait short.\<close>

definition after_wait :: "realtime_command option option \<Rightarrow> bool" where
  "after_wait woken = (case woken of None \<Rightarrow> True | Some None \<Rightarrow> False | Some (Some c) \<Rightarrow> c \<noteq> RcStop)"

text \<open>A run of the loop: what each connection does to the client, and what ends each wait.\<close>

fun run_live ::
  "(nat \<Rightarrow> nat \<Rightarrow> nat) \<Rightarrow> ((client \<Rightarrow> (live_error + disconnect) \<times> bool \<times> client) \<times>
      realtime_command option option) list \<Rightarrow> u32 \<Rightarrow> client \<Rightarrow> nat list \<times> client" where
  "run_live pick [] retry cl = ([], cl)"
| "run_live pick ((connect_once, woken) # rounds) retry cl =
     (case connect_once (emit_state Connecting cl) of (result, online, cl) \<Rightarrow>
        (case after_connection pick result online retry cl of
           (None, cl) \<Rightarrow> ([], cl)
         | (Some (delay, retry), cl) \<Rightarrow>
             if after_wait woken
             then (case run_live pick rounds retry cl of (delays, cl) \<Rightarrow> (delay # delays, cl))
             else ([delay], cl)))"

section \<open>Facts\<close>

text \<open>The synchronised events among what was sent to the user interface.\<close>

fun sync_of :: "realtime_event \<Rightarrow> event list" where
  "sync_of (RtSync e) = [e]"
| "sync_of _ = []"

definition synced :: "client \<Rightarrow> event list" where
  "synced cl = concat (map sync_of (rt_sent cl))"

lemma synced_emit [simp]:
  "synced (emit e cl) = synced cl @ (if rt_listening cl then sync_of e else [])"
  "synced (cl\<lparr>rt_cursor := c\<rparr>) = synced cl"
  "synced (cl\<lparr>rt_last_pong := t\<rparr>) = synced cl"
  "synced (cl\<lparr>rt_sent := rt_sent cl @ map RtSync es\<rparr>) = synced cl @ es"
  by (simp_all add: synced_def emit_def o_def)

lemma client_fields [simp]:
  "rt_cursor (emit e cl) = rt_cursor cl" "rt_listening (emit e cl) = rt_listening cl"
  "rt_cursor (emit_state st cl) = rt_cursor cl" "rt_listening (emit_state st cl) = rt_listening cl"
  "synced (emit_state st cl) = synced cl"
  by (simp_all add: emit_def emit_state_def synced_def)

lemma reconnect_base_bounds: "800 \<le> reconnect_base n" "reconnect_base n \<le> 30000"
proof -
  have "(1::nat) \<le> 2 ^ min n 6" by simp
  then have "(800::nat) \<le> 800 * 2 ^ min n 6" by linarith
  then show "800 \<le> reconnect_base n" by (simp add: reconnect_base_def)
qed (simp add: reconnect_base_def)

lemma reconnect_delay_bounds:
  assumes "\<And>low high. low \<le> high \<Longrightarrow> low \<le> pick low high \<and> pick low high \<le> high"
  shows "600 \<le> reconnect_delay pick n \<and> reconnect_delay pick n \<le> 37500"
proof -
  let ?b = "reconnect_base n"
  have "?b * 3 div 4 \<le> pick (?b * 3 div 4) (?b * 5 div 4) \<and> pick (?b * 3 div 4) (?b * 5 div 4) \<le> ?b * 5 div 4"
    by (intro assms div_le_mono) simp
  with reconnect_base_bounds [of n] show ?thesis unfolding reconnect_delay_def Let_def by linarith
qed

end
