(* ===== verification/Live_Delivery.thy ===== *)
theory Live_Delivery
  imports Live_Server Live_Client
begin

text \<open>
  The two ends of a live connection together with the service: a client that connects, is greeted, catches
  up, receives events while the service goes on, loses the connection and connects again.

  \<open>lv_next\<close> is the position of the server's event receiver in what was broadcast, \<open>lv_received\<close> how many
  of the messages written to the socket the client has read: the socket keeps order and loses nothing
  until the connection is dropped.  \<open>lags\<close> says whether a receiver may lag (\<open>RecvError::Lagged\<close>, when a
  connection falls 512 events behind); \<open>fails\<close> whether requests of the catch-up may fail.
\<close>

record live =
  lv_session :: session
  lv_up :: bool
  lv_greeted :: bool
  lv_next :: nat
  lv_received :: nat
  lv_client :: client

abbreviation lv_service :: "live \<Rightarrow> service" where
  "lv_service L \<equiv> ws_service (lv_session L)"

definition answers :: "bool \<Rightarrow> (nat \<Rightarrow> service) \<Rightarrow> user_id \<Rightarrow> (nat \<Rightarrow> u64 \<Rightarrow> nat \<Rightarrow> sync_response option) \<Rightarrow> bool" where
  "answers fails srv actor api \<longleftrightarrow> (\<forall>i c n. api i c n = Some (sync (svc_txn (srv i)) actor c n)
     \<or> fails \<and> api i c n = None)"

inductive live_step :: "unicode \<Rightarrow> crypto \<Rightarrow> user_id \<Rightarrow> bool \<Rightarrow> bool \<Rightarrow> live \<Rightarrow> live \<Rightarrow> bool"
  for U C actor lags fails where
  Activity: "service_step U C (lv_service L) l sv' \<Longrightarrow>
    live_step U C actor lags fails L (L\<lparr>lv_session := (lv_session L)\<lparr>ws_service := sv'\<rparr>\<rparr>)"
| Subscribe: "\<not> lv_up L \<Longrightarrow>
    live_step U C actor lags fails L (L\<lparr>lv_up := True, lv_greeted := False,
      lv_next := length (svc_events (lv_service L)), lv_received := 0,
      lv_session := (lv_session L)\<lparr>ws_out := [], ws_writes := 0\<rparr>\<rparr>)"
| Greet: "lv_up L \<Longrightarrow> \<not> lv_greeted L \<Longrightarrow> send_welcome actor t (lv_session L) = (Inr (), s) \<Longrightarrow>
    live_step U C actor lags fails L (L\<lparr>lv_greeted := True, lv_session := s\<rparr>)"
| Broadcast: "lv_up L \<Longrightarrow> lv_greeted L \<Longrightarrow> lv_next L < length (svc_events (lv_service L)) \<Longrightarrow>
    serve_turn actor (Event_turn (Received (svc_events (lv_service L) ! lv_next L))) (lv_session L) = (True, s) \<Longrightarrow>
    live_step U C actor lags fails L (L\<lparr>lv_session := s, lv_next := Suc (lv_next L)\<rparr>)"
| Lag: "lags \<Longrightarrow> lv_up L \<Longrightarrow> lv_greeted L \<Longrightarrow> 0 < k \<Longrightarrow> lv_next L + k \<le> length (svc_events (lv_service L)) \<Longrightarrow>
    serve_turn actor (Event_turn Lagged) (lv_session L) = (True, s) \<Longrightarrow>
    live_step U C actor lags fails L (L\<lparr>lv_session := s, lv_next := lv_next L + k\<rparr>)"
| Turn: "lv_up L \<Longrightarrow> lv_greeted L \<Longrightarrow> \<not> (\<exists>x. t = Event_turn x) \<Longrightarrow>
    serve_turn actor t (lv_session L) = (True, s) \<Longrightarrow>
    live_step U C actor lags fails L (L\<lparr>lv_session := s\<rparr>)"
| Frame_read: "lv_up L \<Longrightarrow> lv_received L < length (ws_out (lv_session L)) \<Longrightarrow>
    ws_out (lv_session L) ! lv_received L = Frame f \<Longrightarrow> srv 0 = lv_service L \<Longrightarrow>
    (\<And>i. service_run U C (srv i) (srv (Suc i))) \<Longrightarrow> (\<And>i. service_run U C (srv i) sv') \<Longrightarrow>
    answers fails srv actor api \<Longrightarrow>
    handle_server_frame api now f (lv_client L) = Some (r, cl) \<Longrightarrow>
    live_step U C actor lags fails L (L\<lparr>lv_session := (lv_session L)\<lparr>ws_service := sv'\<rparr>,
      lv_received := Suc (lv_received L), lv_client := cl, lv_up := (r = Inr None)\<rparr>)"
| Ping_read: "lv_up L \<Longrightarrow> lv_received L < length (ws_out (lv_session L)) \<Longrightarrow>
    ws_out (lv_session L) ! lv_received L = PingFrame \<Longrightarrow>
    live_step U C actor lags fails L (L\<lparr>lv_received := Suc (lv_received L)\<rparr>)"
| Drop: "live_step U C actor lags fails L (L\<lparr>lv_up := False\<rparr>)"

inductive live_run :: "unicode \<Rightarrow> crypto \<Rightarrow> user_id \<Rightarrow> bool \<Rightarrow> bool \<Rightarrow> live \<Rightarrow> live \<Rightarrow> bool"
  for U C actor lags fails where
  Live_refl: "live_run U C actor lags fails L L"
| Live_step: "live_run U C actor lags fails L L' \<Longrightarrow> live_step U C actor lags fails L' L''
    \<Longrightarrow> live_run U C actor lags fails L L''"

text \<open>A client that is not connected yet and has handed on nothing, with the cursor it remembers.\<close>

definition offline :: "unicode \<Rightarrow> crypto \<Rightarrow> u64 \<Rightarrow> live \<Rightarrow> bool" where
  "offline U C c0 L \<longleftrightarrow> reachable U C (lv_service L) \<and> \<not> lv_up L \<and> rt_listening (lv_client L)
     \<and> rt_cursor (lv_client L) = c0 \<and> synced (lv_client L) = []
     \<and> c0 \<le> latest_cursor (svc_txn (lv_service L))"

section \<open>The user's events\<close>

definition mine :: "user_id \<Rightarrow> user_event list \<Rightarrow> event list" where
  "mine actor us = map ue_event (filter (\<lambda>u. actor \<in> ue_recipients u) us)"

lemma mine_append [simp]: "mine actor (us @ vs) = mine actor us @ mine actor vs"
  by (simp add: mine_def)

lemma pending_mine: "pending_events s actor c = filter (\<lambda>e. c < ev_cursor e) (mine actor (st_events s))"
  by (auto simp: pending_events_def mine_def filter_map o_def intro!: arg_cong [of _ _ "map ue_event"] filter_cong)

lemma mine_sorted: "log_small s \<Longrightarrow> sorted_wrt (<) (map ev_cursor (mine actor (st_events s)))"
  using log_sorted [of s] by (simp add: log_small_def mine_def sorted_wrt_map sorted_wrt_filter)

lemma latest_bounds:
  assumes "log_small s" "e \<in> set (mine actor (st_events s))"
  shows "ev_cursor e \<le> latest_cursor s"
proof -
  let ?n = "length (st_events s)"
  have "ev_cursor e \<in> set (map (ev_cursor \<circ> ue_event) (st_events s))" using assms(2) by (auto simp: mine_def)
  then have "ev_cursor e \<in> cursor_at ` set [1..<Suc ?n]"
    using assms(1) unfolding log_small_def log_ok_iff by (metis set_map)
  then obtain i where "i \<in> set [1..<Suc ?n]" and i: "ev_cursor e = cursor_at i" by (elim imageE)
  then have "i \<le> ?n" by auto
  moreover have "?n < 2 ^ 64" using assms(1) by (simp add: log_small_def)
  ultimately have "cursor_at i \<le> cursor_at ?n" by (simp add: word_le_nat_alt unat_cursor_at)
  with i assms(1) show ?thesis by (simp add: latest_cursor_def log_small_def log_ok_iff)
qed

section \<open>The invariant\<close>

text \<open>What was handed on, against the log: exactly the user's events up to the cursor, or at least those
  when catch-ups may have failed half-way.\<close>

definition handed_on :: "bool \<Rightarrow> user_id \<Rightarrow> u64 \<Rightarrow> u64 \<Rightarrow> event list \<Rightarrow> txn \<Rightarrow> bool" where
  "handed_on fails actor c0 c es s \<longleftrightarrow> c0 \<le> c \<and> c \<le> latest_cursor s
     \<and> set es \<subseteq> set (pending_events s actor c0)
     \<and> set (filter (\<lambda>e. ev_cursor e \<le> c) (pending_events s actor c0)) \<subseteq> set es
     \<and> (\<not> fails \<longrightarrow> es = filter (\<lambda>e. ev_cursor e \<le> c) (pending_events s actor c0))"

text \<open>What is under way: the user's events up to the receiver's position end with those in the socket, and
  the ones before them are covered by the client's cursor or by the welcome it is going to read.\<close>

definition covered :: "live \<Rightarrow> event list \<Rightarrow> bool" where
  "covered L seen \<longleftrightarrow>
     (if \<not> lv_greeted L then lv_received L = 0 \<and> ws_out (lv_session L) = []
      else if lv_received L = 0
      then \<exists>v u t latest rest. ws_out (lv_session L) = Frame (SfWelcome v u t latest) # rest
             \<and> (\<forall>e\<in>set seen. ev_cursor e \<le> latest)
      else \<forall>e\<in>set seen. ev_cursor e \<le> rt_cursor (lv_client L))"

definition under_way :: "user_id \<Rightarrow> nat \<Rightarrow> live \<Rightarrow> bool" where
  "under_way actor base L \<longleftrightarrow>
     base + lv_next L \<le> length (st_events (svc_txn (lv_service L)))
     \<and> lv_received L \<le> length (ws_out (lv_session L))
     \<and> (\<exists>seen. mine actor (take (base + lv_next L) (st_events (svc_txn (lv_service L))))
            = seen @ events_in (drop (lv_received L) (ws_out (lv_session L))) \<and> covered L seen)"

definition live_ok :: "unicode \<Rightarrow> crypto \<Rightarrow> user_id \<Rightarrow> bool \<Rightarrow> u64 \<Rightarrow> nat \<Rightarrow> live \<Rightarrow> bool" where
  "live_ok U C actor fails c0 base L \<longleftrightarrow>
     reachable U C (lv_service L) \<and> steady base (lv_service L) \<and> rt_listening (lv_client L)
     \<and> handed_on fails actor c0 (rt_cursor (lv_client L)) (synced (lv_client L)) (svc_txn (lv_service L))
     \<and> (lv_up L \<longrightarrow> under_way actor base L)"

section \<open>The service goes on\<close>

lemma log_small_reachable:
  "reachable U C sv \<Longrightarrow> length (st_events (svc_txn sv)) < 2 ^ 64 \<Longrightarrow> log_small (svc_txn sv)"
  by (simp add: log_small_def reachable_ok(2))

lemma run_log:
  assumes "service_run U C sv sv'"
  obtains new where "st_events (svc_txn sv') = st_events (svc_txn sv) @ new"
  using service_run_progress [OF assms] unfolding svc_progress_def progress_def by blast

lemma new_above:
  assumes "log_small s'" "log_ok s" "st_events s' = st_events s @ new" "u \<in> set new"
  shows "latest_cursor s < ev_cursor (ue_event u)"
proof -
  let ?n = "length (st_events s)" and ?m = "length new"
  have "map (ev_cursor \<circ> ue_event) (st_events s @ new) = map cursor_at [1..<Suc (?n + ?m)]"
    using assms(1,3) unfolding log_small_def log_ok_iff by (metis length_append)
  then have "drop ?n (map (ev_cursor \<circ> ue_event) (st_events s @ new)) = drop ?n (map cursor_at [1..<Suc (?n + ?m)])"
    by (rule arg_cong)
  then have "map (ev_cursor \<circ> ue_event) new = map cursor_at [Suc ?n..<Suc (?n + ?m)]"
    by (simp add: drop_map del: upt_Suc)
  moreover have "ev_cursor (ue_event u) \<in> set (map (ev_cursor \<circ> ue_event) new)" using assms(4) by auto
  ultimately have "ev_cursor (ue_event u) \<in> cursor_at ` set [Suc ?n..<Suc (?n + ?m)]" by (metis set_map)
  then obtain i where "i \<in> set [Suc ?n..<Suc (?n + ?m)]" and i: "ev_cursor (ue_event u) = cursor_at i"
    by (elim imageE)
  then have "?n < i" "i < 2 ^ 64" using assms(1,3) by (auto simp: log_small_def)
  then have "cursor_at ?n < cursor_at i" by (simp add: word_less_nat_alt unat_cursor_at)
  with i assms(2) show ?thesis by (simp add: latest_cursor_def log_ok_iff)
qed

lemma latest_mono:
  assumes "log_ok s" "log_small s'" "st_events s' = st_events s @ new"
  shows "latest_cursor s \<le> latest_cursor s'"
proof -
  have "length (st_events s) \<le> length (st_events s')" "length (st_events s') < 2 ^ 64"
    using assms(2,3) by (simp_all add: log_small_def)
  then have "cursor_at (length (st_events s)) \<le> cursor_at (length (st_events s'))"
    by (simp add: word_le_nat_alt unat_cursor_at)
  with assms(1,2) show ?thesis by (simp add: latest_cursor_def log_small_def log_ok_iff)
qed

lemma handed_on_later:
  assumes h: "handed_on fails actor c0 c es s" and s: "log_ok s" "log_small s'"
    and new: "st_events s' = st_events s @ new"
  shows "handed_on fails actor c0 c es s'"
proof -
  note above = new_above [OF s(2,1) new]
  from h have c: "c \<le> latest_cursor s" by (simp add: handed_on_def)
  have "\<not> ev_cursor e \<le> c" if "e \<in> set (mine actor new)" for e
    using that above c by (fastforce simp: mine_def)
  then have "filter (\<lambda>e. ev_cursor e \<le> c) (pending_events s' actor c0)
      = filter (\<lambda>e. ev_cursor e \<le> c) (pending_events s actor c0)"
    by (auto simp: pending_mine new filter_empty_conv)
  moreover have "set (pending_events s actor c0) \<subseteq> set (pending_events s' actor c0)"
    by (auto simp: pending_mine new)
  ultimately show ?thesis
    using h order_trans [OF c latest_mono [OF s new]] unfolding handed_on_def by auto
qed

text \<open>A step of the service alone keeps the invariant.\<close>

lemma covered_service [simp]:
  "covered (L\<lparr>lv_session := (lv_session L)\<lparr>ws_service := sv'\<rparr>\<rparr>) = covered L"
  by (simp add: covered_def fun_eq_iff)

lemma under_way_later:
  assumes u: "under_way actor base L" and new: "st_events (svc_txn sv') = st_events (svc_txn (lv_service L)) @ new"
  shows "under_way actor base (L\<lparr>lv_session := (lv_session L)\<lparr>ws_service := sv'\<rparr>\<rparr>)"
  using u by (simp add: under_way_def new)

lemma live_ok_later:
  assumes L: "live_ok U C actor fails c0 base L" and run: "service_run U C (lv_service L) sv'"
    and small: "length (st_events (svc_txn sv')) < 2 ^ 64"
  shows "live_ok U C actor fails c0 base (L\<lparr>lv_session := (lv_session L)\<lparr>ws_service := sv'\<rparr>\<rparr>)"
proof -
  obtain new where new: "st_events (svc_txn sv') = st_events (svc_txn (lv_service L)) @ new"
    using run_log [OF run] .
  from L have sv: "reachable U C (lv_service L)" "steady base (lv_service L)" by (simp_all add: live_ok_def)
  from reachable_run [OF sv(1) run] have r: "reachable U C sv'" .
  show ?thesis
    using L r service_run_steady [OF run sv(2)] under_way_later [OF _ new]
      handed_on_later [OF _ reachable_ok(2) [OF sv(1)] log_small_reachable [OF r small] new]
    unfolding live_ok_def by simp
qed

section \<open>The steps keep the invariant\<close>

lemma broadcast_position:
  assumes "steady base sv" "n < length (svc_events sv)"
  shows "base + n < length (st_events (svc_txn sv))"
    and "svc_events sv ! n = (ue_recipients (st_events (svc_txn sv) ! (base + n)), ue_event (st_events (svc_txn sv) ! (base + n)))"
  using assms by (auto simp: steady_def broadcast_from_def published_def)

lemma subscribe_ok:
  assumes "live_ok U C actor fails c0 base L" "length (st_events (svc_txn (lv_service L))) < 2 ^ 64"
  shows "live_ok U C actor fails c0 base (L\<lparr>lv_up := True, lv_greeted := False,
      lv_next := length (svc_events (lv_service L)), lv_received := 0,
      lv_session := (lv_session L)\<lparr>ws_out := [], ws_writes := 0\<rparr>\<rparr>)"
proof -
  have "base + length (svc_events (lv_service L)) = length (st_events (svc_txn (lv_service L)))"
    using assms(1) by (auto simp: live_ok_def steady_def broadcast_from_def published_def)
  with assms(1) show ?thesis by (simp add: live_ok_def under_way_def covered_def)
qed

lemma greet_ok:
  assumes "live_ok U C actor fails c0 base L" "length (st_events (svc_txn (lv_service L))) < 2 ^ 64"
    and "lv_up L" "\<not> lv_greeted L" "send_welcome actor t (lv_session L) = (Inr (), s)"
  shows "live_ok U C actor fails c0 base (L\<lparr>lv_greeted := True, lv_session := s\<rparr>)"
proof -
  let ?sv = "lv_service L"
  have small: "log_small (svc_txn ?sv)"
    using assms(1,2) by (intro log_small_reachable [where U = U and C = C]) (auto simp: live_ok_def)
  from assms(5) have s: "ws_service s = ?sv" "ws_out s = ws_out (lv_session L)
      @ [Frame (SfWelcome WS_PROTOCOL_VERSION actor t (latest_cursor (svc_txn ?sv)))]"
    by (auto simp: send_welcome_def send_frame_def send_ws_def Let_def split: if_splits)
  have "ev_cursor e \<le> latest_cursor (svc_txn ?sv)"
    if "e \<in> set (mine actor (take n (st_events (svc_txn ?sv))))" for e n
    using that by (intro latest_bounds [OF small, where actor = actor]) (auto simp: mine_def dest: in_set_takeD)
  with assms(1,3,4) s show ?thesis by (simp add: live_ok_def under_way_def covered_def)
qed

text \<open>A turn of the server that writes the events between the old and the new position of its receiver.\<close>

lemma server_turn_ok:
  assumes L: "live_ok U C actor fails c0 base L" and up: "lv_up L" "lv_greeted L"
    and adds: "adds U C evs (lv_session L) s" and small: "length (st_events (svc_txn (ws_service s))) < 2 ^ 64"
    and n: "base + n \<le> length (st_events (svc_txn (lv_service L)))"
      "mine actor (take (base + n) (st_events (svc_txn (lv_service L))))
        = mine actor (take (base + lv_next L) (st_events (svc_txn (lv_service L)))) @ evs"
  shows "live_ok U C actor fails c0 base (L\<lparr>lv_session := s, lv_next := n\<rparr>)"
proof -
  from adds obtain new where run: "service_run U C (lv_service L) (ws_service s)"
    and out: "ws_out s = ws_out (lv_session L) @ new" "events_in new = evs" by (auto simp: adds_def)
  obtain log where log: "st_events (svc_txn (ws_service s)) = st_events (svc_txn (lv_service L)) @ log"
    using run_log [OF run] .
  from L up obtain seen where u: "lv_received L \<le> length (ws_out (lv_session L))" "covered L seen"
      "mine actor (take (base + lv_next L) (st_events (svc_txn (lv_service L))))
        = seen @ events_in (drop (lv_received L) (ws_out (lv_session L)))"
    by (auto simp: live_ok_def under_way_def)
  have "covered (L\<lparr>lv_session := s, lv_next := n\<rparr>) seen"
    using u(2) up(2) out by (auto simp: covered_def split: if_splits)
  with u n out log have "under_way actor base (L\<lparr>lv_session := s, lv_next := n\<rparr>)"
    by (auto simp: under_way_def)
  with live_ok_later [OF L run small] show ?thesis by (simp add: live_ok_def)
qed

lemma broadcast_ok:
  assumes L: "live_ok U C actor fails c0 base L" and up: "lv_up L" "lv_greeted L"
    and n: "lv_next L < length (svc_events (lv_service L))"
    and turn: "serve_turn actor (Event_turn (Received (svc_events (lv_service L) ! lv_next L))) (lv_session L) = (True, s)"
    and small: "length (st_events (svc_txn (ws_service s))) < 2 ^ 64"
  shows "live_ok U C actor fails c0 base (L\<lparr>lv_session := s, lv_next := Suc (lv_next L)\<rparr>)"
proof -
  let ?us = "st_events (svc_txn (lv_service L))" and ?p = "base + lv_next L"
  have p: "?p < length ?us" "svc_events (lv_service L) ! lv_next L = (ue_recipients (?us ! ?p), ue_event (?us ! ?p))"
    using broadcast_position [OF _ n, of base] L by (auto simp: live_ok_def)
  have "adds U C (mine actor [?us ! ?p]) (lv_session L) s"
    using serve_turn_adds [OF turn, of U C] by (simp add: p(2) mine_def split: if_splits)
  then show ?thesis
    using p(1) by (intro server_turn_ok [OF L up _ small]) (simp_all add: take_Suc_conv_app_nth)
qed

lemma turn_ok:
  assumes L: "live_ok U C actor fails c0 base L" and up: "lv_up L" "lv_greeted L"
    and t: "\<not> (\<exists>x. t = Event_turn x)" and turn: "serve_turn actor t (lv_session L) = (True, s)"
    and small: "length (st_events (svc_txn (ws_service s))) < 2 ^ 64"
  shows "live_ok U C actor fails c0 base (L\<lparr>lv_session := s\<rparr>)"
proof -
  have "turn_events actor t = []" using t by (cases "(actor, t)" rule: turn_events.cases) auto
  then have adds: "adds U C [] (lv_session L) s" using serve_turn_adds [OF turn, of U C] by simp
  from L up have "base + lv_next L \<le> length (st_events (svc_txn (lv_service L)))"
    by (simp add: live_ok_def under_way_def)
  from server_turn_ok [OF L up adds small this] show ?thesis by simp
qed

section \<open>The client reads a frame\<close>

lemma sorted_split:
  "sorted_wrt (<) (map ev_cursor xs) \<Longrightarrow> filter (\<lambda>e. ev_cursor e \<le> c) xs @ filter (\<lambda>e. c < ev_cursor e) xs = xs"
proof (induction xs)
  case (Cons x xs)
  show ?case
  proof (cases "ev_cursor x \<le> c")
    case False
    then have "\<forall>y\<in>set xs. \<not> ev_cursor y \<le> c" using Cons.prems by fastforce
    then have "filter (\<lambda>e. ev_cursor e \<le> c) xs = []" by (simp add: filter_empty_conv)
    with Cons False show ?thesis by (simp add: not_le)
  qed (use Cons in \<open>simp add: not_less\<close>)
qed simp

lemma below_cursor_after:
  assumes "log_small s" "e \<in> set (mine actor (st_events s))"
  shows "ev_cursor e \<le> cursor_after c (pending_events s actor c)"
proof (cases "c < ev_cursor e")
  case True
  then have e: "e \<in> set (pending_events s actor c)" using assms(2) by (simp add: pending_mine)
  then obtain xs where xs: "pending_events s actor c = xs @ [last (pending_events s actor c)]"
    by (metis append_butlast_last_id empty_iff empty_set)
  have "sorted_wrt (<) (map ev_cursor (pending_events s actor c))" by (rule pending_events_sorted [OF assms(1)])
  then have "ev_cursor e \<le> ev_cursor (last (pending_events s actor c))"
    using e by (subst (asm) xs, subst (asm) (2) xs) (auto simp: sorted_wrt_append)
  with e show ?thesis by (auto simp: cursor_after_def)
next
  case False
  have "c \<le> cursor_after c (pending_events s actor c)"
    using last_in_set [of "pending_events s actor c"] by (auto simp: cursor_after_def pending_mine simp del: filter_empty_conv)
  with False show ?thesis by simp
qed

lemma caught_up:
  assumes h: "handed_on fails actor c0 c es s" and s: "log_small s"
  shows "handed_on fails actor c0 (cursor_after c (pending_events s actor c)) (es @ pending_events s actor c) s"
proof -
  let ?p = "pending_events s actor c" and ?q = "pending_events s actor c0"
  from h have c: "c0 \<le> c" "c \<le> latest_cursor s" by (simp_all add: handed_on_def)
  have p: "?p = filter (\<lambda>e. c < ev_cursor e) ?q" by (rule pending_events_filter [OF c(1)])
  have q: "filter (\<lambda>e. ev_cursor e \<le> c) ?q @ ?p = ?q"
    unfolding p by (rule sorted_split [OF pending_events_sorted [OF s]])
  have "\<forall>e\<in>set ?q. ev_cursor e \<le> cursor_after c ?p"
    using below_cursor_after [OF s] by (simp add: pending_mine)
  then have all: "filter (\<lambda>e. ev_cursor e \<le> cursor_after c ?p) ?q = ?q" by (simp add: filter_id_conv)
  have "c \<le> cursor_after c ?p \<and> cursor_after c ?p \<le> latest_cursor s"
  proof (cases "?p = []")
    case True
    with c show ?thesis by (simp add: cursor_after_def)
  next
    case False
    then have "last ?p \<in> set ?p" by (rule last_in_set)
    then have "last ?p \<in> set (mine actor (st_events s))" "c < ev_cursor (last ?p)" by (simp_all add: pending_mine)
    with latest_bounds [OF s] False show ?thesis by (simp add: cursor_after_def)
  qed
  moreover have "set ?q = set (filter (\<lambda>e. ev_cursor e \<le> c) ?q) \<union> set ?p" by (subst q [symmetric]) simp
  ultimately show ?thesis
    using h c q unfolding handed_on_def all by auto
qed

lemma partly_caught_up:
  assumes h: "handed_on True actor c0 c es s" and p: "pending_events s actor c = ds @ rest"
  shows "handed_on True actor c0 c (es @ ds) s"
proof -
  have "set ds \<subseteq> set (pending_events s actor c)" using p by simp
  moreover from h have "set (pending_events s actor c) \<subseteq> set (pending_events s actor c0)"
    by (auto simp: handed_on_def pending_mine)
  ultimately show ?thesis using h by (auto simp: handed_on_def)
qed

lemma event_handed_on:
  assumes h: "handed_on fails actor c0 c es s" and s: "log_small s"
    and m: "mine actor (st_events s) = seen @ e # rest" and seen: "\<forall>x\<in>set seen. ev_cursor x \<le> c"
    and e: "c < ev_cursor e"
  shows "handed_on fails actor c0 (ev_cursor e) (es @ [e]) s"
proof -
  from h have c: "c0 \<le> c" by (simp add: handed_on_def)
  have "sorted_wrt (<) (map ev_cursor (seen @ e # rest))" using mine_sorted [OF s, of actor] m by simp
  then have rest: "\<forall>x\<in>set rest. ev_cursor e < ev_cursor x" by (auto simp: sorted_wrt_append)
  have "filter (\<lambda>x. c0 < ev_cursor x \<and> ev_cursor x \<le> b) rest = []" if "b \<le> ev_cursor e" for b
    using rest that by (auto simp: filter_empty_conv)
  moreover have "filter (\<lambda>x. c0 < ev_cursor x \<and> ev_cursor x \<le> b) seen = filter (\<lambda>x. c0 < ev_cursor x) seen"
    if "c \<le> b" for b
    using seen that by (intro filter_cong) auto
  ultimately have low: "filter (\<lambda>x. ev_cursor x \<le> c) (pending_events s actor c0) = filter (\<lambda>x. c0 < ev_cursor x) seen"
    and high: "filter (\<lambda>x. ev_cursor x \<le> ev_cursor e) (pending_events s actor c0)
      = filter (\<lambda>x. c0 < ev_cursor x) seen @ [e]"
    using e c by (auto simp: pending_mine m)
  have "ev_cursor e \<le> latest_cursor s" by (rule latest_bounds [OF s, of _ actor]) (simp add: m)
  moreover have "e \<in> set (pending_events s actor c0)" using le_less_trans [OF c e] by (simp add: pending_mine m)
  ultimately show ?thesis
    using h c e unfolding handed_on_def low high by auto
qed

lemma caught_up_client:
  assumes api: "answers fails srv actor api" and ok: "\<And>i. log_small (svc_txn (srv i))"
    and grow: "\<And>i. progress (svc_txn (srv i)) (svc_txn (srv (Suc i)))"
    and cl: "rt_listening cl" "catch_up_client api cl = Some (r, cl')"
  shows "\<exists>K es. synced cl' = synced cl @ es \<and> rt_cursor cl' = rt_cursor cl \<and> rt_listening cl'
    \<and> (case r of Inr c \<Rightarrow> es = pending_events (svc_txn (srv K)) actor (rt_cursor cl) \<and> c = cursor_after (rt_cursor cl) es
       | Inl _ \<Rightarrow> fails \<and> (\<exists>rest. pending_events (svc_txn (srv K)) actor (rt_cursor cl) = es @ rest))"
proof -
  have "api i c n = None \<or> api i c n = Some (sync (svc_txn (srv i)) actor c n)" for i c n
    using api by (auto simp: answers_def)
  from sync_source.catch_up_pages [where srv = "\<lambda>i. svc_txn (srv i)" and actor = actor and api = api and k = 0
      and c = "rt_cursor cl" and sent = "[]", OF ok grow this]
  obtain K q es where "catch_up api True 0 (rt_cursor cl) [] = Some (q, es)"
    and q: "case q of Inr c' \<Rightarrow> es = pending_events (svc_txn (srv K)) actor (rt_cursor cl) \<and> c' = cursor_after (rt_cursor cl) es
       | Inl _ \<Rightarrow> (\<exists>rest. pending_events (svc_txn (srv K)) actor (rt_cursor cl) = es @ rest) \<and> (\<exists>i c n. api i c n = None)"
    by auto
  moreover have "fails" if "api i c n = None" for i c n using api that unfolding answers_def by (metis option.distinct(1))
  ultimately show ?thesis
    using cl by (intro exI [of _ K] exI [of _ es]) (auto simp: catch_up_client_def split: sum.splits)
qed

text \<open>Reading a frame keeps the account of what was handed on; unless the connection ends, the cursor then
  covers the frame and everything before it.\<close>

lemma frame_handled:
  assumes h: "handed_on fails actor c0 (rt_cursor cl0) (synced cl0) (svc_txn (srv 0))"
    and srv: "\<And>i. reachable U C (srv i)" "\<And>i. service_run U C (srv i) (srv (Suc i))" "\<And>i. service_run U C (srv i) sv'"
    and small: "length (st_events (svc_txn sv')) < 2 ^ 64"
    and api: "answers fails srv actor api" and listening: "rt_listening cl0"
    and run: "handle_server_frame api now f cl0 = Some (r, cl)"
    and m: "mine actor (st_events (svc_txn (srv 0))) = seen @ event_of (Frame f) @ rest"
    and seen: "(\<forall>e\<in>set seen. ev_cursor e \<le> rt_cursor cl0)
      \<or> (\<exists>v u t latest. f = SfWelcome v u t latest \<and> (\<forall>e\<in>set seen. ev_cursor e \<le> latest))"
  shows "rt_listening cl \<and> handed_on fails actor c0 (rt_cursor cl) (synced cl) (svc_txn sv')
    \<and> (r = Inr None \<longrightarrow> (\<forall>e\<in>set (seen @ event_of (Frame f)). ev_cursor e \<le> rt_cursor cl))"
proof -
  have log: "\<exists>new. st_events (svc_txn sv') = st_events (svc_txn (srv i)) @ new" for i
    using run_log [OF srv(3)] by metis
  have sv': "log_small (svc_txn sv')"
    by (rule log_small_reachable [OF reachable_run [OF srv(1,3)] small])
  have smalls: "log_small (svc_txn (srv i))" for i
    using log [of i] small by (intro log_small_reachable [OF srv(1)]) auto
  have later: "handed_on fails actor c0 c es (svc_txn sv')" if "handed_on fails actor c0 c es (svc_txn (srv i))" for c es i
    using log [of i] handed_on_later [OF that reachable_ok(2) [OF srv(1)] sv'] by blast
  have grow: "progress (svc_txn (srv i)) (svc_txn (srv (Suc i)))" for i
    using service_run_progress [OF srv(2)] by (simp add: svc_progress_def)
  have run0: "service_run U C (srv 0) (srv i)" for i
    by (induction i) (auto intro: Run_refl service_run_trans srv(2))
  show ?thesis
  proof (cases f)
    case (SfWelcome v u t latest)
    show ?thesis
    proof (cases "v = WS_PROTOCOL_VERSION \<and> latest > rt_cursor cl0")
      case True
      then obtain q cl1 where q: "catch_up_client api (emit_state Syncing cl0) = Some (q, cl1)"
        and r: "case q of Inl e \<Rightarrow> r = Inl e \<and> cl = cl1
          | Inr c \<Rightarrow> r = Inr None \<and> cl = emit_state Connected (cl1\<lparr>rt_cursor := c\<rparr>)"
        using run SfWelcome by (auto split: option.splits sum.splits)
      have "rt_listening (emit_state Syncing cl0)" using listening by simp
      from caught_up_client [OF api smalls grow this q, unfolded client_fields]
      obtain K es where K: "synced cl1 = synced cl0 @ es" "rt_cursor cl1 = rt_cursor cl0" "rt_listening cl1"
        "case q of Inr c \<Rightarrow> es = pending_events (svc_txn (srv K)) actor (rt_cursor cl0) \<and> c = cursor_after (rt_cursor cl0) es
          | Inl _ \<Rightarrow> fails \<and> (\<exists>rest. pending_events (svc_txn (srv K)) actor (rt_cursor cl0) = es @ rest)"
        by auto
      obtain new where new: "st_events (svc_txn (srv K)) = st_events (svc_txn (srv 0)) @ new"
        using run_log [OF run0] .
      have hK: "handed_on fails actor c0 (rt_cursor cl0) (synced cl0) (svc_txn (srv K))"
        by (rule handed_on_later [OF h reachable_ok(2) [OF srv(1)] smalls new])
      show ?thesis
      proof (cases q)
        case (Inl e)
        with K(4) obtain rest where "fails" "pending_events (svc_txn (srv K)) actor (rt_cursor cl0) = es @ rest" by auto
        with partly_caught_up hK have "handed_on fails actor c0 (rt_cursor cl0) (synced cl0 @ es) (svc_txn (srv K))"
          by fastforce
        with later K r Inl show ?thesis by auto
      next
        case (Inr c)
        with K(4) have es: "es = pending_events (svc_txn (srv K)) actor (rt_cursor cl0)" "c = cursor_after (rt_cursor cl0) es"
          by simp_all
        have "\<forall>e\<in>set seen. ev_cursor e \<le> c"
          using below_cursor_after [OF smalls [of K], of _ actor "rt_cursor cl0"] m new by (auto simp: es)
        with later [OF caught_up [OF hK smalls]] es K r Inr SfWelcome show ?thesis
          by simp
      qed
    next
      case False
      with run SfWelcome have "cl = emit_state (if v \<noteq> WS_PROTOCOL_VERSION then Sync_failed else Connected) cl0"
        and "r = Inr None \<Longrightarrow> latest \<le> rt_cursor cl0" by (auto split: if_splits)
      with later [OF h] listening seen SfWelcome show ?thesis by auto
    qed
  next
    case (SfEvent e)
    with seen have bound: "\<forall>x\<in>set seen. ev_cursor x \<le> rt_cursor cl0" by auto
    show ?thesis
    proof (cases "ev_cursor e > rt_cursor cl0")
      case True
      have "handed_on fails actor c0 (ev_cursor e) (synced cl0 @ [e]) (svc_txn (srv 0))"
        using m SfEvent by (intro event_handed_on [OF h smalls _ bound True]) simp
      with True run SfEvent listening bound later show ?thesis by (auto simp: Let_def less_imp_le)
    next
      case False
      with run SfEvent listening bound later [OF h] show ?thesis by auto
    qed
  qed (use run listening seen later [OF h] in auto)
qed

lemma frame_read_ok:
  assumes L: "live_ok U C actor fails c0 base L" and up: "lv_up L"
    and f: "lv_received L < length (ws_out (lv_session L))" "ws_out (lv_session L) ! lv_received L = Frame f"
    and srv: "srv 0 = lv_service L" "\<And>i. service_run U C (srv i) (srv (Suc i))" "\<And>i. service_run U C (srv i) sv'"
    and small: "length (st_events (svc_txn sv')) < 2 ^ 64"
    and run: "answers fails srv actor api" "handle_server_frame api now f (lv_client L) = Some (r, cl)"
  shows "live_ok U C actor fails c0 base (L\<lparr>lv_session := (lv_session L)\<lparr>ws_service := sv'\<rparr>,
      lv_received := Suc (lv_received L), lv_client := cl, lv_up := (r = Inr None)\<rparr>)"
proof -
  let ?us = "st_events (svc_txn (lv_service L))" and ?out = "ws_out (lv_session L)"
  from L up obtain seen where n: "base + lv_next L \<le> length ?us"
    and seen: "mine actor (take (base + lv_next L) ?us) = seen @ events_in (drop (lv_received L) ?out)" "covered L seen"
    by (auto simp: live_ok_def under_way_def)
  have out: "drop (lv_received L) ?out = Frame f # drop (Suc (lv_received L)) ?out"
    using f by (metis Cons_nth_drop_Suc)
  let ?rest = "events_in (drop (Suc (lv_received L)) ?out) @ mine actor (drop (base + lv_next L) ?us)"
  have "mine actor ?us = mine actor (take (base + lv_next L) ?us) @ mine actor (drop (base + lv_next L) ?us)"
    by (metis append_take_drop_id mine_append)
  then have m: "mine actor (st_events (svc_txn (srv 0))) = seen @ event_of (Frame f) @ ?rest"
    using seen(1) out by (simp add: srv(1))
  have greeted: "lv_greeted L" using seen(2) f(1) by (auto simp: covered_def split: if_splits)
  have bound: "(\<forall>e\<in>set seen. ev_cursor e \<le> rt_cursor (lv_client L))
      \<or> (\<exists>v u t latest. f = SfWelcome v u t latest \<and> (\<forall>e\<in>set seen. ev_cursor e \<le> latest))"
    using seen(2) f greeted by (auto simp: covered_def split: if_splits)
  have reach: "reachable U C (srv i)" for i
  proof (induction i)
    case 0
    with L srv(1) show ?case by (simp add: live_ok_def)
  qed (rule reachable_run [OF _ srv(2)])
  from L srv(1) have h: "handed_on fails actor c0 (rt_cursor (lv_client L)) (synced (lv_client L)) (svc_txn (srv 0))"
    and listening: "rt_listening (lv_client L)" by (simp_all add: live_ok_def)
  note cl = frame_handled [OF h reach srv(2,3) small run(1) listening run(2) m bound]
  have run0: "service_run U C (lv_service L) sv'" using srv(3) [of 0] srv(1) by simp
  obtain new where new: "st_events (svc_txn sv') = ?us @ new" using run_log [OF run0] .
  have "under_way actor base (L\<lparr>lv_session := (lv_session L)\<lparr>ws_service := sv'\<rparr>,
      lv_received := Suc (lv_received L), lv_client := cl, lv_up := True\<rparr>)" if "r = Inr None"
    unfolding under_way_def
    using that cl n new seen(1) out f(1) greeted
    by (auto simp: covered_def intro!: exI [of _ "seen @ event_of (Frame f)"])
  with cl live_ok_later [OF L run0 small] show ?thesis by (auto simp: live_ok_def)
qed

lemma ping_read_ok:
  assumes L: "live_ok U C actor fails c0 base L" and up: "lv_up L"
    and f: "lv_received L < length (ws_out (lv_session L))" "ws_out (lv_session L) ! lv_received L = PingFrame"
  shows "live_ok U C actor fails c0 base (L\<lparr>lv_received := Suc (lv_received L)\<rparr>)"
proof -
  let ?out = "ws_out (lv_session L)"
  from L up obtain seen where u: "base + lv_next L \<le> length (st_events (svc_txn (lv_service L)))" "covered L seen"
    "mine actor (take (base + lv_next L) (st_events (svc_txn (lv_service L)))) = seen @ events_in (drop (lv_received L) ?out)"
    by (auto simp: live_ok_def under_way_def)
  have "drop (lv_received L) ?out = PingFrame # drop (Suc (lv_received L)) ?out"
    using f by (metis Cons_nth_drop_Suc)
  moreover have "covered (L\<lparr>lv_received := Suc (lv_received L)\<rparr>) seen"
    using u(2) f by (auto simp: covered_def split: if_splits)
  ultimately have "under_way actor base (L\<lparr>lv_received := Suc (lv_received L)\<rparr>)"
    using u f(1) by (auto simp: under_way_def)
  with L show ?thesis by (simp add: live_ok_def)
qed

section \<open>Every run\<close>

lemma live_step_service: "live_step U C actor lags fails L L' \<Longrightarrow> service_run U C (lv_service L) (lv_service L')"
proof (induction rule: live_step.induct)
  case (Activity L l sv')
  then show ?case by (auto intro: Run_step Run_refl)
next
  case (Greet L t s)
  then show ?case by (auto simp: send_welcome_def send_frame_def send_ws_def Let_def Run_refl split: if_splits)
next
  case (Broadcast L s)
  from serve_turn_adds [OF this(4)] show ?case by (simp add: adds_def)
next
  case (Lag L k s)
  from serve_turn_adds [OF this(6)] show ?case by (simp add: adds_def)
next
  case (Turn L t s)
  from serve_turn_adds [OF this(4)] show ?case by (simp add: adds_def)
next
  case (Frame_read L f srv sv' api now r cl)
  from this(6) [of 0] this(4) show ?case by simp
qed (simp_all add: Run_refl)

lemma live_step_ok:
  assumes "live_step U C actor False fails L L'" and "live_ok U C actor fails c0 base L"
    and small: "length (st_events (svc_txn (lv_service L'))) < 2 ^ 64"
  shows "live_ok U C actor fails c0 base L'"
proof -
  obtain new where "st_events (svc_txn (lv_service L')) = st_events (svc_txn (lv_service L)) @ new"
    using run_log [OF live_step_service [OF assms(1)]] .
  then have small0: "length (st_events (svc_txn (lv_service L))) < 2 ^ 64" using small by simp
  from assms(1) show ?thesis
  proof cases
    case (Activity l sv')
    with live_ok_later [OF assms(2), of sv'] small show ?thesis by (auto intro: Run_step Run_refl)
  next
    case Drop
    with assms(2) show ?thesis by (simp add: live_ok_def)
  next
    case Subscribe
    with subscribe_ok [OF assms(2) small0] show ?thesis by simp
  next
    case (Greet t s)
    with greet_ok [OF assms(2) small0] show ?thesis by simp
  next
    case (Broadcast s)
    with broadcast_ok [OF assms(2)] small show ?thesis by simp
  next
    case (Turn t s)
    with turn_ok [OF assms(2)] small show ?thesis by simp
  next
    case (Frame_read f srv sv' api now r cl)
    with frame_read_ok [OF assms(2)] small show ?thesis by simp
  next
    case Ping_read
    with ping_read_ok [OF assms(2)] show ?thesis by simp
  qed simp
qed

lemma live_run_service: "live_run U C actor lags fails L L' \<Longrightarrow> service_run U C (lv_service L) (lv_service L')"
  by (induction rule: live_run.induct) (auto intro: Run_refl service_run_trans live_step_service)

lemma live_run_ok:
  assumes "live_run U C actor False fails L L'" and "live_ok U C actor fails c0 base L"
    and "length (st_events (svc_txn (lv_service L'))) < 2 ^ 64"
  shows "live_ok U C actor fails c0 base L'"
  using assms
proof (induction rule: live_run.induct)
  case (Live_step L L' L'')
  obtain new where "st_events (svc_txn (lv_service L'')) = st_events (svc_txn (lv_service L')) @ new"
    using run_log [OF live_step_service [OF Live_step.hyps(2)]] .
  with Live_step show ?case by (auto intro: live_step_ok)
qed

lemma offline_ok:
  assumes "offline U C c0 L" "length (st_events (svc_txn (lv_service L))) < 2 ^ 64"
  obtains base where "live_ok U C actor fails c0 base L"
proof -
  from assms(1) have o: "reachable U C (lv_service L)" "\<not> lv_up L" "rt_listening (lv_client L)"
    "rt_cursor (lv_client L) = c0" "synced (lv_client L) = []" "c0 \<le> latest_cursor (svc_txn (lv_service L))"
    by (simp_all add: offline_def)
  obtain base where "steady base (lv_service L)" using reachable_steady [OF o(1)] .
  moreover have none: "filter (\<lambda>e. ev_cursor e \<le> c0) (pending_events (svc_txn (lv_service L)) actor c0) = []"
    by (auto simp: pending_mine filter_empty_conv)
  ultimately show thesis
    using o by (intro that [of base]) (simp add: live_ok_def handed_on_def)
qed


section \<open>When a receiver lags\<close>


end
