(* ===== verification/Live_Witnesses.thy ===== *)
theory Live_Witnesses
  imports Live_Delivery Chat_Witnesses
begin

text \<open>
  Live delivery at work: Alice changes her privacy settings while her desktop is connected, and twice while
  its receiver falls behind.
\<close>

section \<open>The service\<close>

definition privacy_event :: "nat \<Rightarrow> event" where
  "privacy_event k = \<lparr>ev_id = 0, ev_cursor = word_of_nat k, ev_kind = PresenceUpdated,
     ev_payload = PPrivacy default_privacy, ev_created_at = 0\<rparr>"

lemma privacy_event_cursor [simp]: "ev_cursor (privacy_event k) = word_of_nat k"
  by (simp add: privacy_event_def)

text \<open>Alice's account without friends, after \<open>n\<close> changes.\<close>

definition at_home :: "nat \<Rightarrow> service \<Rightarrow> bool" where
  "at_home n sv \<longleftrightarrow> reachable sample_unicode sample_crypto sv
     \<and> live_account (svc_txn sv) alice = Some (sample_account alice alice_name)
     \<and> st_friendships (svc_txn sv) = [] \<and> uuid_src (svc_txn sv) = (\<lambda>n. 0)
     \<and> st_cursor (svc_txn sv) = word_of_nat n
     \<and> st_events (svc_txn sv) = map (\<lambda>k. \<lparr>ue_recipients = {alice}, ue_event = privacy_event k\<rparr>) [1..<Suc n]
     \<and> svc_events sv = map (\<lambda>k. ({alice}, privacy_event k)) [1..<Suc n]
     \<and> (\<exists>db. svc_database sv = Some db \<and> (\<forall>i. db_accepts db i))"

lemma at_home_start: "at_home 0 (restored_from sample_store)"
proof -
  have "reachable sample_unicode sample_crypto (restored_from sample_store)"
    by (rule restored_from_reachable)
      (simp add: sample_store_def default_store_def store.defs txn.defs messages_ok_def messages_of_def
        conversations_ok_def log_ok_def)
  moreover have "svc_events (restored_from sample_store) = []"
    "\<exists>db. svc_database (restored_from sample_store) = Some db \<and> (\<forall>i. db_accepts db i)"
    by (simp_all add: restored_from_def service_postgres_def service_of_def)
  ultimately show ?thesis
    by (simp add: at_home_def restored_from_txn sample_store_def default_store_def store.defs txn.defs
        live_account_def hm_get_def sample_account_def)
qed

lemma privacy_tx_run:
  assumes "at_home n sv" "n < 100"
  shows "\<exists>s. update_profile_privacy_tx alice default_privacy 0 (svc_txn sv) = (Inr default_privacy, s)
    \<and> live_account s alice = Some (sample_account alice alice_name) \<and> st_friendships s = []
    \<and> uuid_src s = (\<lambda>n. 0) \<and> st_cursor s = word_of_nat (Suc n)
    \<and> st_events s = st_events (svc_txn sv) @ [\<lparr>ue_recipients = {alice}, ue_event = privacy_event (Suc n)\<rparr>]"
proof -
  have "unat (word_of_nat n :: u64) = n" using assms(2) by (simp add: unat_of_nat)
  then have "sat_add (word_of_nat n :: u64) 1 = word_of_nat (Suc n)"
    using assms(2) by (simp add: sat_add_def)
  with assms(1) show ?thesis
    by (simp add: at_home_def update_profile_privacy_tx_def get_live_account_def run_bnd friend_ids_def
        append_event_def new_uuid_def found_def privacy_event_def live_account_def)
qed

lemma at_home_step:
  assumes "at_home n sv" "n < 100"
  shows "\<exists>sv'. service_step sample_unicode sample_crypto sv None sv' \<and> at_home (Suc n) sv'"
proof -
  obtain s where s: "update_profile_privacy_tx alice default_privacy 0 (svc_txn sv) = (Inr default_privacy, s)"
    "live_account s alice = Some (sample_account alice alice_name)" "st_friendships s = []"
    "uuid_src s = (\<lambda>n. 0)" "st_cursor s = word_of_nat (Suc n)"
    "st_events s = st_events (svc_txn sv) @ [\<lparr>ue_recipients = {alice}, ue_event = privacy_event (Suc n)\<rparr>]"
    using privacy_tx_run [OF assms] by blast
  obtain r sv' where run: "update_profile_privacy alice default_privacy 0 sv = (r, sv')"
    by (cases "update_profile_privacy alice default_privacy 0 sv")
  then have "mutate (update_profile_privacy_tx alice default_privacy 0) sv = (r, sv')"
    by (simp add: update_profile_privacy_def)
  then have sv': "r = Inr default_privacy" "svc_txn sv' = s"
    "svc_events sv' = svc_events sv @ published (length (st_events (svc_txn sv))) s"
    "\<exists>db. svc_database sv' = Some db \<and> (\<forall>i. db_accepts db i)"
    using assms(1) s(1)
    by (cases "update_profile_privacy_tx alice default_privacy 0" sv rule: mutate_cases; auto simp: at_home_def)+
  have step: "service_step sample_unicode sample_crypto sv (outcome r) sv'"
    by (rule UpdateProfilePrivacy [OF run])
  moreover have "reachable sample_unicode sample_crypto sv'"
    using reachable_step [OF _ step] assms(1) by (simp add: at_home_def)
  moreover have "svc_events sv' = svc_events sv @ [({alice}, privacy_event (Suc n))]"
    by (simp add: sv'(3) published_def s(6))
  ultimately show ?thesis
    using assms(1) s sv' by (intro exI [of _ sv']) (simp add: at_home_def outcome_def)
qed

section \<open>The connection\<close>

definition home_client :: client where
  "home_client = \<lparr>rt_cursor = 0, rt_sent = [], rt_listening = True, rt_last_pong = 0\<rparr>"

definition home_session :: "service \<Rightarrow> session" where
  "home_session sv = \<lparr>ws_service = sv, ws_out = [], ws_open = (\<lambda>n. True), ws_writes = 0,
     ws_fresh = (\<lambda>n. 0), ws_drawn = 0, ws_active = 0\<rparr>"

definition home :: "bool \<Rightarrow> service \<Rightarrow> live" where
  "home up sv = \<lparr>lv_session = home_session sv, lv_up = up, lv_greeted = up, lv_next = 0,
     lv_received = 0, lv_client = home_client\<rparr>"

lemmas home_defs = home_def home_session_def home_client_def

lemma home_run:
  assumes sv: "at_home 0 sv"
  obtains L where "live_run sample_unicode sample_crypto alice False False (home False sv) L"
    "at_home 1 (lv_service L)" "rt_cursor (lv_client L) = 1"
proof -
  obtain sv' where step: "service_step sample_unicode sample_crypto sv None sv'" and sv': "at_home 1 sv'"
    using at_home_step [OF sv] by auto
  have ev: "svc_events sv = []" "svc_events sv' = [({alice}, privacy_event 1)]"
    "latest_cursor (svc_txn sv) = 0"
    using sv sv' by (simp_all add: at_home_def latest_cursor_def)
  let ?run = "live_run sample_unicode sample_crypto alice False False (home False sv)"
  let ?out = "[Frame (SfWelcome WS_PROTOCOL_VERSION alice 0 0)]"
  let ?L = "\<lambda>sv g n k w out cl. \<lparr>lv_session = (home_session sv)\<lparr>ws_out := out, ws_writes := w\<rparr>,
    lv_up = True, lv_greeted = g, lv_next = n, lv_received = k, lv_client = cl\<rparr>"
  have "?run (?L sv False 0 0 0 [] home_client)"
    using Live_step [OF Live_refl Subscribe [where L = "home False sv"]] ev(1) by (simp add: home_defs)
  from Live_step [OF this Greet [where t = 0]] ev(3)
  have "?run (?L sv True 0 0 1 ?out home_client)"
    by (simp add: home_defs send_welcome_def send_frame_def send_ws_def)
  from Live_step [OF this Activity [where l = None and sv' = sv']] step
  have "?run (?L sv' True 0 0 1 ?out home_client)"
    by (simp add: home_defs)
  from Live_step [OF this Frame_read [where f = "SfWelcome WS_PROTOCOL_VERSION alice 0 0" and srv = "\<lambda>_. sv'"
        and sv' = sv' and api = "\<lambda>i c n. Some (sync (svc_txn sv') alice c n)" and now = 0 and r = "Inr None"
        and cl = "emit_state Connected home_client"]]
  have "?run (?L sv' True 0 1 1 ?out (emit_state Connected home_client))"
    by (simp add: home_defs Run_refl answers_def)
  from Live_step [OF this Broadcast
      [where s = "(home_session sv')\<lparr>ws_out := ?out @ [Frame (SfEvent (privacy_event 1))], ws_writes := 2\<rparr>"]] ev(2)
  have "?run (?L sv' True 1 1 2 (?out @ [Frame (SfEvent (privacy_event 1))]) (emit_state Connected home_client))"
    by (simp add: home_defs forward_def went_on_def send_frame_def send_ws_def Let_def)
  from Live_step [OF this Frame_read [where f = "SfEvent (privacy_event 1)" and srv = "\<lambda>_. sv'"
        and sv' = sv' and api = "\<lambda>i c n. Some (sync (svc_txn sv') alice c n)" and now = 0 and r = "Inr None"
        and cl = "emit (RtSync (privacy_event 1)) ((emit_state Connected home_client)\<lparr>rt_cursor := 1\<rparr>)"]]
  have "?run (?L sv' True 1 2 2 (?out @ [Frame (SfEvent (privacy_event 1))])
      (emit (RtSync (privacy_event 1)) ((emit_state Connected home_client)\<lparr>rt_cursor := 1\<rparr>)))"
    by (simp add: home_defs Run_refl answers_def numeral_2_eq_2)
  then show thesis by (rule that) (simp_all add: home_session_def sv' [simplified])
qed



end
