(* ===== verification/Object_Store.thy ===== *)
theory Object_Store
  imports Attachments Utf8
begin

text \<open>
  The object store that keeps the bytes of attachments (\<open>apps/server/src/object_store.rs\<close>): signed
  requests in the S3 manner, and the checks of an uploaded object.

  URL parsing and printing, the calendar format of a time and HMAC-SHA-256 are libraries and make up the
  record \<open>store_lib\<close>.  The store itself answers requests: \<open>web n m u\<close> is its answer to the \<open>n\<close>-th request,
  with method \<open>m\<close> and signed URL \<open>u\<close>, \<open>None\<close> when the request fails; nothing is assumed of it.
\<close>

section \<open>Libraries and the store's answers\<close>

record endpoint =
  ep_scheme :: rstr
  ep_host :: "rstr option"
  ep_port :: "u16 option"
  ep_path :: rstr

record store_lib =
  sl_parse_url :: "rstr \<Rightarrow> endpoint option"
  sl_url_text :: "endpoint \<Rightarrow> rstr \<Rightarrow> rstr \<Rightarrow> rstr"
  sl_amz_date :: "datetime \<Rightarrow> rstr"
  sl_amz_day :: "datetime \<Rightarrow> rstr"
  sl_hmac_sha256 :: "u8 list \<Rightarrow> u8 list \<Rightarrow> u8 list"

text \<open>A header value is given where it is readable as text.\<close>

record web_response =
  wr_status :: nat
  wr_header :: "rstr \<Rightarrow> rstr option"
  wr_content_length :: "u64 option"
  wr_body :: "u8 list option"

type_synonym web = "nat \<Rightarrow> rstr \<Rightarrow> rstr \<Rightarrow> web_response option"

definition is_success :: "web_response \<Rightarrow> bool" where
  "is_success r \<longleftrightarrow> 200 \<le> wr_status r \<and> wr_status r < 300"

definition is_error_status :: "web_response \<Rightarrow> bool" where
  "is_error_status r \<longleftrightarrow> 400 \<le> wr_status r \<and> wr_status r < 600"

text \<open>\<open>ensure!\<close> and \<open>context\<close>: the error is the message.\<close>

definition ensure :: "bool \<Rightarrow> string \<Rightarrow> string + unit" where
  "ensure b why = err_if (\<not> b) why"

definition context_of :: "'a option \<Rightarrow> string \<Rightarrow> string + 'a" where
  "context_of x why = ok_or x why"

section \<open>The store\<close>

record object_store =
  os_endpoint :: endpoint
  os_bucket :: rstr
  os_region :: rstr
  os_access_key :: rstr
  os_secret_key :: rstr

record presigned_request =
  pr_url :: rstr
  pr_required_headers :: "(rstr \<times> rstr) list"

definition object_store_new ::
  "store_lib \<Rightarrow> rstr \<Rightarrow> rstr \<Rightarrow> rstr \<Rightarrow> rstr \<Rightarrow> rstr \<Rightarrow> string + object_store" where
  "object_store_new L endpoint bucket region access_key secret_key =
     and_then (context_of (sl_parse_url L endpoint) ''S3 endpoint must be an absolute URL'') (\<lambda>endpoint.
     and_then (ensure (ep_scheme endpoint \<in> {lit ''http'', lit ''https''})
                 ''S3 endpoint must use HTTP or HTTPS'') (\<lambda>_.
     and_then (ensure (bucket \<noteq> []) ''S3 bucket must not be empty'') (\<lambda>_.
     and_then (ensure (region \<noteq> []) ''S3 region must not be empty'') (\<lambda>_.
     and_then (ensure (access_key \<noteq> []) ''S3 access key must not be empty'') (\<lambda>_.
     and_then (ensure (secret_key \<noteq> []) ''S3 secret key must not be empty'') (\<lambda>_.
     Inr \<lparr>os_endpoint = endpoint, os_bucket = bucket, os_region = region,
          os_access_key = access_key, os_secret_key = secret_key\<rparr>))))))"

section \<open>Percent encoding\<close>

definition upper_hex_digit :: "nat \<Rightarrow> nat" where
  "upper_hex_digit n = (if n < 10 then 48 + n else 55 + n)"

definition unreserved :: "nat \<Rightarrow> bool" where
  "unreserved n \<longleftrightarrow> is_ascii_digit n \<or> is_ascii_upper n \<or> is_ascii_lower n
     \<or> n = 45 \<or> n = 95 \<or> n = 46 \<or> n = 126"

definition aws_byte :: "u8 \<Rightarrow> rstr" where
  "aws_byte b =
     (if unreserved (unat b) then [unat b]
      else [37, upper_hex_digit (unat b div 16), upper_hex_digit (unat b mod 16)])"

definition aws_encode :: "rstr \<Rightarrow> rstr" where
  "aws_encode v = concat (map aws_byte (utf8 v))"

text \<open>\<open>slice::join\<close> with a one-letter separator.\<close>

fun joined :: "nat \<Rightarrow> rstr list \<Rightarrow> rstr" where
  "joined c [] = []"
| "joined c [p] = p"
| "joined c (p # q # ps) = p @ c # joined c (q # ps)"

definition aws_encode_path :: "rstr \<Rightarrow> rstr" where
  "aws_encode_path v = joined 47 (map aws_encode (split_on 47 v))"

section \<open>Signed requests\<close>

fun has_two_dots :: "rstr \<Rightarrow> bool" where
  "has_two_dots (a # b # r) = ((a = 46 \<and> b = 46) \<or> has_two_dots (b # r))"
| "has_two_dots _ = False"

definition trim_end_slashes :: "rstr \<Rightarrow> rstr" where
  "trim_end_slashes p = rev (dropWhile (\<lambda>c. c = 47) (rev p))"

definition host_text :: "endpoint \<Rightarrow> string + rstr" where
  "host_text ep =
     and_then (context_of (ep_host ep) ''S3 endpoint needs a host'') (\<lambda>host.
     Inr (case ep_port ep of Some port \<Rightarrow> host @ [58] @ decimal (unat port) | None \<Rightarrow> host))"

definition canonical_uri :: "object_store \<Rightarrow> rstr \<Rightarrow> rstr" where
  "canonical_uri st key =
     aws_encode_path (trim_end_slashes (ep_path (os_endpoint st)) @ [47] @ os_bucket st @ [47] @ key)"

definition credential_scope :: "object_store \<Rightarrow> rstr \<Rightarrow> rstr" where
  "credential_scope st date = date @ [47] @ os_region st @ lit ''/s3/aws4_request''"

definition signed_headers :: "(rstr \<times> rstr) list \<Rightarrow> rstr" where
  "signed_headers required_headers = joined 59 (sort (map fst required_headers @ [lit ''host'']))"

definition query_pairs ::
  "store_lib \<Rightarrow> object_store \<Rightarrow> u32 \<Rightarrow> datetime \<Rightarrow> rstr \<Rightarrow> (rstr \<times> rstr) list" where
  "query_pairs L st expires_seconds now headers =
     sort_key fst
       [(lit ''X-Amz-Algorithm'', lit ''AWS4-HMAC-SHA256''),
        (lit ''X-Amz-Credential'', os_access_key st @ [47] @ credential_scope st (sl_amz_day L now)),
        (lit ''X-Amz-Date'', sl_amz_date L now),
        (lit ''X-Amz-Expires'', decimal (unat expires_seconds)),
        (lit ''X-Amz-SignedHeaders'', headers)]"

definition canonical_query ::
  "store_lib \<Rightarrow> object_store \<Rightarrow> u32 \<Rightarrow> datetime \<Rightarrow> rstr \<Rightarrow> rstr" where
  "canonical_query L st expires_seconds now headers =
     joined 38 (map (\<lambda>(name, value). aws_encode name @ [61] @ aws_encode value)
       (query_pairs L st expires_seconds now headers))"

definition canonical_headers :: "(rstr \<times> rstr) list \<Rightarrow> rstr \<Rightarrow> rstr" where
  "canonical_headers required_headers host =
     concat (sort (map (\<lambda>(name, value). to_ascii_lowercase name @ [58] @ trim value @ [10]) required_headers
       @ [lit ''host:'' @ host @ [10]]))"

definition canonical_request ::
  "store_lib \<Rightarrow> object_store \<Rightarrow> rstr \<Rightarrow> rstr \<Rightarrow> u32 \<Rightarrow> datetime \<Rightarrow> (rstr \<times> rstr) list \<Rightarrow> rstr \<Rightarrow> rstr" where
  "canonical_request L st verb key expires_seconds now required_headers host =
     (let headers = signed_headers required_headers in
      verb @ [10] @ canonical_uri st key @ [10]
        @ canonical_query L st expires_seconds now headers @ [10]
        @ canonical_headers required_headers host @ [10] @ headers @ [10] @ lit ''UNSIGNED-PAYLOAD'')"

definition string_to_sign ::
  "crypto \<Rightarrow> store_lib \<Rightarrow> object_store \<Rightarrow> rstr \<Rightarrow> datetime \<Rightarrow> rstr" where
  "string_to_sign C L st request now =
     lit ''AWS4-HMAC-SHA256'' @ [10] @ sl_amz_date L now @ [10] @ credential_scope st (sl_amz_day L now)
       @ [10] @ to_hex (c_sha256 C (utf8 request))"

definition signing_key :: "store_lib \<Rightarrow> object_store \<Rightarrow> rstr \<Rightarrow> u8 list" where
  "signing_key L st date =
     (let date_key = sl_hmac_sha256 L (utf8 (lit ''AWS4'' @ os_secret_key st)) (utf8 date);
          region_key = sl_hmac_sha256 L date_key (utf8 (os_region st));
          service_key = sl_hmac_sha256 L region_key (utf8 (lit ''s3''))
      in sl_hmac_sha256 L service_key (utf8 (lit ''aws4_request'')))"

definition presign ::
  "crypto \<Rightarrow> store_lib \<Rightarrow> object_store \<Rightarrow> rstr \<Rightarrow> rstr \<Rightarrow> u32 \<Rightarrow> datetime \<Rightarrow> (rstr \<times> rstr) list
     \<Rightarrow> string + presigned_request" where
  "presign C L st verb key expires_seconds now required_headers =
     and_then (ensure (key \<noteq> [] \<and> \<not> has_two_dots key) ''unsafe object key'') (\<lambda>_.
     and_then (ensure (1 \<le> expires_seconds \<and> expires_seconds \<le> 604800)
                 ''presigned URL expiry is out of range'') (\<lambda>_.
     let required_headers = sort_key fst required_headers in
     and_then (host_text (os_endpoint st)) (\<lambda>host.
     let request = canonical_request L st verb key expires_seconds now required_headers host;
         signature = to_hex (sl_hmac_sha256 L (signing_key L st (sl_amz_day L now))
                       (utf8 (string_to_sign C L st request now)));
         query = canonical_query L st expires_seconds now (signed_headers required_headers)
                   @ lit ''&X-Amz-Signature='' @ signature
     in Inr \<lparr>pr_url = sl_url_text L (os_endpoint st) (canonical_uri st key) query,
             pr_required_headers = required_headers\<rparr>)))"

definition presign_put ::
  "crypto \<Rightarrow> store_lib \<Rightarrow> object_store \<Rightarrow> rstr \<Rightarrow> rstr \<Rightarrow> rstr option \<Rightarrow> datetime
     \<Rightarrow> string + presigned_request" where
  "presign_put C L st key mime_type sha256 now =
     presign C L st (lit ''PUT'') key 600 now
       ((lit ''content-type'', mime_type)
          # (case sha256 of Some h \<Rightarrow> [(lit ''x-amz-meta-sha256'', h)] | None \<Rightarrow> []))"

definition presign_get ::
  "crypto \<Rightarrow> store_lib \<Rightarrow> object_store \<Rightarrow> rstr \<Rightarrow> datetime \<Rightarrow> string + presigned_request" where
  "presign_get C L st key now = presign C L st (lit ''GET'') key 600 now []"

section \<open>What an upload looks like\<close>

definition bytes_at :: "nat \<Rightarrow> u8 list \<Rightarrow> u8 list \<Rightarrow> bool" where
  "bytes_at i p bytes \<longleftrightarrow> take (length p) (drop i bytes) = p"

definition ascii :: "string \<Rightarrow> u8 list" where
  "ascii s = map word_of_nat (lit s)"

definition is_executable :: "u8 list \<Rightarrow> bool" where
  "is_executable bytes \<longleftrightarrow> bytes_at 0 (ascii ''MZ'') bytes
     \<or> bytes_at 0 (0x7f # ascii ''ELF'') bytes
     \<or> bytes_at 0 [0xfe, 0xed, 0xfa, 0xce] bytes
     \<or> bytes_at 0 [0xfe, 0xed, 0xfa, 0xcf] bytes
     \<or> bytes_at 0 [0xcf, 0xfa, 0xed, 0xfe] bytes
     \<or> bytes_at 0 [0xce, 0xfa, 0xed, 0xfe] bytes"

definition mpeg_frame :: "u8 list \<Rightarrow> bool" where
  "mpeg_frame bytes = (case bytes of a # b # _ \<Rightarrow> a = 0xff \<and> b AND 0xe0 = 0xe0 | _ \<Rightarrow> False)"

definition magic_matches :: "rstr \<Rightarrow> u8 list \<Rightarrow> bool" where
  "magic_matches mime_type bytes =
     (let m = to_ascii_lowercase mime_type in
      if m = lit ''image/png'' then bytes_at 0 [0x89, 0x50, 0x4e, 0x47, 0x0d, 0x0a, 0x1a, 0x0a] bytes
      else if m = lit ''image/jpeg'' then bytes_at 0 [0xff, 0xd8, 0xff] bytes
      else if m = lit ''image/gif'' then bytes_at 0 (ascii ''GIF87a'') bytes \<or> bytes_at 0 (ascii ''GIF89a'') bytes
      else if m = lit ''image/webp'' then bytes_at 0 (ascii ''RIFF'') bytes \<and> bytes_at 8 (ascii ''WEBP'') bytes
      else if m = lit ''audio/ogg'' \<or> m = lit ''video/ogg'' then bytes_at 0 (ascii ''OggS'') bytes
      else if m = lit ''audio/wav'' \<or> m = lit ''audio/x-wav''
        then bytes_at 0 (ascii ''RIFF'') bytes \<and> bytes_at 8 (ascii ''WAVE'') bytes
      else if m = lit ''audio/mpeg'' then bytes_at 0 (ascii ''ID3'') bytes \<or> mpeg_frame bytes
      else if m = lit ''video/mp4'' then bytes_at 4 (ascii ''ftyp'') bytes
      else if m = lit ''video/webm'' \<or> m = lit ''audio/webm'' then bytes_at 0 [0x1a, 0x45, 0xdf, 0xa3] bytes
      else if m = lit ''application/pdf'' then bytes_at 0 (ascii ''%PDF-'') bytes
      else \<not> is_executable bytes)"

definition validate_magic :: "rstr \<Rightarrow> u8 list \<Rightarrow> string + unit" where
  "validate_magic mime_type bytes =
     ensure (magic_matches mime_type bytes) ''uploaded object signature does not match its MIME type''"

definition eq_ignore_ascii_case :: "rstr \<Rightarrow> rstr \<Rightarrow> bool" where
  "eq_ignore_ascii_case a b \<longleftrightarrow> to_ascii_lowercase a = to_ascii_lowercase b"

section \<open>Requests to the store\<close>

text \<open>The value of a header without its parameters.\<close>

definition media_type :: "rstr \<Rightarrow> rstr" where
  "media_type value = trim (hd (split_on 59 value))"

definition verify_head :: "rstr \<Rightarrow> u64 \<Rightarrow> rstr option \<Rightarrow> web_response \<Rightarrow> string + unit" where
  "verify_head expected_mime expected_size expected_sha256 response =
     and_then (ensure (is_success response) ''uploaded object was not found'') (\<lambda>_.
     and_then (context_of (Option.bind (wr_header response (lit ''content-length'')) parse_u64)
                 ''object-store response omitted content length'') (\<lambda>content_length.
     and_then (ensure (content_length = expected_size) ''uploaded object size changed'') (\<lambda>_.
     and_then (context_of (map_option media_type (wr_header response (lit ''content-type'')))
                 ''object-store response omitted content type'') (\<lambda>content_type.
     and_then (ensure (eq_ignore_ascii_case content_type expected_mime)
                 ''uploaded object content type changed'') (\<lambda>_.
     case expected_sha256 of
       None \<Rightarrow> Inr ()
     | Some expected \<Rightarrow>
         and_then (context_of (wr_header response (lit ''x-amz-meta-sha256''))
                     ''uploaded object omitted SHA-256 metadata'') (\<lambda>actual.
         ensure (eq_ignore_ascii_case actual expected) ''uploaded object SHA-256 metadata changed''))))))"

definition verify_object ::
  "crypto \<Rightarrow> store_lib \<Rightarrow> web \<Rightarrow> object_store \<Rightarrow> rstr \<Rightarrow> rstr \<Rightarrow> u64 \<Rightarrow> rstr option \<Rightarrow> datetime
     \<Rightarrow> string + unit" where
  "verify_object C L web st key expected_mime expected_size expected_sha256 now =
     and_then (presign C L st (lit ''HEAD'') key 60 now []) (\<lambda>head.
     and_then (context_of (web 0 (lit ''HEAD'') (pr_url head)) ''object-store HEAD request failed'') (\<lambda>response.
     and_then (verify_head expected_mime expected_size expected_sha256 response) (\<lambda>_.
     and_then (presign_get C L st key now) (\<lambda>get.
     and_then (context_of (web 1 (lit ''GET'') (pr_url get)) ''object-store range request failed'') (\<lambda>response.
     and_then (ensure (is_success response) ''uploaded object could not be inspected'') (\<lambda>_.
     and_then (context_of (wr_body response) ''uploaded object prefix could not be read'') (\<lambda>prefix.
     validate_magic expected_mime prefix)))))))"

definition delete_object ::
  "crypto \<Rightarrow> store_lib \<Rightarrow> web \<Rightarrow> object_store \<Rightarrow> rstr \<Rightarrow> datetime \<Rightarrow> string + unit" where
  "delete_object C L web st key now =
     and_then (presign C L st (lit ''DELETE'') key 60 now []) (\<lambda>request.
     and_then (context_of (web 0 (lit ''DELETE'') (pr_url request))
                 ''object-store delete request failed'') (\<lambda>response.
     ensure (is_success response \<or> wr_status response = 404) ''object-store delete request was rejected''))"

definition read_object ::
  "crypto \<Rightarrow> store_lib \<Rightarrow> web \<Rightarrow> object_store \<Rightarrow> rstr \<Rightarrow> u64 \<Rightarrow> datetime \<Rightarrow> string + u8 list" where
  "read_object C L web st key maximum_bytes now =
     and_then (presign_get C L st key now) (\<lambda>request.
     and_then (context_of (web 0 (lit ''GET'') (pr_url request)) ''object-store GET request failed'') (\<lambda>response.
     and_then (ensure (\<not> is_error_status response) ''object-store rejected GET request'') (\<lambda>_.
     and_then (ensure (case wr_content_length response of Some n \<Rightarrow> n \<le> maximum_bytes | None \<Rightarrow> True)
                 ''object exceeds read limit'') (\<lambda>_.
     and_then (context_of (wr_body response) ''object-store response could not be read'') (\<lambda>bytes.
     and_then (ensure (length bytes \<le> unat maximum_bytes) ''object exceeds read limit'') (\<lambda>_.
     Inr bytes))))))"

section \<open>The verdict of the malware scanner\<close>

text \<open>\<open>apps/server/src/malware.rs\<close>: the answer of \<open>clamd\<close> to the bytes is a parameter, \<open>None\<close> when the
  exchange fails or times out.\<close>

datatype scan_verdict = Clean | Infected rstr

definition ends_with :: "rstr \<Rightarrow> rstr \<Rightarrow> bool" where
  "ends_with p s \<longleftrightarrow> length p \<le> length s \<and> drop (length s - length p) s = p"

definition trim_matches :: "(nat \<Rightarrow> bool) \<Rightarrow> rstr \<Rightarrow> rstr" where
  "trim_matches P s = rev (dropWhile P (rev (dropWhile P s)))"

definition scan_reply :: "u8 list \<Rightarrow> string + scan_verdict" where
  "scan_reply response =
     and_then (context_of (utf8_decode response) ''clamd returned invalid UTF-8'') (\<lambda>response.
     let response = trim_matches (\<lambda>c. c \<in> {0, 13, 10}) response in
     if ends_with (lit '' OK'') response then Inr Clean
     else if ends_with (lit '' FOUND'') response then
       let value = take (length response - 6) response;
           signature = trim (if 58 \<in> set value then tl (dropWhile (\<lambda>c. c \<noteq> 58) value) else value)
       in Inr (Infected signature)
     else Inl ''clamd returned an unknown response'')"

fun chunks :: "nat \<Rightarrow> u8 list \<Rightarrow> (u8 list) list" where
  "chunks n bs = (if n = 0 \<or> bs = [] then [] else take n bs # chunks n (drop n bs))"

declare chunks.simps [simp del]

definition be32 :: "nat \<Rightarrow> u8 list" where
  "be32 n = map (\<lambda>i. word_of_nat (n div 256 ^ (3 - i))) [0..<4]"

definition scan_request :: "u8 list \<Rightarrow> u8 list" where
  "scan_request bytes =
     ascii ''zINSTREAM'' @ [0]
       @ concat (map (\<lambda>chunk. be32 (length chunk) @ chunk) (chunks 65536 bytes)) @ be32 0"

definition scan :: "(u8 list \<Rightarrow> u8 list option) \<Rightarrow> u8 list \<Rightarrow> string + scan_verdict" where
  "scan clamd bytes =
     and_then (context_of (clamd (scan_request bytes)) ''malware scan failed'') (\<lambda>response.
     scan_reply (take 4096 response))"


section \<open>A signature is for one request\<close>

lemma sep_inj: "c \<notin> set a \<Longrightarrow> c \<notin> set a' \<Longrightarrow> a @ c # b = a' @ c # b' \<longleftrightarrow> a = a' \<and> b = b'"
proof (induction a arbitrary: a')
  case Nil
  then show ?case by (cases a') auto
next
  case (Cons x a)
  then show ?case by (cases a') auto
qed

text \<open>The inverse of percent encoding.\<close>

definition hex_value :: "nat \<Rightarrow> nat" where
  "hex_value c = (if c < 58 then c - 48 else c - 55)"

fun unescape :: "rstr \<Rightarrow> nat list" where
  "unescape (c # h # l # r) =
     (if c = 37 then (hex_value h * 16 + hex_value l) # unescape r else c # unescape (h # l # r))"
| "unescape r = r"

lemma unescape_plain: "c \<noteq> 37 \<Longrightarrow> unescape (c # r) = c # unescape r"
  by (cases r rule: unescape.cases) auto

lemma hex_value_upper [simp]: "n < 16 \<Longrightarrow> hex_value (upper_hex_digit n) = n"
  by (simp add: hex_value_def upper_hex_digit_def)

lemma unescape_aws_byte: "unescape (aws_byte b @ r) = unat b # unescape r"
proof -
  have "unat b < 256" using unsigned_less [of b] by simp
  then have "unat b div 16 < 16" by simp
  moreover have "unreserved (unat b) \<Longrightarrow> unat b \<noteq> 37"
    by (auto simp: unreserved_def ascii_defs)
  ultimately show ?thesis
    by (simp add: aws_byte_def unescape_plain mod_less_divisor del: div_less_dividend)
qed

lemma unescape_aws_encode: "unescape (aws_encode v @ r) = map unat (utf8 v) @ unescape r"
proof -
  have "unescape (concat (map aws_byte bs) @ r) = map unat bs @ unescape r" for bs
    by (induction bs) (simp_all add: unescape_aws_byte)
  then show ?thesis by (simp add: aws_encode_def)
qed

lemma unreserved_upper_hex: "n < 16 \<Longrightarrow> unreserved (upper_hex_digit n)"
  by (simp add: unreserved_def upper_hex_digit_def ascii_defs)

lemma aws_byte_chars:
  assumes "c \<in> set (aws_byte b)"
  shows "c = 37 \<or> unreserved c"
proof (cases "unreserved (unat b)")
  case False
  have "unat b < 256" using unsigned_less [of b] by simp
  then have "unat b div 16 < 16" "unat b mod 16 < 16" by simp_all
  then have "unreserved (upper_hex_digit (unat b div 16))" "unreserved (upper_hex_digit (unat b mod 16))"
    by (simp_all add: unreserved_upper_hex)
  with assms False show ?thesis unfolding aws_byte_def by fastforce
qed (use assms in \<open>simp add: aws_byte_def\<close>)

lemma aws_encode_chars: "c \<in> set (aws_encode v) \<Longrightarrow> c = 37 \<or> unreserved c"
  by (auto simp: aws_encode_def dest: aws_byte_chars)

lemma aws_encode_seps [simp]:
  "10 \<notin> set (aws_encode v)" "38 \<notin> set (aws_encode v)" "47 \<notin> set (aws_encode v)" "61 \<notin> set (aws_encode v)"
  by (auto dest!: aws_encode_chars simp: unreserved_def ascii_defs)

lemma utf8_inj:
  assumes "\<forall>c\<in>set s. scalar_value c" "\<forall>c\<in>set t. scalar_value c" "utf8 s = utf8 t"
  shows "s = t"
proof -
  have "Some s = utf8_decode (utf8 s)" by (rule utf8_decode_utf8 [OF assms(1), symmetric])
  also have "\<dots> = Some t" unfolding assms(3) by (rule utf8_decode_utf8 [OF assms(2)])
  finally show ?thesis by (rule option.inject [THEN iffD1])
qed

lemma map_unat_inj: "map unat xs = map unat ys \<longleftrightarrow> xs = ys" for xs ys :: "u8 list"
  by (rule inj_map_eq_map) (auto intro: injI unsigned_word_eqI)

lemma aws_encode_utf8: "aws_encode s = aws_encode t \<Longrightarrow> utf8 s = utf8 t"
  using unescape_aws_encode [of s "[]"] unescape_aws_encode [of t "[]"]
  by (simp add: map_unat_inj)

lemma split_on_not_Nil [simp]: "split_on c s \<noteq> []"
  by (cases s) (auto split: list.split)

lemma aws_encode_Cons: "aws_encode (c # s) = aws_encode [c] @ aws_encode s"
  by (simp add: aws_encode_def utf8_def)

lemma aws_encode_path_Cons:
  "aws_encode_path (c # s) = (if c = 47 then [47] else aws_encode [c]) @ aws_encode_path s"
proof (cases "split_on 47 s")
  case (Cons p ps)
  then show ?thesis
    by (cases ps) (simp_all add: aws_encode_path_def aws_encode_Cons [of c p], simp_all add: aws_encode_def utf8_def)
qed (simp add: split_on_not_Nil [THEN notE])

lemma utf8_slash: "utf8 (c # s) = utf8_char c @ utf8 s"
  by (simp add: utf8_def)

lemma unescape_aws_encode_path: "unescape (aws_encode_path v) = map unat (utf8 v)"
proof (induction v)
  case (Cons c s)
  have "unescape (aws_encode [c] @ aws_encode_path s) = map unat (utf8 [c]) @ unescape (aws_encode_path s)"
    by (rule unescape_aws_encode)
  with Cons show ?case
    by (auto simp: aws_encode_path_Cons unescape_plain utf8_def utf8_char_def)
qed (simp add: aws_encode_path_def aws_encode_def utf8_def)

lemma aws_encode_path_utf8: "aws_encode_path s = aws_encode_path t \<Longrightarrow> utf8 s = utf8 t"
  using unescape_aws_encode_path [of s] unescape_aws_encode_path [of t]
  by (simp add: map_unat_inj)

lemma aws_encode_path_no_newline [simp]: "10 \<notin> set (aws_encode_path v)"
  by (induction v) (simp_all add: aws_encode_path_Cons, simp add: aws_encode_path_def aws_encode_def utf8_def)


lemma query_pairs_sorted: "query_pairs L st e now headers =
  [(lit ''X-Amz-Algorithm'', lit ''AWS4-HMAC-SHA256''),
   (lit ''X-Amz-Credential'', os_access_key st @ [47] @ credential_scope st (sl_amz_day L now)),
   (lit ''X-Amz-Date'', sl_amz_date L now),
   (lit ''X-Amz-Expires'', decimal (unat e)),
   (lit ''X-Amz-SignedHeaders'', headers)]"
  by (simp add: query_pairs_def)

lemma canonical_query_no_newline [simp]: "10 \<notin> set (canonical_query L st e now headers)"
  by (simp add: canonical_query_def query_pairs_sorted)

lemma canonical_query_inj:
  assumes "canonical_query L st e now headers = canonical_query L st e' now' headers'"
  shows "e = e' \<and> utf8 (sl_amz_date L now) = utf8 (sl_amz_date L now')"
proof -
  have parts: "aws_encode (sl_amz_date L now) = aws_encode (sl_amz_date L now')"
    "aws_encode (decimal (unat e)) = aws_encode (decimal (unat e'))"
    using assms by (simp_all add: canonical_query_def query_pairs_sorted sep_inj)
  have "utf8 (decimal (unat e)) = utf8 (decimal (unat e'))"
    by (rule aws_encode_utf8 [OF parts(2)])
  then have "decimal (unat e) = decimal (unat e')"
    using decimal_digits [of "unat e"] decimal_digits [of "unat e'"]
    by (subst (asm) utf8_ascii_inj) (force simp: is_ascii_digit_def)+
  moreover have "unat n < 2 ^ 64" for n :: u32
    using unsigned_less [of n, where 'a = nat] by simp
  ultimately have "Some (unat e) = Some (unat e')"
    by (metis digits_value_decimal)
  then have "unat e = unat e'" by (rule option.inject [THEN iffD1])
  then show ?thesis using aws_encode_utf8 [OF parts(1)] by (simp add: unsigned_word_eqI)
qed

lemma canonical_request_inj:
  assumes "canonical_request L st verb key e now h host = canonical_request L st verb' key' e' now' h' host'"
    and "10 \<notin> set verb" "10 \<notin> set verb'"
  shows "verb = verb' \<and> utf8 key = utf8 key' \<and> e = e' \<and> utf8 (sl_amz_date L now) = utf8 (sl_amz_date L now')"
proof -
  have "verb = verb'" "canonical_uri st key = canonical_uri st key'"
    "canonical_query L st e now (signed_headers h) = canonical_query L st e' now' (signed_headers h')"
    using assms by (simp_all add: canonical_request_def Let_def sep_inj canonical_uri_def)
  moreover from this(2) have "utf8 key = utf8 key'"
    unfolding canonical_uri_def by (drule_tac aws_encode_path_utf8) (simp add: utf8_def)
  ultimately show ?thesis using canonical_query_inj by blast
qed


lemma hex_digit_inj: "unat a < 16 \<Longrightarrow> unat b < 16 \<Longrightarrow> hex_digit a = hex_digit b \<longleftrightarrow> a = b"
  by (auto simp: hex_digit_def word_unat_eq_iff split: if_splits)

lemma nibbles_eq:
  assumes "drop_bit 4 a = drop_bit 4 b" "and a 15 = and b 15"
  shows "a = (b :: u8)"
proof -
  have "unat a div 16 = unat b div 16"
    using arg_cong [OF assms(1), of unat] by (simp add: drop_bit_eq_div unat_div)
  moreover have "unat a mod 16 = unat b mod 16"
    using arg_cong [OF assms(2), of unat] by (simp only: unat_low_nibble)
  ultimately show ?thesis by (metis div_mult_mod_eq word_unat_eq_iff)
qed

lemma to_hex_inj: "to_hex xs = to_hex ys \<longleftrightarrow> xs = ys"
proof (induction xs arbitrary: ys)
  case Nil
  then show ?case by (cases ys) auto
next
  case (Cons x xs)
  have low: "unat (and b 15) < 16" for b :: u8
    by (simp add: unat_low_nibble)
  show ?case
    by (cases ys) (auto simp: Cons.IH hex_digit_inj low unat_high_nibble dest: nibbles_eq)
qed

lemma to_hex_no_newline [simp]: "10 \<notin> set (to_hex xs)"
  by (induction xs) (auto simp: hex_digit_def)

lemma sep_inj_last: "c \<notin> set b \<Longrightarrow> c \<notin> set b' \<Longrightarrow> a @ c # b = a' @ c # b' \<longleftrightarrow> a = a' \<and> b = b'"
  using sep_inj [of c "rev b" "rev b'" "rev a" "rev a'"] by (metis append.assoc append_Cons append_Nil rev.simps(2) rev_append rev_is_rev_conv set_rev)

lemma string_to_sign_inj:
  assumes "string_to_sign C L st r now = string_to_sign C L st r' now'"
  shows "c_sha256 C (utf8 r) = c_sha256 C (utf8 r')"
proof -
  define before where "before = (\<lambda>t. lit ''AWS4-HMAC-SHA256'' @ [10] @ sl_amz_date L t @ [10]
    @ credential_scope st (sl_amz_day L t))"
  have "string_to_sign C L st q t = before t @ 10 # to_hex (c_sha256 C (utf8 q))" for q t
    by (simp add: string_to_sign_def before_def)
  with assms have "to_hex (c_sha256 C (utf8 r)) = to_hex (c_sha256 C (utf8 r'))"
    by (simp only: sep_inj_last [OF to_hex_no_newline to_hex_no_newline])
  then show ?thesis by (simp only: to_hex_inj)
qed

text \<open>A signature of the object store is for one request: when two requests differ in the method, in
  the key, in the validity or in the time stamp, then different strings are signed, unless SHA-256
  collides on the two canonical requests.  So the URL handed out to upload one object cannot be turned
  into one that reads, removes or overwrites another.\<close>

theorem signature_binds_request:
  assumes "request = canonical_request L st verb key e now h host"
    and "request' = canonical_request L st verb' key' e' now' h' host'"
    and "10 \<notin> set verb" "10 \<notin> set verb'"
    and "verb \<noteq> verb' \<or> utf8 key \<noteq> utf8 key' \<or> e \<noteq> e' \<or> utf8 (sl_amz_date L now) \<noteq> utf8 (sl_amz_date L now')"
    and "request \<noteq> request' \<longrightarrow> c_sha256 C (utf8 request) \<noteq> c_sha256 C (utf8 request')"
  shows "string_to_sign C L st request now \<noteq> string_to_sign C L st request' now'"
proof -
  have "request \<noteq> request'"
    using assms(3-5) canonical_request_inj unfolding assms(1,2) by blast
  then show ?thesis using assms(6) string_to_sign_inj by blast
qed

end
