(* ===== verification/Http_Base.thy ===== *)
theory Http_Base
  imports Live_Frames Service_Steps Object_Store
begin

text \<open>
  What every HTTP handler of the server rests on (\<open>apps/server/src/error.rs\<close> and the first part of
  \<open>apps/server/src/api.rs\<close>): the error answers, the state shared by the handlers, the rate limiter,
  the authentication of users and administrators, and the tickets for WebSocket connections.

  Identifiers the handlers draw (correlation identifiers, tickets) come from \<open>ap_fresh\<close>.  An \<open>Instant\<close>
  is a number of milliseconds.  Routing, extraction of bodies and paths, and the tower layers around the
  router belong to \<open>axum\<close> and are not modelled; a handler gets its arguments decoded.
\<close>

section \<open>Error answers\<close>

record app_error =
  ar_status :: nat
  ar_body :: api_error

text \<open>A panic unwinds out of the handler: no answer is written.\<close>

datatype http_failure = Refused app_error | Crashed string

definition app_error_new ::
  "uuid \<Rightarrow> nat \<Rightarrow> error_code \<Rightarrow> string \<Rightarrow> string option \<Rightarrow> bool \<Rightarrow> app_error" where
  "app_error_new i status code key field retryable =
     \<lparr>ar_status = status, ar_body = \<lparr>ae_code = code, ae_message_key = lit key,
        ae_field = map_option (\<lambda>f. lit f) field, ae_correlation_id = i, ae_retryable = retryable\<rparr>\<rparr>"

definition validation_error :: "uuid \<Rightarrow> string \<Rightarrow> app_error" where
  "validation_error i field = app_error_new i 422 ValidationError ''error.validation'' (Some field) False"

definition unauthorized_error :: "uuid \<Rightarrow> app_error" where
  "unauthorized_error i = app_error_new i 401 AuthenticationRequired ''error.authentication_required'' None False"

definition rate_limited_error :: "uuid \<Rightarrow> app_error" where
  "rate_limited_error i = app_error_new i 429 RateLimited ''error.rate_limited'' None True"

fun domain_answer :: "uuid \<Rightarrow> domain_error \<Rightarrow> app_error" where
  "domain_answer i (Validation field reason) = validation_error i field"
| "domain_answer i Forbidden = app_error_new i 403 ForbiddenError ''error.forbidden'' None False"
| "domain_answer i SelfTarget = app_error_new i 403 ForbiddenError ''error.forbidden'' None False"
| "domain_answer i DomNotFound = app_error_new i 404 NotFoundError ''error.not_found'' None False"
| "domain_answer i DomConflict = app_error_new i 409 ConflictError ''error.conflict'' None False"
| "domain_answer i (InvalidTransition from to) = app_error_new i 409 ConflictError ''error.conflict'' None False"
| "domain_answer i EmptyMessage = validation_error i ''message''"
| "domain_answer i MessageTooLarge = validation_error i ''message''"
| "domain_answer i StaleCursor = validation_error i ''message''"

fun application_answer :: "uuid \<Rightarrow> application_error \<Rightarrow> http_failure" where
  "application_answer i (Domain e) = Refused (domain_answer i e)"
| "application_answer i AccountConflict = Refused (app_error_new i 409 ConflictError ''error.conflict'' None False)"
| "application_answer i Conflict = Refused (app_error_new i 409 ConflictError ''error.conflict'' None False)"
| "application_answer i InvalidCredentials =
     Refused (app_error_new i 401 AuthenticationFailed ''error.invalid_credentials'' None False)"
| "application_answer i SecondFactorRequired = Refused (app_error_new i 401 AuthenticationFailed
     ''error.second_factor_required'' (Some ''second_factor_code'') False)"
| "application_answer i InvalidSecondFactor = Refused (app_error_new i 401 AuthenticationFailed
     ''error.invalid_second_factor'' (Some ''second_factor_code'') False)"
| "application_answer i Unauthorized = Refused (unauthorized_error i)"
| "application_answer i SessionExpired = Refused (unauthorized_error i)"
| "application_answer i RefreshTokenReuse =
     Refused (app_error_new i 401 AuthenticationFailed ''error.refresh_token_reuse'' None False)"
| "application_answer i NotFound = Refused (app_error_new i 404 NotFoundError ''error.not_found'' None False)"
| "application_answer i Storage =
     Refused (app_error_new i 503 ServiceUnavailable ''error.storage_unavailable'' None True)"
| "application_answer i (Panicked why) = Crashed why"

section \<open>The state of the handlers\<close>

record bucket =
  bk_started_at :: int
  bk_count :: u32

record ws_ticket =
  wt_user_id :: user_id
  wt_expires_at :: int

record metrics =
  mt_requests :: u64
  mt_client_errors :: u64
  mt_server_errors :: u64
  mt_request_latency_micros :: u64
  mt_request_latency_samples :: u64
  mt_auth_failures :: u64
  mt_messages_sent :: u64
  mt_message_failures :: u64
  mt_ack_latency_micros :: u64
  mt_ack_latency_samples :: u64
  mt_sync_backlog_events :: u64
  mt_connections_total :: u64
  mt_connections_active :: u64
  mt_quarantined_files :: u64

text \<open>Letters handed to the mailer, which sends them in tasks of its own.\<close>

datatype mail =
    New_device_mail rstr rstr rstr rstr datetime
  | Password_reset_mail password_reset_delivery

record app =
  ap_service :: service
  ap_buckets :: "(rstr, bucket) hashmap"
  ap_tickets :: "(rstr, ws_ticket) hashmap"
  ap_metrics :: metrics
  ap_mailer :: bool
  ap_mails :: "mail list"
  ap_object_store :: "object_store option"
  ap_translator :: bool
  ap_transcriber :: bool
  ap_scanner :: bool
  ap_database :: bool
  ap_admin_token :: "rstr option"
  ap_fresh :: "nat \<Rightarrow> uuid"
  ap_drawn :: nat

type_synonym 'a http = "(app, http_failure, 'a) eff"

definition new_metrics :: metrics where
  "new_metrics = \<lparr>mt_requests = 0, mt_client_errors = 0, mt_server_errors = 0,
     mt_request_latency_micros = 0, mt_request_latency_samples = 0, mt_auth_failures = 0,
     mt_messages_sent = 0, mt_message_failures = 0, mt_ack_latency_micros = 0, mt_ack_latency_samples = 0,
     mt_sync_backlog_events = 0, mt_connections_total = 0, mt_connections_active = 0,
     mt_quarantined_files = 0\<rparr>"

definition app_new :: "service \<Rightarrow> (nat \<Rightarrow> uuid) \<Rightarrow> app" where
  "app_new sv fresh = \<lparr>ap_service = sv, ap_buckets = [], ap_tickets = [], ap_metrics = new_metrics,
     ap_mailer = False, ap_mails = [], ap_object_store = None, ap_translator = False,
     ap_transcriber = False, ap_scanner = False, ap_database = False, ap_admin_token = None, ap_fresh = fresh, ap_drawn = 0\<rparr>"

definition with_mailer :: "app \<Rightarrow> app" where
  "with_mailer a = a\<lparr>ap_mailer := True\<rparr>"

definition with_database :: "app \<Rightarrow> app" where
  "with_database a = a\<lparr>ap_database := True\<rparr>"

definition with_object_store :: "object_store \<Rightarrow> app \<Rightarrow> app" where
  "with_object_store st a = a\<lparr>ap_object_store := Some st\<rparr>"

definition with_translator :: "bool \<Rightarrow> app \<Rightarrow> app" where
  "with_translator present a = a\<lparr>ap_translator := present\<rparr>"

definition with_transcriber :: "bool \<Rightarrow> app \<Rightarrow> app" where
  "with_transcriber present a = a\<lparr>ap_transcriber := present\<rparr>"

definition with_malware_scanner :: "bool \<Rightarrow> app \<Rightarrow> app" where
  "with_malware_scanner present a = a\<lparr>ap_scanner := present\<rparr>"

definition with_admin_token :: "rstr option \<Rightarrow> app \<Rightarrow> app" where
  "with_admin_token token a = a\<lparr>ap_admin_token := token\<rparr>"

definition draw_id :: "uuid http" where
  "draw_id = (\<lambda>a. (Inr (ap_fresh a (ap_drawn a)), a\<lparr>ap_drawn := Suc (ap_drawn a)\<rparr>))"

definition refuse :: "(uuid \<Rightarrow> app_error) \<Rightarrow> 'a http" where
  "refuse e = bnd draw_id (\<lambda>i. throw (Refused (e i)))"

definition refuse_if :: "bool \<Rightarrow> (uuid \<Rightarrow> app_error) \<Rightarrow> unit http" where
  "refuse_if b e = (if b then refuse e else ret ())"

text \<open>A call of the service with \<open>?\<close>, and a read of its store.\<close>

definition answer :: "application_error + 'a \<Rightarrow> 'a http" where
  "answer r = (case r of Inr x \<Rightarrow> ret x | Inl e \<Rightarrow> bnd draw_id (\<lambda>i. throw (application_answer i e)))"

definition attempt :: "'a svc \<Rightarrow> (application_error + 'a) http" where
  "attempt m = (\<lambda>a. case m (ap_service a) of (r, sv) \<Rightarrow> (Inr r, a\<lparr>ap_service := sv\<rparr>))"

definition call :: "'a svc \<Rightarrow> 'a http" where
  "call m = bnd (attempt m) answer"

definition view :: "(txn \<Rightarrow> 'a) \<Rightarrow> 'a http" where
  "view f = gets (\<lambda>a. f (svc_txn (ap_service a)))"

definition look :: "(txn \<Rightarrow> application_error + 'a) \<Rightarrow> 'a http" where
  "look f = bnd (view f) answer"

section \<open>The rate limiter\<close>

definition duration_since :: "int \<Rightarrow> int \<Rightarrow> int" where
  "duration_since now earlier = max 0 (now - earlier)"

definition rate_check ::
  "rstr \<Rightarrow> u32 \<Rightarrow> int \<Rightarrow> int \<Rightarrow> (rstr, bucket) hashmap \<Rightarrow> bool \<times> (rstr, bucket) hashmap" where
  "rate_check key max_count window now buckets =
     (let buckets = hm_retain (\<lambda>_ b. duration_since now (bk_started_at b) \<le> window) buckets;
          bucket = (case hm_get key buckets of Some b \<Rightarrow> b | None \<Rightarrow> \<lparr>bk_started_at = now, bk_count = 0\<rparr>);
          bucket = (if duration_since now (bk_started_at bucket) > window
                    then \<lparr>bk_started_at = now, bk_count = 0\<rparr> else bucket)
      in if bk_count bucket \<ge> max_count then (False, hm_insert key bucket buckets)
         else (True, hm_insert key (bucket\<lparr>bk_count := bk_count bucket + 1\<rparr>) buckets))"

text \<open>\<open>rate_limit(&state, address.ip(), scope, max)\<close>.\<close>

definition RATE_WINDOW :: int where "RATE_WINDOW = 60000"

definition rate_key :: "string \<Rightarrow> rstr \<Rightarrow> rstr" where
  "rate_key scope ip = lit scope @ [58] @ ip"

definition rate_limit :: "rstr \<Rightarrow> int \<Rightarrow> string \<Rightarrow> u32 \<Rightarrow> unit http" where
  "rate_limit ip instant scope max_count =
     bnd (\<lambda>a. case rate_check (rate_key scope ip) max_count RATE_WINDOW instant (ap_buckets a) of
            (ok, buckets) \<Rightarrow> (Inr ok, a\<lparr>ap_buckets := buckets\<rparr>)) (\<lambda>ok.
     refuse_if (\<not> ok) rate_limited_error)"

section \<open>Requests and authentication\<close>

text \<open>The libraries the handlers use: \<open>hl_parse_url\<close> gives the scheme and the normal form of a URL.\<close>

record http_lib =
  hl_crypto :: crypto
  hl_unicode :: unicode
  hl_store_lib :: store_lib
  hl_parse_url :: "rstr \<Rightarrow> (rstr \<times> rstr) option"

text \<open>A request and what its handling meets: \<open>rq_at n\<close> is the \<open>n\<close>-th reading of the clock,
  \<open>rq_instant\<close> the monotonic clock in milliseconds, \<open>rq_elapsed\<close> the time the handling took in
  microseconds; the headers are given as text where they are readable as such.  The last fields are the
  answers of the object store, the malware scanner, the translation and the transcription service and
  the database, \<open>None\<close> for a failure.\<close>

record request =
  rq_ip :: rstr
  rq_authorization :: "rstr option"
  rq_admin_token :: "rstr option"
  rq_at :: "nat \<Rightarrow> datetime"
  rq_today :: date
  rq_instant :: int
  rq_elapsed :: nat
  rq_web :: web
  rq_clamd :: "u8 list \<Rightarrow> u8 list option"
  rq_translate :: "rstr \<Rightarrow> rstr \<Rightarrow> (rstr \<times> rstr option) option"
  rq_transcribe :: "u8 list \<Rightarrow> rstr \<Rightarrow> rstr \<Rightarrow> (rstr \<times> rstr option) option"
  rq_database_up :: bool

definition bearer_token :: "request \<Rightarrow> rstr option" where
  "bearer_token rq = Option.bind (rq_authorization rq)
     (\<lambda>h. if starts_with (lit ''Bearer '') h then Some (drop 7 h) else None)"

definition current_user :: "crypto \<Rightarrow> request \<Rightarrow> (user_id \<times> device_id) http" where
  "current_user C rq =
     (case bearer_token rq of
        None \<Rightarrow> refuse unauthorized_error
      | Some token \<Rightarrow> look (\<lambda>s. authenticate_identity C s token (rq_at rq 0)))"

definition constant_time_secret_eq :: "crypto \<Rightarrow> rstr \<Rightarrow> rstr \<Rightarrow> bool" where
  "constant_time_secret_eq C left right =
     (fold (\<lambda>(l, r) difference. difference OR (l XOR r))
        (zip (c_sha256 C (utf8 left)) (c_sha256 C (utf8 right))) 0 = 0)"

definition admin_access :: "crypto \<Rightarrow> request \<Rightarrow> unit http" where
  "admin_access C rq =
     bnd (gets ap_admin_token) (\<lambda>configured.
     refuse_if (case (rq_admin_token rq, configured) of
                  (Some supplied, Some expected) \<Rightarrow> \<not> constant_time_secret_eq C supplied expected
                | _ \<Rightarrow> True) unauthorized_error)"

section \<open>Tickets\<close>

text \<open>A version 4 UUID in its simple form: 32 hexadecimal digits.\<close>

definition simple_uuid :: "uuid \<Rightarrow> rstr" where
  "simple_uuid u = to_hex (map (\<lambda>i. ucast (drop_bit (8 * (15 - i)) u)) [0..<16])"

definition issue_ticket :: "user_id \<Rightarrow> int \<Rightarrow> rstr http" where
  "issue_ticket user instant =
     bnd draw_id (\<lambda>i.
     bnd (modify (\<lambda>a. a\<lparr>ap_tickets := hm_insert (simple_uuid i)
            \<lparr>wt_user_id = user, wt_expires_at = instant + 30000\<rparr>
            (hm_retain (\<lambda>_ t. wt_expires_at t > instant) (ap_tickets a))\<rparr>)) (\<lambda>_.
     ret (simple_uuid i)))"

definition redeem_ticket :: "rstr \<Rightarrow> int \<Rightarrow> ws_ticket http" where
  "redeem_ticket ticket instant =
     bnd (gets (\<lambda>a. hm_get ticket (ap_tickets a))) (\<lambda>found.
     bnd (modify (\<lambda>a. a\<lparr>ap_tickets := hm_remove ticket (ap_tickets a)\<rparr>)) (\<lambda>_.
     case found of
       Some t \<Rightarrow> if wt_expires_at t > instant then ret t else refuse unauthorized_error
     | None \<Rightarrow> refuse unauthorized_error))"

end
