(* ===== verification/Http_Account.thy ===== *)
theory Http_Account
  imports Http_Base
begin

text \<open>
  The handlers of \<open>apps/server/src/api.rs\<close> for health, accounts, sessions, the second factor, QR login,
  devices, profiles and privacy.  A handler answers a status and a body; it runs from its extractors to
  its answer without another request in between.  Names that the service methods have too end in \<open>_h\<close>.
\<close>

definition reply :: "nat \<Rightarrow> 'a \<Rightarrow> (nat \<times> 'a) http" where
  "reply status body = ret (status, body)"

abbreviation ok :: "'a \<Rightarrow> (nat \<times> 'a) http" where "ok \<equiv> reply 200"
abbreviation created :: "'a \<Rightarrow> (nat \<times> 'a) http" where "created \<equiv> reply 201"
abbreviation accepted :: "'a \<Rightarrow> (nat \<times> 'a) http" where "accepted \<equiv> reply 202"
abbreviation no_content :: "(nat \<times> unit) http" where "no_content \<equiv> reply 204 ()"

section \<open>Health and metrics\<close>

definition service_unavailable :: "string \<Rightarrow> uuid \<Rightarrow> app_error" where
  "service_unavailable key i = app_error_new i 503 ServiceUnavailable key None True"

definition ready_h :: "request \<Rightarrow> (nat \<times> string) http" where
  "ready_h rq =
     bnd (gets ap_database) (\<lambda>configured.
     if configured then
       bnd (refuse_if (\<not> rq_database_up rq) (service_unavailable ''error.database_unavailable'')) (\<lambda>_.
       ok ''ok'')
     else ok ''disabled'')"

definition count_with :: "(metrics \<Rightarrow> metrics) \<Rightarrow> unit http" where
  "count_with f = modify (\<lambda>a. a\<lparr>ap_metrics := f (ap_metrics a)\<rparr>)"

definition micros_u64 :: "nat \<Rightarrow> u64" where
  "micros_u64 micros = (if micros < 2 ^ 64 then word_of_nat micros else - 1)"

definition duration_seconds :: "u64 \<Rightarrow> rstr" where
  "duration_seconds micros = decimal (unat micros div 1000000) @ [46]
     @ decimal_padded 6 (unat micros mod 1000000)"

definition metric :: "string \<Rightarrow> rstr \<Rightarrow> rstr" where
  "metric name value = lit name @ [32] @ value @ [10]"

definition metric_type :: "string \<Rightarrow> string \<Rightarrow> rstr" where
  "metric_type name kind = lit ''# TYPE '' @ lit name @ [32] @ lit kind @ [10]"

definition one_metric :: "string \<Rightarrow> string \<Rightarrow> u64 \<Rightarrow> rstr" where
  "one_metric kind name value = metric_type name kind @ metric name (decimal (unat value))"

definition summary_metric :: "string \<Rightarrow> u64 \<Rightarrow> u64 \<Rightarrow> rstr" where
  "summary_metric name micros samples =
     metric_type name ''summary'' @ metric (name @ ''_sum'') (duration_seconds micros)
       @ metric (name @ ''_count'') (decimal (unat samples))"

definition metrics_text :: "metrics \<Rightarrow> rstr" where
  "metrics_text m =
     one_metric ''counter'' ''iamrust_http_requests_total'' (mt_requests m)
     @ one_metric ''counter'' ''iamrust_http_client_errors_total'' (mt_client_errors m)
     @ one_metric ''counter'' ''iamrust_http_server_errors_total'' (mt_server_errors m)
     @ summary_metric ''iamrust_http_request_duration_seconds''
         (mt_request_latency_micros m) (mt_request_latency_samples m)
     @ one_metric ''counter'' ''iamrust_auth_failures_total'' (mt_auth_failures m)
     @ one_metric ''counter'' ''iamrust_messages_sent_total'' (mt_messages_sent m)
     @ one_metric ''counter'' ''iamrust_message_send_failures_total'' (mt_message_failures m)
     @ summary_metric ''iamrust_message_ack_duration_seconds''
         (mt_ack_latency_micros m) (mt_ack_latency_samples m)
     @ one_metric ''counter'' ''iamrust_websocket_connections_total'' (mt_connections_total m)
     @ one_metric ''gauge'' ''iamrust_websocket_connections_active'' (mt_connections_active m)
     @ one_metric ''gauge'' ''iamrust_sync_backlog_events'' (mt_sync_backlog_events m)
     @ one_metric ''counter'' ''iamrust_quarantined_files_total'' (mt_quarantined_files m)"

definition metrics_h :: "(nat \<times> rstr) http" where
  "metrics_h = bnd (gets (\<lambda>a. metrics_text (ap_metrics a))) ok"

section \<open>Registration, login and sessions\<close>

record register_request =
  rgr_email :: rstr
  rgr_username :: rstr
  rgr_password :: rstr
  rgr_nickname :: rstr
  rgr_device_name :: rstr
  rgr_platform :: "rstr option"
  rgr_app_version :: "rstr option"

record login_request =
  lgr_login :: rstr
  lgr_password :: rstr
  lgr_second_factor_code :: "rstr option"
  lgr_device_name :: rstr
  lgr_platform :: "rstr option"
  lgr_app_version :: "rstr option"

definition unwrap_or :: "rstr option \<Rightarrow> string \<Rightarrow> rstr" where
  "unwrap_or v otherwise = (case v of Some x \<Rightarrow> x | None \<Rightarrow> lit otherwise)"

record session_response =
  ssr_access_token :: rstr
  ssr_refresh_token :: rstr
  ssr_access_expires_at :: datetime
  ssr_refresh_expires_at :: datetime
  ssr_profile :: user_profile
  ssr_device_id :: device_id

definition to_session_response :: "authenticated_session \<Rightarrow> session_response" where
  "to_session_response s =
     \<lparr>ssr_access_token = as_access_token s, ssr_refresh_token = as_refresh_token s,
      ssr_access_expires_at = as_access_expires_at s, ssr_refresh_expires_at = as_refresh_expires_at s,
      ssr_profile = as_profile s, ssr_device_id = as_device_id s\<rparr>"

definition register_h :: "http_lib \<Rightarrow> request \<Rightarrow> register_request \<Rightarrow> (nat \<times> session_response) http" where
  "register_h H rq body =
     bnd (rate_limit (rq_ip rq) (rq_instant rq) ''register'' 5) (\<lambda>_.
     bnd (call (register (hl_unicode H) (hl_crypto H)
            \<lparr>ri_email = rgr_email body, ri_username = rgr_username body, ri_password = rgr_password body,
             ri_nickname = rgr_nickname body, ri_device_name = rgr_device_name body,
             ri_platform = unwrap_or (rgr_platform body) ''unknown'',
             ri_app_version = unwrap_or (rgr_app_version body) ''unknown''\<rparr> (rq_at rq 1))) (\<lambda>session.
     created (to_session_response session)))"

text \<open>Letters go to a task of their own; a mailer that fails later has no effect here.\<close>

definition post_mail :: "mail \<Rightarrow> unit http" where
  "post_mail m = modify (\<lambda>a. a\<lparr>ap_mails := ap_mails a @ [m]\<rparr>)"

definition known_device :: "rstr \<Rightarrow> rstr \<Rightarrow> device_info list \<Rightarrow> bool" where
  "known_device device_name platform ds =
     list_ex (\<lambda>d. \<not> di_current d \<and> di_name d = device_name \<and> di_platform d = platform) ds"

definition notify_login ::
  "request \<Rightarrow> login_request \<Rightarrow> authenticated_session \<Rightarrow> unit http" where
  "notify_login rq body session =
     (let device_name = lgr_device_name body;
          platform = unwrap_or (lgr_platform body) ''unknown'';
          app_version = unwrap_or (lgr_app_version body) ''unknown'';
          user = prof_id (as_profile session) in
      bnd (view (\<lambda>s. known_device device_name platform (devices s user (as_device_id session)))) (\<lambda>known.
      bnd (gets ap_mailer) (\<lambda>mailer.
      bnd (view (\<lambda>s. account_email s user)) (\<lambda>email.
      case email of
        Inr email \<Rightarrow>
          if mailer \<and> \<not> known
          then post_mail (New_device_mail email device_name platform app_version (rq_at rq 2)) else ret ()
      | Inl _ \<Rightarrow> ret ()))))"

definition login_h :: "http_lib \<Rightarrow> request \<Rightarrow> login_request \<Rightarrow> (nat \<times> session_response) http" where
  "login_h H rq body =
     bnd (rate_limit (rq_ip rq) (rq_instant rq) ''login'' 10) (\<lambda>_.
     bnd (attempt (login_with_second_factor (hl_crypto H)
            \<lparr>li_login = lgr_login body, li_password = lgr_password body,
             li_device_name = lgr_device_name body,
             li_platform = unwrap_or (lgr_platform body) ''unknown'',
             li_app_version = unwrap_or (lgr_app_version body) ''unknown''\<rparr>
            (lgr_second_factor_code body) (rq_at rq 1))) (\<lambda>result.
     case result of
       Inr session \<Rightarrow> bnd (notify_login rq body session) (\<lambda>_. ok (to_session_response session))
     | Inl e \<Rightarrow>
         bnd (count_with (\<lambda>m. m\<lparr>mt_auth_failures := mt_auth_failures m + 1\<rparr>)) (\<lambda>_. answer (Inl e))))"

section \<open>QR login\<close>

record qr_login_start_request =
  qsr_device_name :: rstr
  qsr_platform :: "rstr option"
  qsr_app_version :: "rstr option"

definition begin_qr_login_h ::
  "http_lib \<Rightarrow> request \<Rightarrow> qr_login_start_request \<Rightarrow> (nat \<times> qr_login_challenge_info) http" where
  "begin_qr_login_h H rq body =
     bnd (rate_limit (rq_ip rq) (rq_instant rq) ''qr-login-start'' 12) (\<lambda>_.
     bnd (call (begin_qr_login (hl_crypto H) (qsr_device_name body)
            (unwrap_or (qsr_platform body) ''unknown'') (unwrap_or (qsr_app_version body) ''unknown'')
            (rq_at rq 1))) created)"

definition approve_qr_login_h :: "http_lib \<Rightarrow> request \<Rightarrow> uuid \<Rightarrow> rstr \<Rightarrow> (nat \<times> unit) http" where
  "approve_qr_login_h H rq challenge_id secret =
     bnd (current_user (hl_crypto H) rq) (\<lambda>(user_id, _).
     bnd (call (approve_qr_login (hl_crypto H) user_id challenge_id secret (rq_at rq 1))) (\<lambda>_. no_content))"

definition notify_qr_login :: "request \<Rightarrow> authenticated_session \<Rightarrow> unit http" where
  "notify_qr_login rq session =
     (let user = prof_id (as_profile session) in
      bnd (gets ap_mailer) (\<lambda>mailer.
      bnd (view (\<lambda>s. account_email s user)) (\<lambda>email.
      bnd (view (\<lambda>s. find di_current (devices s user (as_device_id session)))) (\<lambda>device.
      case (email, device) of
        (Inr email, Some d) \<Rightarrow>
          if mailer
          then post_mail (New_device_mail email (di_name d) (di_platform d) (di_app_version d) (rq_at rq 2))
          else ret ()
      | _ \<Rightarrow> ret ()))))"

text \<open>\<open>None\<close> stands for the status \<open>Pending\<close>, a session for \<open>Ready\<close>.\<close>

definition poll_qr_login_h ::
  "http_lib \<Rightarrow> request \<Rightarrow> uuid \<Rightarrow> rstr \<Rightarrow> (nat \<times> session_response option) http" where
  "poll_qr_login_h H rq challenge_id secret =
     bnd (rate_limit (rq_ip rq) (rq_instant rq) ''qr-login-poll'' 90) (\<lambda>_.
     bnd (call (poll_qr_login (hl_crypto H) challenge_id secret (rq_at rq 1))) (\<lambda>session.
     case session of
       None \<Rightarrow> ok None
     | Some session \<Rightarrow> bnd (notify_qr_login rq session) (\<lambda>_. ok (Some (to_session_response session)))))"

section \<open>Second factor\<close>

definition second_factor_status_h :: "http_lib \<Rightarrow> request \<Rightarrow> (nat \<times> second_factor_status) http" where
  "second_factor_status_h H rq =
     bnd (current_user (hl_crypto H) rq) (\<lambda>(user_id, _).
     bnd (look (\<lambda>s. second_factor_status s user_id)) ok)"

definition begin_second_factor_setup_h ::
  "http_lib \<Rightarrow> request \<Rightarrow> (nat \<times> second_factor_setup_response) http" where
  "begin_second_factor_setup_h H rq =
     bnd (current_user (hl_crypto H) rq) (\<lambda>(user_id, _).
     bnd (call (begin_second_factor_setup (hl_crypto H) user_id (rq_at rq 1))) ok)"

definition enable_second_factor_h :: "http_lib \<Rightarrow> request \<Rightarrow> rstr \<Rightarrow> (nat \<times> rstr list) http" where
  "enable_second_factor_h H rq code =
     bnd (current_user (hl_crypto H) rq) (\<lambda>(user_id, _).
     bnd (call (enable_second_factor (hl_crypto H) user_id code (rq_at rq 1))) ok)"

definition disable_second_factor_h ::
  "http_lib \<Rightarrow> request \<Rightarrow> rstr \<Rightarrow> rstr \<Rightarrow> (nat \<times> unit) http" where
  "disable_second_factor_h H rq current_password code =
     bnd (current_user (hl_crypto H) rq) (\<lambda>(user_id, _).
     bnd (call (disable_second_factor (hl_crypto H) user_id current_password code (rq_at rq 1))) (\<lambda>_.
     no_content))"

definition regenerate_recovery_codes_h ::
  "http_lib \<Rightarrow> request \<Rightarrow> rstr \<Rightarrow> rstr \<Rightarrow> (nat \<times> rstr list) http" where
  "regenerate_recovery_codes_h H rq current_password code =
     bnd (current_user (hl_crypto H) rq) (\<lambda>(user_id, _).
     bnd (call (regenerate_recovery_codes (hl_crypto H) user_id current_password code (rq_at rq 1))) ok)"

section \<open>Refresh, logout, passwords, devices\<close>

definition refresh_h :: "http_lib \<Rightarrow> request \<Rightarrow> rstr \<Rightarrow> (nat \<times> session_response) http" where
  "refresh_h H rq refresh_token =
     bnd (call (refresh (hl_crypto H) refresh_token (rq_at rq 1))) (\<lambda>session.
     ok (to_session_response session))"

definition logout_h :: "http_lib \<Rightarrow> rstr \<Rightarrow> (nat \<times> unit) http" where
  "logout_h H refresh_token = bnd (call (logout (hl_crypto H) refresh_token)) (\<lambda>_. no_content)"

definition request_password_reset_h :: "http_lib \<Rightarrow> request \<Rightarrow> rstr \<Rightarrow> (nat \<times> unit) http" where
  "request_password_reset_h H rq email =
     bnd (rate_limit (rq_ip rq) (rq_instant rq) ''password-reset'' 5) (\<lambda>_.
     bnd (call (request_password_reset (hl_crypto H) email (rq_at rq 1))) (\<lambda>delivery.
     bnd (gets ap_mailer) (\<lambda>mailer.
     bnd (case delivery of
            Some d \<Rightarrow> if mailer then post_mail (Password_reset_mail d) else ret ()
          | None \<Rightarrow> ret ()) (\<lambda>_.
     accepted ()))))"

definition confirm_password_reset_h :: "http_lib \<Rightarrow> request \<Rightarrow> rstr \<Rightarrow> rstr \<Rightarrow> (nat \<times> unit) http" where
  "confirm_password_reset_h H rq reset_token new_password =
     bnd (rate_limit (rq_ip rq) (rq_instant rq) ''password-reset-confirm'' 8) (\<lambda>_.
     bnd (call (reset_password (hl_unicode H) (hl_crypto H) reset_token new_password (rq_at rq 1))) (\<lambda>_.
     no_content))"

definition change_password_h :: "http_lib \<Rightarrow> request \<Rightarrow> rstr \<Rightarrow> rstr \<Rightarrow> (nat \<times> unit) http" where
  "change_password_h H rq current_password new_password =
     bnd (current_user (hl_crypto H) rq) (\<lambda>(user_id, _).
     bnd (call (change_password (hl_unicode H) (hl_crypto H) user_id current_password new_password)) (\<lambda>_.
     no_content))"

definition devices_h :: "http_lib \<Rightarrow> request \<Rightarrow> (nat \<times> device_info list) http" where
  "devices_h H rq =
     bnd (current_user (hl_crypto H) rq) (\<lambda>(user_id, device_id).
     bnd (view (\<lambda>s. devices s user_id device_id)) ok)"

definition revoke_device_h :: "http_lib \<Rightarrow> request \<Rightarrow> device_id \<Rightarrow> (nat \<times> unit) http" where
  "revoke_device_h H rq device_id =
     bnd (current_user (hl_crypto H) rq) (\<lambda>(user_id, _).
     bnd (call (revoke_device user_id device_id (rq_at rq 1))) (\<lambda>_. no_content))"

section \<open>Profiles\<close>

record update_profile_request =
  upr_nickname :: rstr
  upr_signature :: rstr
  upr_avatar_url :: "rstr option"
  upr_avatar_attachment_id :: "attachment_id option"
  upr_gender :: "rstr option"
  upr_birthday :: "date option"
  upr_region :: "rstr option"
  upr_presence :: "presence option"

definition me_h :: "http_lib \<Rightarrow> request \<Rightarrow> (nat \<times> user_profile) http" where
  "me_h H rq =
     bnd (current_user (hl_crypto H) rq) (\<lambda>(user_id, _).
     bnd (look (\<lambda>s. profile s user_id)) ok)"

definition avatar_url :: "http_lib \<Rightarrow> rstr option \<Rightarrow> (rstr option) http" where
  "avatar_url H value = (case value of
     None \<Rightarrow> ret None
   | Some v \<Rightarrow>
       (case hl_parse_url H v of
          None \<Rightarrow> refuse (\<lambda>i. validation_error i ''avatar_url'')
        | Some (scheme, url) \<Rightarrow>
            bnd (refuse_if (scheme \<notin> {lit ''http'', lit ''https''})
                   (\<lambda>i. validation_error i ''avatar_url'')) (\<lambda>_. ret (Some url))))"

definition update_me_h :: "http_lib \<Rightarrow> request \<Rightarrow> update_profile_request \<Rightarrow> (nat \<times> user_profile) http" where
  "update_me_h H rq body =
     bnd (current_user (hl_crypto H) rq) (\<lambda>(user_id, _).
     bnd (avatar_url H (upr_avatar_url body)) (\<lambda>url.
     bnd (call (update_profile user_id
            \<lparr>upi_nickname = upr_nickname body, upi_signature = upr_signature body, upi_avatar_url = url,
             upi_avatar_attachment_id = upr_avatar_attachment_id body, upi_gender = upr_gender body,
             upi_birthday = upr_birthday body, upi_region = upr_region body,
             upi_presence = upr_presence body\<rparr> (rq_today rq) (rq_at rq 1))) ok))"

definition profile_privacy_h :: "http_lib \<Rightarrow> request \<Rightarrow> (nat \<times> profile_privacy_settings) http" where
  "profile_privacy_h H rq =
     bnd (current_user (hl_crypto H) rq) (\<lambda>(user_id, _).
     bnd (view (\<lambda>s. profile_privacy s user_id)) ok)"

definition update_profile_privacy_h ::
  "http_lib \<Rightarrow> request \<Rightarrow> profile_privacy_settings \<Rightarrow> (nat \<times> profile_privacy_settings) http" where
  "update_profile_privacy_h H rq settings =
     bnd (current_user (hl_crypto H) rq) (\<lambda>(user_id, _).
     bnd (call (update_profile_privacy user_id settings (rq_at rq 1))) ok)"

definition export_me_h :: "http_lib \<Rightarrow> request \<Rightarrow> (nat \<times> personal_data_export) http" where
  "export_me_h H rq =
     bnd (current_user (hl_crypto H) rq) (\<lambda>(user_id, _).
     bnd (look (\<lambda>s. export_personal_data s user_id (rq_at rq 1))) ok)"

definition delete_me_h :: "http_lib \<Rightarrow> request \<Rightarrow> rstr \<Rightarrow> rstr \<Rightarrow> (nat \<times> unit) http" where
  "delete_me_h H rq current_password confirmation =
     bnd (current_user (hl_crypto H) rq) (\<lambda>(user_id, _).
     bnd (call (delete_account (hl_crypto H) user_id current_password confirmation (rq_at rq 1))) (\<lambda>_.
     no_content))"

end
