(* ===== verification/Http_Social.thy ===== *)
theory Http_Social
  imports Http_Account
begin

text \<open>
  The handlers of \<open>apps/server/src/api.rs\<close> for stickers, the bootstrap answer, friends, blocks and
  reports, conversations and groups.
\<close>

section \<open>The shape of most handlers\<close>

text \<open>A handler that authenticates, calls one method of the service with the user and answers its result
  (\<open>as_user\<close>) or the status 204 (\<open>done_as_user\<close>); a handler that authenticates and reads the store
  with a method that cannot fail (\<open>read_as_user\<close>) or can (\<open>look_as_user\<close>).\<close>

definition as_user :: "http_lib \<Rightarrow> request \<Rightarrow> nat \<Rightarrow> (user_id \<Rightarrow> 'a svc) \<Rightarrow> (nat \<times> 'a) http" where
  "as_user H rq status m =
     bnd (current_user (hl_crypto H) rq) (\<lambda>(user_id, _). bnd (call (m user_id)) (reply status))"

definition done_as_user :: "http_lib \<Rightarrow> request \<Rightarrow> (user_id \<Rightarrow> 'a svc) \<Rightarrow> (nat \<times> unit) http" where
  "done_as_user H rq m =
     bnd (current_user (hl_crypto H) rq) (\<lambda>(user_id, _). bnd (call (m user_id)) (\<lambda>_. no_content))"

definition read_as_user :: "http_lib \<Rightarrow> request \<Rightarrow> (user_id \<Rightarrow> txn \<Rightarrow> 'a) \<Rightarrow> (nat \<times> 'a) http" where
  "read_as_user H rq f =
     bnd (current_user (hl_crypto H) rq) (\<lambda>(user_id, _). bnd (view (f user_id)) ok)"

definition look_as_user ::
  "http_lib \<Rightarrow> request \<Rightarrow> (user_id \<Rightarrow> txn \<Rightarrow> application_error + 'a) \<Rightarrow> (nat \<times> 'a) http" where
  "look_as_user H rq f =
     bnd (current_user (hl_crypto H) rq) (\<lambda>(user_id, _). bnd (look (f user_id)) ok)"

lemmas handler_shapes = as_user_def done_as_user_def read_as_user_def look_as_user_def

section \<open>Stickers, bootstrap, search\<close>

definition stickers_h :: "http_lib \<Rightarrow> request \<Rightarrow> (nat \<times> sticker list) http" where
  "stickers_h H rq = read_as_user H rq (\<lambda>u s. stickers s u)"

definition create_sticker_h :: "http_lib \<Rightarrow> request \<Rightarrow> create_sticker_request \<Rightarrow> (nat \<times> sticker) http" where
  "create_sticker_h H rq body = as_user H rq 201 (\<lambda>u. create_sticker u body (rq_at rq 1))"

definition delete_sticker_h :: "http_lib \<Rightarrow> request \<Rightarrow> uuid \<Rightarrow> (nat \<times> unit) http" where
  "delete_sticker_h H rq sticker_id = done_as_user H rq (\<lambda>u. delete_sticker u sticker_id)"

definition bootstrap_h :: "http_lib \<Rightarrow> request \<Rightarrow> (nat \<times> bootstrap_response) http" where
  "bootstrap_h H rq = look_as_user H rq (\<lambda>u s. bootstrap (hl_unicode H) (\<lambda>_. s) u)"

definition search_users_h :: "http_lib \<Rightarrow> request \<Rightarrow> rstr \<Rightarrow> (nat \<times> user_profile list) http" where
  "search_users_h H rq username =
     bnd (current_user (hl_crypto H) rq) (\<lambda>(user_id, _).
     bnd (rate_limit (rq_ip rq) (rq_instant rq) ''user-search'' 60) (\<lambda>_.
     bnd (view (\<lambda>s. search_user_exact s user_id username)) (\<lambda>result.
     ok (case result of Some p \<Rightarrow> [p] | None \<Rightarrow> []))))"

section \<open>Friends\<close>

definition friends_h :: "http_lib \<Rightarrow> request \<Rightarrow> (nat \<times> user_profile list) http" where
  "friends_h H rq = read_as_user H rq (\<lambda>u s. friends (hl_unicode H) s u)"

definition friend_settings_h :: "http_lib \<Rightarrow> request \<Rightarrow> (nat \<times> friend_settings list) http" where
  "friend_settings_h H rq = read_as_user H rq (\<lambda>u s. list_friend_settings s u)"

definition update_friend_settings_h ::
  "http_lib \<Rightarrow> request \<Rightarrow> user_id \<Rightarrow> update_friend_settings_request \<Rightarrow> (nat \<times> friend_settings) http" where
  "update_friend_settings_h H rq friend_id body =
     as_user H rq 200 (\<lambda>u. update_friend_settings u friend_id body (rq_at rq 1))"

definition delete_friend_h :: "http_lib \<Rightarrow> request \<Rightarrow> user_id \<Rightarrow> (nat \<times> unit) http" where
  "delete_friend_h H rq friend_id = done_as_user H rq (\<lambda>u. delete_friend u friend_id (rq_at rq 1))"

definition block_user_h :: "http_lib \<Rightarrow> request \<Rightarrow> user_id \<Rightarrow> (nat \<times> unit) http" where
  "block_user_h H rq target_id = done_as_user H rq (\<lambda>u. block_user u target_id (rq_at rq 1))"

definition unblock_user_h :: "http_lib \<Rightarrow> request \<Rightarrow> user_id \<Rightarrow> (nat \<times> unit) http" where
  "unblock_user_h H rq target_id = done_as_user H rq (\<lambda>u. unblock_user u target_id (rq_at rq 1))"

definition report_user_h ::
  "http_lib \<Rightarrow> request \<Rightarrow> user_id \<Rightarrow> report_user_request \<Rightarrow> (nat \<times> uuid) http" where
  "report_user_h H rq target_id body =
     as_user H rq 201 (\<lambda>u. report_user u target_id body (rq_at rq 1))"

definition friend_requests_h :: "http_lib \<Rightarrow> request \<Rightarrow> (nat \<times> friend_request list) http" where
  "friend_requests_h H rq = read_as_user H rq (\<lambda>u s. friend_requests s u)"

definition create_friend_request_h ::
  "http_lib \<Rightarrow> request \<Rightarrow> rstr \<Rightarrow> rstr \<Rightarrow> (nat \<times> friend_request) http" where
  "create_friend_request_h H rq username message =
     as_user H rq 201 (\<lambda>u. send_friend_request u username message (rq_at rq 1))"

definition decide_friend_request_h ::
  "http_lib \<Rightarrow> request \<Rightarrow> friend_request_id \<Rightarrow> friend_request_decision \<Rightarrow> (nat \<times> friend_request) http" where
  "decide_friend_request_h H rq request_id decision =
     as_user H rq 200 (\<lambda>u. decide_friend_request u request_id decision (rq_at rq 1))"

section \<open>Conversations\<close>

definition conversations_h :: "http_lib \<Rightarrow> request \<Rightarrow> (nat \<times> conversation list) http" where
  "conversations_h H rq = read_as_user H rq (\<lambda>u s. conversations s u)"

definition conversation_settings_h ::
  "http_lib \<Rightarrow> request \<Rightarrow> conversation_id \<Rightarrow> (nat \<times> conversation_settings) http" where
  "conversation_settings_h H rq cid = look_as_user H rq (\<lambda>u s. conversation_settings s u cid)"

definition update_conversation_settings_h ::
  "http_lib \<Rightarrow> request \<Rightarrow> conversation_id \<Rightarrow> update_conversation_settings_request
     \<Rightarrow> (nat \<times> conversation_settings) http" where
  "update_conversation_settings_h H rq cid body =
     as_user H rq 200 (\<lambda>u. update_conversation_settings u cid body (rq_at rq 1))"

definition mark_all_read_h :: "http_lib \<Rightarrow> request \<Rightarrow> (nat \<times> unit) http" where
  "mark_all_read_h H rq = done_as_user H rq (\<lambda>u. mark_all_read u (rq_at rq 1))"

definition create_direct_h :: "http_lib \<Rightarrow> request \<Rightarrow> user_id \<Rightarrow> (nat \<times> conversation) http" where
  "create_direct_h H rq peer = as_user H rq 201 (\<lambda>u. create_direct u peer (rq_at rq 1))"

definition create_group_h ::
  "http_lib \<Rightarrow> request \<Rightarrow> rstr \<Rightarrow> user_id list \<Rightarrow> (nat \<times> conversation) http" where
  "create_group_h H rq name invitees =
     as_user H rq 201 (\<lambda>u. create_group u invitees name (rq_at rq 1))"

section \<open>Groups\<close>

definition update_group_h ::
  "http_lib \<Rightarrow> request \<Rightarrow> conversation_id \<Rightarrow> update_group_request \<Rightarrow> (nat \<times> conversation) http" where
  "update_group_h H rq cid body =
     as_user H rq 200 (\<lambda>u. update_group (\<lambda>v. map_option fst (hl_parse_url H v)) u cid body (rq_at rq 1))"

definition group_settings_h :: "http_lib \<Rightarrow> request \<Rightarrow> conversation_id \<Rightarrow> (nat \<times> bool) http" where
  "group_settings_h H rq cid = look_as_user H rq (\<lambda>u s. group_mute_status s u cid)"

definition add_group_members_h ::
  "http_lib \<Rightarrow> request \<Rightarrow> conversation_id \<Rightarrow> user_id list \<Rightarrow> (nat \<times> conversation) http" where
  "add_group_members_h H rq cid invitees =
     as_user H rq 200 (\<lambda>u. add_group_members u cid invitees (rq_at rq 1))"

definition update_group_member_h ::
  "http_lib \<Rightarrow> request \<Rightarrow> conversation_id \<Rightarrow> user_id \<Rightarrow> update_group_member_request
     \<Rightarrow> (nat \<times> conversation) http" where
  "update_group_member_h H rq cid member_id body =
     as_user H rq 200 (\<lambda>u. update_group_member u cid member_id body (rq_at rq 1))"

definition remove_group_member_h ::
  "http_lib \<Rightarrow> request \<Rightarrow> conversation_id \<Rightarrow> user_id \<Rightarrow> (nat \<times> unit) http" where
  "remove_group_member_h H rq cid member_id =
     done_as_user H rq (\<lambda>u. remove_group_member u cid member_id (rq_at rq 1))"

definition leave_group_h :: "http_lib \<Rightarrow> request \<Rightarrow> conversation_id \<Rightarrow> (nat \<times> unit) http" where
  "leave_group_h H rq cid = done_as_user H rq (\<lambda>u. leave_group u cid (rq_at rq 1))"

definition disband_group_h :: "http_lib \<Rightarrow> request \<Rightarrow> conversation_id \<Rightarrow> (nat \<times> unit) http" where
  "disband_group_h H rq cid = done_as_user H rq (\<lambda>u. disband_group u cid (rq_at rq 1))"

definition transfer_group_ownership_h ::
  "http_lib \<Rightarrow> request \<Rightarrow> conversation_id \<Rightarrow> user_id \<Rightarrow> (nat \<times> conversation) http" where
  "transfer_group_ownership_h H rq cid target =
     as_user H rq 200 (\<lambda>u. transfer_group_ownership u cid target (rq_at rq 1))"

definition set_group_mute_h ::
  "http_lib \<Rightarrow> request \<Rightarrow> conversation_id \<Rightarrow> bool \<Rightarrow> (nat \<times> unit) http" where
  "set_group_mute_h H rq cid muted = done_as_user H rq (\<lambda>u. set_group_mute u cid muted (rq_at rq 1))"

definition group_announcements_h ::
  "http_lib \<Rightarrow> request \<Rightarrow> conversation_id \<Rightarrow> (nat \<times> group_announcement list) http" where
  "group_announcements_h H rq cid = look_as_user H rq (\<lambda>u s. group_announcements s u cid)"

definition group_files_h ::
  "http_lib \<Rightarrow> request \<Rightarrow> conversation_id \<Rightarrow> (nat \<times> group_file_item list) http" where
  "group_files_h H rq cid = look_as_user H rq (\<lambda>u s. group_files s u cid)"

definition create_group_announcement_h ::
  "http_lib \<Rightarrow> request \<Rightarrow> conversation_id \<Rightarrow> rstr \<Rightarrow> (nat \<times> group_announcement) http" where
  "create_group_announcement_h H rq cid content =
     as_user H rq 201 (\<lambda>u. create_group_announcement u cid content (rq_at rq 1))"

definition read_group_announcement_h :: "http_lib \<Rightarrow> request \<Rightarrow> uuid \<Rightarrow> (nat \<times> unit) http" where
  "read_group_announcement_h H rq aid = done_as_user H rq (\<lambda>u. read_group_announcement u aid (rq_at rq 1))"

definition group_join_requests_h ::
  "http_lib \<Rightarrow> request \<Rightarrow> conversation_id \<Rightarrow> (nat \<times> group_join_request list) http" where
  "group_join_requests_h H rq cid = look_as_user H rq (\<lambda>u s. group_join_requests s u cid)"

definition request_to_join_group_h ::
  "http_lib \<Rightarrow> request \<Rightarrow> conversation_id \<Rightarrow> rstr \<Rightarrow> (nat \<times> group_join_request) http" where
  "request_to_join_group_h H rq cid message =
     as_user H rq 201 (\<lambda>u. request_to_join_group u cid message (rq_at rq 1))"

definition decide_group_join_request_h ::
  "http_lib \<Rightarrow> request \<Rightarrow> uuid \<Rightarrow> bool \<Rightarrow> (nat \<times> group_join_request) http" where
  "decide_group_join_request_h H rq rid accept =
     as_user H rq 200 (\<lambda>u. decide_group_join_request u rid accept (rq_at rq 1))"

definition group_polls_h :: "http_lib \<Rightarrow> request \<Rightarrow> conversation_id \<Rightarrow> (nat \<times> group_poll list) http" where
  "group_polls_h H rq cid = look_as_user H rq (\<lambda>u s. group_polls s u cid)"

definition create_group_poll_h ::
  "http_lib \<Rightarrow> request \<Rightarrow> conversation_id \<Rightarrow> create_group_poll_request \<Rightarrow> (nat \<times> group_poll) http" where
  "create_group_poll_h H rq cid body =
     as_user H rq 201 (\<lambda>u. create_group_poll u cid body (rq_at rq 1))"

definition vote_group_poll_h :: "http_lib \<Rightarrow> request \<Rightarrow> uuid \<Rightarrow> uuid list \<Rightarrow> (nat \<times> group_poll) http" where
  "vote_group_poll_h H rq poll option_ids =
     as_user H rq 200 (\<lambda>u. vote_group_poll u poll option_ids (rq_at rq 1))"

end
