(* ===== verification/Http_Chat.thy ===== *)
theory Http_Chat
  imports Http_Social
begin

text \<open>
  The handlers of \<open>apps/server/src/api.rs\<close> for messages, scheduled messages, synchronisation, uploads
  and downloads, administration and WebSocket tickets.
\<close>

section \<open>Messages\<close>

text \<open>\<open>limit\<close> is a \<open>usize\<close>; the cursor of the next page is the sequence number of the first message.\<close>

definition messages_h ::
  "http_lib \<Rightarrow> request \<Rightarrow> conversation_id \<Rightarrow> u64 option \<Rightarrow> nat option
     \<Rightarrow> (nat \<times> (message list \<times> rstr option)) http" where
  "messages_h H rq cid before limit =
     bnd (current_user (hl_crypto H) rq) (\<lambda>(user_id, _).
     bnd (look (\<lambda>s. message_page s (rq_at rq 1) user_id cid before
            (case limit of Some n \<Rightarrow> n | None \<Rightarrow> 50))) (\<lambda>page.
     ok (page, case page of
                 m # _ \<Rightarrow> map_option (\<lambda>q. decimal (unat q)) (msg_sequence m)
               | [] \<Rightarrow> None)))"

definition send_message_h ::
  "http_lib \<Rightarrow> request \<Rightarrow> conversation_id \<Rightarrow> send_message_request \<Rightarrow> (nat \<times> message_ack) http" where
  "send_message_h H rq cid body =
     bnd (current_user (hl_crypto H) rq) (\<lambda>(user_id, _).
     bnd (attempt (send_message_request user_id cid body (rq_at rq 1))) (\<lambda>result.
     case result of
       Inl e \<Rightarrow>
         bnd (count_with (\<lambda>m. m\<lparr>mt_message_failures := mt_message_failures m + 1\<rparr>)) (\<lambda>_. answer (Inl e))
     | Inr (_, ack) \<Rightarrow>
         bnd (count_with (\<lambda>m. m\<lparr>mt_messages_sent := mt_messages_sent m + 1,
                mt_ack_latency_micros := mt_ack_latency_micros m + micros_u64 (rq_elapsed rq),
                mt_ack_latency_samples := mt_ack_latency_samples m + 1\<rparr>)) (\<lambda>_.
         created ack)))"

definition message_details_h :: "http_lib \<Rightarrow> request \<Rightarrow> message_id \<Rightarrow> (nat \<times> message_details) http" where
  "message_details_h H rq mid = look_as_user H rq (\<lambda>u s. message_details s u mid)"

definition valid_language :: "rstr \<Rightarrow> bool" where
  "valid_language l \<longleftrightarrow> 2 \<le> byte_len l \<and> byte_len l \<le> 16
     \<and> list_all (\<lambda>b. is_ascii_lower (unat b) \<or> is_ascii_upper (unat b) \<or> b = 45) (utf8 l)"

definition bad_gateway :: "string \<Rightarrow> uuid \<Rightarrow> app_error" where
  "bad_gateway key i = app_error_new i 502 ServiceUnavailable key None True"

text \<open>The answer: source language, target language, text.\<close>

definition translate_message_h ::
  "http_lib \<Rightarrow> request \<Rightarrow> message_id \<Rightarrow> rstr \<Rightarrow> (nat \<times> (rstr option \<times> rstr \<times> rstr)) http" where
  "translate_message_h H rq mid language =
     bnd (current_user (hl_crypto H) rq) (\<lambda>(user_id, _).
     bnd (rate_limit (rq_ip rq) (rq_instant rq) ''translation'' 30) (\<lambda>_.
     let target_language = to_ascii_lowercase (trim language) in
     bnd (refuse_if (\<not> valid_language target_language) (\<lambda>i. validation_error i ''target_language'')) (\<lambda>_.
     bnd (look (\<lambda>s. message_text_for_translation s user_id mid)) (\<lambda>text.
     bnd (gets ap_translator) (\<lambda>present.
     bnd (refuse_if (\<not> present) (service_unavailable ''error.translation_unavailable'')) (\<lambda>_.
     case rq_translate rq text target_language of
       None \<Rightarrow> refuse (bad_gateway ''error.translation_failed'')
     | Some (translated_text, source_language) \<Rightarrow>
         ok (source_language, target_language, translated_text)))))))"

definition the_object_store :: "object_store http" where
  "the_object_store =
     bnd (gets ap_object_store) (\<lambda>st.
     case st of
       Some st \<Rightarrow> ret st
     | None \<Rightarrow> refuse (service_unavailable ''error.object_store_unavailable''))"

text \<open>\<open>map_err(|_| AppError::new(..))?\<close> on a result of the object store.\<close>

definition or_refuse :: "string + 'a \<Rightarrow> (uuid \<Rightarrow> app_error) \<Rightarrow> 'a http" where
  "or_refuse r e = (case r of Inr x \<Rightarrow> ret x | Inl _ \<Rightarrow> refuse e)"

text \<open>\<open>Transcriber::transcribe\<close> refuses an empty text.\<close>

definition transcribed :: "(rstr \<times> rstr option) option \<Rightarrow> string + (rstr \<times> rstr option)" where
  "transcribed given =
     and_then (context_of given ''transcription request failed'') (\<lambda>(text, language).
     and_then (ensure (trim text \<noteq> []) ''transcription was empty'') (\<lambda>_. Inr (text, language)))"

definition transcribe_message_h ::
  "http_lib \<Rightarrow> request \<Rightarrow> message_id \<Rightarrow> (nat \<times> (rstr \<times> rstr option)) http" where
  "transcribe_message_h H rq mid =
     bnd (current_user (hl_crypto H) rq) (\<lambda>(user_id, _).
     bnd (rate_limit (rq_ip rq) (rq_instant rq) ''transcription'' 15) (\<lambda>_.
     bnd (look (\<lambda>s. message_audio_for_transcription s user_id mid)) (\<lambda>attachment.
     bnd the_object_store (\<lambda>st.
     bnd (gets ap_transcriber) (\<lambda>present.
     bnd (refuse_if (\<not> present) (service_unavailable ''error.transcription_unavailable'')) (\<lambda>_.
     bnd (or_refuse (read_object (hl_crypto H) (hl_store_lib H) (rq_web rq) st
            (att_storage_key attachment) (25 * MIB) (rq_at rq 1))
            (bad_gateway ''error.audio_download_failed'')) (\<lambda>bytes.
     bnd (or_refuse (transcribed (rq_transcribe rq bytes (att_file_name attachment)
            (att_mime_type attachment))) (bad_gateway ''error.transcription_failed'')) ok)))))))"

definition acknowledge_delivery_h :: "http_lib \<Rightarrow> request \<Rightarrow> message_id \<Rightarrow> (nat \<times> unit) http" where
  "acknowledge_delivery_h H rq mid = done_as_user H rq (\<lambda>u. acknowledge_delivery u mid (rq_at rq 1))"

definition recall_message_h :: "http_lib \<Rightarrow> request \<Rightarrow> message_id \<Rightarrow> (nat \<times> message) http" where
  "recall_message_h H rq mid = as_user H rq 200 (\<lambda>u. recall_message u mid (rq_at rq 1))"

definition react_to_message_h ::
  "http_lib \<Rightarrow> request \<Rightarrow> message_id \<Rightarrow> rstr \<Rightarrow> bool \<Rightarrow> (nat \<times> message_reaction list) http" where
  "react_to_message_h H rq mid emoji active =
     as_user H rq 200 (\<lambda>u. react_to_message u mid emoji active (rq_at rq 1))"

definition set_message_favorite_h :: "http_lib \<Rightarrow> request \<Rightarrow> message_id \<Rightarrow> bool \<Rightarrow> (nat \<times> unit) http" where
  "set_message_favorite_h H rq mid favorite =
     done_as_user H rq (\<lambda>u. set_message_favorite u mid favorite)"

text \<open>\<open>order\<close> is the iteration order of the set of favourites.\<close>

definition favorite_messages_h :: "http_lib \<Rightarrow> request \<Rightarrow> message_id list \<Rightarrow> (nat \<times> message list) http" where
  "favorite_messages_h H rq order = read_as_user H rq (\<lambda>u s. favorite_messages s order u)"

definition forward_messages_h ::
  "http_lib \<Rightarrow> request \<Rightarrow> message_id list \<Rightarrow> conversation_id \<Rightarrow> forward_mode \<Rightarrow> (nat \<times> message list) http" where
  "forward_messages_h H rq mids target mode =
     as_user H rq 201 (\<lambda>u. forward_messages u mids target mode (rq_at rq 1))"

definition schedule_message_h ::
  "http_lib \<Rightarrow> request \<Rightarrow> schedule_message_request \<Rightarrow> (nat \<times> scheduled_message_response) http" where
  "schedule_message_h H rq body = as_user H rq 202 (\<lambda>u. schedule_message u body (rq_at rq 1))"

definition scheduled_messages_h :: "http_lib \<Rightarrow> request \<Rightarrow> (nat \<times> scheduled_message_info list) http" where
  "scheduled_messages_h H rq = read_as_user H rq (\<lambda>u s. scheduled_messages s u)"

definition cancel_scheduled_message_h :: "http_lib \<Rightarrow> request \<Rightarrow> uuid \<Rightarrow> (nat \<times> unit) http" where
  "cancel_scheduled_message_h H rq schedule_id =
     done_as_user H rq (\<lambda>u. cancel_scheduled_message u schedule_id)"

definition mark_read_h :: "http_lib \<Rightarrow> request \<Rightarrow> conversation_id \<Rightarrow> u64 \<Rightarrow> (nat \<times> unit) http" where
  "mark_read_h H rq cid through_sequence =
     done_as_user H rq (\<lambda>u. mark_read u cid through_sequence (rq_at rq 1))"

definition sync_h :: "http_lib \<Rightarrow> request \<Rightarrow> u64 option \<Rightarrow> nat option \<Rightarrow> (nat \<times> sync_response) http" where
  "sync_h H rq after limit =
     bnd (current_user (hl_crypto H) rq) (\<lambda>(user_id, _).
     bnd (view (\<lambda>s. sync s user_id (case after of Some c \<Rightarrow> c | None \<Rightarrow> 0)
            (case limit of Some n \<Rightarrow> n | None \<Rightarrow> 200))) (\<lambda>response.
     bnd (view latest_cursor) (\<lambda>latest.
     bnd (count_with (\<lambda>m. m\<lparr>mt_sync_backlog_events := sat_sub latest (sr_next_cursor response)\<rparr>)) (\<lambda>_.
     ok response))))"

section \<open>Uploads and downloads\<close>

record upload_authorization_request =
  uar_file_name :: rstr
  uar_mime_type :: rstr
  uar_byte_size :: u64
  uar_sha256 :: "rstr option"

record upload_authorization_response =
  uas_attachment_id :: attachment_id
  uas_storage_key :: rstr
  uas_upload_url :: rstr
  uas_expires_at :: datetime
  uas_required_headers :: "(rstr \<times> rstr) list"

definition no_object_store :: "uuid \<Rightarrow> app_error" where
  "no_object_store = service_unavailable ''error.object_store_unavailable''"

definition authorize_upload_h ::
  "http_lib \<Rightarrow> request \<Rightarrow> upload_authorization_request \<Rightarrow> (nat \<times> upload_authorization_response) http" where
  "authorize_upload_h H rq body =
     bnd (current_user (hl_crypto H) rq) (\<lambda>(user_id, _).
     bnd (rate_limit (rq_ip rq) (rq_instant rq) ''upload'' 30) (\<lambda>_.
     bnd (call (authorize_attachment (hl_crypto H) user_id (uar_file_name body) (uar_mime_type body)
            (uar_byte_size body) (uar_sha256 body) (rq_at rq 1))) (\<lambda>authorization.
     let attachment = aa_attachment authorization in
     bnd the_object_store (\<lambda>st.
     bnd (or_refuse (presign_put (hl_crypto H) (hl_store_lib H) st (att_storage_key attachment)
            (att_mime_type attachment) (att_sha256 attachment) (rq_at rq 2)) no_object_store) (\<lambda>upload.
     ok \<lparr>uas_attachment_id = att_id attachment, uas_storage_key = att_storage_key attachment,
         uas_upload_url = pr_url upload, uas_expires_at = aa_expires_at authorization,
         uas_required_headers = pr_required_headers upload\<rparr>)))))"

text \<open>A refusal of an upload, with the status 422.\<close>

definition unsupported_upload :: "string \<Rightarrow> uuid \<Rightarrow> app_error" where
  "unsupported_upload key i =
     app_error_new i 422 UnsupportedMediaType key (Some ''attachment_id'') False"

text \<open>The requests to the object store after the two of \<open>verify_object\<close>.\<close>

definition web_after :: "nat \<Rightarrow> web \<Rightarrow> web" where
  "web_after n web = (\<lambda>k. web (n + k))"

definition scan_upload ::
  "http_lib \<Rightarrow> request \<Rightarrow> object_store \<Rightarrow> user_id \<Rightarrow> attachment_id \<Rightarrow> attachment \<Rightarrow> datetime
     \<Rightarrow> unit http" where
  "scan_upload H rq st user_id i pending now =
     bnd (or_refuse (read_object (hl_crypto H) (hl_store_lib H) (web_after 2 (rq_web rq)) st
            (att_storage_key pending) (att_byte_size pending) now)
            (service_unavailable ''error.malware_scan_download_failed'')) (\<lambda>bytes.
     case scan (rq_clamd rq) bytes of
       Inr Clean \<Rightarrow> ret ()
     | Inr (Infected _) \<Rightarrow>
         bnd (call (quarantine_attachment user_id i now)) (\<lambda>_.
         bnd (count_with (\<lambda>m. m\<lparr>mt_quarantined_files := mt_quarantined_files m + 1\<rparr>)) (\<lambda>_.
         refuse (unsupported_upload ''error.malware_detected'')))
     | Inl _ \<Rightarrow> refuse (service_unavailable ''error.malware_scanner_unavailable''))"

definition complete_upload_h ::
  "http_lib \<Rightarrow> request \<Rightarrow> attachment_id \<Rightarrow> (nat \<times> (attachment \<times> rstr)) http" where
  "complete_upload_h H rq i =
     bnd (current_user (hl_crypto H) rq) (\<lambda>(user_id, _).
     let now = rq_at rq 1 in
     bnd (look (\<lambda>s. pending_attachment s user_id i now)) (\<lambda>pending.
     bnd the_object_store (\<lambda>st.
     bnd (or_refuse (verify_object (hl_crypto H) (hl_store_lib H) (rq_web rq) st
            (att_storage_key pending) (att_mime_type pending) (att_byte_size pending)
            (att_sha256 pending) now) (unsupported_upload ''error.upload_verification_failed'')) (\<lambda>_.
     bnd (gets ap_scanner) (\<lambda>scanner.
     bnd (if scanner then scan_upload H rq st user_id i pending now else ret ()) (\<lambda>_.
     bnd (call (complete_attachment user_id i now)) (\<lambda>attachment.
     bnd (or_refuse (presign_get (hl_crypto H) (hl_store_lib H) st (att_storage_key attachment)
            (rq_at rq 2)) no_object_store) (\<lambda>download.
     ok (attachment, pr_url download)))))))))"

definition authorize_download_h ::
  "http_lib \<Rightarrow> request \<Rightarrow> attachment_id \<Rightarrow> (nat \<times> (attachment \<times> rstr \<times> datetime)) http" where
  "authorize_download_h H rq i =
     bnd (current_user (hl_crypto H) rq) (\<lambda>(user_id, _).
     bnd (look (\<lambda>s. attachment_for_download s user_id i)) (\<lambda>attachment.
     let now = rq_at rq 1 in
     bnd the_object_store (\<lambda>st.
     bnd (or_refuse (presign_get (hl_crypto H) (hl_store_lib H) st (att_storage_key attachment) now)
            no_object_store) (\<lambda>download.
     ok (attachment, pr_url download, now + minutes 10)))))"

section \<open>Administration\<close>

definition admin_set_user_suspension_h ::
  "http_lib \<Rightarrow> request \<Rightarrow> user_id \<Rightarrow> bool \<Rightarrow> (nat \<times> unit) http" where
  "admin_set_user_suspension_h H rq target suspended =
     bnd (admin_access (hl_crypto H) rq) (\<lambda>_.
     bnd (call (admin_set_user_suspended target suspended (rq_at rq 0))) (\<lambda>_. no_content))"

definition admin_revoke_user_sessions_h :: "http_lib \<Rightarrow> request \<Rightarrow> user_id \<Rightarrow> (nat \<times> unit) http" where
  "admin_revoke_user_sessions_h H rq target =
     bnd (admin_access (hl_crypto H) rq) (\<lambda>_.
     bnd (call (admin_revoke_user_sessions target (rq_at rq 0))) (\<lambda>_. no_content))"

definition admin_audit_h :: "http_lib \<Rightarrow> request \<Rightarrow> nat option \<Rightarrow> (nat \<times> admin_audit_entry list) http" where
  "admin_audit_h H rq limit =
     bnd (admin_access (hl_crypto H) rq) (\<lambda>_.
     bnd (view (\<lambda>s. admin_audit s (case limit of Some n \<Rightarrow> n | None \<Rightarrow> 100))) ok)"

section \<open>WebSocket tickets\<close>

definition websocket_ticket_h :: "http_lib \<Rightarrow> request \<Rightarrow> (nat \<times> (rstr \<times> datetime)) http" where
  "websocket_ticket_h H rq =
     bnd (current_user (hl_crypto H) rq) (\<lambda>(user_id, _).
     bnd (issue_ticket user_id (rq_instant rq)) (\<lambda>ticket.
     ok (ticket, rq_at rq 1 + seconds 30)))"

text \<open>The answer 101 hands the connection, for this user, to \<open>websocket::serve\<close> (\<open>Live_Server\<close>), after
  which the number of open connections goes down again.\<close>

definition websocket_upgrade_h :: "request \<Rightarrow> rstr \<Rightarrow> (nat \<times> user_id) http" where
  "websocket_upgrade_h rq ticket =
     bnd (redeem_ticket ticket (rq_instant rq)) (\<lambda>t.
     bnd (count_with (\<lambda>m. m\<lparr>mt_connections_total := mt_connections_total m + 1,
            mt_connections_active := mt_connections_active m + 1\<rparr>)) (\<lambda>_.
     reply 101 (wt_user_id t)))"

definition websocket_closed :: "unit http" where
  "websocket_closed = count_with (\<lambda>m. m\<lparr>mt_connections_active := mt_connections_active m - 1\<rparr>)"

end
