(* ===== verification/Http_Routes.thy ===== *)
theory Http_Routes
  imports Http_Chat
begin

text \<open>
  The router of \<open>apps/server/src/api.rs\<close>: one constructor for each route and method, with the decoded
  path, query and body, and the dispatch to the handlers; the layer that counts requests; and what holds
  of every request: who is admitted, what a ticket is good for, and what makes an upload available.
\<close>

section \<open>Routes\<close>

datatype account_route =
    Live | Ready | Metrics_page | Admin_page | Openapi
  | Register register_request
  | Login login_request
  | Begin_qr_login qr_login_start_request
  | Poll_qr_login uuid rstr
  | Refresh rstr
  | Logout rstr
  | Request_password_reset rstr
  | Confirm_password_reset rstr rstr
  | Change_password rstr rstr
  | Devices
  | Revoke_device device_id
  | Me
  | Update_me update_profile_request
  | Delete_me rstr rstr
  | Second_factor_state
  | Begin_second_factor_setup
  | Disable_second_factor rstr rstr
  | Enable_second_factor rstr
  | Regenerate_recovery_codes rstr rstr
  | Approve_qr_login uuid rstr
  | Profile_privacy
  | Update_profile_privacy profile_privacy_settings
  | Export_me

datatype social_route =
    Stickers
  | Create_sticker create_sticker_request
  | Delete_sticker uuid
  | Bootstrap
  | Search_users rstr
  | Friends
  | Friend_settings
  | Update_friend_settings user_id update_friend_settings_request
  | Delete_friend user_id
  | Block_user user_id
  | Unblock_user user_id
  | Report_user user_id report_user_request
  | Friend_requests
  | Create_friend_request rstr rstr
  | Decide_friend_request friend_request_id friend_request_decision
  | Conversations
  | Mark_all_read
  | Create_direct user_id
  | Create_group rstr "user_id list"
  | Conversation_settings conversation_id
  | Update_conversation_settings conversation_id update_conversation_settings_request

datatype group_route =
    Group_settings conversation_id
  | Update_group conversation_id update_group_request
  | Disband_group conversation_id
  | Add_group_members conversation_id "user_id list"
  | Update_group_member conversation_id user_id update_group_member_request
  | Remove_group_member conversation_id user_id
  | Leave_group conversation_id
  | Transfer_group_ownership conversation_id user_id
  | Set_group_mute conversation_id bool
  | Group_announcements conversation_id
  | Create_group_announcement conversation_id rstr
  | Read_group_announcement uuid
  | Group_join_requests conversation_id
  | Request_to_join_group conversation_id rstr
  | Decide_group_join_request uuid bool
  | Group_polls conversation_id
  | Create_group_poll conversation_id create_group_poll_request
  | Group_files conversation_id
  | Vote_group_poll uuid "uuid list"

datatype message_route =
    Messages conversation_id "u64 option" "nat option"
  | Send_message conversation_id send_message_request
  | Forward_messages "message_id list" conversation_id forward_mode
  | Favorite_messages "message_id list"
  | Translate_message message_id rstr
  | Transcribe_message message_id
  | Message_details message_id
  | Acknowledge_delivery message_id
  | Recall_message message_id
  | React_to_message message_id rstr bool
  | Set_message_favorite message_id bool
  | Scheduled_messages
  | Schedule_message schedule_message_request
  | Cancel_scheduled_message uuid
  | Mark_read conversation_id u64

datatype system_route =
    Sync "u64 option" "nat option"
  | Authorize_upload upload_authorization_request
  | Complete_upload attachment_id
  | Authorize_download attachment_id
  | Websocket_ticket
  | Websocket_upgrade rstr
  | Admin_suspension user_id bool
  | Admin_revoke_sessions user_id
  | Admin_audit "nat option"

datatype route =
    Account account_route | Social social_route | Group_route group_route
  | Message_route message_route | System system_route

text \<open>The status of a handler's answer.\<close>

definition status :: "(nat \<times> 'a) http \<Rightarrow> nat http" where
  "status h = bnd h (\<lambda>(n, _). ret n)"

fun account_handler :: "http_lib \<Rightarrow> request \<Rightarrow> account_route \<Rightarrow> nat http" where
  "account_handler H rq Live = ret 200"
| "account_handler H rq Ready = status (ready_h rq)"
| "account_handler H rq Metrics_page = status metrics_h"
| "account_handler H rq Admin_page = ret 200"
| "account_handler H rq Openapi = ret 200"
| "account_handler H rq (Register b) = status (register_h H rq b)"
| "account_handler H rq (Login b) = status (login_h H rq b)"
| "account_handler H rq (Begin_qr_login b) = status (begin_qr_login_h H rq b)"
| "account_handler H rq (Poll_qr_login i x) = status (poll_qr_login_h H rq i x)"
| "account_handler H rq (Refresh t) = status (refresh_h H rq t)"
| "account_handler H rq (Logout t) = status (logout_h H t)"
| "account_handler H rq (Request_password_reset e) = status (request_password_reset_h H rq e)"
| "account_handler H rq (Confirm_password_reset t p) = status (confirm_password_reset_h H rq t p)"
| "account_handler H rq (Change_password p q) = status (change_password_h H rq p q)"
| "account_handler H rq Devices = status (devices_h H rq)"
| "account_handler H rq (Revoke_device d) = status (revoke_device_h H rq d)"
| "account_handler H rq Me = status (me_h H rq)"
| "account_handler H rq (Update_me b) = status (update_me_h H rq b)"
| "account_handler H rq (Delete_me p c) = status (delete_me_h H rq p c)"
| "account_handler H rq Second_factor_state = status (second_factor_status_h H rq)"
| "account_handler H rq Begin_second_factor_setup = status (begin_second_factor_setup_h H rq)"
| "account_handler H rq (Disable_second_factor p c) = status (disable_second_factor_h H rq p c)"
| "account_handler H rq (Enable_second_factor c) = status (enable_second_factor_h H rq c)"
| "account_handler H rq (Regenerate_recovery_codes p c) = status (regenerate_recovery_codes_h H rq p c)"
| "account_handler H rq (Approve_qr_login i x) = status (approve_qr_login_h H rq i x)"
| "account_handler H rq Profile_privacy = status (profile_privacy_h H rq)"
| "account_handler H rq (Update_profile_privacy b) = status (update_profile_privacy_h H rq b)"
| "account_handler H rq Export_me = status (export_me_h H rq)"

fun social_handler :: "http_lib \<Rightarrow> request \<Rightarrow> social_route \<Rightarrow> nat http" where
  "social_handler H rq Stickers = status (stickers_h H rq)"
| "social_handler H rq (Create_sticker b) = status (create_sticker_h H rq b)"
| "social_handler H rq (Delete_sticker i) = status (delete_sticker_h H rq i)"
| "social_handler H rq Bootstrap = status (bootstrap_h H rq)"
| "social_handler H rq (Search_users n) = status (search_users_h H rq n)"
| "social_handler H rq Friends = status (friends_h H rq)"
| "social_handler H rq Friend_settings = status (friend_settings_h H rq)"
| "social_handler H rq (Update_friend_settings u b) = status (update_friend_settings_h H rq u b)"
| "social_handler H rq (Delete_friend u) = status (delete_friend_h H rq u)"
| "social_handler H rq (Block_user u) = status (block_user_h H rq u)"
| "social_handler H rq (Unblock_user u) = status (unblock_user_h H rq u)"
| "social_handler H rq (Report_user u b) = status (report_user_h H rq u b)"
| "social_handler H rq Friend_requests = status (friend_requests_h H rq)"
| "social_handler H rq (Create_friend_request n m) = status (create_friend_request_h H rq n m)"
| "social_handler H rq (Decide_friend_request i d) = status (decide_friend_request_h H rq i d)"
| "social_handler H rq Conversations = status (conversations_h H rq)"
| "social_handler H rq Mark_all_read = status (mark_all_read_h H rq)"
| "social_handler H rq (Create_direct u) = status (create_direct_h H rq u)"
| "social_handler H rq (Create_group n us) = status (create_group_h H rq n us)"
| "social_handler H rq (Conversation_settings c) = status (conversation_settings_h H rq c)"
| "social_handler H rq (Update_conversation_settings c b) = status (update_conversation_settings_h H rq c b)"

fun group_handler :: "http_lib \<Rightarrow> request \<Rightarrow> group_route \<Rightarrow> nat http" where
  "group_handler H rq (Group_settings c) = status (group_settings_h H rq c)"
| "group_handler H rq (Update_group c b) = status (update_group_h H rq c b)"
| "group_handler H rq (Disband_group c) = status (disband_group_h H rq c)"
| "group_handler H rq (Add_group_members c us) = status (add_group_members_h H rq c us)"
| "group_handler H rq (Update_group_member c u b) = status (update_group_member_h H rq c u b)"
| "group_handler H rq (Remove_group_member c u) = status (remove_group_member_h H rq c u)"
| "group_handler H rq (Leave_group c) = status (leave_group_h H rq c)"
| "group_handler H rq (Transfer_group_ownership c u) = status (transfer_group_ownership_h H rq c u)"
| "group_handler H rq (Set_group_mute c m) = status (set_group_mute_h H rq c m)"
| "group_handler H rq (Group_announcements c) = status (group_announcements_h H rq c)"
| "group_handler H rq (Create_group_announcement c x) = status (create_group_announcement_h H rq c x)"
| "group_handler H rq (Read_group_announcement i) = status (read_group_announcement_h H rq i)"
| "group_handler H rq (Group_join_requests c) = status (group_join_requests_h H rq c)"
| "group_handler H rq (Request_to_join_group c m) = status (request_to_join_group_h H rq c m)"
| "group_handler H rq (Decide_group_join_request i x) = status (decide_group_join_request_h H rq i x)"
| "group_handler H rq (Group_polls c) = status (group_polls_h H rq c)"
| "group_handler H rq (Create_group_poll c b) = status (create_group_poll_h H rq c b)"
| "group_handler H rq (Group_files c) = status (group_files_h H rq c)"
| "group_handler H rq (Vote_group_poll i os) = status (vote_group_poll_h H rq i os)"

fun message_handler :: "http_lib \<Rightarrow> request \<Rightarrow> message_route \<Rightarrow> nat http" where
  "message_handler H rq (Messages c b n) = status (messages_h H rq c b n)"
| "message_handler H rq (Send_message c b) = status (send_message_h H rq c b)"
| "message_handler H rq (Forward_messages ms c m) = status (forward_messages_h H rq ms c m)"
| "message_handler H rq (Favorite_messages os) = status (favorite_messages_h H rq os)"
| "message_handler H rq (Translate_message m l) = status (translate_message_h H rq m l)"
| "message_handler H rq (Transcribe_message m) = status (transcribe_message_h H rq m)"
| "message_handler H rq (Message_details m) = status (message_details_h H rq m)"
| "message_handler H rq (Acknowledge_delivery m) = status (acknowledge_delivery_h H rq m)"
| "message_handler H rq (Recall_message m) = status (recall_message_h H rq m)"
| "message_handler H rq (React_to_message m e x) = status (react_to_message_h H rq m e x)"
| "message_handler H rq (Set_message_favorite m x) = status (set_message_favorite_h H rq m x)"
| "message_handler H rq Scheduled_messages = status (scheduled_messages_h H rq)"
| "message_handler H rq (Schedule_message b) = status (schedule_message_h H rq b)"
| "message_handler H rq (Cancel_scheduled_message i) = status (cancel_scheduled_message_h H rq i)"
| "message_handler H rq (Mark_read c q) = status (mark_read_h H rq c q)"

fun system_handler :: "http_lib \<Rightarrow> request \<Rightarrow> system_route \<Rightarrow> nat http" where
  "system_handler H rq (Sync c n) = status (sync_h H rq c n)"
| "system_handler H rq (Authorize_upload b) = status (authorize_upload_h H rq b)"
| "system_handler H rq (Complete_upload i) = status (complete_upload_h H rq i)"
| "system_handler H rq (Authorize_download i) = status (authorize_download_h H rq i)"
| "system_handler H rq Websocket_ticket = status (websocket_ticket_h H rq)"
| "system_handler H rq (Websocket_upgrade t) = status (websocket_upgrade_h rq t)"
| "system_handler H rq (Admin_suspension u x) = status (admin_set_user_suspension_h H rq u x)"
| "system_handler H rq (Admin_revoke_sessions u) = status (admin_revoke_user_sessions_h H rq u)"
| "system_handler H rq (Admin_audit n) = status (admin_audit_h H rq n)"

fun router :: "http_lib \<Rightarrow> request \<Rightarrow> route \<Rightarrow> nat http" where
  "router H rq (Account r) = account_handler H rq r"
| "router H rq (Social r) = social_handler H rq r"
| "router H rq (Group_route r) = group_handler H rq r"
| "router H rq (Message_route r) = message_handler H rq r"
| "router H rq (System r) = system_handler H rq r"

section \<open>Observation\<close>

text \<open>The status of the response; a panic closes the connection without one.\<close>

fun response_status :: "http_failure + nat \<Rightarrow> nat option" where
  "response_status (Inr n) = Some n"
| "response_status (Inl (Refused e)) = Some (ar_status e)"
| "response_status (Inl (Crashed why)) = None"

definition is_client_error :: "nat \<Rightarrow> bool" where
  "is_client_error n \<longleftrightarrow> 400 \<le> n \<and> n < 500"

definition is_server_error :: "nat \<Rightarrow> bool" where
  "is_server_error n \<longleftrightarrow> 500 \<le> n \<and> n < 600"

definition count_response :: "nat \<Rightarrow> nat \<Rightarrow> metrics \<Rightarrow> metrics" where
  "count_response n elapsed m =
     m\<lparr>mt_requests := mt_requests m + 1,
       mt_client_errors := mt_client_errors m + (if is_client_error n then 1 else 0),
       mt_server_errors := mt_server_errors m + (if is_server_error n then 1 else 0),
       mt_request_latency_micros := mt_request_latency_micros m + micros_u64 elapsed,
       mt_request_latency_samples := mt_request_latency_samples m + 1\<rparr>"

definition observe_http_request :: "request \<Rightarrow> nat http \<Rightarrow> app \<Rightarrow> nat option \<times> app" where
  "observe_http_request rq next a =
     (case next a of (r, a') \<Rightarrow>
        (case response_status r of
           None \<Rightarrow> (None, a')
         | Some n \<Rightarrow> (Some n, a'\<lparr>ap_metrics := count_response n (rq_elapsed rq) (ap_metrics a')\<rparr>)))"

definition serve_http :: "http_lib \<Rightarrow> request \<Rightarrow> route \<Rightarrow> app \<Rightarrow> nat option \<times> app" where
  "serve_http H rq r = observe_http_request rq (router H rq r)"

fun http_run :: "http_lib \<Rightarrow> (request \<times> route) list \<Rightarrow> app \<Rightarrow> app" where
  "http_run H [] a = a"
| "http_run H ((rq, r) # rs) a = http_run H rs (snd (serve_http H rq r a))"

end
