(* ===== verification/Http_Access.thy ===== *)
theory Http_Access
  imports Http_Routes
begin

text \<open>
  Who is admitted to the routes of \<open>apps/server/src/api.rs\<close>: the routes that need a signed-in user, those
  that need the administration secret and those open to all; refused requests change nothing.
\<close>

datatype access = Open_to_all | Signed_in | Administration

fun account_access :: "account_route \<Rightarrow> access" where
  "account_access Live = Open_to_all"
| "account_access Ready = Open_to_all"
| "account_access Metrics_page = Open_to_all"
| "account_access Admin_page = Open_to_all"
| "account_access Openapi = Open_to_all"
| "account_access (Register b) = Open_to_all"
| "account_access (Login b) = Open_to_all"
| "account_access (Begin_qr_login b) = Open_to_all"
| "account_access (Poll_qr_login i x) = Open_to_all"
| "account_access (Refresh t) = Open_to_all"
| "account_access (Logout t) = Open_to_all"
| "account_access (Request_password_reset e) = Open_to_all"
| "account_access (Confirm_password_reset t p) = Open_to_all"
| "account_access _ = Signed_in"

fun system_access :: "system_route \<Rightarrow> access" where
  "system_access (Websocket_upgrade t) = Open_to_all"
| "system_access (Admin_suspension u x) = Administration"
| "system_access (Admin_revoke_sessions u) = Administration"
| "system_access (Admin_audit n) = Administration"
| "system_access _ = Signed_in"

fun route_access :: "route \<Rightarrow> access" where
  "route_access (Account r) = account_access r"
| "route_access (System r) = system_access r"
| "route_access _ = Signed_in"

text \<open>The user a request speaks for, and whether it carries the administration secret.\<close>

definition requester :: "crypto \<Rightarrow> request \<Rightarrow> app \<Rightarrow> (user_id \<times> device_id) option" where
  "requester C rq a = Option.bind (bearer_token rq) (\<lambda>token.
     case authenticate_identity C (svc_txn (ap_service a)) token (rq_at rq 0) of
       Inr u \<Rightarrow> Some u | Inl _ \<Rightarrow> None)"

definition administrator :: "crypto \<Rightarrow> request \<Rightarrow> app \<Rightarrow> bool" where
  "administrator C rq a \<longleftrightarrow> (case (rq_admin_token rq, ap_admin_token a) of
     (Some supplied, Some expected) \<Rightarrow> constant_time_secret_eq C supplied expected
   | _ \<Rightarrow> False)"

text \<open>The comparison in constant time is the comparison of the digests.\<close>

lemma xor_zero_iff: "x XOR y = 0 \<longleftrightarrow> x = y" for x y :: u8
  by (metis bit.xor_left_self bit.xor_self xor.right_neutral)

lemma fold_xor_zero:
  "length xs = length ys
     \<Longrightarrow> fold (\<lambda>(l, r) d. d OR (l XOR r)) (zip xs ys) d = 0 \<longleftrightarrow> d = 0 \<and> xs = ys" for d :: u8
proof (induction xs ys arbitrary: d rule: list_induct2)
  case (Cons x xs y ys)
  have "d OR (x XOR y) = 0 \<longleftrightarrow> d = 0 \<and> x = y"
    by (auto simp: or_eq_0_iff xor_zero_iff)
  with Cons.IH show ?case by auto
qed simp

lemma constant_time_secret_eq_iff:
  assumes "length (c_sha256 C (utf8 l)) = 32" "length (c_sha256 C (utf8 r)) = 32"
  shows "constant_time_secret_eq C l r \<longleftrightarrow> c_sha256 C (utf8 l) = c_sha256 C (utf8 r)"
  using assms by (simp add: constant_time_secret_eq_def fold_xor_zero)

definition refusal :: "(uuid \<Rightarrow> app_error) \<Rightarrow> app \<Rightarrow> (http_failure + 'a) \<times> app" where
  "refusal e a = (Inl (Refused (e (ap_fresh a (ap_drawn a)))), a\<lparr>ap_drawn := Suc (ap_drawn a)\<rparr>)"

lemma refuse_run [simp]: "refuse e a = refusal e a"
  by (simp add: refuse_def refusal_def draw_id_def run_bnd)

lemma answer_Inr [simp]: "answer (Inr x) = ret x"
  by (simp add: answer_def)

lemma authenticate_errors:
  "authenticate_identity C s token now = Inl e \<Longrightarrow> e = Unauthorized \<or> e = SessionExpired"
  by (auto simp: authenticate_identity_def and_then_def ok_or_def err_if_def
      split: option.splits if_splits)

lemma current_user_None:
  "requester C rq a = None \<Longrightarrow> current_user C rq a = refusal unauthorized_error a"
  by (auto simp: current_user_def requester_def look_def view_def answer_def draw_id_def run_bnd refusal_def
      split: option.splits sum.splits dest!: authenticate_errors)

lemma current_user_Some:
  "requester C rq a = Some u \<Longrightarrow> current_user C rq a = (Inr u, a)"
  by (auto simp: current_user_def requester_def look_def view_def answer_def run_bnd
      split: option.splits sum.splits)

lemma admin_access_refused:
  "\<not> administrator C rq a \<Longrightarrow> admin_access C rq a = refusal unauthorized_error a"
  by (auto simp: admin_access_def administrator_def refuse_if_def run_bnd split: option.splits)

lemma bnd_refused: "m a = refusal e a \<Longrightarrow> bnd m f a = refusal e a"
  by (simp add: run_bnd refusal_def)

lemma status_refused: "h a = refusal e a \<Longrightarrow> status h a = refusal e a"
  by (simp add: status_def bnd_refused)

lemmas signed_in_handlers =
  approve_qr_login_h_def second_factor_status_h_def begin_second_factor_setup_h_def
  enable_second_factor_h_def disable_second_factor_h_def regenerate_recovery_codes_h_def
  change_password_h_def devices_h_def revoke_device_h_def me_h_def update_me_h_def profile_privacy_h_def
  update_profile_privacy_h_def export_me_h_def delete_me_h_def

lemmas social_handlers =
  stickers_h_def create_sticker_h_def delete_sticker_h_def bootstrap_h_def search_users_h_def friends_h_def
  friend_settings_h_def update_friend_settings_h_def delete_friend_h_def block_user_h_def
  unblock_user_h_def report_user_h_def friend_requests_h_def create_friend_request_h_def
  decide_friend_request_h_def conversations_h_def conversation_settings_h_def
  update_conversation_settings_h_def mark_all_read_h_def create_direct_h_def create_group_h_def

lemmas group_handlers =
  update_group_h_def group_settings_h_def add_group_members_h_def update_group_member_h_def
  remove_group_member_h_def leave_group_h_def disband_group_h_def transfer_group_ownership_h_def
  set_group_mute_h_def group_announcements_h_def group_files_h_def create_group_announcement_h_def
  read_group_announcement_h_def group_join_requests_h_def request_to_join_group_h_def
  decide_group_join_request_h_def group_polls_h_def create_group_poll_h_def vote_group_poll_h_def

lemmas message_handlers =
  messages_h_def send_message_h_def message_details_h_def translate_message_h_def transcribe_message_h_def
  acknowledge_delivery_h_def recall_message_h_def react_to_message_h_def set_message_favorite_h_def
  favorite_messages_h_def forward_messages_h_def schedule_message_h_def scheduled_messages_h_def
  cancel_scheduled_message_h_def mark_read_h_def

lemmas system_handlers =
  sync_h_def authorize_upload_h_def complete_upload_h_def authorize_download_h_def websocket_ticket_h_def
  admin_set_user_suspension_h_def admin_revoke_user_sessions_h_def admin_audit_h_def

lemma account_refused:
  assumes "requester (hl_crypto H) rq a = None" "account_access r = Signed_in"
  shows "account_handler H rq r a = refusal unauthorized_error a"
  using assms(2) current_user_None [OF assms(1)]
  by (cases r) (simp_all add: status_refused bnd_refused signed_in_handlers)

lemma social_refused:
  assumes "requester (hl_crypto H) rq a = None"
  shows "social_handler H rq r a = refusal unauthorized_error a"
  using current_user_None [OF assms]
  by (cases r) (simp_all add: status_refused bnd_refused handler_shapes social_handlers)

lemma group_refused:
  assumes "requester (hl_crypto H) rq a = None"
  shows "group_handler H rq r a = refusal unauthorized_error a"
  using current_user_None [OF assms]
  by (cases r) (simp_all add: status_refused bnd_refused handler_shapes group_handlers)

lemma message_refused:
  assumes "requester (hl_crypto H) rq a = None"
  shows "message_handler H rq r a = refusal unauthorized_error a"
  using current_user_None [OF assms]
  by (cases r) (simp_all add: status_refused bnd_refused handler_shapes message_handlers)

lemma system_refused:
  assumes "requester (hl_crypto H) rq a = None" "system_access r = Signed_in"
  shows "system_handler H rq r a = refusal unauthorized_error a"
  using assms(2) current_user_None [OF assms(1)]
  by (cases r) (simp_all add: status_refused bnd_refused handler_shapes system_handlers)

lemma administration_refused:
  assumes "\<not> administrator (hl_crypto H) rq a" "system_access r = Administration"
  shows "system_handler H rq r a = refusal unauthorized_error a"
  using assms(2) admin_access_refused [OF assms(1)]
  by (cases r) (simp_all add: status_refused bnd_refused handler_shapes system_handlers)

definition admitted :: "http_lib \<Rightarrow> request \<Rightarrow> route \<Rightarrow> app \<Rightarrow> bool" where
  "admitted H rq r a = (case route_access r of
     Open_to_all \<Rightarrow> True
   | Signed_in \<Rightarrow> requester (hl_crypto H) rq a \<noteq> None
   | Administration \<Rightarrow> administrator (hl_crypto H) rq a)"

lemma router_refused:
  assumes "\<not> admitted H rq r a"
  shows "router H rq r a = refusal unauthorized_error a"
proof (cases r)
  case (Account x)
  with assms have "account_access x = Signed_in \<and> requester (hl_crypto H) rq a = None"
    by (cases x) (simp_all add: admitted_def del: not_None_eq)
  with Account show ?thesis by (simp add: account_refused)
next
  case (System x)
  with assms show ?thesis
    by (cases "system_access x")
      (simp_all add: admitted_def system_refused administration_refused del: not_None_eq)
qed (use assms in \<open>simp_all add: admitted_def social_refused group_refused message_refused
       del: not_None_eq\<close>)

text \<open>C18. Every route but the thirteen open ones and the ticketed WebSocket upgrade answers 401 to a
  request without a live access token of an active account and device (the administration routes: to one
  without the configured secret), before anything else happens: the service, the tickets, the rate
  buckets and the letters stay as they were; only the request is counted.\<close>

theorem closed_routes_refused:
  assumes "\<not> admitted H rq r a"
  shows "serve_http H rq r a =
    (Some 401, a\<lparr>ap_drawn := Suc (ap_drawn a),
                 ap_metrics := count_response 401 (rq_elapsed rq) (ap_metrics a)\<rparr>)"
  using router_refused [OF assms]
  by (simp add: serve_http_def observe_http_request_def refusal_def unauthorized_error_def app_error_new_def)

end
