(* ===== verification/Http_Tickets.thy ===== *)
theory Http_Tickets
  imports Http_Access
begin

text \<open>
  The life of a WebSocket ticket over any run of requests: it is issued to a signed-in user, is good for
  thirty seconds, and for one connection.
\<close>

section \<open>Only one route adds tickets\<close>

definition tickets_kept :: "app \<Rightarrow> app \<Rightarrow> bool" where
  "tickets_kept a a' \<longleftrightarrow> ap_fresh a' = ap_fresh a \<and> ap_drawn a \<le> ap_drawn a'
     \<and> (hm_wf (ap_tickets a) \<longrightarrow> hm_wf (ap_tickets a')
          \<and> (\<forall>k t. hm_get k (ap_tickets a') = Some t \<longrightarrow> hm_get k (ap_tickets a) = Some t))"

interpretation tickets: effect_preorder tickets_kept
  by unfold_locales (auto simp: tickets_kept_def)

lemmas [guar_intros] =
  tickets.guar_ret tickets.guar_throw tickets.guar_gets tickets.guar_lift tickets.guar_fail_if
  tickets.guar_modify tickets.guar_bnd tickets.guar_if tickets.guar_case_option tickets.guar_case_prod
  tickets.guar_let

lemma guar_case_sum [guar_intros]:
  "(\<And>e. guar R (f e)) \<Longrightarrow> (\<And>x. guar R (g x)) \<Longrightarrow> guar R (case r of Inl e \<Rightarrow> f e | Inr x \<Rightarrow> g x)"
  by (simp split: sum.split)

lemma guar_case_verdict [guar_intros]:
  "guar R f \<Longrightarrow> (\<And>x. guar R (g x)) \<Longrightarrow> guar R (case v of Clean \<Rightarrow> f | Infected x \<Rightarrow> g x)"
  by (simp split: scan_verdict.split)

lemma tickets_kept_same [simp]:
  "ap_fresh a' = ap_fresh a \<Longrightarrow> ap_drawn a' = ap_drawn a \<Longrightarrow> ap_tickets a' = ap_tickets a
     \<Longrightarrow> tickets_kept a a'"
  by (simp add: tickets_kept_def)

lemma tickets_draw [guar_intros]: "guar tickets_kept draw_id"
  by (simp add: guar_def draw_id_def tickets_kept_def)

lemma tickets_refuse [guar_intros]: "guar tickets_kept (refuse e)"
  unfolding refuse_def by (intro guar_intros)

lemma tickets_refuse_if [guar_intros]: "guar tickets_kept (refuse_if b e)"
  unfolding refuse_if_def by (intro guar_intros)

lemma tickets_answer [guar_intros]: "guar tickets_kept (answer r)"
  unfolding answer_def by (intro guar_intros)

lemma tickets_attempt [guar_intros]: "guar tickets_kept (attempt m)"
  by (simp add: guar_def attempt_def split: prod.split)

lemma tickets_basic [guar_intros]:
  "guar tickets_kept (call m)"
  "guar tickets_kept (view f)"
  "guar tickets_kept (look g)"
  "guar tickets_kept (count_with h)"
  "guar tickets_kept (post_mail l)"
  "guar tickets_kept (reply n x)"
  "guar tickets_kept (or_refuse v e)"
  "guar tickets_kept the_object_store"
  unfolding call_def view_def look_def count_with_def post_mail_def reply_def or_refuse_def
    the_object_store_def
  by (intro guar_intros; simp)+

lemma tickets_rate_limit [guar_intros]: "guar tickets_kept (rate_limit ip t scope n)"
proof -
  have "guar tickets_kept (\<lambda>a. case rate_check key n w t (ap_buckets a) of
          (b, buckets) \<Rightarrow> (Inr b, a\<lparr>ap_buckets := buckets\<rparr>))" for key w
    by (simp add: guar_def split: prod.split)
  note checked = this
  show ?thesis unfolding rate_limit_def by (intro guar_intros checked)
qed

lemma tickets_users [guar_intros]:
  "guar tickets_kept (current_user C rq)"
  "guar tickets_kept (admin_access C rq)"
  unfolding current_user_def admin_access_def by (intro guar_intros)+

lemma tickets_redeem [guar_intros]: "guar tickets_kept (redeem_ticket k t)"
proof -
  have "tickets_kept a (a\<lparr>ap_tickets := hm_remove k (ap_tickets a)\<rparr>)" for a
    by (simp add: tickets_kept_def)
  then show ?thesis unfolding redeem_ticket_def by (intro guar_intros)
qed

lemma tickets_shapes [guar_intros]:
  "guar tickets_kept (as_user H rq n m)"
  "guar tickets_kept (done_as_user H rq m')"
  "guar tickets_kept (read_as_user H rq f)"
  "guar tickets_kept (look_as_user H rq g)"
  "guar tickets_kept h \<Longrightarrow> guar tickets_kept (status h)"
  unfolding handler_shapes status_def by (intro guar_intros; assumption?)+

lemmas open_handlers =
  ready_h_def metrics_h_def register_h_def login_h_def notify_login_def begin_qr_login_h_def
  poll_qr_login_h_def notify_qr_login_def refresh_h_def logout_h_def request_password_reset_h_def
  confirm_password_reset_h_def avatar_url_def

lemma tickets_account: "guar tickets_kept (account_handler H rq r)"
  by (cases r; simp only: account_handler.simps signed_in_handlers open_handlers; intro guar_intros)

lemma tickets_social: "guar tickets_kept (social_handler H rq r)"
  by (cases r; simp only: social_handler.simps social_handlers; intro guar_intros)

lemma tickets_group: "guar tickets_kept (group_handler H rq r)"
  by (cases r; simp only: group_handler.simps group_handlers; intro guar_intros)

lemma tickets_message: "guar tickets_kept (message_handler H rq r)"
  by (cases r; simp only: message_handler.simps message_handlers; intro guar_intros)

lemma tickets_system: "r \<noteq> Websocket_ticket \<Longrightarrow> guar tickets_kept (system_handler H rq r)"
  by (cases r; simp only: system_handler.simps system_handlers websocket_upgrade_h_def scan_upload_def
        simp_thms; intro guar_intros)


lemma tickets_router:
  assumes "r \<noteq> System Websocket_ticket"
  shows "guar tickets_kept (router H rq r)"
proof (cases r)
  case (Account x)
  show ?thesis unfolding Account router.simps by (rule tickets_account)
next
  case (Social x)
  show ?thesis unfolding Social router.simps by (rule tickets_social)
next
  case (Group_route x)
  show ?thesis unfolding Group_route router.simps by (rule tickets_group)
next
  case (Message_route x)
  show ?thesis unfolding Message_route router.simps by (rule tickets_message)
next
  case (System x)
  with assms have "x \<noteq> Websocket_ticket" by simp
  then show ?thesis unfolding System router.simps by (rule tickets_system)
qed

lemma observe_fields [simp]:
  "ap_tickets (snd (observe_http_request rq m a)) = ap_tickets (snd (m a))"
  "ap_fresh (snd (observe_http_request rq m a)) = ap_fresh (snd (m a))"
  "ap_drawn (snd (observe_http_request rq m a)) = ap_drawn (snd (m a))"
  by (simp_all add: observe_http_request_def split: prod.split option.split)

lemma serve_keeps_tickets:
  assumes "r \<noteq> System Websocket_ticket"
  shows "tickets_kept a (snd (serve_http H rq r a))"
proof -
  have "tickets_kept a (snd (router H rq r a))"
    using tickets_router [OF assms] unfolding guar_def by (rule spec)
  then show ?thesis unfolding tickets_kept_def serve_http_def observe_fields .
qed

lemma ticket_route:
  "snd (status (websocket_ticket_h H rq) a) =
     (case requester (hl_crypto H) rq a of
        None \<Rightarrow> a\<lparr>ap_drawn := Suc (ap_drawn a)\<rparr>
      | Some (u, d) \<Rightarrow> a\<lparr>ap_drawn := Suc (ap_drawn a),
          ap_tickets := hm_insert (simple_uuid (ap_fresh a (ap_drawn a)))
            \<lparr>wt_user_id = u, wt_expires_at = rq_instant rq + 30000\<rparr>
            (hm_retain (\<lambda>_ t. wt_expires_at t > rq_instant rq) (ap_tickets a))\<rparr>)"
proof (cases "requester (hl_crypto H) rq a")
  case None
  then show ?thesis
    using router_refused [of H rq "System Websocket_ticket" a] by (simp add: admitted_def refusal_def)
next
  case (Some ud)
  then show ?thesis
    by (cases ud) (simp add: websocket_ticket_h_def status_def run_bnd current_user_Some issue_ticket_def
        draw_id_def reply_def)
qed

section \<open>Where the tickets of a run come from\<close>

definition issued :: "http_lib \<Rightarrow> (request \<times> route) list \<Rightarrow> app \<Rightarrow> rstr \<Rightarrow> ws_ticket \<Rightarrow> bool" where
  "issued H reqs a0 k t \<longleftrightarrow> (\<exists>before rq after d. reqs = before @ (rq, System Websocket_ticket) # after
     \<and> requester (hl_crypto H) rq (http_run H before a0) = Some (wt_user_id t, d)
     \<and> k = simple_uuid (ap_fresh a0 (ap_drawn (http_run H before a0)))
     \<and> wt_expires_at t = rq_instant rq + 30000)"

lemma issued_later: "issued H reqs a0 k t \<Longrightarrow> issued H (reqs @ reqs2) a0 k t"
proof -
  assume "issued H reqs a0 k t"
  then obtain before rq after d where
    "reqs = before @ (rq, System Websocket_ticket) # after"
    "requester (hl_crypto H) rq (http_run H before a0) = Some (wt_user_id t, d)"
    "k = simple_uuid (ap_fresh a0 (ap_drawn (http_run H before a0)))"
    "wt_expires_at t = rq_instant rq + 30000"
    by (auto simp: issued_def)
  then show ?thesis unfolding issued_def
    by (intro exI [of _ before] exI [of _ rq] exI [of _ "after @ reqs2"] exI [of _ d]) simp
qed

lemma http_run_append: "http_run H (xs @ ys) a = http_run H ys (http_run H xs a)"
  by (induction xs arbitrary: a) auto

definition tickets_from :: "http_lib \<Rightarrow> (request \<times> route) list \<Rightarrow> app \<Rightarrow> app \<Rightarrow> bool" where
  "tickets_from H reqs a0 a \<longleftrightarrow> ap_fresh a = ap_fresh a0 \<and> hm_wf (ap_tickets a)
     \<and> (\<forall>k t. hm_get k (ap_tickets a) = Some t \<longrightarrow> issued H reqs a0 k t
          \<and> (\<exists>n < ap_drawn a. k = simple_uuid (ap_fresh a0 n)))"

lemma tickets_from_step:
  assumes from_a: "tickets_from H reqs a0 a" and a: "a = http_run H reqs a0"
  shows "tickets_from H (reqs @ [(rq, r)]) a0 (snd (serve_http H rq r a))"
    (is "tickets_from _ _ _ ?a")
proof (cases "r = System Websocket_ticket \<and> requester (hl_crypto H) rq a \<noteq> None")
  case False
  have "tickets_kept a (snd (serve_http H rq r a))"
  proof (cases "r = System Websocket_ticket")
    case True
    with False have "requester (hl_crypto H) rq a = None" by (simp del: not_None_eq)
    with True show ?thesis by (simp add: serve_http_def tickets_kept_def ticket_route)
  qed (rule serve_keeps_tickets)
  then have kept: "ap_fresh ?a = ap_fresh a" "ap_drawn a \<le> ap_drawn ?a" "hm_wf (ap_tickets ?a)"
    "\<And>k t. hm_get k (ap_tickets ?a) = Some t \<Longrightarrow> hm_get k (ap_tickets a) = Some t"
    using from_a unfolding tickets_kept_def tickets_from_def by blast+
  show ?thesis
    unfolding tickets_from_def
  proof (intro conjI allI impI)
    fix k t assume "hm_get k (ap_tickets ?a) = Some t"
    then have old: "hm_get k (ap_tickets a) = Some t" by (rule kept(4))
    with from_a show "issued H (reqs @ [(rq, r)]) a0 k t"
      unfolding tickets_from_def by (blast intro: issued_later)
    from old from_a show "\<exists>n < ap_drawn ?a. k = simple_uuid (ap_fresh a0 n)"
      unfolding tickets_from_def using kept(2) by (meson order_less_le_trans)
  qed (use from_a kept in \<open>simp_all add: tickets_from_def\<close>)
next
  case True
  then obtain u d where req: "requester (hl_crypto H) rq a = Some (u, d)" by auto
  let ?k = "simple_uuid (ap_fresh a0 (ap_drawn a))"
  let ?t = "\<lparr>wt_user_id = u, wt_expires_at = rq_instant rq + 30000\<rparr>"
  have "issued H (reqs @ [(rq, r)]) a0 ?k ?t"
    using True req a by (auto simp: issued_def)
  moreover have "(k = ?k \<and> t = ?t) \<or> hm_get k (ap_tickets a) = Some t"
    if "hm_get k (ap_tickets ?a) = Some t" for k t
    using that True req from_a
    by (auto simp: tickets_from_def serve_http_def ticket_route split: if_splits dest!: hm_get_retain_SomeD)
  moreover have "ap_fresh ?a = ap_fresh a0" "ap_drawn ?a = Suc (ap_drawn a)" "hm_wf (ap_tickets ?a)"
    using True req from_a by (simp_all add: tickets_from_def serve_http_def ticket_route)
  ultimately show ?thesis
    using from_a unfolding tickets_from_def by (metis issued_later less_Suc_eq)
qed

lemma tickets_of_run:
  assumes "ap_tickets a0 = []"
  shows "tickets_from H reqs a0 (http_run H reqs a0)"
proof (induction reqs rule: rev_induct)
  case Nil
  with assms show ?case by (simp add: tickets_from_def)
next
  case (snoc x reqs)
  then show ?case
    by (cases x) (simp add: http_run_append tickets_from_step)
qed

text \<open>A ticket that was drawn and is gone does not come back.\<close>

lemma drawn_grows: "ap_drawn a \<le> ap_drawn (snd (serve_http H rq r a))"
proof (cases "r = System Websocket_ticket")
  case True
  then show ?thesis by (simp add: serve_http_def ticket_route split: option.split prod.split)
qed (use serve_keeps_tickets in \<open>simp add: tickets_kept_def\<close>)

lemma drawn_run_grows: "ap_drawn a \<le> ap_drawn (http_run H reqs a)"
proof (induction reqs arbitrary: a)
  case (Cons x reqs)
  show ?case
    using order_trans [OF drawn_grows Cons.IH] by (cases x) simp
qed simp

lemma gone_for_good:
  assumes "inj_on (\<lambda>n. simple_uuid (ap_fresh a n)) {..<ap_drawn (http_run H reqs a)}"
    and "n < ap_drawn a" "hm_wf (ap_tickets a)"
    and "hm_get (simple_uuid (ap_fresh a n)) (ap_tickets a) = None"
  shows "hm_get (simple_uuid (ap_fresh a n)) (ap_tickets (http_run H reqs a)) = None"
  using assms
proof (induction reqs arbitrary: a)
  case (Cons x reqs)
  obtain rq r where x: "x = (rq, r)" by (cases x)
  let ?a = "snd (serve_http H rq r a)" and ?k = "simple_uuid (ap_fresh a n)"
  have "ap_fresh ?a = ap_fresh a \<and> ap_drawn a \<le> ap_drawn ?a \<and> hm_wf (ap_tickets ?a)
    \<and> hm_get ?k (ap_tickets ?a) = None"
  proof (cases "r = System Websocket_ticket")
    case True
    have "simple_uuid (ap_fresh a (ap_drawn a)) \<noteq> ?k"
      if "requester (hl_crypto H) rq a = Some (u, d)" for u d
    proof -
      have "ap_drawn ?a = Suc (ap_drawn a)"
        using True that by (simp add: serve_http_def ticket_route)
      then have "ap_drawn a < ap_drawn (http_run H (x # reqs) a)"
        using drawn_run_grows [of ?a H reqs] by (simp add: x)
      then show ?thesis
        using inj_onD [OF Cons.prems(1), of "ap_drawn a" n] Cons.prems(2) by auto
    qed
    moreover have "hm_get ?k (hm_retain P (ap_tickets a)) = None" for P
      using Cons.prems(3,4) by (simp add: hm_get_retain)
    ultimately show ?thesis
      using True Cons.prems(3,4)
      by (cases "requester (hl_crypto H) rq a") (auto simp: serve_http_def ticket_route)
  next
    case False
    then have "tickets_kept a ?a" by (rule serve_keeps_tickets)
    with Cons.prems(3,4) show ?thesis
      unfolding tickets_kept_def by (metis not_Some_eq)
  qed
  with Cons.IH [of ?a] Cons.prems show ?case by (simp add: x)
qed simp


section \<open>One connection for one ticket\<close>

lemma redeemed:
  assumes "websocket_upgrade_h rq k a = (Inr (n, u), a')"
  shows "n = 101" and "\<exists>t. hm_get k (ap_tickets a) = Some t \<and> wt_user_id t = u \<and> rq_instant rq < wt_expires_at t"
    and "ap_tickets a' = hm_remove k (ap_tickets a)" "ap_fresh a' = ap_fresh a" "ap_drawn a' = ap_drawn a"
  using assms
  by (auto simp: websocket_upgrade_h_def redeem_ticket_def count_with_def reply_def refusal_def run_bnd
      split: option.splits if_splits)

lemma not_redeemed:
  "hm_get k (ap_tickets a) = None \<Longrightarrow> \<exists>i. fst (websocket_upgrade_h rq k a) = Inl (Refused (unauthorized_error i))"
  by (auto simp: websocket_upgrade_h_def redeem_ticket_def run_bnd refusal_def)


end
