(* ===== verification/Http_Uploads.thy ===== *)
theory Http_Uploads
  imports Http_Access
begin

text \<open>
  What has to happen before an uploaded file can be used: \<open>complete_upload\<close> of
  \<open>apps/server/src/api.rs\<close> over the object store, the malware scanner and the attachments of the service.
\<close>

definition available :: "attachment_id \<Rightarrow> service \<Rightarrow> bool" where
  "available i sv \<longleftrightarrow> (case hm_get i (st_attachments (svc_txn sv)) of
     Some p \<Rightarrow> pa_available p | None \<Rightarrow> False)"

section \<open>The service methods\<close>

lemma restore_attachments [simp]: "st_attachments (restore s s') = st_attachments s"
  by (simp add: restore_def)

lemma quarantine_not_available:
  assumes "quarantine_attachment u i now sv = (r, sv')" "\<not> available i sv"
  shows "\<not> available i sv'"
  using assms
  by (cases "quarantine_attachment_tx u i now" sv rule: mutate_cases)
    (auto simp: quarantine_attachment_def available_def quarantine_attachment_tx_def owned_pending_def
      found_def put_attachment_def run_bnd ok_or_def split: option.splits if_splits)

lemma complete_failed:
  assumes "complete_attachment u i now sv = (Inl e, sv')"
  shows "st_attachments (svc_txn sv') = st_attachments (svc_txn sv)"
  using assms
  by (cases "complete_attachment_tx u i now" sv rule: mutate_cases)
    (auto simp: complete_attachment_def complete_attachment_tx_def owned_pending_def
      found_def put_attachment_def run_bnd ok_or_def split: option.splits if_splits)

section \<open>What the checks found\<close>

text \<open>An object of the announced size and type, with the announced digest in its metadata, whose first
  bytes are those of its type.\<close>

definition object_checked :: "web \<Rightarrow> attachment \<Rightarrow> bool" where
  "object_checked web a \<longleftrightarrow> (\<exists>url head url' answer prefix mime.
     web 0 (lit ''HEAD'') url = Some head \<and> is_success head
     \<and> Option.bind (wr_header head (lit ''content-length'')) parse_u64 = Some (att_byte_size a)
     \<and> wr_header head (lit ''content-type'') = Some mime
     \<and> eq_ignore_ascii_case (media_type mime) (att_mime_type a)
     \<and> (\<forall>h. att_sha256 a = Some h \<longrightarrow> (\<exists>v. wr_header head (lit ''x-amz-meta-sha256'') = Some v
           \<and> eq_ignore_ascii_case v h))
     \<and> web 1 (lit ''GET'') url' = Some answer \<and> is_success answer \<and> wr_body answer = Some prefix
     \<and> magic_matches (att_mime_type a) prefix)"

text \<open>The bytes that were read whole, at most as many as announced, and found clean.\<close>

definition found_clean :: "request \<Rightarrow> attachment \<Rightarrow> bool" where
  "found_clean rq a \<longleftrightarrow> (\<exists>url answer bytes. rq_web rq 2 (lit ''GET'') url = Some answer
     \<and> wr_body answer = Some bytes \<and> length bytes \<le> unat (att_byte_size a)
     \<and> scan (rq_clamd rq) bytes = Inr Clean)"

lemma ensure_Inr [simp]: "ensure b why = Inr u \<longleftrightarrow> b"
  by (simp add: ensure_def)

lemma context_of_Inr [simp]: "context_of x why = Inr v \<longleftrightarrow> x = Some v"
  by (simp add: context_of_def)

lemmas result_iffs = and_then_Inr_iff context_of_Inr ensure_Inr

lemma verify_head_checked:
  assumes "verify_head m n h r = Inr w"
  obtains mime where "is_success r" "Option.bind (wr_header r (lit ''content-length'')) parse_u64 = Some n"
    "wr_header r (lit ''content-type'') = Some mime" "eq_ignore_ascii_case (media_type mime) m"
    "\<And>e. h = Some e \<Longrightarrow> \<exists>v. wr_header r (lit ''x-amz-meta-sha256'') = Some v \<and> eq_ignore_ascii_case v e"
proof (cases h)
  case None
  with assms that show ?thesis
    unfolding verify_head_def result_iffs map_option_eq_Some by blast
next
  case (Some e)
  from assms have "is_success r"
    "Option.bind (wr_header r (lit ''content-length'')) parse_u64 = Some n"
    "\<exists>mime. wr_header r (lit ''content-type'') = Some mime \<and> eq_ignore_ascii_case (media_type mime) m"
    "\<exists>v. wr_header r (lit ''x-amz-meta-sha256'') = Some v \<and> eq_ignore_ascii_case v e"
    unfolding Some verify_head_def result_iffs map_option_eq_Some option.case by blast+
  with Some that show ?thesis by blast
qed

lemma verify_object_checked:
  assumes "verify_object C L web st (att_storage_key a) (att_mime_type a) (att_byte_size a) (att_sha256 a) now
    = Inr ()"
  shows "object_checked web a"
proof -
  from assms obtain url head w url' answer prefix where
    "web 0 (lit ''HEAD'') url = Some head"
    "verify_head (att_mime_type a) (att_byte_size a) (att_sha256 a) head = Inr w"
    "web 1 (lit ''GET'') url' = Some answer" "is_success answer" "wr_body answer = Some prefix"
    "magic_matches (att_mime_type a) prefix"
    unfolding verify_object_def result_iffs validate_magic_def by blast
  note found = this
  obtain mime where mime: "is_success head"
    "Option.bind (wr_header head (lit ''content-length'')) parse_u64 = Some (att_byte_size a)"
    "wr_header head (lit ''content-type'') = Some mime" "eq_ignore_ascii_case (media_type mime) (att_mime_type a)"
    "\<And>e. att_sha256 a = Some e \<Longrightarrow> \<exists>v. wr_header head (lit ''x-amz-meta-sha256'') = Some v \<and> eq_ignore_ascii_case v e"
    using verify_head_checked [OF found(2)] by blast
  show ?thesis
    unfolding object_checked_def
    by (intro exI [of _ url] exI [of _ head] exI [of _ url'] exI [of _ answer] exI [of _ prefix]
        exI [of _ mime] conjI allI impI mime found(1,3-6))
qed

lemma read_object_bytes:
  assumes "read_object C L web st key n now = Inr bytes"
  shows "\<exists>url answer. web 0 (lit ''GET'') url = Some answer \<and> wr_body answer = Some bytes
    \<and> length bytes \<le> unat n"
  using assms unfolding read_object_def result_iffs by blast

section \<open>The handler\<close>

lemma look_run:
  "look f a = (case f (svc_txn (ap_service a)) of
     Inr x \<Rightarrow> (Inr x, a)
   | Inl e \<Rightarrow> (Inl (application_answer (ap_fresh a (ap_drawn a)) e), a\<lparr>ap_drawn := Suc (ap_drawn a)\<rparr>))"
  by (simp add: look_def view_def answer_def draw_id_def run_bnd split: sum.split)

lemma call_run:
  "call m a = (case m (ap_service a) of
     (Inr x, sv) \<Rightarrow> (Inr x, a\<lparr>ap_service := sv\<rparr>)
   | (Inl e, sv) \<Rightarrow> (Inl (application_answer (ap_fresh a (ap_drawn a)) e),
                     a\<lparr>ap_service := sv, ap_drawn := Suc (ap_drawn a)\<rparr>))"
  by (simp add: call_def attempt_def answer_def draw_id_def run_bnd split: sum.split prod.split)

lemma or_refuse_run: "or_refuse r e a = (case r of Inr x \<Rightarrow> (Inr x, a) | Inl _ \<Rightarrow> refusal e a)"
  by (simp add: or_refuse_def split: sum.split)

lemma object_store_run:
  "the_object_store a = (case ap_object_store a of
     Some st \<Rightarrow> (Inr st, a) | None \<Rightarrow> refusal (service_unavailable ''error.object_store_unavailable'') a)"
  by (simp add: the_object_store_def split: option.split)

lemma service_refusal [simp]: "ap_service (snd (refusal e a)) = ap_service a"
  by (simp add: refusal_def)

lemma refusal_fails: "refusal e a \<noteq> (Inr x, a')"
  by (simp add: refusal_def)

lemma scan_upload_outcome:
  assumes "scan_upload H rq st u i pending now a = (r, a')" "\<not> available i (ap_service a)"
  shows "\<not> available i (ap_service a')" and "r = Inr () \<Longrightarrow> a' = a \<and> found_clean rq pending"
proof -
  let ?read = "read_object (hl_crypto H) (hl_store_lib H) (web_after 2 (rq_web rq)) st
    (att_storage_key pending) (att_byte_size pending) now"
  have "\<not> available i (ap_service a') \<and> (r = Inr () \<longrightarrow> a' = a \<and> found_clean rq pending)"
  proof (cases ?read)
    case (Inl e)
    with assms show ?thesis by (auto simp: scan_upload_def run_bnd or_refuse_run refusal_def)
  next
    case (Inr bytes)
    from read_object_bytes [OF this] have "scan (rq_clamd rq) bytes = Inr Clean \<Longrightarrow> found_clean rq pending"
      unfolding found_clean_def web_after_def by auto
    moreover have "\<not> available i sv'" if "quarantine_attachment u i now (ap_service a) = (x, sv')" for x sv'
      using quarantine_not_available [OF that assms(2)] .
    ultimately show ?thesis using assms Inr
      by (auto simp: scan_upload_def run_bnd or_refuse_run refusal_def call_run count_with_def
          split: sum.splits scan_verdict.splits prod.splits)
  qed
  then show "\<not> available i (ap_service a')" "r = Inr () \<Longrightarrow> a' = a \<and> found_clean rq pending" by auto
qed


lemma complete_attachment_publishes:
  assumes "complete_attachment u i now sv = (Inr att, sv')"
  shows "\<exists>p. hm_get i (st_attachments (svc_txn sv)) = Some p \<and> pa_owner_id p = u \<and> now < pa_expires_at p
    \<and> \<not> pa_quarantined p \<and> att = pa_attachment p
    \<and> hm_get i (st_attachments (svc_txn sv')) = Some (p\<lparr>pa_available := True\<rparr>)"
  using mutate_InrD(1) [OF assms [unfolded complete_attachment_def]]
  by (auto simp: complete_attachment_tx_def owned_pending_def found_def put_attachment_def
      run_bnd ok_or_def not_le split: option.splits if_splits dest!: sym [of _ "svc_txn sv'"])

text \<open>The steps before the last, seen from a file that is not available.\<close>

lemma complete_upload_outcome:
  assumes run: "complete_upload_h H rq i a = (r, a')" and "\<not> available i (ap_service a)"
    and "available i (ap_service a')"
  obtains u d pending st a1 where "requester (hl_crypto H) rq a = Some (u, d)"
    "pending_attachment (svc_txn (ap_service a)) u i (rq_at rq 1) = Inr pending"
    "ap_object_store a = Some st" "object_checked (rq_web rq) pending"
    "ap_scanner a \<Longrightarrow> found_clean rq pending"
    "ap_service a1 = ap_service a"
    "bnd (call (complete_attachment u i (rq_at rq 1))) (\<lambda>attachment.
       bnd (or_refuse (presign_get (hl_crypto H) (hl_store_lib H) st (att_storage_key attachment)
              (rq_at rq 2)) no_object_store) (\<lambda>download. ok (attachment, pr_url download))) a1 = (r, a')"
proof -
  let ?now = "rq_at rq 1"
  have unchanged: "ap_service a' \<noteq> ap_service a" using assms(2,3) by auto
  obtain u d where req: "requester (hl_crypto H) rq a = Some (u, d)"
  proof (cases "requester (hl_crypto H) rq a")
    case None
    with run have "ap_service a' = ap_service a"
      by (auto simp: complete_upload_h_def run_bnd current_user_None refusal_def)
    with unchanged show ?thesis by simp
  qed auto
  obtain pending where pending: "pending_attachment (svc_txn (ap_service a)) u i ?now = Inr pending"
  proof (cases "pending_attachment (svc_txn (ap_service a)) u i ?now")
    case (Inl e)
    with run req have "ap_service a' = ap_service a"
      by (auto simp: complete_upload_h_def Let_def run_bnd current_user_Some look_run)
    with unchanged show ?thesis by simp
  qed auto
  obtain st where st: "ap_object_store a = Some st"
  proof (cases "ap_object_store a")
    case None
    with run req pending have "ap_service a' = ap_service a"
      by (auto simp: complete_upload_h_def Let_def run_bnd current_user_Some look_run object_store_run refusal_def)
    with unchanged show ?thesis by simp
  qed auto
  let ?verify = "verify_object (hl_crypto H) (hl_store_lib H) (rq_web rq) st (att_storage_key pending)
    (att_mime_type pending) (att_byte_size pending) (att_sha256 pending) ?now"
  have verified: "?verify = Inr ()"
  proof (cases ?verify)
    case (Inl e)
    with run req pending st have "ap_service a' = ap_service a"
      by (auto simp: complete_upload_h_def Let_def run_bnd current_user_Some look_run object_store_run or_refuse_run
          refusal_def)
    with unchanged show ?thesis by simp
  qed simp
  let ?scan = "if ap_scanner a then scan_upload H rq st u i pending ?now else ret ()"
  let ?rest = "bnd (call (complete_attachment u i ?now)) (\<lambda>attachment.
    bnd (or_refuse (presign_get (hl_crypto H) (hl_store_lib H) st (att_storage_key attachment)
      (rq_at rq 2)) no_object_store) (\<lambda>download. ok (attachment, pr_url download)))"
  obtain v a1 where scan: "?scan a = (v, a1)" by (cases "?scan a")
  from run req pending st verified scan
  have rest: "(case v of Inl e \<Rightarrow> (Inl e, a1) | Inr _ \<Rightarrow> ?rest a1) = (r, a')"
    by (simp add: complete_upload_h_def run_bnd current_user_Some look_run object_store_run or_refuse_run
        Let_def del: One_nat_def)
  have "\<not> available i (ap_service a1) \<and> (v = Inr () \<longrightarrow> a1 = a \<and> (ap_scanner a \<longrightarrow> found_clean rq pending))"
  proof (cases "ap_scanner a")
    case True
    with scan have "scan_upload H rq st u i pending ?now a = (v, a1)" by (simp del: One_nat_def)
    from scan_upload_outcome [OF this assms(2)] show ?thesis by blast
  next
    case False
    with scan assms(2) show ?thesis by simp
  qed
  then have "\<not> available i (ap_service a1)" and clean: "v = Inr () \<Longrightarrow> ap_service a1 = ap_service a"
    "v = Inr () \<Longrightarrow> ap_scanner a \<Longrightarrow> found_clean rq pending" by simp_all
  with rest assms(3) have "v = Inr ()" by (cases v) auto
  with clean rest show ?thesis
    by (intro that [OF req pending st verify_object_checked [OF verified]]) simp_all
qed


end
