(* ===== verification/Http_Limits.thy ===== *)
theory Http_Limits
  imports Http_Base
begin

text \<open>
  The rate limiter of \<open>apps/server/src/api.rs\<close> over a sequence of checks.  Its window is fixed, not
  sliding: it opens with the first check and lasts until more than the window's length has passed, so an
  interval of that length can fall into two windows.
\<close>

section \<open>Sequences of checks\<close>

text \<open>The accepted checks of one key, each with its time and the opening of the window it fell into.\<close>

type_synonym check = "rstr \<times> u32 \<times> int"

fun accepts :: "rstr \<Rightarrow> int \<Rightarrow> check list \<Rightarrow> (rstr, bucket) hashmap \<Rightarrow> (int \<times> int) list" where
  "accepts k w [] b = []"
| "accepts k w ((j, m, now) # cs) b =
     (case rate_check j m w now b of (granted, b') \<Rightarrow>
        (case hm_get k b' of
           Some bucket \<Rightarrow> if granted \<and> j = k then [(now, bk_started_at bucket)] else []
         | None \<Rightarrow> []) @ accepts k w cs b')"

definition room_in :: "rstr \<Rightarrow> int \<Rightarrow> u32 \<Rightarrow> (rstr, bucket) hashmap \<Rightarrow> bool" where
  "room_in k now m b \<longleftrightarrow> hm_wf b \<and> (case hm_get k b of
     Some bucket \<Rightarrow> bk_started_at bucket \<le> now \<and> bk_count bucket \<le> m | None \<Rightarrow> True)"

text \<open>The bucket of a key after a check, by the bucket before.\<close>

lemma retained_bucket:
  assumes "hm_wf b"
  shows "hm_get k (hm_retain (\<lambda>_ e. duration_since now (bk_started_at e) \<le> w) b) =
    (case hm_get k b of
       Some e \<Rightarrow> if now - bk_started_at e \<le> w \<and> 0 \<le> w then Some e else None | None \<Rightarrow> None)"
  using assms by (auto simp: hm_get_retain duration_since_def split: option.split)

lemma check_other:
  assumes "hm_wf b" "j \<noteq> k"
  shows "hm_get k (snd (rate_check j m w now b)) =
    (case hm_get k b of
       Some e \<Rightarrow> if now - bk_started_at e \<le> w \<and> 0 \<le> w then Some e else None | None \<Rightarrow> None)"
  using assms by (auto simp: rate_check_def Let_def retained_bucket)

lemma check_wf: "hm_wf b \<Longrightarrow> hm_wf (snd (rate_check j m w now b))"
  by (simp add: rate_check_def Let_def)

text \<open>The bucket a check of the key itself works on.\<close>

definition current_bucket :: "rstr \<Rightarrow> int \<Rightarrow> int \<Rightarrow> (rstr, bucket) hashmap \<Rightarrow> bucket" where
  "current_bucket k w now b = (case hm_get k b of
     Some e \<Rightarrow> if now - bk_started_at e \<le> w then e else \<lparr>bk_started_at = now, bk_count = 0\<rparr>
   | None \<Rightarrow> \<lparr>bk_started_at = now, bk_count = 0\<rparr>)"

lemma check_bucket:
  assumes "hm_wf b" "0 \<le> w"
  shows "(let e = (case hm_get k (hm_retain (\<lambda>_ e. duration_since now (bk_started_at e) \<le> w) b) of
             Some e \<Rightarrow> e | None \<Rightarrow> \<lparr>bk_started_at = now, bk_count = 0\<rparr>)
          in if duration_since now (bk_started_at e) > w then \<lparr>bk_started_at = now, bk_count = 0\<rparr> else e)
    = current_bucket k w now b"
  unfolding retained_bucket [OF assms(1)] current_bucket_def
  using assms(2) by (auto simp: duration_since_def split: option.split)

lemma check_same:
  assumes "hm_wf b" "0 \<le> w"
  shows "fst (rate_check k m w now b) \<longleftrightarrow> bk_count (current_bucket k w now b) < m"
    and "hm_get k (snd (rate_check k m w now b)) = Some (if bk_count (current_bucket k w now b) < m
      then (current_bucket k w now b)\<lparr>bk_count := bk_count (current_bucket k w now b) + 1\<rparr>
      else current_bucket k w now b)"
  using check_bucket [OF assms, of now k]
  unfolding rate_check_def Let_def by (simp_all add: not_le [symmetric])

section \<open>Windows\<close>

text \<open>What holds of the accepted checks of a key from a moment on.\<close>

definition started :: "rstr \<Rightarrow> (rstr, bucket) hashmap \<Rightarrow> int option" where
  "started k b = map_option bk_started_at (hm_get k b)"

definition counted :: "rstr \<Rightarrow> (rstr, bucket) hashmap \<Rightarrow> int \<Rightarrow> nat" where
  "counted k b x = (case hm_get k b of
     Some e \<Rightarrow> if bk_started_at e = x then unat (bk_count e) else 0 | None \<Rightarrow> 0)"

definition in_window :: "int \<Rightarrow> (int \<times> int) list \<Rightarrow> nat" where
  "in_window x l = length (filter (\<lambda>(t, s). s = x) l)"

definition windows :: "rstr \<Rightarrow> int \<Rightarrow> nat \<Rightarrow> int \<Rightarrow> (rstr, bucket) hashmap \<Rightarrow> (int \<times> int) list \<Rightarrow> bool" where
  "windows k w n now b l \<longleftrightarrow>
     (\<forall>(t, x) \<in> set l. now \<le> t \<and> x \<le> t \<and> t \<le> x + w)
     \<and> (\<forall>(t, x) \<in> set l. case started k b of Some s \<Rightarrow> x = s \<or> s + w < x | None \<Rightarrow> now \<le> x)
     \<and> (\<forall>x. in_window x l + counted k b x \<le> n)
     \<and> (\<forall>(t, x) \<in> set l. \<forall>(t', x') \<in> set l. x = x' \<or> x + w < x' \<or> x' + w < x)"

lemma windows_other:
  assumes "windows k w n now (snd (rate_check j m w now b)) l" "j \<noteq> k" "now' \<le> now" "0 \<le> w"
    and room: "room_in k now' (word_of_nat n) b" and n: "n < 2 ^ 32"
  shows "windows k w n now' b l"
proof -
  have wf: "hm_wf b" using room by (simp add: room_in_def)
  note after = check_other [OF wf \<open>j \<noteq> k\<close>, of m w now]
  show ?thesis
  proof (cases "hm_get k b")
    case None
    then show ?thesis
      using assms(1,3) after
      by (fastforce simp: windows_def started_def counted_def)
  next
    case (Some e)
    have small: "unat (bk_count e) \<le> n" "bk_started_at e \<le> now'"
      using room n Some by (simp_all add: room_in_def word_le_nat_alt unat_of_nat)
    show ?thesis
    proof (cases "now - bk_started_at e \<le> w")
      case True
      with assms(1,3,4) after Some show ?thesis
        by (fastforce simp: windows_def started_def counted_def)
    next
      case False
      have late: "bk_started_at e + w < x" if "(t, x) \<in> set l" for t x
        using assms(1) that False after Some by (fastforce simp: windows_def started_def)
      have "in_window (bk_started_at e) l = 0"
        using late assms(4) by (fastforce simp: in_window_def filter_empty_conv)
      with assms(1,3) after Some False late small show ?thesis
        by (fastforce simp: windows_def started_def counted_def)
    qed
  qed
qed


lemma windows_labels:
  assumes "windows k w n now b l" "started k b = Some s" "(t, x) \<in> set l"
  shows "x = s \<or> s + w < x"
  using assms by (fastforce simp: windows_def)

lemma in_window_Cons [simp]: "in_window x ((t, s) # l) = (if s = x then Suc (in_window x l) else in_window x l)"
  by (simp add: in_window_def)

lemma windows_same:
  assumes l: "windows k w n now (snd (rate_check k m w now b)) l" and "0 \<le> w" "now' \<le> now"
    and room: "room_in k now' m b" and n: "n = unat m"
  defines "e \<equiv> current_bucket k w now b"
  shows "windows k w n now' b
    ((if fst (rate_check k m w now b) then [(now, bk_started_at e)] else []) @ l)"
proof -
  have wf: "hm_wf b" using room by (simp add: room_in_def)
  note after = check_same [OF wf assms(2), of k m now, folded e_def]
  let ?s = "bk_started_at e"
  have e: "?s \<le> now" "now \<le> ?s + w" "bk_count e \<le> m"
    using room assms(2,3)
    by (auto simp: e_def current_bucket_def room_in_def split: option.splits)
  have s': "started k (snd (rate_check k m w now b)) = Some ?s"
    by (simp add: started_def after(2))
  note labels = windows_labels [OF l s']
  have l_times: "now \<le> t \<and> x \<le> t \<and> t \<le> x + w" if "(t, x) \<in> set l" for t x
    using l that by (auto simp: windows_def)
  have l_counts: "in_window x l + (if x = ?s then unat (bk_count e) + (if bk_count e < m then 1 else 0) else 0) \<le> n"
    for x
  proof -
    have "unat (bk_count e + 1) = unat (bk_count e) + 1" if "bk_count e < m"
      using that unsigned_less [of m, where 'a = nat] by (simp add: word_less_nat_alt unat_word_ariths(1))
    moreover have "in_window x l + counted k (snd (rate_check k m w now b)) x \<le> n"
      using l by (simp add: windows_def)
    ultimately show ?thesis by (auto simp: counted_def after(2) split: if_splits)
  qed
  have old: "(case started k b of Some s \<Rightarrow> x = s \<or> s + w < x | None \<Rightarrow> now' \<le> x)"
    if "x = ?s \<or> ?s + w < x" for x
    using that assms(2,3)
    by (auto simp: e_def current_bucket_def started_def split: option.split if_splits)
  have old_count: "counted k b x = (if x = ?s then unat (bk_count e) else 0) \<or> counted k b x \<le> n \<and> x + w < ?s" for x
    using room n
    by (auto simp: counted_def e_def current_bucket_def room_in_def word_le_nat_alt split: option.split)
  have early: "in_window x l = 0" if "x + w < ?s" for x
    using labels that assms(2) by (fastforce simp: in_window_def filter_empty_conv)
  let ?l = "(if fst (rate_check k m w now b) then [(now, ?s)] else []) @ l"
  have "in_window x ?l + counted k b x \<le> n" for x
    using old_count [of x] l_counts [of x] early [of x] assms(2) unfolding after(1) by auto
  moreover have "x = x' \<or> x + w < x' \<or> x' + w < x" if "(t, x) \<in> set ?l" "(t', x') \<in> set ?l" for t x t' x'
    using that l labels by (fastforce simp: windows_def split: if_splits)
  moreover have "now' \<le> t \<and> x \<le> t \<and> t \<le> x + w" "x = ?s \<or> ?s + w < x" if "(t, x) \<in> set ?l" for t x
    using that labels l_times e assms(3) by (fastforce split: if_splits)+
  ultimately show ?thesis using old unfolding windows_def by blast
qed


lemma room_after:
  assumes "room_in k now m b" "0 \<le> w" "now \<le> t" "j = k \<Longrightarrow> n = m"
  shows "room_in k t m (snd (rate_check j n w t b))"
proof -
  have wf: "hm_wf b" using assms(1) by (simp add: room_in_def)
  show ?thesis
  proof (cases "j = k")
    case True
    have "bk_started_at (current_bucket k w t b) \<le> t \<and> bk_count (current_bucket k w t b) \<le> m"
      using assms(1,3) by (auto simp: room_in_def current_bucket_def split: option.splits)
    then show ?thesis
      using True assms(4) check_wf [OF wf] check_same(2) [OF wf assms(2), of k m t]
      by (auto simp: room_in_def inc_le)
  next
    case False
    with check_other [OF wf, of j k n w t] check_wf [OF wf] assms(1,3) show ?thesis
      by (auto simp: room_in_def split: option.splits)
  qed
qed

definition check_time :: "check \<Rightarrow> int" where
  "check_time c = snd (snd c)"

lemma check_time_eq [simp]: "check_time (j, n, t) = t"
  by (simp add: check_time_def)

lemma windows_accepts:
  assumes "0 \<le> w" "room_in k now m b" "sorted (now # map check_time cs)"
    and "\<And>n t. (k, n, t) \<in> set cs \<Longrightarrow> n = m"
  shows "windows k w (unat m) now b (accepts k w cs b)"
  using assms(2-)
proof (induction cs arbitrary: now b)
  case Nil
  then show ?case
    by (auto simp: windows_def in_window_def counted_def room_in_def word_le_nat_alt split: option.splits)
next
  case (Cons c cs)
  obtain j n t where c: "c = (j, n, t)" by (cases c)
  have t: "now \<le> t" "sorted (t # map check_time cs)" using Cons.prems(2) by (simp_all add: c)
  have n: "j = k \<Longrightarrow> n = m" using Cons.prems(3) [of n t] by (simp add: c)
  let ?b = "snd (rate_check j n w t b)"
  have IH: "windows k w (unat m) t ?b (accepts k w cs ?b)"
    by (rule Cons.IH) (use room_after [OF Cons.prems(1) assms(1) t(1) n] t(2) Cons.prems(3) in auto)
  have wf: "hm_wf b" using Cons.prems(1) by (simp add: room_in_def)
  show ?case
  proof (cases "j = k")
    case True
    with n have [simp]: "j = k" "n = m" by simp_all
    have "accepts k w (c # cs) b =
      (if fst (rate_check k m w t b) then [(t, bk_started_at (current_bucket k w t b))] else [])
        @ accepts k w cs ?b"
      using check_same(2) [OF wf assms(1), of k m t] by (auto simp: c split: prod.split)
    with windows_same [OF IH [unfolded \<open>j = k\<close> \<open>n = m\<close>] assms(1) t(1) Cons.prems(1) refl] show ?thesis
      by simp
  next
    case False
    have "accepts k w (c # cs) b = accepts k w cs ?b"
      using False by (simp add: c split: prod.split option.split)
    moreover have "unat m < 2 ^ 32" using unsigned_less [of m, where 'a = nat] by simp
    ultimately show ?thesis
      using windows_other [OF IH False t(1) assms(1)] Cons.prems(1) by simp
  qed
qed

section \<open>The bound\<close>

lemma in_window_count: "in_window x l = count_list (map snd l) x"
  by (induction l) (auto simp: in_window_def)

lemma two_labels:
  fixes t w :: int
  assumes "0 \<le> w" "finite S" "\<And>x. x \<in> S \<Longrightarrow> t - w \<le> x \<and> x \<le> t + w"
    and "\<And>x y. x \<in> S \<Longrightarrow> y \<in> S \<Longrightarrow> x = y \<or> x + w < y \<or> y + w < x"
  shows "card S \<le> 2"
proof (cases "S = {}")
  case False
  have "x = Min S \<or> x = Max S" if "x \<in> S" for x
  proof (rule ccontr)
    assume "\<not> (x = Min S \<or> x = Max S)"
    moreover have "Min S \<in> S" "Max S \<in> S" "Min S \<le> x" "x \<le> Max S" using assms(2) that False by simp_all
    ultimately show False
      using assms(1) assms(3) [OF \<open>Min S \<in> S\<close>] assms(3) [OF \<open>Max S \<in> S\<close>]
        assms(4) [OF \<open>Min S \<in> S\<close> that] assms(4) [OF that \<open>Max S \<in> S\<close>] by linarith
  qed
  then have "S \<subseteq> {Min S, Max S}" by blast
  then have "card S \<le> card {Min S, Max S}" by (rule card_mono [rotated]) simp
  also have "\<dots> \<le> 2" by (simp add: card_insert_if)
  finally show ?thesis .
qed simp

text \<open>C37. The rate limiter accepts at most twice the configured number of requests of one key in any interval
  as long as its window, whatever the other keys do meanwhile: for 10 logins a minute, at most 20 in any
  sixty seconds.\<close>

theorem rate_limit_bound:
  assumes "sorted (map check_time checks)" and "\<And>n t. (k, n, t) \<in> set checks \<Longrightarrow> n = max_count"
  shows "length (filter (\<lambda>(t, _). t0 \<le> t \<and> t \<le> t0 + RATE_WINDOW) (accepts k RATE_WINDOW checks []))
    \<le> 2 * unat max_count"
proof -
  let ?w = RATE_WINDOW and ?all = "accepts k RATE_WINDOW checks []"
  define l where "l = filter (\<lambda>(t, _). t0 \<le> t \<and> t \<le> t0 + ?w) ?all"
  define now where "now = (case checks of [] \<Rightarrow> 0 | c # _ \<Rightarrow> check_time c)"
  have "windows k ?w (unat max_count) now [] ?all"
  proof (rule windows_accepts)
    show "sorted (now # map check_time checks)"
      using assms(1) by (cases checks) (auto simp: now_def)
  qed (use assms(2) in \<open>simp_all add: RATE_WINDOW_def room_in_def\<close>)
  then have w: "\<And>t x. (t, x) \<in> set ?all \<Longrightarrow> x \<le> t \<and> t \<le> x + ?w"
    "\<And>x. in_window x ?all \<le> unat max_count"
    "\<And>t x t' x'. (t, x) \<in> set ?all \<Longrightarrow> (t', x') \<in> set ?all \<Longrightarrow> x = x' \<or> x + ?w < x' \<or> x' + ?w < x"
    by (fastforce simp: windows_def counted_def)+
  let ?S = "snd ` set l"
  have "card ?S \<le> 2"
  proof (rule two_labels)
    show "t0 - ?w \<le> x \<and> x \<le> t0 + ?w" if "x \<in> ?S" for x
      using that w(1) by (fastforce simp: l_def)
    show "x = y \<or> x + ?w < y \<or> y + ?w < x" if "x \<in> ?S" "y \<in> ?S" for x y
    proof -
      from that obtain t t' where "(t, x) \<in> set ?all" "(t', y) \<in> set ?all" by (auto simp: l_def)
      then show ?thesis by (rule w(3))
    qed
  qed (simp_all add: RATE_WINDOW_def)
  have "length l = (\<Sum>x \<in> ?S. count_list (map snd l) x)"
    using sum_count_set [of "map snd l" ?S] by simp
  also have "\<dots> \<le> (\<Sum>x \<in> ?S. unat max_count)"
  proof (rule sum_mono)
    fix x
    have "in_window x l \<le> in_window x ?all"
      unfolding l_def in_window_def filter_filter by (simp add: length_filter_conv_card) (rule card_mono; auto)
    with w(2) [of x] show "count_list (map snd l) x \<le> unat max_count"
      by (simp flip: in_window_count)
  qed
  also have "\<dots> = card ?S * unat max_count" by simp
  also have "\<dots> \<le> 2 * unat max_count" using \<open>card ?S \<le> 2\<close> by (rule mult_le_mono1)
  finally show ?thesis by (simp add: l_def)
qed

end
