(* ===== verification/Abandoned_Writes.thy ===== *)
theory Abandoned_Writes
  imports Service_Steps
begin

text \<open>
  A write that is given up half way.  \<open>ChatService::mutate\<close> changes the store first and then waits for the
  database; the request's future can be dropped there, by the timeout layer around the router (thirty
  seconds) or because the client has gone.  The lock is released, and neither the code that puts the
  previous store back nor the code that publishes the events runs.  \<open>landed\<close> says whether the row reached
  the database all the same.
\<close>

definition mutate_abandoned :: "'a tx \<Rightarrow> bool \<Rightarrow> service \<Rightarrow> service" where
  "mutate_abandoned operation landed sv =
     (case (svc_database sv, operation (svc_txn sv)) of
        (Some db, (Inr _, s)) \<Rightarrow>
          sv\<lparr>svc_txn := s,
             svc_database := Some (db\<lparr>db_writes := Suc (db_writes db),
               db_snapshot := (if landed then Some (store.truncate s) else db_snapshot db)\<rparr>)\<rparr>
      | _ \<Rightarrow> snd (mutate operation sv))"

lemma abandoned_fields:
  assumes "operation (svc_txn sv) = (Inr r, s)" "svc_database sv = Some db"
  shows "svc_txn (mutate_abandoned operation landed sv) = s"
    and "svc_events (mutate_abandoned operation landed sv) = svc_events sv"
  using assms by (simp_all add: mutate_abandoned_def)


text \<open>C23. When a request is dropped while its write waits for the database, the change stays in memory, its
  events stay in the log, and they are never broadcast: not by the write itself, and by no later one,
  which publishes only what it appends itself.  Connected clients, whose cursor the next event moves on,
  do not see them.\<close>

theorem abandoned_write_unpublished:
  assumes "reachable U C sv" and "guar progress operation"
    and "operation (svc_txn sv) = (Inr r, s)" and "svc_database sv = Some db"
    and "service_run U C (mutate_abandoned operation landed sv) sv'"
    and "length (st_events (svc_txn sv')) < 2 ^ 64"
    and "entry \<in> set (drop (length (st_events (svc_txn sv))) (st_events s))"
  shows "svc_txn (mutate_abandoned operation landed sv) = s \<and> entry \<in> set (st_events (svc_txn sv'))
    \<and> (\<exists>sent. svc_events sv' = svc_events sv @ sent \<and> ue_event entry \<notin> snd ` set sent)"
proof -
  note first = abandoned_fields [where operation = operation and landed = landed, OF assms(3,4)]
  have "progress (svc_txn sv) s" using assms(2,3) by (rule guarD)
  moreover note later = service_run_progress [OF assms(5)]
  ultimately obtain log where log: "st_events (svc_txn sv') = st_events s @ log" and "log_ok (svc_txn sv')"
    using reachable_ok(2) [OF assms(1)] progress_log_ok
    unfolding svc_progress_def first progress_def by blast
  then have "distinct (map (ev_cursor \<circ> ue_event) (st_events (svc_txn sv')))"
    using log_sorted assms(6) strict_sorted_iff by blast
  then have apart: "ev_cursor (ue_event a) \<noteq> ev_cursor (ue_event b)" if "a \<in> set (st_events s)" "b \<in> set log" for a b
    using that unfolding log by fastforce
  from later obtain sent where sent: "svc_events sv' = svc_events sv @ sent"
    "set sent \<subseteq> set (published (length (st_events s)) (svc_txn sv'))"
    unfolding svc_progress_def broadcasts_new_def first by blast
  have entry: "entry \<in> set (st_events s)" using assms(7) by (rule in_set_dropD)
  have "ue_event entry \<notin> snd ` set sent"
    using sent(2) apart [OF entry] by (fastforce simp: published_def log)
  with entry sent(1) log first(1) show ?thesis by auto
qed

end
