(* ===== verification/Http_Witnesses.thy ===== *)
theory Http_Witnesses
  imports Http_Tickets Http_Uploads Http_Limits Abandoned_Writes Live_Witnesses
begin

text \<open>
  The HTTP edge at work: Alice, signed in with an access token, takes a ticket and completes an upload;
  a request without a token, one without the administration secret; a write dropped half way.
\<close>

section \<open>A small server\<close>

definition sample_endpoint :: endpoint where
  "sample_endpoint = \<lparr>ep_scheme = lit ''http'', ep_host = Some (lit ''store''), ep_port = None, ep_path = [47]\<rparr>"

definition sample_object_store :: object_store where
  "sample_object_store = \<lparr>os_endpoint = sample_endpoint, os_bucket = [98], os_region = [114],
     os_access_key = [97], os_secret_key = [115]\<rparr>"

definition sample_store_lib :: store_lib where
  "sample_store_lib = \<lparr>sl_parse_url = (\<lambda>u. Some sample_endpoint), sl_url_text = (\<lambda>e p q. p @ [63] @ q),
     sl_amz_date = (\<lambda>t. [48]), sl_amz_day = (\<lambda>t. [48]), sl_hmac_sha256 = (\<lambda>k v. k @ v)\<rparr>"

definition sample_lib :: http_lib where
  "sample_lib = \<lparr>hl_crypto = sample_crypto, hl_unicode = sample_unicode, hl_store_lib = sample_store_lib,
     hl_parse_url = (\<lambda>u. None)\<rparr>"

text \<open>The access token of Alice is the letter A.\<close>

definition signed_request :: request where
  "signed_request = \<lparr>rq_ip = [49], rq_authorization = Some (lit ''Bearer A''), rq_admin_token = None,
     rq_at = (\<lambda>n. 1), rq_today = 0, rq_instant = 5, rq_elapsed = 7, rq_web = (\<lambda>n m u. None),
     rq_clamd = (\<lambda>b. None), rq_translate = (\<lambda>x l. None), rq_transcribe = (\<lambda>b n m. None),
     rq_database_up = True\<rparr>"

definition bare_request :: request where
  "bare_request = signed_request\<lparr>rq_authorization := None\<rparr>"

definition sample_app :: "store \<Rightarrow> app" where
  "sample_app st = with_object_store sample_object_store
     (with_malware_scanner True (app_new (sample_service st) (\<lambda>n. word_of_nat n)))"

lemmas app_defs = sample_app_def with_object_store_def with_malware_scanner_def app_new_def

lemma sample_app_fields [simp]:
  "ap_service (sample_app st) = sample_service st" "ap_tickets (sample_app st) = []"
  "ap_fresh (sample_app st) = (\<lambda>n. word_of_nat n)" "ap_drawn (sample_app st) = 0"
  "ap_object_store (sample_app st) = Some sample_object_store" "ap_scanner (sample_app st) = True"
  "ap_admin_token (sample_app st) = None"
  by (simp_all add: app_defs)

lemma signed_in: "requester sample_crypto signed_request (sample_app token_store) = Some (alice, sample_device)"
proof -
  have "bearer_token signed_request = Some [65]"
    by (simp add: bearer_token_def signed_request_def starts_with_def)
  moreover have "hm_get (hash_token sample_crypto [65]) (st_access_tokens (svc_txn (sample_service token_store)))
      = Some sample_record"
    by (simp add: token_defs hm_get_def)
  ultimately show ?thesis
    by (simp add: requester_def authenticate_identity_def token_store_lookups sample_record_def fresh_token_def
        sample_account_def signed_request_def time_defs err_if_def)
qed

section \<open>Admission\<close>

theorem closed_routes_refused_witness:
  "fst (serve_http sample_lib bare_request (Account Me) (sample_app token_store)) = Some 401
   \<and> fst (serve_http sample_lib signed_request (System (Admin_audit None)) (sample_app token_store)) = Some 401"
proof -
  have "\<not> admitted sample_lib bare_request (Account Me) (sample_app token_store)"
    by (simp add: admitted_def requester_def bearer_token_def bare_request_def signed_request_def)
  moreover have "\<not> admitted sample_lib signed_request (System (Admin_audit None)) (sample_app token_store)"
    by (simp add: admitted_def administrator_def signed_request_def)
  ultimately show ?thesis by (simp add: closed_routes_refused)
qed

section \<open>Tickets\<close>

definition sample_ticket :: rstr where "sample_ticket = simple_uuid (word_of_nat 0)"


section \<open>Limits\<close>

theorem rate_limit_bound_witness:
  "length (filter (\<lambda>(t, _). 0 \<le> t \<and> t \<le> 0 + RATE_WINDOW)
     (accepts [107] RATE_WINDOW [([107], 1, 0), ([108], 9, 3), ([107], 1, 10)] [])) \<le> 2"
proof -
  let ?checks = "[([107], 1, 0), ([108], 9, 3), ([107], 1, 10)] :: check list"
  have "sorted (map check_time ?checks)" by simp
  moreover have "n = 1" if "([107], n, t) \<in> set ?checks" for n t using that by auto
  ultimately have "length (filter (\<lambda>(t, _). 0 \<le> t \<and> t \<le> 0 + RATE_WINDOW) (accepts [107] RATE_WINDOW ?checks []))
      \<le> 2 * unat (1 :: u32)"
    by (rule rate_limit_bound)
  also have "\<dots> = 2" by simp
  finally show ?thesis .
qed

section \<open>Signatures\<close>

theorem signature_binds_request_witness:
  "string_to_sign sample_crypto sample_store_lib sample_object_store
     (canonical_request sample_store_lib sample_object_store (lit ''GET'') [107] 600 0 [] (lit ''store'')) 0
   \<noteq> string_to_sign sample_crypto sample_store_lib sample_object_store
     (canonical_request sample_store_lib sample_object_store (lit ''PUT'') [107] 600 0 [] (lit ''store'')) 0"
proof (rule signature_binds_request [OF refl refl])
  show "canonical_request sample_store_lib sample_object_store (lit ''GET'') [107] 600 0 [] (lit ''store'')
      \<noteq> canonical_request sample_store_lib sample_object_store (lit ''PUT'') [107] 600 0 [] (lit ''store'')
    \<longrightarrow> c_sha256 sample_crypto (utf8 (canonical_request sample_store_lib sample_object_store (lit ''GET'') [107]
           600 0 [] (lit ''store'')))
      \<noteq> c_sha256 sample_crypto (utf8 (canonical_request sample_store_lib sample_object_store (lit ''PUT'') [107]
           600 0 [] (lit ''store'')))"
    by (simp add: sample_crypto_def canonical_request_def Let_def utf8_def utf8_char_def)
qed simp_all

section \<open>An upload\<close>

definition sample_upload :: attachment where
  "sample_upload = \<lparr>att_id = AttachmentId 3, att_kind = KFile, att_file_name = [102],
     att_mime_type = [116, 47, 112], att_byte_size = 2, att_sha256 = None, att_storage_key = [107],
     att_thumbnail_key = None\<rparr>"

definition sample_pending :: pending_attachment where
  "sample_pending = \<lparr>pa_attachment = sample_upload, pa_owner_id = alice, pa_expires_at = 100,
     pa_available = False, pa_quarantined = False\<rparr>"

definition upload_store :: store where
  "upload_store = token_store\<lparr>st_attachments := [(AttachmentId 3, sample_pending)]\<rparr>"

text \<open>The store answers every request with the same two-byte object, the scanner with \<open>x OK\<close>.\<close>

definition sample_answer :: web_response where
  "sample_answer = \<lparr>wr_status = 200,
     wr_header = (\<lambda>n. if n = lit ''content-length'' then Some [50] else Some [116, 47, 112]),
     wr_content_length = Some 2, wr_body = Some [1, 2]\<rparr>"

definition upload_request :: request where
  "upload_request = signed_request\<lparr>rq_web := (\<lambda>n m u. Some sample_answer),
     rq_clamd := (\<lambda>b. Some [120, 32, 79, 75])\<rparr>"

lemma presign_sample: "\<exists>p. presign C L sample_object_store verb [107] 600 now h = Inr p"
  "\<exists>p. presign C L sample_object_store verb [107] 60 now h = Inr p"
  by (simp_all add: presign_def host_text_def sample_object_store_def sample_endpoint_def context_of_def
      ensure_def err_if_def Let_def)

lemma verify_sample:
  "verify_object C L (rq_web upload_request) sample_object_store [107] [116, 47, 112] 2 None now = Inr ()"
proof -
  obtain p q where "presign C L sample_object_store (lit ''HEAD'') [107] 60 now [] = Inr p"
    "presign C L sample_object_store (lit ''GET'') [107] 600 now [] = Inr q"
    using presign_sample by blast
  moreover have "verify_head [116, 47, 112] 2 None sample_answer = Inr ()"
    by (simp add: verify_head_def sample_answer_def is_success_def parse_u64_def is_ascii_digit_def media_type_def
        trim_def is_whitespace_def eq_ignore_ascii_case_def)
  moreover have "validate_magic [116, 47, 112] [1, 2] = Inr ()"
    by (simp add: validate_magic_def magic_matches_def Let_def to_ascii_lowercase_def ascii_lower_char_def
        ascii_defs is_executable_def bytes_at_def ascii_def)
  ultimately show ?thesis
    by (simp add: verify_object_def presign_get_def upload_request_def)
      (simp add: sample_answer_def is_success_def)
qed

lemma read_sample:
  "read_object C L (web_after 2 (rq_web upload_request)) sample_object_store [107] 2 now = Inr [1, 2]"
proof -
  obtain q where "presign C L sample_object_store (lit ''GET'') [107] 600 now [] = Inr q"
    using presign_sample by blast
  then show ?thesis
    by (simp add: read_object_def presign_get_def upload_request_def web_after_def sample_answer_def
        is_error_status_def)
qed

lemma scan_sample: "scan (rq_clamd upload_request) [1, 2] = Inr Clean"
proof -
  have "utf8_decode [120, 32, 79, 75] = Some [120, 32, 79, 75]"
    using utf8_decode_utf8 [of "[120, 32, 79, 75]"] by (simp add: utf8_def utf8_char_def scalar_value_def)
  then show ?thesis
    by (simp add: scan_def upload_request_def scan_reply_def context_of_def Let_def trim_matches_def ends_with_def)
qed

lemma upload_signed_in:
  "requester sample_crypto upload_request (sample_app upload_store) = Some (alice, sample_device)"
proof -
  have "requester sample_crypto upload_request (sample_app upload_store)
      = requester sample_crypto signed_request (sample_app token_store)"
    by (simp add: requester_def bearer_token_def upload_request_def authenticate_identity_def upload_store_def
        token_defs)
  with signed_in show ?thesis by simp
qed

lemma uploaded:
  "\<exists>r a. complete_upload_h sample_lib upload_request (AttachmentId 3) (sample_app upload_store) = (r, a)
     \<and> available (AttachmentId 3) (ap_service a)"
proof -
  let ?i = "AttachmentId 3" and ?sv = "sample_service upload_store"
  have stored: "hm_get ?i (st_attachments (svc_txn ?sv)) = Some sample_pending"
    by (simp add: upload_store_def token_defs hm_get_def)
  then have pending: "pending_attachment (svc_txn ?sv) alice ?i 1 = Inr sample_upload"
    by (simp add: pending_attachment_def owned_pending_def sample_pending_def)
  have "\<exists>s. complete_attachment_tx alice ?i 1 (svc_txn ?sv) = (Inr sample_upload, s)"
    using stored by (simp add: complete_attachment_tx_def owned_pending_def sample_pending_def found_def
        run_bnd put_attachment_def)
  then obtain sv where completed: "complete_attachment alice ?i 1 ?sv = (Inr sample_upload, sv)"
    using mutate_volatile [of "complete_attachment_tx alice ?i 1" ?sv] sample_service_txn(2)
    unfolding complete_attachment_def by metis
  then have av: "available ?i sv"
    using complete_attachment_publishes by (fastforce simp: available_def)
  obtain q where q: "presign_get sample_crypto sample_store_lib sample_object_store [107] 1 = Inr q"
    using presign_sample unfolding presign_get_def by blast
  have clock: "rq_at upload_request n = 1" for n by (simp add: upload_request_def signed_request_def)
  have up: "att_storage_key sample_upload = [107]" "att_mime_type sample_upload = [116, 47, 112]"
    "att_byte_size sample_upload = 2" "att_sha256 sample_upload = None"
    by (simp_all add: sample_upload_def)
  have lib: "hl_crypto sample_lib = sample_crypto" "hl_store_lib sample_lib = sample_store_lib"
    by (simp_all add: sample_lib_def)
  have scanned: "scan_upload sample_lib upload_request sample_object_store alice ?i sample_upload 1 a = (Inr (), a)" for a
    by (simp add: scan_upload_def run_bnd or_refuse_run up lib read_sample scan_sample)
  show ?thesis
    using pending completed av q upload_signed_in
    by (simp add: complete_upload_h_def run_bnd current_user_Some look_run object_store_run or_refuse_run lib
        Let_def clock up verify_sample scanned call_run reply_def del: One_nat_def)
qed


section \<open>A write dropped half way\<close>

theorem abandoned_write_unpublished_witness:
  "\<exists>sv s entry. update_profile_privacy_tx alice default_privacy 0 (svc_txn sv) = (Inr default_privacy, s)
     \<and> entry \<in> set (st_events (svc_txn (mutate_abandoned (update_profile_privacy_tx alice default_privacy 0) True sv)))
     \<and> ue_event entry \<notin> snd ` set (svc_events (mutate_abandoned (update_profile_privacy_tx alice default_privacy 0) True sv))"
proof -
  define sv where "sv = restored_from sample_store"
  have home: "at_home 0 sv" using at_home_start by (simp add: sv_def)
  obtain s where s: "update_profile_privacy_tx alice default_privacy 0 (svc_txn sv) = (Inr default_privacy, s)"
    "st_events s = st_events (svc_txn sv) @ [\<lparr>ue_recipients = {alice}, ue_event = privacy_event (Suc 0)\<rparr>]"
    using privacy_tx_run [OF home] by auto
  obtain db where db: "svc_database sv = Some db" using home by (auto simp: at_home_def)
  let ?sv = "mutate_abandoned (update_profile_privacy_tx alice default_privacy 0) True sv"
  have txn: "svc_txn ?sv = s" "svc_events ?sv = svc_events sv"
    using abandoned_fields [where operation = "update_profile_privacy_tx alice default_privacy 0" and landed = True,
      OF s(1) db] .
  have empty: "st_events (svc_txn sv) = []" "svc_events sv = []" "reachable sample_unicode sample_crypto sv"
    using home by (simp_all add: at_home_def)
  have "guar progress (update_profile_privacy_tx alice default_privacy 0)" by (intro guar_intros)
  from abandoned_write_unpublished [OF empty(3) this s(1) db Run_refl, of True
      "\<lparr>ue_recipients = {alice}, ue_event = privacy_event (Suc 0)\<rparr>"]
  show ?thesis using s txn empty by (intro exI [of _ sv] exI [of _ s]) auto
qed

end
