(* ===== verification/Wire_Json.thy ===== *)
theory Wire_Json
  imports Http_Routes
begin

text \<open>
  Request bodies on the wire: the JSON that \<open>serde\<close>'s derived code writes and reads for the request types
  of \<open>crates/protocol/src/lib.rs\<close>, and for the message contents of \<open>crates/domain/src/message.rs\<close> inside
  them.

  The derived code follows the declarations: a structure is an object with one member for each field, an
  \<open>Option\<close> is \<open>null\<close> or the value, an absent optional field is \<open>None\<close>, \<open>#[serde(default)]\<close> fills an absent
  field in, an unknown member is ignored and a repeated one refused.  (\<open>serde_json\<close> also reads a
  structure from an array of its fields; no client writes that, and it is left out.)  The letters of a JSON
  text, and the texts of UUIDs, times and days belong to \<open>serde_json\<close>, \<open>uuid\<close> and \<open>chrono\<close>: a body is a
  \<open>json\<close> value here, and the texts are the parameter \<open>wire\<close>.
\<close>

section \<open>JSON values\<close>

datatype json = JNull | JBool bool | JNum nat | JStr rstr | JArr "json list" | JObj "(rstr \<times> json) list"

record wire =
  wl_uuid_text :: "uuid \<Rightarrow> rstr"
  wl_uuid_parse :: "rstr \<Rightarrow> uuid option"
  wl_time_text :: "datetime \<Rightarrow> rstr"
  wl_time_parse :: "rstr \<Rightarrow> datetime option"
  wl_date_text :: "date \<Rightarrow> rstr"
  wl_date_parse :: "rstr \<Rightarrow> date option"
  wl_form_encode :: "rstr \<Rightarrow> rstr"
  wl_query_parse :: "rstr \<Rightarrow> (rstr \<times> rstr) list"

text \<open>What is relied on: a text is read back, the text of a UUID is made of hexadecimal digits and
  hyphens, form encoding writes letters, digits, \<open>*-._+\<close> and \<open>%\<close> and leaves digits as they are, and a query
  \<open>k1=v1&k2=v2\<close> of form-encoded values is read back.\<close>

definition uuid_letter :: "nat \<Rightarrow> bool" where
  "uuid_letter c \<longleftrightarrow> is_ascii_hexdigit c \<or> c = 45"

definition form_letter :: "nat \<Rightarrow> bool" where
  "form_letter c \<longleftrightarrow> is_ascii_lower c \<or> is_ascii_upper c \<or> is_ascii_digit c
     \<or> c \<in> {42, 45, 46, 95, 43, 37}"

definition query_text :: "wire \<Rightarrow> (rstr \<times> rstr) list \<Rightarrow> rstr" where
  "query_text W kvs = joined 38 (map (\<lambda>(k, v). k @ 61 # wl_form_encode W v) kvs)"

definition wire_ok :: "wire \<Rightarrow> bool" where
  "wire_ok W \<longleftrightarrow>
     (\<forall>u. wl_uuid_parse W (wl_uuid_text W u) = Some u \<and> wl_uuid_text W u \<noteq> []
        \<and> list_all uuid_letter (wl_uuid_text W u)) \<and>
     (\<forall>t. wl_time_parse W (wl_time_text W t) = Some t) \<and>
     (\<forall>d. wl_date_parse W (wl_date_text W d) = Some d) \<and>
     (\<forall>v. list_all form_letter (wl_form_encode W v)) \<and>
     (\<forall>v. list_all is_ascii_digit v \<longrightarrow> wl_form_encode W v = v) \<and>
     (\<forall>kvs. list_all (\<lambda>(k, _). k \<noteq> [] \<and> list_all is_ascii_lower k) kvs \<longrightarrow>
        wl_query_parse W (query_text W kvs) = kvs)"

lemma wire_okD:
  assumes "wire_ok W"
  shows "wl_uuid_parse W (wl_uuid_text W u) = Some u" "wl_uuid_text W u \<noteq> []"
    and "list_all uuid_letter (wl_uuid_text W u)"
    and "wl_time_parse W (wl_time_text W t) = Some t" "wl_date_parse W (wl_date_text W d) = Some d"
    and "list_all form_letter (wl_form_encode W v)"
    and "list_all is_ascii_digit v \<Longrightarrow> wl_form_encode W v = v"
    and "list_all (\<lambda>(k, _). k \<noteq> [] \<and> list_all is_ascii_lower k) kvs \<Longrightarrow>
           wl_query_parse W (query_text W kvs) = kvs"
  using assms by (simp_all add: wire_ok_def)

section \<open>Objects and fields\<close>

definition obj :: "(string \<times> json) list \<Rightarrow> json" where
  "obj kvs = JObj (map (\<lambda>(k, v). (lit k, v)) kvs)"

definition fields :: "json \<Rightarrow> string \<Rightarrow> json list" where
  "fields j k = (case j of JObj kvs \<Rightarrow> map snd (filter (\<lambda>(k', _). k' = lit k) kvs) | _ \<Rightarrow> [])"

lemma lit_inj [simp]: "lit a = lit b \<longleftrightarrow> a = b"
  using inj_map_eq_map [OF inj_of_char] by (metis (no_types))

lemma fields_obj [simp]: "fields (obj kvs) k = map snd (filter (\<lambda>(k', _). k' = k) kvs)"
  unfolding fields_def obj_def json.case
  by (induction kvs) (auto simp del: lit_inj simp: inj_map_eq_map [OF inj_of_char])

text \<open>A structure is read from an object, field by field.\<close>

definition reading :: "json \<Rightarrow> 'a \<Rightarrow> 'a option" where
  "reading j mk = (case j of JObj _ \<Rightarrow> Some mk | _ \<Rightarrow> None)"

definition ap :: "('a \<Rightarrow> 'b) option \<Rightarrow> 'a option \<Rightarrow> 'b option" where
  "ap f x = Option.bind f (\<lambda>g. map_option g x)"

definition req :: "string \<Rightarrow> (json \<Rightarrow> 'a option) \<Rightarrow> json \<Rightarrow> 'a option" where
  "req k d j = (case fields j k of [v] \<Rightarrow> d v | _ \<Rightarrow> None)"

definition or_default :: "string \<Rightarrow> (json \<Rightarrow> 'a option) \<Rightarrow> 'a \<Rightarrow> json \<Rightarrow> 'a option" where
  "or_default k d x j = (case fields j k of [] \<Rightarrow> Some x | [v] \<Rightarrow> d v | _ \<Rightarrow> None)"

definition nullable :: "(json \<Rightarrow> 'a option) \<Rightarrow> json \<Rightarrow> 'a option option" where
  "nullable d v = (if v = JNull then Some None else map_option Some (d v))"

definition opt :: "string \<Rightarrow> (json \<Rightarrow> 'a option) \<Rightarrow> json \<Rightarrow> 'a option option" where
  "opt k d = or_default k (nullable d) None"

definition option_json :: "('a \<Rightarrow> json) \<Rightarrow> 'a option \<Rightarrow> json" where
  "option_json e v = (case v of None \<Rightarrow> JNull | Some x \<Rightarrow> e x)"

definition list_json :: "('a \<Rightarrow> json) \<Rightarrow> 'a list \<Rightarrow> json" where
  "list_json e xs = JArr (map e xs)"

fun all_some :: "'a option list \<Rightarrow> 'a list option" where
  "all_some [] = Some []"
| "all_some (x # xs) = Option.bind x (\<lambda>y. map_option ((#) y) (all_some xs))"

definition list_of :: "(json \<Rightarrow> 'a option) \<Rightarrow> json \<Rightarrow> 'a list option" where
  "list_of d j = (case j of JArr vs \<Rightarrow> all_some (map d vs) | _ \<Rightarrow> None)"

lemma reading_obj [simp]: "reading (obj kvs) mk = Some mk"
  by (simp add: reading_def obj_def)

lemma ap_Some [simp]: "ap (Some f) (Some x) = Some (f x)"
  by (simp add: ap_def)

lemma obj_not_null [simp]: "obj kvs \<noteq> JNull"
  by (simp add: obj_def)

lemmas field_defs = req_def or_default_def opt_def

text \<open>An optional value with an optional value inside: both ways of having none are written \<open>null\<close>, which
  is read as the outer \<open>None\<close>.\<close>

fun null_lost :: "'a option option \<Rightarrow> 'a option option" where
  "null_lost (Some None) = None"
| "null_lost v = v"

section \<open>What a reader and a writer owe each other\<close>

locale wire_codec =
  fixes enc :: "'a \<Rightarrow> json" and dec :: "json \<Rightarrow> 'a option"
  assumes dec_enc [simp]: "dec (enc x) = Some x"
begin

lemma list_back: "list_of dec (list_json enc xs) = Some xs"
  by (induction xs) (auto simp: list_of_def list_json_def)

end

locale wire_value = wire_codec +
  assumes enc_not_null [simp]: "enc x \<noteq> JNull"
begin

lemma option_back: "nullable dec (option_json enc v) = Some v"
  by (simp add: nullable_def option_json_def split: option.splits)

lemma nested_option_back:
  "nullable (nullable dec) (option_json (option_json enc) v) = Some (null_lost v)"
  by (cases v rule: null_lost.cases) (simp_all add: nullable_def option_json_def)

end

section \<open>Simple values\<close>

fun str_of :: "json \<Rightarrow> rstr option" where
  "str_of (JStr s) = Some s"
| "str_of _ = None"

fun bool_of :: "json \<Rightarrow> bool option" where
  "bool_of (JBool b) = Some b"
| "bool_of _ = None"

definition num :: "'w::len word \<Rightarrow> json" where
  "num n = JNum (unat n)"

definition num_of :: "json \<Rightarrow> ('w::len word) option" where
  "num_of j = (case j of JNum n \<Rightarrow> if n < 2 ^ LENGTH('w) then Some (word_of_nat n) else None | _ \<Rightarrow> None)"

definition uuid_json :: "wire \<Rightarrow> uuid \<Rightarrow> json" where
  "uuid_json W u = JStr (wl_uuid_text W u)"

definition uuid_of :: "wire \<Rightarrow> json \<Rightarrow> uuid option" where
  "uuid_of W j = Option.bind (str_of j) (wl_uuid_parse W)"

definition time_json :: "wire \<Rightarrow> datetime \<Rightarrow> json" where
  "time_json W t = JStr (wl_time_text W t)"

definition time_of :: "wire \<Rightarrow> json \<Rightarrow> datetime option" where
  "time_of W j = Option.bind (str_of j) (wl_time_parse W)"

definition date_json :: "wire \<Rightarrow> date \<Rightarrow> json" where
  "date_json W t = JStr (wl_date_text W t)"

definition day_of :: "wire \<Rightarrow> json \<Rightarrow> date option" where
  "day_of W j = Option.bind (str_of j) (wl_date_parse W)"

text \<open>\<open>#[serde(transparent)]\<close> identifiers.\<close>

definition user_json :: "wire \<Rightarrow> user_id \<Rightarrow> json" where
  "user_json W u = uuid_json W (user_uuid u)"

definition user_of :: "wire \<Rightarrow> json \<Rightarrow> user_id option" where
  "user_of W j = map_option UserId (uuid_of W j)"

definition conversation_json :: "wire \<Rightarrow> conversation_id \<Rightarrow> json" where
  "conversation_json W c = uuid_json W (conversation_uuid c)"

definition conversation_of :: "wire \<Rightarrow> json \<Rightarrow> conversation_id option" where
  "conversation_of W j = map_option ConversationId (uuid_of W j)"

definition message_id_json :: "wire \<Rightarrow> message_id \<Rightarrow> json" where
  "message_id_json W m = uuid_json W (message_uuid m)"

definition message_id_of :: "wire \<Rightarrow> json \<Rightarrow> message_id option" where
  "message_id_of W j = map_option MessageId (uuid_of W j)"

definition attachment_id_json :: "wire \<Rightarrow> attachment_id \<Rightarrow> json" where
  "attachment_id_json W a = uuid_json W (attachment_uuid a)"

definition attachment_id_of :: "wire \<Rightarrow> json \<Rightarrow> attachment_id option" where
  "attachment_id_of W j = map_option AttachmentId (uuid_of W j)"

text \<open>An enumeration is the snake-case name of its variant.\<close>

definition enum_of :: "(string \<times> 'a) list \<Rightarrow> json \<Rightarrow> 'a option" where
  "enum_of names j = (case j of
     JStr s \<Rightarrow> map_option snd (find (\<lambda>(n, _). lit n = s) names) | _ \<Rightarrow> None)"

definition name_in :: "(string \<times> 'a) list \<Rightarrow> 'a \<Rightarrow> json" where
  "name_in names x = (case find (\<lambda>(_, y). y = x) names of Some (n, _) \<Rightarrow> JStr (lit n) | None \<Rightarrow> JNull)"

definition presences :: "(string \<times> presence) list" where
  "presences = [(''online'', Online), (''away'', Away), (''busy'', Busy), (''invisible'', Invisible),
     (''offline'', Offline)]"

definition roles :: "(string \<times> member_role) list" where
  "roles = [(''member'', Member), (''administrator'', Administrator), (''owner'', Owner)]"

definition decisions :: "(string \<times> friend_request_decision) list" where
  "decisions = [(''accept'', Accept), (''reject'', Reject)]"

definition forward_modes :: "(string \<times> forward_mode) list" where
  "forward_modes = [(''individually'', Individually), (''merged'', Merged)]"

definition attachment_kinds :: "(string \<times> attachment_kind) list" where
  "attachment_kinds = [(''image'', KImage), (''file'', KFile), (''audio'', KAudio), (''video'', KVideo)]"

interpretation str: wire_value JStr str_of
  by unfold_locales simp_all

interpretation boolean: wire_value JBool bool_of
  by unfold_locales simp_all

interpretation number: wire_value "num :: 'w::len word \<Rightarrow> json" num_of
  by unfold_locales (simp_all add: num_def num_of_def)

lemma find_SomeD: "find P xs = Some x \<Longrightarrow> x \<in> set xs \<and> P x"
  by (induction xs) (auto split: if_splits)

lemma enum_value:
  assumes "distinct (map fst names)" "\<And>x. x \<in> snd ` set names"
  shows "wire_value (name_in names) (enum_of names)"
proof
  fix x
  obtain n y where f: "find (\<lambda>(_, y). y = x) names = Some (n, y)"
    using assms(2) [of x] by (cases "find (\<lambda>(_, y). y = x) names") (force simp: find_None_iff)+
  then have y: "y = x" "(n, x) \<in> set names" by (auto dest: find_SomeD)
  obtain m z where g: "find (\<lambda>(k, _). lit k = lit n) names = Some (m, z)"
    using y(2) by (cases "find (\<lambda>(k, _). lit k = lit n) names") (fastforce simp: find_None_iff simp del: lit_inj)+
  then have "m = n" "(m, z) \<in> set names" by (auto dest!: find_SomeD simp: inj_map_eq_map [OF inj_of_char] simp del: lit_inj)
  with y(2) assms(1) have "z = x" by (metis eq_key_imp_eq_value)
  then show "enum_of names (name_in names x) = Some x"
    using f g unfolding name_in_def enum_of_def by simp
  show "name_in names x \<noteq> JNull" using f unfolding name_in_def by simp
qed

interpretation presence: wire_value "name_in presences" "enum_of presences"
  by (rule enum_value) (auto simp: presences_def image_iff intro: presence.exhaust)

interpretation role: wire_value "name_in roles" "enum_of roles"
  by (rule enum_value) (auto simp: roles_def image_iff intro: member_role.exhaust)

interpretation decision: wire_value "name_in decisions" "enum_of decisions"
  by (rule enum_value) (auto simp: decisions_def image_iff intro: friend_request_decision.exhaust)

interpretation forward_mode: wire_value "name_in forward_modes" "enum_of forward_modes"
  by (rule enum_value) (auto simp: forward_modes_def image_iff intro: forward_mode.exhaust)

interpretation attachment_kind: wire_value "name_in attachment_kinds" "enum_of attachment_kinds"
  by (rule enum_value) (auto simp: attachment_kinds_def image_iff intro: attachment_kind.exhaust)

text \<open>Identifiers and times are values of the wire when the texts are read back.\<close>

lemma wire_values:
  assumes "wire_ok W"
  shows "wire_value (uuid_json W) (uuid_of W)" "wire_value (time_json W) (time_of W)"
    and "wire_value (date_json W) (day_of W)" "wire_value (user_json W) (user_of W)"
    and "wire_value (conversation_json W) (conversation_of W)"
    and "wire_value (message_id_json W) (message_id_of W)"
    and "wire_value (attachment_id_json W) (attachment_id_of W)"
  by (unfold_locales; simp add: wire_okD [OF assms] uuid_json_def uuid_of_def time_json_def time_of_def
      date_json_def day_of_def user_json_def user_of_def conversation_json_def conversation_of_def
      message_id_json_def message_id_of_def attachment_id_json_def attachment_id_of_def)+

lemmas wire_codecs = wire_values [THEN wire_value.axioms(1)]

lemmas values_back =
  str.option_back boolean.option_back number.option_back presence.option_back role.option_back
  str.list_back str.nested_option_back

lemmas wire_back =
  wire_codecs [THEN wire_codec.dec_enc] wire_codecs [THEN wire_codec.list_back]
  wire_values [THEN wire_value.option_back] wire_values [THEN wire_value.nested_option_back]

end
