(* ===== verification/Wire_Requests.thy ===== *)
theory Wire_Requests
  imports Wire_Json
begin

text \<open>
  The request structures of \<open>crates/protocol/src/lib.rs\<close> on the wire: \<open>x_json\<close> is what \<open>serde\<close> writes for
  \<open>x\<close>, \<open>x_of\<close> what it reads.  A structure of one or two fields is given by the fields.  Each is read back
  as it was written, except that a nested option set to \<open>Some(None)\<close> is read as \<open>None\<close>.
\<close>

section \<open>Accounts\<close>

definition register_request_json :: "register_request \<Rightarrow> json" where
  "register_request_json r = obj
     [(''email'', JStr (rgr_email r)),
      (''username'', JStr (rgr_username r)),
      (''password'', JStr (rgr_password r)),
      (''nickname'', JStr (rgr_nickname r)),
      (''device_name'', JStr (rgr_device_name r)),
      (''platform'', option_json JStr (rgr_platform r)),
      (''app_version'', option_json JStr (rgr_app_version r))]"

definition register_request_of :: "json \<Rightarrow> register_request option" where
  "register_request_of j = ap (ap (ap (ap (ap (ap (ap (reading j (\<lambda>a b c d e f g. \<lparr>rgr_email = a, rgr_username = b, rgr_password = c, rgr_nickname = d, rgr_device_name = e, rgr_platform = f, rgr_app_version = g\<rparr>))
       (req ''email'' str_of j))
       (req ''username'' str_of j))
       (req ''password'' str_of j))
       (req ''nickname'' str_of j))
       (req ''device_name'' str_of j))
       (opt ''platform'' str_of j))
       (opt ''app_version'' str_of j)"

definition login_request_json :: "login_request \<Rightarrow> json" where
  "login_request_json r = obj
     [(''login'', JStr (lgr_login r)),
      (''password'', JStr (lgr_password r)),
      (''second_factor_code'', option_json JStr (lgr_second_factor_code r)),
      (''device_name'', JStr (lgr_device_name r)),
      (''platform'', option_json JStr (lgr_platform r)),
      (''app_version'', option_json JStr (lgr_app_version r))]"

definition login_request_of :: "json \<Rightarrow> login_request option" where
  "login_request_of j = ap (ap (ap (ap (ap (ap (reading j (\<lambda>a b c d e f. \<lparr>lgr_login = a, lgr_password = b, lgr_second_factor_code = c, lgr_device_name = d, lgr_platform = e, lgr_app_version = f\<rparr>))
       (req ''login'' str_of j))
       (req ''password'' str_of j))
       (opt ''second_factor_code'' str_of j))
       (req ''device_name'' str_of j))
       (opt ''platform'' str_of j))
       (opt ''app_version'' str_of j)"

definition refresh_request_json :: "rstr \<Rightarrow> json" where
  "refresh_request_json x = obj
     [(''refresh_token'', JStr x)]"

definition refresh_request_of :: "json \<Rightarrow> rstr option" where
  "refresh_request_of j = ap (reading j (\<lambda>x. x))
       (req ''refresh_token'' str_of j)"

definition logout_request_json :: "rstr \<Rightarrow> json" where
  "logout_request_json x = obj
     [(''refresh_token'', JStr x)]"

definition logout_request_of :: "json \<Rightarrow> rstr option" where
  "logout_request_of j = ap (reading j (\<lambda>x. x))
       (req ''refresh_token'' str_of j)"

definition password_reset_request_json :: "rstr \<Rightarrow> json" where
  "password_reset_request_json x = obj
     [(''email'', JStr x)]"

definition password_reset_request_of :: "json \<Rightarrow> rstr option" where
  "password_reset_request_of j = ap (reading j (\<lambda>x. x))
       (req ''email'' str_of j)"

definition password_reset_confirm_request_json :: "rstr \<times> rstr \<Rightarrow> json" where
  "password_reset_confirm_request_json p = obj
     [(''reset_token'', JStr (fst p)),
      (''new_password'', JStr (snd p))]"

definition password_reset_confirm_request_of :: "json \<Rightarrow> (rstr \<times> rstr) option" where
  "password_reset_confirm_request_of j = ap (ap (reading j Pair)
       (req ''reset_token'' str_of j))
       (req ''new_password'' str_of j)"

definition change_password_request_json :: "rstr \<times> rstr \<Rightarrow> json" where
  "change_password_request_json p = obj
     [(''current_password'', JStr (fst p)),
      (''new_password'', JStr (snd p))]"

definition change_password_request_of :: "json \<Rightarrow> (rstr \<times> rstr) option" where
  "change_password_request_of j = ap (ap (reading j Pair)
       (req ''current_password'' str_of j))
       (req ''new_password'' str_of j)"

definition second_factor_code_request_json :: "rstr \<Rightarrow> json" where
  "second_factor_code_request_json x = obj
     [(''code'', JStr x)]"

definition second_factor_code_request_of :: "json \<Rightarrow> rstr option" where
  "second_factor_code_request_of j = ap (reading j (\<lambda>x. x))
       (req ''code'' str_of j)"

definition disable_second_factor_request_json :: "rstr \<times> rstr \<Rightarrow> json" where
  "disable_second_factor_request_json p = obj
     [(''current_password'', JStr (fst p)),
      (''code'', JStr (snd p))]"

definition disable_second_factor_request_of :: "json \<Rightarrow> (rstr \<times> rstr) option" where
  "disable_second_factor_request_of j = ap (ap (reading j Pair)
       (req ''current_password'' str_of j))
       (req ''code'' str_of j)"

definition regenerate_recovery_codes_request_json :: "rstr \<times> rstr \<Rightarrow> json" where
  "regenerate_recovery_codes_request_json p = obj
     [(''current_password'', JStr (fst p)),
      (''code'', JStr (snd p))]"

definition regenerate_recovery_codes_request_of :: "json \<Rightarrow> (rstr \<times> rstr) option" where
  "regenerate_recovery_codes_request_of j = ap (ap (reading j Pair)
       (req ''current_password'' str_of j))
       (req ''code'' str_of j)"

definition qr_login_start_request_json :: "qr_login_start_request \<Rightarrow> json" where
  "qr_login_start_request_json r = obj
     [(''device_name'', JStr (qsr_device_name r)),
      (''platform'', option_json JStr (qsr_platform r)),
      (''app_version'', option_json JStr (qsr_app_version r))]"

definition qr_login_start_request_of :: "json \<Rightarrow> qr_login_start_request option" where
  "qr_login_start_request_of j = ap (ap (ap (reading j (\<lambda>a b c. \<lparr>qsr_device_name = a, qsr_platform = b, qsr_app_version = c\<rparr>))
       (req ''device_name'' str_of j))
       (opt ''platform'' str_of j))
       (opt ''app_version'' str_of j)"

definition qr_login_secret_request_json :: "rstr \<Rightarrow> json" where
  "qr_login_secret_request_json x = obj
     [(''secret'', JStr x)]"

definition qr_login_secret_request_of :: "json \<Rightarrow> rstr option" where
  "qr_login_secret_request_of j = ap (reading j (\<lambda>x. x))
       (req ''secret'' str_of j)"

definition update_profile_request_json :: "wire \<Rightarrow> update_profile_request \<Rightarrow> json" where
  "update_profile_request_json W r = obj
     [(''nickname'', JStr (upr_nickname r)),
      (''signature'', JStr (upr_signature r)),
      (''avatar_url'', option_json JStr (upr_avatar_url r)),
      (''avatar_attachment_id'', option_json (attachment_id_json W) (upr_avatar_attachment_id r)),
      (''gender'', option_json JStr (upr_gender r)),
      (''birthday'', option_json (date_json W) (upr_birthday r)),
      (''region'', option_json JStr (upr_region r)),
      (''presence'', option_json (name_in presences) (upr_presence r))]"

definition update_profile_request_of :: "wire \<Rightarrow> json \<Rightarrow> update_profile_request option" where
  "update_profile_request_of W j = ap (ap (ap (ap (ap (ap (ap (ap (reading j (\<lambda>a b c d e f g h. \<lparr>upr_nickname = a, upr_signature = b, upr_avatar_url = c, upr_avatar_attachment_id = d, upr_gender = e, upr_birthday = f, upr_region = g, upr_presence = h\<rparr>))
       (req ''nickname'' str_of j))
       (req ''signature'' str_of j))
       (opt ''avatar_url'' str_of j))
       (opt ''avatar_attachment_id'' (attachment_id_of W) j))
       (opt ''gender'' str_of j))
       (opt ''birthday'' (day_of W) j))
       (opt ''region'' str_of j))
       (opt ''presence'' (enum_of presences) j)"

definition delete_account_request_json :: "rstr \<times> rstr \<Rightarrow> json" where
  "delete_account_request_json p = obj
     [(''current_password'', JStr (fst p)),
      (''confirmation'', JStr (snd p))]"

definition delete_account_request_of :: "json \<Rightarrow> (rstr \<times> rstr) option" where
  "delete_account_request_of j = ap (ap (reading j Pair)
       (req ''current_password'' str_of j))
       (req ''confirmation'' str_of j)"

section \<open>Profiles, friends and conversations\<close>

definition visibilities :: "(string \<times> profile_visibility) list" where
  "visibilities = [(''everyone'', Everyone), (''friends'', profile_visibility.Friends),
     (''nobody'', Nobody)]"

interpretation visibility: wire_value "name_in visibilities" "enum_of visibilities"
  by (rule enum_value) (auto simp: visibilities_def image_iff intro: profile_visibility.exhaust)

definition profile_privacy_settings_json :: "profile_privacy_settings \<Rightarrow> json" where
  "profile_privacy_settings_json r = obj
     [(''gender_visibility'', name_in visibilities (pps_gender_visibility r)),
      (''birthday_visibility'', name_in visibilities (pps_birthday_visibility r)),
      (''region_visibility'', name_in visibilities (pps_region_visibility r)),
      (''presence_visibility'', name_in visibilities (pps_presence_visibility r)),
      (''read_receipts_enabled'', JBool (pps_read_receipts_enabled r))]"

definition profile_privacy_settings_of :: "json \<Rightarrow> profile_privacy_settings option" where
  "profile_privacy_settings_of j = ap (ap (ap (ap (ap (reading j (\<lambda>a b c d e. \<lparr>pps_gender_visibility = a, pps_birthday_visibility = b, pps_region_visibility = c, pps_presence_visibility = d, pps_read_receipts_enabled = e\<rparr>))
       (req ''gender_visibility'' (enum_of visibilities) j))
       (req ''birthday_visibility'' (enum_of visibilities) j))
       (req ''region_visibility'' (enum_of visibilities) j))
       (req ''presence_visibility'' (enum_of visibilities) j))
       (req ''read_receipts_enabled'' bool_of j)"

definition friend_request_create_json :: "rstr \<times> rstr \<Rightarrow> json" where
  "friend_request_create_json p = obj
     [(''username'', JStr (fst p)),
      (''message'', JStr (snd p))]"

definition friend_request_create_of :: "json \<Rightarrow> (rstr \<times> rstr) option" where
  "friend_request_create_of j = ap (ap (reading j Pair)
       (req ''username'' str_of j))
       (req ''message'' str_of j)"

definition friend_request_decision_body_json :: "friend_request_decision \<Rightarrow> json" where
  "friend_request_decision_body_json x = obj
     [(''decision'', name_in decisions x)]"

definition friend_request_decision_body_of :: "json \<Rightarrow> friend_request_decision option" where
  "friend_request_decision_body_of j = ap (reading j (\<lambda>x. x))
       (req ''decision'' (enum_of decisions) j)"

definition update_friend_settings_request_json :: "update_friend_settings_request \<Rightarrow> json" where
  "update_friend_settings_request_json r = obj
     [(''remark'', option_json JStr (ufs_remark r)),
      (''group'', option_json JStr (ufs_group r)),
      (''share_presence'', JBool (ufs_share_presence r)),
      (''allow_files'', JBool (ufs_allow_files r))]"

definition update_friend_settings_request_of :: "json \<Rightarrow> update_friend_settings_request option" where
  "update_friend_settings_request_of j = ap (ap (ap (ap (reading j (\<lambda>a b c d. \<lparr>ufs_remark = a, ufs_group = b, ufs_share_presence = c, ufs_allow_files = d\<rparr>))
       (opt ''remark'' str_of j))
       (opt ''group'' str_of j))
       (req ''share_presence'' bool_of j))
       (req ''allow_files'' bool_of j)"

definition report_user_request_json :: "report_user_request \<Rightarrow> json" where
  "report_user_request_json r = obj
     [(''reason'', JStr (rep_reason r)),
      (''details'', option_json JStr (rep_details r))]"

definition report_user_request_of :: "json \<Rightarrow> report_user_request option" where
  "report_user_request_of j = ap (ap (reading j (\<lambda>a b. \<lparr>rep_reason = a, rep_details = b\<rparr>))
       (req ''reason'' str_of j))
       (opt ''details'' str_of j)"

definition create_direct_conversation_request_json :: "wire \<Rightarrow> user_id \<Rightarrow> json" where
  "create_direct_conversation_request_json W x = obj
     [(''peer_user_id'', user_json W x)]"

definition create_direct_conversation_request_of :: "wire \<Rightarrow> json \<Rightarrow> user_id option" where
  "create_direct_conversation_request_of W j = ap (reading j (\<lambda>x. x))
       (req ''peer_user_id'' (user_of W) j)"

definition create_group_request_json :: "wire \<Rightarrow> rstr \<times> user_id list \<Rightarrow> json" where
  "create_group_request_json W p = obj
     [(''name'', JStr (fst p)),
      (''member_ids'', list_json (user_json W) (snd p))]"

definition create_group_request_of :: "wire \<Rightarrow> json \<Rightarrow> (rstr \<times> user_id list) option" where
  "create_group_request_of W j = ap (ap (reading j Pair)
       (req ''name'' str_of j))
       (req ''member_ids'' (list_of (user_of W)) j)"

definition update_conversation_settings_request_json :: "update_conversation_settings_request \<Rightarrow> json" where
  "update_conversation_settings_request_json r = obj
     [(''pinned'', option_json JBool (ucs_pinned r)),
      (''muted'', option_json JBool (ucs_muted r)),
      (''hidden'', option_json JBool (ucs_hidden r)),
      (''manually_unread'', option_json JBool (ucs_manually_unread r)),
      (''draft'', option_json JStr (ucs_draft r)),
      (''label'', option_json (option_json JStr) (ucs_label r))]"

definition update_conversation_settings_request_of :: "json \<Rightarrow> update_conversation_settings_request option" where
  "update_conversation_settings_request_of j = ap (ap (ap (ap (ap (ap (reading j (\<lambda>a b c d e f. \<lparr>ucs_pinned = a, ucs_muted = b, ucs_hidden = c, ucs_manually_unread = d, ucs_draft = e, ucs_label = f\<rparr>))
       (opt ''pinned'' bool_of j))
       (opt ''muted'' bool_of j))
       (opt ''hidden'' bool_of j))
       (opt ''manually_unread'' bool_of j))
       (opt ''draft'' str_of j))
       (opt ''label'' (nullable str_of) j)"

definition create_sticker_request_json :: "wire \<Rightarrow> create_sticker_request \<Rightarrow> json" where
  "create_sticker_request_json W r = obj
     [(''attachment_id'', attachment_id_json W (cst_attachment_id r)),
      (''name'', JStr (cst_name r)),
      (''shortcut'', option_json JStr (cst_shortcut r))]"

definition create_sticker_request_of :: "wire \<Rightarrow> json \<Rightarrow> create_sticker_request option" where
  "create_sticker_request_of W j = ap (ap (ap (reading j (\<lambda>a b c. \<lparr>cst_attachment_id = a, cst_name = b, cst_shortcut = c\<rparr>))
       (req ''attachment_id'' (attachment_id_of W) j))
       (req ''name'' str_of j))
       (opt ''shortcut'' str_of j)"

section \<open>Groups\<close>

definition update_group_request_json :: "wire \<Rightarrow> update_group_request \<Rightarrow> json" where
  "update_group_request_json W r = obj
     [(''name'', option_json JStr (ug_name r)),
      (''avatar_url'', option_json (option_json JStr) (ug_avatar_url r)),
      (''avatar_attachment_id'', option_json (option_json (attachment_id_json W)) (ug_avatar_attachment_id r))]"

definition update_group_request_of :: "wire \<Rightarrow> json \<Rightarrow> update_group_request option" where
  "update_group_request_of W j = ap (ap (ap (reading j (\<lambda>a b c. \<lparr>ug_name = a, ug_avatar_url = b, ug_avatar_attachment_id = c\<rparr>))
       (opt ''name'' str_of j))
       (opt ''avatar_url'' (nullable str_of) j))
       (opt ''avatar_attachment_id'' (nullable (attachment_id_of W)) j)"

definition add_group_members_request_json :: "wire \<Rightarrow> user_id list \<Rightarrow> json" where
  "add_group_members_request_json W x = obj
     [(''member_ids'', list_json (user_json W) x)]"

definition add_group_members_request_of :: "wire \<Rightarrow> json \<Rightarrow> (user_id list) option" where
  "add_group_members_request_of W j = ap (reading j (\<lambda>x. x))
       (req ''member_ids'' (list_of (user_of W)) j)"

definition update_group_member_request_json :: "wire \<Rightarrow> update_group_member_request \<Rightarrow> json" where
  "update_group_member_request_json W r = obj
     [(''nickname'', option_json (option_json JStr) (ugm_nickname r)),
      (''role'', option_json (name_in roles) (ugm_role r)),
      (''muted_until'', option_json (option_json (time_json W)) (ugm_muted_until r))]"

definition update_group_member_request_of :: "wire \<Rightarrow> json \<Rightarrow> update_group_member_request option" where
  "update_group_member_request_of W j = ap (ap (ap (reading j (\<lambda>a b c. \<lparr>ugm_nickname = a, ugm_role = b, ugm_muted_until = c\<rparr>))
       (opt ''nickname'' (nullable str_of) j))
       (opt ''role'' (enum_of roles) j))
       (opt ''muted_until'' (nullable (time_of W)) j)"

definition transfer_group_ownership_request_json :: "wire \<Rightarrow> user_id \<Rightarrow> json" where
  "transfer_group_ownership_request_json W x = obj
     [(''user_id'', user_json W x)]"

definition transfer_group_ownership_request_of :: "wire \<Rightarrow> json \<Rightarrow> user_id option" where
  "transfer_group_ownership_request_of W j = ap (reading j (\<lambda>x. x))
       (req ''user_id'' (user_of W) j)"

definition group_mute_request_json :: "bool \<Rightarrow> json" where
  "group_mute_request_json x = obj
     [(''muted'', JBool x)]"

definition group_mute_request_of :: "json \<Rightarrow> bool option" where
  "group_mute_request_of j = ap (reading j (\<lambda>x. x))
       (req ''muted'' bool_of j)"

definition create_group_announcement_request_json :: "rstr \<Rightarrow> json" where
  "create_group_announcement_request_json x = obj
     [(''content'', JStr x)]"

definition create_group_announcement_request_of :: "json \<Rightarrow> rstr option" where
  "create_group_announcement_request_of j = ap (reading j (\<lambda>x. x))
       (req ''content'' str_of j)"

definition create_group_join_request_json :: "rstr \<Rightarrow> json" where
  "create_group_join_request_json x = obj
     [(''message'', JStr x)]"

definition create_group_join_request_of :: "json \<Rightarrow> rstr option" where
  "create_group_join_request_of j = ap (reading j (\<lambda>x. x))
       (req ''message'' str_of j)"

definition decide_group_join_request_body_json :: "bool \<Rightarrow> json" where
  "decide_group_join_request_body_json x = obj
     [(''accept'', JBool x)]"

definition decide_group_join_request_body_of :: "json \<Rightarrow> bool option" where
  "decide_group_join_request_body_of j = ap (reading j (\<lambda>x. x))
       (req ''accept'' bool_of j)"

definition create_group_poll_request_json :: "wire \<Rightarrow> create_group_poll_request \<Rightarrow> json" where
  "create_group_poll_request_json W r = obj
     [(''question'', JStr (cgp_question r)),
      (''options'', list_json JStr (cgp_options r)),
      (''multiple_choice'', JBool (cgp_multiple_choice r)),
      (''closes_at'', option_json (time_json W) (cgp_closes_at r))]"

definition create_group_poll_request_of :: "wire \<Rightarrow> json \<Rightarrow> create_group_poll_request option" where
  "create_group_poll_request_of W j = ap (ap (ap (ap (reading j (\<lambda>a b c d. \<lparr>cgp_question = a, cgp_options = b, cgp_multiple_choice = c, cgp_closes_at = d\<rparr>))
       (req ''question'' str_of j))
       (req ''options'' (list_of str_of) j))
       (req ''multiple_choice'' bool_of j))
       (opt ''closes_at'' (time_of W) j)"

definition vote_group_poll_request_json :: "wire \<Rightarrow> uuid list \<Rightarrow> json" where
  "vote_group_poll_request_json W x = obj
     [(''option_ids'', list_json (uuid_json W) x)]"

definition vote_group_poll_request_of :: "wire \<Rightarrow> json \<Rightarrow> (uuid list) option" where
  "vote_group_poll_request_of W j = ap (reading j (\<lambda>x. x))
       (req ''option_ids'' (list_of (uuid_of W)) j)"

section \<open>Message contents\<close>

definition attachment_json :: "wire \<Rightarrow> attachment \<Rightarrow> json" where
  "attachment_json W a = obj
     [(''id'', attachment_id_json W (att_id a)),
      (''kind'', name_in attachment_kinds (att_kind a)),
      (''file_name'', JStr (att_file_name a)),
      (''mime_type'', JStr (att_mime_type a)),
      (''byte_size'', num (att_byte_size a)),
      (''sha256'', option_json JStr (att_sha256 a)),
      (''storage_key'', JStr (att_storage_key a)),
      (''thumbnail_key'', option_json JStr (att_thumbnail_key a))]"

definition attachment_of :: "wire \<Rightarrow> json \<Rightarrow> attachment option" where
  "attachment_of W j = ap (ap (ap (ap (ap (ap (ap (ap (reading j
       (\<lambda>a b c d e f g h. \<lparr>att_id = a, att_kind = b, att_file_name = c, att_mime_type = d,
          att_byte_size = e, att_sha256 = f, att_storage_key = g, att_thumbnail_key = h\<rparr>))
       (req ''id'' (attachment_id_of W) j))
       (req ''kind'' (enum_of attachment_kinds) j))
       (req ''file_name'' str_of j))
       (req ''mime_type'' str_of j))
       (req ''byte_size'' num_of j))
       (opt ''sha256'' str_of j))
       (req ''storage_key'' str_of j))
       (opt ''thumbnail_key'' str_of j)"

text \<open>\<open>MessageContent\<close> is tagged: \<open>{"type": .., "data": {..}}\<close>.\<close>

definition tagged :: "string \<Rightarrow> (string \<times> json) list \<Rightarrow> json" where
  "tagged t kvs = obj [(''type'', JStr (lit t)), (''data'', obj kvs)]"

primrec content_json :: "wire \<Rightarrow> message_content \<Rightarrow> json"
  and forwarded_json :: "wire \<Rightarrow> forwarded_message \<Rightarrow> json" where
  "content_json W (CText t) = tagged ''text'' [(''text'', JStr t)]"
| "content_json W (CImage a) = tagged ''image'' [(''attachment'', attachment_json W a)]"
| "content_json W (CFile a) = tagged ''file'' [(''attachment'', attachment_json W a)]"
| "content_json W (CAudio a n) = tagged ''audio'' [(''attachment'', attachment_json W a), (''duration_ms'', num n)]"
| "content_json W (CSticker a n) = tagged ''sticker'' [(''attachment'', attachment_json W a), (''name'', JStr n)]"
| "content_json W (CForwardBundle t ms) =
     tagged ''forward_bundle'' [(''title'', JStr t), (''messages'', JArr (map (forwarded_json W) ms))]"
| "content_json W (CSystem t) = tagged ''system'' [(''text'', JStr t)]"
| "forwarded_json W (ForwardedMessage u n c t) = obj
     [(''sender_id'', user_json W u), (''sender_name'', JStr n), (''content'', content_json W c),
      (''created_at'', time_json W t)]"

text \<open>The number bounds the nesting of bundles; that of a JSON value is below its size.\<close>

fun content_dec :: "nat \<Rightarrow> wire \<Rightarrow> json \<Rightarrow> message_content option" where
  "content_dec 0 W j = None"
| "content_dec (Suc n) W j =
     Option.bind (req ''type'' str_of j) (\<lambda>t.
     Option.bind (req ''data'' Some j) (\<lambda>d.
       if t = lit ''text'' then ap (reading d CText) (req ''text'' str_of d)
       else if t = lit ''image'' then ap (reading d CImage) (req ''attachment'' (attachment_of W) d)
       else if t = lit ''file'' then ap (reading d CFile) (req ''attachment'' (attachment_of W) d)
       else if t = lit ''audio'' then
         ap (ap (reading d CAudio) (req ''attachment'' (attachment_of W) d)) (req ''duration_ms'' num_of d)
       else if t = lit ''sticker'' then
         ap (ap (reading d CSticker) (req ''attachment'' (attachment_of W) d)) (req ''name'' str_of d)
       else if t = lit ''forward_bundle'' then
         ap (ap (reading d CForwardBundle) (req ''title'' str_of d))
           (req ''messages'' (list_of (\<lambda>m.
              ap (ap (ap (ap (reading m ForwardedMessage) (req ''sender_id'' (user_of W) m))
                (req ''sender_name'' str_of m)) (req ''content'' (content_dec n W) m))
                (req ''created_at'' (time_of W) m))) d)
       else if t = lit ''system'' then ap (reading d CSystem) (req ''text'' str_of d)
       else None))"

definition content_of :: "wire \<Rightarrow> json \<Rightarrow> message_content option" where
  "content_of W j = content_dec (size j) W j"

section \<open>Messages and files\<close>

definition send_message_request_json :: "wire \<Rightarrow> send_message_request \<Rightarrow> json" where
  "send_message_request_json W r = obj
     [(''client_message_id'', message_id_json W (sm_client_message_id r)),
      (''content'', content_json W (sm_content r)),
      (''reply_to'', option_json (message_id_json W) (sm_reply_to r)),
      (''mentions'', list_json (user_json W) (sm_mentions r)),
      (''mention_all'', JBool (sm_mention_all r)),
      (''expires_in_seconds'', option_json num (sm_expires_in_seconds r))]"

definition send_message_request_of :: "wire \<Rightarrow> json \<Rightarrow> send_message_request option" where
  "send_message_request_of W j = ap (ap (ap (ap (ap (ap (reading j (\<lambda>a b c d e f. \<lparr>sm_client_message_id = a, sm_content = b, sm_reply_to = c, sm_mentions = d, sm_mention_all = e, sm_expires_in_seconds = f\<rparr>))
       (req ''client_message_id'' (message_id_of W) j))
       (req ''content'' (content_of W) j))
       (opt ''reply_to'' (message_id_of W) j))
       (or_default ''mentions'' (list_of (user_of W)) [] j))
       (or_default ''mention_all'' bool_of False j))
       (opt ''expires_in_seconds'' num_of j)"

definition schedule_message_request_json :: "wire \<Rightarrow> schedule_message_request \<Rightarrow> json" where
  "schedule_message_request_json W r = obj
     [(''conversation_id'', conversation_json W (sch_conversation_id r)),
      (''client_message_id'', message_id_json W (sch_client_message_id r)),
      (''content'', content_json W (sch_content r)),
      (''reply_to'', option_json (message_id_json W) (sch_reply_to r)),
      (''mentions'', list_json (user_json W) (sch_mentions r)),
      (''mention_all'', JBool (sch_mention_all r)),
      (''scheduled_for'', time_json W (sch_scheduled_for r)),
      (''expires_in_seconds'', option_json num (sch_expires_in_seconds r))]"

definition schedule_message_request_of :: "wire \<Rightarrow> json \<Rightarrow> schedule_message_request option" where
  "schedule_message_request_of W j = ap (ap (ap (ap (ap (ap (ap (ap (reading j (\<lambda>a b c d e f g h. \<lparr>sch_conversation_id = a, sch_client_message_id = b, sch_content = c, sch_reply_to = d, sch_mentions = e, sch_mention_all = f, sch_scheduled_for = g, sch_expires_in_seconds = h\<rparr>))
       (req ''conversation_id'' (conversation_of W) j))
       (req ''client_message_id'' (message_id_of W) j))
       (req ''content'' (content_of W) j))
       (opt ''reply_to'' (message_id_of W) j))
       (or_default ''mentions'' (list_of (user_of W)) [] j))
       (or_default ''mention_all'' bool_of False j))
       (req ''scheduled_for'' (time_of W) j))
       (opt ''expires_in_seconds'' num_of j)"

definition forward_messages_request_json :: "wire \<Rightarrow> message_id list \<times> conversation_id \<times> forward_mode \<Rightarrow> json" where
  "forward_messages_request_json W p = obj
     [(''message_ids'', list_json (message_id_json W) (fst p)),
      (''target_conversation_id'', conversation_json W (fst (snd p))),
      (''mode'', name_in forward_modes (snd (snd p)))]"

definition forward_messages_request_of :: "wire \<Rightarrow> json \<Rightarrow> (message_id list \<times> conversation_id \<times> forward_mode) option" where
  "forward_messages_request_of W j = ap (ap (ap (reading j (\<lambda>a b c. (a, b, c)))
       (req ''message_ids'' (list_of (message_id_of W)) j))
       (req ''target_conversation_id'' (conversation_of W) j))
       (or_default ''mode'' (enum_of forward_modes) Individually j)"

definition message_reaction_request_json :: "rstr \<times> bool \<Rightarrow> json" where
  "message_reaction_request_json p = obj
     [(''emoji'', JStr (fst p)),
      (''active'', JBool (snd p))]"

definition message_reaction_request_of :: "json \<Rightarrow> (rstr \<times> bool) option" where
  "message_reaction_request_of j = ap (ap (reading j Pair)
       (req ''emoji'' str_of j))
       (req ''active'' bool_of j)"

definition translate_message_request_json :: "rstr \<Rightarrow> json" where
  "translate_message_request_json x = obj
     [(''target_language'', JStr x)]"

definition translate_message_request_of :: "json \<Rightarrow> rstr option" where
  "translate_message_request_of j = ap (reading j (\<lambda>x. x))
       (req ''target_language'' str_of j)"

definition favorite_message_request_json :: "bool \<Rightarrow> json" where
  "favorite_message_request_json x = obj
     [(''favorite'', JBool x)]"

definition favorite_message_request_of :: "json \<Rightarrow> bool option" where
  "favorite_message_request_of j = ap (reading j (\<lambda>x. x))
       (req ''favorite'' bool_of j)"

definition mark_read_request_json :: "u64 \<Rightarrow> json" where
  "mark_read_request_json x = obj
     [(''through_sequence'', num x)]"

definition mark_read_request_of :: "json \<Rightarrow> u64 option" where
  "mark_read_request_of j = ap (reading j (\<lambda>x. x))
       (req ''through_sequence'' num_of j)"

definition upload_authorization_request_json :: "upload_authorization_request \<Rightarrow> json" where
  "upload_authorization_request_json r = obj
     [(''file_name'', JStr (uar_file_name r)),
      (''mime_type'', JStr (uar_mime_type r)),
      (''byte_size'', num (uar_byte_size r)),
      (''sha256'', option_json JStr (uar_sha256 r))]"

definition upload_authorization_request_of :: "json \<Rightarrow> upload_authorization_request option" where
  "upload_authorization_request_of j = ap (ap (ap (ap (reading j (\<lambda>a b c d. \<lparr>uar_file_name = a, uar_mime_type = b, uar_byte_size = c, uar_sha256 = d\<rparr>))
       (req ''file_name'' str_of j))
       (req ''mime_type'' str_of j))
       (req ''byte_size'' num_of j))
       (opt ''sha256'' str_of j)"

definition complete_upload_request_json :: "wire \<Rightarrow> attachment_id \<Rightarrow> json" where
  "complete_upload_request_json W x = obj
     [(''attachment_id'', attachment_id_json W x)]"

definition complete_upload_request_of :: "wire \<Rightarrow> json \<Rightarrow> attachment_id option" where
  "complete_upload_request_of W j = ap (reading j (\<lambda>x. x))
       (req ''attachment_id'' (attachment_id_of W) j)"

definition admin_suspend_user_request_json :: "bool \<Rightarrow> json" where
  "admin_suspend_user_request_json x = obj
     [(''suspended'', JBool x)]"

definition admin_suspend_user_request_of :: "json \<Rightarrow> bool option" where
  "admin_suspend_user_request_of j = ap (reading j (\<lambda>x. x))
       (req ''suspended'' bool_of j)"

section \<open>What is read back\<close>

lemma register_request_back [simp]:
  "register_request_of (register_request_json r) = Some r"
  by (simp add: register_request_json_def register_request_of_def field_defs values_back wire_back)

lemma login_request_back [simp]:
  "login_request_of (login_request_json r) = Some r"
  by (simp add: login_request_json_def login_request_of_def field_defs values_back wire_back)

lemma refresh_request_back [simp]:
  "refresh_request_of (refresh_request_json x) = Some x"
  by (simp add: refresh_request_json_def refresh_request_of_def field_defs values_back wire_back)

lemma logout_request_back [simp]:
  "logout_request_of (logout_request_json x) = Some x"
  by (simp add: logout_request_json_def logout_request_of_def field_defs values_back wire_back)

lemma password_reset_request_back [simp]:
  "password_reset_request_of (password_reset_request_json x) = Some x"
  by (simp add: password_reset_request_json_def password_reset_request_of_def field_defs values_back wire_back)

lemma password_reset_confirm_request_back [simp]:
  "password_reset_confirm_request_of (password_reset_confirm_request_json p) = Some p"
  by (simp add: password_reset_confirm_request_json_def password_reset_confirm_request_of_def field_defs values_back wire_back)

lemma change_password_request_back [simp]:
  "change_password_request_of (change_password_request_json p) = Some p"
  by (simp add: change_password_request_json_def change_password_request_of_def field_defs values_back wire_back)

lemma second_factor_code_request_back [simp]:
  "second_factor_code_request_of (second_factor_code_request_json x) = Some x"
  by (simp add: second_factor_code_request_json_def second_factor_code_request_of_def field_defs values_back wire_back)

lemma disable_second_factor_request_back [simp]:
  "disable_second_factor_request_of (disable_second_factor_request_json p) = Some p"
  by (simp add: disable_second_factor_request_json_def disable_second_factor_request_of_def field_defs values_back wire_back)

lemma regenerate_recovery_codes_request_back [simp]:
  "regenerate_recovery_codes_request_of (regenerate_recovery_codes_request_json p) = Some p"
  by (simp add: regenerate_recovery_codes_request_json_def regenerate_recovery_codes_request_of_def field_defs values_back wire_back)

lemma qr_login_start_request_back [simp]:
  "qr_login_start_request_of (qr_login_start_request_json r) = Some r"
  by (simp add: qr_login_start_request_json_def qr_login_start_request_of_def field_defs values_back wire_back)

lemma qr_login_secret_request_back [simp]:
  "qr_login_secret_request_of (qr_login_secret_request_json x) = Some x"
  by (simp add: qr_login_secret_request_json_def qr_login_secret_request_of_def field_defs values_back wire_back)

lemma update_profile_request_back [simp]:
  "wire_ok W \<Longrightarrow> update_profile_request_of W (update_profile_request_json W r) = Some r"
  by (simp add: update_profile_request_json_def update_profile_request_of_def field_defs values_back wire_back)

lemma delete_account_request_back [simp]:
  "delete_account_request_of (delete_account_request_json p) = Some p"
  by (simp add: delete_account_request_json_def delete_account_request_of_def field_defs values_back wire_back)

lemma profile_privacy_settings_back [simp]:
  "profile_privacy_settings_of (profile_privacy_settings_json r) = Some r"
  by (simp add: profile_privacy_settings_json_def profile_privacy_settings_of_def field_defs values_back wire_back)

lemma friend_request_create_back [simp]:
  "friend_request_create_of (friend_request_create_json p) = Some p"
  by (simp add: friend_request_create_json_def friend_request_create_of_def field_defs values_back wire_back)

lemma friend_request_decision_body_back [simp]:
  "friend_request_decision_body_of (friend_request_decision_body_json x) = Some x"
  by (simp add: friend_request_decision_body_json_def friend_request_decision_body_of_def field_defs values_back wire_back)

lemma update_friend_settings_request_back [simp]:
  "update_friend_settings_request_of (update_friend_settings_request_json r) = Some r"
  by (simp add: update_friend_settings_request_json_def update_friend_settings_request_of_def field_defs values_back wire_back)

lemma report_user_request_back [simp]:
  "report_user_request_of (report_user_request_json r) = Some r"
  by (simp add: report_user_request_json_def report_user_request_of_def field_defs values_back wire_back)

lemma create_direct_conversation_request_back [simp]:
  "wire_ok W \<Longrightarrow> create_direct_conversation_request_of W (create_direct_conversation_request_json W x) = Some x"
  by (simp add: create_direct_conversation_request_json_def create_direct_conversation_request_of_def field_defs values_back wire_back)

lemma create_group_request_back [simp]:
  "wire_ok W \<Longrightarrow> create_group_request_of W (create_group_request_json W p) = Some p"
  by (simp add: create_group_request_json_def create_group_request_of_def field_defs values_back wire_back)

lemma update_conversation_settings_request_back [simp]:
  "update_conversation_settings_request_of (update_conversation_settings_request_json r) = Some (r\<lparr>ucs_label := null_lost (ucs_label r)\<rparr>)"
  by (simp add: update_conversation_settings_request_json_def update_conversation_settings_request_of_def field_defs values_back wire_back)

lemma create_sticker_request_back [simp]:
  "wire_ok W \<Longrightarrow> create_sticker_request_of W (create_sticker_request_json W r) = Some r"
  by (simp add: create_sticker_request_json_def create_sticker_request_of_def field_defs values_back wire_back)

lemma update_group_request_back [simp]:
  "wire_ok W \<Longrightarrow> update_group_request_of W (update_group_request_json W r) = Some (r\<lparr>ug_avatar_url := null_lost (ug_avatar_url r), ug_avatar_attachment_id := null_lost (ug_avatar_attachment_id r)\<rparr>)"
  by (simp add: update_group_request_json_def update_group_request_of_def field_defs values_back wire_back)

lemma add_group_members_request_back [simp]:
  "wire_ok W \<Longrightarrow> add_group_members_request_of W (add_group_members_request_json W x) = Some x"
  by (simp add: add_group_members_request_json_def add_group_members_request_of_def field_defs values_back wire_back)

lemma update_group_member_request_back [simp]:
  "wire_ok W \<Longrightarrow> update_group_member_request_of W (update_group_member_request_json W r) = Some (r\<lparr>ugm_nickname := null_lost (ugm_nickname r), ugm_muted_until := null_lost (ugm_muted_until r)\<rparr>)"
  by (simp add: update_group_member_request_json_def update_group_member_request_of_def field_defs values_back wire_back)

lemma transfer_group_ownership_request_back [simp]:
  "wire_ok W \<Longrightarrow> transfer_group_ownership_request_of W (transfer_group_ownership_request_json W x) = Some x"
  by (simp add: transfer_group_ownership_request_json_def transfer_group_ownership_request_of_def field_defs values_back wire_back)

lemma group_mute_request_back [simp]:
  "group_mute_request_of (group_mute_request_json x) = Some x"
  by (simp add: group_mute_request_json_def group_mute_request_of_def field_defs values_back wire_back)

lemma create_group_announcement_request_back [simp]:
  "create_group_announcement_request_of (create_group_announcement_request_json x) = Some x"
  by (simp add: create_group_announcement_request_json_def create_group_announcement_request_of_def field_defs values_back wire_back)

lemma create_group_join_request_back [simp]:
  "create_group_join_request_of (create_group_join_request_json x) = Some x"
  by (simp add: create_group_join_request_json_def create_group_join_request_of_def field_defs values_back wire_back)

lemma decide_group_join_request_body_back [simp]:
  "decide_group_join_request_body_of (decide_group_join_request_body_json x) = Some x"
  by (simp add: decide_group_join_request_body_json_def decide_group_join_request_body_of_def field_defs values_back wire_back)

lemma create_group_poll_request_back [simp]:
  "wire_ok W \<Longrightarrow> create_group_poll_request_of W (create_group_poll_request_json W r) = Some r"
  by (simp add: create_group_poll_request_json_def create_group_poll_request_of_def field_defs values_back wire_back)

lemma vote_group_poll_request_back [simp]:
  "wire_ok W \<Longrightarrow> vote_group_poll_request_of W (vote_group_poll_request_json W x) = Some x"
  by (simp add: vote_group_poll_request_json_def vote_group_poll_request_of_def field_defs values_back wire_back)

lemma attachment_back [simp]: "wire_ok W \<Longrightarrow> attachment_of W (attachment_json W a) = Some a"
  by (simp add: attachment_json_def attachment_of_def field_defs values_back wire_back)

text \<open>The nesting of bundles.\<close>

primrec nesting :: "message_content \<Rightarrow> nat" and forwarded_nesting :: "forwarded_message \<Rightarrow> nat" where
  "nesting (CText t) = 0"
| "nesting (CImage a) = 0"
| "nesting (CFile a) = 0"
| "nesting (CAudio a n) = 0"
| "nesting (CSticker a n) = 0"
| "nesting (CForwardBundle t ms) = Suc (Max (insert 0 (set (map forwarded_nesting ms))))"
| "nesting (CSystem t) = 0"
| "forwarded_nesting (ForwardedMessage u n c t) = nesting c"

lemma list_of_map:
  "(\<And>m. m \<in> set ms \<Longrightarrow> d (e m) = Some m) \<Longrightarrow> list_of d (JArr (map e ms)) = Some ms"
  unfolding list_of_def by (induction ms) auto

definition forwarded_dec :: "nat \<Rightarrow> wire \<Rightarrow> json \<Rightarrow> forwarded_message option" where
  "forwarded_dec n W m = ap (ap (ap (ap (reading m ForwardedMessage) (req ''sender_id'' (user_of W) m))
     (req ''sender_name'' str_of m)) (req ''content'' (content_dec n W) m)) (req ''created_at'' (time_of W) m)"

lemmas content_fields =
  tagged_def field_defs wire_codecs [THEN wire_codec.dec_enc]

lemma content_dec_back:
  assumes "wire_ok W"
  shows "nesting c < n \<Longrightarrow> content_dec n W (content_json W c) = Some c"
    and "forwarded_nesting m < n \<Longrightarrow> forwarded_dec n W (forwarded_json W m) = Some m"
proof (induction c and m arbitrary: n and n)
  case (CForwardBundle t ms)
  then obtain k where k: "n = Suc k" "\<And>m. m \<in> set ms \<Longrightarrow> forwarded_nesting m < k"
    by (cases n) auto
  have "list_of (forwarded_dec k W) (JArr (map (forwarded_json W) ms)) = Some ms"
    by (rule list_of_map) (use CForwardBundle.IH k(2) in blast)
  then have "req ''messages'' (list_of (forwarded_dec k W))
      (obj [(''title'', JStr t), (''messages'', JArr (map (forwarded_json W) ms))]) = Some ms"
    by (simp add: field_defs)
  then show ?case
    unfolding k(1) by (simp add: content_fields forwarded_dec_def [abs_def])
next
  case (ForwardedMessage u nm c t)
  then show ?case by (simp add: forwarded_dec_def field_defs wire_codecs [OF assms, THEN wire_codec.dec_enc])
qed (use assms in \<open>(case_tac n; simp add: content_fields)+\<close>)

lemma nesting_size:
  "nesting c < size (content_json W c)" "forwarded_nesting m < size (forwarded_json W m)"
proof (induction c and m)
  case (CForwardBundle t ms)
  have "forwarded_nesting m < size_list size (map (forwarded_json W) ms)" if "m \<in> set ms" for m
    using CForwardBundle.IH [OF that] that size_list_estimation [of "forwarded_json W m" _ _ size]
    by (fastforce intro: less_le_trans size_list_estimation')
  then have "Max (insert 0 (set (map forwarded_nesting ms))) \<le> size_list size (map (forwarded_json W) ms)"
    by (auto intro: less_imp_le)
  then show ?case by (auto simp: tagged_def obj_def intro!: less_SucI le_imp_less_Suc)
qed (simp_all add: tagged_def obj_def)

lemma content_back [simp]: "wire_ok W \<Longrightarrow> content_of W (content_json W c) = Some c"
  unfolding content_of_def using content_dec_back(1) nesting_size(1) by blast

lemma send_message_request_back [simp]:
  "wire_ok W \<Longrightarrow> send_message_request_of W (send_message_request_json W r) = Some r"
  by (simp add: send_message_request_json_def send_message_request_of_def field_defs values_back wire_back)

lemma schedule_message_request_back [simp]:
  "wire_ok W \<Longrightarrow> schedule_message_request_of W (schedule_message_request_json W r) = Some r"
  by (simp add: schedule_message_request_json_def schedule_message_request_of_def field_defs values_back wire_back)

lemma forward_messages_request_back [simp]:
  "wire_ok W \<Longrightarrow> forward_messages_request_of W (forward_messages_request_json W p) = Some p"
  by (simp add: forward_messages_request_json_def forward_messages_request_of_def field_defs values_back wire_back)

lemma message_reaction_request_back [simp]:
  "message_reaction_request_of (message_reaction_request_json p) = Some p"
  by (simp add: message_reaction_request_json_def message_reaction_request_of_def field_defs values_back wire_back)

lemma translate_message_request_back [simp]:
  "translate_message_request_of (translate_message_request_json x) = Some x"
  by (simp add: translate_message_request_json_def translate_message_request_of_def field_defs values_back wire_back)

lemma favorite_message_request_back [simp]:
  "favorite_message_request_of (favorite_message_request_json x) = Some x"
  by (simp add: favorite_message_request_json_def favorite_message_request_of_def field_defs values_back wire_back)

lemma mark_read_request_back [simp]:
  "mark_read_request_of (mark_read_request_json x) = Some x"
  by (simp add: mark_read_request_json_def mark_read_request_of_def field_defs values_back wire_back)

lemma upload_authorization_request_back [simp]:
  "upload_authorization_request_of (upload_authorization_request_json r) = Some r"
  by (simp add: upload_authorization_request_json_def upload_authorization_request_of_def field_defs values_back wire_back)

lemma complete_upload_request_back [simp]:
  "wire_ok W \<Longrightarrow> complete_upload_request_of W (complete_upload_request_json W x) = Some x"
  by (simp add: complete_upload_request_json_def complete_upload_request_of_def field_defs values_back wire_back)

lemma admin_suspend_user_request_back [simp]:
  "admin_suspend_user_request_of (admin_suspend_user_request_json x) = Some x"
  by (simp add: admin_suspend_user_request_json_def admin_suspend_user_request_of_def field_defs values_back wire_back)

end
