(* ===== verification/Http_Paths.thy ===== *)
theory Http_Paths
  imports Wire_Requests
begin

text \<open>
  From a request line to a route: the table of paths and methods that \<open>router\<close> of \<open>apps/server/src/api.rs\<close>
  hands to \<open>axum\<close>, and what the extractors \<open>Path\<close>, \<open>Query\<close> and \<open>Json\<close> of each handler make of a request.

  \<open>axum\<close> chooses the path first, a fixed segment before a parameter, and then the method.  A request that
  finds no route or whose parts cannot be extracted (\<open>None\<close> here) is answered by \<open>axum\<close> itself with a
  status from 400 to 422.  A parameter is a segment as it stands: the program's parameters are UUIDs, in
  which nothing is percent-encoded.
\<close>

section \<open>Paths\<close>

datatype http_method = Get | Post | Patch | Delete

datatype segment = Word string | Param

fun match_path :: "segment list \<Rightarrow> rstr list \<Rightarrow> rstr list option" where
  "match_path [] [] = Some []"
| "match_path (Word w # ps) (s # ss) = (if s = lit w then match_path ps ss else None)"
| "match_path (Param # ps) (s # ss) = (if s = [] then None else map_option ((#) s) (match_path ps ss))"
| "match_path _ _ = None"

text \<open>A fixed segment is preferred at the first place where two paths differ.\<close>

fun more_fixed :: "segment list \<Rightarrow> segment list \<Rightarrow> bool" where
  "more_fixed (Word w # ps) (Param # qs) = True"
| "more_fixed (Param # ps) (Word w # qs) = False"
| "more_fixed (p # ps) (q # qs) = more_fixed ps qs"
| "more_fixed _ _ = False"

text \<open>Paths are written without the empty segment before the first slash.\<close>

definition top :: "segment list \<Rightarrow> segment list" where
  "top ps = Word [] # ps"

definition api :: "segment list \<Rightarrow> segment list" where
  "api ps = top (Word ''api'' # Word ''v1'' # ps)"

section \<open>Extractors\<close>

type_synonym extractor = "rstr list \<Rightarrow> (rstr \<times> rstr) list \<Rightarrow> json option \<Rightarrow> route option"

type_synonym endpoint_entry = "http_method \<times> segment list \<times> extractor"

definition plain :: "route \<Rightarrow> extractor" where
  "plain r = (\<lambda>ps qs b. Some r)"

definition with_body :: "(json \<Rightarrow> 'b option) \<Rightarrow> ('b \<Rightarrow> route) \<Rightarrow> extractor" where
  "with_body d f = (\<lambda>ps qs b. map_option f (Option.bind b d))"

definition with_id :: "wire \<Rightarrow> (uuid \<Rightarrow> route) \<Rightarrow> extractor" where
  "with_id W f = (\<lambda>ps qs b. case ps of [p] \<Rightarrow> map_option f (wl_uuid_parse W p) | _ \<Rightarrow> None)"

definition with_id_body :: "wire \<Rightarrow> (json \<Rightarrow> 'b option) \<Rightarrow> (uuid \<Rightarrow> 'b \<Rightarrow> route) \<Rightarrow> extractor" where
  "with_id_body W d f = (\<lambda>ps qs b. case ps of
     [p] \<Rightarrow> Option.bind (wl_uuid_parse W p) (\<lambda>i. map_option (f i) (Option.bind b d)) | _ \<Rightarrow> None)"

definition with_ids :: "wire \<Rightarrow> (uuid \<Rightarrow> uuid \<Rightarrow> route) \<Rightarrow> extractor" where
  "with_ids W f = (\<lambda>ps qs b. case ps of
     [p, q] \<Rightarrow> Option.bind (wl_uuid_parse W p) (\<lambda>i. map_option (f i) (wl_uuid_parse W q)) | _ \<Rightarrow> None)"

definition with_ids_body ::
  "wire \<Rightarrow> (json \<Rightarrow> 'b option) \<Rightarrow> (uuid \<Rightarrow> uuid \<Rightarrow> 'b \<Rightarrow> route) \<Rightarrow> extractor" where
  "with_ids_body W d f = (\<lambda>ps qs b. case ps of
     [p, q] \<Rightarrow> Option.bind (wl_uuid_parse W p) (\<lambda>i. Option.bind (wl_uuid_parse W q) (\<lambda>k.
       map_option (f i k) (Option.bind b d))) | _ \<Rightarrow> None)"

text \<open>\<open>Query\<close>: a required or an optional parameter.  A repeated one is refused.\<close>

definition query_values :: "string \<Rightarrow> (rstr \<times> rstr) list \<Rightarrow> rstr list" where
  "query_values k qs = map snd (filter (\<lambda>(k', _). k' = lit k) qs)"

definition query_one :: "string \<Rightarrow> (rstr \<Rightarrow> 'a option) \<Rightarrow> (rstr \<times> rstr) list \<Rightarrow> 'a option" where
  "query_one k d qs = (case query_values k qs of [v] \<Rightarrow> d v | _ \<Rightarrow> None)"

definition query_opt :: "string \<Rightarrow> (rstr \<Rightarrow> 'a option) \<Rightarrow> (rstr \<times> rstr) list \<Rightarrow> 'a option option" where
  "query_opt k d qs = (case query_values k qs of [] \<Rightarrow> Some None | [v] \<Rightarrow> map_option Some (d v) | _ \<Rightarrow> None)"

text \<open>\<open>usize\<close> has 64 bits.\<close>

definition parse_usize :: "rstr \<Rightarrow> nat option" where
  "parse_usize s = map_option unat (parse_u64 s)"

definition with_query :: "string \<Rightarrow> (rstr \<Rightarrow> 'a option) \<Rightarrow> ('a \<Rightarrow> route) \<Rightarrow> extractor" where
  "with_query k d f = (\<lambda>ps qs b. map_option f (query_one k d qs))"

definition with_optional_query :: "string \<Rightarrow> (rstr \<Rightarrow> 'a option) \<Rightarrow> ('a option \<Rightarrow> route) \<Rightarrow> extractor" where
  "with_optional_query k d f = (\<lambda>ps qs b. map_option f (query_opt k d qs))"

definition with_queries ::
  "string \<Rightarrow> (rstr \<Rightarrow> 'a option) \<Rightarrow> string \<Rightarrow> (rstr \<Rightarrow> 'b option) \<Rightarrow> ('a option \<Rightarrow> 'b option \<Rightarrow> route)
     \<Rightarrow> extractor" where
  "with_queries k d k' d' f = (\<lambda>ps qs b.
     Option.bind (query_opt k d qs) (\<lambda>x. map_option (f x) (query_opt k' d' qs)))"

definition with_id_query ::
  "wire \<Rightarrow> string \<Rightarrow> (rstr \<Rightarrow> 'a option) \<Rightarrow> string \<Rightarrow> (rstr \<Rightarrow> 'b option)
     \<Rightarrow> (uuid \<Rightarrow> 'a option \<Rightarrow> 'b option \<Rightarrow> route) \<Rightarrow> extractor" where
  "with_id_query W k d k' d' f = (\<lambda>ps qs b. case ps of
     [p] \<Rightarrow> Option.bind (wl_uuid_parse W p) (\<lambda>i.
       Option.bind (query_opt k d qs) (\<lambda>x. map_option (f i x) (query_opt k' d' qs))) | _ \<Rightarrow> None)"

lemmas extractor_defs =
  plain_def with_body_def with_id_def with_id_body_def with_ids_def with_ids_body_def with_query_def
  with_optional_query_def with_queries_def with_id_query_def query_one_def query_opt_def

section \<open>The table\<close>

definition account_paths :: "wire \<Rightarrow> endpoint_entry list" where
  "account_paths W =
    [(Get, top [Word ''health'', Word ''live''],
       plain (Account Live)),
     (Get, top [Word ''health'', Word ''ready''],
       plain (Account Ready)),
     (Get, top [Word ''metrics''],
       plain (Account Metrics_page)),
     (Get, top [Word ''admin''],
       plain (Account Admin_page)),
     (Get, api [Word ''openapi.json''],
       plain (Account Openapi)),
     (Post, api [Word ''auth'', Word ''register''],
       with_body register_request_of (Account \<circ> Register)),
     (Post, api [Word ''auth'', Word ''login''],
       with_body login_request_of (Account \<circ> Login)),
     (Post, api [Word ''auth'', Word ''qr-login''],
       with_body qr_login_start_request_of (Account \<circ> Begin_qr_login)),
     (Post, api [Word ''auth'', Word ''qr-login'', Param, Word ''poll''],
       with_id_body W qr_login_secret_request_of (\<lambda>i x. Account (Poll_qr_login i x))),
     (Post, api [Word ''auth'', Word ''refresh''],
       with_body refresh_request_of (Account \<circ> Refresh)),
     (Post, api [Word ''auth'', Word ''logout''],
       with_body logout_request_of (Account \<circ> Logout)),
     (Post, api [Word ''auth'', Word ''password-reset'', Word ''request''],
       with_body password_reset_request_of (Account \<circ> Request_password_reset)),
     (Post, api [Word ''auth'', Word ''password-reset'', Word ''confirm''],
       with_body password_reset_confirm_request_of (\<lambda>(t, p). Account (Confirm_password_reset t p))),
     (Post, api [Word ''auth'', Word ''change-password''],
       with_body change_password_request_of (\<lambda>(p, q). Account (Change_password p q))),
     (Get, api [Word ''devices''],
       plain (Account Devices)),
     (Delete, api [Word ''devices'', Param],
       with_id W (\<lambda>i. Account (Revoke_device (DeviceId i)))),
     (Get, api [Word ''me''],
       plain (Account Me)),
     (Patch, api [Word ''me''],
       with_body (update_profile_request_of W) (Account \<circ> Update_me)),
     (Delete, api [Word ''me''],
       with_body delete_account_request_of (\<lambda>(p, c). Account (Delete_me p c))),
     (Get, api [Word ''me'', Word ''second-factor''],
       plain (Account Second_factor_state)),
     (Post, api [Word ''me'', Word ''second-factor''],
       plain (Account Begin_second_factor_setup)),
     (Delete, api [Word ''me'', Word ''second-factor''],
       with_body disable_second_factor_request_of (\<lambda>(p, c). Account (Disable_second_factor p c))),
     (Post, api [Word ''me'', Word ''second-factor'', Word ''enable''],
       with_body second_factor_code_request_of (Account \<circ> Enable_second_factor)),
     (Post, api [Word ''me'', Word ''second-factor'', Word ''recovery-codes''],
       with_body regenerate_recovery_codes_request_of (\<lambda>(p, c). Account (Regenerate_recovery_codes p c))),
     (Post, api [Word ''auth'', Word ''qr-login'', Param, Word ''approve''],
       with_id_body W qr_login_secret_request_of (\<lambda>i x. Account (Approve_qr_login i x))),
     (Get, api [Word ''me'', Word ''privacy''],
       plain (Account Profile_privacy)),
     (Patch, api [Word ''me'', Word ''privacy''],
       with_body profile_privacy_settings_of (Account \<circ> Update_profile_privacy)),
     (Get, api [Word ''me'', Word ''export''],
       plain (Account Export_me))]"

definition social_paths :: "wire \<Rightarrow> endpoint_entry list" where
  "social_paths W =
    [(Get, api [Word ''me'', Word ''stickers''],
       plain (Social Stickers)),
     (Post, api [Word ''me'', Word ''stickers''],
       with_body (create_sticker_request_of W) (Social \<circ> Create_sticker)),
     (Delete, api [Word ''me'', Word ''stickers'', Param],
       with_id W (Social \<circ> Delete_sticker)),
     (Get, api [Word ''bootstrap''],
       plain (Social Bootstrap)),
     (Get, api [Word ''users'', Word ''search''],
       with_query ''username'' Some (Social \<circ> Search_users)),
     (Get, api [Word ''friends''],
       plain (Social Friends)),
     (Get, api [Word ''friends'', Word ''settings''],
       plain (Social Friend_settings)),
     (Patch, api [Word ''friends'', Param],
       with_id_body W update_friend_settings_request_of (\<lambda>i b. Social (Update_friend_settings (UserId i) b))),
     (Delete, api [Word ''friends'', Param],
       with_id W (\<lambda>i. Social (Delete_friend (UserId i)))),
     (Post, api [Word ''blocks'', Param],
       with_id W (\<lambda>i. Social (Block_user (UserId i)))),
     (Delete, api [Word ''blocks'', Param],
       with_id W (\<lambda>i. Social (Unblock_user (UserId i)))),
     (Post, api [Word ''reports'', Param],
       with_id_body W report_user_request_of (\<lambda>i b. Social (Report_user (UserId i) b))),
     (Get, api [Word ''friend-requests''],
       plain (Social Friend_requests)),
     (Post, api [Word ''friend-requests''],
       with_body friend_request_create_of (\<lambda>(n, m). Social (Create_friend_request n m))),
     (Patch, api [Word ''friend-requests'', Param],
       with_id_body W friend_request_decision_body_of (\<lambda>i d. Social (Decide_friend_request (FriendRequestId i) d))),
     (Get, api [Word ''conversations''],
       plain (Social Conversations)),
     (Post, api [Word ''conversations'', Word ''read-all''],
       plain (Social Mark_all_read)),
     (Post, api [Word ''conversations'', Word ''direct''],
       with_body (create_direct_conversation_request_of W) (Social \<circ> Create_direct)),
     (Post, api [Word ''conversations'', Word ''group''],
       with_body (create_group_request_of W) (\<lambda>(n, us). Social (Create_group n us))),
     (Get, api [Word ''conversations'', Param, Word ''settings''],
       with_id W (\<lambda>i. Social (Conversation_settings (ConversationId i)))),
     (Patch, api [Word ''conversations'', Param, Word ''settings''],
       with_id_body W update_conversation_settings_request_of (\<lambda>i b. Social (Update_conversation_settings (ConversationId i) b)))]"

definition group_paths :: "wire \<Rightarrow> endpoint_entry list" where
  "group_paths W =
    [(Get, api [Word ''groups'', Param],
       with_id W (\<lambda>i. Group_route (Group_settings (ConversationId i)))),
     (Patch, api [Word ''groups'', Param],
       with_id_body W (update_group_request_of W) (\<lambda>i b. Group_route (Update_group (ConversationId i) b))),
     (Delete, api [Word ''groups'', Param],
       with_id W (\<lambda>i. Group_route (Disband_group (ConversationId i)))),
     (Post, api [Word ''groups'', Param, Word ''members''],
       with_id_body W (add_group_members_request_of W) (\<lambda>i b. Group_route (Add_group_members (ConversationId i) b))),
     (Patch, api [Word ''groups'', Param, Word ''members'', Param],
       with_ids_body W (update_group_member_request_of W) (\<lambda>i k b. Group_route (Update_group_member (ConversationId i) (UserId k) b))),
     (Delete, api [Word ''groups'', Param, Word ''members'', Param],
       with_ids W (\<lambda>i k. Group_route (Remove_group_member (ConversationId i) (UserId k)))),
     (Post, api [Word ''groups'', Param, Word ''leave''],
       with_id W (\<lambda>i. Group_route (Leave_group (ConversationId i)))),
     (Post, api [Word ''groups'', Param, Word ''transfer''],
       with_id_body W (transfer_group_ownership_request_of W) (\<lambda>i b. Group_route (Transfer_group_ownership (ConversationId i) b))),
     (Post, api [Word ''groups'', Param, Word ''mute''],
       with_id_body W group_mute_request_of (\<lambda>i b. Group_route (Set_group_mute (ConversationId i) b))),
     (Get, api [Word ''groups'', Param, Word ''announcements''],
       with_id W (\<lambda>i. Group_route (Group_announcements (ConversationId i)))),
     (Post, api [Word ''groups'', Param, Word ''announcements''],
       with_id_body W create_group_announcement_request_of (\<lambda>i b. Group_route (Create_group_announcement (ConversationId i) b))),
     (Post, api [Word ''group-announcements'', Param, Word ''read''],
       with_id W (Group_route \<circ> Read_group_announcement)),
     (Get, api [Word ''groups'', Param, Word ''join-requests''],
       with_id W (\<lambda>i. Group_route (Group_join_requests (ConversationId i)))),
     (Post, api [Word ''groups'', Param, Word ''join-requests''],
       with_id_body W create_group_join_request_of (\<lambda>i b. Group_route (Request_to_join_group (ConversationId i) b))),
     (Patch, api [Word ''group-join-requests'', Param],
       with_id_body W decide_group_join_request_body_of (\<lambda>i x. Group_route (Decide_group_join_request i x))),
     (Get, api [Word ''groups'', Param, Word ''polls''],
       with_id W (\<lambda>i. Group_route (Group_polls (ConversationId i)))),
     (Post, api [Word ''groups'', Param, Word ''polls''],
       with_id_body W (create_group_poll_request_of W) (\<lambda>i b. Group_route (Create_group_poll (ConversationId i) b))),
     (Get, api [Word ''groups'', Param, Word ''files''],
       with_id W (\<lambda>i. Group_route (Group_files (ConversationId i)))),
     (Post, api [Word ''polls'', Param, Word ''vote''],
       with_id_body W (vote_group_poll_request_of W) (\<lambda>i os. Group_route (Vote_group_poll i os)))]"

definition message_paths :: "wire \<Rightarrow> message_id list \<Rightarrow> endpoint_entry list" where
  "message_paths W order =
    [(Get, api [Word ''conversations'', Param, Word ''messages''],
       with_id_query W ''before'' parse_u64 ''limit'' parse_usize
       (\<lambda>i before limit. Message_route (Messages (ConversationId i) before limit))),
     (Post, api [Word ''conversations'', Param, Word ''messages''],
       with_id_body W (send_message_request_of W) (\<lambda>i b. Message_route (Send_message (ConversationId i) b))),
     (Post, api [Word ''messages'', Word ''forward''],
       with_body (forward_messages_request_of W) (\<lambda>(ms, c, m). Message_route (Forward_messages ms c m))),
     (Get, api [Word ''messages'', Word ''favorites''],
       plain (Message_route (Favorite_messages order))),
     (Post, api [Word ''messages'', Param, Word ''translate''],
       with_id_body W translate_message_request_of (\<lambda>i l. Message_route (Translate_message (MessageId i) l))),
     (Post, api [Word ''messages'', Param, Word ''transcribe''],
       with_id W (\<lambda>i. Message_route (Transcribe_message (MessageId i)))),
     (Get, api [Word ''messages'', Param],
       with_id W (\<lambda>i. Message_route (Message_details (MessageId i)))),
     (Post, api [Word ''messages'', Param, Word ''delivery''],
       with_id W (\<lambda>i. Message_route (Acknowledge_delivery (MessageId i)))),
     (Post, api [Word ''messages'', Param, Word ''recall''],
       with_id W (\<lambda>i. Message_route (Recall_message (MessageId i)))),
     (Post, api [Word ''messages'', Param, Word ''reaction''],
       with_id_body W message_reaction_request_of (\<lambda>i (e, x). Message_route (React_to_message (MessageId i) e x))),
     (Post, api [Word ''messages'', Param, Word ''favorite''],
       with_id_body W favorite_message_request_of (\<lambda>i x. Message_route (Set_message_favorite (MessageId i) x))),
     (Get, api [Word ''scheduled-messages''],
       plain (Message_route Scheduled_messages)),
     (Post, api [Word ''scheduled-messages''],
       with_body (schedule_message_request_of W) (Message_route \<circ> Schedule_message)),
     (Delete, api [Word ''scheduled-messages'', Param],
       with_id W (Message_route \<circ> Cancel_scheduled_message)),
     (Post, api [Word ''conversations'', Param, Word ''read''],
       with_id_body W mark_read_request_of (\<lambda>i n. Message_route (Mark_read (ConversationId i) n)))]"

definition system_paths :: "wire \<Rightarrow> endpoint_entry list" where
  "system_paths W =
    [(Get, api [Word ''sync''],
       with_queries ''after'' parse_u64 ''limit'' parse_usize (\<lambda>after limit. System (Sync after limit))),
     (Post, api [Word ''uploads'', Word ''authorize''],
       with_body upload_authorization_request_of (System \<circ> Authorize_upload)),
     (Post, api [Word ''uploads'', Word ''complete''],
       with_body (complete_upload_request_of W) (System \<circ> Complete_upload)),
     (Get, api [Word ''attachments'', Param, Word ''download''],
       with_id W (\<lambda>i. System (Authorize_download (AttachmentId i)))),
     (Post, api [Word ''ws-ticket''],
       plain (System Websocket_ticket)),
     (Get, api [Word ''ws''],
       with_query ''ticket'' Some (System \<circ> Websocket_upgrade)),
     (Post, api [Word ''admin'', Word ''users'', Param, Word ''suspension''],
       with_id_body W admin_suspend_user_request_of (\<lambda>i x. System (Admin_suspension (UserId i) x))),
     (Post, api [Word ''admin'', Word ''users'', Param, Word ''sessions'', Word ''revoke''],
       with_id W (\<lambda>i. System (Admin_revoke_sessions (UserId i)))),
     (Get, api [Word ''admin'', Word ''audit''],
       with_optional_query ''limit'' parse_usize (System \<circ> Admin_audit))]"

text \<open>\<open>order\<close> is the iteration order of the favourites' set at the time of the request.\<close>

definition route_table :: "wire \<Rightarrow> message_id list \<Rightarrow> endpoint_entry list" where
  "route_table W order =
     account_paths W @ social_paths W @ group_paths W @ message_paths W order @ system_paths W"

section \<open>Dispatch\<close>

definition hits :: "endpoint_entry list \<Rightarrow> rstr list \<Rightarrow> endpoint_entry list" where
  "hits table segs = filter (\<lambda>(_, p, _). match_path p segs \<noteq> None) table"

definition best_hits :: "endpoint_entry list \<Rightarrow> rstr list \<Rightarrow> endpoint_entry list" where
  "best_hits table segs =
     (let hs = hits table segs in filter (\<lambda>(_, p, _). \<not> list_ex (\<lambda>(_, q, _). more_fixed q p) hs) hs)"

definition server_route ::
  "wire \<Rightarrow> message_id list \<Rightarrow> http_method \<Rightarrow> rstr \<Rightarrow> json option \<Rightarrow> route option" where
  "server_route W order meth target body =
     (let path = takeWhile (\<lambda>c. c \<noteq> 63) target;
          query = wl_query_parse W (tl (dropWhile (\<lambda>c. c \<noteq> 63) target));
          segs = split_on 47 path
      in case find (\<lambda>(m, _, _). m = meth) (best_hits (route_table W order) segs) of
           Some (_, p, extract) \<Rightarrow> extract (the (match_path p segs)) query body
         | None \<Rightarrow> None)"

section \<open>A path made from its pattern finds its route\<close>

fun fill :: "segment list \<Rightarrow> rstr list \<Rightarrow> rstr list" where
  "fill [] as = []"
| "fill (Word w # ps) as = lit w # fill ps as"
| "fill (Param # ps) (a # as) = a # fill ps as"
| "fill (Param # ps) [] = [] # fill ps []"

fun params :: "segment list \<Rightarrow> nat" where
  "params [] = 0"
| "params (Word w # ps) = params ps"
| "params (Param # ps) = Suc (params ps)"

definition uuid_like :: "rstr \<Rightarrow> bool" where
  "uuid_like a \<longleftrightarrow> a \<noteq> [] \<and> list_all uuid_letter a"

lemma match_fill: "params p = length as \<Longrightarrow> list_all uuid_like as \<Longrightarrow> match_path p (fill p as) = Some as"
  by (induction p as rule: fill.induct) (auto simp: uuid_like_def)

text \<open>\<open>may_shadow q p\<close>: some path made from \<open>p\<close> with UUIDs matches \<open>q\<close> too.\<close>

fun may_shadow :: "segment list \<Rightarrow> segment list \<Rightarrow> bool" where
  "may_shadow [] [] = True"
| "may_shadow (Word a # qs) (Word b # ps) = (a = b \<and> may_shadow qs ps)"
| "may_shadow (Word a # qs) (Param # ps) = (list_all (\<lambda>c. uuid_letter (of_char c)) a \<and> may_shadow qs ps)"
| "may_shadow (Param # qs) (p # ps) = may_shadow qs ps"
| "may_shadow _ _ = False"

lemma fill_Nil [simp]: "fill p as = [] \<longleftrightarrow> p = []"
  by (cases "(p, as)" rule: fill.cases) auto

lemma match_Nil [simp]: "match_path [] ss = Some bs \<longleftrightarrow> ss = [] \<and> bs = []"
  by (cases ss) auto

lemma shadowed:
  "match_path q (fill p as) = Some bs \<Longrightarrow> list_all uuid_like as \<Longrightarrow> params p = length as \<Longrightarrow> may_shadow q p"
proof (induction q p arbitrary: as bs rule: may_shadow.induct)
  case (3 a qs ps)
  then show ?case
    by (cases as) (auto simp: uuid_like_def list_all_iff split: if_splits)
next
  case (4 qs p ps)
  then show ?case
    by (cases p; cases as) (auto split: if_splits)
qed (auto split: if_splits)

definition request_lines :: "endpoint_entry list \<Rightarrow> (http_method \<times> segment list) list" where
  "request_lines table = map (\<lambda>(m, p, _). (m, p)) table"

lemma not_more_fixed_self [simp]: "\<not> more_fixed p p"
  by (induction p) (auto split: segment.split elim: more_fixed.elims)

lemma find_unique:
  "x \<in> set xs \<Longrightarrow> P x \<Longrightarrow> length (filter P xs) = 1 \<Longrightarrow> find P xs = Some x"
  by (induction xs) (auto split: if_splits simp: filter_empty_conv)

text \<open>The lines of the table, with their paths below \<open>/api/v1\<close>, and the four outside.\<close>

definition api_lines :: "endpoint_entry list \<Rightarrow> (http_method \<times> segment list) list" where
  "api_lines table = map (\<lambda>(m, p). (m, drop 3 p)) (drop 4 (request_lines table))"

text \<open>A path is clear among others when each other path it may be taken for is less fixed.  Only paths
  with the same first word need to be compared.\<close>

definition path_clear :: "segment list list \<Rightarrow> segment list \<Rightarrow> bool" where
  "path_clear qs p = list_all (\<lambda>q. may_shadow q p \<longrightarrow> q = p \<or> more_fixed p q \<and> \<not> more_fixed q p) qs"

definition bucket_clear :: "(http_method \<times> segment list) list \<Rightarrow> segment \<Rightarrow> bool" where
  "bucket_clear ls h =
     (let ks = filter (\<lambda>(_, p). hd p = h) ls
      in list_all (path_clear (map snd ks)) (map snd ks) \<and> distinct ks)"

fun starts_fixed :: "segment list \<Rightarrow> bool" where
  "starts_fixed (Word w # p) = True"
| "starts_fixed _ = False"

definition lines_clear :: "(http_method \<times> segment list) list \<Rightarrow> bool" where
  "lines_clear ls = (list_all (\<lambda>(_, p). starts_fixed p) ls
     \<and> list_all (bucket_clear ls) (remdups (map (\<lambda>(_, p). hd p) ls)))"

lemma may_shadow_first: "may_shadow q p \<Longrightarrow> starts_fixed q \<Longrightarrow> starts_fixed p \<Longrightarrow> hd q = hd p"
  by (cases q rule: starts_fixed.cases; cases p rule: starts_fixed.cases) auto

lemma filter_one: "distinct xs \<Longrightarrow> x \<in> set xs \<Longrightarrow> length (filter (\<lambda>k. k = x) xs) = 1"
  by (induction xs) (auto simp: filter_empty_conv)

lemma lines_clearD:
  assumes "lines_clear ls" "(m, p) \<in> set ls"
  shows "(m', q) \<in> set ls \<Longrightarrow> may_shadow q p \<Longrightarrow> q = p \<or> more_fixed p q \<and> \<not> more_fixed q p"
    and "length (filter (\<lambda>k. k = (m, p)) ls) = 1"
proof -
  let ?ks = "filter (\<lambda>(_, p'). hd p' = hd p) ls"
  have b: "bucket_clear ls (hd p)" and p: "starts_fixed p" and p_in: "(m, p) \<in> set ?ks"
    using assms by (force simp: lines_clear_def list_all_iff)+
  show "q = p \<or> more_fixed p q \<and> \<not> more_fixed q p" if q: "(m', q) \<in> set ls" "may_shadow q p"
  proof -
    have "starts_fixed q" using assms(1) q(1) by (force simp: lines_clear_def list_all_iff)
    then have "(m', q) \<in> set ?ks" using q may_shadow_first p by auto
    then have "q \<in> set (map snd ?ks)" "p \<in> set (map snd ?ks)" using p_in by force+
    then show ?thesis using b q(2) unfolding bucket_clear_def path_clear_def Let_def list_all_iff by blast
  qed
  have "distinct ?ks" using b by (simp add: bucket_clear_def Let_def)
  then have "length (filter (\<lambda>k. k = (m, p)) ?ks) = 1" using p_in by (rule filter_one)
  moreover have "filter (\<lambda>k. k = (m, p)) ?ks = filter (\<lambda>k. k = (m, p)) ls"
    unfolding filter_filter by (rule filter_cong) auto
  ultimately show "length (filter (\<lambda>k. k = (m, p)) ls) = 1" by simp
qed

lemma api_shadow [simp]:
  "may_shadow (api q) (api p) = may_shadow q p" "more_fixed (api q) (api p) = more_fixed q p"
  "api q = api p \<longleftrightarrow> q = p" "may_shadow (top (Word w # q)) (api p) = (w = ''api'' \<and> may_shadow q (Word ''v1'' # p))"
  by (simp_all add: api_def top_def)

text \<open>The table: four lines outside the versioned interface, the others below it.\<close>

lemma table_shape:
  "request_lines (route_table W order) =
     [(Get, top [Word ''health'', Word ''live'']), (Get, top [Word ''health'', Word ''ready'']),
      (Get, top [Word ''metrics'']), (Get, top [Word ''admin''])]
     @ map (\<lambda>(m, p). (m, api p)) (api_lines (route_table W order))"
  by (simp add: api_lines_def request_lines_def route_table_def account_paths_def social_paths_def
      group_paths_def message_paths_def system_paths_def api_def top_def)

lemma api_lines_clear: "lines_clear (api_lines (route_table W order))"
  unfolding api_lines_def request_lines_def route_table_def account_paths_def social_paths_def
    group_paths_def message_paths_def system_paths_def list.map append_Cons append_Nil prod.case
  by code_simp

lemma best_hit:
  assumes e: "(m, p, x) \<in> set table"
    and clear: "\<And>m' q. (m', q) \<in> set (request_lines table) \<Longrightarrow> may_shadow q p \<Longrightarrow>
                  q = p \<or> more_fixed p q \<and> \<not> more_fixed q p"
    and once: "length (filter (\<lambda>k. k = (m, p)) (request_lines table)) = 1"
    and as: "list_all uuid_like as" "params p = length as"
  shows "find (\<lambda>(m', _, _). m' = m) (best_hits table (fill p as)) = Some (m, p, x)"
proof -
  have hit: "(m, p, x) \<in> set (hits table (fill p as))"
    using e match_fill [OF as(2,1)] by (simp add: hits_def)
  have other: "q = p \<or> more_fixed p q \<and> \<not> more_fixed q p" if "(m', q, y) \<in> set (hits table (fill p as))" for m' q y
  proof -
    from that have "(m', q) \<in> set (request_lines table)" "match_path q (fill p as) \<noteq> None"
      unfolding hits_def request_lines_def by force+
    with shadowed [OF _ as] clear show ?thesis by fastforce
  qed
  have "best_hits table (fill p as) = filter (\<lambda>(_, q, _). q = p) (hits table (fill p as))"
    unfolding best_hits_def Let_def using other hit
    by (fastforce intro!: filter_cong simp: list_ex_iff)
  also have "\<dots> = filter (\<lambda>(_, q, _). q = p) table"
    unfolding hits_def filter_filter using match_fill [OF as(2,1)] by (auto intro!: filter_cong)
  finally have best: "best_hits table (fill p as) = filter (\<lambda>(_, q, _). q = p) table" .
  have "length (filter (\<lambda>e. (fst e, fst (snd e)) = (m, p)) table) = 1"
    using once by (simp add: request_lines_def filter_map o_def case_prod_beta')
  then have "length (filter (\<lambda>(m', _, _). m' = m) (filter (\<lambda>(_, q, _). q = p) table)) = 1"
    by (simp add: filter_filter case_prod_beta' conj_commute)
  with e show ?thesis unfolding best by (intro find_unique) auto
qed

lemma api_hit:
  assumes e: "(m, api p, x) \<in> set (route_table W order)"
    and as: "list_all uuid_like as" "params p = length as"
  shows "find (\<lambda>(m', _, _). m' = m) (best_hits (route_table W order) (fill (api p) as)) = Some (m, api p, x)"
proof (rule best_hit [OF e])
  let ?ls = "api_lines (route_table W order)"
  have "(m, api p) \<in> set (request_lines (route_table W order))"
    using e by (force simp: request_lines_def)
  then have l: "(m, p) \<in> set ?ls" unfolding table_shape by (auto simp: api_def top_def)
  show "q = api p \<or> more_fixed (api p) q \<and> \<not> more_fixed q (api p)"
    if "(m', q) \<in> set (request_lines (route_table W order))" "may_shadow q (api p)" for m' q
    using that unfolding table_shape by (auto dest: lines_clearD(1) [OF api_lines_clear l])
  have "filter (\<lambda>k. k = (m, api p)) (map (\<lambda>(m, p). (m, api p)) ?ls) = map (\<lambda>(m, p). (m, api p)) (filter (\<lambda>k. k = (m, p)) ?ls)"
    by (simp add: filter_map o_def case_prod_beta' prod_eq_iff)
  moreover have "filter (\<lambda>k. k = (m, api p))
     [(Get, top [Word ''health'', Word ''live'']), (Get, top [Word ''health'', Word ''ready'']),
      (Get, top [Word ''metrics'']), (Get, top [Word ''admin''])] = []"
    by (simp add: api_def top_def)
  ultimately show "length (filter (\<lambda>k. k = (m, api p)) (request_lines (route_table W order))) = 1"
    using lines_clearD(2) [OF api_lines_clear l] unfolding table_shape filter_append by simp
  show "params (api p) = length as" using as(2) by (simp add: api_def top_def)
qed (rule as(1))

text \<open>A request for a filled path reaches its line, with what the extractor makes of it.\<close>

lemma route_found:
  assumes "(m, api p, x) \<in> set (route_table W order)" "list_all uuid_like as" "params p = length as"
    and "split_on 47 path = fill (api p) as" "63 \<notin> set path"
  shows "server_route W order m path body = x as (wl_query_parse W []) body"
    and "server_route W order m (path @ 63 # query) body = x as (wl_query_parse W query) body"
proof -
  have m: "match_path (api p) (fill (api p) as) = Some as"
    using match_fill [of "api p" as] assms(2,3) by (simp add: api_def top_def)
  have t: "takeWhile (\<lambda>c. c \<noteq> 63) path = path" "dropWhile (\<lambda>c. c \<noteq> 63) path = []"
    "takeWhile (\<lambda>c. c \<noteq> 63) (path @ 63 # query) = path" "dropWhile (\<lambda>c. c \<noteq> 63) (path @ 63 # query) = 63 # query"
    using assms(5) by (auto simp: takeWhile_eq_all_conv dropWhile_eq_Nil_conv takeWhile_append dropWhile_append)
  show "server_route W order m path body = x as (wl_query_parse W []) body"
    "server_route W order m (path @ 63 # query) body = x as (wl_query_parse W query) body"
    using api_hit [OF assms(1-3)] m by (simp_all add: server_route_def t assms(4))
qed

end
