(* ===== verification/Desk_Requests.thy ===== *)
theory Desk_Requests
  imports Http_Paths
begin

text \<open>
  The requests of the desktop client (\<open>apps/desktop/src/api.rs\<close>): one constructor for each method of
  \<open>ApiClient\<close> that sends one, with the method's arguments, and the method, path and body it sends.  Files
  are sent by \<open>upload_file\<close> and \<open>download_attachment\<close> (\<open>Desk_Files\<close>), whose requests to the server are here.

  \<open>os\<close> and \<open>version\<close> are \<open>std::env::consts::OS\<close> and \<open>CARGO_PKG_VERSION\<close>.
\<close>

section \<open>The calls\<close>

datatype account_call =
    Login_call rstr rstr "rstr option"
  | Register_call rstr rstr rstr rstr
  | Request_password_reset_call rstr
  | Confirm_password_reset_call rstr rstr
  | Begin_qr_login_call
  | Poll_qr_login_call uuid rstr
  | Refresh_call rstr
  | Logout_call rstr
  | Change_password_call rstr rstr
  | Devices_call
  | Revoke_device_call device_id
  | Second_factor_status_call
  | Begin_second_factor_setup_call
  | Enable_second_factor_call rstr
  | Disable_second_factor_call rstr rstr
  | Regenerate_recovery_codes_call rstr rstr
  | Approve_qr_call uuid rstr
  | Update_profile_call update_profile_request

datatype social_call =
    Bootstrap_call
  | Search_user_call rstr
  | Send_friend_request_call rstr rstr
  | Decide_friend_request_call friend_request_id friend_request_decision
  | Delete_friend_call user_id
  | Block_user_call user_id bool
  | Report_user_call user_id rstr "rstr option"
  | Create_direct_call user_id
  | Create_group_call rstr "user_id list"
  | Update_conversation_settings_call conversation_id update_conversation_settings_request
  | Save_draft_call conversation_id rstr
  | Mark_all_read_call

datatype group_call =
    Group_settings_call conversation_id
  | Update_group_call conversation_id "rstr option"
  | Add_group_members_call conversation_id "user_id list"
  | Update_group_member_role_call conversation_id user_id member_role
  | Update_group_member_mute_call conversation_id user_id "datetime option"
  | Remove_group_member_call conversation_id user_id
  | Leave_group_call conversation_id
  | Disband_group_call conversation_id
  | Transfer_group_call conversation_id user_id
  | Set_group_mute_call conversation_id bool
  | Group_announcements_call conversation_id
  | Create_group_announcement_call conversation_id rstr
  | Read_group_announcement_call uuid
  | Group_files_call conversation_id
  | Group_join_requests_call conversation_id
  | Decide_group_join_request_call uuid bool
  | Group_polls_call conversation_id
  | Create_group_poll_call conversation_id create_group_poll_request
  | Vote_group_poll_call uuid "uuid list"

datatype message_call =
    Messages_call conversation_id "u64 option" nat
  | Send_message_call conversation_id send_message_request
  | Recall_message_call message_id
  | Forward_message_call message_id conversation_id
  | Message_details_call message_id
  | React_to_message_call message_id rstr bool
  | Favorite_message_call message_id bool
  | Mark_read_call conversation_id u64
  | Sync_call u64 nat
  | Websocket_ticket_call
  | Authorize_upload_call upload_authorization_request
  | Complete_upload_call attachment_id
  | Authorize_download_call attachment_id

datatype desk_call =
    Account_call account_call | Social_call social_call | Group_call group_call | Message_call message_call

record desk_request =
  dr_method :: http_method
  dr_path :: rstr
  dr_body :: "json option"

definition bare :: "http_method \<Rightarrow> rstr \<Rightarrow> desk_request" where
  "bare m p = \<lparr>dr_method = m, dr_path = p, dr_body = None\<rparr>"

definition carrying :: "http_method \<Rightarrow> rstr \<Rightarrow> json \<Rightarrow> desk_request" where
  "carrying m p b = \<lparr>dr_method = m, dr_path = p, dr_body = Some b\<rparr>"

record client_build =
  cb_os :: rstr
  cb_version :: rstr

definition device_name :: "client_build \<Rightarrow> rstr" where
  "device_name B = lit ''I Am Rust on '' @ cb_os B"

section \<open>What they send\<close>

fun account_request :: "wire \<Rightarrow> client_build \<Rightarrow> account_call \<Rightarrow> desk_request" where
  "account_request W B (Login_call name password code) =
     carrying Post (lit ''/api/v1/auth/login'') (login_request_json
       \<lparr>lgr_login = trim name, lgr_password = password,
        lgr_second_factor_code = Option.bind code some_non_empty,
        lgr_device_name = device_name B, lgr_platform = Some (cb_os B), lgr_app_version = Some (cb_version B)\<rparr>)"
| "account_request W B (Register_call email username password nickname) =
     carrying Post (lit ''/api/v1/auth/register'') (register_request_json
       \<lparr>rgr_email = trim email, rgr_username = trim username, rgr_password = password,
        rgr_nickname = trim nickname, rgr_device_name = device_name B,
        rgr_platform = Some (cb_os B), rgr_app_version = Some (cb_version B)\<rparr>)"
| "account_request W B (Request_password_reset_call email) =
     carrying Post (lit ''/api/v1/auth/password-reset/request'') (password_reset_request_json (trim email))"
| "account_request W B (Confirm_password_reset_call reset_token new_password) =
     carrying Post (lit ''/api/v1/auth/password-reset/confirm'')
       (password_reset_confirm_request_json (trim reset_token, new_password))"
| "account_request W B Begin_qr_login_call =
     carrying Post (lit ''/api/v1/auth/qr-login'') (qr_login_start_request_json
       \<lparr>qsr_device_name = device_name B, qsr_platform = Some (cb_os B), qsr_app_version = Some (cb_version B)\<rparr>)"
| "account_request W B (Poll_qr_login_call challenge_id secret) =
     carrying Post (lit ''/api/v1/auth/qr-login/'' @ wl_uuid_text W challenge_id @ lit ''/poll'')
       (qr_login_secret_request_json secret)"
| "account_request W B (Refresh_call refresh_token) =
     carrying Post (lit ''/api/v1/auth/refresh'') (refresh_request_json refresh_token)"
| "account_request W B (Logout_call refresh_token) =
     carrying Post (lit ''/api/v1/auth/logout'') (obj [(''refresh_token'', JStr refresh_token)])"
| "account_request W B (Change_password_call current_password new_password) =
     carrying Post (lit ''/api/v1/auth/change-password'')
       (change_password_request_json (current_password, new_password))"
| "account_request W B Devices_call = bare Get (lit ''/api/v1/devices'')"
| "account_request W B (Revoke_device_call device_id) =
     bare Delete (lit ''/api/v1/devices/'' @ wl_uuid_text W (device_uuid device_id))"
| "account_request W B Second_factor_status_call = bare Get (lit ''/api/v1/me/second-factor'')"
| "account_request W B Begin_second_factor_setup_call = bare Post (lit ''/api/v1/me/second-factor'')"
| "account_request W B (Enable_second_factor_call code) =
     carrying Post (lit ''/api/v1/me/second-factor/enable'') (second_factor_code_request_json (trim code))"
| "account_request W B (Disable_second_factor_call current_password code) =
     carrying Delete (lit ''/api/v1/me/second-factor'')
       (disable_second_factor_request_json (current_password, trim code))"
| "account_request W B (Regenerate_recovery_codes_call current_password code) =
     carrying Post (lit ''/api/v1/me/second-factor/recovery-codes'')
       (regenerate_recovery_codes_request_json (current_password, trim code))"
| "account_request W B (Approve_qr_call challenge_id secret) =
     carrying Post (lit ''/api/v1/auth/qr-login/'' @ wl_uuid_text W challenge_id @ lit ''/approve'')
       (qr_login_secret_request_json secret)"
| "account_request W B (Update_profile_call r) =
     carrying Patch (lit ''/api/v1/me'') (update_profile_request_json W r)"

fun social_request :: "wire \<Rightarrow> social_call \<Rightarrow> desk_request" where
  "social_request W Bootstrap_call = bare Get (lit ''/api/v1/bootstrap'')"
| "social_request W (Search_user_call username) =
     bare Get (lit ''/api/v1/users/search?'' @ query_text W [(lit ''username'', trim username)])"
| "social_request W (Send_friend_request_call username message) =
     carrying Post (lit ''/api/v1/friend-requests'') (friend_request_create_json (username, message))"
| "social_request W (Decide_friend_request_call request_id decision) =
     carrying Patch (lit ''/api/v1/friend-requests/'' @ wl_uuid_text W (friend_request_uuid request_id))
       (friend_request_decision_body_json decision)"
| "social_request W (Delete_friend_call friend_id) =
     bare Delete (lit ''/api/v1/friends/'' @ wl_uuid_text W (user_uuid friend_id))"
| "social_request W (Block_user_call user_id blocked) =
     bare (if blocked then Post else Delete) (lit ''/api/v1/blocks/'' @ wl_uuid_text W (user_uuid user_id))"
| "social_request W (Report_user_call user_id reason details) =
     carrying Post (lit ''/api/v1/reports/'' @ wl_uuid_text W (user_uuid user_id))
       (report_user_request_json \<lparr>rep_reason = reason, rep_details = details\<rparr>)"
| "social_request W (Create_direct_call peer) =
     carrying Post (lit ''/api/v1/conversations/direct'') (create_direct_conversation_request_json W peer)"
| "social_request W (Create_group_call name members) =
     carrying Post (lit ''/api/v1/conversations/group'') (create_group_request_json W (name, members))"
| "social_request W (Update_conversation_settings_call conversation_id r) =
     carrying Patch (lit ''/api/v1/conversations/'' @ wl_uuid_text W (conversation_uuid conversation_id)
       @ lit ''/settings'') (update_conversation_settings_request_json r)"
| "social_request W (Save_draft_call conversation_id draft) =
     carrying Patch (lit ''/api/v1/conversations/'' @ wl_uuid_text W (conversation_uuid conversation_id)
       @ lit ''/settings'') (obj [(''draft'', JStr draft)])"
| "social_request W Mark_all_read_call = bare Post (lit ''/api/v1/conversations/read-all'')"

definition group_path :: "wire \<Rightarrow> conversation_id \<Rightarrow> rstr" where
  "group_path W c = lit ''/api/v1/groups/'' @ wl_uuid_text W (conversation_uuid c)"

fun group_request :: "wire \<Rightarrow> group_call \<Rightarrow> desk_request" where
  "group_request W (Group_settings_call c) = bare Get (group_path W c)"
| "group_request W (Update_group_call c name) =
     carrying Patch (group_path W c) (update_group_request_json W
       \<lparr>ug_name = name, ug_avatar_url = None, ug_avatar_attachment_id = None\<rparr>)"
| "group_request W (Add_group_members_call c members) =
     carrying Post (group_path W c @ lit ''/members'') (add_group_members_request_json W members)"
| "group_request W (Update_group_member_role_call c member_id role) =
     carrying Patch (group_path W c @ lit ''/members/'' @ wl_uuid_text W (user_uuid member_id))
       (update_group_member_request_json W
         \<lparr>ugm_nickname = None, ugm_role = Some role, ugm_muted_until = None\<rparr>)"
| "group_request W (Update_group_member_mute_call c member_id muted_until) =
     carrying Patch (group_path W c @ lit ''/members/'' @ wl_uuid_text W (user_uuid member_id))
       (update_group_member_request_json W
         \<lparr>ugm_nickname = None, ugm_role = None, ugm_muted_until = Some muted_until\<rparr>)"
| "group_request W (Remove_group_member_call c member_id) =
     bare Delete (group_path W c @ lit ''/members/'' @ wl_uuid_text W (user_uuid member_id))"
| "group_request W (Leave_group_call c) = bare Post (group_path W c @ lit ''/leave'')"
| "group_request W (Disband_group_call c) = bare Delete (group_path W c)"
| "group_request W (Transfer_group_call c user_id) =
     carrying Post (group_path W c @ lit ''/transfer'') (transfer_group_ownership_request_json W user_id)"
| "group_request W (Set_group_mute_call c muted) =
     carrying Post (group_path W c @ lit ''/mute'') (group_mute_request_json muted)"
| "group_request W (Group_announcements_call c) = bare Get (group_path W c @ lit ''/announcements'')"
| "group_request W (Create_group_announcement_call c content) =
     carrying Post (group_path W c @ lit ''/announcements'') (create_group_announcement_request_json content)"
| "group_request W (Read_group_announcement_call announcement_id) =
     bare Post (lit ''/api/v1/group-announcements/'' @ wl_uuid_text W announcement_id @ lit ''/read'')"
| "group_request W (Group_files_call c) = bare Get (group_path W c @ lit ''/files'')"
| "group_request W (Group_join_requests_call c) = bare Get (group_path W c @ lit ''/join-requests'')"
| "group_request W (Decide_group_join_request_call request_id accept) =
     carrying Patch (lit ''/api/v1/group-join-requests/'' @ wl_uuid_text W request_id)
       (decide_group_join_request_body_json accept)"
| "group_request W (Group_polls_call c) = bare Get (group_path W c @ lit ''/polls'')"
| "group_request W (Create_group_poll_call c r) =
     carrying Post (group_path W c @ lit ''/polls'') (create_group_poll_request_json W r)"
| "group_request W (Vote_group_poll_call poll option_ids) =
     carrying Post (lit ''/api/v1/polls/'' @ wl_uuid_text W poll @ lit ''/vote'')
       (vote_group_poll_request_json W option_ids)"

definition message_path :: "wire \<Rightarrow> message_id \<Rightarrow> rstr" where
  "message_path W m = lit ''/api/v1/messages/'' @ wl_uuid_text W (message_uuid m)"

fun message_request :: "wire \<Rightarrow> message_call \<Rightarrow> desk_request" where
  "message_request W (Messages_call c before limit) =
     bare Get (lit ''/api/v1/conversations/'' @ wl_uuid_text W (conversation_uuid c) @ lit ''/messages?limit=''
       @ decimal (clamp 1 100 limit)
       @ (case before of None \<Rightarrow> [] | Some n \<Rightarrow> lit ''&before='' @ decimal (unat n)))"
| "message_request W (Send_message_call c r) =
     carrying Post (lit ''/api/v1/conversations/'' @ wl_uuid_text W (conversation_uuid c) @ lit ''/messages'')
       (send_message_request_json W r)"
| "message_request W (Recall_message_call m) = bare Post (message_path W m @ lit ''/recall'')"
| "message_request W (Forward_message_call m target) =
     carrying Post (lit ''/api/v1/messages/forward'') (forward_messages_request_json W ([m], target, Individually))"
| "message_request W (Message_details_call m) = bare Get (message_path W m)"
| "message_request W (React_to_message_call m emoji active) =
     carrying Post (message_path W m @ lit ''/reaction'') (message_reaction_request_json (emoji, active))"
| "message_request W (Favorite_message_call m favorite) =
     carrying Post (message_path W m @ lit ''/favorite'') (favorite_message_request_json favorite)"
| "message_request W (Mark_read_call c through_sequence) =
     carrying Post (lit ''/api/v1/conversations/'' @ wl_uuid_text W (conversation_uuid c) @ lit ''/read'')
       (mark_read_request_json through_sequence)"
| "message_request W (Sync_call after limit) =
     bare Get (lit ''/api/v1/sync?after='' @ decimal (unat after) @ lit ''&limit='' @ decimal (clamp 1 500 limit))"
| "message_request W Websocket_ticket_call = bare Post (lit ''/api/v1/ws-ticket'')"
| "message_request W (Authorize_upload_call r) =
     carrying Post (lit ''/api/v1/uploads/authorize'') (upload_authorization_request_json r)"
| "message_request W (Complete_upload_call i) =
     carrying Post (lit ''/api/v1/uploads/complete'') (complete_upload_request_json W i)"
| "message_request W (Authorize_download_call i) =
     bare Get (lit ''/api/v1/attachments/'' @ wl_uuid_text W (attachment_uuid i) @ lit ''/download'')"

fun call_request :: "wire \<Rightarrow> client_build \<Rightarrow> desk_call \<Rightarrow> desk_request" where
  "call_request W B (Account_call c) = account_request W B c"
| "call_request W B (Social_call c) = social_request W c"
| "call_request W B (Group_call c) = group_request W c"
| "call_request W B (Message_call c) = message_request W c"

section \<open>What they are meant for\<close>

fun account_intended :: "client_build \<Rightarrow> account_call \<Rightarrow> account_route" where
  "account_intended B (Login_call name password code) = Login
     \<lparr>lgr_login = trim name, lgr_password = password,
      lgr_second_factor_code = Option.bind code some_non_empty,
      lgr_device_name = device_name B, lgr_platform = Some (cb_os B), lgr_app_version = Some (cb_version B)\<rparr>"
| "account_intended B (Register_call email username password nickname) = Register
     \<lparr>rgr_email = trim email, rgr_username = trim username, rgr_password = password,
      rgr_nickname = trim nickname, rgr_device_name = device_name B,
      rgr_platform = Some (cb_os B), rgr_app_version = Some (cb_version B)\<rparr>"
| "account_intended B (Request_password_reset_call email) = Request_password_reset (trim email)"
| "account_intended B (Confirm_password_reset_call t p) = Confirm_password_reset (trim t) p"
| "account_intended B Begin_qr_login_call = Begin_qr_login
     \<lparr>qsr_device_name = device_name B, qsr_platform = Some (cb_os B), qsr_app_version = Some (cb_version B)\<rparr>"
| "account_intended B (Poll_qr_login_call i x) = Poll_qr_login i x"
| "account_intended B (Refresh_call t) = Refresh t"
| "account_intended B (Logout_call t) = Logout t"
| "account_intended B (Change_password_call p q) = Change_password p q"
| "account_intended B Devices_call = Devices"
| "account_intended B (Revoke_device_call d) = Revoke_device d"
| "account_intended B Second_factor_status_call = Second_factor_state"
| "account_intended B Begin_second_factor_setup_call = Begin_second_factor_setup"
| "account_intended B (Enable_second_factor_call c) = Enable_second_factor (trim c)"
| "account_intended B (Disable_second_factor_call p c) = Disable_second_factor p (trim c)"
| "account_intended B (Regenerate_recovery_codes_call p c) = Regenerate_recovery_codes p (trim c)"
| "account_intended B (Approve_qr_call i x) = Approve_qr_login i x"
| "account_intended B (Update_profile_call r) = Update_me r"

text \<open>A label set to none, like any nested option, does not arrive.\<close>

fun social_intended :: "social_call \<Rightarrow> social_route" where
  "social_intended Bootstrap_call = Bootstrap"
| "social_intended (Search_user_call n) = Search_users (trim n)"
| "social_intended (Send_friend_request_call n m) = Create_friend_request n m"
| "social_intended (Decide_friend_request_call i d) = Decide_friend_request i d"
| "social_intended (Delete_friend_call u) = Delete_friend u"
| "social_intended (Block_user_call u blocked) = (if blocked then Block_user u else Unblock_user u)"
| "social_intended (Report_user_call u x y) = Report_user u \<lparr>rep_reason = x, rep_details = y\<rparr>"
| "social_intended (Create_direct_call u) = Create_direct u"
| "social_intended (Create_group_call n us) = Create_group n us"
| "social_intended (Update_conversation_settings_call c r) =
     Update_conversation_settings c (r\<lparr>ucs_label := null_lost (ucs_label r)\<rparr>)"
| "social_intended (Save_draft_call c x) = Update_conversation_settings c
     \<lparr>ucs_pinned = None, ucs_muted = None, ucs_hidden = None, ucs_manually_unread = None,
      ucs_draft = Some x, ucs_label = None\<rparr>"
| "social_intended Mark_all_read_call = Mark_all_read"

fun group_intended :: "group_call \<Rightarrow> group_route" where
  "group_intended (Group_settings_call c) = Group_settings c"
| "group_intended (Update_group_call c n) =
     Update_group c \<lparr>ug_name = n, ug_avatar_url = None, ug_avatar_attachment_id = None\<rparr>"
| "group_intended (Add_group_members_call c us) = Add_group_members c us"
| "group_intended (Update_group_member_role_call c u r) =
     Update_group_member c u \<lparr>ugm_nickname = None, ugm_role = Some r, ugm_muted_until = None\<rparr>"
| "group_intended (Update_group_member_mute_call c u t) =
     Update_group_member c u \<lparr>ugm_nickname = None, ugm_role = None, ugm_muted_until = null_lost (Some t)\<rparr>"
| "group_intended (Remove_group_member_call c u) = Remove_group_member c u"
| "group_intended (Leave_group_call c) = Leave_group c"
| "group_intended (Disband_group_call c) = Disband_group c"
| "group_intended (Transfer_group_call c u) = Transfer_group_ownership c u"
| "group_intended (Set_group_mute_call c x) = Set_group_mute c x"
| "group_intended (Group_announcements_call c) = Group_announcements c"
| "group_intended (Create_group_announcement_call c x) = Create_group_announcement c x"
| "group_intended (Read_group_announcement_call i) = Read_group_announcement i"
| "group_intended (Group_files_call c) = Group_files c"
| "group_intended (Group_join_requests_call c) = Group_join_requests c"
| "group_intended (Decide_group_join_request_call i x) = Decide_group_join_request i x"
| "group_intended (Group_polls_call c) = Group_polls c"
| "group_intended (Create_group_poll_call c r) = Create_group_poll c r"
| "group_intended (Vote_group_poll_call i os) = Vote_group_poll i os"

fun message_intended :: "message_call \<Rightarrow> route" where
  "message_intended (Messages_call c before limit) =
     Message_route (Messages c before (Some (clamp 1 100 limit)))"
| "message_intended (Send_message_call c r) = Message_route (Send_message c r)"
| "message_intended (Recall_message_call m) = Message_route (Recall_message m)"
| "message_intended (Forward_message_call m c) = Message_route (Forward_messages [m] c Individually)"
| "message_intended (Message_details_call m) = Message_route (Message_details m)"
| "message_intended (React_to_message_call m e x) = Message_route (React_to_message m e x)"
| "message_intended (Favorite_message_call m x) = Message_route (Set_message_favorite m x)"
| "message_intended (Mark_read_call c n) = Message_route (Mark_read c n)"
| "message_intended (Sync_call after limit) = System (Sync (Some after) (Some (clamp 1 500 limit)))"
| "message_intended Websocket_ticket_call = System Websocket_ticket"
| "message_intended (Authorize_upload_call r) = System (Authorize_upload r)"
| "message_intended (Complete_upload_call i) = System (Complete_upload i)"
| "message_intended (Authorize_download_call i) = System (Authorize_download i)"

fun intended :: "client_build \<Rightarrow> desk_call \<Rightarrow> route" where
  "intended B (Account_call c) = Account (account_intended B c)"
| "intended B (Social_call c) = Social (social_intended c)"
| "intended B (Group_call c) = Group_route (group_intended c)"
| "intended B (Message_call c) = message_intended c"

section \<open>Paths the client sends\<close>

text \<open>The check of \<open>safe_url\<close> before anything is sent.\<close>

definition is_control :: "nat \<Rightarrow> bool" where
  "is_control c \<longleftrightarrow> c < 32 \<or> (127 \<le> c \<and> c < 160)"

definition safe_path :: "rstr \<Rightarrow> bool" where
  "safe_path p \<longleftrightarrow> starts_with (lit ''/api/v1/'') p \<and> \<not> has_two_dots p \<and> 92 \<notin> set p
     \<and> \<not> list_ex is_control p"

definition path_letter :: "nat \<Rightarrow> bool" where
  "path_letter c \<longleftrightarrow> 32 \<le> c \<and> c < 127 \<and> c \<noteq> 92"

lemma safe_pathI:
  assumes "starts_with (lit ''/api/v1/'') p" "\<not> has_two_dots p" "list_all path_letter p"
  shows "safe_path p"
  using assms by (auto simp: safe_path_def list_ex_iff list_all_iff path_letter_def is_control_def)

lemma no_dots: "46 \<notin> set p \<Longrightarrow> \<not> has_two_dots p"
  by (induction p rule: has_two_dots.induct) auto

lemma two_dots_after: "46 \<notin> set a \<Longrightarrow> has_two_dots (a @ b) = has_two_dots b"
proof (induction a)
  case (Cons x a)
  then show ?case by (cases "a @ b") auto
qed simp

lemma split_on_app: "c \<notin> set a \<Longrightarrow> split_on c (a @ c # b) = a # split_on c b"
  by (induction a) auto

lemma split_on_self: "c \<notin> set a \<Longrightarrow> split_on c a = [a]"
  by (induction a) auto

lemma uuid_text:
  assumes "wire_ok W"
  shows "47 \<notin> set (wl_uuid_text W u)" "63 \<notin> set (wl_uuid_text W u)" "46 \<notin> set (wl_uuid_text W u)"
    and "list_all path_letter (wl_uuid_text W u)" "uuid_like (wl_uuid_text W u)"
  using wire_okD(2,3) [OF assms, of u]
  by (auto simp: list_all_iff uuid_like_def uuid_letter_def path_letter_def is_ascii_hexdigit_def
      is_ascii_digit_def is_ascii_lower_def is_ascii_upper_def)

lemma decimal_text:
  "46 \<notin> set (decimal n)" "list_all path_letter (decimal n)" "list_all is_ascii_digit (decimal n)"
  using decimal_digits [of n] by (auto simp: list_all_iff path_letter_def is_ascii_digit_def)

lemma form_text: "wire_ok W \<Longrightarrow> list_all path_letter (wl_form_encode W v)"
  using wire_okD(6) [of W v]
  by (fastforce simp: list_all_iff form_letter_def path_letter_def is_ascii_digit_def is_ascii_lower_def
      is_ascii_upper_def)

end
