(* ===== verification/Desk_Routing.thy ===== *)
theory Desk_Routing
  imports Desk_Requests
begin

text \<open>
  Every request of the desktop client passes the client's own check of the path and reaches, in the
  server, the handler it is meant for, with the arguments it was made from.  The lemmas go from the
  position of a line in the server's table to the handler the request is dispatched to.
\<close>

lemmas arrive =
  api_def top_def bare_def carrying_def extractor_defs split_on_app split_on_self group_path_def
  message_path_def query_values_def

section \<open>From a line of the table to its handler\<close>

definition line_method :: "endpoint_entry list \<Rightarrow> nat \<Rightarrow> http_method" where
  "line_method T i = fst (T ! i)"

definition line_path :: "endpoint_entry list \<Rightarrow> nat \<Rightarrow> segment list" where
  "line_path T i = fst (snd (T ! i))"

definition line_extractor :: "endpoint_entry list \<Rightarrow> nat \<Rightarrow> extractor" where
  "line_extractor T i = snd (snd (T ! i))"

lemmas line_defs = line_method_def line_path_def line_extractor_def

lemma line_in:
  assumes "set T \<subseteq> set (route_table W order)" "i < length T" "line_path T i = api (drop 3 (line_path T i))"
  shows "(line_method T i, api (drop 3 (line_path T i)), line_extractor T i) \<in> set (route_table W order)"
proof (cases "T ! i")
  case (fields m q x)
  have "(m, q, x) \<in> set (route_table W order)"
    using nth_mem [OF assms(2)] assms(1) fields by auto
  moreover have "api (drop 3 q) = q"
    using assms(3) fields by (simp add: line_path_def)
  ultimately show ?thesis
    by (simp add: fields line_defs)
qed

lemma arrives:
  assumes "set T \<subseteq> set (route_table W order)" "i < length T" "line_path T i = api (drop 3 (line_path T i))"
    and "dr_method r = line_method T i" "list_all uuid_like as" "params (line_path T i) = length as"
    and "split_on 47 (dr_path r) = fill (line_path T i) as" "63 \<notin> set (dr_path r)"
    and "line_extractor T i as (wl_query_parse W []) (dr_body r) = Some route"
  shows "server_route W order (dr_method r) (dr_path r) (dr_body r) = Some route"
proof -
  have "params (drop 3 (line_path T i)) = length as"
    using assms(3,6) by (metis api_def top_def params.simps(2))
  then show ?thesis
    using route_found(1) [OF line_in [OF assms(1-3)] assms(5) _ _ assms(8)] assms by simp
qed

lemma arrives_query:
  assumes "set T \<subseteq> set (route_table W order)" "i < length T" "line_path T i = api (drop 3 (line_path T i))"
    and "dr_method r = line_method T i" "dr_path r = path @ 63 # query_text W kvs" "wire_ok W"
    and "list_all uuid_like as" "params (line_path T i) = length as" "split_on 47 path = fill (line_path T i) as"
    and "63 \<notin> set path" "list_all (\<lambda>(k, _). k \<noteq> [] \<and> list_all is_ascii_lower k) kvs"
    and "line_extractor T i as kvs (dr_body r) = Some route"
  shows "server_route W order (dr_method r) (dr_path r) (dr_body r) = Some route"
proof -
  have "params (drop 3 (line_path T i)) = length as"
    using assms(3,8) by (metis api_def top_def params.simps(2))
  then show ?thesis
    using route_found(2) [OF line_in [OF assms(1-3)] assms(7) _ _ assms(10)] assms
      wire_okD(8) [OF assms(6,11)] by simp
qed

lemma tables:
  "set (account_paths W) \<subseteq> set (route_table W order)"
  "set (social_paths W) \<subseteq> set (route_table W order)"
  "set (group_paths W) \<subseteq> set (route_table W order)"
  "set (message_paths W order) \<subseteq> set (route_table W order)"
  "set (system_paths W) \<subseteq> set (route_table W order)"
  by (auto simp: route_table_def)

lemma parse_usize_decimal: "n < 2 ^ 64 \<Longrightarrow> parse_usize (decimal n) = Some n"
  using parse_decimal [of "word_of_nat n"] by (simp add: parse_usize_def unat_of_nat take_bit_nat_eq_self)

lemma clamp_decimal:
  "lo \<le> hi \<Longrightarrow> hi < 18446744073709551616 \<Longrightarrow> parse_usize (decimal (clamp lo hi n)) = Some (clamp lo hi n)"
  by (rule parse_usize_decimal) (simp add: clamp_def)

lemmas queries = query_text_def is_ascii_lower_def decimal_text parse_decimal clamp_decimal

section \<open>Each call\<close>

lemma account_arrives:
  assumes W: "wire_ok W"
  shows "server_route W order (dr_method (account_request W B c)) (dr_path (account_request W B c)) (dr_body (account_request W B c))
    = Some (Account (account_intended B c))"
proof -
  note facts = arrive line_defs account_paths_def queries uuid_text [OF W] wire_okD [OF W] W
  show ?thesis
  proof (cases c)
    case (Login_call a b c)
    show ?thesis unfolding Login_call
      by (rule arrives [OF tables(1), where i = 6 and as = "[]"]) (simp_all add: facts)
  next
    case (Register_call a b c d)
    show ?thesis unfolding Register_call
      by (rule arrives [OF tables(1), where i = 5 and as = "[]"]) (simp_all add: facts)
  next
    case (Request_password_reset_call a)
    show ?thesis unfolding Request_password_reset_call
      by (rule arrives [OF tables(1), where i = 11 and as = "[]"]) (simp_all add: facts)
  next
    case (Confirm_password_reset_call a b)
    show ?thesis unfolding Confirm_password_reset_call
      by (rule arrives [OF tables(1), where i = 12 and as = "[]"]) (simp_all add: facts)
  next
    case Begin_qr_login_call
    show ?thesis unfolding Begin_qr_login_call
      by (rule arrives [OF tables(1), where i = 7 and as = "[]"]) (simp_all add: facts)
  next
    case (Poll_qr_login_call i a)
    show ?thesis unfolding Poll_qr_login_call
      by (rule arrives [OF tables(1), where i = 8 and as = "[wl_uuid_text W i]"]) (simp_all add: facts)
  next
    case (Refresh_call a)
    show ?thesis unfolding Refresh_call
      by (rule arrives [OF tables(1), where i = 9 and as = "[]"]) (simp_all add: facts)
  next
    case (Logout_call a)
    show ?thesis unfolding Logout_call
      by (rule arrives [OF tables(1), where i = 10 and as = "[]"]) (simp_all add: facts logout_request_of_def field_defs)
  next
    case (Change_password_call a b)
    show ?thesis unfolding Change_password_call
      by (rule arrives [OF tables(1), where i = 13 and as = "[]"]) (simp_all add: facts)
  next
    case Devices_call
    show ?thesis unfolding Devices_call
      by (rule arrives [OF tables(1), where i = 14 and as = "[]"]) (simp_all add: facts)
  next
    case (Revoke_device_call i)
    show ?thesis unfolding Revoke_device_call
      by (rule arrives [OF tables(1), where i = 15 and as = "[wl_uuid_text W (device_uuid i)]"]) (simp_all add: facts)
  next
    case Second_factor_status_call
    show ?thesis unfolding Second_factor_status_call
      by (rule arrives [OF tables(1), where i = 19 and as = "[]"]) (simp_all add: facts)
  next
    case Begin_second_factor_setup_call
    show ?thesis unfolding Begin_second_factor_setup_call
      by (rule arrives [OF tables(1), where i = 20 and as = "[]"]) (simp_all add: facts)
  next
    case (Enable_second_factor_call a)
    show ?thesis unfolding Enable_second_factor_call
      by (rule arrives [OF tables(1), where i = 22 and as = "[]"]) (simp_all add: facts)
  next
    case (Disable_second_factor_call a b)
    show ?thesis unfolding Disable_second_factor_call
      by (rule arrives [OF tables(1), where i = 21 and as = "[]"]) (simp_all add: facts)
  next
    case (Regenerate_recovery_codes_call a b)
    show ?thesis unfolding Regenerate_recovery_codes_call
      by (rule arrives [OF tables(1), where i = 23 and as = "[]"]) (simp_all add: facts)
  next
    case (Approve_qr_call i a)
    show ?thesis unfolding Approve_qr_call
      by (rule arrives [OF tables(1), where i = 24 and as = "[wl_uuid_text W i]"]) (simp_all add: facts)
  next
    case (Update_profile_call a)
    show ?thesis unfolding Update_profile_call
      by (rule arrives [OF tables(1), where i = 17 and as = "[]"]) (simp_all add: facts)
  qed
qed

lemma social_arrives:
  assumes W: "wire_ok W"
  shows "server_route W order (dr_method (social_request W c)) (dr_path (social_request W c)) (dr_body (social_request W c))
    = Some (Social (social_intended c))"
proof -
  note facts = arrive line_defs social_paths_def queries uuid_text [OF W] wire_okD [OF W] W
  show ?thesis
  proof (cases c)
    case (Search_user_call n)
    show ?thesis unfolding Search_user_call
      by (rule arrives_query [OF tables(2), where i = 4 and as = "[]" and path = "lit ''/api/v1/users/search''"
            and kvs = "[(lit ''username'', trim n)]"]) (simp_all add: facts)
  next
    case Bootstrap_call
    show ?thesis unfolding Bootstrap_call
      by (rule arrives [OF tables(2), where i = 3 and as = "[]"]) (simp_all add: facts)
  next
    case (Send_friend_request_call a b)
    show ?thesis unfolding Send_friend_request_call
      by (rule arrives [OF tables(2), where i = 13 and as = "[]"]) (simp_all add: facts)
  next
    case (Decide_friend_request_call i a)
    show ?thesis unfolding Decide_friend_request_call
      by (rule arrives [OF tables(2), where i = 14 and as = "[wl_uuid_text W (friend_request_uuid i)]"]) (simp_all add: facts)
  next
    case (Delete_friend_call i)
    show ?thesis unfolding Delete_friend_call
      by (rule arrives [OF tables(2), where i = 8 and as = "[wl_uuid_text W (user_uuid i)]"]) (simp_all add: facts)
  next
    case (Block_user_call i b)
    show ?thesis unfolding Block_user_call
      by (rule arrives [OF tables(2), where i = "if b then 9 else 10" and as = "[wl_uuid_text W (user_uuid i)]"])
        (simp_all add: facts split: if_split)
  next
    case (Report_user_call i a b)
    show ?thesis unfolding Report_user_call
      by (rule arrives [OF tables(2), where i = 11 and as = "[wl_uuid_text W (user_uuid i)]"]) (simp_all add: facts)
  next
    case (Create_direct_call i)
    show ?thesis unfolding Create_direct_call
      by (rule arrives [OF tables(2), where i = 17 and as = "[]"]) (simp_all add: facts)
  next
    case (Create_group_call a b)
    show ?thesis unfolding Create_group_call
      by (rule arrives [OF tables(2), where i = 18 and as = "[]"]) (simp_all add: facts)
  next
    case (Update_conversation_settings_call i a)
    show ?thesis unfolding Update_conversation_settings_call
      by (rule arrives [OF tables(2), where i = 20 and as = "[wl_uuid_text W (conversation_uuid i)]"]) (simp_all add: facts)
  next
    case (Save_draft_call i a)
    show ?thesis unfolding Save_draft_call
      by (rule arrives [OF tables(2), where i = 20 and as = "[wl_uuid_text W (conversation_uuid i)]"]) (simp_all add: facts update_conversation_settings_request_of_def field_defs nullable_def ap_def)
  next
    case Mark_all_read_call
    show ?thesis unfolding Mark_all_read_call
      by (rule arrives [OF tables(2), where i = 16 and as = "[]"]) (simp_all add: facts)
  qed
qed

lemma group_arrives:
  assumes W: "wire_ok W"
  shows "server_route W order (dr_method (group_request W c)) (dr_path (group_request W c)) (dr_body (group_request W c))
    = Some (Group_route (group_intended c))"
proof -
  note facts = arrive line_defs group_paths_def queries uuid_text [OF W] wire_okD [OF W] W
  show ?thesis
  proof (cases c)
    case (Group_settings_call c)
    show ?thesis unfolding Group_settings_call
      by (rule arrives [OF tables(3), where i = 0 and as = "[wl_uuid_text W (conversation_uuid c)]"]) (simp_all add: facts)
  next
    case (Update_group_call c a)
    show ?thesis unfolding Update_group_call
      by (rule arrives [OF tables(3), where i = 1 and as = "[wl_uuid_text W (conversation_uuid c)]"]) (simp_all add: facts)
  next
    case (Add_group_members_call c a)
    show ?thesis unfolding Add_group_members_call
      by (rule arrives [OF tables(3), where i = 3 and as = "[wl_uuid_text W (conversation_uuid c)]"]) (simp_all add: facts)
  next
    case (Update_group_member_role_call c i a)
    show ?thesis unfolding Update_group_member_role_call
      by (rule arrives [OF tables(3), where i = 4 and as = "[wl_uuid_text W (conversation_uuid c), wl_uuid_text W (user_uuid i)]"]) (simp_all add: facts)
  next
    case (Update_group_member_mute_call c i a)
    show ?thesis unfolding Update_group_member_mute_call
      by (rule arrives [OF tables(3), where i = 4 and as = "[wl_uuid_text W (conversation_uuid c), wl_uuid_text W (user_uuid i)]"]) (simp_all add: facts)
  next
    case (Remove_group_member_call c i)
    show ?thesis unfolding Remove_group_member_call
      by (rule arrives [OF tables(3), where i = 5 and as = "[wl_uuid_text W (conversation_uuid c), wl_uuid_text W (user_uuid i)]"]) (simp_all add: facts)
  next
    case (Leave_group_call c)
    show ?thesis unfolding Leave_group_call
      by (rule arrives [OF tables(3), where i = 6 and as = "[wl_uuid_text W (conversation_uuid c)]"]) (simp_all add: facts)
  next
    case (Disband_group_call c)
    show ?thesis unfolding Disband_group_call
      by (rule arrives [OF tables(3), where i = 2 and as = "[wl_uuid_text W (conversation_uuid c)]"]) (simp_all add: facts)
  next
    case (Transfer_group_call c i)
    show ?thesis unfolding Transfer_group_call
      by (rule arrives [OF tables(3), where i = 7 and as = "[wl_uuid_text W (conversation_uuid c)]"]) (simp_all add: facts)
  next
    case (Set_group_mute_call c a)
    show ?thesis unfolding Set_group_mute_call
      by (rule arrives [OF tables(3), where i = 8 and as = "[wl_uuid_text W (conversation_uuid c)]"]) (simp_all add: facts)
  next
    case (Group_announcements_call c)
    show ?thesis unfolding Group_announcements_call
      by (rule arrives [OF tables(3), where i = 9 and as = "[wl_uuid_text W (conversation_uuid c)]"]) (simp_all add: facts)
  next
    case (Create_group_announcement_call c a)
    show ?thesis unfolding Create_group_announcement_call
      by (rule arrives [OF tables(3), where i = 10 and as = "[wl_uuid_text W (conversation_uuid c)]"]) (simp_all add: facts)
  next
    case (Read_group_announcement_call i)
    show ?thesis unfolding Read_group_announcement_call
      by (rule arrives [OF tables(3), where i = 11 and as = "[wl_uuid_text W i]"]) (simp_all add: facts)
  next
    case (Group_files_call c)
    show ?thesis unfolding Group_files_call
      by (rule arrives [OF tables(3), where i = 17 and as = "[wl_uuid_text W (conversation_uuid c)]"]) (simp_all add: facts)
  next
    case (Group_join_requests_call c)
    show ?thesis unfolding Group_join_requests_call
      by (rule arrives [OF tables(3), where i = 12 and as = "[wl_uuid_text W (conversation_uuid c)]"]) (simp_all add: facts)
  next
    case (Decide_group_join_request_call i a)
    show ?thesis unfolding Decide_group_join_request_call
      by (rule arrives [OF tables(3), where i = 14 and as = "[wl_uuid_text W i]"]) (simp_all add: facts)
  next
    case (Group_polls_call c)
    show ?thesis unfolding Group_polls_call
      by (rule arrives [OF tables(3), where i = 15 and as = "[wl_uuid_text W (conversation_uuid c)]"]) (simp_all add: facts)
  next
    case (Create_group_poll_call c a)
    show ?thesis unfolding Create_group_poll_call
      by (rule arrives [OF tables(3), where i = 16 and as = "[wl_uuid_text W (conversation_uuid c)]"]) (simp_all add: facts)
  next
    case (Vote_group_poll_call i a)
    show ?thesis unfolding Vote_group_poll_call
      by (rule arrives [OF tables(3), where i = 18 and as = "[wl_uuid_text W i]"]) (simp_all add: facts)
  qed
qed

lemma message_arrives:
  assumes W: "wire_ok W"
  shows "server_route W order (dr_method (message_request W c)) (dr_path (message_request W c)) (dr_body (message_request W c))
    = Some (message_intended c)"
proof -
  note facts = arrive line_defs message_paths_def system_paths_def queries uuid_text [OF W] wire_okD [OF W] W
  show ?thesis
  proof (cases c)
    case (Messages_call c before limit)
    show ?thesis
    proof (cases before)
      case None
      show ?thesis unfolding Messages_call None
        by (rule arrives_query [OF tables(4), where i = 0 and as = "[wl_uuid_text W (conversation_uuid c)]"
              and path = "lit ''/api/v1/conversations/'' @ wl_uuid_text W (conversation_uuid c) @ lit ''/messages''"
              and kvs = "[(lit ''limit'', decimal (clamp 1 100 limit))]"]) (simp_all add: facts)
    next
      case (Some n)
      show ?thesis unfolding Messages_call Some
        by (rule arrives_query [OF tables(4), where i = 0 and as = "[wl_uuid_text W (conversation_uuid c)]"
              and path = "lit ''/api/v1/conversations/'' @ wl_uuid_text W (conversation_uuid c) @ lit ''/messages''"
              and kvs = "[(lit ''limit'', decimal (clamp 1 100 limit)), (lit ''before'', decimal (unat n))]"])
          (simp_all add: facts)
    qed
  next
    case (Sync_call after limit)
    show ?thesis unfolding Sync_call
      by (rule arrives_query [OF tables(5), where i = 0 and as = "[]" and path = "lit ''/api/v1/sync''"
            and kvs = "[(lit ''after'', decimal (unat after)), (lit ''limit'', decimal (clamp 1 500 limit))]"])
        (simp_all add: facts)
  next
    case (Send_message_call c a)
    show ?thesis unfolding Send_message_call
      by (rule arrives [OF tables(4), where i = 1 and as = "[wl_uuid_text W (conversation_uuid c)]"]) (simp_all add: facts)
  next
    case (Recall_message_call m)
    show ?thesis unfolding Recall_message_call
      by (rule arrives [OF tables(4), where i = 8 and as = "[wl_uuid_text W (message_uuid m)]"]) (simp_all add: facts)
  next
    case (Forward_message_call m c)
    show ?thesis unfolding Forward_message_call
      by (rule arrives [OF tables(4), where i = 2 and as = "[]"]) (simp_all add: facts)
  next
    case (Message_details_call m)
    show ?thesis unfolding Message_details_call
      by (rule arrives [OF tables(4), where i = 6 and as = "[wl_uuid_text W (message_uuid m)]"]) (simp_all add: facts)
  next
    case (React_to_message_call m a b)
    show ?thesis unfolding React_to_message_call
      by (rule arrives [OF tables(4), where i = 9 and as = "[wl_uuid_text W (message_uuid m)]"]) (simp_all add: facts)
  next
    case (Favorite_message_call m b)
    show ?thesis unfolding Favorite_message_call
      by (rule arrives [OF tables(4), where i = 10 and as = "[wl_uuid_text W (message_uuid m)]"]) (simp_all add: facts)
  next
    case (Mark_read_call c a)
    show ?thesis unfolding Mark_read_call
      by (rule arrives [OF tables(4), where i = 14 and as = "[wl_uuid_text W (conversation_uuid c)]"]) (simp_all add: facts)
  next
    case Websocket_ticket_call
    show ?thesis unfolding Websocket_ticket_call
      by (rule arrives [OF tables(5), where i = 4 and as = "[]"]) (simp_all add: facts)
  next
    case (Authorize_upload_call a)
    show ?thesis unfolding Authorize_upload_call
      by (rule arrives [OF tables(5), where i = 1 and as = "[]"]) (simp_all add: facts)
  next
    case (Complete_upload_call i)
    show ?thesis unfolding Complete_upload_call
      by (rule arrives [OF tables(5), where i = 2 and as = "[]"]) (simp_all add: facts)
  next
    case (Authorize_download_call i)
    show ?thesis unfolding Authorize_download_call
      by (rule arrives [OF tables(5), where i = 3 and as = "[wl_uuid_text W (attachment_uuid i)]"]) (simp_all add: facts)
  qed
qed

section \<open>The check of the path\<close>

lemmas path_checks = safe_pathI no_dots starts_with_def path_letter_def bare_def carrying_def group_path_def
  message_path_def

lemma two_dots_off: "a \<noteq> 46 \<Longrightarrow> has_two_dots (a # b) = has_two_dots b"
  by (cases b) auto

lemma paths_safe:
  assumes W: "wire_ok W" and search: "\<And>n. c = Social_call (Search_user_call n) \<Longrightarrow> \<not> has_two_dots (wl_form_encode W (trim n))"
  shows "safe_path (dr_path (call_request W B c))"
proof (cases c)
  case (Account_call a)
  then show ?thesis
    by (cases a; simp add: path_checks uuid_text [OF W])
next
  case (Social_call s)
  show ?thesis
  proof (cases s)
    case (Search_user_call n)
    then show ?thesis using search [of n] Social_call form_text [OF W]
      by (simp add: path_checks query_text_def two_dots_off)
  qed (simp_all add: Social_call path_checks uuid_text [OF W])
next
  case (Group_call g)
  then show ?thesis
    by (cases g; simp add: path_checks uuid_text [OF W])
next
  case (Message_call m)
  then show ?thesis
    by (cases m; simp add: path_checks uuid_text [OF W] decimal_text split: option.split)
qed


end
