(* ===== verification/Wire_Responses.thy ===== *)
theory Wire_Responses
  imports Wire_Requests
begin

text \<open>
  The answers the clients act on, as \<open>serde\<close> writes and reads them: sessions, QR logins, tickets, and the
  authorizations of file transfers (\<open>crates/protocol/src/lib.rs\<close>, \<open>crates/domain/src/user.rs\<close>), and the
  body of an error answer.

  A profile carries the address of its picture as a \<open>Url\<close>: reading it takes the parser of the \<open>url\<close> crate,
  the parameter \<open>N\<close>, which gives the normal form of the text.
\<close>

definition url_text_of :: "(rstr \<Rightarrow> rstr option) \<Rightarrow> json \<Rightarrow> rstr option" where
  "url_text_of N j = Option.bind (str_of j) N"

definition user_profile_json :: "wire \<Rightarrow> user_profile \<Rightarrow> json" where
  "user_profile_json W p = obj
     [(''id'', user_json W (prof_id p)),
      (''username'', JStr (prof_username p)),
      (''nickname'', JStr (prof_nickname p)),
      (''avatar_url'', option_json JStr (prof_avatar_url p)),
      (''avatar_attachment_id'', option_json (attachment_id_json W) (prof_avatar_attachment_id p)),
      (''signature'', JStr (prof_signature p)),
      (''gender'', option_json JStr (prof_gender p)),
      (''birthday'', option_json (date_json W) (prof_birthday p)),
      (''region'', option_json JStr (prof_region p)),
      (''presence'', name_in presences (prof_presence p)),
      (''last_seen_at'', option_json (time_json W) (prof_last_seen_at p))]"

definition user_profile_of :: "wire \<Rightarrow> (rstr \<Rightarrow> rstr option) \<Rightarrow> json \<Rightarrow> user_profile option" where
  "user_profile_of W N j = ap (ap (ap (ap (ap (ap (ap (ap (ap (ap (ap (reading j
       (\<lambda>a b c d e f g h i k l. \<lparr>prof_id = a, prof_username = b, prof_nickname = c, prof_avatar_url = d,
          prof_avatar_attachment_id = e, prof_signature = f, prof_gender = g, prof_birthday = h,
          prof_region = i, prof_presence = k, prof_last_seen_at = l\<rparr>))
       (req ''id'' (user_of W) j))
       (req ''username'' str_of j))
       (req ''nickname'' str_of j))
       (opt ''avatar_url'' (url_text_of N) j))
       (opt ''avatar_attachment_id'' (attachment_id_of W) j))
       (req ''signature'' str_of j))
       (opt ''gender'' str_of j))
       (opt ''birthday'' (day_of W) j))
       (opt ''region'' str_of j))
       (req ''presence'' (enum_of presences) j))
       (opt ''last_seen_at'' (time_of W) j)"

definition session_response_json :: "wire \<Rightarrow> session_response \<Rightarrow> json" where
  "session_response_json W s = obj
     [(''access_token'', JStr (ssr_access_token s)),
      (''refresh_token'', JStr (ssr_refresh_token s)),
      (''access_expires_at'', time_json W (ssr_access_expires_at s)),
      (''refresh_expires_at'', time_json W (ssr_refresh_expires_at s)),
      (''profile'', user_profile_json W (ssr_profile s)),
      (''device_id'', uuid_json W (device_uuid (ssr_device_id s)))]"

definition session_response_of :: "wire \<Rightarrow> (rstr \<Rightarrow> rstr option) \<Rightarrow> json \<Rightarrow> session_response option" where
  "session_response_of W N j = ap (ap (ap (ap (ap (ap (reading j
       (\<lambda>a b c d e f. \<lparr>ssr_access_token = a, ssr_refresh_token = b, ssr_access_expires_at = c,
          ssr_refresh_expires_at = d, ssr_profile = e, ssr_device_id = f\<rparr>))
       (req ''access_token'' str_of j))
       (req ''refresh_token'' str_of j))
       (req ''access_expires_at'' (time_of W) j))
       (req ''refresh_expires_at'' (time_of W) j))
       (req ''profile'' (user_profile_of W N) j))
       (req ''device_id'' (\<lambda>v. map_option DeviceId (uuid_of W v)) j)"

definition qr_login_start_response_json :: "wire \<Rightarrow> qr_login_challenge_info \<Rightarrow> json" where
  "qr_login_start_response_json W c = obj
     [(''challenge_id'', uuid_json W (qri_challenge_id c)),
      (''secret'', JStr (qri_secret c)),
      (''qr_payload'', JStr (qri_qr_payload c)),
      (''expires_at'', time_json W (qri_expires_at c))]"

definition qr_login_start_response_of :: "wire \<Rightarrow> json \<Rightarrow> qr_login_challenge_info option" where
  "qr_login_start_response_of W j = ap (ap (ap (ap (reading j
       (\<lambda>a b c d. \<lparr>qri_challenge_id = a, qri_secret = b, qri_qr_payload = c, qri_expires_at = d\<rparr>))
       (req ''challenge_id'' (uuid_of W) j))
       (req ''secret'' str_of j))
       (req ''qr_payload'' str_of j))
       (req ''expires_at'' (time_of W) j)"

datatype qr_login_status = Qr_pending | Qr_ready

definition qr_statuses :: "(string \<times> qr_login_status) list" where
  "qr_statuses = [(''pending'', Qr_pending), (''ready'', Qr_ready)]"

interpretation qr_status: wire_value "name_in qr_statuses" "enum_of qr_statuses"
  by (rule enum_value) (auto simp: qr_statuses_def image_iff intro: qr_login_status.exhaust)

definition qr_login_poll_response_json :: "wire \<Rightarrow> qr_login_status \<times> session_response option \<Rightarrow> json" where
  "qr_login_poll_response_json W r = obj
     [(''status'', name_in qr_statuses (fst r)),
      (''session'', option_json (session_response_json W) (snd r))]"

definition qr_login_poll_response_of ::
  "wire \<Rightarrow> (rstr \<Rightarrow> rstr option) \<Rightarrow> json \<Rightarrow> (qr_login_status \<times> session_response option) option" where
  "qr_login_poll_response_of W N j = ap (ap (reading j Pair)
       (req ''status'' (enum_of qr_statuses) j))
       (opt ''session'' (session_response_of W N) j)"

definition websocket_ticket_response_json :: "wire \<Rightarrow> rstr \<times> datetime \<Rightarrow> json" where
  "websocket_ticket_response_json W r = obj
     [(''ticket'', JStr (fst r)), (''expires_at'', time_json W (snd r))]"

definition websocket_ticket_response_of :: "wire \<Rightarrow> json \<Rightarrow> (rstr \<times> datetime) option" where
  "websocket_ticket_response_of W j = ap (ap (reading j Pair)
       (req ''ticket'' str_of j)) (req ''expires_at'' (time_of W) j)"

text \<open>A header is written as an array of its name and its value.\<close>

definition header_json :: "rstr \<times> rstr \<Rightarrow> json" where
  "header_json h = JArr [JStr (fst h), JStr (snd h)]"

definition header_of :: "json \<Rightarrow> (rstr \<times> rstr) option" where
  "header_of j = (case j of JArr [JStr n, JStr v] \<Rightarrow> Some (n, v) | _ \<Rightarrow> None)"

interpretation header: wire_value header_json header_of
  by unfold_locales (simp_all add: header_json_def header_of_def)

definition upload_authorization_response_json :: "wire \<Rightarrow> upload_authorization_response \<Rightarrow> json" where
  "upload_authorization_response_json W r = obj
     [(''attachment_id'', attachment_id_json W (uas_attachment_id r)),
      (''storage_key'', JStr (uas_storage_key r)),
      (''upload_url'', JStr (uas_upload_url r)),
      (''expires_at'', time_json W (uas_expires_at r)),
      (''required_headers'', list_json header_json (uas_required_headers r))]"

definition upload_authorization_response_of :: "wire \<Rightarrow> json \<Rightarrow> upload_authorization_response option" where
  "upload_authorization_response_of W j = ap (ap (ap (ap (ap (reading j
       (\<lambda>a b c d e. \<lparr>uas_attachment_id = a, uas_storage_key = b, uas_upload_url = c, uas_expires_at = d,
          uas_required_headers = e\<rparr>))
       (req ''attachment_id'' (attachment_id_of W) j))
       (req ''storage_key'' str_of j))
       (req ''upload_url'' str_of j))
       (req ''expires_at'' (time_of W) j))
       (req ''required_headers'' (list_of header_of) j)"

definition complete_upload_response_json :: "wire \<Rightarrow> attachment \<times> rstr \<Rightarrow> json" where
  "complete_upload_response_json W r = obj
     [(''attachment'', attachment_json W (fst r)), (''download_url'', JStr (snd r))]"

definition complete_upload_response_of :: "wire \<Rightarrow> json \<Rightarrow> (attachment \<times> rstr) option" where
  "complete_upload_response_of W j = ap (ap (reading j Pair)
       (req ''attachment'' (attachment_of W) j)) (req ''download_url'' str_of j)"

definition download_authorization_response_json :: "wire \<Rightarrow> attachment \<times> rstr \<times> datetime \<Rightarrow> json" where
  "download_authorization_response_json W r = (case r of (a, url, expires) \<Rightarrow> obj
     [(''download_url'', JStr url), (''expires_at'', time_json W expires),
      (''attachment'', attachment_json W a)])"

definition download_authorization_response_of :: "wire \<Rightarrow> json \<Rightarrow> (attachment \<times> rstr \<times> datetime) option" where
  "download_authorization_response_of W j = ap (ap (ap (reading j (\<lambda>url expires a. (a, url, expires)))
       (req ''download_url'' str_of j)) (req ''expires_at'' (time_of W) j))
       (req ''attachment'' (attachment_of W) j)"

section \<open>Error answers\<close>

definition error_codes :: "(string \<times> error_code) list" where
  "error_codes = [(''validation'', ValidationError), (''authentication_required'', AuthenticationRequired),
     (''authentication_failed'', AuthenticationFailed), (''forbidden'', ForbiddenError),
     (''not_found'', NotFoundError), (''conflict'', ConflictError), (''rate_limited'', RateLimited),
     (''payload_too_large'', PayloadTooLarge), (''unsupported_media_type'', UnsupportedMediaType),
     (''protocol_mismatch'', ProtocolMismatch), (''sync_required'', SyncRequired), (''internal'', InternalError),
     (''service_unavailable'', ServiceUnavailable)]"

definition error_code_name :: "error_code \<Rightarrow> string" where
  "error_code_name c = (case find (\<lambda>(_, d). d = c) error_codes of Some (n, _) \<Rightarrow> n | None \<Rightarrow> '''')"

definition api_error_json :: "wire \<Rightarrow> api_error \<Rightarrow> json" where
  "api_error_json W e = obj
     [(''code'', JStr (lit (error_code_name (ae_code e)))),
      (''message_key'', JStr (ae_message_key e)),
      (''field'', option_json JStr (ae_field e)),
      (''correlation_id'', uuid_json W (ae_correlation_id e)),
      (''retryable'', JBool (ae_retryable e))]"

section \<open>Answers come back\<close>

lemma url_back:
  assumes "case v of None \<Rightarrow> True | Some t \<Rightarrow> N t = Some t"
  shows "nullable (url_text_of N) (option_json JStr v) = Some v"
  using assms by (cases v) (simp_all add: nullable_def option_json_def url_text_of_def)

definition normal_picture :: "(rstr \<Rightarrow> rstr option) \<Rightarrow> user_profile \<Rightarrow> bool" where
  "normal_picture N p = (case prof_avatar_url p of None \<Rightarrow> True | Some t \<Rightarrow> N t = Some t)"

lemma user_profile_back:
  assumes "wire_ok W" "normal_picture N p"
  shows "user_profile_of W N (user_profile_json W p) = Some p"
  using assms by (simp add: user_profile_json_def user_profile_of_def field_defs values_back wire_back
      url_back normal_picture_def)

lemma session_response_back:
  assumes "wire_ok W" "normal_picture N (ssr_profile s)"
  shows "session_response_of W N (session_response_json W s) = Some s"
  using assms by (simp add: session_response_json_def session_response_of_def field_defs values_back wire_back
      user_profile_back uuid_json_def uuid_of_def wire_okD)

lemma session_response_not_null: "session_response_json W s \<noteq> JNull"
  by (simp add: session_response_json_def)

lemma qr_login_start_response_back [simp]:
  "wire_ok W \<Longrightarrow> qr_login_start_response_of W (qr_login_start_response_json W c) = Some c"
  by (simp add: qr_login_start_response_json_def qr_login_start_response_of_def field_defs values_back wire_back)

lemma qr_login_poll_response_back:
  assumes "wire_ok W" "\<And>s. snd r = Some s \<Longrightarrow> normal_picture N (ssr_profile s)"
  shows "qr_login_poll_response_of W N (qr_login_poll_response_json W r) = Some r"
proof -
  have "nullable (session_response_of W N) (option_json (session_response_json W) (snd r)) = Some (snd r)"
    using assms by (cases "snd r") (simp_all add: nullable_def option_json_def session_response_back
        session_response_not_null)
  then show ?thesis
    by (simp add: qr_login_poll_response_json_def qr_login_poll_response_of_def field_defs)
qed

lemma websocket_ticket_response_back [simp]:
  "wire_ok W \<Longrightarrow> websocket_ticket_response_of W (websocket_ticket_response_json W r) = Some r"
  by (simp add: websocket_ticket_response_json_def websocket_ticket_response_of_def field_defs wire_back)

lemma upload_authorization_response_back [simp]:
  "wire_ok W \<Longrightarrow> upload_authorization_response_of W (upload_authorization_response_json W r) = Some r"
  by (simp add: upload_authorization_response_json_def upload_authorization_response_of_def field_defs
      values_back wire_back header.list_back)

lemma complete_upload_response_back [simp]:
  "wire_ok W \<Longrightarrow> complete_upload_response_of W (complete_upload_response_json W r) = Some r"
  by (simp add: complete_upload_response_json_def complete_upload_response_of_def field_defs)

lemma download_authorization_response_back [simp]:
  "wire_ok W \<Longrightarrow> download_authorization_response_of W (download_authorization_response_json W r) = Some r"
  by (cases r) (simp add: download_authorization_response_json_def download_authorization_response_of_def
      field_defs wire_back)

end
