(* ===== verification/Desk_Url.thy ===== *)
theory Desk_Url
  imports Desk_Requests
begin

text \<open>
  The addresses the desktop client works with (\<open>apps/desktop/src/api.rs\<close>): the address of the server it
  is configured with, the check of every path before it is sent, the addresses files are transferred to,
  the payload of a QR login, and the recognition of file types.

  \<open>Url\<close> is the type of the \<open>url\<close> crate; its parser and its resolution of a relative path are parameters.
  A host is what the crate distinguishes: a domain, an IPv4 or an IPv6 address; a port is absent when it
  is the default one of the scheme.
\<close>

datatype host = Domain_host rstr | Ipv4 "32 word" | Ipv6 "128 word"

record url =
  u_scheme :: rstr
  u_username :: rstr
  u_password :: "rstr option"
  u_host :: "host option"
  u_port :: "u16 option"
  u_path :: rstr
  u_query :: "rstr option"
  u_fragment :: "rstr option"

record url_lib =
  ul_parse :: "rstr \<Rightarrow> url option"
  ul_join :: "url \<Rightarrow> rstr \<Rightarrow> url option"

text \<open>\<open>Ipv4Addr::is_loopback\<close> (127.0.0.0/8) and \<open>Ipv6Addr::is_loopback\<close> (\<open>::1\<close>).\<close>

fun has_loopback :: "host option \<Rightarrow> bool" where
  "has_loopback (Some (Domain_host d)) = (to_ascii_lowercase d = lit ''localhost'')"
| "has_loopback (Some (Ipv4 a)) = (drop_bit 24 a = 127)"
| "has_loopback (Some (Ipv6 a)) = (a = 1)"
| "has_loopback None = False"

definition has_loopback_host :: "url \<Rightarrow> bool" where
  "has_loopback_host u = has_loopback (u_host u)"

definition is_safe_transfer_url :: "url \<Rightarrow> bool" where
  "is_safe_transfer_url u =
     (if u_username u \<noteq> [] \<or> u_password u \<noteq> None \<or> u_fragment u \<noteq> None then False
      else if u_scheme u = lit ''https'' then u_host u \<noteq> None
      else u_scheme u = lit ''http'' \<and> has_loopback_host u)"

section \<open>Errors of the client\<close>

datatype client_error =
    Invalid_configuration
  | Offline_error
  | Credential_store_error
  | Invalid_response
  | Local_file string
  | Request_error (re_status: nat) (re_code: rstr) (re_key: rstr) (re_retryable: bool)

definition authentication_required :: client_error where
  "authentication_required =
     Request_error 401 (lit ''authentication_required'') (lit ''authentication_required'') False"

section \<open>The address of the server\<close>

text \<open>\<open>ApiClient::with_credentials\<close>.\<close>

definition client_base :: "url_lib \<Rightarrow> rstr \<Rightarrow> client_error + url" where
  "client_base L configured =
     (case ul_parse L configured of
        None \<Rightarrow> Inl Invalid_configuration
      | Some u \<Rightarrow>
          if u_scheme u \<notin> {lit ''http'', lit ''https''}
             \<or> (u_scheme u \<noteq> lit ''https'' \<and> \<not> has_loopback_host u)
          then Inl Invalid_configuration
          else Inr (u\<lparr>u_query := None, u_fragment := None,
                      u_path := (if u_path u \<noteq> [] \<and> last (u_path u) = 47 then u_path u else u_path u @ [47])\<rparr>))"

text \<open>\<open>Url::origin\<close>: of \<open>http\<close> and \<open>https\<close> the scheme, host and port; other schemes have an origin of
  their own that equals no other.\<close>

definition origin :: "url \<Rightarrow> (rstr \<times> host \<times> u16 option) option" where
  "origin u = (if u_scheme u \<in> {lit ''http'', lit ''https'', lit ''ws'', lit ''wss'', lit ''ftp''}
     then map_option (\<lambda>h. (u_scheme u, h, u_port u)) (u_host u) else None)"

definition same_origin :: "url \<Rightarrow> url \<Rightarrow> bool" where
  "same_origin a b \<longleftrightarrow> origin a \<noteq> None \<and> origin a = origin b"

definition safe_url :: "url_lib \<Rightarrow> url \<Rightarrow> rstr \<Rightarrow> client_error + url" where
  "safe_url L base path =
     (if \<not> safe_path path then Inl Invalid_configuration
      else case ul_join L base (dropWhile (\<lambda>c. c = 47) path) of
             None \<Rightarrow> Inl Invalid_configuration
           | Some u \<Rightarrow> if \<not> same_origin u base then Inl Invalid_configuration else Inr u)"

lemma client_base_safe:
  assumes "client_base L configured = Inr base"
  shows "u_query base = None" "u_fragment base = None" "last (u_path base) = 47"
    and "u_scheme base = lit ''https'' \<or> (u_scheme base = lit ''http'' \<and> has_loopback_host base)"
  using assms by (auto simp: client_base_def has_loopback_host_def split: option.splits if_splits)

lemma safe_url_origin: "safe_url L base path = Inr u \<Longrightarrow> same_origin u base \<and> safe_path path"
  by (auto simp: safe_url_def split: option.splits if_splits)

lemma origin_some:
  "origin u = Some (s, h, p) \<Longrightarrow> u_scheme u = s \<and> u_host u = Some h \<and> u_port u = p"
  by (auto simp: origin_def simp del: of_char_eq_iff split: if_split_asm)

lemma same_origin_fields:
  "same_origin a b \<Longrightarrow> u_scheme a = u_scheme b \<and> u_host a = u_host b \<and> u_port a = u_port b"
  unfolding same_origin_def using origin_some [of a] origin_some [of b] by (cases "origin a") force+

section \<open>The payload of a QR login\<close>

fun take_pair :: "rstr option \<times> rstr option \<Rightarrow> rstr \<times> rstr \<Rightarrow> (rstr option \<times> rstr option) option" where
  "take_pair (i, s) (key, v) =
     (if key = lit ''challenge_id'' \<and> i = None then Some (Some v, s)
      else if key = lit ''secret'' \<and> s = None then Some (i, Some v)
      else None)"

fun take_pairs :: "rstr option \<times> rstr option \<Rightarrow> (rstr \<times> rstr) list \<Rightarrow> (rstr option \<times> rstr option) option" where
  "take_pairs a [] = Some a"
| "take_pairs a (p # ps) = Option.bind (take_pair a p) (\<lambda>b. take_pairs b ps)"

definition query_pairs :: "wire \<Rightarrow> url \<Rightarrow> (rstr \<times> rstr) list" where
  "query_pairs W u = (case u_query u of None \<Rightarrow> [] | Some q \<Rightarrow> wl_query_parse W q)"

definition parse_qr_payload :: "url_lib \<Rightarrow> wire \<Rightarrow> rstr \<Rightarrow> client_error + (uuid \<times> rstr)" where
  "parse_qr_payload L W payload =
     (if byte_len (trim payload) > 2048 then Inl Invalid_response
      else case ul_parse L (trim payload) of
        None \<Rightarrow> Inl Invalid_response
      | Some u \<Rightarrow>
          if u_scheme u \<noteq> lit ''iamrust'' \<or> u_host u \<noteq> Some (Domain_host (lit ''auth''))
             \<or> u_path u \<noteq> lit ''/qr-login'' \<or> u_username u \<noteq> [] \<or> u_password u \<noteq> None
             \<or> u_port u \<noteq> None \<or> u_fragment u \<noteq> None
          then Inl Invalid_response
          else case take_pairs (None, None) (query_pairs W u) of
            None \<Rightarrow> Inl Invalid_response
          | Some (i, s) \<Rightarrow>
              (case Option.bind i (wl_uuid_parse W) of
                 None \<Rightarrow> Inl Invalid_response
               | Some challenge_id \<Rightarrow>
                   (case s of
                      None \<Rightarrow> Inl Invalid_response
                    | Some secret \<Rightarrow>
                        if byte_len secret \<noteq> 64 \<or> \<not> list_all is_ascii_hexdigit secret
                        then Inl Invalid_response else Inr (challenge_id, secret))))"

lemma take_pairs_some:
  assumes "take_pairs (None, None) ps = Some (Some i, Some s)"
  shows "ps = [(lit ''challenge_id'', i), (lit ''secret'', s)] \<or> ps = [(lit ''secret'', s), (lit ''challenge_id'', i)]"
proof -
  have none: "take_pairs (Some a, Some b) qs = Some r \<Longrightarrow> qs = [] \<and> r = (Some a, Some b)" for a b qs r
    by (cases qs) auto
  have left: "take_pairs (Some a, None) qs = Some (Some i, Some s) \<Longrightarrow> qs = [(lit ''secret'', s)] \<and> a = i" for a qs
    by (cases qs) (auto split: if_splits dest!: none)
  have right: "take_pairs (None, Some b) qs = Some (Some i, Some s) \<Longrightarrow> qs = [(lit ''challenge_id'', i)] \<and> b = s" for b qs
    by (cases qs) (auto split: if_splits dest!: none)
  show ?thesis
    using assms by (cases ps) (auto split: if_splits dest!: left right)
qed

text \<open>What an accepted payload is.\<close>

lemma parse_qr_payload_ok:
  assumes "parse_qr_payload L W payload = Inr (challenge_id, secret)"
  shows "byte_len (trim payload) \<le> 2048" "length (utf8 secret) = 64" "list_all is_ascii_hexdigit secret"
    and "\<exists>u i. ul_parse L (trim payload) = Some u \<and> u_scheme u = lit ''iamrust'' \<and> u_path u = lit ''/qr-login''
      \<and> u_host u = Some (Domain_host (lit ''auth'')) \<and> wl_uuid_parse W i = Some challenge_id
      \<and> set (query_pairs W u) = {(lit ''challenge_id'', i), (lit ''secret'', secret)}
      \<and> length (query_pairs W u) = 2"
proof -
  have *: "byte_len (trim payload) \<le> 2048 \<and> byte_len secret = 64 \<and> list_all is_ascii_hexdigit secret
      \<and> (\<exists>u i. ul_parse L (trim payload) = Some u \<and> u_scheme u = lit ''iamrust'' \<and> u_path u = lit ''/qr-login''
          \<and> u_host u = Some (Domain_host (lit ''auth'')) \<and> wl_uuid_parse W i = Some challenge_id
          \<and> take_pairs (None, None) (query_pairs W u) = Some (Some i, Some secret))"
    using assms by (auto simp: parse_qr_payload_def bind_eq_Some_conv split: if_splits option.splits)
  show "byte_len (trim payload) \<le> 2048" "length (utf8 secret) = 64" "list_all is_ascii_hexdigit secret"
    using * by (simp_all add: byte_len_def)
  show "\<exists>u i. ul_parse L (trim payload) = Some u \<and> u_scheme u = lit ''iamrust'' \<and> u_path u = lit ''/qr-login''
      \<and> u_host u = Some (Domain_host (lit ''auth'')) \<and> wl_uuid_parse W i = Some challenge_id
      \<and> set (query_pairs W u) = {(lit ''challenge_id'', i), (lit ''secret'', secret)}
      \<and> length (query_pairs W u) = 2"
    using * by (fastforce dest!: take_pairs_some)
qed

section \<open>Kinds of files\<close>

definition begins :: "u8 list \<Rightarrow> u8 list \<Rightarrow> bool" where
  "begins magic bytes \<longleftrightarrow> take (length magic) bytes = magic"

definition image_mime_type :: "u8 list \<Rightarrow> rstr option" where
  "image_mime_type bytes =
     (if begins [0x89, 0x50, 0x4E, 0x47, 0x0D, 0x0A, 0x1A, 0x0A] bytes then Some (lit ''image/png'')
      else if begins [0xFF, 0xD8, 0xFF] bytes then Some (lit ''image/jpeg'')
      else if begins (utf8 (lit ''GIF87a'')) bytes \<or> begins (utf8 (lit ''GIF89a'')) bytes then Some (lit ''image/gif'')
      else if length bytes \<ge> 12 \<and> begins (utf8 (lit ''RIFF'')) bytes
        \<and> take 4 (drop 8 bytes) = utf8 (lit ''WEBP'') then Some (lit ''image/webp'')
      else None)"

text \<open>By the extension of a path, when it has one that is text.\<close>

definition mime_type_from_path :: "rstr option \<Rightarrow> rstr" where
  "mime_type_from_path extension =
     (case map_option to_ascii_lowercase extension of
        None \<Rightarrow> lit ''application/octet-stream''
      | Some e \<Rightarrow>
          if e \<in> {lit ''txt'', lit ''log'', lit ''md''} then lit ''text/plain''
          else if e = lit ''json'' then lit ''application/json''
          else if e = lit ''csv'' then lit ''text/csv''
          else if e = lit ''pdf'' then lit ''application/pdf''
          else if e = lit ''zip'' then lit ''application/zip''
          else if e = lit ''mp3'' then lit ''audio/mpeg''
          else if e = lit ''wav'' then lit ''audio/wav''
          else if e = lit ''m4a'' then lit ''audio/mp4''
          else if e = lit ''mp4'' then lit ''video/mp4''
          else if e = lit ''webm'' then lit ''video/webm''
          else lit ''application/octet-stream'')"

definition hex_digest :: "u8 list \<Rightarrow> rstr" where
  "hex_digest bytes = to_hex bytes"

end
