(* ===== verification/Desk_Session.thy ===== *)
theory Desk_Session
  imports Wire_Responses Desk_Url
begin

text \<open>
  The session of the desktop client (\<open>apps/desktop/src/api.rs\<close>): its two tokens, how a request is sent and
  its answer read, and how an expired access token is renewed.

  The state is what the mutex \<open>session\<close> holds, and the world outside.  A device is what the operating
  system and the libraries do for the client: sending a request, reading JSON and URLs, and the keychain.
  Its operations act on the whole state, since other threads of the client may run meanwhile.
\<close>

record 'w desk =
  dk_access :: "rstr option"
  dk_refresh :: "rstr option"
  dk_world :: 'w

text \<open>An answer: no body when reading it fails.\<close>

record reply =
  rp_status :: nat
  rp_length :: "u64 option"
  rp_body :: "u8 list option"

record 'w device =
  dv_base :: url
  dv_urls :: url_lib
  dv_wire :: wire
  dv_build :: client_build
  dv_picture :: "rstr \<Rightarrow> rstr option"
  dv_json :: "u8 list \<Rightarrow> json option"
  dv_send :: "url \<Rightarrow> desk_request \<Rightarrow> rstr option \<Rightarrow> 'w desk \<Rightarrow> reply option \<times> 'w desk"
  dv_wait :: "'w desk \<Rightarrow> 'w desk"
  dv_save :: "rstr \<Rightarrow> 'w desk \<Rightarrow> bool \<times> 'w desk"
  dv_load :: "'w desk \<Rightarrow> rstr option option \<times> 'w desk"
  dv_clear :: "'w desk \<Rightarrow> bool \<times> 'w desk"

type_synonym ('w, 'a) op = "('w desk, client_error, 'a) eff"

section \<open>Reading an answer\<close>

definition MAX_RESPONSE_BYTES :: nat where
  "MAX_RESPONSE_BYTES = 32 * 1024 * 1024"

definition success_status :: "nat \<Rightarrow> bool" where
  "success_status s \<longleftrightarrow> 200 \<le> s \<and> s < 300"

text \<open>\<open>Value::get\<close>: of fields of the same name the last one counts.\<close>

definition json_get :: "string \<Rightarrow> json \<Rightarrow> json option" where
  "json_get k j = (case Wire_Json.fields j k of [] \<Rightarrow> None | vs \<Rightarrow> Some (last vs))"

definition parse_error :: "nat \<Rightarrow> json option \<Rightarrow> client_error" where
  "parse_error st parsed =
     (let body = (case parsed of Some j \<Rightarrow> j | None \<Rightarrow> JNull);
          text = (\<lambda>k otherwise. case Option.bind (json_get k body) str_of of
                    Some t \<Rightarrow> t | None \<Rightarrow> lit otherwise)
      in Request_error st (text ''code'' ''unknown'') (text ''message_key'' ''request_failed'')
           (case Option.bind (json_get ''retryable'' body) bool_of of
              Some b \<Rightarrow> b | None \<Rightarrow> is_server_error st))"

definition read_reply ::
  "(u8 list \<Rightarrow> json option) \<Rightarrow> (json \<Rightarrow> 'a option) \<Rightarrow> reply option \<Rightarrow> client_error + 'a" where
  "read_reply parse dec got =
     (case got of
        None \<Rightarrow> Inl Offline_error
      | Some rp \<Rightarrow>
          if (case rp_length rp of Some n \<Rightarrow> unat n > MAX_RESPONSE_BYTES | None \<Rightarrow> False)
          then Inl Invalid_response
          else (case rp_body rp of
            None \<Rightarrow> Inl Offline_error
          | Some bytes \<Rightarrow>
              if length bytes > MAX_RESPONSE_BYTES then Inl Invalid_response
              else if \<not> success_status (rp_status rp) then Inl (parse_error (rp_status rp) (parse bytes))
              else (case (if rp_status rp = 204 then dec JNull else Option.bind (parse bytes) dec) of
                      None \<Rightarrow> Inl Invalid_response
                    | Some x \<Rightarrow> Inr x)))"

section \<open>The operations\<close>

definition send_json ::
  "'w device \<Rightarrow> (json \<Rightarrow> 'a option) \<Rightarrow> desk_request \<Rightarrow> rstr option \<Rightarrow> ('w, 'a) op" where
  "send_json D dec r access =
     bnd (lift (safe_url (dv_urls D) (dv_base D) (dr_path r))) (\<lambda>u.
     bnd (\<lambda>d. case dv_send D u r access d of (got, d) \<Rightarrow> (Inr got, d)) (\<lambda>got.
     lift (read_reply (dv_json D) dec got)))"

definition accept_session :: "'w device \<Rightarrow> session_response \<Rightarrow> ('w, unit) op" where
  "accept_session D s =
     bnd (\<lambda>d. case dv_save D (ssr_refresh_token s) d of (saved, d) \<Rightarrow> (Inr saved, d)) (\<lambda>saved.
     if \<not> saved then throw Credential_store_error
     else modify (\<lambda>d. d\<lparr>dk_access := Some (ssr_access_token s), dk_refresh := Some (ssr_refresh_token s)\<rparr>))"

definition clear_session :: "'w device \<Rightarrow> ('w, unit) op" where
  "clear_session D =
     bnd (modify (\<lambda>d. d\<lparr>dk_access := None, dk_refresh := None\<rparr>)) (\<lambda>_.
     modify (\<lambda>d. snd (dv_clear D d)))"

definition lock_refresh_gate :: "'w device \<Rightarrow> ('w, unit) op" where
  "lock_refresh_gate D = modify (dv_wait D)"

definition session_answer :: "'w device \<Rightarrow> json \<Rightarrow> session_response option" where
  "session_answer D = session_response_of (dv_wire D) (dv_picture D)"

definition request_of :: "'w device \<Rightarrow> desk_call \<Rightarrow> desk_request" where
  "request_of D c = call_request (dv_wire D) (dv_build D) c"

definition or_required :: "'a option \<Rightarrow> ('w, 'a) op" where
  "or_required v = (case v of Some x \<Rightarrow> ret x | None \<Rightarrow> throw authentication_required)"

definition refresh_session :: "'w device \<Rightarrow> ('w, session_response) op" where
  "refresh_session D =
     bnd (bnd (gets dk_refresh) or_required) (\<lambda>refresh_token.
     bnd (send_json D (session_answer D) (request_of D (Account_call (Refresh_call refresh_token))) None) (\<lambda>s.
     bnd (accept_session D s) (\<lambda>_. ret s)))"

definition is_unauthorized :: "client_error \<Rightarrow> bool" where
  "is_unauthorized e = (case e of Request_error st _ _ _ \<Rightarrow> st = 401 | _ \<Rightarrow> False)"

text \<open>The result of an operation as a value, as \<open>match\<close> has it.\<close>

definition outcome :: "('w, 'a) op \<Rightarrow> ('w, client_error + 'a) op" where
  "outcome m = (\<lambda>d. case m d of (r, d) \<Rightarrow> (Inr r, d))"

definition renew :: "'w device \<Rightarrow> rstr \<Rightarrow> ('w, unit) op" where
  "renew D access =
     bnd (gets dk_access) (\<lambda>latest.
     if latest = Some access then
       bnd (outcome (refresh_session D)) (\<lambda>r.
       case r of
         Inr _ \<Rightarrow> ret ()
       | Inl e \<Rightarrow> bnd (if is_unauthorized e then clear_session D else ret ()) (\<lambda>_. throw e))
     else ret ())"

definition authorized_json ::
  "'w device \<Rightarrow> (json \<Rightarrow> 'a option) \<Rightarrow> desk_request \<Rightarrow> ('w, 'a) op" where
  "authorized_json D dec r =
     bnd (bnd (gets dk_access) or_required) (\<lambda>access.
     bnd (outcome (send_json D dec r (Some access))) (\<lambda>result.
     case result of
       Inr x \<Rightarrow> ret x
     | Inl e \<Rightarrow>
         if \<not> is_unauthorized e then throw e
         else bnd (lock_refresh_gate D) (\<lambda>_.
              bnd (renew D access) (\<lambda>_.
              bnd (bnd (gets dk_access) or_required) (\<lambda>latest.
              send_json D dec r (Some latest))))))"

section \<open>Signing in and out\<close>

definition authenticate :: "'w device \<Rightarrow> desk_call \<Rightarrow> ('w, session_response) op" where
  "authenticate D c =
     bnd (send_json D (session_answer D) (request_of D c) None) (\<lambda>s.
     bnd (accept_session D s) (\<lambda>_. ret s))"

definition desk_login :: "'w device \<Rightarrow> rstr \<Rightarrow> rstr \<Rightarrow> rstr option \<Rightarrow> ('w, session_response) op" where
  "desk_login D name password code = authenticate D (Account_call (Login_call name password code))"

definition desk_register :: "'w device \<Rightarrow> rstr \<Rightarrow> rstr \<Rightarrow> rstr \<Rightarrow> rstr \<Rightarrow> ('w, session_response) op" where
  "desk_register D email username password nickname =
     authenticate D (Account_call (Register_call email username password nickname))"

text \<open>Answers nothing is read from are decoded as \<open>Value\<close>.\<close>

definition any_value :: "json \<Rightarrow> json option" where
  "any_value j = Some j"

definition unread :: "('w, 'a) op \<Rightarrow> ('w, unit) op" where
  "unread m = bnd m (\<lambda>_. ret ())"

definition desk_request_password_reset :: "'w device \<Rightarrow> rstr \<Rightarrow> ('w, unit) op" where
  "desk_request_password_reset D email =
     unread (send_json D any_value (request_of D (Account_call (Request_password_reset_call email))) None)"

definition desk_confirm_password_reset :: "'w device \<Rightarrow> rstr \<Rightarrow> rstr \<Rightarrow> ('w, unit) op" where
  "desk_confirm_password_reset D token new_password =
     unread (send_json D any_value (request_of D (Account_call (Confirm_password_reset_call token new_password))) None)"

definition desk_begin_qr_login :: "'w device \<Rightarrow> ('w, qr_login_challenge_info) op" where
  "desk_begin_qr_login D =
     send_json D (qr_login_start_response_of (dv_wire D)) (request_of D (Account_call Begin_qr_login_call)) None"

definition desk_poll_qr_login ::
  "'w device \<Rightarrow> qr_login_challenge_info \<Rightarrow> ('w, session_response option) op" where
  "desk_poll_qr_login D challenge =
     bnd (send_json D (qr_login_poll_response_of (dv_wire D) (dv_picture D))
           (request_of D (Account_call (Poll_qr_login_call (qri_challenge_id challenge) (qri_secret challenge)))) None)
       (\<lambda>(st, session).
     if st = Qr_pending then ret None
     else case session of
       None \<Rightarrow> throw Invalid_response
     | Some s \<Rightarrow> bnd (accept_session D s) (\<lambda>_. ret (Some s)))"

definition desk_approve_qr_payload :: "'w device \<Rightarrow> rstr \<Rightarrow> ('w, unit) op" where
  "desk_approve_qr_payload D payload =
     bnd (lift (parse_qr_payload (dv_urls D) (dv_wire D) payload)) (\<lambda>(challenge_id, secret).
     unread (authorized_json D any_value (request_of D (Account_call (Approve_qr_call challenge_id secret)))))"

definition desk_restore :: "'w device \<Rightarrow> ('w, session_response option) op" where
  "desk_restore D =
     bnd (\<lambda>d. case dv_load D d of (loaded, d) \<Rightarrow> (Inr loaded, d)) (\<lambda>loaded.
     case loaded of
       None \<Rightarrow> throw Credential_store_error
     | Some None \<Rightarrow> ret None
     | Some (Some old_token) \<Rightarrow>
         bnd (modify (\<lambda>d. d\<lparr>dk_refresh := Some old_token\<rparr>)) (\<lambda>_.
         bnd (lock_refresh_gate D) (\<lambda>_.
         bnd (outcome (refresh_session D)) (\<lambda>r.
         case r of
           Inr s \<Rightarrow> ret (Some s)
         | Inl e \<Rightarrow> if is_unauthorized e then bnd (clear_session D) (\<lambda>_. ret None) else throw e))))"

definition desk_logout :: "'w device \<Rightarrow> ('w, unit) op" where
  "desk_logout D =
     bnd (gets dk_refresh) (\<lambda>old_token.
     bnd (case old_token of
            Some token \<Rightarrow> unread (outcome
              (send_json D any_value (request_of D (Account_call (Logout_call token))) None))
          | None \<Rightarrow> ret ()) (\<lambda>_.
     clear_session D))"

section \<open>Authorized calls\<close>

text \<open>Every other method: \<open>dec\<close> reads the type it returns, \<open>any_value\<close> when it returns nothing.\<close>

definition authorized_call :: "'w device \<Rightarrow> (json \<Rightarrow> 'a option) \<Rightarrow> desk_call \<Rightarrow> ('w, 'a) op" where
  "authorized_call D dec c = authorized_json D dec (request_of D c)"

text \<open>\<open>websocket_session\<close>: the address to connect to, with the ticket, and the first frame.\<close>

definition with_pair :: "wire \<Rightarrow> string \<Rightarrow> rstr \<Rightarrow> url \<Rightarrow> url" where
  "with_pair W k v u = u\<lparr>u_query := Some (case u_query u of
     None \<Rightarrow> query_text W [(lit k, v)] | Some q \<Rightarrow> q @ 38 # query_text W [(lit k, v)])\<rparr>"

definition websocket_session :: "'w device \<Rightarrow> u64 \<Rightarrow> ('w, url \<times> client_frame) op" where
  "websocket_session D last_cursor =
     bnd (authorized_call D (websocket_ticket_response_of (dv_wire D)) (Message_call Websocket_ticket_call)) (\<lambda>(ticket, _).
     bnd (lift (safe_url (dv_urls D) (dv_base D) (lit ''/api/v1/ws''))) (\<lambda>u.
     ret (with_pair (dv_wire D) ''ticket'' ticket
            (u\<lparr>u_scheme := (if u_scheme u = lit ''https'' then lit ''wss'' else lit ''ws'')\<rparr>),
          CfHello WS_PROTOCOL_VERSION (cb_version (dv_build D)) [] last_cursor)))"

end
