(* ===== verification/Desk_Files.thy ===== *)
theory Desk_Files
  imports Desk_Session
begin

text \<open>
  Files sent and received by the desktop client: \<open>upload_file\<close> and \<open>download_attachment\<close> of
  \<open>apps/desktop/src/api.rs\<close>.

  A disk is what the file system and the transfer requests do for the client: a transfer is sent to the
  address the server authorized; the body of a download arrives as the results of successive reads, the
  last one followed by the end of the stream; what was written to the temporary file becomes a file with
  \<open>dd_persist\<close>, which replaces none.  The texts of local errors stand for the client's Chinese ones.
\<close>

record file_path =
  fp_name :: "rstr option"
  fp_extension :: "rstr option"
  fp_parent :: "rstr option"
  fp_text :: rstr

record 'w disk =
  dd_crypto :: crypto
  dd_header_name :: "rstr \<Rightarrow> bool"
  dd_header_value :: "rstr \<Rightarrow> bool"
  dd_metadata :: "file_path \<Rightarrow> 'w desk \<Rightarrow> (bool \<times> u64) option"
  dd_read :: "file_path \<Rightarrow> 'w desk \<Rightarrow> u8 list option"
  dd_canonical :: "rstr \<Rightarrow> 'w desk \<Rightarrow> rstr option"
  dd_exists :: "rstr \<times> rstr \<Rightarrow> 'w desk \<Rightarrow> bool"
  dd_temporary :: "rstr \<Rightarrow> 'w desk \<Rightarrow> bool"
  dd_write :: "nat \<Rightarrow> u8 list \<Rightarrow> bool"
  dd_sync :: "u8 list \<Rightarrow> bool"
  dd_persist :: "rstr \<times> rstr \<Rightarrow> u8 list \<Rightarrow> 'w desk \<Rightarrow> bool \<times> 'w desk"
  dd_put :: "url \<Rightarrow> (rstr \<times> rstr) list \<Rightarrow> u8 list \<Rightarrow> 'w desk \<Rightarrow> nat option \<times> 'w desk"
  dd_get :: "url \<Rightarrow> 'w desk \<Rightarrow> (nat \<times> u64 option \<times> u8 list option list) option \<times> 'w desk"

definition MAX_UPLOAD_BYTES :: u64 where "MAX_UPLOAD_BYTES = 104857600"
definition MAX_DOWNLOAD_BYTES :: u64 where "MAX_DOWNLOAD_BYTES = 104857600"
definition MAX_IMAGE_BYTES :: nat where "MAX_IMAGE_BYTES = 25 * 1024 * 1024"

definition failed_transfer :: "string \<Rightarrow> nat \<Rightarrow> client_error" where
  "failed_transfer key st = Request_error st (lit key) (lit key) (is_server_error st)"

text \<open>\<open>Option::ok_or\<close> and an early return in an operation.\<close>

definition ok_or_fail :: "'a option \<Rightarrow> client_error \<Rightarrow> ('w, 'a) op" where
  "ok_or_fail v e = lift (ok_or v e)"

section \<open>Sending a file\<close>

definition upload_name :: "file_path \<Rightarrow> rstr option" where
  "upload_name p = Option.bind (map_option trim (fp_name p))
     (\<lambda>n. if n \<noteq> [] \<and> length n \<le> 255 then Some n else None)"

text \<open>The checks before anything is sent: the size from the metadata, the name, the bytes and the type.\<close>

definition chosen_file ::
  "'w disk \<Rightarrow> file_path \<Rightarrow> bool \<Rightarrow> ('w, u64 \<times> rstr \<times> u8 list \<times> rstr) op" where
  "chosen_file F p image_only =
     bnd (bnd (gets (dd_metadata F p)) (\<lambda>m. ok_or_fail m (Local_file ''the chosen file cannot be read''))) (\<lambda>(is_file, len).
     bnd (fail_if (\<not> is_file \<or> len = 0 \<or> len > MAX_UPLOAD_BYTES)
            (Local_file ''a file must have between 1 byte and 100 MiB'')) (\<lambda>_.
     bnd (ok_or_fail (upload_name p) (Local_file ''the name of the file is invalid'')) (\<lambda>file_name.
     bnd (bnd (gets (dd_read F p)) (\<lambda>b. ok_or_fail b (Local_file ''the chosen file cannot be read''))) (\<lambda>bytes.
     bnd (fail_if (image_only \<and> image_mime_type bytes = None)
            (Local_file ''choose a PNG, JPEG, GIF or WebP picture'')) (\<lambda>_.
     bnd (fail_if (image_only \<and> length bytes > MAX_IMAGE_BYTES)
            (Local_file ''a picture has at most 25 MiB'')) (\<lambda>_.
     ret (len, file_name, bytes, case image_mime_type bytes of
            Some t \<Rightarrow> t | None \<Rightarrow> mime_type_from_path (fp_extension p))))))))"

definition transfer_url :: "'w device \<Rightarrow> rstr \<Rightarrow> ('w, url) op" where
  "transfer_url D address =
     bnd (ok_or_fail (ul_parse (dv_urls D) address) Invalid_response) (\<lambda>u.
     bnd (fail_if (\<not> is_safe_transfer_url u) Invalid_response) (\<lambda>_. ret u))"

definition desk_upload_file ::
  "'w device \<Rightarrow> 'w disk \<Rightarrow> file_path \<Rightarrow> bool \<Rightarrow> ('w, attachment \<times> rstr) op" where
  "desk_upload_file D F p image_only =
     bnd (chosen_file F p image_only) (\<lambda>(len, file_name, bytes, mime_type).
     bnd (authorized_call D (upload_authorization_response_of (dv_wire D)) (Message_call (Authorize_upload_call
            \<lparr>uar_file_name = file_name, uar_mime_type = mime_type, uar_byte_size = len,
             uar_sha256 = Some (hex_digest (c_sha256 (dd_crypto F) bytes))\<rparr>))) (\<lambda>authorization.
     bnd (transfer_url D (uas_upload_url authorization)) (\<lambda>u.
     bnd (fail_if (list_ex (\<lambda>(n, v). \<not> dd_header_name F n \<or> \<not> dd_header_value F v) (uas_required_headers authorization))
            Invalid_response) (\<lambda>_.
     bnd (\<lambda>d. case dd_put F u (uas_required_headers authorization) bytes d of (st, d) \<Rightarrow> (Inr st, d)) (\<lambda>sent.
     bnd (ok_or_fail sent Offline_error) (\<lambda>st.
     bnd (fail_if (\<not> success_status st) (failed_transfer ''upload_failed'' st)) (\<lambda>_.
     bnd (authorized_call D (complete_upload_response_of (dv_wire D))
            (Message_call (Complete_upload_call (uas_attachment_id authorization)))) (\<lambda>completed.
     bnd (fail_if (att_id (fst completed) \<noteq> uas_attachment_id authorization \<or> att_byte_size (fst completed) \<noteq> len)
            Invalid_response) (\<lambda>_.
     ret completed)))))))))"

section \<open>Receiving a file\<close>

text \<open>The loop over the reads: what has been received so far, and the bytes written.\<close>

definition saturating_sum :: "nat \<Rightarrow> nat \<Rightarrow> nat" where
  "saturating_sum a b = min (a + b) (2 ^ 64 - 1)"

fun receive_chunks ::
  "'w disk \<Rightarrow> nat \<Rightarrow> nat \<Rightarrow> u8 list \<Rightarrow> u8 list option list \<Rightarrow> client_error + nat \<times> u8 list" where
  "receive_chunks F expected_len received written [] = Inr (received, written)"
| "receive_chunks F expected_len received written (None # rs) = Inl Offline_error"
| "receive_chunks F expected_len received written (Some chunk # rs) =
     (if chunk = [] then Inr (received, written)
      else let received = saturating_sum received (length chunk) in
        if received > expected_len \<or> received > unat MAX_DOWNLOAD_BYTES then Inl Invalid_response
        else if \<not> dd_write F (length written) chunk then Inl (Local_file ''the download cannot be written'')
        else receive_chunks F expected_len received (written @ chunk) rs)"

definition digest_matches :: "crypto \<Rightarrow> attachment \<Rightarrow> u8 list \<Rightarrow> bool" where
  "digest_matches C a bytes = (case att_sha256 a of None \<Rightarrow> True
     | Some expected \<Rightarrow> eq_ignore_ascii_case (hex_digest (c_sha256 C bytes)) expected)"

definition desk_download_attachment ::
  "'w device \<Rightarrow> 'w disk \<Rightarrow> attachment \<Rightarrow> file_path \<Rightarrow> ('w, rstr \<times> rstr) op" where
  "desk_download_attachment D F a p =
     bnd (fail_if (att_byte_size a = 0 \<or> att_byte_size a > MAX_DOWNLOAD_BYTES) Invalid_response) (\<lambda>_.
     bnd (ok_or_fail (Option.bind (fp_name p) (\<lambda>n. if trim n \<noteq> [] then Some n else None))
            (Local_file ''the name to save under is invalid'')) (\<lambda>file_name.
     bnd (ok_or_fail (fp_parent p) (Local_file ''the directory to save in is invalid'')) (\<lambda>directory.
     bnd (bnd (gets (dd_canonical F directory))
            (\<lambda>c. ok_or_fail c (Local_file ''the directory to save in is unavailable''))) (\<lambda>directory.
     bnd (bnd (gets (dd_exists F (directory, file_name)))
            (\<lambda>there. fail_if there (Local_file ''the file exists already''))) (\<lambda>_.
     bnd (authorized_call D (download_authorization_response_of (dv_wire D))
            (Message_call (Authorize_download_call (att_id a)))) (\<lambda>(authorized, address, _).
     bnd (fail_if (att_id authorized \<noteq> att_id a \<or> att_byte_size authorized \<noteq> att_byte_size a)
            Invalid_response) (\<lambda>_.
     bnd (transfer_url D address) (\<lambda>u.
     bnd (\<lambda>d. case dd_get F u d of (g, d) \<Rightarrow> (Inr g, d)) (\<lambda>got.
     bnd (ok_or_fail got Offline_error) (\<lambda>(st, len, reads).
     bnd (fail_if (\<not> success_status st) (failed_transfer ''download_failed'' st)) (\<lambda>_.
     bnd (fail_if (case len of Some n \<Rightarrow> n \<noteq> att_byte_size a | None \<Rightarrow> False) Invalid_response) (\<lambda>_.
     bnd (bnd (gets (dd_temporary F directory))
            (\<lambda>made. fail_if (\<not> made) (Local_file ''the temporary file cannot be created''))) (\<lambda>_.
     bnd (lift (receive_chunks F (unat (att_byte_size a)) 0 [] reads)) (\<lambda>(received, written).
     bnd (fail_if (received \<noteq> unat (att_byte_size a) \<or> \<not> digest_matches (dd_crypto F) authorized written)
            Invalid_response) (\<lambda>_.
     bnd (fail_if (\<not> dd_sync F written) (Local_file ''the download cannot be written'')) (\<lambda>_.
     bnd (\<lambda>d. case dd_persist F (directory, file_name) written d of (done, d) \<Rightarrow> (Inr done, d)) (\<lambda>done.
     bnd (fail_if (\<not> done) (Local_file ''the file cannot be saved'')) (\<lambda>_.
     ret (directory, file_name)))))))))))))))))))"

section \<open>What is saved\<close>

lemma receive_chunks_all:
  assumes "receive_chunks F expected_len received written rs = Inr (n, bytes)" "received = length written"
  shows "n = length bytes"
  using assms
proof (induction rs arbitrary: received written)
  case (Cons r rs)
  show ?case
  proof (cases r)
    case None
    then show ?thesis using Cons.prems by simp
  next
    case (Some chunk)
    show ?thesis
    proof (cases "chunk = []")
      case False
      let ?r = "saturating_sum received (length chunk)"
      have ok: "\<not> (?r > unat MAX_DOWNLOAD_BYTES)" "receive_chunks F expected_len ?r (written @ chunk) rs = Inr (n, bytes)"
        using Cons.prems(1) Some False by (auto simp: Let_def split: if_splits)
      have "?r = length (written @ chunk)"
        using ok(1) Cons.prems(2) by (auto simp: saturating_sum_def min_def MAX_DOWNLOAD_BYTES_def split: if_splits)
      from Cons.IH [OF ok(2) this] show ?thesis .
    qed (use Cons.prems Some in auto)
  qed
qed simp

text \<open>A run of a chain of operations that ends well, taken apart.\<close>

lemma bnd_Inr: "bnd m f d = (Inr y, d') \<longleftrightarrow> (\<exists>x d1. m d = (Inr x, d1) \<and> f x d1 = (Inr y, d'))"
  by (auto simp: run_bnd split: prod.splits sum.splits)

lemma fail_if_Inr: "fail_if b e d = (Inr x, d') \<longleftrightarrow> \<not> b \<and> d' = d"
  by (auto simp: fail_if_def)

lemma ok_or_fail_Inr: "ok_or_fail v e d = (Inr x, d') \<longleftrightarrow> v = Some x \<and> d' = d"
  by (auto simp: ok_or_fail_def)

lemma lift_Inr: "lift r d = (Inr x, d') \<longleftrightarrow> r = Inr x \<and> d' = d"
  by auto

lemmas run_Inr = bnd_Inr fail_if_Inr ok_or_fail_Inr lift_Inr


text \<open>An upload that succeeds: what was sent, where, and what the server says it is.\<close>

lemma uploads_are_checked:
  assumes "desk_upload_file D F p image_only d = (Inr completed, d')"
  shows "\<exists>bytes len name u hs d1 st.
      dd_metadata F p d = Some (True, len) \<and> 0 < len \<and> len \<le> MAX_UPLOAD_BYTES
    \<and> dd_read F p d = Some bytes \<and> (image_only \<longrightarrow> image_mime_type bytes \<noteq> None \<and> length bytes \<le> MAX_IMAGE_BYTES)
    \<and> upload_name p = Some name \<and> is_safe_transfer_url u \<and> fst (dd_put F u hs bytes d1) = Some st \<and> success_status st
    \<and> att_byte_size (fst completed) = len"
  using assms unfolding desk_upload_file_def chosen_file_def transfer_url_def run_Inr split_beta
  by (auto simp: run_Inr split_beta word_neq_0_conv not_less; blast)

end
