(* ===== verification/Desk_Server.thy ===== *)
theory Desk_Server
  imports Desk_Routing Desk_Session
begin

text \<open>
  The desktop client and the server together: what two requests of the client do in the server, and how
  the client takes the answers.
\<close>

section \<open>A member's mute is not lifted\<close>

definition members_of :: "txn \<Rightarrow> conversation_id \<Rightarrow> (user_id, conversation_member) btree option" where
  "members_of s cid = map_option conv_members (hm_get cid (st_conversations s))"

definition same_members :: "txn \<Rightarrow> txn \<Rightarrow> bool" where
  "same_members s s' \<longleftrightarrow> members_of s' = members_of s"

interpretation members: effect_preorder same_members
  by unfold_locales (auto simp: same_members_def)

lemmas members_intros = members.guar_ret members.guar_throw members.guar_gets members.guar_lift
  members.guar_fail_if members.guar_bnd members.guar_if members.guar_let

lemma members_new_uuid: "guar same_members new_uuid"
  by (simp add: guar_def new_uuid_def same_members_def members_of_def fun_eq_iff)

lemma members_append_event: "guar same_members (append_event recipients kind payload now)"
  unfolding append_event_def
  by (intro members_intros members_new_uuid members.guar_modify)
    (simp_all add: same_members_def members_of_def fun_eq_iff)

lemma members_touch: "guar same_members (touch_conversation cid now)"
  by (auto simp: guar_def touch_conversation_def same_members_def members_of_def fun_eq_iff split: option.split)

lemma members_get: "guar same_members (get_conversation cid)"
  unfolding get_conversation_def found_def
  by (intro members_intros)

lemma members_system_message: "guar same_members (append_system_message cid actor t now)"
proof -
  have "guar same_members (push_message cid m)" for m
    by (simp add: guar_def push_message_def same_members_def members_of_def fun_eq_iff)
  then show ?thesis
    unfolding append_system_message_def dom_def
    by (intro members_intros members_get members_new_uuid members_touch members_append_event)
qed

definition no_change :: update_group_member_request where
  "no_change = \<lparr>ugm_nickname = None, ugm_role = None, ugm_muted_until = None\<rparr>"

lemma update_nothing: "bt_update k (apply_member_update no_change) m = m"
  by (induction m) (auto simp: bt_update_def apply_member_update_def no_change_def Let_def)

lemma no_change_fields [simp]:
  "ugm_nickname no_change = None" "ugm_role no_change = None" "ugm_muted_until no_change = None"
  by (simp_all add: no_change_def)

lemma bnd_get_conversation:
  "bnd (get_conversation cid) f s =
     (case hm_get cid (st_conversations s) of None \<Rightarrow> (Inl NotFound, s) | Some c \<Rightarrow> f c s)"
  by (simp add: get_conversation_def found_def run_bnd ok_or_def split: option.split)

lemma members_update_nothing: "guar same_members (update_group_member_tx actor cid target no_change now)"
proof (rule guarI)
  fix s
  have tail: "guar same_members (bnd (append_system_message cid actor t now) (\<lambda>_.
      bnd (append_event rs k p now) (\<lambda>_. ret c)))" for t rs k p and c :: conversation
    by (intro members_intros members_system_message members_append_event)
  have put: "same_members s (s\<lparr>st_conversations := hm_insert cid
      (c\<lparr>conv_members := conv_members c, conv_updated_at := now\<rparr>) (st_conversations s)\<rparr>)"
    if "hm_get cid (st_conversations s) = Some c" for c
    by (auto simp: same_members_def members_of_def that fun_eq_iff)
  show "same_members s (snd (update_group_member_tx actor cid target no_change now s))"
    using put by (auto simp: update_group_member_tx_def bnd_get_conversation Let_def put_conversation_def
        update_nothing members.refl split: option.split sum.split
        intro: members.trans [OF _ tail [unfolded guar_def, rule_format]])
qed

lemma members_mutate:
  assumes "guar same_members operation" "mutate operation sv = (r, sv')"
  shows "same_members (svc_txn sv) (svc_txn sv')"
proof -
  have undone: "same_members (svc_txn sv) (restore (svc_txn sv) s)" for s
    by (simp add: same_members_def members_of_def restore_def fun_eq_iff)
  show ?thesis
    by (rule mutate_cases [of operation sv]) (use assms(2) in \<open>auto simp: undone dest: guarD [OF assms(1)]\<close>)
qed

lemma members_update_group_member:
  "update_group_member actor cid target no_change now sv = (r, sv') \<Longrightarrow> same_members (svc_txn sv) (svc_txn sv')"
  using members_mutate [OF members_update_nothing] by (simp add: update_group_member_def)

lemma current_user_service: "ap_service (snd (current_user C rq a)) = ap_service a"
  by (auto simp: current_user_def refuse_def look_def view_def answer_def draw_id_def run_bnd
      split: option.split sum.split)

lemma members_served:
  "same_members (svc_txn (ap_service a))
     (svc_txn (ap_service (snd (serve_http H rq (Group_route (Update_group_member c u no_change)) a))))"
proof -
  obtain r a' where user: "current_user (hl_crypto H) rq a = (r, a')" and sv: "ap_service a' = ap_service a"
    using current_user_service [of "hl_crypto H" rq a] by (metis prod.collapse)
  have "same_members (svc_txn (ap_service a))
      (svc_txn (ap_service (snd (update_group_member_h H rq c u no_change a))))"
    using user sv
    by (auto simp: update_group_member_h_def as_user_def run_bnd call_def attempt_def answer_def draw_id_def
        reply_def members.refl split: sum.split prod.split dest: members_update_group_member)
  then show ?thesis
    by (auto simp: serve_http_def observe_http_request_def status_def run_bnd split: prod.split sum.split option.split)
qed


section \<open>A password reset is reported as failed\<close>

text \<open>The body of the answer to \<open>/auth/password-reset/request\<close> is empty, its status 202; the server sends
  one whenever the handler does not refuse.  No JSON value is written as no bytes.\<close>

definition reset_reply :: "nat \<Rightarrow> reply" where
  "reset_reply n = \<lparr>rp_status = n, rp_length = Some 0, rp_body = Some []\<rparr>"

lemma reset_accepted:
  assumes "request_password_reset_h H rq email a = (Inr (n, x), a')"
  shows "n = 202"
  using assms
  by (auto simp: request_password_reset_h_def run_bnd reply_def split: sum.splits prod.splits option.splits if_splits)

text \<open>When the server accepts a request to reset a password, the desktop client reports an invalid
  answer: it reads JSON from the empty body of the answer with status 202.\<close>

theorem accepted_reset_reads_as_failed:
  assumes "request_password_reset_h H rq email a = (Inr (n, x), a')" "parse [] = None"
  shows "read_reply parse any_value (Some (reset_reply n)) = Inl Invalid_response"
  using reset_accepted [OF assms(1)] assms(2)
  by (simp add: read_reply_def reset_reply_def success_status_def MAX_RESPONSE_BYTES_def)

end
