(* ===== verification/Desk_Threads.thy ===== *)
theory Desk_Threads
  imports Desk_Session
begin

text \<open>
  The threads of the desktop client that share one session (\<open>authorized_json\<close>, \<open>refresh_session\<close>,
  \<open>accept_session\<close>, \<open>clear_session\<close>, \<open>logout\<close> and \<open>authenticate\<close> of \<open>apps/desktop/src/api.rs\<close>), cut where
  another thread can run: at each lock of \<open>session\<close>, at the lock of \<open>refresh_gate\<close>, at each request and at
  each access to the keychain.

  The server issues sessions one after the other; \<open>A n\<close> and \<open>R n\<close> are the tokens of the \<open>n\<close>-th one.
  \<open>restore\<close> runs once, before the other threads, and is not a step here.  The fields from \<open>th_issued\<close> on
  record what happened and are not read by the program.
\<close>

section \<open>State\<close>

text \<open>Where a thread is.  The flag says that it holds the gate, as a thread that renews the session does;
  one that signs in or out does not.\<close>

datatype pc =
    Ready
  | Call_sent rstr
  | Gate_wanted rstr
  | Gate_held rstr
  | Renew_due rstr
  | Refresh_sent
  | Session_got nat bool
  | Session_saved nat bool
  | Clear_due bool
  | Cleared bool
  | Retry_due
  | Retry_sent
  | Login_sent
  | Logout_sent

record threads =
  th_access :: "rstr option"
  th_refresh :: "rstr option"
  th_keychain :: "rstr option"
  th_gate :: "nat option"
  th_pc :: "nat \<Rightarrow> pc"
  th_issued :: nat
  th_presented :: "rstr list"
  th_renewed :: "rstr list"
  th_lost :: bool

text \<open>What can happen next in a thread: an answer \<open>Fails\<close> when it is neither a success nor a refusal with
  status 401, \<open>Fails True\<close> when the server had issued a session.\<close>

datatype event =
    Start_call | Start_login | Start_logout
  | Proceed
  | Answered | Refused_401 | Fails bool
  | Save_fails

definition at :: "nat \<Rightarrow> pc \<Rightarrow> threads \<Rightarrow> threads" where
  "at i p s = s\<lparr>th_pc := (th_pc s)(i := p)\<rparr>"

text \<open>The end of a thread's work; its guard of the gate is dropped.\<close>

definition leave :: "nat \<Rightarrow> bool \<Rightarrow> threads \<Rightarrow> threads" where
  "leave i holding s = at i Ready (if holding then s\<lparr>th_gate := None\<rparr> else s)"

section \<open>Steps\<close>

definition step :: "(nat \<Rightarrow> rstr) \<Rightarrow> (nat \<Rightarrow> rstr) \<Rightarrow> nat \<Rightarrow> event \<Rightarrow> threads \<Rightarrow> threads option" where
  "step A R i e s = (case th_pc s i of
     Ready \<Rightarrow> (case e of
         Start_call \<Rightarrow> Some (case th_access s of Some a \<Rightarrow> at i (Call_sent a) s | None \<Rightarrow> s)
       | Start_login \<Rightarrow> Some (at i Login_sent s)
       | Start_logout \<Rightarrow> Some (at i (if th_refresh s = None then Clear_due False else Logout_sent) s)
       | _ \<Rightarrow> None)
   | Call_sent a \<Rightarrow> (case e of
         Answered \<Rightarrow> Some (at i Ready s)
       | Fails _ \<Rightarrow> Some (at i Ready s)
       | Refused_401 \<Rightarrow> Some (at i (Gate_wanted a) s)
       | _ \<Rightarrow> None)
   | Gate_wanted a \<Rightarrow>
       if e = Proceed \<and> th_gate s = None then Some (at i (Gate_held a) (s\<lparr>th_gate := Some i\<rparr>)) else None
   | Gate_held a \<Rightarrow>
       if e = Proceed then Some (at i (if th_access s = Some a then Renew_due a else Retry_due) s) else None
   | Renew_due a \<Rightarrow>
       if e = Proceed then Some (case th_refresh s of
           Some t \<Rightarrow> at i Refresh_sent
             (s\<lparr>th_presented := th_presented s @ [t], th_renewed := th_renewed s @ [a]\<rparr>)
         | None \<Rightarrow> at i (Clear_due True) s) else None
   | Refresh_sent \<Rightarrow> (case e of
         Answered \<Rightarrow> Some (at i (Session_got (th_issued s) True) (s\<lparr>th_issued := Suc (th_issued s)\<rparr>))
       | Refused_401 \<Rightarrow> Some (at i (Clear_due True) s)
       | Fails issued \<Rightarrow> Some (leave i True
           (s\<lparr>th_lost := True, th_issued := (if issued then Suc (th_issued s) else th_issued s)\<rparr>))
       | _ \<Rightarrow> None)
   | Session_got n g \<Rightarrow> (case e of
         Proceed \<Rightarrow> Some (at i (Session_saved n g) (s\<lparr>th_keychain := Some (R n)\<rparr>))
       | Save_fails \<Rightarrow> Some (leave i g (s\<lparr>th_lost := (th_lost s \<or> g)\<rparr>))
       | _ \<Rightarrow> None)
   | Session_saved n g \<Rightarrow>
       if e = Proceed then Some (at i (if g then Retry_due else Ready)
         (s\<lparr>th_access := Some (A n), th_refresh := Some (R n)\<rparr>)) else None
   | Clear_due g \<Rightarrow>
       if e = Proceed then Some (at i (Cleared g) (s\<lparr>th_access := None, th_refresh := None\<rparr>)) else None
   | Cleared g \<Rightarrow> (case e of
         Proceed \<Rightarrow> Some (leave i g (s\<lparr>th_keychain := None\<rparr>))
       | Save_fails \<Rightarrow> Some (leave i g s)
       | _ \<Rightarrow> None)
   | Retry_due \<Rightarrow>
       if e = Proceed then Some (if th_access s = None then leave i True s else at i Retry_sent s) else None
   | Retry_sent \<Rightarrow>
       if e \<in> {Answered, Refused_401, Fails True, Fails False} then Some (leave i True s) else None
   | Login_sent \<Rightarrow> (case e of
         Answered \<Rightarrow> Some (at i (Session_got (th_issued s) False) (s\<lparr>th_issued := Suc (th_issued s)\<rparr>))
       | Refused_401 \<Rightarrow> Some (at i Ready s)
       | Fails issued \<Rightarrow> Some (at i Ready
           (s\<lparr>th_issued := (if issued then Suc (th_issued s) else th_issued s)\<rparr>))
       | _ \<Rightarrow> None)
   | Logout_sent \<Rightarrow>
       if e \<in> {Answered, Refused_401, Fails True, Fails False} then Some (at i (Clear_due False) s) else None)"

definition signed_out :: threads where
  "signed_out = \<lparr>th_access = None, th_refresh = None, th_keychain = None, th_gate = None,
     th_pc = (\<lambda>_. Ready), th_issued = 0, th_presented = [], th_renewed = [], th_lost = False\<rparr>"

definition signed_in :: "(nat \<Rightarrow> rstr) \<Rightarrow> (nat \<Rightarrow> rstr) \<Rightarrow> threads" where
  "signed_in A R = signed_out\<lparr>th_access := Some (A 0), th_refresh := Some (R 0),
     th_keychain := Some (R 0), th_issued := 1\<rparr>"

fun run_threads :: "(nat \<Rightarrow> rstr) \<Rightarrow> (nat \<Rightarrow> rstr) \<Rightarrow> (nat \<times> event) list \<Rightarrow> threads \<Rightarrow> threads option" where
  "run_threads A R [] s = Some s"
| "run_threads A R ((i, e) # es) s = Option.bind (step A R i e s) (run_threads A R es)"

section \<open>Invariants\<close>

fun holds_gate :: "pc \<Rightarrow> bool" where
  "holds_gate (Gate_held a) = True"
| "holds_gate (Renew_due a) = True"
| "holds_gate Refresh_sent = True"
| "holds_gate (Session_got n g) = g"
| "holds_gate (Session_saved n g) = g"
| "holds_gate (Clear_due g) = g"
| "holds_gate (Cleared g) = g"
| "holds_gate Retry_due = True"
| "holds_gate Retry_sent = True"
| "holds_gate _ = False"

text \<open>The session a thread carries in its hands, and the states in which the session in memory is about
  to be replaced or dropped.\<close>

fun carried :: "pc \<Rightarrow> nat option" where
  "carried (Session_got n g) = Some n"
| "carried (Session_saved n g) = Some n"
| "carried _ = None"

fun replacing :: "pc \<Rightarrow> bool" where
  "replacing Refresh_sent = True"
| "replacing (Session_got n g) = g"
| "replacing (Session_saved n g) = g"
| "replacing (Clear_due g) = g"
| "replacing _ = False"

definition gate_inv :: "threads \<Rightarrow> bool" where
  "gate_inv s \<longleftrightarrow> (\<forall>i. holds_gate (th_pc s i) \<longleftrightarrow> th_gate s = Some i)"

text \<open>The tokens in memory belong to one session.\<close>

definition memory :: "(nat \<Rightarrow> rstr) \<Rightarrow> (nat \<Rightarrow> rstr) \<Rightarrow> threads \<Rightarrow> nat option \<Rightarrow> bool" where
  "memory A R s m \<longleftrightarrow> th_access s = map_option A m \<and> th_refresh s = map_option R m"

definition unused :: "(nat \<Rightarrow> rstr) \<Rightarrow> (nat \<Rightarrow> rstr) \<Rightarrow> threads \<Rightarrow> nat \<Rightarrow> bool" where
  "unused A R s n \<longleftrightarrow> n < th_issued s \<and> R n \<notin> set (th_presented s) \<and> A n \<notin> set (th_renewed s)"

definition session_inv :: "(nat \<Rightarrow> rstr) \<Rightarrow> (nat \<Rightarrow> rstr) \<Rightarrow> threads \<Rightarrow> nat option \<Rightarrow> bool" where
  "session_inv A R s m \<longleftrightarrow>
     memory A R s m \<and>
     (\<forall>n. m = Some n \<longrightarrow> n < th_issued s \<and> (unused A R s n \<or> (\<exists>i. replacing (th_pc s i)))) \<and>
     (\<forall>i n. carried (th_pc s i) = Some n \<longrightarrow> unused A R s n \<and> m \<noteq> Some n \<and>
        (\<forall>j. carried (th_pc s j) = Some n \<longrightarrow> j = i)) \<and>
     (\<forall>i a. th_pc s i = Renew_due a \<longrightarrow> a \<notin> set (th_renewed s) \<and>
        (\<exists>n < th_issued s. a = A n \<and> (\<forall>j. carried (th_pc s j) \<noteq> Some n))) \<and>
     set (th_presented s) \<subseteq> R ` {..< th_issued s} \<and> set (th_renewed s) \<subseteq> A ` {..< th_issued s} \<and>
     distinct (th_presented s) \<and> distinct (th_renewed s)"

definition threads_inv :: "(nat \<Rightarrow> rstr) \<Rightarrow> (nat \<Rightarrow> rstr) \<Rightarrow> threads \<Rightarrow> bool" where
  "threads_inv A R s \<longleftrightarrow> gate_inv s \<and> (th_lost s \<or> (\<exists>m. session_inv A R s m))"

lemma pc_at [simp]: "th_pc (at i p s) j = (if j = i then p else th_pc s j)"
  by (simp add: at_def)

lemma pc_leave [simp]: "th_pc (leave i g s) j = (if j = i then Ready else th_pc s j)"
  by (simp add: leave_def)

lemma gate_at [simp]: "th_gate (at i p s) = th_gate s"
  by (simp add: at_def)

lemma gate_leave [simp]: "th_gate (leave i g s) = (if g then None else th_gate s)"
  by (simp add: leave_def)

lemma step_only:
  assumes "step A R i e s = Some s'"
  shows "j \<noteq> i \<Longrightarrow> th_pc s' j = th_pc s j"
  using assms by (cases "th_pc s i"; cases e) (auto simp: step_def split: option.splits if_splits)

lemma step_gate:
  assumes "step A R i e s = Some s'"
  shows "(holds_gate (th_pc s' i) = holds_gate (th_pc s i) \<and> th_gate s' = th_gate s)
    \<or> (\<not> holds_gate (th_pc s i) \<and> th_gate s = None \<and> holds_gate (th_pc s' i) \<and> th_gate s' = Some i)
    \<or> (holds_gate (th_pc s i) \<and> \<not> holds_gate (th_pc s' i) \<and> th_gate s' = None)"
  using assms by (cases "th_pc s i"; cases e) (auto simp: step_def split: option.splits if_splits)

lemma gate_step:
  assumes "step A R i e s = Some s'" "gate_inv s"
  shows "gate_inv s'"
  using assms(2) step_gate [OF assms(1)] step_only [OF assms(1)] unfolding gate_inv_def
  by (metis option.inject option.distinct(1))

lemma replacing_holds: "replacing p \<Longrightarrow> holds_gate p"
  by (cases p) auto

lemma session_invD:
  assumes "session_inv A R s m"
  shows "memory A R s m"
    and "m = Some n \<Longrightarrow> n < th_issued s" "m = Some n \<Longrightarrow> \<not> unused A R s n \<Longrightarrow> \<exists>i. replacing (th_pc s i)"
    and "carried (th_pc s i) = Some k \<Longrightarrow> unused A R s k \<and> m \<noteq> Some k"
    and "carried (th_pc s i) = Some k \<Longrightarrow> carried (th_pc s j) = Some k \<Longrightarrow> j = i"
    and "th_pc s i = Renew_due a \<Longrightarrow> a \<notin> set (th_renewed s) \<and>
           (\<exists>n < th_issued s. a = A n \<and> (\<forall>j. carried (th_pc s j) \<noteq> Some n))"
    and "set (th_presented s) \<subseteq> R ` {..< th_issued s}" "set (th_renewed s) \<subseteq> A ` {..< th_issued s}"
    and "distinct (th_presented s)" "distinct (th_renewed s)"
  using assms unfolding session_inv_def by blast+

lemma unused_more:
  "unused A R s n \<Longrightarrow> th_issued s \<le> th_issued s' \<Longrightarrow> th_presented s' = th_presented s \<Longrightarrow>
    th_renewed s' = th_renewed s \<Longrightarrow> unused A R s' n"
  by (simp add: unused_def)

text \<open>Steps that neither change the tokens nor record a renewal.\<close>

lemma session_step_quiet:
  assumes I: "session_inv A R s m" and j: "\<And>j. j \<noteq> i \<Longrightarrow> th_pc s' j = th_pc s j"
    and same: "th_access s' = th_access s" "th_refresh s' = th_refresh s" "th_presented s' = th_presented s"
      "th_renewed s' = th_renewed s" "th_issued s \<le> th_issued s'"
    and c: "\<And>n. carried (th_pc s' i) = Some n \<Longrightarrow> carried (th_pc s i) = Some n"
    and r: "replacing (th_pc s i) \<Longrightarrow> replacing (th_pc s' i)" and d: "\<And>a. th_pc s' i \<noteq> Renew_due a"
  shows "session_inv A R s' m"
proof -
  note D = session_invD [OF I]
  have carried_before: "carried (th_pc s' k) = Some n \<Longrightarrow> carried (th_pc s k) = Some n" for k n
    using c j [of k] by (cases "k = i") auto
  have replacing_after: "replacing (th_pc s k) \<Longrightarrow> replacing (th_pc s' k)" for k
    using r j [of k] by (cases "k = i") auto
  have due_before: "th_pc s' k = Renew_due a \<Longrightarrow> th_pc s k = Renew_due a" for k a
    using d j [of k] by (cases "k = i") auto
  have u: "unused A R s n \<Longrightarrow> unused A R s' n" for n
    using unused_more same by blast
  show ?thesis
    unfolding session_inv_def
  proof (intro conjI allI impI)
    show "memory A R s' m" using D(1) same by (simp add: memory_def)
    show "n < th_issued s'" if "m = Some n" for n using D(2) [OF that] same(5) by simp
    show "unused A R s' n \<or> (\<exists>i. replacing (th_pc s' i))" if "m = Some n" for n
      using D(3) [OF that] u replacing_after by blast
    show "unused A R s' n" "m \<noteq> Some n" if "carried (th_pc s' k) = Some n" for k n
      using D(4) [OF carried_before [OF that]] u by auto
    show "l = k" if "carried (th_pc s' k) = Some n" "carried (th_pc s' l) = Some n" for k l n
      using D(5) [OF carried_before [OF that(1)] carried_before [OF that(2)]] .
    show "a \<notin> set (th_renewed s')" if "th_pc s' k = Renew_due a" for k a
      using D(6) [OF due_before [OF that]] same by auto
    show "\<exists>n < th_issued s'. a = A n \<and> (\<forall>j. carried (th_pc s' j) \<noteq> Some n)" if "th_pc s' k = Renew_due a" for k a
      using D(6) [OF due_before [OF that]] same(5) carried_before less_le_trans by metis
    show "set (th_presented s') \<subseteq> R ` {..< th_issued s'}" "set (th_renewed s') \<subseteq> A ` {..< th_issued s'}"
      using D(7,8) same(3-5) by fastforce+
    show "distinct (th_presented s')" "distinct (th_renewed s')" using D(9,10) same by simp_all
  qed
qed

text \<open>A thread finds the access token it was refused still in memory.\<close>

lemma session_step_due:
  assumes I: "session_inv A R s m" and G: "gate_inv s" and p: "th_pc s i = Gate_held a" "th_access s = Some a"
  shows "session_inv A R (at i (Renew_due a) s) m"
proof -
  note D = session_invD [OF I]
  obtain n where n: "m = Some n" "a = A n"
    using D(1) p(2) by (cases m) (auto simp: memory_def)
  have "\<not> replacing (th_pc s j)" for j
    using G p(1) replacing_holds [of "th_pc s j"] unfolding gate_inv_def
    by (metis holds_gate.simps(1) option.inject replacing.simps)
  then have u: "unused A R s n" "n < th_issued s"
    using D(2,3) [OF n(1)] by blast+
  then have fresh: "a \<notin> set (th_renewed s)" by (simp add: unused_def n(2))
  let ?s = "at i (Renew_due a) s"
  have same: "th_access ?s = th_access s" "th_refresh ?s = th_refresh s" "th_presented ?s = th_presented s"
    "th_renewed ?s = th_renewed s" "th_issued ?s = th_issued s"
    by (simp_all add: at_def)
  have us: "unused A R ?s k = unused A R s k" for k
    by (simp add: unused_def same)
  show ?thesis
    unfolding session_inv_def us same memory_def
  proof (intro conjI allI impI)
    show "th_access s = map_option A m" "th_refresh s = map_option R m"
      using D(1) by (simp_all add: memory_def)
    show "k < th_issued s" "unused A R s k \<or> (\<exists>j. replacing (th_pc ?s j))" if "m = Some k" for k
      using u that n(1) by simp_all
    show "unused A R s k" "m \<noteq> Some k" if "carried (th_pc ?s j) = Some k" for j k
      using D(4) [of j k] that by (auto split: if_splits)
    show "l = j" if "carried (th_pc ?s j) = Some k" "carried (th_pc ?s l) = Some k" for j k l
      using D(5) [of j k l] that by (auto split: if_splits)
    show "b \<notin> set (th_renewed s)" if "th_pc ?s j = Renew_due b" for j b
      using D(6) [of j b] that fresh by (auto split: if_splits)
    show "\<exists>k < th_issued s. b = A k \<and> (\<forall>l. carried (th_pc ?s l) \<noteq> Some k)" if "th_pc ?s j = Renew_due b" for j b
      using D(6) [of j b] D(4) that u(2) n by (fastforce split: if_splits)
  qed (use D(7-10) in simp_all)
qed

lemma session_step_present:
  assumes inj: "inj A" "inj R" and I: "session_inv A R s m" and G: "gate_inv s"
    and p: "th_pc s i = Renew_due a" "th_refresh s = Some t"
  shows "session_inv A R (at i Refresh_sent
           (s\<lparr>th_presented := th_presented s @ [t], th_renewed := th_renewed s @ [a]\<rparr>)) m"
proof -
  note D = session_invD [OF I]
  obtain n where n: "m = Some n" "t = R n" "n < th_issued s"
    using D(1,2) p(2) by (cases m) (auto simp: memory_def)
  have "\<not> replacing (th_pc s j)" for j
    using G p(1) replacing_holds [of "th_pc s j"] unfolding gate_inv_def
    by (metis holds_gate.simps(2) option.inject replacing.simps)
  then have u: "unused A R s n"
    using D(3) [OF n(1)] by blast
  obtain k where k: "k < th_issued s" "a = A k" "a \<notin> set (th_renewed s)" "\<And>j. carried (th_pc s j) \<noteq> Some k"
    using D(6) [OF p(1)] by blast
  have other: "th_pc s j \<noteq> Renew_due b" if "j \<noteq> i" for j b
    using G p(1) that unfolding gate_inv_def by (metis holds_gate.simps(2) option.inject)
  let ?s = "at i Refresh_sent (s\<lparr>th_presented := th_presented s @ [t], th_renewed := th_renewed s @ [a]\<rparr>)"
  have same: "th_access ?s = th_access s" "th_refresh ?s = th_refresh s" "th_issued ?s = th_issued s"
    "th_presented ?s = th_presented s @ [t]" "th_renewed ?s = th_renewed s @ [a]"
    by (simp_all add: at_def)
  have us: "unused A R ?s l \<longleftrightarrow> unused A R s l \<and> l \<noteq> n \<and> l \<noteq> k" for l
    unfolding unused_def same using inj n(2) k(2) by (auto simp: inj_eq)
  show ?thesis
    unfolding session_inv_def us same memory_def
  proof (intro conjI allI impI)
    show "th_access s = map_option A m" "th_refresh s = map_option R m"
      using D(1) by (simp_all add: memory_def)
    show "l < th_issued s" "unused A R s l \<and> l \<noteq> n \<and> l \<noteq> k \<or> (\<exists>j. replacing (th_pc ?s j))" if "m = Some l" for l
      using that n by (auto intro!: exI [of _ i])
    show "unused A R s l" "l \<noteq> n" "l \<noteq> k" "m \<noteq> Some l" if "carried (th_pc ?s j) = Some l" for j l
      using D(4) [of j l] k(4) [of j] that n(1) by (auto split: if_splits)
    show "j' = j" if "carried (th_pc ?s j) = Some l" "carried (th_pc ?s j') = Some l" for j l j'
      using D(5) [of j l j'] that by (auto split: if_splits)
    show "b \<notin> set (th_renewed s @ [a])"
      "\<exists>k < th_issued s. b = A k \<and> (\<forall>l. carried (th_pc ?s l) \<noteq> Some k)" if "th_pc ?s j = Renew_due b" for j b
      using other that by (auto split: if_splits)
    show "set (th_presented s @ [t]) \<subseteq> R ` {..<th_issued s}" "set (th_renewed s @ [a]) \<subseteq> A ` {..<th_issued s}"
      using D(7,8) n(2,3) k(1,2) by auto
    show "distinct (th_presented s @ [t])" "distinct (th_renewed s @ [a])"
      using D(9,10) u k(3) n(2) by (auto simp: unused_def)
  qed
qed

lemma below_image: "inj f \<Longrightarrow> set xs \<subseteq> f ` {..<n} \<Longrightarrow> f n \<notin> set xs" for n :: nat
  using inj_image_mem_iff [of f n "{..<n}"] by blast

text \<open>The server issues a session.\<close>

lemma session_step_issue:
  assumes inj: "inj A" "inj R" and I: "session_inv A R s m" and p: "g \<longleftrightarrow> replacing (th_pc s i)"
  shows "session_inv A R (at i (Session_got (th_issued s) g) (s\<lparr>th_issued := Suc (th_issued s)\<rparr>)) m"
proof -
  note D = session_invD [OF I]
  let ?s = "at i (Session_got (th_issued s) g) (s\<lparr>th_issued := Suc (th_issued s)\<rparr>)"
  have same: "th_access ?s = th_access s" "th_refresh ?s = th_refresh s" "th_issued ?s = Suc (th_issued s)"
    "th_presented ?s = th_presented s" "th_renewed ?s = th_renewed s"
    by (simp_all add: at_def)
  have new: "R (th_issued s) \<notin> set (th_presented s)" "A (th_issued s) \<notin> set (th_renewed s)"
    using below_image [OF inj(2) D(7)] below_image [OF inj(1) D(8)] by blast+
  have us: "unused A R ?s l \<longleftrightarrow> unused A R s l \<or> l = th_issued s" for l
    unfolding unused_def same using new by auto
  have below: "carried (th_pc s j) = Some l \<Longrightarrow> l < th_issued s" for j l
    using D(4) [of j l] by (simp add: unused_def)
  show ?thesis
    unfolding session_inv_def us same memory_def
  proof (intro conjI allI impI)
    show "th_access s = map_option A m" "th_refresh s = map_option R m"
      using D(1) by (simp_all add: memory_def)
    show "l < Suc (th_issued s)" if "m = Some l" for l
      using D(2) [OF that] by simp
    show "(unused A R s l \<or> l = th_issued s) \<or> (\<exists>j. replacing (th_pc ?s j))" if "m = Some l" for l
    proof -
      have "\<exists>j. replacing (th_pc ?s j)" if "replacing (th_pc s k)" for k
        using that p by (intro exI [of _ k]) auto
      then show ?thesis using D(3) [OF that] by blast
    qed
    show "unused A R s l \<or> l = th_issued s" "m \<noteq> Some l" if "carried (th_pc ?s j) = Some l" for j l
      using D(4) [of j l] D(2) that by (auto split: if_splits)
    show "j' = j" if "carried (th_pc ?s j) = Some l" "carried (th_pc ?s j') = Some l" for j l j'
      using D(5) [of j l j'] below [of j l] below [of j' l] that by (auto split: if_splits)
    show "b \<notin> set (th_renewed s)" if "th_pc ?s j = Renew_due b" for j b
      using D(6) [of j b] that by (auto split: if_splits)
    show "\<exists>k < Suc (th_issued s). b = A k \<and> (\<forall>l. carried (th_pc ?s l) \<noteq> Some k)" if "th_pc ?s j = Renew_due b" for j b
    proof -
      have "th_pc s j = Renew_due b" using that by (auto split: if_splits)
      then obtain k where "k < th_issued s" "b = A k" "\<forall>l. carried (th_pc s l) \<noteq> Some k"
        using D(6) [of j b] by auto
      then show ?thesis by (intro exI [of _ k]) auto
    qed
    show "set (th_presented s) \<subseteq> R ` {..<Suc (th_issued s)}" "set (th_renewed s) \<subseteq> A ` {..<Suc (th_issued s)}"
      using D(7,8) by fastforce+
  qed (use D(9,10) in simp_all)
qed

text \<open>The tokens in memory are replaced by a session carried, or dropped.\<close>

lemma session_step_set:
  assumes I: "session_inv A R s m"
    and m': "m' = None \<or> (m' \<noteq> None \<and> carried (th_pc s i) = m')"
    and p: "carried p = None" "\<And>a. p \<noteq> Renew_due a"
  shows "session_inv A R (at i p (s\<lparr>th_access := map_option A m', th_refresh := map_option R m'\<rparr>)) m'"
proof -
  note D = session_invD [OF I]
  let ?s = "at i p (s\<lparr>th_access := map_option A m', th_refresh := map_option R m'\<rparr>)"
  have same: "th_access ?s = map_option A m'" "th_refresh ?s = map_option R m'" "th_issued ?s = th_issued s"
    "th_presented ?s = th_presented s" "th_renewed ?s = th_renewed s"
    by (simp_all add: at_def)
  have us: "unused A R ?s l \<longleftrightarrow> unused A R s l" for l
    by (simp add: unused_def same)
  show ?thesis
    unfolding session_inv_def us same memory_def
  proof (intro conjI allI impI)
    show "l < th_issued s" "unused A R s l \<or> (\<exists>j. replacing (th_pc ?s j))" if "m' = Some l" for l
      using D(4) [of i l] m' that by (auto simp: unused_def)
    show "unused A R s l" "m' \<noteq> Some l" if "carried (th_pc ?s j) = Some l" for j l
      using D(4) [of j l] D(5) [of i l j] m' p(1) that by (auto split: if_splits)
    show "j' = j" if "carried (th_pc ?s j) = Some l" "carried (th_pc ?s j') = Some l" for j l j'
      using D(5) [of j l j'] p(1) that by (auto split: if_splits)
    show "b \<notin> set (th_renewed s)" if "th_pc ?s j = Renew_due b" for j b
      using D(6) [of j b] p(2) that by (auto split: if_splits)
    show "\<exists>k < th_issued s. b = A k \<and> (\<forall>l. carried (th_pc ?s l) \<noteq> Some k)" if "th_pc ?s j = Renew_due b" for j b
      using D(6) [of j b] p that by (fastforce split: if_splits)
  qed (use D(7-10) in simp_all)
qed

lemma leave_fields [simp]:
  "th_access (leave i g s) = th_access s" "th_refresh (leave i g s) = th_refresh s"
  "th_presented (leave i g s) = th_presented s" "th_renewed (leave i g s) = th_renewed s"
  "th_issued (leave i g s) = th_issued s" "th_lost (leave i g s) = th_lost s"
  by (simp_all add: leave_def at_def)

lemma at_fields [simp]:
  "th_access (at i p s) = th_access s" "th_refresh (at i p s) = th_refresh s"
  "th_presented (at i p s) = th_presented s" "th_renewed (at i p s) = th_renewed s"
  "th_issued (at i p s) = th_issued s" "th_lost (at i p s) = th_lost s"
  by (simp_all add: at_def)

lemma lost_step: "step A R i e s = Some s' \<Longrightarrow> th_lost s \<Longrightarrow> th_lost s'"
  by (cases "th_pc s i"; cases e) (auto simp: step_def split: option.splits if_splits)

lemma session_step:
  assumes inj: "inj A" "inj R" and st: "step A R i e s = Some s'" and G: "gate_inv s"
    and I: "session_inv A R s m" and L: "\<not> th_lost s'"
  shows "\<exists>m'. session_inv A R s' m'"
proof (cases "th_pc s i")
  case (Gate_held a)
  show ?thesis
  proof (cases "th_access s = Some a")
    case True
    then have "s' = at i (Renew_due a) s" using st Gate_held by (simp add: step_def split: if_splits)
    with session_step_due [OF I G Gate_held True] show ?thesis by blast
  next
    case False
    then have "s' = at i Retry_due s" using st Gate_held by (simp add: step_def split: if_splits)
    with session_step_quiet [OF I, of i s'] Gate_held show ?thesis by auto
  qed
next
  case (Renew_due a)
  show ?thesis
  proof (cases "th_refresh s")
    case None
    then have "s' = at i (Clear_due True) s" using st Renew_due by (simp add: step_def split: if_splits)
    with session_step_quiet [OF I, of i s'] Renew_due show ?thesis by auto
  next
    case (Some t)
    then show ?thesis
      using st Renew_due session_step_present [OF inj I G Renew_due Some] by (auto simp: step_def split: if_splits)
  qed
next
  case (Refresh_sent)
  show ?thesis
  proof (cases e)
    case Answered
    then show ?thesis
      using st Refresh_sent session_step_issue [OF inj I, of True i] by (auto simp: step_def)
  next
    case Refused_401
    then have "s' = at i (Clear_due True) s" using st Refresh_sent by (simp add: step_def)
    with session_step_quiet [OF I, of i s'] Refresh_sent show ?thesis by auto
  qed (use st Refresh_sent L in \<open>auto simp: step_def\<close>)
next
  case (Session_got n g)
  show ?thesis
  proof (cases e)
    case Proceed
    then have "s' = at i (Session_saved n g) (s\<lparr>th_keychain := Some (R n)\<rparr>)"
      using st Session_got by (simp add: step_def)
    with session_step_quiet [OF I, of i s'] Session_got show ?thesis by auto
  next
    case Save_fails
    then have "s' = leave i g (s\<lparr>th_lost := (th_lost s \<or> g)\<rparr>)"
      using st Session_got by (simp add: step_def)
    with session_step_quiet [OF I, of i s'] Session_got L show ?thesis by auto
  qed (use st Session_got in \<open>auto simp: step_def\<close>)
next
  case (Session_saved n g)
  then have "s' = at i (if g then Retry_due else Ready)
      (s\<lparr>th_access := map_option A (Some n), th_refresh := map_option R (Some n)\<rparr>)"
    using st by (simp add: step_def split: if_splits)
  with session_step_set [OF I, of "Some n" i "if g then Retry_due else Ready"] Session_saved show ?thesis by auto
next
  case (Clear_due g)
  then have "s' = at i (Cleared g) (s\<lparr>th_access := map_option A None, th_refresh := map_option R None\<rparr>)"
    using st by (simp add: step_def split: if_splits)
  with session_step_set [OF I, of None i "Cleared g"] show ?thesis by auto
next
  case Login_sent
  show ?thesis
  proof (cases e)
    case Answered
    then show ?thesis
      using st Login_sent session_step_issue [OF inj I, of False i] by (auto simp: step_def)
  qed (use st Login_sent session_step_quiet [OF I, of i s'] in \<open>auto simp: step_def intro!: exI [of _ m]\<close>)
qed (use st session_step_quiet [OF I, of i s'] in \<open>auto simp: step_def intro!: exI [of _ m] split: event.splits option.splits if_splits\<close>)

theorem threads_step:
  assumes "inj A" "inj R" "step A R i e s = Some s'" "threads_inv A R s"
  shows "threads_inv A R s'"
  using assms gate_step session_step lost_step unfolding threads_inv_def by metis

lemma threads_run:
  assumes "inj A" "inj R" "threads_inv A R s" "run_threads A R es s = Some s'"
  shows "threads_inv A R s'"
  using assms(3,4)
proof (induction es arbitrary: s)
  case (Cons p es)
  then show ?case
    by (cases p) (auto simp: bind_eq_Some_conv intro: Cons.IH threads_step [OF assms(1,2)])
qed simp

lemma threads_start: "threads_inv A R signed_out" "threads_inv A R (signed_in A R)"
proof -
  have "gate_inv signed_out" "gate_inv (signed_in A R)"
    by (simp_all add: gate_inv_def signed_out_def signed_in_def)
  moreover have "session_inv A R signed_out None"
    by (simp add: session_inv_def memory_def signed_out_def)
  moreover have "session_inv A R (signed_in A R) (Some 0)"
    by (simp add: session_inv_def memory_def unused_def signed_out_def signed_in_def)
  ultimately show "threads_inv A R signed_out" "threads_inv A R (signed_in A R)"
    unfolding threads_inv_def by blast+
qed

section \<open>What the threads do together\<close>

text \<open>C13. Whatever the threads of the client do and however their steps interleave, the gate is held by
  the one thread inside the renewal, and, unless the outcome of some renewal was lost to the client (an
  answer or a write to the keychain failed), no refresh token is presented to the server twice and no
  access token is renewed twice: the server's check for a reused token never ends the session of a
  client that runs several requests at once.\<close>

theorem refresh_tokens_presented_once:
  assumes "inj A" "inj R" "run_threads A R es (signed_in A R) = Some s" "\<not> th_lost s"
  shows "distinct (th_presented s) \<and> distinct (th_renewed s)
    \<and> (\<forall>i j. holds_gate (th_pc s i) \<and> holds_gate (th_pc s j) \<longrightarrow> i = j)"
proof -
  have "threads_inv A R s"
    by (rule threads_run [OF assms(1,2) threads_start(2) assms(3)])
  with assms(4) show ?thesis
    by (auto simp: threads_inv_def gate_inv_def dest: session_invD(9,10))
qed

definition two_callers :: "(nat \<times> event) list" where
  "two_callers = [(0, Start_call), (1, Start_call), (0, Refused_401), (1, Refused_401), (1, Proceed),
     (1, Proceed), (1, Proceed), (1, Answered), (1, Proceed), (1, Proceed), (1, Proceed), (1, Answered),
     (0, Proceed), (0, Proceed), (0, Proceed), (0, Answered)]"

lemmas run_eval = signed_in_def signed_out_def step_def at_def leave_def

theorem refresh_tokens_presented_once_witness:
  "\<exists>s. run_threads (\<lambda>n. [97, n]) (\<lambda>n. [114, n]) two_callers (signed_in (\<lambda>n. [97, n]) (\<lambda>n. [114, n])) = Some s
    \<and> th_presented s = [[114, 0]] \<and> th_access s = Some [97, 1] \<and> distinct (th_renewed s)"
proof -
  obtain s where s: "run_threads (\<lambda>n. [97, n]) (\<lambda>n. [114, n]) two_callers (signed_in (\<lambda>n. [97, n]) (\<lambda>n. [114, n])) = Some s"
    "th_presented s = [[114, 0]]" "th_access s = Some [97, 1]" "\<not> th_lost s"
    by (simp add: two_callers_def run_eval)
  have "inj (\<lambda>n. [97, n :: nat])" "inj (\<lambda>n. [114, n :: nat])"
    by (simp_all add: inj_def)
  from refresh_tokens_presented_once [OF this s(1,4)] s show ?thesis by blast
qed

definition sign_out_race :: "(nat \<times> event) list" where
  "sign_out_race = [(0, Start_call), (0, Refused_401), (0, Proceed), (0, Proceed), (0, Proceed),
     (1, Start_logout), (1, Answered), (1, Proceed), (1, Proceed), (0, Answered), (0, Proceed), (0, Proceed)]"


end
