(* ===== verification/Desk_Witnesses.thy ===== *)
theory Desk_Witnesses
  imports Desk_Routing Desk_Renewal Desk_Files Desk_Server Desk_Threads Witnesses
begin

text \<open>
  The properties of the desktop client at concrete inputs: a small wire format that satisfies what the
  round trips rely on, and a device with a server that knows one session.
\<close>

section \<open>A wire format\<close>

text \<open>A UUID is written as a run of the letter a and a b, a time as one or two numbers, and a form value as
  itself when it is made of digits, else as a run of b ended by c for every character, after an a.\<close>

definition int_text :: "int \<Rightarrow> rstr" where
  "int_text t = (if 0 \<le> t then [nat t] else [0, nat (- t)])"

fun int_parse :: "rstr \<Rightarrow> int option" where
  "int_parse [n] = Some (int n)"
| "int_parse [z, n] = Some (- int n)"
| "int_parse _ = None"

definition unary :: "rstr \<Rightarrow> rstr" where
  "unary v = concat (map (\<lambda>c. replicate c 98 @ [99]) v)"

definition sample_encode :: "rstr \<Rightarrow> rstr" where
  "sample_encode v = (if list_all is_ascii_digit v then v else 97 # unary v)"

fun sample_decode :: "rstr \<Rightarrow> rstr" where
  "sample_decode [] = []"
| "sample_decode (c # cs) = (if c = 97 then map length (butlast (split_on 99 cs)) else c # cs)"

definition sample_pairs :: "rstr \<Rightarrow> (rstr \<times> rstr) list" where
  "sample_pairs q = (if q = [] then []
     else map (\<lambda>p. (takeWhile (\<lambda>c. c \<noteq> 61) p, sample_decode (tl (dropWhile (\<lambda>c. c \<noteq> 61) p)))) (split_on 38 q))"

definition sample_wire :: wire where
  "sample_wire = \<lparr>wl_uuid_text = (\<lambda>u. replicate (unat u) 97 @ [98]),
     wl_uuid_parse = (\<lambda>t. Some (word_of_nat (length t - 1))),
     wl_time_text = int_text, wl_time_parse = int_parse, wl_date_text = int_text, wl_date_parse = int_parse,
     wl_form_encode = sample_encode, wl_query_parse = sample_pairs\<rparr>"

lemma int_text_back: "int_parse (int_text t) = Some t"
  by (simp add: int_text_def)

lemma unary_split: "butlast (split_on 99 (unary v)) = map (\<lambda>c. replicate c 98) v"
proof (induction v)
  case (Cons c v)
  have "split_on 99 (unary (c # v)) = replicate c 98 # split_on 99 (unary v)"
    using split_on_app [of 99 "replicate c 98" "unary v"] by (simp add: unary_def)
  with Cons show ?case by simp
qed (simp add: unary_def)

lemma sample_decode_encode: "sample_decode (sample_encode v) = v"
proof (cases "list_all is_ascii_digit v")
  case True
  then show ?thesis by (cases v) (auto simp: sample_encode_def is_ascii_digit_def)
next
  case False
  then show ?thesis by (simp add: sample_encode_def unary_split o_def)
qed

lemma sample_encode_letters: "list_all form_letter (sample_encode v)" "38 \<notin> set (sample_encode v)"
  by (auto simp: sample_encode_def unary_def list_all_iff form_letter_def is_ascii_digit_def is_ascii_lower_def)

lemma split_joined:
  assumes "ps \<noteq> []" "\<And>p. p \<in> set ps \<Longrightarrow> c \<notin> set p"
  shows "split_on c (joined c ps) = ps"
  using assms by (induction c ps rule: joined.induct) (simp_all add: split_on_self split_on_app)

lemma sample_pairs_back:
  assumes "list_all (\<lambda>(k, _). k \<noteq> [] \<and> list_all is_ascii_lower k) kvs"
  shows "sample_pairs (query_text sample_wire kvs) = kvs"
proof (cases "kvs = []")
  case True
  then show ?thesis by (simp add: sample_pairs_def query_text_def)
next
  case False
  let ?part = "\<lambda>(k, v). k @ 61 # sample_encode v"
  have query: "query_text sample_wire kvs = joined 38 (map ?part kvs)"
    by (simp add: query_text_def sample_wire_def)
  have key: "k \<noteq> [] \<and> 38 \<notin> set k \<and> 61 \<notin> set k" if "(k, v) \<in> set kvs" for k v
    using assms that by (fastforce simp: list_all_iff is_ascii_lower_def)
  have "joined 38 (map ?part kvs) \<noteq> []"
    using False key by (cases "(38::nat, map ?part kvs)" rule: joined.cases) fastforce+
  moreover have "split_on 38 (joined 38 (map ?part kvs)) = map ?part kvs"
    by (rule split_joined) (use False key sample_encode_letters in \<open>auto\<close>)
  moreover have "map ((\<lambda>p. (takeWhile (\<lambda>c. c \<noteq> 61) p, sample_decode (tl (dropWhile (\<lambda>c. c \<noteq> 61) p)))) \<circ> ?part) kvs = kvs"
    using key by (intro map_idI) (auto simp: takeWhile_append dropWhile_append sample_decode_encode)
  ultimately show ?thesis
    by (simp add: query sample_pairs_def)
qed

lemma sample_wire_ok: "wire_ok sample_wire"
  using sample_pairs_back sample_encode_letters(1)
  by (auto simp: wire_ok_def sample_wire_def int_text_back sample_encode_def list_all_iff uuid_letter_def
      is_ascii_hexdigit_def)

section \<open>Routing\<close>


section \<open>A device\<close>

definition local_base :: url where
  "local_base = \<lparr>u_scheme = lit ''http'', u_username = [], u_password = None,
     u_host = Some (Domain_host (lit ''localhost'')), u_port = None, u_path = [47], u_query = None, u_fragment = None\<rparr>"

definition desk_urls :: url_lib where
  "desk_urls = \<lparr>ul_parse = (\<lambda>t. Some local_base), ul_join = (\<lambda>b p. Some (b\<lparr>u_path := 47 # p\<rparr>))\<rparr>"

definition new_session :: session_response where
  "new_session = \<lparr>ssr_access_token = [2], ssr_refresh_token = [4], ssr_access_expires_at = 9,
     ssr_refresh_expires_at = 10, ssr_profile = \<lparr>prof_id = UserId 1, prof_username = [97], prof_nickname = [98],
       prof_avatar_url = None, prof_avatar_attachment_id = None, prof_signature = [], prof_gender = None,
       prof_birthday = None, prof_region = None, prof_presence = Online, prof_last_seen_at = None\<rparr>,
     ssr_device_id = DeviceId 1\<rparr>"

definition answered :: "nat \<Rightarrow> u8 list \<Rightarrow> reply" where
  "answered n bytes = \<lparr>rp_status = n, rp_length = None, rp_body = Some bytes\<rparr>"

text \<open>The server takes the access token 2 and, once, the refresh token 3; the world counts the requests.\<close>

definition desk_answer :: "desk_request \<Rightarrow> rstr option \<Rightarrow> reply" where
  "desk_answer r access =
     (if access = Some [2] then answered 200 [1]
      else if dr_body r = Some (refresh_request_json [3]) then answered 200 [7]
      else answered 401 [0])"

definition desk_device :: "nat device" where
  "desk_device = \<lparr>dv_base = local_base, dv_urls = desk_urls, dv_wire = sample_wire,
     dv_build = \<lparr>cb_os = [], cb_version = []\<rparr>, dv_picture = Some,
     dv_json = (\<lambda>b. if b = [1] then Some (JBool True)
        else if b = [7] then Some (session_response_json sample_wire new_session) else None),
     dv_send = (\<lambda>u r a d. (Some (desk_answer r a), d\<lparr>dk_world := Suc (dk_world d)\<rparr>)),
     dv_wait = (\<lambda>d. d), dv_save = (\<lambda>t d. (True, d)), dv_load = (\<lambda>d. (Some None, d)), dv_clear = (\<lambda>d. (True, d))\<rparr>"

definition held :: "rstr \<Rightarrow> nat \<Rightarrow> nat desk" where
  "held token n = \<lparr>dk_access = Some [1], dk_refresh = Some token, dk_world = n\<rparr>"

definition devices_request :: desk_request where
  "devices_request = bare Get (lit ''/api/v1/devices'')"

lemma desk_quiet: "quiet desk_device"
  by (simp add: quiet_def desk_device_def same_tokens_def)

lemma api_path_safe:
  assumes "starts_with (lit ''/api/v1/'') p" "\<not> has_two_dots p" "list_all path_letter p"
  shows "\<exists>u. safe_url desk_urls local_base p = Inr u"
  using safe_pathI [OF assms]
  by (simp add: safe_url_def desk_urls_def local_base_def same_origin_def origin_def)

lemma desk_sends:
  assumes "starts_with (lit ''/api/v1/'') (dr_path r)" "\<not> has_two_dots (dr_path r)" "list_all path_letter (dr_path r)"
  shows "send_json desk_device dec r a d =
    (read_reply (dv_json desk_device) dec (Some (desk_answer r a)), d\<lparr>dk_world := Suc (dk_world d)\<rparr>)"
  using api_path_safe [OF assms] by (auto simp: send_json_def desk_device_def run_bnd)

lemmas sent_facts = starts_with_def path_letter_def bare_def carrying_def desk_answer_def answered_def

lemma devices_sent:
  "send_json desk_device any_value devices_request a (held t n) =
    (if a = Some [2] then Inr (JBool True) else Inl (Request_error 401 (lit ''unknown'') (lit ''request_failed'') False),
     held t (Suc n))"
  by (subst desk_sends)
    (simp_all add: devices_request_def sent_facts read_reply_def success_status_def MAX_RESPONSE_BYTES_def
      desk_device_def any_value_def parse_error_def json_get_def Wire_Json.fields_def is_server_error_def held_def)

lemma refresh_sent:
  "refresh_answer desk_device t (held u n) =
    (if t = [3] then Inr new_session
     else Inl (Request_error 401 (lit ''unknown'') (lit ''request_failed'') False), held u (Suc n))"
proof -
  have "session_response_of sample_wire Some (session_response_json sample_wire new_session) = Some new_session"
    by (rule session_response_back [OF sample_wire_ok]) (simp add: normal_picture_def new_session_def)
  moreover have "refresh_request_json t = refresh_request_json [3] \<longleftrightarrow> t = [3]"
    by (simp add: refresh_request_json_def obj_def)
  ultimately show ?thesis
    unfolding refresh_answer_def
    by (subst desk_sends)
      (simp_all add: request_of_def sent_facts read_reply_def success_status_def MAX_RESPONSE_BYTES_def
        desk_device_def session_answer_def parse_error_def json_get_def Wire_Json.fields_def is_server_error_def
        held_def)
qed


theorem expired_access_is_renewed_witness:
  "authorized_json desk_device any_value devices_request (held [3] 0) =
     (Inr (JBool True), \<lparr>dk_access = Some [2], dk_refresh = Some [4], dk_world = 3\<rparr>)"
proof -
  have session: "with_session new_session (held [3] 2) = \<lparr>dk_access = Some [2], dk_refresh = Some [4], dk_world = 2\<rparr>"
    by (simp add: with_session_def held_def new_session_def)
  have "authorized_json desk_device any_value devices_request (held [3] 0) =
      send_json desk_device any_value devices_request (Some (ssr_access_token new_session))
        (with_session new_session (held [3] 2))"
    by (rule expired_access_is_renewed [OF desk_quiet, where access = "[1]" and token = "[3]" and ?d1.0 = "held [3] 1"
          and ?d2.0 = "held [3] 2" and e = "Request_error 401 (lit ''unknown'') (lit ''request_failed'') False"])
      (simp_all add: devices_sent refresh_sent is_unauthorized_def, simp_all add: held_def desk_device_def)
  moreover have "send_json desk_device any_value devices_request (Some [2]) d =
      (Inr (JBool True), d\<lparr>dk_world := Suc (dk_world d)\<rparr>)" for d
    by (subst desk_sends)
      (simp_all add: devices_request_def sent_facts read_reply_def success_status_def MAX_RESPONSE_BYTES_def
        desk_device_def any_value_def)
  ultimately show ?thesis
    by (simp add: session) (simp add: new_session_def)
qed

theorem failed_renewal_witness:
  "snd (authorized_json desk_device any_value devices_request (held [5] 0)) =
     \<lparr>dk_access = None, dk_refresh = None, dk_world = 2\<rparr>"
proof -
  have "snd (authorized_json desk_device any_value devices_request (held [5] 0)) =
      snd (dv_clear desk_device ((held [5] 2)\<lparr>dk_access := None, dk_refresh := None\<rparr>))"
    by (rule failed_renewal(2) [OF desk_quiet, where access = "[1]" and token = "[5]" and ?d1.0 = "held [5] 1"
          and e = "Request_error 401 (lit ''unknown'') (lit ''request_failed'') False"
          and e' = "Request_error 401 (lit ''unknown'') (lit ''request_failed'') False"])
      (simp_all add: devices_sent refresh_sent is_unauthorized_def, simp_all add: held_def)
  then show ?thesis by (simp add: desk_device_def held_def)
qed

section \<open>With the server\<close>

definition sample_unmute :: desk_request where
  "sample_unmute = group_request sample_wire (Update_group_member_mute_call (ConversationId 3) (UserId 1) None)"


definition desk_lib :: http_lib where
  "desk_lib = \<lparr>hl_crypto = sample_crypto, hl_unicode = sample_unicode,
     hl_store_lib = \<lparr>sl_parse_url = (\<lambda>u. None), sl_url_text = (\<lambda>e p q. p), sl_amz_date = (\<lambda>t. []),
       sl_amz_day = (\<lambda>t. []), sl_hmac_sha256 = (\<lambda>k v. k)\<rparr>, hl_parse_url = (\<lambda>u. None)\<rparr>"

definition reset_request :: request where
  "reset_request = \<lparr>rq_ip = [49], rq_authorization = None, rq_admin_token = None, rq_at = (\<lambda>n. 1),
     rq_today = 0, rq_instant = 5, rq_elapsed = 7, rq_web = (\<lambda>n m u. None), rq_clamd = (\<lambda>b. None),
     rq_translate = (\<lambda>x l. None), rq_transcribe = (\<lambda>b n m. None), rq_database_up = True\<rparr>"

definition sample_email :: rstr where
  "sample_email = lit ''a@b.cd''"

lemma reset_unknown:
  "\<exists>sv'. request_password_reset sample_crypto sample_email 1 (sample_service default_store) = (Inr None, sv')"
proof -
  have email: "validate_email sample_email = Inr ()"
    unfolding sample_email_def by code_simp
  obtain tok s where drawn: "random_token (svc_txn (sample_service default_store)) = (Inr tok, s)"
    and none: "st_by_email s = []"
    by (simp add: random_token_def fill_bytes_def run_bnd sample_service_txn default_store_def store.defs txn.defs)
  let ?sv = "(sample_service default_store)\<lparr>svc_txn := s\<rparr>"
  let ?op = "request_password_reset_tx (to_ascii_lowercase (trim sample_email)) tok (hash_token sample_crypto tok)
    (1 + minutes 15) 1"
  have "?op (svc_txn ?sv) = (Inr None, s)"
    by (simp add: request_password_reset_tx_def none)
  from mutate_volatile [where sv = ?sv and operation = ?op, OF this] show ?thesis
    using drawn by (auto simp: request_password_reset_def checked_def email drawing_def run_bnd sample_service_txn)
qed

theorem accepted_reset_reads_as_failed_witness:
  "fst (request_password_reset_h desk_lib reset_request sample_email (app_new (sample_service default_store) (\<lambda>n. 0)))
     = Inr (202, ())
   \<and> read_reply (\<lambda>b. if b = [] then None else Some JNull) any_value (Some (reset_reply 202)) = Inl Invalid_response"
proof -
  obtain sv' where none: "request_password_reset sample_crypto sample_email 1 (sample_service default_store) = (Inr None, sv')"
    using reset_unknown by blast
  obtain a' where run: "request_password_reset_h desk_lib reset_request sample_email
      (app_new (sample_service default_store) (\<lambda>n. 0)) = (Inr (202, ()), a')"
    using none by (simp add: request_password_reset_h_def run_bnd rate_limit_def rate_check_def rate_key_def
        hm_get_def hm_retain_def refuse_if_def call_def attempt_def answer_def desk_lib_def reset_request_def
        app_new_def reply_def duration_since_def Let_def)
  show ?thesis
    using accepted_reset_reads_as_failed [OF run, of "\<lambda>b. if b = [] then None else Some JNull"] run by simp
qed

section \<open>Downloads\<close>

definition small_file :: attachment where
  "small_file = \<lparr>att_id = AttachmentId 1, att_kind = KFile, att_file_name = [97], att_mime_type = [98],
     att_byte_size = 3, att_sha256 = None, att_storage_key = [], att_thumbnail_key = None\<rparr>"

definition file_device :: "nat device" where
  "file_device = desk_device\<lparr>dv_json := \<lambda>b. Some (download_authorization_response_json sample_wire (small_file, [], 5))\<rparr>"

definition small_disk :: "nat disk" where
  "small_disk = \<lparr>dd_crypto = sample_crypto, dd_header_name = (\<lambda>n. True), dd_header_value = (\<lambda>v. True),
     dd_metadata = (\<lambda>p d. None), dd_read = (\<lambda>p d. None), dd_canonical = (\<lambda>p d. Some p),
     dd_exists = (\<lambda>p d. False), dd_temporary = (\<lambda>p d. True), dd_write = (\<lambda>n b. True), dd_sync = (\<lambda>b. True),
     dd_persist = (\<lambda>p b d. (True, d\<lparr>dk_world := dk_world d + length b\<rparr>)),
     dd_put = (\<lambda>u hs b d. (None, d)), dd_get = (\<lambda>u d. (Some (200, None, [Some [7, 8], Some [9], Some []]), d))\<rparr>"

definition chosen_path :: file_path where
  "chosen_path = \<lparr>fp_name = Some [102], fp_extension = None, fp_parent = Some [100], fp_text = []\<rparr>"

definition signed_desk :: "nat desk" where
  "signed_desk = \<lparr>dk_access = Some [2], dk_refresh = None, dk_world = 0\<rparr>"

lemma file_sent:
  assumes "starts_with (lit ''/api/v1/'') (dr_path r)" "\<not> has_two_dots (dr_path r)" "list_all path_letter (dr_path r)"
  shows "dec (download_authorization_response_json sample_wire (small_file, [], 5)) = Some x \<Longrightarrow>
    send_json file_device dec r (Some [2]) d = (Inr x, d\<lparr>dk_world := Suc (dk_world d)\<rparr>)"
  using api_path_safe [OF assms]
  by (auto simp: send_json_def file_device_def desk_device_def run_bnd desk_answer_def answered_def read_reply_def
      success_status_def MAX_RESPONSE_BYTES_def)


end
