(* ===== verification/Api_Docs.thy ===== *)
theory Api_Docs
  imports Http_Paths Http_Access "HOL-Library.Multiset"
begin

text \<open>
  The description of the API the server publishes (\<open>apps/server/src/openapi.rs\<close>), and how it fits the
  router and the access rules of \<open>api.rs\<close>.  Static texts are \<open>string\<close>s; a JSON object is the list of its
  fields, whose order has no meaning.
\<close>

datatype security = Public | Bearer | Admin | Web_socket_ticket

record operation =
  op_path :: string
  op_method :: string
  op_summary :: string
  op_security :: security

definition entry :: "string \<Rightarrow> string \<Rightarrow> string \<Rightarrow> security \<Rightarrow> operation" where
  "entry m p t s = \<lparr>op_path = p, op_method = m, op_summary = t, op_security = s\<rparr>"

section \<open>The operations\<close>

definition OPERATIONS :: "operation list" where
  "OPERATIONS =
    [entry ''get'' ''/openapi.json'' ''Read this OpenAPI document'' Public,
     entry ''post'' ''/auth/register'' ''Register an account'' Public,
     entry ''post'' ''/auth/login'' ''Create a session'' Public,
     entry ''post'' ''/auth/qr-login'' ''Start QR-code login'' Public,
     entry ''post'' ''/auth/qr-login/{challenge_id}/poll'' ''Poll QR-code login'' Public,
     entry ''post'' ''/auth/refresh'' ''Rotate a refresh token'' Public,
     entry ''post'' ''/auth/logout'' ''Revoke a refresh token'' Public,
     entry ''post'' ''/auth/password-reset/request'' ''Request a password reset'' Public,
     entry ''post'' ''/auth/password-reset/confirm'' ''Confirm a password reset'' Public,
     entry ''post'' ''/auth/change-password'' ''Change the current password'' Bearer,
     entry ''get'' ''/devices'' ''List signed-in devices'' Bearer,
     entry ''delete'' ''/devices/{device_id}'' ''Revoke a device'' Bearer,
     entry ''get'' ''/me'' ''Read the current profile'' Bearer,
     entry ''patch'' ''/me'' ''Update the current profile'' Bearer,
     entry ''delete'' ''/me'' ''Delete and anonymize the account'' Bearer,
     entry ''get'' ''/me/second-factor'' ''Read two-factor status'' Bearer,
     entry ''post'' ''/me/second-factor'' ''Begin two-factor setup'' Bearer,
     entry ''delete'' ''/me/second-factor'' ''Disable two-factor authentication'' Bearer,
     entry ''post'' ''/me/second-factor/enable'' ''Enable two-factor authentication'' Bearer,
     entry ''post'' ''/me/second-factor/recovery-codes'' ''Regenerate recovery codes'' Bearer,
     entry ''post'' ''/auth/qr-login/{challenge_id}/approve'' ''Approve QR-code login'' Bearer,
     entry ''get'' ''/me/privacy'' ''Read profile privacy'' Bearer,
     entry ''patch'' ''/me/privacy'' ''Update profile privacy'' Bearer,
     entry ''get'' ''/me/export'' ''Export personal account data'' Bearer,
     entry ''get'' ''/me/stickers'' ''List custom stickers'' Bearer,
     entry ''post'' ''/me/stickers'' ''Create a custom sticker'' Bearer,
     entry ''delete'' ''/me/stickers/{sticker_id}'' ''Delete a custom sticker'' Bearer,
     entry ''get'' ''/bootstrap'' ''Load initial client state'' Bearer,
     entry ''get'' ''/users/search'' ''Find a user by exact username'' Bearer,
     entry ''get'' ''/friends'' ''List friends'' Bearer,
     entry ''get'' ''/friends/settings'' ''List friend settings'' Bearer,
     entry ''patch'' ''/friends/{friend_id}'' ''Update friend settings'' Bearer,
     entry ''delete'' ''/friends/{friend_id}'' ''Delete a friend'' Bearer,
     entry ''post'' ''/blocks/{user_id}'' ''Block a user'' Bearer,
     entry ''delete'' ''/blocks/{user_id}'' ''Unblock a user'' Bearer,
     entry ''post'' ''/reports/{user_id}'' ''Report a user'' Bearer,
     entry ''get'' ''/friend-requests'' ''List friend requests'' Bearer,
     entry ''post'' ''/friend-requests'' ''Create a friend request'' Bearer,
     entry ''patch'' ''/friend-requests/{request_id}'' ''Decide a friend request'' Bearer,
     entry ''get'' ''/conversations'' ''List conversations'' Bearer,
     entry ''post'' ''/conversations/read-all'' ''Mark all conversations read'' Bearer,
     entry ''post'' ''/conversations/direct'' ''Create or find a direct conversation'' Bearer,
     entry ''post'' ''/conversations/group'' ''Create a group conversation'' Bearer,
     entry ''get'' ''/groups/{conversation_id}'' ''Read group settings'' Bearer,
     entry ''patch'' ''/groups/{conversation_id}'' ''Update a group'' Bearer,
     entry ''delete'' ''/groups/{conversation_id}'' ''Disband a group'' Bearer,
     entry ''post'' ''/groups/{conversation_id}/members'' ''Add group members'' Bearer,
     entry ''patch'' ''/groups/{conversation_id}/members/{member_id}'' ''Update a group member'' Bearer,
     entry ''delete'' ''/groups/{conversation_id}/members/{member_id}'' ''Remove a group member'' Bearer,
     entry ''post'' ''/groups/{conversation_id}/leave'' ''Leave a group'' Bearer,
     entry ''post'' ''/groups/{conversation_id}/transfer'' ''Transfer group ownership'' Bearer,
     entry ''post'' ''/groups/{conversation_id}/mute'' ''Set group-wide mute'' Bearer,
     entry ''get'' ''/groups/{conversation_id}/announcements'' ''List group announcements'' Bearer,
     entry ''post'' ''/groups/{conversation_id}/announcements'' ''Create a group announcement'' Bearer,
     entry ''post'' ''/group-announcements/{announcement_id}/read'' ''Mark an announcement read'' Bearer,
     entry ''get'' ''/groups/{conversation_id}/join-requests'' ''List group join requests'' Bearer,
     entry ''post'' ''/groups/{conversation_id}/join-requests'' ''Request to join a group'' Bearer,
     entry ''patch'' ''/group-join-requests/{request_id}'' ''Decide a group join request'' Bearer,
     entry ''get'' ''/groups/{conversation_id}/polls'' ''List group polls'' Bearer,
     entry ''post'' ''/groups/{conversation_id}/polls'' ''Create a group poll'' Bearer,
     entry ''get'' ''/groups/{conversation_id}/files'' ''List group files'' Bearer,
     entry ''post'' ''/polls/{poll_id}/vote'' ''Vote in a group poll'' Bearer,
     entry ''get'' ''/conversations/{conversation_id}/settings'' ''Read conversation settings'' Bearer,
     entry ''patch'' ''/conversations/{conversation_id}/settings'' ''Update conversation settings'' Bearer,
     entry ''get'' ''/conversations/{conversation_id}/messages'' ''Page through messages'' Bearer,
     entry ''post'' ''/conversations/{conversation_id}/messages'' ''Send an idempotent message'' Bearer,
     entry ''post'' ''/messages/forward'' ''Forward messages'' Bearer,
     entry ''get'' ''/messages/favorites'' ''List favorite messages'' Bearer,
     entry ''post'' ''/messages/{message_id}/translate'' ''Translate a text message'' Bearer,
     entry ''post'' ''/messages/{message_id}/transcribe'' ''Transcribe a voice message'' Bearer,
     entry ''get'' ''/messages/{message_id}'' ''Read message details and receipts'' Bearer,
     entry ''post'' ''/messages/{message_id}/delivery'' ''Acknowledge message delivery'' Bearer,
     entry ''post'' ''/messages/{message_id}/recall'' ''Recall a message'' Bearer,
     entry ''post'' ''/messages/{message_id}/reaction'' ''Set a message reaction'' Bearer,
     entry ''post'' ''/messages/{message_id}/favorite'' ''Set message favorite state'' Bearer,
     entry ''get'' ''/scheduled-messages'' ''List scheduled messages'' Bearer,
     entry ''post'' ''/scheduled-messages'' ''Schedule a message'' Bearer,
     entry ''delete'' ''/scheduled-messages/{schedule_id}'' ''Cancel a scheduled message'' Bearer,
     entry ''post'' ''/conversations/{conversation_id}/read'' ''Advance the read cursor'' Bearer,
     entry ''get'' ''/sync'' ''Pull events using a monotonic cursor'' Bearer,
     entry ''post'' ''/uploads/authorize'' ''Authorize an attachment upload'' Bearer,
     entry ''post'' ''/uploads/complete'' ''Complete and verify an attachment upload'' Bearer,
     entry ''get'' ''/attachments/{attachment_id}/download'' ''Authorize an attachment download'' Bearer,
     entry ''post'' ''/ws-ticket'' ''Create a short-lived WebSocket ticket'' Bearer,
     entry ''get'' ''/ws'' ''Upgrade to the realtime WebSocket protocol'' Web_socket_ticket,
     entry ''post'' ''/admin/users/{user_id}/suspension'' ''Suspend or restore a user'' Admin,
     entry ''post'' ''/admin/users/{user_id}/sessions/revoke'' ''Revoke every user session'' Admin,
     entry ''get'' ''/admin/audit'' ''Read the administration audit trail'' Admin]"

section \<open>The document\<close>

definition text_json :: "string \<Rightarrow> json" where
  "text_json t = JStr (lit t)"

definition reference :: "string \<Rightarrow> json" where
  "reference r = obj [(''$ref'', text_json r)]"

text \<open>\<open>path.split('/')\<close>, and the name of a parameter segment.\<close>

fun split_slash :: "string \<Rightarrow> string list" where
  "split_slash [] = [[]]"
| "split_slash (c # s) =
     (if c = CHR ''/'' then [] # split_slash s
      else (case split_slash s of [] \<Rightarrow> [[c]] | l # ls \<Rightarrow> (c # l) # ls))"

definition parameter_name :: "string \<Rightarrow> string option" where
  "parameter_name s = (case s of
     c # r \<Rightarrow> if c = CHR ''{'' \<and> r \<noteq> [] \<and> last r = CHR ''}'' then Some (butlast r) else None
   | [] \<Rightarrow> None)"

definition query_parameter :: "string \<Rightarrow> string \<Rightarrow> bool \<Rightarrow> json" where
  "query_parameter n kind required = obj
     [(''name'', text_json n), (''in'', text_json ''query''), (''required'', JBool required),
      (''schema'', obj [(''type'', text_json kind)])]"

definition path_parameter :: "string \<Rightarrow> json" where
  "path_parameter n = obj
     [(''name'', text_json n), (''in'', text_json ''path''), (''required'', JBool True),
      (''schema'', obj [(''type'', text_json ''string''), (''format'', text_json ''uuid'')])]"

definition parameters :: "string \<Rightarrow> json list" where
  "parameters path =
     map path_parameter (List.map_filter parameter_name (split_slash path))
     @ (if path = ''/users/search'' then [query_parameter ''username'' ''string'' True]
        else if path = ''/sync''
        then [query_parameter ''after'' ''integer'' True, query_parameter ''limit'' ''integer'' False]
        else if path = ''/conversations/{conversation_id}/messages''
        then [query_parameter ''before'' ''integer'' False, query_parameter ''limit'' ''integer'' False]
        else if path = ''/ws'' then [query_parameter ''ticket'' ''string'' True]
        else if path = ''/admin/audit'' then [query_parameter ''limit'' ''integer'' False]
        else [])"

definition trim_slashes :: "string \<Rightarrow> string" where
  "trim_slashes s = rev (dropWhile (\<lambda>c. c = CHR ''/'') (rev (dropWhile (\<lambda>c. c = CHR ''/'') s)))"

definition id_char :: "char \<Rightarrow> char" where
  "id_char c = (let n = of_char c :: nat in
     if is_ascii_lower n \<or> is_ascii_upper n \<or> is_ascii_digit n then c else CHR ''_'')"

definition operation_id :: "operation \<Rightarrow> string" where
  "operation_id x = map id_char (op_method x @ ''_'' @ trim_slashes (op_path x))"

definition begins_with :: "string \<Rightarrow> string \<Rightarrow> bool" where
  "begins_with pre s \<longleftrightarrow> take (length pre) s = pre"

definition tag :: "string \<Rightarrow> string" where
  "tag path =
     (if begins_with ''/auth'' path then ''auth''
      else if begins_with ''/me'' path \<or> begins_with ''/devices'' path then ''account''
      else if begins_with ''/friends'' path \<or> begins_with ''/blocks'' path \<or> begins_with ''/reports'' path
        \<or> begins_with ''/users'' path then ''social''
      else if begins_with ''/groups'' path \<or> begins_with ''/group-'' path \<or> begins_with ''/polls'' path then ''groups''
      else if begins_with ''/messages'' path \<or> begins_with ''/scheduled-messages'' path then ''messages''
      else if begins_with ''/uploads'' path \<or> begins_with ''/attachments'' path then ''media''
      else if begins_with ''/ws'' path \<or> path = ''/sync'' then ''realtime''
      else if begins_with ''/admin'' path then ''admin''
      else ''conversations'')"

definition security_json :: "security \<Rightarrow> (string \<times> json) list" where
  "security_json s =
     (let needs = (\<lambda>scheme. [(''security'', JArr [obj [(scheme, JArr [])]])])
      in case s of Public \<Rightarrow> [] | Bearer \<Rightarrow> needs ''bearerAuth'' | Admin \<Rightarrow> needs ''adminToken''
         | Web_socket_ticket \<Rightarrow> needs ''websocketTicket'')"

definition success_code :: "operation \<Rightarrow> string" where
  "success_code x = (if op_path x = ''/ws'' then ''101'' else ''200'')"

definition operation_document :: "operation \<Rightarrow> json" where
  "operation_document x = obj
     ([(''operationId'', text_json (operation_id x)),
       (''summary'', text_json (op_summary x)),
       (''tags'', JArr [text_json (tag (op_path x))]),
       (''parameters'', JArr (parameters (op_path x))),
       (''responses'', obj
          [(success_code x, obj [(''description'', text_json ''Success'')]),
           (''400'', reference ''#/components/responses/BadRequest''),
           (''401'', reference ''#/components/responses/Unauthorized''),
           (''403'', reference ''#/components/responses/Forbidden''),
           (''404'', reference ''#/components/responses/NotFound''),
           (''409'', reference ''#/components/responses/Conflict''),
           (''429'', reference ''#/components/responses/RateLimited''),
           (''500'', reference ''#/components/responses/InternalError'')])]
      @ security_json (op_security x)
      @ (if op_method x \<in> {''post'', ''patch'', ''delete''} then
           [(''requestBody'', obj [(''required'', JBool False),
              (''content'', obj [(''application/json'', obj [(''schema'', obj
                 [(''type'', text_json ''object''), (''additionalProperties'', JBool True)])])])])] else []))"

text \<open>The map of paths: each operation is entered under its path and its method.\<close>

type_synonym path_map = "(string \<times> (string \<times> json) list) list"

fun enter_operation :: "string \<Rightarrow> string \<Rightarrow> json \<Rightarrow> path_map \<Rightarrow> path_map" where
  "enter_operation p m d [] = [(p, [(m, d)])]"
| "enter_operation p m d ((q, ms) # rest) =
     (if q = p then (q, AList.update m d ms) # rest else (q, ms) # enter_operation p m d rest)"

definition path_entries :: "operation list \<Rightarrow> path_map" where
  "path_entries xs = fold (\<lambda>x. enter_operation (op_path x) (op_method x) (operation_document x)) xs []"

definition error_response :: "string \<Rightarrow> json" where
  "error_response description = obj
     [(''description'', text_json description),
      (''content'', obj [(''application/json'', obj
         [(''schema'', reference ''#/components/schemas/ErrorResponse'')])])]"

definition security_schemes :: json where
  "security_schemes = obj
     [(''bearerAuth'', obj [(''type'', text_json ''http''), (''scheme'', text_json ''bearer'')]),
      (''adminToken'', obj [(''type'', text_json ''apiKey''), (''in'', text_json ''header''),
         (''name'', text_json ''x-admin-token'')]),
      (''websocketTicket'', obj [(''type'', text_json ''apiKey''), (''in'', text_json ''query''),
         (''name'', text_json ''ticket'')])]"

definition error_schema :: json where
  "error_schema = obj
     [(''type'', text_json ''object''), (''additionalProperties'', JBool False),
      (''required'', JArr (map text_json [''code'', ''message_key'', ''correlation_id'', ''retryable''])),
      (''properties'', obj
         [(''code'', obj [(''type'', text_json ''string''), (''example'', text_json ''validation'')]),
          (''message_key'', obj [(''type'', text_json ''string''), (''example'', text_json ''error.validation'')]),
          (''field'', obj [(''type'', JArr [text_json ''string'', text_json ''null''])]),
          (''correlation_id'', obj [(''type'', text_json ''string''), (''format'', text_json ''uuid'')]),
          (''retryable'', obj [(''type'', text_json ''boolean'')])])]"

definition example_of :: "(string \<times> json) list \<Rightarrow> json" where
  "example_of kvs = obj [(''example'', obj kvs)]"

definition client_frame_schema :: json where
  "client_frame_schema = obj [(''oneOf'', JArr
     [example_of [(''type'', text_json ''hello''), (''protocol_version'', JNum 1), (''client_version'', text_json ''0.1.0''),
        (''access_token'', text_json []), (''last_cursor'', JNum 42)],
      example_of [(''type'', text_json ''ping''), (''nonce'', text_json ''018f0000-0000-7000-8000-000000000001'')],
      example_of [(''type'', text_json ''typing''),
        (''conversation_id'', text_json ''018f0000-0000-7000-8000-000000000002''), (''active'', JBool True)]])]"

definition server_frame_schema :: json where
  "server_frame_schema = obj [(''oneOf'', JArr
     [example_of [(''type'', text_json ''welcome''), (''protocol_version'', JNum 1), (''latest_cursor'', JNum 42)],
      example_of [(''type'', text_json ''event''), (''event'', obj
        [(''id'', text_json ''018f0000-0000-7000-8000-000000000003''), (''cursor'', JNum 43),
         (''kind'', text_json ''message_created''), (''payload'', obj []),
         (''created_at'', text_json ''2026-01-01T00:00:00Z'')])],
      example_of [(''type'', text_json ''close''), (''code'', JNum 4002), (''reason'', text_json ''protocol mismatch'')]])]"

definition components :: json where
  "components = obj
     [(''securitySchemes'', security_schemes),
      (''responses'', obj
         [(''BadRequest'', error_response ''Malformed or invalid request''),
          (''Unauthorized'', error_response ''Authentication failed''),
          (''Forbidden'', error_response ''The authenticated user lacks access''),
          (''NotFound'', error_response ''Resource not found''),
          (''Conflict'', error_response ''Resource state conflict''),
          (''RateLimited'', error_response ''Rate limit exceeded''),
          (''InternalError'', error_response ''Unexpected server failure'')]),
      (''schemas'', obj
         [(''ErrorResponse'', error_schema), (''WebSocketClientFrame'', client_frame_schema),
          (''WebSocketServerFrame'', server_frame_schema)])]"

definition document :: "rstr \<Rightarrow> json" where
  "document version = obj
     [(''openapi'', text_json ''3.1.0''),
      (''info'', obj
         [(''title'', text_json ''I Am Rust API''), (''version'', JStr version),
          (''description'', text_json ''Versioned REST and WebSocket contract for the I Am Rust desktop IM client.'')]),
      (''servers'', JArr [obj [(''url'', text_json ''/api/v1'')]]),
      (''tags'', JArr (map (\<lambda>t. obj [(''name'', text_json t)])
         [''auth'', ''account'', ''social'', ''conversations'', ''groups'', ''messages'', ''media'', ''realtime'', ''admin''])),
      (''paths'', obj (map (\<lambda>(p, ms). (p, obj ms)) (path_entries OPERATIONS))),
      (''components'', components)]"

section \<open>The description and the router\<close>

definition doc_method :: "string \<Rightarrow> http_method option" where
  "doc_method m = (if m = ''get'' then Some Get else if m = ''post'' then Some Post
     else if m = ''patch'' then Some Patch else if m = ''delete'' then Some Delete else None)"

definition doc_segments :: "string \<Rightarrow> segment list" where
  "doc_segments p = map (\<lambda>s. case parameter_name s of Some n \<Rightarrow> Param | None \<Rightarrow> Word s) (split_slash (tl p))"

definition doc_line :: "operation \<Rightarrow> (http_method option \<times> segment list)" where
  "doc_line x = (doc_method (op_method x), doc_segments (op_path x))"

lemmas doc_eval = OPERATIONS_def entry_def doc_line_def doc_method_def doc_segments_def parameter_name_def

text \<open>In the order of the router, where the settings of a conversation come before the groups.\<close>

definition routed_order :: "operation list" where
  "routed_order = take 43 OPERATIONS @ take 2 (drop 62 OPERATIONS) @ take 19 (drop 43 OPERATIONS) @ drop 64 OPERATIONS"

lemma swapped_mset:
  "mset (take a xs @ take c (drop (a + b) xs) @ take b (drop a xs) @ drop (a + b + c) xs) = mset xs"
proof -
  have "take a xs @ take b (drop a xs) @ take c (drop (a + b) xs) @ drop (a + b + c) xs = xs"
    by (metis append_take_drop_id drop_drop add.commute)
  then have "mset (take a xs) + (mset (take b (drop a xs)) + (mset (take c (drop (a + b) xs)) + mset (drop (a + b + c) xs))) = mset xs"
    by (metis mset_append)
  then show ?thesis by (simp add: ac_simps)
qed

lemma routed_order_mset: "mset routed_order = mset OPERATIONS"
  using swapped_mset [of 43 OPERATIONS 2 19] unfolding routed_order_def by simp

lemma documented_lines:
  "map (\<lambda>(m, p). (Some m, p)) (api_lines (route_table W order)) = map doc_line routed_order"
  unfolding api_lines_def request_lines_def route_table_def account_paths_def social_paths_def
    group_paths_def message_paths_def system_paths_def list.map append_Cons append_Nil prod.case
  by code_simp

section \<open>The description and the access rules\<close>

fun security_of :: "route \<Rightarrow> security" where
  "security_of (System (Websocket_upgrade t)) = Web_socket_ticket"
| "security_of r = (case route_access r of Open_to_all \<Rightarrow> Public | Signed_in \<Rightarrow> Bearer | Administration \<Rightarrow> Admin)"

text \<open>What every route has that an extractor can produce.\<close>

definition yields :: "(route \<Rightarrow> bool) \<Rightarrow> extractor \<Rightarrow> bool" where
  "yields P x \<longleftrightarrow> (\<forall>as q b r. x as q b = Some r \<longrightarrow> P r)"

lemma yieldsD: "yields P x \<Longrightarrow> x as q b = Some r \<Longrightarrow> P r"
  by (simp add: yields_def)

lemma yields_intros:
  "P r \<Longrightarrow> yields P (plain r)"
  "(\<And>x. P (f x)) \<Longrightarrow> yields P (with_body d f)"
  "(\<And>i. P (g i)) \<Longrightarrow> yields P (with_id W g)"
  "(\<And>i x. P (h i x)) \<Longrightarrow> yields P (with_id_body W d h)"
  "(\<And>i k. P (g2 i k)) \<Longrightarrow> yields P (with_ids W g2)"
  "(\<And>i k x. P (h2 i k x)) \<Longrightarrow> yields P (with_ids_body W d h2)"
  "(\<And>x. P (f' x)) \<Longrightarrow> yields P (with_query k' d' f')"
  "(\<And>x. P (f2 x)) \<Longrightarrow> yields P (with_optional_query k' d' f2)"
  "(\<And>x y. P (f3 x y)) \<Longrightarrow> yields P (with_queries k' d' k'' d'' f3)"
  "(\<And>i x y. P (f4 i x y)) \<Longrightarrow> yields P (with_id_query W k' d' k'' d'' f4)"
  by (auto simp: yields_def extractor_defs bind_eq_Some_conv split: list.splits)

definition fits :: "endpoint_entry \<Rightarrow> operation \<Rightarrow> bool" where
  "fits e x \<longleftrightarrow> yields (\<lambda>r. security_of r = op_security x) (snd (snd e))"

lemma documented_security: "list_all2 fits (drop 4 (route_table W order)) routed_order"
  unfolding route_table_def account_paths_def social_paths_def group_paths_def message_paths_def system_paths_def
    routed_order_def OPERATIONS_def
  by (simp add: fits_def entry_def yields_intros split: prod.split)

text \<open>An operation describes an entry of the router: it names the method and the path, and the protection it
  states is the one of every request the entry reads.\<close>

definition describes :: "operation \<Rightarrow> endpoint_entry \<Rightarrow> bool" where
  "describes x e \<longleftrightarrow> doc_line x = (Some (fst e), drop 3 (fst (snd e))) \<and> fits e x"

lemma fits_route: "fits (m, p, f) x \<Longrightarrow> f as q b = Some r \<Longrightarrow> security_of r = op_security x"
  by (auto simp: fits_def dest: yieldsD)


end
