(* ===== verification/Spec2Isabelle.thy ===== *)
theory Spec2Isabelle
  imports Client_Witnesses Live_Witnesses Http_Witnesses Desk_Witnesses Api_Docs
begin

text \<open>
  A verification development for the chat program \<^verbatim>\<open>iamrust\<close>.

  \<^bold>\<open>The program.\<close>  A server keeps accounts, sessions, friendships, conversations, messages and attachments
  in one in-memory store and writes it to a database as a whole (\<open>crates/application/src/service.rs\<close> over
  the rules of \<open>crates/domain\<close>); every write appends events to a log and broadcasts them.  An HTTP edge
  (\<open>apps/server/src/api.rs\<close>) and a WebSocket loop (\<open>websocket.rs\<close>) serve clients; files go to an S3 store
  (\<open>object_store.rs\<close>) and may be scanned (\<open>malware.rs\<close>).  The desktop client (\<open>apps/desktop\<close>) talks to both,
  follows the event log from a durable cursor, and keeps an encrypted cache with an outbox in SQLite
  (\<open>crates/client-core\<close>).

  \<^bold>\<open>Theories and sources.\<close>
  \<^item> \<open>Prelude\<close>, \<open>Rust_Maps\<close>, \<open>Rust_Text\<close>, \<open>Utf8\<close>: effects with errors (\<open>eff\<close>, \<open>bnd\<close>), hash and tree maps,
    strings and UTF-8, and the rule collections the proofs use.
  \<^item> \<open>Domain_Users\<close>, \<open>Domain_Chat\<close>, \<open>Protocol\<close>: \<open>crates/domain\<close> and the records of \<open>crates/protocol\<close>.
  \<^item> \<open>Store\<close>, \<open>Transactions\<close>, \<open>Service_Core\<close>: the store, \<open>mutate\<close> and the shared helpers of \<open>service.rs\<close>;
    \<open>Abandoned_Writes\<close>: \<open>mutate\<close> given up while it waits for the database.
  \<^item> \<open>Sessions\<close>, \<open>Second_Factor\<close>, \<open>Qr_Login\<close>, \<open>Profiles\<close>, \<open>Friends\<close>, \<open>Group_Admin\<close>, \<open>Group_Boards\<close>, \<open>Messaging\<close>,
    \<open>Schedule\<close>, \<open>Attachments\<close>, \<open>Realtime\<close>, \<open>Sync_Log\<close>: the public methods of \<open>ChatService\<close>, each under its
    Rust name; the closure handed to \<open>mutate\<close> ends in \<open>_tx\<close>.
  \<^item> \<open>Panic_Free\<close>, \<open>Group_Rules\<close>, \<open>Service_Steps\<close>, \<open>Delivery\<close>, \<open>Forwarding\<close>: the service as a transition system
    (\<open>service_step\<close>, \<open>service_run\<close>, \<open>reachable\<close>), its invariants and what follows over whole runs.
  \<^item> \<open>Local_Codec\<close>, \<open>Local_Store\<close>, \<open>Local_Outbox\<close>, \<open>Local_Vault\<close>: \<open>crates/client-core/src/lib.rs\<close>;
    \<open>Local_Invariant\<close>, \<open>Local_Steps\<close>, \<open>Local_Sealing\<close>, \<open>Local_Cache\<close>, \<open>Local_Sync\<close>: its invariant and promises.
    \<open>Outbox_Delivery\<close>: the flush of the outbox (\<open>ui.rs\<close>) against the server.
  \<^item> \<open>Live_Frames\<close>, \<open>Live_Server\<close>, \<open>Live_Client\<close>, \<open>Live_Delivery\<close>: the two ends of a live connection
    (\<open>websocket.rs\<close>, \<open>apps/desktop/src/realtime.rs\<close>) and the two together.
  \<^item> \<open>Object_Store\<close>: \<open>object_store.rs\<close> and \<open>malware.rs\<close>.
  \<^item> \<open>Http_Base\<close>, \<open>Http_Account\<close>, \<open>Http_Social\<close>, \<open>Http_Chat\<close>, \<open>Http_Routes\<close>: \<open>error.rs\<close> and \<open>api.rs\<close>, handler by
    handler (the handler \<open>f\<close> is \<open>f_h\<close>); \<open>Http_Access\<close>, \<open>Http_Tickets\<close>, \<open>Http_Uploads\<close>, \<open>Http_Limits\<close>: what holds of them.
  \<^item> \<open>Wire_Json\<close>, \<open>Wire_Requests\<close>, \<open>Wire_Responses\<close>: how \<open>crates/protocol\<close> writes its types as JSON and reads them back
    (\<open>t_json\<close> and \<open>t_of\<close> for each type \<open>t\<close>).  \<open>Http_Paths\<close>: the table of methods and paths of \<open>router\<close> with the
    extractors of each handler, and that no two entries of it compete for a request.
  \<^item> \<open>Desk_Requests\<close>, \<open>Desk_Url\<close>, \<open>Desk_Session\<close>, \<open>Desk_Files\<close>, \<open>Desk_Threads\<close>: \<open>apps/desktop/src/api.rs\<close>.  The method
    \<open>f\<close> is \<open>desk_f\<close> where it does more than send one request (\<open>call_request\<close>, \<open>authorized_call\<close>).
    \<open>Desk_Threads\<close> takes \<open>authorized_json\<close>, \<open>authenticate\<close> and \<open>logout\<close> apart into the steps between which other
    threads run.  \<open>Desk_Routing\<close>, \<open>Desk_Renewal\<close>, \<open>Desk_Server\<close>: what holds of the client and the server together.
  \<^item> \<open>Api_Docs\<close>: \<open>apps/server/src/openapi.rs\<close>.
  \<^item> \<open>Witnesses\<close>, \<open>Chat_Witnesses\<close>, \<open>Client_Witnesses\<close>, \<open>Live_Witnesses\<close>, \<open>Http_Witnesses\<close>,
    \<open>Desk_Witnesses\<close>: each property applied at a concrete input.

  \<^bold>\<open>What the lemmas show.\<close>  Each theory of a component has the behaviour of its operations branch by branch and
  that they keep the store well formed (\<open>Panic_Free\<close>, \<open>Group_Rules\<close>, \<open>Local_Invariant\<close>); \<open>Service_Steps\<close> and
  \<open>Local_Steps\<close> lift this by rule induction to all reachable states: no panic, numbered events and messages, a
  store that survives a restart, refresh tokens that are used once, one owner per group, a cache that is sealed
  and readable.  \<open>Live_Delivery\<close> joins the two ends of a live connection, \<open>Outbox_Delivery\<close> the outbox and the
  server, \<open>Desk_Routing\<close> the requests of the client and the routes of the server: each \<open>t_of\<close> is a left inverse of
  \<open>t_json\<close> (up to options inside options, which JSON cannot tell apart), so every call arrives as it was meant.
  \<open>Http_Access\<close> and \<open>Api_Docs\<close> state who may use a route, for the code and for its description.

  \<^bold>\<open>Bounds and fuel.\<close>  Sequence numbers, cursors, sizes and ports are words and wrap as the code does, or the
  overflow is an explicit panic; lengths are natural numbers; times are integers.  Recursion is structural
  nearly everywhere.  The catch-up loop asks a server that may always have more, so it is a partial function whose
  value is \<open>None\<close> when it never returns; the property about it shows that it does return.  \<open>content_dec\<close>, which
  reads messages inside forwarded messages, takes the size of the JSON value as fuel, and each level consumes one.
  The steps of \<open>Desk_Threads\<close> and the runs of the service, the client store and
  the live connection are arbitrary finite lists.

  \<^bold>\<open>Parameters and what is assumed of them.\<close>  Unicode tables, hashes, HMAC, Argon2 and AES-GCM (\<open>crypto\<close>), the
  platform of the client store, the spelling of identifiers, times and percent-encoding (\<open>wire\<close> with \<open>wire_ok\<close>),
  URL parsing (\<open>url_lib\<close>), the calendar and formats of the signature, the answers of database, object store,
  scanner, translator, network, credential store and file system, the clock and fresh identifiers.  A property that
  needs a law of one of these has it as a hypothesis, and a witness in which a concrete function satisfies it.

  \<^bold>\<open>Not modelled.\<close>  The desktop interface (\<open>ui.rs\<close> but for the outbox, \<open>shell.rs\<close>, \<open>main.rs\<close>, \<open>desktop.rs\<close>, \<open>model.rs\<close>):
  callbacks and formatting between the widgets and the parts above.  Start-up, configuration, mail, translation and
  transcription (\<open>main.rs\<close>, \<open>config.rs\<close>, \<open>mailer.rs\<close>, \<open>translation.rs\<close>): input and output.  The layers of \<open>tower\<close>
  other than the counting one, test support and fuzz targets.
\<close>

end
